(* ===== verification/Prelude.thy ===== *)
theory Prelude imports Main begin

text \<open>
  The shared base of the development: the collections of facts the component theories feed
  (\<open>js_simps\<close>: evaluation rules of the JavaScript library model, \<open>budget_simps\<close>: the
  import budget, \<open>inv_intros\<close>: preservation rules of component invariants), the result type of
  code that may throw, and generic lemmas on lists, options and association lists that more than
  one component uses.
\<close>

named_theorems js_simps \<open>evaluation rules of the JavaScript library model\<close>
named_theorems budget_simps \<open>facts about the resource budget of the importer\<close>
named_theorems inv_intros \<open>operations preserve the invariants of their components\<close>

section \<open>Results of code that may throw\<close>

text \<open>A call that throws is \<open>Inl\<close> of the error, a call that returns is \<open>Inr\<close> of the value.\<close>

type_synonym ('e, 'a) result = "'e + 'a"

definition try_bind :: "('e, 'a) result \<Rightarrow> ('a \<Rightarrow> ('e, 'b) result) \<Rightarrow> ('e, 'b) result" where
  "try_bind r f = (case r of Inl e \<Rightarrow> Inl e | Inr x \<Rightarrow> f x)"

lemma try_bind_simps [simp]:
  "try_bind (Inl e) f = Inl e"
  "try_bind (Inr x) f = f x"
  by (simp_all add: try_bind_def)

lemma try_bind_Inr_iff: "try_bind r f = Inr y \<longleftrightarrow> (\<exists>x. r = Inr x \<and> f x = Inr y)"
  by (cases r) auto

lemma try_bind_Inl_iff: "try_bind r f = Inl e \<longleftrightarrow> r = Inl e \<or> (\<exists>x. r = Inr x \<and> f x = Inl e)"
  by (cases r) auto

lemma try_bind_cong [fundef_cong]:
  "r = r' \<Longrightarrow> (\<And>x. r' = Inr x \<Longrightarrow> f x = g x) \<Longrightarrow> try_bind r f = try_bind r' g"
  by (cases r') auto

text \<open>A loop over a list whose body may throw and threads a state, as \<^verbatim>\<open>for (const x of xs) { ... }\<close>.\<close>

fun try_fold :: "('a \<Rightarrow> 's \<Rightarrow> ('e, 's) result) \<Rightarrow> 'a list \<Rightarrow> 's \<Rightarrow> ('e, 's) result" where
  "try_fold f [] s = Inr s"
| "try_fold f (x # xs) s = try_bind (f x s) (try_fold f xs)"

lemma try_fold_append:
  "try_fold f (xs @ ys) s = try_bind (try_fold f xs s) (try_fold f ys)"
proof (induction xs arbitrary: s)
  case (Cons x xs)
  then show ?case by (cases "f x s") auto
qed simp

lemma try_fold_cong [fundef_cong]:
  "xs = ys \<Longrightarrow> s = t \<Longrightarrow> (\<And>x u. x \<in> set ys \<Longrightarrow> f x u = g x u) \<Longrightarrow> try_fold f xs s = try_fold g ys t"
proof (induction ys arbitrary: xs s t)
  case (Cons y ys)
  then show ?case by (auto intro!: try_bind_cong)
qed simp

lemma try_fold_invariant:
  assumes "try_fold f xs s = Inr t" and "P s"
    and "\<And>x u v. x \<in> set xs \<Longrightarrow> P u \<Longrightarrow> f x u = Inr v \<Longrightarrow> P v"
  shows "P t"
  using assms
proof (induction xs arbitrary: s)
  case (Cons x xs)
  then obtain u where "f x s = Inr u" and "try_fold f xs u = Inr t"
    by (auto simp: try_bind_Inr_iff)
  moreover from this Cons.prems have "P u" by auto
  ultimately show ?case using Cons by auto
qed simp

section \<open>Lists and association lists\<close>

lemma takeWhile_dropWhile_length: "length (dropWhile p xs) \<le> length xs"
  by (rule length_dropWhile_le)

lemma dropWhile_idem: "dropWhile p (dropWhile p xs) = dropWhile p xs"
  by (induction xs) auto

lemma dropWhile_hd: "dropWhile p xs = y # ys \<Longrightarrow> \<not> p y"
  by (metis hd_dropWhile list.distinct(1) list.sel(1))

lemma filter_distinct_keys: "distinct (map fst xs) \<Longrightarrow> distinct (map fst (filter p xs))"
  by (induction xs) auto

lemma map_of_filter_key:
  "map_of (filter (\<lambda>(k, v). P k) xs) k = (if P k then map_of xs k else None)"
  by (induction xs) auto

text \<open>\<^verbatim>\<open>[...new Set(xs)]\<close>: the first occurrences, in order.\<close>

definition uniq :: "'a list \<Rightarrow> 'a list" where
  "uniq xs = foldl (\<lambda>acc x. if x \<in> set acc then acc else acc @ [x]) [] xs"

lemma uniq_foldl_set:
  "set (foldl (\<lambda>acc x. if x \<in> set acc then acc else acc @ [x]) ys xs) = set ys \<union> set xs"
  by (induction xs arbitrary: ys) auto

lemma uniq_foldl_distinct:
  "distinct ys \<Longrightarrow> distinct (foldl (\<lambda>acc x. if x \<in> set acc then acc else acc @ [x]) ys xs)"
  by (induction xs arbitrary: ys) auto

lemma set_uniq [simp]: "set (uniq xs) = set xs"
  by (simp add: uniq_def uniq_foldl_set)

lemma distinct_uniq [simp]: "distinct (uniq xs)"
  by (simp add: uniq_def uniq_foldl_distinct)

lemma uniq_distinct: "distinct xs \<Longrightarrow> uniq xs = xs"
proof -
  have "distinct (ys @ xs) \<Longrightarrow> foldl (\<lambda>acc x. if x \<in> set acc then acc else acc @ [x]) ys xs = ys @ xs" for ys
    by (induction xs arbitrary: ys) auto
  from this [of "[]"] show "distinct xs \<Longrightarrow> uniq xs = xs" by (simp add: uniq_def)
qed

text \<open>\<^verbatim>\<open>xs.find(p)\<close>.\<close>

text \<open>The position of the first element with a property.\<close>

fun findIndex :: "('a \<Rightarrow> bool) \<Rightarrow> 'a list \<Rightarrow> nat option" where
  "findIndex p [] = None"
| "findIndex p (x # xs) = (if p x then Some 0 else map_option Suc (findIndex p xs))"

lemma find_Some_set: "find p xs = Some x \<Longrightarrow> x \<in> set xs \<and> p x"
  by (auto simp: find_Some_iff)

end
