(* ===== verification/JsString.thy ===== *)
theory JsString imports Prelude "HOL-Library.Sublist" begin

text \<open>
  The string operations of JavaScript the program uses. A JavaScript string is a sequence of
  UTF-16 code units; the model's strings are the sequences whose code units are below 256, one
  \<open>char\<close> each (texts with other code units are outside the model). Case mapping and white
  space are those of ECMAScript on this range. The two code units whose upper case lies outside
  of it (\<^verbatim>\<open>U+00B5\<close>, \<^verbatim>\<open>U+00FF\<close>) are kept as they are.
\<close>

section \<open>Characters\<close>

definition code :: "char \<Rightarrow> nat" where
  "code c = of_char c"

definition js_ws :: "char \<Rightarrow> bool" where
  "js_ws c = (code c \<in> {9, 10, 11, 12, 13, 32, 160})"

definition is_digit :: "char \<Rightarrow> bool" where
  "is_digit c = (48 \<le> code c \<and> code c \<le> 57)"

definition digit_val :: "char \<Rightarrow> nat" where
  "digit_val c = code c - 48"

definition digit_char :: "nat \<Rightarrow> char" where
  "digit_char d = char_of (48 + d)"

definition is_upper_az :: "char \<Rightarrow> bool" where
  "is_upper_az c = (65 \<le> code c \<and> code c \<le> 90)"

definition is_lower_az :: "char \<Rightarrow> bool" where
  "is_lower_az c = (97 \<le> code c \<and> code c \<le> 122)"

definition is_alpha :: "char \<Rightarrow> bool" where
  "is_alpha c = (is_upper_az c \<or> is_lower_az c)"

text \<open>The class \<^verbatim>\<open>\w\<close>.\<close>

definition is_word :: "char \<Rightarrow> bool" where
  "is_word c = (is_alpha c \<or> is_digit c \<or> c = CHR ''_'')"

definition lower_char :: "char \<Rightarrow> char" where
  "lower_char c =
     (if is_upper_az c \<or> (192 \<le> code c \<and> code c \<le> 222 \<and> code c \<noteq> 215)
      then char_of (code c + 32) else c)"

definition upper_char :: "char \<Rightarrow> string" where
  "upper_char c =
     (if is_lower_az c \<or> (224 \<le> code c \<and> code c \<le> 254 \<and> code c \<noteq> 247)
      then [char_of (code c - 32)]
      else if code c = 223 then ''SS'' else [c])"

lemma code_less_256 [simp]: "code c < 256"
  by (simp add: code_def)

lemma code_inject [simp]: "code c = code d \<longleftrightarrow> c = d"
  by (simp add: code_def)

lemma code_char_of [simp]: "n < 256 \<Longrightarrow> code (char_of n) = n"
  by (simp add: code_def)

lemma char_of_code [simp]: "char_of (code c) = c"
  by (simp add: code_def)

lemma lower_char_idem [simp]: "lower_char (lower_char c) = lower_char c"
  by (auto simp: lower_char_def is_upper_az_def)

lemma js_ws_lower [simp]: "js_ws (lower_char c) = js_ws c"
  by (auto simp: lower_char_def js_ws_def is_upper_az_def)

lemma digit_val_char [simp]: "d < 10 \<Longrightarrow> digit_val (digit_char d) = d"
  by (simp add: digit_val_def digit_char_def)

lemma is_digit_char [simp]: "d < 10 \<Longrightarrow> is_digit (digit_char d)"
  by (simp add: is_digit_def digit_char_def)

section \<open>Whole strings\<close>

definition toLowerCase :: "string \<Rightarrow> string" where
  "toLowerCase s = map lower_char s"

definition toUpperCase :: "string \<Rightarrow> string" where
  "toUpperCase s = concat (map upper_char s)"

definition trimStart :: "string \<Rightarrow> string" where
  "trimStart s = dropWhile js_ws s"

definition trimEnd :: "string \<Rightarrow> string" where
  "trimEnd s = rev (dropWhile js_ws (rev s))"

definition trim :: "string \<Rightarrow> string" where
  "trim s = trimEnd (trimStart s)"

fun startsWith :: "string \<Rightarrow> string \<Rightarrow> bool" where
  "startsWith s [] = True"
| "startsWith [] (p # ps) = False"
| "startsWith (c # cs) (p # ps) = (c = p \<and> startsWith cs ps)"

definition endsWith :: "string \<Rightarrow> string \<Rightarrow> bool" where
  "endsWith s p = startsWith (rev s) (rev p)"

fun str_includes :: "string \<Rightarrow> string \<Rightarrow> bool" where
  "str_includes [] p = (p = [])"
| "str_includes (c # cs) p = (startsWith (c # cs) p \<or> str_includes cs p)"

text \<open>\<^verbatim>\<open>s.indexOf(c)\<close> for a one-character needle; \<open>None\<close> is \<^verbatim>\<open>-1\<close>.\<close>

fun indexOf :: "string \<Rightarrow> char \<Rightarrow> nat option" where
  "indexOf [] c = None"
| "indexOf (d # ds) c = (if d = c then Some 0 else map_option Suc (indexOf ds c))"

definition slice :: "nat \<Rightarrow> nat \<Rightarrow> string \<Rightarrow> string" where
  "slice i j s = take (j - i) (drop i s)"

text \<open>\<^verbatim>\<open>s.split(c)\<close> for a one-character separator, and \<^verbatim>\<open>parts.join(sep)\<close>.\<close>

fun split :: "char \<Rightarrow> string \<Rightarrow> string list" where
  "split c [] = [[]]"
| "split c (d # ds) =
     (if d = c then [] # split c ds
      else (case split c ds of [] \<Rightarrow> [[d]] | p # ps \<Rightarrow> (d # p) # ps))"

fun join :: "string \<Rightarrow> string list \<Rightarrow> string" where
  "join sep [] = []"
| "join sep [p] = p"
| "join sep (p # ps) = p @ sep @ join sep ps"

text \<open>\<^verbatim>\<open>s.replace(/x/g, y)\<close> for a one-character pattern, and for a two-character literal.\<close>

definition replace_char :: "char \<Rightarrow> string \<Rightarrow> string \<Rightarrow> string" where
  "replace_char c r s = concat (map (\<lambda>d. if d = c then r else [d]) s)"

fun replace_two :: "char \<Rightarrow> char \<Rightarrow> string \<Rightarrow> string \<Rightarrow> string" where
  "replace_two a b r (c # d # s) =
     (if c = a \<and> d = b then r @ replace_two a b r s else c # replace_two a b r (d # s))"
| "replace_two a b r s = s"

section \<open>Laws\<close>

lemma toLowerCase_idem [simp]: "toLowerCase (toLowerCase s) = toLowerCase s"
  by (simp add: toLowerCase_def)

lemma toLowerCase_Nil [simp]: "toLowerCase [] = []"
  by (simp add: toLowerCase_def)

lemma toLowerCase_eq_Nil [simp]: "toLowerCase s = [] \<longleftrightarrow> s = []"
  by (simp add: toLowerCase_def)

lemma toLowerCase_append [simp]: "toLowerCase (s @ t) = toLowerCase s @ toLowerCase t"
  by (simp add: toLowerCase_def)

lemma startsWith_prefix: "startsWith s p \<longleftrightarrow> prefix p s"
  by (induction s p rule: startsWith.induct) auto

lemma startsWith_refl [simp]: "startsWith s s"
  by (simp add: startsWith_prefix)

lemma startsWith_append [simp]: "startsWith (p @ s) p"
  by (simp add: startsWith_prefix)

lemma endsWith_suffix: "endsWith s p \<longleftrightarrow> suffix p s"
  by (simp add: endsWith_def startsWith_prefix suffix_to_prefix)

lemma includes_iff: "str_includes s p \<longleftrightarrow> (\<exists>u v. s = u @ p @ v)"
proof (induction s p rule: str_includes.induct)
  case (2 c cs p)
  show ?case
  proof
    assume "str_includes (c # cs) p"
    then consider "prefix p (c # cs)" | "str_includes cs p"
      by (auto simp: startsWith_prefix)
    then show "\<exists>u v. c # cs = u @ p @ v"
    proof cases
      case 1
      then show ?thesis by (metis append_Nil prefixE)
    next
      case 2
      with "2.IH" show ?thesis by (metis append_Cons)
    qed
  next
    assume "\<exists>u v. c # cs = u @ p @ v"
    then obtain u v where uv: "c # cs = u @ p @ v" by auto
    show "str_includes (c # cs) p"
    proof (cases u)
      case Nil
      with uv have "startsWith (c # cs) p" by (simp add: startsWith_prefix)
      then show ?thesis by simp
    next
      case (Cons d ds)
      with uv "2.IH" have "str_includes cs p" by auto
      then show ?thesis by simp
    qed
  qed
qed simp

lemma trimStart_idem [simp]: "trimStart (trimStart s) = trimStart s"
  by (simp add: trimStart_def dropWhile_idem)

lemma trimEnd_idem [simp]: "trimEnd (trimEnd s) = trimEnd s"
  by (simp add: trimEnd_def dropWhile_idem)

lemma dropWhile_trimEnd: "dropWhile js_ws (trimEnd (dropWhile js_ws s)) = trimEnd (dropWhile js_ws s)"
proof (cases "dropWhile js_ws s")
  case (Cons c cs)
  then have "\<not> js_ws c" by (rule dropWhile_hd)
  then have "trimEnd (c # cs) = c # trimEnd cs"
    by (simp add: trimEnd_def dropWhile_append)
  with Cons \<open>\<not> js_ws c\<close> show ?thesis by simp
next
  case Nil
  then show ?thesis by (simp only: trimEnd_def) simp
qed

lemma trim_idem [simp]: "trim (trim s) = trim s"
  by (simp add: trim_def trimStart_def dropWhile_trimEnd)

lemma trim_Nil [simp]: "trim [] = []"
  by (simp add: trim_def trimStart_def trimEnd_def)

lemma indexOf_None: "indexOf s c = None \<longleftrightarrow> c \<notin> set s"
  by (induction s c rule: indexOf.induct) auto

lemma indexOf_Some:
  "indexOf s c = Some i \<Longrightarrow> i < length s \<and> s ! i = c \<and> c \<notin> set (take i s)"
  by (induction s c arbitrary: i rule: indexOf.induct) (auto split: if_splits)

lemma split_not_Nil [simp]: "split c s \<noteq> []"
  by (induction c s rule: split.induct) (auto split: list.splits)

lemma join_Cons: "ps \<noteq> [] \<Longrightarrow> join sep (p # ps) = p @ sep @ join sep ps"
  by (cases ps) auto

lemma join_Cons_char: "join sep ((d # p) # ps) = d # join sep (p # ps)"
  by (cases ps) auto

lemma join_split [simp]: "join [c] (split c s) = s"
proof (induction c s rule: split.induct)
  case (2 c d ds)
  then show ?case by (auto simp: join_Cons join_Cons_char split: list.splits)
qed simp

lemma split_no_sep: "p \<in> set (split c s) \<Longrightarrow> c \<notin> set p"
proof (induction c s arbitrary: p rule: split.induct)
  case (2 c d ds)
  then show ?case by (cases "split c ds") (auto split: if_splits)
qed simp

lemma split_append_sep: "c \<notin> set p \<Longrightarrow> split c (p @ c # s) = p # split c s"
  by (induction p) auto

lemma split_single: "c \<notin> set p \<Longrightarrow> split c p = [p]"
  by (induction p) auto

lemma split_join:
  "ps \<noteq> [] \<Longrightarrow> (\<And>p. p \<in> set ps \<Longrightarrow> c \<notin> set p) \<Longrightarrow> split c (join [c] ps) = ps"
proof (induction ps)
  case (Cons p ps)
  then show ?case by (cases ps) (auto simp: split_single split_append_sep)
qed simp

lemma replace_char_id: "c \<notin> set s \<Longrightarrow> replace_char c r s = s"
  by (induction s) (auto simp: replace_char_def)

lemma replace_char_gone: "c \<notin> set r \<Longrightarrow> c \<notin> set (replace_char c r s)"
  by (auto simp: replace_char_def split: if_splits)

lemma split_subset: "p \<in> set (split c s) \<Longrightarrow> set p \<subseteq> set s"
proof (induction c s arbitrary: p rule: split.induct)
  case (2 c d ds)
  then show ?case by (cases "split c ds") (fastforce split: if_splits)+
qed simp

lemma set_join: "x \<in> set (join sep ps) \<Longrightarrow> x \<in> set sep \<or> (\<exists>p \<in> set ps. x \<in> set p)"
  by (induction sep ps rule: join.induct) auto

lemma replace_char_append [simp]: "replace_char c r (s @ t) = replace_char c r s @ replace_char c r t"
  by (simp add: replace_char_def)

end
