(* ===== verification/JsValue.thy ===== *)
theory JsValue imports JsString begin

text \<open>
  JavaScript values as far as the program handles them: numbers, the value type, property reads
  and writes with the property order of ECMAScript, truthiness, \<^verbatim>\<open>typeof\<close>, and the
  conversions \<^verbatim>\<open>String(v)\<close> and \<^verbatim>\<open>Number(s)\<close>.

  A number is an IEEE double: \<open>NInt i\<close> is the integral value \<open>i\<close>, \<open>NFrac m k\<close> the value
  \<open>m / 2 ^ k\<close> with \<open>m\<close> odd and \<open>k > 0\<close>; negative zero is identified with zero. An object is
  the list of its own properties in enumeration order. A property that an object does not own is
  read from its prototype: \<open>JHost k\<close> is the built-in value stored there under \<open>k\<close>.
\<close>

section \<open>Numbers\<close>

datatype jsnum = NInt int | NFrac int nat | NPosInf | NNegInf | NNaN

fun num_finite :: "jsnum \<Rightarrow> bool" where
  "num_finite (NInt i) = True"
| "num_finite (NFrac m k) = True"
| "num_finite _ = False"

fun num_isInteger :: "jsnum \<Rightarrow> bool" where
  "num_isInteger (NInt i) = True"
| "num_isInteger _ = False"

text \<open>Rounding of a non-negative rational \<open>a / b\<close> to the nearest double, ties to even.\<close>

fun bit_len :: "nat \<Rightarrow> nat" where
  "bit_len n = (if n = 0 then 0 else Suc (bit_len (n div 2)))"

declare bit_len.simps [simp del]

definition div_half_even :: "nat \<Rightarrow> nat \<Rightarrow> nat" where
  "div_half_even a b =
     (let q = a div b; r = a mod b
      in if 2 * r < b \<or> (2 * r = b \<and> even q) then q else Suc q)"

text \<open>\<open>strip_twos m k\<close>: \<open>m / 2 ^ k\<close> in lowest terms.\<close>

fun strip_twos :: "nat \<Rightarrow> nat \<Rightarrow> nat \<times> nat" where
  "strip_twos m 0 = (m, 0)"
| "strip_twos m (Suc k) = (if even m then strip_twos (m div 2) k else (m, Suc k))"

definition signed :: "bool \<Rightarrow> int \<Rightarrow> int" where
  "signed neg i = (if neg then - i else i)"

definition mk_num :: "bool \<Rightarrow> nat \<Rightarrow> int \<Rightarrow> jsnum" where
  \<comment> \<open>the number \<open>q * 2 ^ x\<close>\<close>
  "mk_num neg q x =
     (if 0 \<le> x then
        (if 2 ^ 1024 \<le> q * 2 ^ nat x then (if neg then NNegInf else NPosInf)
         else NInt (signed neg (int (q * 2 ^ nat x))))
      else (case strip_twos q (nat (- x)) of
              (m, 0) \<Rightarrow> NInt (signed neg (int m))
            | (m, Suc k) \<Rightarrow> NFrac (signed neg (int m)) (Suc k)))"

definition round_double :: "bool \<Rightarrow> nat \<Rightarrow> nat \<Rightarrow> jsnum" where
  "round_double neg a b =
     (let e0 = int (bit_len a) - int (bit_len b) - 53;
          x0 = (if a * 2 ^ nat (- e0) < b * 2 ^ nat e0 * 2 ^ 52 then e0 - 1
                else if b * 2 ^ nat e0 * 2 ^ 53 \<le> a * 2 ^ nat (- e0) then e0 + 1 else e0);
          x = max x0 (- 1074)
      in mk_num neg (div_half_even (a * 2 ^ nat (- x)) (b * 2 ^ nat x)) x)"

text \<open>The number a decimal literal \<open>m * 10 ^ e\<close> denotes.\<close>

definition dec_num :: "bool \<Rightarrow> nat \<Rightarrow> int \<Rightarrow> jsnum" where
  "dec_num neg m e =
     (if m = 0 then NInt 0
      else if e = 0 \<and> m \<le> 2 ^ 53 then NInt (signed neg (int m))
      else if 0 \<le> e then round_double neg (m * 10 ^ nat e) 1
      else round_double neg m (10 ^ nat (- e)))"

section \<open>Decimal digits\<close>

fun digits_of :: "nat \<Rightarrow> string" where
  "digits_of n = (if n < 10 then [digit_char n] else digits_of (n div 10) @ [digit_char (n mod 10)])"

declare digits_of.simps [simp del]

definition digits_val :: "string \<Rightarrow> nat" where
  "digits_val s = foldl (\<lambda>n c. 10 * n + digit_val c) 0 s"

lemma digits_val_snoc: "digits_val (s @ [c]) = 10 * digits_val s + digit_val c"
  by (simp add: digits_val_def)

lemma digits_val_digits_of [simp]: "digits_val (digits_of n) = n"
proof (induction n rule: digits_of.induct)
  case (1 n)
  show ?case
  proof (cases "n < 10")
    case True
    then show ?thesis by (simp add: digits_of.simps [of n] digits_val_def)
  next
    case False
    with 1 have "digits_val (digits_of (n div 10)) = n div 10" by simp
    with False show ?thesis
      by (simp add: digits_of.simps [of n] digits_val_snoc)
  qed
qed

lemma digits_of_not_Nil [simp]: "digits_of n \<noteq> []"
  by (subst digits_of.simps) simp

lemma digits_of_digits: "c \<in> set (digits_of n) \<Longrightarrow> is_digit c"
proof (induction n rule: digits_of.induct)
  case (1 n)
  then show ?case
    by (cases "n < 10") (auto simp: digits_of.simps [of n])
qed

definition show_int :: "int \<Rightarrow> string" where
  "show_int i = (if i < 0 then ''-'' @ digits_of (nat (- i)) else digits_of (nat i))"

section \<open>Numbers as text\<close>

text \<open>
  \<^verbatim>\<open>Number::toString\<close>: the shortest decimal digits that read back as the same double. For a
  non-integral or large value \<open>a / b\<close> with \<open>10 ^ (n - 1) \<le> a / b < 10 ^ n\<close> the candidates with
  \<open>k\<close> digits are the two neighbours of \<open>a / b\<close>; the first \<open>k\<close> with a candidate that reads back
  wins, and of two candidates the closer one.
\<close>

definition dec_below :: "nat \<Rightarrow> nat \<Rightarrow> int \<Rightarrow> bool" where
  \<comment> \<open>\<open>a / b < 10 ^ n\<close>\<close>
  "dec_below a b n = (a * 10 ^ nat (- n) < b * 10 ^ nat n)"

fun dec_exp_up :: "nat \<Rightarrow> nat \<Rightarrow> nat \<Rightarrow> int \<Rightarrow> int" where
  "dec_exp_up 0 a b n = n"
| "dec_exp_up (Suc f) a b n = (if dec_below a b n then n else dec_exp_up f a b (n + 1))"

definition dec_exp :: "nat \<Rightarrow> nat \<Rightarrow> int" where
  "dec_exp a b = dec_exp_up 700 a b (- 330)"

definition reads_back :: "nat \<Rightarrow> int \<Rightarrow> nat \<Rightarrow> nat \<Rightarrow> bool" where
  "reads_back d e a b = (dec_num False d e = round_double False a b)"

fun shortest_from :: "nat \<Rightarrow> nat \<Rightarrow> nat \<Rightarrow> nat \<Rightarrow> int \<Rightarrow> nat \<times> nat" where
  "shortest_from 0 k a b n = (0, k)"
| "shortest_from (Suc f) k a b n =
     (let e = int k - n;
          A = a * 10 ^ nat e; B = b * 10 ^ nat (- e);
          lo = A div B; hi = Suc lo;
          oklo = reads_back lo (- e) a b; okhi = reads_back hi (- e) a b
      in if oklo \<and> (\<not> okhi \<or> 2 * (A mod B) \<le> B) then (lo, k)
         else if okhi then (hi, k)
         else shortest_from f (Suc k) a b n)"

definition zeros :: "nat \<Rightarrow> string" where
  "zeros n = replicate n CHR ''0''"

definition layout_digits :: "string \<Rightarrow> int \<Rightarrow> string" where
  "layout_digits ds n =
     (let k = int (length ds) in
      if k \<le> n \<and> n \<le> 21 then ds @ zeros (nat (n - k))
      else if 0 < n \<and> n \<le> 21 then take (nat n) ds @ ''.'' @ drop (nat n) ds
      else if - 6 < n \<and> n \<le> 0 then ''0.'' @ zeros (nat (- n)) @ ds
      else (let e = n - 1; es = (if e < 0 then ''-'' else ''+'') @ digits_of (nat \<bar>e\<bar>)
            in if k = 1 then ds @ ''e'' @ es else take 1 ds @ ''.'' @ drop 1 ds @ ''e'' @ es))"

definition show_ratio :: "nat \<Rightarrow> nat \<Rightarrow> string" where
  "show_ratio a b =
     (let n = dec_exp a b in layout_digits (digits_of (fst (shortest_from 17 1 a b n))) n)"

fun num_String :: "jsnum \<Rightarrow> string" where
  "num_String (NInt i) =
     (if \<bar>i\<bar> \<le> 2 ^ 53 then show_int i
      else (if i < 0 then ''-'' else []) @ show_ratio (nat \<bar>i\<bar>) 1)"
| "num_String (NFrac m k) = (if m < 0 then ''-'' else []) @ show_ratio (nat \<bar>m\<bar>) (2 ^ k)"
| "num_String NPosInf = ''Infinity''"
| "num_String NNegInf = ''-Infinity''"
| "num_String NNaN = ''NaN''"

text \<open>\<^verbatim>\<open>Number(s)\<close>: the grammar \<^verbatim>\<open>StringNumericLiteral\<close>.\<close>

definition all_digits :: "string \<Rightarrow> bool" where
  "all_digits s = list_all is_digit s"

definition span_digits :: "string \<Rightarrow> string \<times> string" where
  "span_digits s = (takeWhile is_digit s, dropWhile is_digit s)"

text \<open>An exponent part at the front of a text: its value and what follows.\<close>

definition read_exp :: "string \<Rightarrow> (int \<times> string) option" where
  "read_exp s =
     (case s of
        c # r \<Rightarrow>
          if c = CHR ''e'' \<or> c = CHR ''E'' then
            (let neg = (case r of [] \<Rightarrow> False | d # _ \<Rightarrow> d = CHR ''-'');
                 r' = (case r of [] \<Rightarrow> [] | d # t \<Rightarrow> if d = CHR ''-'' \<or> d = CHR ''+'' then t else r);
                 (ds, rest) = span_digits r'
             in if ds = [] then None else Some (signed neg (int (digits_val ds)), rest))
          else Some (0, s)
      | [] \<Rightarrow> Some (0, []))"

text \<open>A fraction part at the front of a text: its digits and what follows.\<close>

definition read_frac :: "string \<Rightarrow> string \<times> string" where
  "read_frac s = (case s of c # t \<Rightarrow> if c = CHR ''.'' then span_digits t else ([], s) | [] \<Rightarrow> ([], []))"

definition read_unsigned :: "bool \<Rightarrow> string \<Rightarrow> jsnum" where
  "read_unsigned neg s =
     (let (ip, r) = span_digits s; (fp, r') = read_frac r
      in if ip = [] \<and> fp = [] then NNaN
         else (case read_exp r' of
                 Some (e, []) \<Rightarrow> dec_num neg (digits_val (ip @ fp)) (e - int (length fp))
               | _ \<Rightarrow> NNaN))"

definition hex_val :: "char \<Rightarrow> nat option" where
  "hex_val c =
     (if is_digit c then Some (code c - 48)
      else if 97 \<le> code c \<and> code c \<le> 102 then Some (code c - 87)
      else if 65 \<le> code c \<and> code c \<le> 70 then Some (code c - 55)
      else None)"

fun radix_val :: "nat \<Rightarrow> nat \<Rightarrow> string \<Rightarrow> nat option" where
  "radix_val b acc [] = Some acc"
| "radix_val b acc (c # cs) =
     (case hex_val c of
        Some d \<Rightarrow> if d < b then radix_val b (b * acc + d) cs else None
      | None \<Rightarrow> None)"

definition radix_num :: "nat \<Rightarrow> string \<Rightarrow> jsnum" where
  "radix_num b s =
     (if s = [] then NNaN
      else (case radix_val b 0 s of None \<Rightarrow> NNaN | Some n \<Rightarrow> dec_num False n 0))"

definition string_Number :: "string \<Rightarrow> jsnum" where
  "string_Number s =
     (let t = trim s in
      if t = [] then NInt 0
      else if startsWith t ''0x'' \<or> startsWith t ''0X'' then radix_num 16 (drop 2 t)
      else if startsWith t ''0o'' \<or> startsWith t ''0O'' then radix_num 8 (drop 2 t)
      else if startsWith t ''0b'' \<or> startsWith t ''0B'' then radix_num 2 (drop 2 t)
      else
        (let neg = startsWith t ''-'';
             u = (if neg \<or> startsWith t ''+'' then drop 1 t else t)
         in if u = ''Infinity'' then (if neg then NNegInf else NPosInf)
            else read_unsigned neg u))"

section \<open>Values\<close>

datatype jsval =
    JUndef
  | JNull
  | JBool bool
  | JNum jsnum
  | JStr string
  | JArr "jsval list"
  | JObj "(string \<times> jsval) list"
  | JHost string

type_synonym props = "(string \<times> jsval) list"

definition OBJECT_PROTOTYPE :: "string list" where
  "OBJECT_PROTOTYPE =
     [''constructor'', ''__defineGetter__'', ''__defineSetter__'', ''hasOwnProperty'',
      ''__lookupGetter__'', ''__lookupSetter__'', ''isPrototypeOf'', ''propertyIsEnumerable'',
      ''toString'', ''valueOf'', ''__proto__'', ''toLocaleString'']"

definition ARRAY_PROTOTYPE :: "string list" where
  "ARRAY_PROTOTYPE =
     [''at'', ''concat'', ''copyWithin'', ''fill'', ''find'', ''findIndex'', ''findLast'',
      ''findLastIndex'', ''lastIndexOf'', ''pop'', ''push'', ''reverse'', ''shift'', ''unshift'',
      ''slice'', ''sort'', ''splice'', ''includes'', ''indexOf'', ''join'', ''keys'', ''entries'',
      ''values'', ''forEach'', ''filter'', ''flat'', ''flatMap'', ''map'', ''every'', ''some'',
      ''reduce'', ''reduceRight'', ''toReversed'', ''toSorted'', ''toSpliced'', ''with'']"

text \<open>An array index written in canonical form: \<open>Some n\<close> for the text of \<open>n < 2 ^ 32 - 1\<close>.\<close>

definition index_key :: "string \<Rightarrow> nat option" where
  "index_key k =
     (if k \<noteq> [] \<and> all_digits k \<and> (hd k \<noteq> CHR ''0'' \<or> k = ''0'') \<and> digits_val k < 2 ^ 32 - 1
      then Some (digits_val k) else None)"

text \<open>Own properties: read, and define (\<^verbatim>\<open>CreateDataProperty\<close>) keeping the enumeration order, in
  which array indices come first, ascending, and other keys follow in the order of creation.\<close>

abbreviation own :: "props \<Rightarrow> string \<Rightarrow> jsval option" where
  "own ps k \<equiv> map_of ps k"

fun insert_index :: "nat \<Rightarrow> string \<Rightarrow> 'a \<Rightarrow> (string \<times> 'a) list \<Rightarrow> (string \<times> 'a) list" where
  "insert_index n k v [] = [(k, v)]"
| "insert_index n k v ((k', v') # ps) =
     (case index_key k' of
        Some m \<Rightarrow> if m < n then (k', v') # insert_index n k v ps else (k, v) # (k', v') # ps
      | None \<Rightarrow> (k, v) # (k', v') # ps)"

fun update_prop :: "string \<Rightarrow> 'a \<Rightarrow> (string \<times> 'a) list \<Rightarrow> (string \<times> 'a) list" where
  "update_prop k v [] = []"
| "update_prop k v ((k', v') # ps) =
     (if k = k' then (k, v) # ps else (k', v') # update_prop k v ps)"

definition def_prop :: "string \<Rightarrow> 'a \<Rightarrow> (string \<times> 'a) list \<Rightarrow> (string \<times> 'a) list" where
  "def_prop k v ps =
     (if k \<in> fst ` set ps then update_prop k v ps
      else (case index_key k of Some n \<Rightarrow> insert_index n k v ps | None \<Rightarrow> ps @ [(k, v)]))"

text \<open>\<^verbatim>\<open>o[k] = v\<close> on an ordinary object: assigning to \<^verbatim>\<open>__proto__\<close> sets the prototype and
  creates no own property. Values have no prototype of their own here, so the assignment is dropped: what the new prototype
  would lend to later reads of the object is not modelled.\<close>

definition set_prop :: "string \<Rightarrow> 'a \<Rightarrow> (string \<times> 'a) list \<Rightarrow> (string \<times> 'a) list" where
  "set_prop k v ps = (if k = ''__proto__'' \<and> k \<notin> fst ` set ps then ps else def_prop k v ps)"

definition fromEntries :: "(string \<times> 'a) list \<Rightarrow> (string \<times> 'a) list" where
  "fromEntries es = foldl (\<lambda>ps (k, v). def_prop k v ps) [] es"

text \<open>\<^verbatim>\<open>{ ...a, ...b }\<close>.\<close>

definition spread :: "(string \<times> 'a) list \<Rightarrow> (string \<times> 'a) list \<Rightarrow> (string \<times> 'a) list" where
  "spread a b = foldl (\<lambda>ps (k, v). def_prop k v ps) a b"

definition proto_get :: "string list \<Rightarrow> string \<Rightarrow> jsval" where
  "proto_get names k = (if k \<in> set names then JHost k else JUndef)"

text \<open>\<^verbatim>\<open>o[k]\<close> for an object with own properties \<open>ps\<close>.\<close>

definition obj_get :: "props \<Rightarrow> string \<Rightarrow> jsval" where
  "obj_get ps k = (case own ps k of Some v \<Rightarrow> v | None \<Rightarrow> proto_get OBJECT_PROTOTYPE k)"

text \<open>\<^verbatim>\<open>v[k]\<close> for an object or array value; reading from \<^verbatim>\<open>null\<close> or \<^verbatim>\<open>undefined\<close> does not occur in
  the code modelled here, other primitives have no such own property.\<close>

fun js_get :: "jsval \<Rightarrow> string \<Rightarrow> jsval" where
  "js_get (JObj ps) k = obj_get ps k"
| "js_get (JArr xs) k =
     (case index_key k of
        Some n \<Rightarrow> if n < length xs then xs ! n else JUndef
      | None \<Rightarrow> if k = ''length'' then JNum (NInt (int (length xs)))
                else proto_get (ARRAY_PROTOTYPE @ OBJECT_PROTOTYPE) k)"
| "js_get _ k = JUndef"

fun typeof :: "jsval \<Rightarrow> string" where
  "typeof JUndef = ''undefined''"
| "typeof JNull = ''object''"
| "typeof (JBool b) = ''boolean''"
| "typeof (JNum n) = ''number''"
| "typeof (JStr s) = ''string''"
| "typeof (JArr xs) = ''object''"
| "typeof (JObj ps) = ''object''"
| "typeof (JHost k) = (if k = ''__proto__'' then ''object'' else ''function'')"

fun truthy :: "jsval \<Rightarrow> bool" where
  "truthy JUndef = False"
| "truthy JNull = False"
| "truthy (JBool b) = b"
| "truthy (JNum n) = (n \<noteq> NInt 0 \<and> n \<noteq> NNaN)"
| "truthy (JStr s) = (s \<noteq> [])"
| "truthy _ = True"

fun isArray :: "jsval \<Rightarrow> bool" where
  "isArray (JArr xs) = True"
| "isArray _ = False"

fun is_str :: "jsval \<Rightarrow> bool" where
  "is_str (JStr s) = True"
| "is_str _ = False"

text \<open>\<^verbatim>\<open>v && typeof v === "object"\<close>, with and without \<^verbatim>\<open>!Array.isArray(v)\<close>.\<close>

definition is_object :: "jsval \<Rightarrow> bool" where
  "is_object v = (truthy v \<and> typeof v = ''object'')"

definition is_record :: "jsval \<Rightarrow> bool" where
  "is_record v = (is_object v \<and> \<not> isArray v)"

text \<open>The own properties of a non-array object (\<^verbatim>\<open>Object.entries\<close>); the prototype object itself
  has no enumerable ones.\<close>

fun entries :: "jsval \<Rightarrow> props" where
  "entries (JObj ps) = ps"
| "entries _ = []"

text \<open>\<^verbatim>\<open>Object.entries\<close> of any value that passes \<^verbatim>\<open>typeof v === "object"\<close>: an array lists its indices.\<close>

fun all_entries :: "jsval \<Rightarrow> props" where
  "all_entries (JArr xs) = map (\<lambda>(i, v). (digits_of i, v)) (enumerate 0 xs)"
| "all_entries v = entries v"

fun elements :: "jsval \<Rightarrow> jsval list" where
  "elements (JArr xs) = xs"
| "elements _ = []"

text \<open>\<^verbatim>\<open>a ?? b\<close>.\<close>

definition nullish :: "jsval \<Rightarrow> bool" where
  "nullish v = (v = JUndef \<or> v = JNull)"

definition coalesce :: "jsval \<Rightarrow> jsval \<Rightarrow> jsval" where
  "coalesce a b = (if nullish a then b else a)"

text \<open>\<^verbatim>\<open>String(v)\<close>; an own \<^verbatim>\<open>toString\<close> property of an object is not consulted.\<close>

fun js_String :: "jsval \<Rightarrow> string" where
  "js_String JUndef = ''undefined''"
| "js_String JNull = ''null''"
| "js_String (JBool b) = (if b then ''true'' else ''false'')"
| "js_String (JNum n) = num_String n"
| "js_String (JStr s) = s"
| "js_String (JArr xs) = join '','' (map (\<lambda>v. if nullish v then [] else js_String v) xs)"
| "js_String (JObj ps) = ''[object Object]''"
| "js_String (JHost k) =
     (if k = ''__proto__'' then ''[object Object]''
      else ''function '' @ (if k = ''constructor'' then ''Object'' else k) @ ''() { [native code] }'')"

section \<open>Laws\<close>

lemma is_object_cases: "is_object v \<longleftrightarrow> (\<exists>ps. v = JObj ps) \<or> (\<exists>xs. v = JArr xs) \<or> v = JHost ''__proto__''"
  by (cases v) (auto simp: is_object_def)

lemma is_object_simps [simp]:
  "is_object (JObj ps)" "is_object (JArr xs)" "\<not> is_object JUndef" "\<not> is_object JNull"
  "\<not> is_object (JBool b)" "\<not> is_object (JNum n)" "\<not> is_object (JStr s)"
  by (simp_all add: is_object_def)

lemma is_record_simps [simp]:
  "is_record (JObj ps)" "\<not> is_record (JArr xs)" "\<not> is_record JUndef" "\<not> is_record JNull"
  "\<not> is_record (JBool b)" "\<not> is_record (JNum n)" "\<not> is_record (JStr s)"
  by (simp_all add: is_record_def)

lemma is_record_cases: "is_record v \<longleftrightarrow> (\<exists>ps. v = JObj ps) \<or> v = JHost ''__proto__''"
  by (auto simp: is_record_def is_object_cases)

lemma fst_update_prop [simp]: "map fst (update_prop k v ps) = map fst ps"
  by (induction k v ps rule: update_prop.induct) auto

lemma map_of_update_prop:
  "map_of (update_prop k v ps) = (if k \<in> fst ` set ps then (map_of ps)(k \<mapsto> v) else map_of ps)"
  by (induction k v ps rule: update_prop.induct) (auto simp: fun_eq_iff)

lemma set_insert_index [simp]: "set (insert_index n k v ps) = insert (k, v) (set ps)"
  by (induction n k v ps rule: insert_index.induct) (auto split: option.splits)

lemma map_of_insert_index:
  "k \<notin> fst ` set ps \<Longrightarrow> map_of (insert_index n k v ps) = (map_of ps)(k \<mapsto> v)"
proof (induction n k v ps rule: insert_index.induct)
  case (2 n k v k' v' ps)
  then show ?case by (auto simp: fun_eq_iff split: option.splits)
qed auto

lemma distinct_insert_index:
  "distinct (map fst ps) \<Longrightarrow> k \<notin> fst ` set ps \<Longrightarrow> distinct (map fst (insert_index n k v ps))"
proof (induction n k v ps rule: insert_index.induct)
  case (2 n k v k' v' ps)
  then show ?case by (auto split: option.splits)
qed auto

theorem map_of_def_prop [simp]: "map_of (def_prop k v ps) = (map_of ps)(k \<mapsto> v)"
  by (auto simp: def_prop_def map_of_update_prop map_of_insert_index fun_eq_iff map_add_def
      map_of_eq_None_iff [THEN iffD2] split: option.splits)

lemma keys_def_prop [simp]: "fst ` set (def_prop k v ps) = insert k (fst ` set ps)"
  by (metis dom_map_of_conv_image_fst map_of_def_prop dom_fun_upd option.distinct(1))

lemma distinct_def_prop [intro]:
  "distinct (map fst ps) \<Longrightarrow> distinct (map fst (def_prop k v ps))"
  by (auto simp: def_prop_def distinct_insert_index split: option.splits)

lemma foldl_def_prop_distinct:
  "distinct (map fst ps) \<Longrightarrow> distinct (map fst (foldl (\<lambda>ps (k, v). def_prop k v ps) ps es))"
  by (induction es arbitrary: ps) auto

lemma foldl_def_prop_keys:
  "fst ` set (foldl (\<lambda>ps (k, v). def_prop k v ps) ps es) = fst ` set ps \<union> fst ` set es"
proof (induction es arbitrary: ps)
  case (Cons e es)
  obtain k v where "e = (k, v)" by (cases e)
  with Cons [of "def_prop k v ps"] show ?case by simp
qed simp

lemma distinct_fromEntries [simp]: "distinct (map fst (fromEntries es))"
  by (simp add: fromEntries_def foldl_def_prop_distinct)

lemma keys_fromEntries [simp]: "fst ` set (fromEntries es) = fst ` set es"
  by (simp add: fromEntries_def foldl_def_prop_keys)

lemma distinct_spread [intro]: "distinct (map fst a) \<Longrightarrow> distinct (map fst (spread a b))"
  by (simp add: spread_def foldl_def_prop_distinct)

lemma foldl_def_prop_map_of:
  "map_of (foldl (\<lambda>ps (k, v). def_prop k v ps) ps es) = map_of ps ++ map_of (rev es)"
proof (induction es arbitrary: ps)
  case (Cons e es)
  obtain k v where e: "e = (k, v)" by (cases e)
  have "map_of (foldl (\<lambda>ps (k, v). def_prop k v ps) ps (e # es)) = map_of (def_prop k v ps) ++ map_of (rev es)"
    using Cons [of "def_prop k v ps"] by (simp only: e foldl_Cons split_conv)
  then show ?case
    by (simp add: e fun_eq_iff map_add_def split: option.splits)
qed simp

lemma distinct_map_of_rev: "distinct (map fst b) \<Longrightarrow> map_of (rev b) = map_of b"
  by (rule map_of_eqI) (auto simp: map_of_eq_Some_iff rev_map [symmetric])

lemma map_of_spread: "distinct (map fst b) \<Longrightarrow> map_of (spread a b) = map_of a ++ map_of b"
  by (simp add: spread_def foldl_def_prop_map_of distinct_map_of_rev)

text \<open>Well-formed values: the keys of every object are distinct and in enumeration order, so that
  rebuilding an object from its entries gives it back.\<close>

definition ordered_props :: "props \<Rightarrow> bool" where
  "ordered_props ps = (fromEntries ps = ps)"

fun wf_val :: "jsval \<Rightarrow> bool" where
  "wf_val (JArr xs) = list_all wf_val xs"
| "wf_val (JObj ps) = (ordered_props ps \<and> list_all (\<lambda>(k, v). wf_val v) ps)"
| "wf_val _ = True"

lemma ordered_distinct: "ordered_props ps \<Longrightarrow> distinct (map fst ps)"
  by (metis distinct_fromEntries ordered_props_def)

end
