(* ===== verification/JsonText.thy ===== *)
theory JsonText imports JsValue begin

text \<open>
  \<^verbatim>\<open>JSON.parse\<close> and \<^verbatim>\<open>JSON.stringify\<close>. The reader is a lexer, which cuts a text into tokens, and
  a pushdown machine over the tokens; both are total. The writer is \<open>json_text\<close>, with an indent
  unit per level and the separators \<^verbatim>\<open>JSON.stringify\<close> uses with and without its third argument.
  The main result is the round trip: reading what was written gives the value back.
  An escape \<^verbatim>\<open>\uXXXX\<close> of a code unit beyond the model's strings is refused by the lexer.
\<close>

section \<open>Lexer\<close>

datatype token =
    TLBrace | TRBrace | TLBrack | TRBrack | TColon | TComma
  | TStr string | TNum jsnum | TTrue | TFalse | TNull

definition json_ws :: "char \<Rightarrow> bool" where
  "json_ws c = (code c \<in> {9, 10, 13, 32})"

definition NL :: char where "NL = CHR 0x0A"
definition QUOTE :: char where "QUOTE = CHR 0x22"
definition BSLASH :: char where "BSLASH = CHR 0x5C"

definition hex4 :: "char \<Rightarrow> char \<Rightarrow> char \<Rightarrow> char \<Rightarrow> nat option" where
  "hex4 a b c d =
     (case (hex_val a, hex_val b, hex_val c, hex_val d) of
        (Some w, Some x, Some y, Some z) \<Rightarrow> Some (4096 * w + 256 * x + 16 * y + z)
      | _ \<Rightarrow> None)"

definition simple_escape :: "char \<Rightarrow> char option" where
  "simple_escape c =
     (if c = QUOTE \<or> c = BSLASH \<or> c = CHR ''/'' then Some c
      else if c = CHR ''b'' then Some (CHR 0x08)
      else if c = CHR ''f'' then Some (CHR 0x0C)
      else if c = CHR ''n'' then Some (CHR 0x0A)
      else if c = CHR ''r'' then Some (CHR 0x0D)
      else if c = CHR ''t'' then Some (CHR 0x09)
      else None)"

text \<open>What follows a backslash in a string literal: the character it denotes and the rest.\<close>

definition lex_escape :: "string \<Rightarrow> (char \<times> string) option" where
  "lex_escape s =
     (case s of
        [] \<Rightarrow> None
      | e # r \<Rightarrow>
          if e = CHR ''u'' then
            (case r of
               h1 # h2 # h3 # h4 # r' \<Rightarrow>
                 (case hex4 h1 h2 h3 h4 of
                    Some n \<Rightarrow> if n < 256 then Some (char_of n, r') else None
                  | None \<Rightarrow> None)
             | _ \<Rightarrow> None)
          else map_option (\<lambda>d. (d, r)) (simple_escape e))"

lemma lex_escape_length: "lex_escape s = Some (d, r) \<Longrightarrow> length r < length s"
  by (auto simp: lex_escape_def split: list.splits if_splits option.splits)

text \<open>The rest of a string literal after its opening quote: its value and what follows it.\<close>

function lex_string :: "string \<Rightarrow> (string \<times> string) option" where
  "lex_string [] = None"
| "lex_string (c # cs) =
     (if c = QUOTE then Some ([], cs)
      else if c = BSLASH then
        (case lex_escape cs of
           None \<Rightarrow> None
         | Some (d, r) \<Rightarrow> map_option (apfst ((#) d)) (lex_string r))
      else if code c < 32 then None
      else map_option (apfst ((#) c)) (lex_string cs))"
  by pat_completeness auto
termination
  by (relation "measure length") (auto dest: lex_escape_length)

text \<open>A number literal at the front of a text: JSON allows no leading zeros and requires digits on
  both sides of the point.\<close>

definition lex_number :: "string \<Rightarrow> (jsnum \<times> string) option" where
  "lex_number s =
     (let neg = startsWith s ''-'';
          (ip, r) = span_digits (if neg then drop 1 s else s);
          (fp, r') = read_frac r
      in if ip = [] \<or> (hd ip = CHR ''0'' \<and> length ip > 1) \<or> (startsWith r ''.'' \<and> fp = []) then None
         else map_option (apfst (\<lambda>e. dec_num neg (digits_val (ip @ fp)) (e - int (length fp))))
                (read_exp r'))"

lemma lex_string_length: "lex_string s = Some (x, t) \<Longrightarrow> length t < length s"
proof (induction s arbitrary: x rule: lex_string.induct)
  case (2 c cs)
  consider "c = QUOTE" | d r y where "c \<noteq> QUOTE" "c = BSLASH" "lex_escape cs = Some (d, r)" "lex_string r = Some (y, t)"
    | y where "c \<noteq> QUOTE" "c \<noteq> BSLASH" "\<not> code c < 32" "lex_string cs = Some (y, t)"
    using "2.prems" by (auto split: if_splits option.splits)
  then show ?case
  proof cases
    case 1
    with "2.prems" show ?thesis by simp
  next
    case 2
    with "2.IH"(1) have "length t < length r" by blast
    with lex_escape_length [OF \<open>lex_escape cs = Some (d, r)\<close>] show ?thesis by simp
  next
    case 3
    with "2.IH"(2) have "length t < length cs" by blast
    then show ?thesis by simp
  qed
qed simp

lemma span_digits_append: "span_digits s = (a, b) \<Longrightarrow> s = a @ b"
  by (auto simp: span_digits_def)

lemma span_digits_length: "span_digits s = (a, b) \<Longrightarrow> length b \<le> length s"
  by (auto dest: span_digits_append)

lemma read_frac_length: "read_frac s = (a, b) \<Longrightarrow> length b \<le> length s"
  by (auto simp: read_frac_def le_SucI dest!: span_digits_length split: list.splits if_splits)

lemma read_exp_length: "read_exp s = Some (e, t) \<Longrightarrow> length t \<le> length s"
  by (cases s; cases "tl s")
    (auto simp: read_exp_def Let_def le_SucI dest!: span_digits_length split: if_splits prod.splits)

lemma lex_number_length: "lex_number s = Some (n, t) \<Longrightarrow> length t < length s"
proof -
  assume lx: "lex_number s = Some (n, t)"
  define u where "u = (if startsWith s ''-'' then drop 1 s else s)"
  obtain ip r fp r' where ip: "span_digits u = (ip, r)" and fp: "read_frac r = (fp, r')"
    by (metis surj_pair)
  with lx have "ip \<noteq> []" and "\<exists>e. read_exp r' = Some (e, t)"
    by (auto simp: lex_number_def Let_def u_def split: if_splits)
  then have "length t \<le> length r" and "length r < length u"
    using read_exp_length read_frac_length [OF fp] span_digits_append [OF ip]
    by (force, simp)
  moreover have "length u \<le> length s" by (simp add: u_def)
  ultimately show ?thesis by simp
qed

definition punct :: "char \<Rightarrow> token option" where
  "punct c =
     (if c = CHR ''{'' then Some TLBrace else if c = CHR ''}'' then Some TRBrace
      else if c = CHR ''['' then Some TLBrack else if c = CHR '']'' then Some TRBrack
      else if c = CHR '':'' then Some TColon else if c = CHR '','' then Some TComma else None)"

definition keyword :: "string \<Rightarrow> (token \<times> string) option" where
  "keyword s =
     (if startsWith s ''true'' then Some (TTrue, drop 4 s)
      else if startsWith s ''false'' then Some (TFalse, drop 5 s)
      else if startsWith s ''null'' then Some (TNull, drop 4 s)
      else None)"

definition lex1 :: "char \<Rightarrow> string \<Rightarrow> (token \<times> string) option" where
  "lex1 c cs =
     (case punct c of
        Some t \<Rightarrow> Some (t, cs)
      | None \<Rightarrow>
          if c = QUOTE then map_option (\<lambda>(s, r). (TStr s, r)) (lex_string cs)
          else if c = CHR ''-'' \<or> is_digit c then map_option (\<lambda>(n, r). (TNum n, r)) (lex_number (c # cs))
          else keyword (c # cs))"

lemma startsWith_length: "startsWith s p \<Longrightarrow> length p \<le> length s"
  by (simp add: startsWith_prefix prefix_length_le)

lemma lex1_length: "lex1 c cs = Some (t, r) \<Longrightarrow> length r < Suc (length cs)"
  by (auto simp: lex1_def keyword_def dest!: lex_string_length lex_number_length
      split: option.splits if_splits)

function lex :: "string \<Rightarrow> token list option" where
  "lex [] = Some []"
| "lex (c # cs) =
     (if json_ws c then lex cs
      else (case lex1 c cs of
              None \<Rightarrow> None
            | Some (t, r) \<Rightarrow> map_option ((#) t) (lex r)))"
  by pat_completeness auto
termination
  by (relation "measure length") (auto dest: lex1_length)

declare lex.simps(2) [simp del]

section \<open>Parser\<close>

text \<open>The open arrays and objects around the position of the machine, innermost first: the
  elements read so far, or the properties read so far and the key of the value being read.\<close>

datatype frame = FArr "jsval list" | FObj props string

datatype mode =
    MValue | MValueOrEnd | MKey props | MKeyOrEnd props | MColon props string | MAfter jsval

definition after_value :: "frame list \<Rightarrow> jsval \<Rightarrow> frame list \<times> mode" where
  "after_value st v = (st, MAfter v)"

fun scalar :: "token \<Rightarrow> jsval option" where
  "scalar (TStr s) = Some (JStr s)"
| "scalar (TNum n) = Some (JNum n)"
| "scalar TTrue = Some (JBool True)"
| "scalar TFalse = Some (JBool False)"
| "scalar TNull = Some JNull"
| "scalar _ = None"

definition begin_value :: "frame list \<Rightarrow> token \<Rightarrow> (frame list \<times> mode) option" where
  "begin_value st t =
     (case t of
        TLBrack \<Rightarrow> Some (FArr [] # st, MValueOrEnd)
      | TLBrace \<Rightarrow> Some (st, MKeyOrEnd [])
      | _ \<Rightarrow> map_option (after_value st) (scalar t))"

fun pstep :: "frame list \<Rightarrow> mode \<Rightarrow> token \<Rightarrow> (frame list \<times> mode) option" where
  "pstep st MValue t = begin_value st t"
| "pstep (FArr xs # st) MValueOrEnd t =
     (if t = TRBrack then Some (st, MAfter (JArr xs)) else begin_value (FArr xs # st) t)"
| "pstep st MValueOrEnd t = None"
| "pstep st (MKeyOrEnd ps) t =
     (if t = TRBrace then Some (st, MAfter (JObj ps))
      else (case t of TStr k \<Rightarrow> Some (st, MColon ps k) | _ \<Rightarrow> None))"
| "pstep st (MKey ps) t = (case t of TStr k \<Rightarrow> Some (st, MColon ps k) | _ \<Rightarrow> None)"
| "pstep st (MColon ps k) t = (if t = TColon then Some (FObj ps k # st, MValue) else None)"
| "pstep (FArr xs # st) (MAfter v) t =
     (if t = TComma then Some (FArr (xs @ [v]) # st, MValue)
      else if t = TRBrack then Some (st, MAfter (JArr (xs @ [v]))) else None)"
| "pstep (FObj ps k # st) (MAfter v) t =
     (if t = TComma then Some (st, MKey (def_prop k v ps))
      else if t = TRBrace then Some (st, MAfter (JObj (def_prop k v ps))) else None)"
| "pstep [] (MAfter v) t = None"

fun prun :: "frame list \<Rightarrow> mode \<Rightarrow> token list \<Rightarrow> jsval option" where
  "prun st m [] = (case (st, m) of ([], MAfter v) \<Rightarrow> Some v | _ \<Rightarrow> None)"
| "prun st m (t # ts) = (case pstep st m t of None \<Rightarrow> None | Some (st', m') \<Rightarrow> prun st' m' ts)"

text \<open>\<^verbatim>\<open>JSON.parse(text)\<close>: \<open>None\<close> is a \<^verbatim>\<open>SyntaxError\<close>.\<close>

definition JSON_parse :: "string \<Rightarrow> jsval option" where
  "JSON_parse s = (case lex s of None \<Rightarrow> None | Some ts \<Rightarrow> prun [] MValue ts)"

section \<open>Writer\<close>

definition hex_digit :: "nat \<Rightarrow> char" where
  "hex_digit d = (if d < 10 then char_of (48 + d) else char_of (87 + d))"

definition escape_char :: "char \<Rightarrow> string" where
  "escape_char c =
     (if c = QUOTE \<or> c = BSLASH then [BSLASH, c]
      else if c = CHR 0x08 then [BSLASH, CHR ''b'']
      else if c = CHR 0x0C then [BSLASH, CHR ''f'']
      else if c = CHR 0x0A then [BSLASH, CHR ''n'']
      else if c = CHR 0x0D then [BSLASH, CHR ''r'']
      else if c = CHR 0x09 then [BSLASH, CHR ''t'']
      else if code c < 32 then [BSLASH, CHR ''u'', CHR ''0'', CHR ''0'', hex_digit (code c div 16), hex_digit (code c mod 16)]
      else [c])"

definition quote :: "string \<Rightarrow> string" where
  "quote s = QUOTE # concat (map escape_char s) @ [QUOTE]"

definition spaces :: "nat \<Rightarrow> string" where
  "spaces n = replicate n CHR '' ''"

text \<open>The text between two items of an array or object: nothing when the indent unit is 0, else a
  line break and the indentation of the level.\<close>

definition brk :: "nat \<Rightarrow> nat \<Rightarrow> string" where
  "brk unit level = (if unit = 0 then [] else NL # spaces (unit * level))"

text \<open>\<^verbatim>\<open>undefined\<close> and functions are left out of objects and written \<^verbatim>\<open>null\<close> in arrays; a
  non-finite number is written \<^verbatim>\<open>null\<close>.\<close>

fun serialisable :: "jsval \<Rightarrow> bool" where
  "serialisable JUndef = False"
| "serialisable (JHost k) = (k = ''__proto__'')"
| "serialisable _ = True"

fun json_text :: "nat \<Rightarrow> nat \<Rightarrow> jsval \<Rightarrow> string" where
  "json_text u l JUndef = ''null''"
| "json_text u l JNull = ''null''"
| "json_text u l (JBool b) = (if b then ''true'' else ''false'')"
| "json_text u l (JNum n) = (if num_finite n then num_String n else ''null'')"
| "json_text u l (JStr s) = quote s"
| "json_text u l (JArr xs) =
     (if xs = [] then ''[]''
      else ''['' @ brk u (Suc l) @ join ('','' @ brk u (Suc l)) (map (json_text u (Suc l)) xs) @ brk u l @ '']'')"
| "json_text u l (JObj ps) =
     (if filter (serialisable \<circ> snd) ps = [] then ''{}''
      else ''{'' @ brk u (Suc l)
        @ join ('','' @ brk u (Suc l))
            (map snd (filter fst (map (\<lambda>(k, v). (serialisable v, quote k @ '':'' @ (if u = 0 then [] else '' '') @ json_text u (Suc l) v)) ps)))
        @ brk u l @ ''}'')"
| "json_text u l (JHost k) = (if k = ''__proto__'' then ''{}'' else ''null'')"

text \<open>\<^verbatim>\<open>JSON.stringify(v)\<close> and \<^verbatim>\<open>JSON.stringify(v, null, 2)\<close>: \<open>None\<close> is \<^verbatim>\<open>undefined\<close>.\<close>

definition JSON_stringify :: "jsval \<Rightarrow> string option" where
  "JSON_stringify v = (if serialisable v then Some (json_text 0 0 v) else None)"

definition JSON_stringify2 :: "jsval \<Rightarrow> string option" where
  "JSON_stringify2 v = (if serialisable v then Some (json_text 2 0 v) else None)"

section \<open>Round trip\<close>

text \<open>The values a JSON text can carry exactly: no \<^verbatim>\<open>undefined\<close> and no built-ins, integers in the
  safe range, objects in enumeration order.\<close>

fun json_plain :: "jsval \<Rightarrow> bool" where
  "json_plain JNull = True"
| "json_plain (JBool b) = True"
| "json_plain (JNum n) = (case n of NInt i \<Rightarrow> \<bar>i\<bar> \<le> 2 ^ 53 | _ \<Rightarrow> False)"
| "json_plain (JStr s) = True"
| "json_plain (JArr xs) = list_all json_plain xs"
| "json_plain (JObj ps) = (ordered_props ps \<and> list_all (\<lambda>(k, v). json_plain v) ps)"
| "json_plain _ = False"

fun sep_tokens :: "token list list \<Rightarrow> token list" where
  "sep_tokens [] = []"
| "sep_tokens [x] = x"
| "sep_tokens (x # xs) = x @ TComma # sep_tokens xs"

fun tokens_of :: "jsval \<Rightarrow> token list" where
  "tokens_of (JBool b) = [if b then TTrue else TFalse]"
| "tokens_of (JNum n) = [TNum n]"
| "tokens_of (JStr s) = [TStr s]"
| "tokens_of (JArr xs) = TLBrack # sep_tokens (map tokens_of xs) @ [TRBrack]"
| "tokens_of (JObj ps) = TLBrace # sep_tokens (map (\<lambda>(k, v). TStr k # TColon # tokens_of v) ps) @ [TRBrace]"
| "tokens_of _ = [TNull]"

subsection \<open>The machine reads the tokens of a value\<close>

lemma tokens_of_head: "\<exists>t ts. tokens_of v = t # ts \<and> t \<noteq> TRBrack \<and> t \<noteq> TRBrace"
  by (cases v) auto

lemma prun_first_element:
  "prun (FArr acc # st) MValueOrEnd (tokens_of v @ ts) = prun (FArr acc # st) MValue (tokens_of v @ ts)"
  using tokens_of_head [of v] by auto

lemma sep_tokens_Cons: "xs \<noteq> [] \<Longrightarrow> sep_tokens (x # xs) = x @ TComma # sep_tokens xs"
  by (cases xs) auto

lemma prun_elements:
  assumes "xs \<noteq> []"
    and "\<And>x st ts. x \<in> set xs \<Longrightarrow> prun st MValue (tokens_of x @ ts) = prun st (MAfter x) ts"
  shows "prun (FArr acc # st) MValue (sep_tokens (map tokens_of xs) @ TRBrack # ts)
       = prun st (MAfter (JArr (acc @ xs))) ts"
  using assms
proof (induction xs arbitrary: acc)
  case (Cons x xs)
  show ?case
  proof (cases "xs = []")
    case True
    with Cons.prems show ?thesis by simp
  next
    case False
    have "prun (FArr acc # st) MValue (sep_tokens (map tokens_of (x # xs)) @ TRBrack # ts)
        = prun (FArr (acc @ [x]) # st) MValue (sep_tokens (map tokens_of xs) @ TRBrack # ts)"
      using False Cons.prems(2) [of x] by (simp add: sep_tokens_Cons)
    also have "\<dots> = prun st (MAfter (JArr ((acc @ [x]) @ xs))) ts"
      using False Cons.prems(2) by (intro Cons.IH) auto
    finally show ?thesis by simp
  qed
qed simp

lemma prun_members:
  assumes "ps \<noteq> []"
    and "\<And>k v st ts. (k, v) \<in> set ps \<Longrightarrow> prun st MValue (tokens_of v @ ts) = prun st (MAfter v) ts"
  shows "prun st (MKey acc) (sep_tokens (map (\<lambda>(k, v). TStr k # TColon # tokens_of v) ps) @ TRBrace # ts)
       = prun st (MAfter (JObj (foldl (\<lambda>ps (k, v). def_prop k v ps) acc ps))) ts"
  using assms
proof (induction ps arbitrary: acc)
  case (Cons p ps)
  obtain k v where p: "p = (k, v)" by (cases p)
  show ?case
  proof (cases "ps = []")
    case True
    with Cons.prems(2) [of k v] p show ?thesis by simp
  next
    case False
    have "prun st (MKey acc) (sep_tokens (map (\<lambda>(k, v). TStr k # TColon # tokens_of v) (p # ps)) @ TRBrace # ts)
        = prun st (MKey (def_prop k v acc)) (sep_tokens (map (\<lambda>(k, v). TStr k # TColon # tokens_of v) ps) @ TRBrace # ts)"
      using False p Cons.prems(2) [of k v] by (simp add: sep_tokens_Cons)
    also have "\<dots> = prun st (MAfter (JObj (foldl (\<lambda>ps (k, v). def_prop k v ps) (def_prop k v acc) ps))) ts"
      using False Cons.prems(2) by (intro Cons.IH) auto
    finally show ?thesis by (simp add: p)
  qed
qed simp

lemma prun_tokens_of:
  "json_plain v \<Longrightarrow> prun st MValue (tokens_of v @ ts) = prun st (MAfter v) ts"
proof (induction v arbitrary: st ts)
  case (JArr xs)
  show ?case
  proof (cases xs)
    case Nil
    then show ?thesis by (simp add: begin_value_def)
  next
    case (Cons x ys)
    have "prun st MValue (tokens_of (JArr xs) @ ts)
        = prun (FArr [] # st) MValueOrEnd (sep_tokens (map tokens_of xs) @ TRBrack # ts)"
      by (simp add: begin_value_def)
    also have "\<dots> = prun (FArr [] # st) MValue (sep_tokens (map tokens_of xs) @ TRBrack # ts)"
      using Cons prun_first_element [of "[]" st x] by (cases ys) auto
    also have "\<dots> = prun st (MAfter (JArr ([] @ xs))) ts"
      using Cons JArr by (intro prun_elements) (auto simp: list_all_iff)
    finally show ?thesis by simp
  qed
next
  case (JObj ps)
  show ?case
  proof (cases ps)
    case Nil
    then show ?thesis by (simp add: begin_value_def)
  next
    case (Cons p qs)
    obtain k v where p: "p = (k, v)" by (cases p)
    have "prun st MValue (tokens_of (JObj ps) @ ts)
        = prun st (MKeyOrEnd []) (sep_tokens (map (\<lambda>(k, v). TStr k # TColon # tokens_of v) ps) @ TRBrace # ts)"
      by (simp add: begin_value_def)
    also have "\<dots> = prun st (MKey []) (sep_tokens (map (\<lambda>(k, v). TStr k # TColon # tokens_of v) ps) @ TRBrace # ts)"
      using Cons p by (cases qs) auto
    also have "\<dots> = prun st (MAfter (JObj (fromEntries ps))) ts"
      unfolding fromEntries_def using Cons JObj
      by (intro prun_members) (fastforce simp: list_all_iff)+
    finally show ?thesis using JObj.prems by (simp add: ordered_props_def)
  qed
qed (auto simp: begin_value_def after_value_def)

subsection \<open>The lexer reads the text of a value\<close>

text \<open>What may follow a value without changing how it is cut: no character that could continue a
  number.\<close>

definition delim :: "string \<Rightarrow> bool" where
  "delim r = (case r of [] \<Rightarrow> True | c # _ \<Rightarrow> \<not> is_digit c \<and> c \<noteq> CHR ''.'' \<and> c \<noteq> CHR ''e'' \<and> c \<noteq> CHR ''E'')"

lemma hex_val_hex_digit [simp]: "d < 16 \<Longrightarrow> hex_val (hex_digit d) = Some d"
  by (auto simp: hex_val_def hex_digit_def is_digit_def)

lemma lex_escape_char:
  "lex_string (escape_char c @ r) = map_option (apfst ((#) c)) (lex_string r)"
proof (cases "code c < 32")
  case True
  have "code c div 16 < 16" "code c mod 16 < 16" "16 * (code c div 16) + code c mod 16 = code c"
    using True by auto
  moreover have "hex_val (CHR ''0'') = Some 0" by (simp add: hex_val_def is_digit_def code_def)
  ultimately show ?thesis
    by (auto simp: escape_char_def lex_escape_def simple_escape_def hex4_def QUOTE_def BSLASH_def)
next
  case False
  then have "c \<noteq> CHR 0x08" "c \<noteq> CHR 0x0C" "c \<noteq> CHR 0x0A" "c \<noteq> CHR 0x0D" "c \<noteq> CHR 0x09"
    by (auto simp: code_def)
  with False show ?thesis
    by (auto simp: escape_char_def lex_escape_def simple_escape_def QUOTE_def BSLASH_def)
qed

lemma lex_string_quoted: "lex_string (concat (map escape_char s) @ QUOTE # r) = Some (s, r)"
  by (induction s) (simp_all add: lex_escape_char)

lemma lex_quote: "lex (quote s @ r) = map_option ((#) (TStr s)) (lex r)"
  by (simp add: quote_def lex.simps(2) lex1_def lex_string_quoted punct_def QUOTE_def [symmetric])
    (simp add: QUOTE_def json_ws_def code_def)

lemma digits_of_hd: "10 \<le> n \<Longrightarrow> hd (digits_of n) \<noteq> CHR ''0''"
proof (induction n rule: digits_of.induct)
  case (1 n)
  have hd_app: "hd (digits_of (n div 10) @ [c]) = hd (digits_of (n div 10))" for c
    by simp
  show ?case
  proof (cases "n div 10 < 10")
    case True
    with 1 have "n div 10 \<noteq> 0" and "hd (digits_of n) = digit_char (n div 10)"
      by (auto simp: digits_of.simps [of n] digits_of.simps [of "n div 10"])
    moreover have "digit_val (CHR ''0'') = 0" by (simp add: digit_val_def code_def)
    ultimately show ?thesis using True by (metis digit_val_char)
  next
    case False
    with 1 show ?thesis by (simp add: digits_of.simps [of n] hd_app)
  qed
qed

lemma span_digits_digits:
  "(\<And>c. c \<in> set ds \<Longrightarrow> is_digit c) \<Longrightarrow> delim r \<Longrightarrow> span_digits (ds @ r) = (ds, r)"
  by (cases r) (auto simp: span_digits_def delim_def takeWhile_append2 dropWhile_append2)

lemma delim_frac_exp [simp]: "delim r \<Longrightarrow> read_frac r = ([], r)" "delim r \<Longrightarrow> read_exp r = Some (0, r)"
  "delim r \<Longrightarrow> \<not> startsWith r ''.''"
  by (cases r; simp add: delim_def read_frac_def read_exp_def)+

lemma digits_of_zero: "hd (digits_of n) = CHR ''0'' \<Longrightarrow> length (digits_of n) = 1"
  using digits_of_hd [of n] by (cases "n < 10") (auto simp: digits_of.simps [of n])

lemma digits_of_no_minus: "\<not> startsWith (digits_of n @ r) ''-''"
  using digits_of_digits [of "hd (digits_of n)" n] digits_of_not_Nil [of n]
  by (cases "digits_of n") (auto simp: is_digit_def code_def)

lemma lex_number_show_int:
  assumes "\<bar>i\<bar> \<le> 2 ^ 53" and "delim r"
  shows "lex_number (show_int i @ r) = Some (NInt i, r)"
proof -
  have sp: "span_digits (digits_of n @ r) = (digits_of n, r)" for n
    using assms(2) digits_of_digits by (intro span_digits_digits) auto
  show ?thesis
  proof (cases "i < 0")
    case True
    with assms show ?thesis
      by (auto simp: lex_number_def show_int_def sp dec_num_def signed_def dest: digits_of_zero)
  next
    case False
    with assms digits_of_no_minus [of "nat i" r] show ?thesis
      by (auto simp: lex_number_def show_int_def sp dec_num_def signed_def dest: digits_of_zero)
  qed
qed

lemma number_start:
  "c = CHR ''-'' \<or> is_digit c \<Longrightarrow> punct c = None \<and> c \<noteq> QUOTE \<and> \<not> json_ws c"
proof -
  have "\<not> is_digit c \<and> c \<noteq> CHR ''-''" if "punct c \<noteq> None"
    using that by (auto simp: punct_def is_digit_def code_def split: if_splits)
  moreover have "\<not> is_digit c \<and> c \<noteq> CHR ''-''" if "c = QUOTE"
    using that by (simp add: QUOTE_def is_digit_def code_def)
  moreover have "\<not> is_digit c \<and> c \<noteq> CHR ''-''" if "json_ws c"
    using that by (auto simp: json_ws_def is_digit_def code_def)
  ultimately show "c = CHR ''-'' \<or> is_digit c \<Longrightarrow> punct c = None \<and> c \<noteq> QUOTE \<and> \<not> json_ws c"
    by blast
qed

lemma show_int_head:
  "\<exists>c cs. show_int i = c # cs \<and> (c = CHR ''-'' \<or> is_digit c) \<and> punct c = None \<and> c \<noteq> QUOTE \<and> \<not> json_ws c"
proof -
  have "\<exists>c cs. show_int i = c # cs \<and> (c = CHR ''-'' \<or> is_digit c)"
  proof (cases "i < 0")
    case False
    obtain c cs where "digits_of (nat i) = c # cs" by (cases "digits_of (nat i)") auto
    with False digits_of_digits [of c "nat i"] show ?thesis by (simp add: show_int_def)
  qed (simp add: show_int_def)
  then show ?thesis using number_start by blast
qed

lemma lex_show_int:
  "\<bar>i\<bar> \<le> 2 ^ 53 \<Longrightarrow> delim r \<Longrightarrow> lex (show_int i @ r) = map_option ((#) (TNum (NInt i))) (lex r)"
  using show_int_head [of i] lex_number_show_int [of i r] by (auto simp: lex1_def lex.simps(2))

lemma lex_brk [simp]: "lex (brk u l @ r) = lex r"
proof -
  have "lex (spaces n @ r) = lex r" for n
    by (induction n) (simp_all add: spaces_def json_ws_def code_def lex.simps(2))
  then show ?thesis by (simp add: brk_def NL_def json_ws_def code_def lex.simps(2))
qed

lemma lex_space [simp]: "lex (CHR '' '' # r) = lex r"
  by (simp add: json_ws_def code_def lex.simps(2))

lemma lex_punct: "punct c = Some t \<Longrightarrow> lex (c # r) = map_option ((#) t) (lex r)"
proof -
  assume p: "punct c = Some t"
  then have "\<not> json_ws c" by (auto simp: punct_def json_ws_def code_def split: if_splits)
  with p show ?thesis by (simp add: lex1_def lex.simps(2))
qed

lemma lex_puncts [simp]:
  "lex (CHR ''{'' # r) = map_option ((#) TLBrace) (lex r)"
  "lex (CHR ''}'' # r) = map_option ((#) TRBrace) (lex r)"
  "lex (CHR ''['' # r) = map_option ((#) TLBrack) (lex r)"
  "lex (CHR '']'' # r) = map_option ((#) TRBrack) (lex r)"
  "lex (CHR '':'' # r) = map_option ((#) TColon) (lex r)"
  "lex (CHR '','' # r) = map_option ((#) TComma) (lex r)"
  by (rule lex_punct, simp add: punct_def)+

lemma lex_keywords [simp]:
  "lex (''true'' @ r) = map_option ((#) TTrue) (lex r)"
  "lex (''false'' @ r) = map_option ((#) TFalse) (lex r)"
  "lex (''null'' @ r) = map_option ((#) TNull) (lex r)"
  by (simp_all add: lex.simps(2) lex1_def punct_def keyword_def QUOTE_def is_digit_def code_def json_ws_def)

lemma delim_close [simp]: "delim (brk u l @ CHR '']'' # r)" "delim (brk u l @ CHR ''}'' # r)" "delim (CHR '','' # r)"
  by (simp_all add: delim_def brk_def NL_def is_digit_def code_def)

lemma lex_join:
  assumes "xs \<noteq> []" and "delim r"
    and "\<And>x r. x \<in> set xs \<Longrightarrow> delim r \<Longrightarrow> lex (f x @ r) = map_option ((@) (g x)) (lex r)"
  shows "lex (join ('','' @ brk u l) (map f xs) @ r) = map_option ((@) (sep_tokens (map g xs))) (lex r)"
  using assms
proof (induction xs)
  case (Cons x xs)
  show ?case
  proof (cases "xs = []")
    case False
    let ?rest = "join ('','' @ brk u l) (map f xs) @ r"
    have "lex (join ('','' @ brk u l) (map f (x # xs)) @ r) = lex (f x @ CHR '','' # brk u l @ ?rest)"
      using False by (simp add: join_Cons)
    also have "\<dots> = map_option ((@) (g x)) (lex (CHR '','' # brk u l @ ?rest))"
      using Cons.prems(3) by simp
    also have "\<dots> = map_option ((@) (g x @ [TComma])) (lex ?rest)"
      by (cases "lex ?rest") simp_all
    also have "lex ?rest = map_option ((@) (sep_tokens (map g xs))) (lex r)"
      using False Cons.prems by (intro Cons.IH) auto
    finally show ?thesis
      using False by (simp add: sep_tokens_Cons option.map_comp comp_def)
  qed (use Cons.prems in simp)
qed simp

lemma json_plain_serialisable: "json_plain v \<Longrightarrow> serialisable v"
  by (cases v) auto

lemma json_text_obj:
  assumes "ps \<noteq> []" and "\<And>k v. (k, v) \<in> set ps \<Longrightarrow> serialisable v"
  shows "json_text u l (JObj ps) =
    ''{'' @ brk u (Suc l) @ join ('','' @ brk u (Suc l))
       (map (\<lambda>(k, v). quote k @ '':'' @ (if u = 0 then [] else '' '') @ json_text u (Suc l) v) ps)
     @ brk u l @ ''}''"
proof -
  have 1: "filter (serialisable \<circ> snd) ps = ps"
    using assms(2) by (auto intro!: filter_True)
  have 2: "filter fst (map (\<lambda>(k, v). (serialisable v, h k v)) ps) = map (\<lambda>(k, v). (True, h k v)) ps" for h :: "string \<Rightarrow> jsval \<Rightarrow> string"
    using assms(2) by (induction ps) (auto, blast)
  show ?thesis
    unfolding json_text.simps 1 2 using assms(1) by (simp add: comp_def case_prod_beta')
qed

lemma lex_json_text:
  "json_plain v \<Longrightarrow> delim r \<Longrightarrow> lex (json_text u l v @ r) = map_option ((@) (tokens_of v)) (lex r)"
proof (induction v arbitrary: l r)
  case (JArr xs)
  show ?case
  proof (cases "xs = []")
    case True
    then show ?thesis by (simp add: option.map_comp comp_def)
  next
    case False
    have "lex (join ('','' @ brk u (Suc l)) (map (json_text u (Suc l)) xs) @ brk u l @ CHR '']'' # r)
      = map_option ((@) (sep_tokens (map tokens_of xs))) (lex (brk u l @ CHR '']'' # r))"
      using False JArr by (intro lex_join) (auto simp: list_all_iff)
    with False show ?thesis by (simp add: option.map_comp comp_def)
  qed
next
  case (JObj ps)
  show ?case
  proof (cases "ps = []")
    case True
    then show ?thesis by (simp add: option.map_comp comp_def)
  next
    case False
    let ?f = "\<lambda>(k, v). quote k @ '':'' @ (if u = 0 then [] else '' '') @ json_text u (Suc l) v"
    let ?g = "\<lambda>(k, v). TStr k # TColon # tokens_of v"
    have ser: "\<And>k v. (k, v) \<in> set ps \<Longrightarrow> serialisable v"
      using JObj.prems by (auto simp: list_all_iff dest!: json_plain_serialisable)
    have item: "lex (?f x @ s) = map_option ((@) (?g x)) (lex s)" if x: "x \<in> set ps" and d: "delim s" for x s
    proof -
      obtain k v where kv: "x = (k, v)" by (cases x)
      with x JObj.prems have "json_plain v" by (auto simp: list_all_iff)
      moreover have "v \<in> Basic_BNFs.snds x" using kv by simp
      ultimately have "lex (json_text u (Suc l) v @ s) = map_option ((@) (tokens_of v)) (lex s)"
        using JObj.IH [OF x] d by simp
      then show ?thesis by (cases "lex s"; cases "u = 0") (simp_all add: kv lex_quote)
    qed
    have "lex (join ('','' @ brk u (Suc l)) (map ?f ps) @ brk u l @ CHR ''}'' # r)
      = map_option ((@) (sep_tokens (map ?g ps))) (lex (brk u l @ CHR ''}'' # r))"
      using False item by (intro lex_join) auto
    moreover have "lex (json_text u l (JObj ps) @ r) = map_option ((#) TLBrace)
        (lex (join ('','' @ brk u (Suc l)) (map ?f ps) @ brk u l @ CHR ''}'' # r))"
      by (simp add: json_text_obj [OF False ser] del: json_text.simps)
    ultimately show ?thesis by (simp add: option.map_comp comp_def)
  qed
next
  case (JNum n)
  then show ?case by (cases n) (simp_all add: lex_show_int)
next
  case (JStr s)
  then show ?case by (simp add: lex_quote)
next
  case (JBool b)
  then show ?case using lex_keywords by (cases b) simp_all
next
  case JNull
  then show ?case using lex_keywords by simp
qed simp_all

theorem JSON_parse_text: "json_plain v \<Longrightarrow> JSON_parse (json_text u 0 v) = Some v"
  using lex_json_text [of v "[]" u 0] prun_tokens_of [of v "[]" "[]"]
  by (simp add: JSON_parse_def delim_def)

lemma JSON_parse_stringify: "json_plain v \<Longrightarrow> JSON_stringify v = Some s \<Longrightarrow> JSON_parse s = Some v"
  by (auto simp: JSON_stringify_def JSON_parse_text split: if_splits)

lemma JSON_parse_stringify2: "json_plain v \<Longrightarrow> JSON_stringify2 v = Some s \<Longrightarrow> JSON_parse s = Some v"
  by (auto simp: JSON_stringify2_def JSON_parse_text split: if_splits)

text \<open>What is read is well formed: the keys of every object are distinct.\<close>

fun distinct_keys :: "jsval \<Rightarrow> bool" where
  "distinct_keys (JArr xs) = list_all distinct_keys xs"
| "distinct_keys (JObj ps) = (distinct (map fst ps) \<and> list_all (\<lambda>(k, v). distinct_keys v) ps)"
| "distinct_keys _ = True"

lemma set_update_prop: "set (update_prop k v ps) \<subseteq> insert (k, v) (set ps)"
  by (induction k v ps rule: update_prop.induct) auto

lemma set_def_prop: "set (def_prop k v ps) \<subseteq> insert (k, v) (set ps)"
  using set_update_prop [of k v ps] by (auto simp: def_prop_def split: option.splits)

lemma distinct_keys_def_prop:
  "distinct_keys (JObj ps) \<Longrightarrow> distinct_keys v \<Longrightarrow> distinct_keys (JObj (def_prop k v ps))"
  using set_def_prop [of k v ps] by (fastforce simp: list_all_iff intro: distinct_def_prop)

fun frame_ok :: "frame \<Rightarrow> bool" where
  "frame_ok (FArr xs) = distinct_keys (JArr xs)"
| "frame_ok (FObj ps k) = distinct_keys (JObj ps)"

fun mode_ok :: "mode \<Rightarrow> bool" where
  "mode_ok (MKey ps) = distinct_keys (JObj ps)"
| "mode_ok (MKeyOrEnd ps) = distinct_keys (JObj ps)"
| "mode_ok (MColon ps k) = distinct_keys (JObj ps)"
| "mode_ok (MAfter v) = distinct_keys v"
| "mode_ok _ = True"

lemma begin_value_ok:
  "begin_value st t = Some (st', m') \<Longrightarrow> list_all frame_ok st \<Longrightarrow> list_all frame_ok st' \<and> mode_ok m'"
  by (cases t) (auto simp: begin_value_def after_value_def)

lemma pstep_ok:
  "pstep st m t = Some (st', m') \<Longrightarrow> list_all frame_ok st \<Longrightarrow> mode_ok m \<Longrightarrow> list_all frame_ok st' \<and> mode_ok m'"
proof (cases m)
  case (MAfter v)
  assume "pstep st m t = Some (st', m')" "list_all frame_ok st" "mode_ok m"
  with MAfter show ?thesis
  proof (cases st)
    case (Cons f fs)
    then show ?thesis
      using MAfter \<open>pstep st m t = Some (st', m')\<close> \<open>list_all frame_ok st\<close> \<open>mode_ok m\<close> distinct_keys_def_prop
      by (cases f) (auto split: if_splits simp del: distinct_keys.simps(2))
  qed auto
next
  case MValueOrEnd
  assume "pstep st m t = Some (st', m')" "list_all frame_ok st" "mode_ok m"
  with MValueOrEnd show ?thesis
    by (cases st; cases "hd st") (auto dest: begin_value_ok split: if_splits)
qed (auto dest: begin_value_ok split: if_splits token.splits)

lemma prun_ok:
  "prun st m ts = Some v \<Longrightarrow> list_all frame_ok st \<Longrightarrow> mode_ok m \<Longrightarrow> distinct_keys v"
proof (induction ts arbitrary: st m)
  case Nil
  then show ?case by (auto split: list.splits mode.splits)
next
  case (Cons t ts)
  then show ?case using pstep_ok by (fastforce split: option.splits)
qed

theorem JSON_parse_distinct_keys: "JSON_parse s = Some v \<Longrightarrow> distinct_keys v"
  by (auto simp: JSON_parse_def split: option.splits intro: prun_ok)

end
