(* ===== verification/RequestModel.thy ===== *)
theory RequestModel imports JsonText begin

text \<open>
  \<^verbatim>\<open>packages/request-model/src/index.ts\<close>: the request envelope, the execution events and the
  functions over them. A field that may be \<^verbatim>\<open>null\<close> or absent is an \<open>option\<close>: the code only asks
  \<^verbatim>\<open>== null\<close> or \<^verbatim>\<open>??\<close> of it, which treats both alike. The random identifier and the clock
  are arguments.
\<close>

section \<open>Payloads\<close>

type_synonym header_list = "(string \<times> string) list"

datatype body_encoding = EncText | EncBase64

record MultipartPart =
  mp_name :: string
  mp_value :: string
  mp_fileName :: "string option"
  mp_contentType :: "string option"
  mp_base64 :: bool

record HttpPayload =
  hp_method :: string
  hp_headers :: header_list
  hp_body :: "string option"
  hp_bodyEncoding :: body_encoding
  hp_bodySource :: "string option"
  hp_multipart :: "MultipartPart list"
  hp_followRedirects :: bool

record SsePayload =
  sse_headers :: header_list
  sse_lastEventId :: "string option"
  sse_reconnectMax :: "nat option"
  sse_reconnectDelayMs :: "nat option"

record SocketPayload =
  so_data :: string
  so_encoding :: string
  so_framing :: "string option"
  so_delimiter :: "string option"
  so_fixedLength :: "nat option"
  so_sendCount :: "nat option"
  so_intervalMs :: "nat option"
  so_tls :: "bool option"
  so_serverName :: "string option"
  so_caCertRef :: "string option"

record UdpPayload =
  udp_data :: string
  udp_encoding :: string
  udp_sendCount :: nat
  udp_intervalMs :: nat

record GraphqlPayload =
  gql_query :: string
  gql_variables :: jsval
  gql_operationName :: "string option"
  gql_headers :: header_list

record WsMessage =
  wsm_encoding :: string
  wsm_data :: string

record WebSocketPayload =
  ws_headers :: header_list
  ws_subprotocols :: "string list"
  ws_messages :: "WsMessage list"
  ws_receiveLimit :: "nat option"
  ws_reconnectMax :: "nat option"
  ws_reconnectDelayMs :: "nat option"

record GrpcPayload =
  grpc_service :: string
  grpc_method :: string
  grpc_messageBase64 :: string
  grpc_mode :: string
  grpc_metadata :: header_list
  grpc_descriptorSetBase64 :: "string option"
  grpc_messageJson :: "string option"

datatype ProtocolPayload =
    PHttp HttpPayload
  | PSse SsePayload
  | PTcp SocketPayload
  | PUdp UdpPayload
  | PGraphql GraphqlPayload
  | PWebSocket WebSocketPayload
  | PGrpc GrpcPayload
  | PRaw jsval

section \<open>Envelope\<close>

record AuthRef =
  au_kind :: string
  au_secret_ref :: "string option"
  au_token :: "string option"
  au_username :: "string option"
  au_header_name :: "string option"
  au_token_url :: "string option"
  au_scope :: "string option"
  au_audience :: "string option"
  au_authorization_url :: "string option"
  au_redirect_uri :: "string option"
  au_authorization_code_ref :: "string option"
  au_code_verifier_ref :: "string option"

record RetryPolicy =
  rp_max_retries :: nat
  rp_backoff_ms :: nat

record TlsOptions =
  tls_verify :: bool
  tls_client_cert_ref :: "string option"

datatype AssertionTarget = TStatus | THeader | TBody | TJsonPath | TDuration | TSize

datatype AssertionOperator =
    OpEquals | OpNotEquals | OpIn | OpGreaterThan | OpLessThan | OpContains | OpNotContains
  | OpExists | OpNotExists | OpTypeIs | OpLengthEquals | OpLengthGreaterThan | OpLengthLessThan

record Assertion =
  as_id :: string
  as_enabled :: bool
  as_target :: AssertionTarget
  as_operator :: AssertionOperator
  as_selector :: "string option"
  as_expected :: "string option"

record RequestEnvelope =
  re_id :: string
  re_protocolId :: string
  re_name :: string
  re_target :: string
  re_environmentRef :: "string option"
  re_authRef :: "AuthRef option"
  re_timeoutMs :: nat
  re_retryPolicy :: RetryPolicy
  re_proxy :: "string option"
  re_tls :: TlsOptions
  re_metadata :: jsval
  re_payload :: ProtocolPayload
  re_preScripts :: "string list"
  re_postScripts :: "string list"
  re_assertions :: "Assertion list"
  re_variables :: header_list
  re_createdAt :: string

section \<open>Execution events\<close>

datatype ExecutionState = Queued | Running | Completed | Failed | Cancelled

datatype ExecutionPhase =
    Validate | Resolve | PreScript | Connect | Transfer | PostScript | Assert | Persist

record ExecutionSummary =
  es_executionId :: string
  es_requestId :: string
  es_protocolId :: string
  es_state :: ExecutionState
  es_startedAt :: string
  es_finishedAt :: string
  es_durationMs :: nat
  es_bytesReceived :: nat
  es_status :: "int option"

record AssertionResultEvent =
  ar_ruleId :: "string option"
  ar_name :: string
  ar_passed :: bool
  ar_expected :: "string option"
  ar_actual :: "string option"
  ar_message :: "string option"

record ResponseMeta =
  rm_status :: "int option"
  rm_statusText :: "string option"
  rm_headers :: header_list
  rm_contentType :: "string option"
  rm_sizeHint :: "nat option"

datatype ExecutionEvent =
    StateChanged ExecutionState "ExecutionPhase option"
  | Log string string
  | VariablesExtracted header_list
  | Metric string jsnum string
  | ResponseMetaEv ResponseMeta
  | ResponseChunk "string option" nat "string option" "string option" bool
  | AssertionResult AssertionResultEvent
  | Warning string string
  | CompletedEv ExecutionSummary
  | FailedEv string string
  | CancelledEv "string option"

fun reduceCompletedResponsePreview :: "string option \<Rightarrow> ExecutionEvent \<Rightarrow> string option" where
  "reduceCompletedResponsePreview current (ResponseChunk ct sz preview data done) =
     (if done \<and> preview \<noteq> None then preview else current)"
| "reduceCompletedResponsePreview current _ = current"

text \<open>\<^verbatim>\<open>candidates.find((candidate) => candidate != null) ?? null\<close>.\<close>

definition selectResponsePreview :: "string option list \<Rightarrow> string option" where
  "selectResponsePreview candidates =
     (case find (\<lambda>c. c \<noteq> None) candidates of Some c \<Rightarrow> c | None \<Rightarrow> None)"

section \<open>Building a request\<close>

record CreateHttpRequestOptions =
  co_name :: "string option"
  co_url :: string
  co_method :: "string option"
  co_headers :: "header_list option"
  co_body :: "string option"
  co_bodyEncoding :: "body_encoding option"
  co_bodySource :: "string option"
  co_multipart :: "MultipartPart list option"
  co_timeoutMs :: "nat option"
  co_followRedirects :: "bool option"
  co_variables :: "header_list option"
  co_assertions :: "Assertion list option"
  co_auth :: "AuthRef option"
  co_environmentRef :: "string option"
  co_retryPolicy :: "RetryPolicy option"
  co_proxy :: "string option"
  co_tls :: "TlsOptions option"
  co_preScripts :: "string list option"
  co_postScripts :: "string list option"

definition or_default :: "'a option \<Rightarrow> 'a \<Rightarrow> 'a" where
  "or_default x d = (case x of Some v \<Rightarrow> v | None \<Rightarrow> d)"

lemma or_default_simps [simp]: "or_default (Some v) d = v" "or_default None d = d"
  by (simp_all add: or_default_def)

definition createHttpRequest :: "string \<Rightarrow> string \<Rightarrow> CreateHttpRequestOptions \<Rightarrow> RequestEnvelope" where
  "createHttpRequest uuid now opts =
     (let method = toUpperCase (or_default (co_method opts) ''GET'') in
      \<lparr> re_id = uuid,
        re_protocolId = ''http'',
        re_name = or_default (co_name opts) (method @ '' '' @ co_url opts),
        re_target = co_url opts,
        re_environmentRef = co_environmentRef opts,
        re_authRef = co_auth opts,
        re_timeoutMs = or_default (co_timeoutMs opts) 30000,
        re_retryPolicy = or_default (co_retryPolicy opts) \<lparr> rp_max_retries = 0, rp_backoff_ms = 0 \<rparr>,
        re_proxy = co_proxy opts,
        re_tls = or_default (co_tls opts) \<lparr> tls_verify = True, tls_client_cert_ref = None \<rparr>,
        re_metadata = JObj [],
        re_payload = PHttp
          \<lparr> hp_method = method,
            hp_headers = or_default (co_headers opts) [],
            hp_body = co_body opts,
            hp_bodyEncoding = or_default (co_bodyEncoding opts) EncText,
            hp_bodySource = co_bodySource opts,
            hp_multipart = or_default (co_multipart opts) [],
            hp_followRedirects = or_default (co_followRedirects opts) True \<rparr>,
        re_preScripts = or_default (co_preScripts opts) [],
        re_postScripts = or_default (co_postScripts opts) [],
        re_assertions = or_default (co_assertions opts) [],
        re_variables = or_default (co_variables opts) [],
        re_createdAt = now \<rparr>)"

definition http_options :: "string \<Rightarrow> CreateHttpRequestOptions" where
  "http_options url =
     \<lparr> co_name = None, co_url = url, co_method = None, co_headers = None, co_body = None,
       co_bodyEncoding = None, co_bodySource = None, co_multipart = None, co_timeoutMs = None,
       co_followRedirects = None, co_variables = None, co_assertions = None, co_auth = None,
       co_environmentRef = None, co_retryPolicy = None, co_proxy = None, co_tls = None,
       co_preScripts = None, co_postScripts = None \<rparr>"

definition createHttpGetRequest :: "string \<Rightarrow> string \<Rightarrow> string \<Rightarrow> string \<Rightarrow> RequestEnvelope" where
  "createHttpGetRequest uuid now name url =
     createHttpRequest uuid now ((http_options url)\<lparr> co_name := Some name, co_method := Some ''GET'' \<rparr>)"

definition PROTOCOL_API_VERSION :: string where "PROTOCOL_API_VERSION = ''1''"
definition CLIENT_VERSION :: string where "CLIENT_VERSION = ''0.1.0''"

section \<open>Properties\<close>

text \<open>The previews of the final chunks of an event stream, in order.\<close>

fun done_previews :: "ExecutionEvent list \<Rightarrow> string list" where
  "done_previews [] = []"
| "done_previews (ResponseChunk ct sz (Some p) data True # es) = p # done_previews es"
| "done_previews (_ # es) = done_previews es"

lemma fold_preview_general:
  "foldl reduceCompletedResponsePreview cur es =
     (if done_previews es = [] then cur else Some (last (done_previews es)))"
  by (induction es arbitrary: cur rule: done_previews.induct) auto

text \<open>Folding an execution's events gives the preview of the last completed chunk that carried
  one, an empty body included; chunks still in flight, chunks without a preview and all other events
  never change the selected preview.\<close>

theorem completed_preview_is_last_done:
  "foldl reduceCompletedResponsePreview None es =
     (if done_previews es = [] then None else Some (last (done_previews es)))"
  by (rule fold_preview_general)

lemma selectResponsePreview_first:
  "selectResponsePreview (replicate n None @ Some p # cs) = Some p"
  by (induction n) (simp_all add: selectResponsePreview_def)

end
