(* ===== verification/ImportBudget.thy ===== *)
theory ImportBudget imports JsonText begin

text \<open>
  The resource budget of \<^verbatim>\<open>packages/import-export/src/index.ts\<close>: the limits, the counters every step of
  an import draws on, and \<^verbatim>\<open>validateStructure\<close>, the walk over a parsed document with an explicit stack.
  The counters share one contract, the locale \<open>limited_counter\<close>: a draw succeeds exactly while the
  limit is not reached, and counts one. The walk is shown equivalent to two recursive measures of the
  document, its number of nodes and its depth.
\<close>

section \<open>Errors\<close>

datatype import_error =
    FileTooLarge | TooManyDocuments | TotalTooLarge | TooDeep | TooManyNodes | TooManyRefs
  | TooManyRequests | NotAnObject | ExternalRef string | RefCycle string | BadFragment string
  | RefMissing string | MissingDocument string | LoadFailed string | MalformedUri | InvalidUrl
  | ParseFailed | JsonSyntax | UnknownFormat | SensitiveData nat

section \<open>Limits and counters\<close>

definition IMPORT_MAX_FILE_BYTES :: nat where "IMPORT_MAX_FILE_BYTES = 8 * 1024 * 1024"
definition IMPORT_MAX_TOTAL_BYTES :: nat where "IMPORT_MAX_TOTAL_BYTES = 24 * 1024 * 1024"
definition IMPORT_MAX_DOCUMENTS :: nat where "IMPORT_MAX_DOCUMENTS = 64"
definition IMPORT_MAX_DEPTH :: nat where "IMPORT_MAX_DEPTH = 128"
definition IMPORT_MAX_NODES :: nat where "IMPORT_MAX_NODES = 100000"
definition IMPORT_MAX_REFS :: nat where "IMPORT_MAX_REFS = 10000"
definition IMPORT_MAX_REQUESTS :: nat where "IMPORT_MAX_REQUESTS = 10000"

lemmas import_limits = IMPORT_MAX_FILE_BYTES_def IMPORT_MAX_TOTAL_BYTES_def IMPORT_MAX_DOCUMENTS_def
  IMPORT_MAX_DEPTH_def IMPORT_MAX_NODES_def IMPORT_MAX_REFS_def IMPORT_MAX_REQUESTS_def

record ImportBudget =
  documents :: nat
  bytes :: nat
  nodes :: nat
  refs :: nat
  requests :: nat

definition createBudget :: ImportBudget where
  "createBudget = \<lparr> documents = 0, bytes = 0, nodes = 0, refs = 0, requests = 0 \<rparr>"

text \<open>The length of the UTF-8 encoding: two bytes for the code units 128 to 255.\<close>

definition textBytes :: "string \<Rightarrow> nat" where
  "textBytes s = sum_list (map (\<lambda>c. if code c < 128 then 1 else 2) s)"

definition consumeDocument :: "ImportBudget \<Rightarrow> string \<Rightarrow> (import_error, ImportBudget) result" where
  "consumeDocument b text =
     (let size = textBytes text in
      if size > IMPORT_MAX_FILE_BYTES then Inl FileTooLarge
      else
        (let b' = b\<lparr> documents := documents b + 1, bytes := bytes b + size \<rparr> in
         if documents b' > IMPORT_MAX_DOCUMENTS then Inl TooManyDocuments
         else if bytes b' > IMPORT_MAX_TOTAL_BYTES then Inl TotalTooLarge
         else Inr b'))"

definition consumeNode :: "ImportBudget \<Rightarrow> nat \<Rightarrow> (import_error, ImportBudget) result" where
  "consumeNode b depth =
     (if depth > IMPORT_MAX_DEPTH then Inl TooDeep
      else
        (let b' = b\<lparr> nodes := nodes b + 1 \<rparr> in
         if nodes b' > IMPORT_MAX_NODES then Inl TooManyNodes else Inr b'))"

definition consumeRef :: "ImportBudget \<Rightarrow> (import_error, ImportBudget) result" where
  "consumeRef b =
     (let b' = b\<lparr> refs := refs b + 1 \<rparr> in
      if refs b' > IMPORT_MAX_REFS then Inl TooManyRefs else Inr b')"

definition consumeRequest :: "ImportBudget \<Rightarrow> (import_error, ImportBudget) result" where
  "consumeRequest b =
     (let b' = b\<lparr> requests := requests b + 1 \<rparr> in
      if requests b' > IMPORT_MAX_REQUESTS then Inl TooManyRequests else Inr b')"

section \<open>The walk over a document\<close>

text \<open>The stack of \<^verbatim>\<open>validateStructure\<close>, its top first: a popped value is counted at its depth and its
  children are pushed in order, so that the last one is on top.\<close>

definition children :: "jsval \<Rightarrow> jsval list" where
  "children v = (if isArray v then elements v else if is_object v then map snd (entries v) else [])"

fun node_count :: "jsval \<Rightarrow> nat" where
  "node_count (JArr xs) = Suc (sum_list (map node_count xs))"
| "node_count (JObj ps) = Suc (sum_list (map (\<lambda>(k, v). node_count v) ps))"
| "node_count _ = 1"

lemma node_count_children: "node_count v = Suc (sum_list (map node_count (children v)))"
  by (cases v) (auto simp: children_def comp_def case_prod_beta' is_object_cases)

function validate_loop :: "(jsval \<times> nat) list \<Rightarrow> ImportBudget \<Rightarrow> (import_error, ImportBudget) result" where
  "validate_loop [] b = Inr b"
| "validate_loop ((v, depth) # stack) b =
     try_bind (consumeNode b depth)
       (\<lambda>b'. validate_loop (rev (map (\<lambda>c. (c, depth + 1)) (children v)) @ stack) b')"
  by pat_completeness auto
termination
proof (relation "measure (\<lambda>(st, b). sum_list (map (node_count \<circ> fst) st))", goal_cases)
  case (2 v depth stack b x)
  have "sum_list (map (node_count \<circ> fst) (rev (map (\<lambda>c. (c, depth + 1)) (children v))))
      = sum_list (map node_count (children v))"
    by (simp add: rev_map [symmetric] sum_list_rev comp_def)
  then show ?case by (simp add: node_count_children [of v])
qed simp

definition validateStructure :: "jsval \<Rightarrow> (import_error, unit) result" where
  "validateStructure root = try_bind (validate_loop [(root, 0)] createBudget) (\<lambda>_. Inr ())"

text \<open>\<^verbatim>\<open>object(value)\<close>: the own properties of a non-array object.\<close>

definition as_object :: "jsval \<Rightarrow> (import_error, props) result" where
  "as_object v = (if \<not> is_record v then Inl NotAnObject else Inr (entries v))"

lemma as_object_simps [simp]: "as_object (JObj ps) = Inr ps" "as_object (JArr xs) = Inl NotAnObject"
  "as_object JUndef = Inl NotAnObject" "as_object (JStr s) = Inl NotAnObject"
  by (simp_all add: as_object_def)

section \<open>The contract of the counters\<close>

locale limited_counter =
  fixes consume :: "'s \<Rightarrow> ('e, 's) result"
    and used :: "'s \<Rightarrow> nat"
    and limit :: nat
  assumes consume_Inr: "consume s = Inr t \<Longrightarrow> used t = Suc (used s)"
    and consume_fails: "(\<exists>e. consume s = Inl e) \<longleftrightarrow> limit \<le> used s"
begin

lemma consume_bounded: "consume s = Inr t \<Longrightarrow> used t \<le> limit"
  using consume_Inr [of s t] consume_fails [of s] by auto

text \<open>A loop that draws once per item.\<close>

lemma consume_all_used:
  "try_fold (\<lambda>_. consume) xs s = Inr t \<Longrightarrow> used t = used s + length xs"
proof (induction xs arbitrary: s)
  case (Cons x xs)
  then obtain u where "consume s = Inr u" "try_fold (\<lambda>_. consume) xs u = Inr t"
    by (auto simp: try_bind_Inr_iff)
  with Cons.IH consume_Inr show ?case by fastforce
qed simp

lemma consume_all_iff:
  "(\<exists>t. try_fold (\<lambda>_. consume) xs s = Inr t) \<longleftrightarrow> xs = [] \<or> used s + length xs \<le> limit"
proof (induction xs arbitrary: s)
  case (Cons x xs)
  show ?case
  proof (cases "consume s")
    case (Inl e)
    with consume_fails [of s] have "limit \<le> used s" by blast
    with Inl show ?thesis by simp
  next
    case (Inr u)
    then have "used u = Suc (used s)" and "\<not> limit \<le> used s"
      using consume_Inr consume_fails [of s] by auto
    with Inr Cons.IH [of u] show ?thesis by auto
  qed
qed simp

end

interpretation node_counter: limited_counter "\<lambda>b. consumeNode b (min d IMPORT_MAX_DEPTH)" nodes IMPORT_MAX_NODES
  for d
  by unfold_locales (auto simp: consumeNode_def Let_def split: if_splits)

interpretation ref_counter: limited_counter consumeRef refs IMPORT_MAX_REFS
  by unfold_locales (auto simp: consumeRef_def Let_def split: if_splits)

interpretation request_counter: limited_counter consumeRequest requests IMPORT_MAX_REQUESTS
  by unfold_locales (auto simp: consumeRequest_def Let_def split: if_splits)

section \<open>The walk accepts exactly the documents within the limits\<close>

definition max_list :: "nat list \<Rightarrow> nat" where
  "max_list xs = foldr max xs 0"

lemma max_list_le: "d + max_list xs \<le> n \<longleftrightarrow> d \<le> n \<and> (\<forall>x \<in> set xs. d + x \<le> n)"
  by (induction xs) (auto simp: max_list_def)

fun tree_depth :: "jsval \<Rightarrow> nat" where
  "tree_depth (JArr xs) = (if xs = [] then 0 else Suc (max_list (map tree_depth xs)))"
| "tree_depth (JObj ps) = (if ps = [] then 0 else Suc (max_list (map (\<lambda>(k, v). tree_depth v) ps)))"
| "tree_depth _ = 0"

lemma tree_depth_eq:
  "tree_depth v = (if children v = [] then 0 else Suc (max_list (map tree_depth (children v))))"
  by (cases v) (auto simp: children_def is_object_cases comp_def case_prod_beta')

lemma tree_depth_children:
  "d + tree_depth v \<le> n \<longleftrightarrow> d \<le> n \<and> (\<forall>c \<in> set (children v). Suc d + tree_depth c \<le> n)"
  using max_list_le [of "Suc d" "map tree_depth (children v)" n]
  by (cases "children v = []") (auto simp: tree_depth_eq [of v])

lemma consumeNode_Inr_iff:
  "consumeNode b d = Inr b' \<longleftrightarrow> d \<le> IMPORT_MAX_DEPTH \<and> nodes b < IMPORT_MAX_NODES \<and> b' = b\<lparr> nodes := Suc (nodes b) \<rparr>"
  by (auto simp: consumeNode_def Let_def)

lemma validate_loop_iff:
  "(\<exists>b'. validate_loop st b = Inr b') \<longleftrightarrow>
     st = [] \<or> nodes b + sum_list (map (node_count \<circ> fst) st) \<le> IMPORT_MAX_NODES
       \<and> (\<forall>(v, d) \<in> set st. d + tree_depth v \<le> IMPORT_MAX_DEPTH)"
proof (induction st b rule: validate_loop.induct)
  case (2 v depth stack b)
  let ?st = "rev (map (\<lambda>c. (c, depth + 1)) (children v)) @ stack"
  have sum: "sum_list (map (node_count \<circ> fst) ((v, depth) # stack)) = Suc (sum_list (map (node_count \<circ> fst) ?st))"
    by (simp add: node_count_children [of v] rev_map [symmetric] sum_list_rev comp_def)
  have dep: "(\<forall>(v, d) \<in> set ((v, depth) # stack). d + tree_depth v \<le> IMPORT_MAX_DEPTH) \<longleftrightarrow>
      depth \<le> IMPORT_MAX_DEPTH \<and> (\<forall>(v, d) \<in> set ?st. d + tree_depth v \<le> IMPORT_MAX_DEPTH)"
    using tree_depth_children [of depth v IMPORT_MAX_DEPTH] by (auto simp: ball_Un)
  show ?case
  proof (cases "depth \<le> IMPORT_MAX_DEPTH \<and> nodes b < IMPORT_MAX_NODES")
    case True
    then have c: "consumeNode b depth = Inr (b\<lparr> nodes := Suc (nodes b) \<rparr>)"
      by (simp add: consumeNode_Inr_iff)
    have "(\<exists>b'. validate_loop ((v, depth) # stack) b = Inr b') \<longleftrightarrow>
        (\<exists>b'. validate_loop ?st (b\<lparr> nodes := Suc (nodes b) \<rparr>) = Inr b')"
      by (simp only: validate_loop.simps(2) c try_bind_simps)
    also have "\<dots> \<longleftrightarrow> ?st = [] \<or> nodes (b\<lparr> nodes := Suc (nodes b) \<rparr>) + sum_list (map (node_count \<circ> fst) ?st) \<le> IMPORT_MAX_NODES
       \<and> (\<forall>(v, d) \<in> set ?st. d + tree_depth v \<le> IMPORT_MAX_DEPTH)"
      by (rule "2.IH" [OF c])
    also have "\<dots> \<longleftrightarrow> nodes b + sum_list (map (node_count \<circ> fst) ((v, depth) # stack)) \<le> IMPORT_MAX_NODES
       \<and> (\<forall>(v, d) \<in> set ((v, depth) # stack). d + tree_depth v \<le> IMPORT_MAX_DEPTH)"
      unfolding sum dep using True by (cases "?st = []") auto
    finally show ?thesis by blast
  next
    case False
    then obtain e where "consumeNode b depth = Inl e"
      by (cases "consumeNode b depth") (auto simp: consumeNode_Inr_iff)
    with False sum dep show ?thesis by auto
  qed
qed simp

theorem validateStructure_iff:
  "validateStructure v = Inr () \<longleftrightarrow> node_count v \<le> IMPORT_MAX_NODES \<and> tree_depth v \<le> IMPORT_MAX_DEPTH"
proof -
  have "validateStructure v = Inr () \<longleftrightarrow> (\<exists>b'. validate_loop [(v, 0)] createBudget = Inr b')"
    by (simp add: validateStructure_def try_bind_Inr_iff)
  then show ?thesis by (simp add: validate_loop_iff createBudget_def del: validate_loop.simps)
qed

end
