(* ===== verification/JsRegex.thy ===== *)
theory JsRegex imports JsString begin

text \<open>
  Regular expressions of ECMAScript as the program writes them: a syntax tree per literal and a
  backtracking matcher. \<open>rmatch r s (i, cs)\<close> lists the ways \<open>r\<close> can match \<open>s\<close> from position \<open>i\<close> in the
  order the ECMAScript matcher tries them, each with its end position and captures; the first one is the
  match JavaScript reports. A group repeated by a quantifier must make progress, as in the standard.
\<close>

datatype re =
    RSet "char \<Rightarrow> bool"
  | REps
  | RSeq re re
  | RAlt re re
  | RStar re
  | RStarLazy re
  | RGroup nat re
  | RBol
  | REol
  | RBolM
  | REolM
  | RWordB

type_synonym caps = "(nat \<times> (nat \<times> nat)) list"
type_synonym rstate = "nat \<times> caps"

definition is_nl :: "char \<Rightarrow> bool" where
  "is_nl c = (c = CHR 0x0A \<or> c = CHR 0x0D)"

definition word_at :: "string \<Rightarrow> nat \<Rightarrow> bool" where
  "word_at s i = (i < length s \<and> is_word (s ! i))"

lemma concat_map_cong [fundef_cong]:
  "xs = ys \<Longrightarrow> (\<And>x. x \<in> set ys \<Longrightarrow> f x = g x) \<Longrightarrow> concat (map f xs) = concat (map g ys)"
  by (metis map_cong)

function rmatch :: "re \<Rightarrow> string \<Rightarrow> rstate \<Rightarrow> rstate list" where
  "rmatch (RSet p) s st = (if fst st < length s \<and> p (s ! fst st) then [(Suc (fst st), snd st)] else [])"
| "rmatch REps s st = [st]"
| "rmatch (RSeq a b) s st = concat (map (rmatch b s) (rmatch a s st))"
| "rmatch (RAlt a b) s st = rmatch a s st @ rmatch b s st"
| "rmatch (RStar a) s st =
     concat (map (\<lambda>st'. if fst st < fst st' \<and> fst st' \<le> length s then rmatch (RStar a) s st' else [])
       (rmatch a s st)) @ [st]"
| "rmatch (RStarLazy a) s st =
     st # concat (map (\<lambda>st'. if fst st < fst st' \<and> fst st' \<le> length s then rmatch (RStarLazy a) s st' else [])
       (rmatch a s st))"
| "rmatch (RGroup n a) s st = map (\<lambda>(j, cs). (j, (n, (fst st, j)) # cs)) (rmatch a s st)"
| "rmatch RBol s st = (if fst st = 0 then [st] else [])"
| "rmatch REol s st = (if fst st = length s then [st] else [])"
| "rmatch RBolM s st = (if fst st = 0 \<or> (fst st \<le> length s \<and> is_nl (s ! (fst st - 1))) then [st] else [])"
| "rmatch REolM s st = (if fst st = length s \<or> (fst st < length s \<and> is_nl (s ! fst st)) then [st] else [])"
| "rmatch RWordB s st =
     (if (fst st > 0 \<and> word_at s (fst st - 1)) \<noteq> word_at s (fst st) then [st] else [])"
  by pat_completeness auto
termination
  by (relation "measures [\<lambda>(r, s, st). size r, \<lambda>(r, s, st). length s - fst st]") auto

declare rmatch.simps(5) [simp del] rmatch.simps(6) [simp del]

text \<open>Notations of the literals: optional, one or more, a fixed text, the same ignoring case, a choice of
  texts, a bounded repetition.\<close>

definition ROpt :: "re \<Rightarrow> re" where "ROpt r = RAlt r REps"
definition RPlus :: "re \<Rightarrow> re" where "RPlus r = RSeq r (RStar r)"
text \<open>\<^verbatim>\<open>.\<close> on the texts of the model; the separators U+2028 and U+2029, which it does not match either, are not among them.\<close>

definition RAny :: re where "RAny = RSet (\<lambda>c. \<not> is_nl c)"
definition RAll :: re where "RAll = RSet (\<lambda>c. True)"
definition RSpace :: re where "RSpace = RSet js_ws"
definition RNonSpace :: re where "RNonSpace = RSet (\<lambda>c. \<not> js_ws c)"
definition RDigit :: re where "RDigit = RSet is_digit"
definition RWord :: re where "RWord = RSet is_word"
definition ROne :: "string \<Rightarrow> re" where "ROne cs = RSet (\<lambda>c. c \<in> set cs)"
definition RNone :: "string \<Rightarrow> re" where "RNone cs = RSet (\<lambda>c. c \<notin> set cs)"

definition same_letter :: "char \<Rightarrow> char \<Rightarrow> bool" where
  "same_letter a b = (lower_char a = lower_char b)"

fun RLit :: "string \<Rightarrow> re" where
  "RLit [] = REps"
| "RLit [c] = RSet (\<lambda>d. d = c)"
| "RLit (c # cs) = RSeq (RSet (\<lambda>d. d = c)) (RLit cs)"

fun RLitI :: "string \<Rightarrow> re" where
  "RLitI [] = REps"
| "RLitI [c] = RSet (same_letter c)"
| "RLitI (c # cs) = RSeq (RSet (same_letter c)) (RLitI cs)"

fun RAlts :: "re list \<Rightarrow> re" where
  "RAlts [] = RSet (\<lambda>c. False)"
| "RAlts [r] = r"
| "RAlts (r # rs) = RAlt r (RAlts rs)"

fun RSeqs :: "re list \<Rightarrow> re" where
  "RSeqs [] = REps"
| "RSeqs [r] = r"
| "RSeqs (r # rs) = RSeq r (RSeqs rs)"

fun RUpTo :: "nat \<Rightarrow> re \<Rightarrow> re" where
  "RUpTo 0 r = REps"
| "RUpTo (Suc n) r = ROpt (RSeq r (RUpTo n r))"

section \<open>Searching\<close>

record rmatch_result =
  m_start :: nat
  m_end :: nat
  m_caps :: caps

text \<open>\<open>rexec_from n r s i\<close>: the leftmost match that starts at one of the \<open>n\<close> positions from \<open>i\<close>.\<close>

fun rexec_from :: "nat \<Rightarrow> re \<Rightarrow> string \<Rightarrow> nat \<Rightarrow> rmatch_result option" where
  "rexec_from 0 r s i = None"
| "rexec_from (Suc n) r s i =
     (case rmatch r s (i, []) of
        (j, cs) # _ \<Rightarrow> Some \<lparr> m_start = i, m_end = j, m_caps = cs \<rparr>
      | [] \<Rightarrow> rexec_from n r s (Suc i))"

definition rexec :: "re \<Rightarrow> string \<Rightarrow> nat \<Rightarrow> rmatch_result option" where
  "rexec r s i = rexec_from (Suc (length s) - i) r s i"

definition rtest :: "re \<Rightarrow> string \<Rightarrow> bool" where
  "rtest r s = (rexec r s 0 \<noteq> None)"

text \<open>The text of the whole match and of group \<open>n\<close> (\<open>None\<close> is \<^verbatim>\<open>undefined\<close>).\<close>

definition m_text :: "string \<Rightarrow> rmatch_result \<Rightarrow> string" where
  "m_text s m = slice (m_start m) (m_end m) s"

definition m_group :: "string \<Rightarrow> rmatch_result \<Rightarrow> nat \<Rightarrow> string option" where
  "m_group s m n = map_option (\<lambda>(i, j). slice i j s) (map_of (m_caps m) n)"

text \<open>All matches of a global expression, from left to right: the next search starts where the last match
  ended, one further after an empty match.\<close>

fun rall_from :: "nat \<Rightarrow> re \<Rightarrow> string \<Rightarrow> nat \<Rightarrow> rmatch_result list" where
  "rall_from 0 r s i = []"
| "rall_from (Suc n) r s i =
     (case rexec r s i of
        None \<Rightarrow> []
      | Some m \<Rightarrow> m # rall_from n r s (if m_end m \<le> i then Suc i else m_end m))"

definition rmatchAll :: "re \<Rightarrow> string \<Rightarrow> rmatch_result list" where
  "rmatchAll r s = rall_from (Suc (Suc (length s))) r s 0"

text \<open>\<^verbatim>\<open>s.replace(/r/g, f)\<close>.\<close>

fun splice :: "string \<Rightarrow> nat \<Rightarrow> (rmatch_result \<Rightarrow> string) \<Rightarrow> rmatch_result list \<Rightarrow> string" where
  "splice s i f [] = drop i s"
| "splice s i f (m # ms) = slice i (m_start m) s @ f m @ splice s (m_end m) f ms"

definition rreplaceAll :: "re \<Rightarrow> (rmatch_result \<Rightarrow> string) \<Rightarrow> string \<Rightarrow> string" where
  "rreplaceAll r f s = splice s 0 f (rmatchAll r s)"

text \<open>\<^verbatim>\<open>s.replace(/r/, f)\<close>.\<close>

definition rreplace :: "re \<Rightarrow> (rmatch_result \<Rightarrow> string) \<Rightarrow> string \<Rightarrow> string" where
  "rreplace r f s = splice s 0 f (case rexec r s 0 of None \<Rightarrow> [] | Some m \<Rightarrow> [m])"

section \<open>Laws\<close>

text \<open>A match ends at or after its start and inside the text.\<close>

lemma rmatch_bounds:
  "(j, cs) \<in> set (rmatch r s st) \<Longrightarrow> fst st \<le> length s \<Longrightarrow> fst st \<le> j \<and> j \<le> length s"
proof (induction r s st arbitrary: j cs rule: rmatch.induct)
  case (3 a b s st)
  then obtain st' where st': "st' \<in> set (rmatch a s st)" and j: "(j, cs) \<in> set (rmatch b s st')"
    by auto
  then have "fst st \<le> fst st' \<and> fst st' \<le> length s"
    using "3.IH"(1) "3.prems"(2) by (metis prod.collapse)
  with "3.IH"(2) [OF st'] j show ?case by fastforce
next
  case (5 a s st)
  from "5.prems"(1) consider "(j, cs) = st"
    | st' where "st' \<in> set (rmatch a s st)" "fst st < fst st'" "fst st' \<le> length s" "(j, cs) \<in> set (rmatch (RStar a) s st')"
    unfolding rmatch.simps(5) [of a s st] by (auto split: if_splits)
  then show ?case
  proof cases
    case 1
    with "5.prems" show ?thesis by auto
  next
    case 2
    from "5.IH"(2) [OF 2(1) _ 2(4) 2(3)] 2(2,3) show ?thesis by simp
  qed
next
  case (6 a s st)
  from "6.prems"(1) consider "(j, cs) = st"
    | st' where "st' \<in> set (rmatch a s st)" "fst st < fst st'" "fst st' \<le> length s" "(j, cs) \<in> set (rmatch (RStarLazy a) s st')"
    unfolding rmatch.simps(6) [of a s st] by (auto split: if_splits)
  then show ?case
  proof cases
    case 1
    with "6.prems" show ?thesis by auto
  next
    case 2
    from "6.IH"(2) [OF 2(1) _ 2(4) 2(3)] 2(2,3) show ?thesis by simp
  qed
qed (auto split: if_splits)

lemma rexec_from_bounds:
  "rexec_from n r s i = Some m \<Longrightarrow> i + n \<le> Suc (length s) \<Longrightarrow>
     i \<le> m_start m \<and> m_start m \<le> m_end m \<and> m_end m \<le> length s"
proof (induction n arbitrary: i)
  case (Suc n)
  show ?case
  proof (cases "rmatch r s (i, [])")
    case Nil
    with Suc.IH [of "Suc i"] Suc.prems show ?thesis by auto
  next
    case (Cons x xs)
    obtain j cs where x: "x = (j, cs)" by (cases x)
    with Cons have "(j, cs) \<in> set (rmatch r s (i, []))" by simp
    from rmatch_bounds [OF this] Suc.prems Cons x show ?thesis by auto
  qed
qed simp

lemma rexec_bounds:
  "rexec r s i = Some m \<Longrightarrow> i \<le> m_start m \<and> m_start m \<le> m_end m \<and> m_end m \<le> length s"
proof -
  assume m: "rexec r s i = Some m"
  then have "i \<le> length s"
    by (cases "i \<le> length s") (auto simp: rexec_def)
  with m show ?thesis
    unfolding rexec_def by (intro rexec_from_bounds) auto
qed

text \<open>An expression is found exactly when it matches at some position.\<close>

lemma rexec_from_None: "rexec_from n r s i = None \<longleftrightarrow> (\<forall>j < n. rmatch r s (i + j, []) = [])"
proof (induction n arbitrary: i)
  case (Suc n)
  have "rexec_from (Suc n) r s i = None \<longleftrightarrow> rmatch r s (i, []) = [] \<and> rexec_from n r s (Suc i) = None"
    by (auto split: list.splits)
  also have "\<dots> \<longleftrightarrow> (\<forall>j < Suc n. rmatch r s (i + j, []) = [])"
    unfolding Suc.IH by (auto simp: less_Suc_eq_0_disj)
  finally show ?case .
qed simp

lemma rtest_iff: "rtest r s \<longleftrightarrow> (\<exists>i \<le> length s. rmatch r s (i, []) \<noteq> [])"
  using rexec_from_None [of "Suc (length s)" r s 0]
  by (auto simp: rtest_def rexec_def less_Suc_eq_le simp del: rexec_from.simps)

text \<open>A text ignoring case matches where it stands.\<close>

definition same_text :: "string \<Rightarrow> string \<Rightarrow> bool" where
  "same_text w v = list_all2 same_letter w v"

lemma rmatch_LitI:
  "same_text w v \<Longrightarrow> rmatch (RLitI w) (u @ v @ t) (length u, cs) = [(length u + length v, cs)]"
proof (induction w arbitrary: u v rule: RLitI.induct)
  case (1 u v)
  then show ?case by (simp add: same_text_def)
next
  case (2 c)
  then show ?case by (auto simp: same_text_def list_all2_Cons1 nth_append)
next
  case (3 c d w)
  then obtain e v' where v: "v = e # v'" "same_letter c e" "same_text (d # w) v'"
    by (auto simp: same_text_def list_all2_Cons1)
  from "3.IH" [OF v(3), of "u @ [e]"] v show ?case by (simp add: nth_append)
qed

lemma rmatch_Alts: "x \<in> set (rmatch r s st) \<Longrightarrow> r \<in> set rs \<Longrightarrow> x \<in> set (rmatch (RAlts rs) s st)"
  by (induction rs rule: RAlts.induct) auto

lemma same_text_lower: "same_text (toLowerCase v) v"
proof -
  have "same_letter (lower_char c) c" for c
    by (simp add: same_letter_def)
  then show ?thesis
    by (auto simp: same_text_def toLowerCase_def list_all2_map1 intro!: list.rel_refl_strong)
qed

end
