(* ===== verification/ImportOpenApi.thy ===== *)
theory ImportOpenApi imports ImportBudget JsRegex begin

text \<open>
  The OpenAPI part of \<^verbatim>\<open>packages/import-export/src/index.ts\<close>: JSON pointers, relative references
  between documents, the dereferencing of a document and its files, example values for schemas, and
  the translation of the operations into requests. Code outside the repository is a parameter: the YAML
  reader, the loader of further documents and the URL parser of the platform, gathered in \<open>import_env\<close>
  (\<open>None\<close> is an exception of that code).

  \<^verbatim>\<open>visit\<close> and \<^verbatim>\<open>schemaExample\<close> recurse along references and not along the document; they terminate because
  every call draws on the budget at a greater depth, and \<^verbatim>\<open>resolvePointer\<close> because every turn of its loop
  draws a reference.
\<close>

section \<open>Parameters\<close>

record import_env =
  ie_yaml :: "string \<Rightarrow> jsval option"
  ie_load :: "(string \<Rightarrow> string option) option"
  ie_url :: "string \<Rightarrow> string option \<Rightarrow> string option"

record PortableRequest =
  pr_name :: string
  pr_method :: string
  pr_url :: string
  pr_headers :: "(string \<times> string) list"
  pr_body :: "string option"
  pr_collectionPath :: "string list option"
  pr_variables :: "(string \<times> string) list option"

section \<open>URI encoding\<close>

definition hex_upper :: "nat \<Rightarrow> char" where
  "hex_upper d = (if d < 10 then char_of (48 + d) else char_of (55 + d))"

definition percent :: "nat \<Rightarrow> string" where
  "percent n = [CHR ''%'', hex_upper (n div 16), hex_upper (n mod 16)]"

definition uri_unreserved :: "char \<Rightarrow> bool" where
  "uri_unreserved c = (is_alpha c \<or> is_digit c \<or> c \<in> set ''-_.!~*()'' \<or> c = CHR 0x27)"

definition encodeURIComponent :: "string \<Rightarrow> string" where
  "encodeURIComponent s =
     concat (map (\<lambda>c. if uri_unreserved c then [c]
                      else if code c < 128 then percent (code c)
                      else percent (192 + code c div 64) @ percent (128 + code c mod 64)) s)"

text \<open>\<open>None\<close> is a \<^verbatim>\<open>URIError\<close>, or an encoded character beyond the model's strings.\<close>

definition hex2 :: "char \<Rightarrow> char \<Rightarrow> nat option" where
  "hex2 a b = (case (hex_val a, hex_val b) of (Some x, Some y) \<Rightarrow> Some (16 * x + y) | _ \<Rightarrow> None)"

definition decode_escape :: "string \<Rightarrow> (char \<times> string) option" where
  "decode_escape s =
     (case s of
        a # b # r \<Rightarrow>
          (case hex2 a b of
             None \<Rightarrow> None
           | Some n \<Rightarrow>
               if n < 128 then Some (char_of n, r)
               else if n = 194 \<or> n = 195 then
                 (case r of
                    p # x # y # r' \<Rightarrow>
                      (case hex2 x y of
                         Some m \<Rightarrow> if p = CHR ''%'' \<and> 128 \<le> m \<and> m < 192
                                   then Some (char_of ((n - 192) * 64 + (m - 128)), r') else None
                       | None \<Rightarrow> None)
                  | _ \<Rightarrow> None)
               else None)
      | _ \<Rightarrow> None)"

lemma decode_escape_length: "decode_escape s = Some (c, r) \<Longrightarrow> length r < length s"
  by (auto simp: decode_escape_def split: list.splits option.splits if_splits)

function decodeURIComponent :: "string \<Rightarrow> string option" where
  "decodeURIComponent [] = Some []"
| "decodeURIComponent (c # cs) =
     (if c \<noteq> CHR ''%'' then map_option ((#) c) (decodeURIComponent cs)
      else (case decode_escape cs of
              None \<Rightarrow> None
            | Some (d, r) \<Rightarrow> map_option ((#) d) (decodeURIComponent r)))"
  by pat_completeness auto
termination
  by (relation "measure length") (auto dest: decode_escape_length)

section \<open>Pointers and references inside a document\<close>

definition unescape_segment :: "string \<Rightarrow> string" where
  "unescape_segment s = replace_two (CHR ''~'') (CHR ''0'') ''~'' (replace_two (CHR ''~'') (CHR ''1'') ''/'' s)"

definition ref_of :: "jsval \<Rightarrow> string option" where
  "ref_of v = (if is_record v then (case js_get v ''$ref'' of JStr r \<Rightarrow> Some r | _ \<Rightarrow> None) else None)"

fun walk_segments :: "jsval \<Rightarrow> string list \<Rightarrow> (import_error, jsval) result" where
  "walk_segments current [] = Inr current"
| "walk_segments current (seg # segs) =
     try_bind (as_object current) (\<lambda>ps. walk_segments (obj_get ps seg) segs)"

function resolvePointer_loop ::
  "props \<Rightarrow> jsval \<Rightarrow> string list \<Rightarrow> ImportBudget \<Rightarrow> nat
     \<Rightarrow> (import_error, jsval \<times> string list \<times> ImportBudget) result" where
  "resolvePointer_loop root current seen b depth =
     (case ref_of current of
        None \<Rightarrow> Inr (current, seen, b)
      | Some ref \<Rightarrow>
          try_bind (consumeNode b depth) (\<lambda>b1.
          try_bind (consumeRef b1) (\<lambda>b2.
            if \<not> startsWith ref ''#/'' then Inl (ExternalRef ref)
            else if ref \<in> set seen then Inl (RefCycle ref)
            else try_bind (walk_segments (JObj root) (map unescape_segment (split (CHR ''/'') (drop 2 ref))))
                   (\<lambda>v. resolvePointer_loop root v (seen @ [ref]) b2 (depth + 1)))))"
  by pat_completeness auto
termination
proof (relation "measure (\<lambda>(root, v, seen, b, depth). Suc IMPORT_MAX_REFS - refs b)", goal_cases)
  case (2 root current seen b depth ref b1 b2 v)
  then have "refs b1 = refs b" by (auto simp: consumeNode_Inr_iff)
  moreover have "refs b2 = Suc (refs b1)" "refs b2 \<le> IMPORT_MAX_REFS"
    using 2 ref_counter.consume_Inr ref_counter.consume_bounded by auto
  ultimately show ?case by simp
qed simp

declare resolvePointer_loop.simps [simp del]

definition resolvePointer ::
  "props \<Rightarrow> jsval \<Rightarrow> string list \<Rightarrow> ImportBudget \<Rightarrow> (import_error, jsval \<times> string list \<times> ImportBudget) result" where
  "resolvePointer root value seen b = resolvePointer_loop root value seen b 0"

section \<open>Addresses of documents\<close>

text \<open>\<^verbatim>\<open>/^[a-z][a-z\d+.-]*:/i\<close>.\<close>

definition scheme_char :: "char \<Rightarrow> bool" where
  "scheme_char c = (is_alpha c \<or> is_digit c \<or> c \<in> set ''+.-'')"

definition has_scheme :: "string \<Rightarrow> bool" where
  "has_scheme s =
     (case s of
        [] \<Rightarrow> False
      | c # cs \<Rightarrow> is_alpha c \<and> startsWith (dropWhile scheme_char cs) '':'')"

definition normal_part :: "string list \<Rightarrow> string \<Rightarrow> string list" where
  "normal_part acc part =
     (if part = [] \<or> part = ''.'' then acc else if part = ''..'' then butlast acc else acc @ [part])"

definition url_result :: "string option \<Rightarrow> (import_error, string) result" where
  "url_result u = (case u of None \<Rightarrow> Inl InvalidUrl | Some h \<Rightarrow> Inr h)"

definition canonicalUri :: "import_env \<Rightarrow> string \<Rightarrow> string \<Rightarrow> (import_error, string) result" where
  "canonicalUri E input base =
     (if has_scheme input then url_result (ie_url E input None)
      else if base \<noteq> [] \<and> has_scheme base then url_result (ie_url E input (Some base))
      else
        (let normalized = replace_char (CHR 0x5C) ''/'' input;
             prefix = (if startsWith normalized ''/'' then ''/'' else []);
             baseParts = butlast (split (CHR ''/'') (replace_char (CHR 0x5C) ''/'' base));
             parts = (if prefix \<noteq> [] then [] else baseParts) @ split (CHR ''/'') normalized;
             uri = prefix @ join ''/'' (foldl normal_part [] parts)
         in Inr (if uri = [] then ''.'' else uri)))"

fun pointer_steps :: "string \<Rightarrow> jsval \<Rightarrow> string list \<Rightarrow> (import_error, jsval) result" where
  "pointer_steps fragment current [] = Inr current"
| "pointer_steps fragment current (raw # raws) =
     (case decodeURIComponent raw of
        None \<Rightarrow> Inl MalformedUri
      | Some d \<Rightarrow>
          try_bind (as_object current) (\<lambda>ps.
            let v = obj_get ps (unescape_segment d)
            in if v = JUndef then Inl (RefMissing fragment) else pointer_steps fragment v raws))"

definition pointerValue :: "props \<Rightarrow> string \<Rightarrow> (import_error, jsval) result" where
  "pointerValue root fragment =
     (if fragment = [] \<or> fragment = ''#'' then Inr (JObj root)
      else if \<not> startsWith fragment ''#/'' then Inl (BadFragment fragment)
      else pointer_steps fragment (JObj root) (split (CHR ''/'') (drop 2 fragment)))"

text \<open>\<^verbatim>\<open>{var}\<close> becomes \<^verbatim>\<open>{{var}}\<close>; an unclosed brace ends the expansion.\<close>

function expandOpenApiServerUrl :: "string \<Rightarrow> string" where
  "expandOpenApiServerUrl [] = []"
| "expandOpenApiServerUrl (c # cs) =
     (if c \<noteq> CHR ''{'' then c # expandOpenApiServerUrl cs
      else (case indexOf cs (CHR ''}'') of
              None \<Rightarrow> c # cs
            | Some i \<Rightarrow> ''{{'' @ take i cs @ ''}}'' @ expandOpenApiServerUrl (drop (Suc i) cs)))"
  by pat_completeness auto
termination
  by (relation "measure length") auto

section \<open>Reading and dereferencing documents\<close>

definition record_of :: "jsval option \<Rightarrow> props option" where
  "record_of v = (case v of Some x \<Rightarrow> if is_record x then Some (entries x) else None | None \<Rightarrow> None)"

definition parseDocumentObject ::
  "import_env \<Rightarrow> string \<Rightarrow> ImportBudget \<Rightarrow> (import_error, props \<times> ImportBudget) result" where
  "parseDocumentObject E text b =
     try_bind (consumeDocument b text) (\<lambda>b'.
       case record_of (JSON_parse text) of
         Some ps \<Rightarrow> Inr (ps, b')
       | None \<Rightarrow> (case record_of (ie_yaml E text) of Some ps \<Rightarrow> Inr (ps, b') | None \<Rightarrow> Inl ParseFailed))"

record deref_state =
  d_cache :: "string \<rightharpoonup> props"
  d_docs :: ImportBudget
  d_trav :: ImportBudget

definition load :: "import_env \<Rightarrow> string \<Rightarrow> deref_state \<Rightarrow> (import_error, props \<times> deref_state) result" where
  "load E uri st =
     (case d_cache st uri of
        Some doc \<Rightarrow> Inr (doc, st)
      | None \<Rightarrow>
          (case ie_load E of
             None \<Rightarrow> Inl (MissingDocument uri)
           | Some fetch \<Rightarrow>
               (case fetch uri of
                  None \<Rightarrow> Inl (LoadFailed uri)
                | Some text \<Rightarrow>
                    try_bind (parseDocumentObject E text (d_docs st)) (\<lambda>(doc, b).
                    try_bind (validateStructure (JObj doc)) (\<lambda>_.
                      Inr (doc, st\<lparr> d_cache := (d_cache st)(uri \<mapsto> doc), d_docs := b \<rparr>))))))"

definition split_ref :: "string \<Rightarrow> string \<times> string" where
  "split_ref ref = (case indexOf ref (CHR ''#'') of None \<Rightarrow> (ref, []) | Some i \<Rightarrow> (take i ref, drop i ref))"

text \<open>Everything \<^verbatim>\<open>visit\<close> does between meeting a reference and visiting its target: the target's
  address, the identity on the reference stack, the loaded document and the value pointed at.\<close>

definition follow_ref ::
  "import_env \<Rightarrow> string \<Rightarrow> string \<Rightarrow> string list \<Rightarrow> deref_state
     \<Rightarrow> (import_error, jsval \<times> string \<times> string \<times> deref_state) result" where
  "follow_ref E ref uri stack st =
     try_bind (consumeRef (d_trav st)) (\<lambda>b.
       let (documentPart, fragment) = split_ref ref in
       try_bind (if documentPart \<noteq> [] then canonicalUri E documentPart uri else Inr uri) (\<lambda>targetUri.
         let identity = targetUri @ fragment in
         if identity \<in> set stack then Inl (RefCycle identity)
         else try_bind (load E targetUri (st\<lparr> d_trav := b \<rparr>)) (\<lambda>(doc, st').
              try_bind (pointerValue doc fragment) (\<lambda>target.
                Inr (target, targetUri, identity, st')))))"

function visit ::
  "import_env \<Rightarrow> jsval \<Rightarrow> string \<Rightarrow> string list \<Rightarrow> nat \<Rightarrow> deref_state
     \<Rightarrow> (import_error, jsval \<times> deref_state) result" where
  "visit E value uri stack depth st0 =
     try_bind (consumeNode (d_trav st0) depth) (\<lambda>b.
       let st = st0\<lparr> d_trav := b \<rparr> in
       if isArray value then
         try_bind
           (try_fold (\<lambda>item (acc, s). try_bind (visit E item uri stack (depth + 1) s) (\<lambda>(v, s'). Inr (acc @ [v], s')))
             (elements value) ([], st))
           (\<lambda>(acc, s). Inr (JArr acc, s))
       else if \<not> is_object value then Inr (value, st)
       else
         (case js_get value ''$ref'' of
            JStr ref \<Rightarrow>
              try_bind (follow_ref E ref uri stack st) (\<lambda>(target, targetUri, identity, st1).
              try_bind (visit E target targetUri (stack @ [identity]) (depth + 1) st1) (\<lambda>(resolved, st2).
                let siblings = fromEntries (filter (\<lambda>(k, _). k \<noteq> ''$ref'') (entries value)) in
                if siblings = [] then Inr (resolved, st2)
                else if \<not> is_record resolved then visit E (JObj siblings) uri stack (depth + 1) st2
                else visit E (JObj (spread (entries resolved) siblings)) uri stack (depth + 1) st2))
          | _ \<Rightarrow>
              try_bind
                (try_fold (\<lambda>(key, item) (acc, s).
                     try_bind (visit E item uri stack (depth + 1) s) (\<lambda>(v, s'). Inr (set_prop key v acc, s')))
                  (entries value) ([], st))
                (\<lambda>(acc, s). Inr (JObj acc, s))))"
  by pat_completeness auto
termination
  by (relation "measure (\<lambda>(E, v, uri, stack, depth, st). Suc IMPORT_MAX_DEPTH - depth)")
    (auto simp: consumeNode_Inr_iff)

declare visit.simps [simp del]

definition add_document ::
  "import_env \<Rightarrow> string \<Rightarrow> string \<times> string \<Rightarrow> deref_state \<Rightarrow> (import_error, deref_state) result" where
  "add_document E mainUri d st =
     (case d of (uri, text) \<Rightarrow>
        try_bind (parseDocumentObject E text (d_docs st)) (\<lambda>(parsed, b).
        try_bind (validateStructure (JObj parsed)) (\<lambda>_.
        try_bind (canonicalUri E uri []) (\<lambda>u1.
        try_bind (canonicalUri E uri mainUri) (\<lambda>u2.
          Inr (st\<lparr> d_cache := (d_cache st)(u1 \<mapsto> parsed, u2 \<mapsto> parsed), d_docs := b \<rparr>))))))"

record ImportDocumentOptions =
  io_baseUri :: "string option"
  io_documents :: "(string \<times> string) list"

definition dereferenceOpenApi ::
  "import_env \<Rightarrow> props \<Rightarrow> ImportDocumentOptions \<Rightarrow> ImportBudget \<Rightarrow> (import_error, props) result" where
  "dereferenceOpenApi E root opts b =
     try_bind (canonicalUri E (case io_baseUri opts of Some u \<Rightarrow> u | None \<Rightarrow> ''openapi.yaml'') []) (\<lambda>mainUri.
     try_bind (try_fold (add_document E mainUri) (io_documents opts)
         \<lparr> d_cache = [mainUri \<mapsto> root], d_docs = b, d_trav = createBudget \<rparr>) (\<lambda>st.
     try_bind (visit E (JObj root) mainUri [] 0 st) (\<lambda>(v, _). as_object v)))"

section \<open>Example values of schemas\<close>

function schemaExample ::
  "props \<Rightarrow> jsval \<Rightarrow> ImportBudget \<Rightarrow> string list \<Rightarrow> nat \<Rightarrow> (import_error, jsval \<times> ImportBudget) result" where
  "schemaExample root input b seen depth =
     try_bind (consumeNode b depth) (\<lambda>b1.
     try_bind (resolvePointer root input seen b1) (\<lambda>(resolved, seen', b2).
       if \<not> is_record resolved then Inr (coalesce resolved JNull, b2)
       else
         (let schema = entries resolved in
          if obj_get schema ''example'' \<noteq> JUndef then Inr (obj_get schema ''example'', b2)
          else if obj_get schema ''default'' \<noteq> JUndef then Inr (obj_get schema ''default'', b2)
          else if elements (obj_get schema ''enum'') \<noteq> [] then Inr (hd (elements (obj_get schema ''enum'')), b2)
          else if obj_get schema ''type'' = JStr ''array'' then
            try_bind (schemaExample root (obj_get schema ''items'') b2 seen' (depth + 1))
              (\<lambda>(v, b3). Inr (JArr [v], b3))
          else if obj_get schema ''type'' = JStr ''object'' \<or> is_object (obj_get schema ''properties'') then
            try_bind
              (try_fold (\<lambda>(key, value) (acc, c).
                   try_bind (schemaExample root value c seen' (depth + 1)) (\<lambda>(v, c'). Inr (acc @ [(key, v)], c')))
                (all_entries (obj_get schema ''properties'')) ([], b2))
              (\<lambda>(acc, b3). Inr (JObj (fromEntries acc), b3))
          else if obj_get schema ''type'' = JStr ''integer'' \<or> obj_get schema ''type'' = JStr ''number''
            then Inr (JNum (NInt 0), b2)
          else if obj_get schema ''type'' = JStr ''boolean'' then Inr (JBool False, b2)
          else Inr (JStr ''string'', b2))))"
  by pat_completeness auto
termination
  by (relation "measure (\<lambda>(root, v, b, seen, depth). Suc IMPORT_MAX_DEPTH - depth)")
    (auto simp: consumeNode_Inr_iff)

declare schemaExample.simps [simp del]

section \<open>Operations become requests\<close>

definition METHODS :: "string list" where
  "METHODS = [''get'', ''post'', ''put'', ''patch'', ''delete'', ''head'', ''options'', ''trace'']"

definition object_or_empty :: "jsval \<Rightarrow> jsval" where
  "object_or_empty v = (if is_object v then v else JObj [])"

text \<open>A reference that is resolved with a fresh set of seen references.\<close>

definition resolve :: "props \<Rightarrow> jsval \<Rightarrow> ImportBudget \<Rightarrow> (import_error, jsval \<times> ImportBudget) result" where
  "resolve root v b = try_bind (resolvePointer root v [] b) (\<lambda>(r, _, b'). Inr (r, b'))"

definition resolve_object :: "props \<Rightarrow> jsval \<Rightarrow> ImportBudget \<Rightarrow> (import_error, props \<times> ImportBudget) result" where
  "resolve_object root v b =
     try_bind (resolve root v b) (\<lambda>(r, b'). try_bind (as_object r) (\<lambda>ps. Inr (ps, b')))"

fun resolve_all :: "props \<Rightarrow> jsval list \<Rightarrow> ImportBudget \<Rightarrow> (import_error, jsval list \<times> ImportBudget) result" where
  "resolve_all root [] b = Inr ([], b)"
| "resolve_all root (v # vs) b =
     try_bind (resolve root v b) (\<lambda>(r, b1).
     try_bind (resolve_all root vs b1) (\<lambda>(rs, b2). Inr (r # rs, b2)))"

definition query_part :: "jsval \<Rightarrow> string" where
  "query_part p = encodeURIComponent (js_String (js_get p ''name'')) @ ''={{'' @ js_String (js_get p ''name'') @ ''}}''"

definition with_query :: "string \<Rightarrow> string list \<Rightarrow> string" where
  "with_query url query =
     (if query = [] then url else url @ (if str_includes url ''?'' then ''&'' else ''?'') @ join ''&'' query)"

definition body_text :: "jsval \<Rightarrow> string option" where
  "body_text v = (case v of JUndef \<Rightarrow> None | JStr s \<Rightarrow> Some s | _ \<Rightarrow> JSON_stringify2 v)"

text \<open>The media type, the media object and the body value of an operation.\<close>

definition operation_body ::
  "props \<Rightarrow> props \<Rightarrow> ImportBudget \<Rightarrow> (import_error, string option \<times> jsval \<times> ImportBudget) result" where
  "operation_body root operation b =
     try_bind (if is_object (obj_get operation ''requestBody'') then resolve_object root (obj_get operation ''requestBody'') b
               else Inr ([], b)) (\<lambda>(requestBody, b1).
     try_bind (as_object (coalesce (obj_get requestBody ''content'') (JObj []))) (\<lambda>content.
       let mediaType = (case content of [] \<Rightarrow> None | (k, _) # _ \<Rightarrow> if k = [] then None else Some k) in
       try_bind (case mediaType of Some m \<Rightarrow> resolve_object root (obj_get content m) b1 | None \<Rightarrow> Inr ([], b1)) (\<lambda>(media, b2).
         if \<not> nullish (obj_get media ''example'') then Inr (mediaType, obj_get media ''example'', b2)
         else if truthy (obj_get media ''schema'') then
           try_bind (schemaExample root (obj_get media ''schema'') b2 [] 0) (\<lambda>(v, b3). Inr (mediaType, v, b3))
         else Inr (mediaType, JUndef, b2))))"

definition import_operation ::
  "props \<Rightarrow> string \<Rightarrow> (string \<times> string) list \<Rightarrow> string \<Rightarrow> props \<Rightarrow> string \<Rightarrow> ImportBudget
     \<Rightarrow> (import_error, PortableRequest \<times> ImportBudget) result" where
  "import_operation root base variables path pathItem method b =
     try_bind (consumeRequest b) (\<lambda>b1.
     try_bind (resolve_object root (obj_get pathItem method) b1) (\<lambda>(operation, b2).
     try_bind (resolve_all root (elements (obj_get pathItem ''parameters'') @ elements (obj_get operation ''parameters'')) b2) (\<lambda>(parameters, b3).
       let url = with_query (base @ path)
             (map query_part (filter (\<lambda>p. is_object p \<and> js_get p ''in'' = JStr ''query'') parameters)) in
       try_bind (operation_body root operation b3) (\<lambda>(mediaType, bodyValue, b4).
         let tags = filter is_str (elements (obj_get operation ''tags'')) in
         Inr (\<lparr> pr_name = js_String (coalesce (obj_get operation ''summary'')
                    (coalesce (obj_get operation ''operationId'') (JStr (toUpperCase method @ '' '' @ path)))),
                pr_method = toUpperCase method,
                pr_url = url,
                pr_headers = (case mediaType of Some m \<Rightarrow> [(''Content-Type'', m)] | None \<Rightarrow> []),
                pr_body = body_text bodyValue,
                pr_collectionPath = Some (map js_String (take 1 tags)),
                pr_variables = Some variables \<rparr>, b4)))))"

definition import_path ::
  "props \<Rightarrow> string \<Rightarrow> (string \<times> string) list \<Rightarrow> string \<times> jsval \<Rightarrow> PortableRequest list \<times> ImportBudget
     \<Rightarrow> (import_error, PortableRequest list \<times> ImportBudget) result" where
  "import_path root base variables entry acc =
     (case entry of (path, pathItemValue) \<Rightarrow> case acc of (requests0, b0) \<Rightarrow>
        try_bind (resolve_object root pathItemValue b0) (\<lambda>(pathItem, b1).
          try_fold (\<lambda>method (rs, b).
              if \<not> truthy (obj_get pathItem method) then Inr (rs, b)
              else try_bind (import_operation root base variables path pathItem method b)
                     (\<lambda>(r, b'). Inr (rs @ [r], b')))
            METHODS (requests0, b1)))"

definition server_variables :: "jsval \<Rightarrow> (import_error, (string \<times> string) list) result" where
  "server_variables sv =
     try_bind
       (try_fold (\<lambda>(name, definition) acc.
            try_bind (as_object definition) (\<lambda>d. Inr (acc @ [(name, js_String (coalesce (obj_get d ''default'') (JStr [])))])))
         (all_entries sv) [])
       (\<lambda>es. Inr (fromEntries es))"

datatype import_source = OpenApi | Postman | Har | ApiVoy
datatype import_warning = NoServers

text \<open>The requests of a result as JavaScript objects: the importer of project packages hands its JSON through
  unchecked, the others build them from a \<open>PortableRequest\<close>.\<close>

definition string_dict :: "(string \<times> string) list \<Rightarrow> jsval" where
  "string_dict ds = JObj (map (\<lambda>(k, v). (k, JStr v)) ds)"

definition opt_val :: "('a \<Rightarrow> jsval) \<Rightarrow> 'a option \<Rightarrow> jsval" where
  "opt_val f x = (case x of None \<Rightarrow> JUndef | Some v \<Rightarrow> f v)"

definition request_js :: "PortableRequest \<Rightarrow> jsval" where
  "request_js r = JObj
     [(''name'', JStr (pr_name r)), (''method'', JStr (pr_method r)), (''url'', JStr (pr_url r)),
      (''headers'', string_dict (pr_headers r)), (''body'', opt_val JStr (pr_body r)),
      (''collectionPath'', opt_val (\<lambda>p. JArr (map JStr p)) (pr_collectionPath r)),
      (''variables'', opt_val string_dict (pr_variables r))]"

record ImportResult =
  ir_source :: import_source
  ir_name :: string
  ir_requests :: "jsval list"
  ir_warnings :: "import_warning list"

definition importOpenApi :: "props \<Rightarrow> ImportBudget \<Rightarrow> (import_error, ImportResult \<times> ImportBudget) result" where
  "importOpenApi root b =
     (let info = object_or_empty (obj_get root ''info'');
          server = object_or_empty (case elements (obj_get root ''servers'') of [] \<Rightarrow> JUndef | s # _ \<Rightarrow> s)
      in try_bind (server_variables (object_or_empty (js_get server ''variables''))) (\<lambda>variables.
         let base = expandOpenApiServerUrl (js_String (coalesce (js_get server ''url'') (JStr []))) in
         try_bind (as_object (coalesce (obj_get root ''paths'') (JObj []))) (\<lambda>paths.
         try_bind (try_fold (import_path root base variables) paths ([], b)) (\<lambda>(rs, b').
           Inr (\<lparr> ir_source = OpenApi,
                  ir_name = js_String (coalesce (js_get info ''title'') (JStr ''OpenAPI Import'')),
                  ir_requests = map request_js rs,
                  ir_warnings = (if base \<noteq> [] then [] else [NoServers]) \<rparr>, b')))))"

end
