(* ===== verification/ImportOpenApiLaws.thy ===== *)
theory ImportOpenApiLaws imports ImportOpenApi begin

text \<open>
  What the OpenAPI importer guarantees: dereferencing removes every reference and leaves a document without
  references as it is, resolved pointers are never references again, document addresses are normalised,
  server templates expand variable by variable, and URI components survive encoding and decoding.
\<close>

section \<open>Values without references\<close>

text \<open>\<open>refs_ok\<close>: every \<^verbatim>\<open>$ref\<close> property is a string, as the OpenAPI format requires; \<open>ref_free\<close>: there is no
  \<^verbatim>\<open>$ref\<close> property.\<close>

fun refs_ok :: "jsval \<Rightarrow> bool" where
  "refs_ok (JArr xs) = list_all refs_ok xs"
| "refs_ok (JObj ps) = (list_all (\<lambda>(k, v). k = ''$ref'' \<longrightarrow> is_str v) ps \<and> list_all (\<lambda>(k, v). refs_ok v) ps)"
| "refs_ok _ = True"

fun ref_free :: "jsval \<Rightarrow> bool" where
  "ref_free (JArr xs) = list_all ref_free xs"
| "ref_free (JObj ps) = (''$ref'' \<notin> fst ` set ps \<and> list_all (\<lambda>(k, v). ref_free v) ps)"
| "ref_free _ = True"

lemma ref_free_refs_ok: "ref_free v \<Longrightarrow> refs_ok v"
proof (induction v)
  case (JObj ps)
  have "refs_ok v" if "(k, v) \<in> set ps" for k v
    using JObj.IH [OF that, of v] JObj.prems that by (auto simp: list_all_iff)
  moreover have "k \<noteq> ''$ref''" if "(k, v) \<in> set ps" for k v
    using JObj.prems that by force
  ultimately show ?case unfolding refs_ok.simps list_all_iff by blast
qed (auto simp: list_all_iff)

lemma refs_ok_obj_get: "refs_ok (JObj ps) \<Longrightarrow> refs_ok (obj_get ps k)"
proof (cases "own ps k")
  case (Some v)
  assume "refs_ok (JObj ps)"
  with map_of_SomeD [OF Some] Some show ?thesis by (auto simp: obj_get_def list_all_iff)
qed (simp add: obj_get_def proto_get_def)

lemma refs_ok_as_object: "as_object v = Inr ps \<Longrightarrow> refs_ok v \<Longrightarrow> refs_ok (JObj ps)"
  by (cases v) (auto simp: as_object_def split: if_splits)

lemma pointer_steps_refs_ok: "pointer_steps f v raws = Inr w \<Longrightarrow> refs_ok v \<Longrightarrow> refs_ok w"
proof (induction f v raws rule: pointer_steps.induct)
  case (2 f v raw raws)
  from "2.prems"(1) obtain d ps where d: "decodeURIComponent raw = Some d" and ps: "as_object v = Inr ps"
    and nz: "obj_get ps (unescape_segment d) \<noteq> JUndef"
    and w: "pointer_steps f (obj_get ps (unescape_segment d)) raws = Inr w"
    by (auto simp: try_bind_Inr_iff Let_def split: option.splits if_splits)
  from refs_ok_as_object [OF ps "2.prems"(2)] have "refs_ok (obj_get ps (unescape_segment d))"
    by (rule refs_ok_obj_get)
  with "2.IH" [OF d ps refl nz] w show ?case by blast
qed simp

lemma pointerValue_refs_ok: "pointerValue ps f = Inr w \<Longrightarrow> refs_ok (JObj ps) \<Longrightarrow> refs_ok w"
  by (auto simp: pointerValue_def split: if_splits dest: pointer_steps_refs_ok simp del: refs_ok.simps(2))

section \<open>Dereferencing removes every reference\<close>

definition cache_ok :: "deref_state \<Rightarrow> bool" where
  "cache_ok st = (\<forall>uri doc. d_cache st uri = Some doc \<longrightarrow> refs_ok (JObj doc))"

text \<open>The documents the loader may deliver have string references only.\<close>

definition loads_ok :: "import_env \<Rightarrow> bool" where
  "loads_ok E = (\<forall>fetch uri text v. ie_load E = Some fetch \<longrightarrow> fetch uri = Some text \<longrightarrow>
      JSON_parse text = Some v \<or> ie_yaml E text = Some v \<longrightarrow> refs_ok v)"

lemma cache_ok_trav [simp]: "cache_ok (st\<lparr> d_trav := b \<rparr>) = cache_ok st"
  by (simp add: cache_ok_def)

lemma record_of_refs_ok:
  "record_of v = Some ps \<Longrightarrow> (\<And>x. v = Some x \<Longrightarrow> refs_ok x) \<Longrightarrow> refs_ok (JObj ps)"
  by (cases v) (auto simp: record_of_def is_record_cases split: if_splits)

lemma parseDocumentObject_refs_ok:
  assumes "parseDocumentObject E doctext b = Inr (ps, b')"
    and "\<And>v. JSON_parse doctext = Some v \<or> ie_yaml E doctext = Some v \<Longrightarrow> refs_ok v"
  shows "refs_ok (JObj ps)"
proof -
  from assms(1) have "record_of (JSON_parse doctext) = Some ps \<or> record_of (ie_yaml E doctext) = Some ps"
    by (auto simp: parseDocumentObject_def try_bind_Inr_iff split: option.splits)
  then show ?thesis using record_of_refs_ok assms(2) by blast
qed

lemma load_ok:
  assumes "load E uri st = Inr (doc, st')" and "cache_ok st" and "loads_ok E"
  shows "refs_ok (JObj doc) \<and> cache_ok st'"
proof (cases "d_cache st uri")
  case (Some d)
  with assms show ?thesis by (auto simp: load_def cache_ok_def simp del: refs_ok.simps(2))
next
  case None
  with assms(1) obtain fetch body b where f: "ie_load E = Some fetch" "fetch uri = Some body"
    and p: "parseDocumentObject E body (d_docs st) = Inr (doc, b)"
    and st': "st' = st\<lparr> d_cache := (d_cache st)(uri \<mapsto> doc), d_docs := b \<rparr>"
    by (auto simp: load_def try_bind_Inr_iff split: option.splits)
  from parseDocumentObject_refs_ok [OF p] f assms(3) have "refs_ok (JObj doc)"
    unfolding loads_ok_def by blast
  with assms(2) st' show ?thesis by (auto simp: cache_ok_def simp del: refs_ok.simps(2))
qed

lemma follow_ref_ok:
  assumes "follow_ref E ref uri stack st = Inr (target, targetUri, identity, st')"
    and "cache_ok st" and "loads_ok E"
  shows "refs_ok target \<and> cache_ok st'"
proof -
  obtain dp fr where sr: "split_ref ref = (dp, fr)" by (cases "split_ref ref")
  from assms(1) obtain b doc where
    l: "load E targetUri (st\<lparr> d_trav := b \<rparr>) = Inr (doc, st')"
    and p: "pointerValue doc fr = Inr target"
    unfolding follow_ref_def sr Let_def split_conv try_bind_Inr_iff
    by (clarsimp simp: try_bind_Inr_iff split: if_splits)
  from load_ok [OF l] assms(2,3) have "refs_ok (JObj doc)" "cache_ok st'" by simp_all
  with pointerValue_refs_ok [OF p] show ?thesis by blast
qed

lemma set_foldl_def_prop:
  "set (foldl (\<lambda>ps (k, v). def_prop k v ps) a es) \<subseteq> set a \<union> set es"
proof (induction es arbitrary: a)
  case (Cons e es)
  obtain k v where "e = (k, v)" by (cases e)
  with Cons [of "def_prop k v a"] set_def_prop [of k v a] show ?case by auto
qed simp

lemma refs_ok_siblings:
  assumes "refs_ok (JObj ps)"
  shows "refs_ok (JObj (fromEntries (filter (\<lambda>(k, _). k \<noteq> ''$ref'') ps)))"
    and "''$ref'' \<notin> fst ` set (fromEntries (filter (\<lambda>(k, _). k \<noteq> ''$ref'') ps))"
proof -
  have sub: "set (fromEntries (filter (\<lambda>(k, _). k \<noteq> ''$ref'') ps)) \<subseteq> {x \<in> set ps. fst x \<noteq> ''$ref''}"
    using set_foldl_def_prop [of "[]" "filter (\<lambda>(k, _). k \<noteq> ''$ref'') ps"]
    unfolding fromEntries_def by auto
  with assms show "refs_ok (JObj (fromEntries (filter (\<lambda>(k, _). k \<noteq> ''$ref'') ps)))"
    by (auto simp: list_all_iff)
  show "''$ref'' \<notin> fst ` set (fromEntries (filter (\<lambda>(k, _). k \<noteq> ''$ref'') ps))"
    unfolding keys_fromEntries by auto
qed

lemma refs_ok_spread:
  assumes "ref_free (JObj a)" and "refs_ok (JObj b)" and "''$ref'' \<notin> fst ` set b"
  shows "refs_ok (JObj (spread a b))"
proof -
  have "set (spread a b) \<subseteq> set a \<union> set b"
    unfolding spread_def by (rule set_foldl_def_prop)
  then show ?thesis using assms(2,3) ref_free_refs_ok [OF assms(1)] by (auto simp: list_all_iff)
qed

lemma no_ref_key:
  assumes "refs_ok (JObj ps)" and "\<And>r. obj_get ps ''$ref'' \<noteq> JStr r"
  shows "''$ref'' \<notin> fst ` set ps"
proof
  assume "''$ref'' \<in> fst ` set ps"
  then obtain v where v: "own ps ''$ref'' = Some v"
    by (metis map_of_eq_None_iff not_Some_eq)
  from map_of_SomeD [OF v] assms(1) have "is_str v" by (auto simp: list_all_iff)
  with v assms(2) show False by (cases v) (auto simp: obj_get_def)
qed

lemma set_prop_ref_free:
  "ref_free (JObj acc) \<Longrightarrow> ref_free v \<Longrightarrow> k \<noteq> ''$ref'' \<Longrightarrow> ref_free (JObj (set_prop k v acc))"
  using set_def_prop [of k v acc] keys_def_prop [of k v acc]
  by (auto simp: set_prop_def list_all_iff)

lemma visit_ref_free_aux:
  assumes "loads_ok E"
  shows "visit E val uri stack depth st = Inr (v, st') \<Longrightarrow> refs_ok val \<Longrightarrow> cache_ok st
    \<Longrightarrow> ref_free v \<and> cache_ok st'"
proof (induction "Suc IMPORT_MAX_DEPTH - depth" arbitrary: val uri stack depth st v st' rule: less_induct)
  case less
  from less.prems(1) obtain b where b: "consumeNode (d_trav st) depth = Inr b"
    by (subst (asm) visit.simps) (auto simp: try_bind_Inr_iff)
  define s0 where "s0 = st\<lparr> d_trav := b \<rparr>"
  have IH: "visit E x u stk (depth + 1) s = Inr (w, s') \<Longrightarrow> refs_ok x \<Longrightarrow> cache_ok s \<Longrightarrow> ref_free w \<and> cache_ok s'"
    for x u stk s w s'
    using less.hyps [of "depth + 1" x u stk s w s'] b by (auto simp: consumeNode_Inr_iff)
  have s0: "cache_ok s0" using less.prems(3) by (simp add: s0_def)
  note step = less.prems(1) [unfolded visit.simps [of E val uri stack depth st] b try_bind_simps Let_def, folded s0_def]
  show ?case
  proof (cases "isArray val")
    case True
    then obtain xs where xs: "val = JArr xs" by (cases val) auto
    from step xs obtain acc where v: "v = JArr acc"
      and fold: "try_fold (\<lambda>item (acc, s). try_bind (visit E item uri stack (depth + 1) s) (\<lambda>(v, s'). Inr (acc @ [v], s')))
          xs ([], s0) = Inr (acc, st')"
      by (auto simp: try_bind_Inr_iff)
    have "(\<lambda>(acc, s). list_all ref_free acc \<and> cache_ok s) (acc, st')"
      using fold
    proof (rule try_fold_invariant)
      fix x u w
      assume "x \<in> set xs" and "(\<lambda>(acc, s). list_all ref_free acc \<and> cache_ok s) u"
        and "(\<lambda>(acc, s). try_bind (visit E x uri stack (depth + 1) s) (\<lambda>(v, s'). Inr (acc @ [v], s'))) u = Inr w"
      then show "(\<lambda>(acc, s). list_all ref_free acc \<and> cache_ok s) w"
        using less.prems(2) xs IH by (fastforce simp: try_bind_Inr_iff list_all_iff)
    qed (use s0 in simp)
    then show ?thesis using v by simp
  next
    case notarr: False
    show ?thesis
    proof (cases "is_object val")
      case False
      with step notarr have "v = val" "st' = s0" by auto
      with False notarr s0 show ?thesis by (cases val) auto
    next
      case obj: True
      show ?thesis
      proof (cases "\<exists>ref. js_get val ''$ref'' = JStr ref")
        case True
        then obtain ref where ref: "js_get val ''$ref'' = JStr ref" ..
        with obj notarr obtain ps where ps: "val = JObj ps"
          by (auto simp: is_object_cases)
        let ?sib = "fromEntries (filter (\<lambda>(k, _). k \<noteq> ''$ref'') ps)"
        have "try_bind (follow_ref E ref uri stack s0) (\<lambda>(target, targetUri, identity, st1).
              try_bind (visit E target targetUri (stack @ [identity]) (depth + 1) st1) (\<lambda>(resolved, st2).
                if ?sib = [] then Inr (resolved, st2)
                else if \<not> is_record resolved then visit E (JObj ?sib) uri stack (depth + 1) st2
                else visit E (JObj (spread (entries resolved) ?sib)) uri stack (depth + 1) st2)) = Inr (v, st')"
          using step obj notarr ref unfolding ps by (simp cong: if_cong)
        then obtain target targetUri identity s1 resolved s2 where
          f: "follow_ref E ref uri stack s0 = Inr (target, targetUri, identity, s1)"
          and r: "visit E target targetUri (stack @ [identity]) (depth + 1) s1 = Inr (resolved, s2)"
          and k: "(if ?sib = [] then Inr (resolved, s2)
             else if \<not> is_record resolved then visit E (JObj ?sib) uri stack (depth + 1) s2
             else visit E (JObj (spread (entries resolved) ?sib)) uri stack (depth + 1) s2) = Inr (v, st')"
          unfolding try_bind_Inr_iff by (clarsimp simp only: try_bind_Inr_iff split_conv split_paired_Ex)
        from follow_ref_ok [OF f s0 assms] IH [OF r] have res: "ref_free resolved" "cache_ok s2" by auto
        have sib: "refs_ok (JObj ?sib)" "''$ref'' \<notin> fst ` set ?sib"
          using refs_ok_siblings less.prems(2) ps by blast+
        consider "?sib = []" | "?sib \<noteq> []" "\<not> is_record resolved" | "?sib \<noteq> []" "is_record resolved" by blast
        then show ?thesis
        proof cases
          case 3
          then have "ref_free (JObj (entries resolved))"
            using res(1) unfolding is_record_cases by (elim disjE exE) simp_all
          then have "refs_ok (JObj (spread (entries resolved) ?sib))"
            using sib by (rule refs_ok_spread)
          with 3 k IH res(2) show ?thesis by (simp del: refs_ok.simps(2))
        qed (use k IH res sib in \<open>auto simp del: refs_ok.simps(2)\<close>)
      next
        case noref: False
        from step obj notarr noref obtain acc where v: "v = JObj acc"
          and fold: "try_fold (\<lambda>(key, item) (acc, s).
                     try_bind (visit E item uri stack (depth + 1) s) (\<lambda>(v, s'). Inr (set_prop key v acc, s')))
            (entries val) ([], s0) = Inr (acc, st')"
          by (auto simp: try_bind_Inr_iff split: jsval.splits)
        have nokey: "''$ref'' \<notin> fst ` set (entries val)"
        proof (cases val)
          case (JObj ps)
          with noref less.prems(2) no_ref_key [of ps] show ?thesis by (simp del: refs_ok.simps)
        qed simp_all
        have vals: "refs_ok x" if "(k, x) \<in> set (entries val)" for k x
          using that less.prems(2) by (cases val) (auto simp: list_all_iff)
        have "(\<lambda>(acc, s). ref_free (JObj acc) \<and> cache_ok s) (acc, st')"
          using fold
        proof (rule try_fold_invariant)
          fix x u w
          assume x: "x \<in> set (entries val)" and u: "(\<lambda>(acc, s). ref_free (JObj acc) \<and> cache_ok s) u"
            and w: "(\<lambda>(key, item) (acc, s). try_bind (visit E item uri stack (depth + 1) s)
                (\<lambda>(v, s'). Inr (set_prop key v acc, s'))) x u = Inr w"
          obtain key item acc s where xu: "x = (key, item)" "u = (acc, s)" by (cases x; cases u)
          from w xu obtain y s' where y: "visit E item uri stack (depth + 1) s = Inr (y, s')"
            and w': "w = (set_prop key y acc, s')" by (auto simp: try_bind_Inr_iff)
          from x xu nokey have "key \<noteq> ''$ref''" by force
          moreover from IH [OF y] vals x xu u have "ref_free y" "cache_ok s'" by auto
          ultimately show "(\<lambda>(acc, s). ref_free (JObj acc) \<and> cache_ok s) w"
            using w' u xu set_prop_ref_free by (auto simp del: ref_free.simps(2))
        qed (use s0 in simp)
        then show ?thesis using v by simp
      qed
    qed
  qed
qed

lemma add_document_ok:
  assumes "add_document E mainUri (uri, doctext) st = Inr st'" and "cache_ok st"
    and "\<And>v. JSON_parse doctext = Some v \<or> ie_yaml E doctext = Some v \<Longrightarrow> refs_ok v"
  shows "cache_ok st'"
proof -
  from assms(1) obtain parsed b u1 u2 where p: "parseDocumentObject E doctext (d_docs st) = Inr (parsed, b)"
    and st': "st' = st\<lparr> d_cache := (d_cache st)(u1 \<mapsto> parsed, u2 \<mapsto> parsed), d_docs := b \<rparr>"
    by (auto simp: add_document_def try_bind_Inr_iff)
  from parseDocumentObject_refs_ok [OF p assms(3)] have "refs_ok (JObj parsed)" by blast
  with assms(2) st' show ?thesis by (auto simp: cache_ok_def simp del: refs_ok.simps(2))
qed

text \<open>The documents given with the options have string references only.\<close>

definition documents_ok :: "import_env \<Rightarrow> ImportDocumentOptions \<Rightarrow> bool" where
  "documents_ok E opts = (\<forall>uri body v. (uri, body) \<in> set (io_documents opts) \<longrightarrow>
      JSON_parse body = Some v \<or> ie_yaml E body = Some v \<longrightarrow> refs_ok v)"

text \<open>C12: when every property of the name \<^verbatim>\<open>$ref\<close> is a string, in the document, in the documents given with it and in every
  text the loader fetches, a dereferenced OpenAPI document contains no \<^verbatim>\<open>$ref\<close> property at any depth, whatever chain of
  local, relative or loaded references it went through. (A \<^verbatim>\<open>$ref\<close> of another type is left in place: see the lemma below.)\<close>

theorem dereference_ref_free:
  assumes "dereferenceOpenApi E root opts b = Inr ps"
    and "refs_ok (JObj root)" and "documents_ok E opts" and "loads_ok E"
  shows "ref_free (JObj ps)"
proof -
  from assms(1) obtain mainUri st v st' where
    docs: "try_fold (add_document E mainUri) (io_documents opts)
         \<lparr> d_cache = [mainUri \<mapsto> root], d_docs = b, d_trav = createBudget \<rparr> = Inr st"
    and v: "visit E (JObj root) mainUri [] 0 st = Inr (v, st')" and ps: "as_object v = Inr ps"
    by (auto simp: dereferenceOpenApi_def try_bind_Inr_iff)
  have "cache_ok st"
    using docs
  proof (rule try_fold_invariant)
    show "cache_ok \<lparr> d_cache = [mainUri \<mapsto> root], d_docs = b, d_trav = createBudget \<rparr>"
      using assms(2) by (simp add: cache_ok_def del: refs_ok.simps)
  next
    fix x u w
    assume x: "x \<in> set (io_documents opts)" "cache_ok u" "add_document E mainUri x u = Inr w"
    obtain uri body where "x = (uri, body)" by (cases x)
    with x assms(3) add_document_ok [of E mainUri uri body u w] show "cache_ok w"
      by (auto simp: documents_ok_def)
  qed
  with visit_ref_free_aux [OF assms(4) v assms(2)] have "ref_free v" by blast
  with ps show ?thesis by (cases v) (auto simp: as_object_def split: if_splits)
qed

lemma try_bind_weak_cong: "m = m' \<Longrightarrow> try_bind m f = try_bind m' f"
  by simp

lemmas budget_eval = createBudget_def consumeNode_def consumeRef_def import_limits

lemmas visit_eval = visit.simps budget_eval Let_def

lemma canonical_openapi_yaml: "canonicalUri E ''openapi.yaml'' [] = Inr ''openapi.yaml''"
  by (simp add: canonicalUri_def has_scheme_def scheme_char_def is_alpha_def is_lower_az_def is_upper_az_def
      is_digit_def code_def replace_char_def normal_part_def Let_def)

definition env0 :: import_env where
  "env0 = \<lparr> ie_yaml = (\<lambda>_. None), ie_load = None, ie_url = (\<lambda>_ _. None) \<rparr>"

definition opts0 :: ImportDocumentOptions where
  "opts0 = \<lparr> io_baseUri = None, io_documents = [] \<rparr>"

definition sample_root :: props where
  "sample_root = [(''a'', JObj [(''$ref'', JStr ''#/b'')]), (''b'', JNum (NInt 7))]"

theorem dereference_ref_free_witness:
  "dereferenceOpenApi env0 sample_root opts0 createBudget = Inr [(''a'', JNum (NInt 7)), (''b'', JNum (NInt 7))]
   \<and> ref_free (JObj [(''a'', JNum (NInt 7)), (''b'', JNum (NInt 7))])"
proof -
  have d: "dereferenceOpenApi env0 sample_root opts0 createBudget = Inr [(''a'', JNum (NInt 7)), (''b'', JNum (NInt 7))]"
    by (simp add: dereferenceOpenApi_def sample_root_def opts0_def canonical_openapi_yaml visit_eval follow_ref_def
        proto_get_def OBJECT_PROTOTYPE_def split_ref_def load_def pointerValue_def as_object_def spread_def fromEntries_def def_prop_def obj_get_def
        index_key_def all_digits_def is_digit_def code_def unescape_segment_def set_prop_def
        cong: try_bind_weak_cong)
  have "refs_ok (JObj sample_root)" by (simp add: sample_root_def)
  moreover have "documents_ok env0 opts0" by (simp add: documents_ok_def opts0_def)
  moreover have "loads_ok env0" by (simp add: loads_ok_def env0_def)
  ultimately show ?thesis using d dereference_ref_free [OF d] by blast
qed

text \<open>A \<^verbatim>\<open>$ref\<close> that is not a string is an ordinary property.\<close>

lemma other_ref_kept: "dereferenceOpenApi env0 [(''$ref'', JBool True)] opts0 createBudget = Inr [(''$ref'', JBool True)]"
  by (simp add: dereferenceOpenApi_def opts0_def canonical_openapi_yaml visit_eval
      proto_get_def OBJECT_PROTOTYPE_def as_object_def obj_get_def set_prop_def def_prop_def index_key_def all_digits_def is_digit_def code_def cong: try_bind_weak_cong)

section \<open>A document without references is left as it is\<close>

text \<open>The documents \<^verbatim>\<open>visit\<close> copies faithfully: no references, no own \<^verbatim>\<open>__proto__\<close> property, objects in enumeration
  order.\<close>

fun copyable :: "jsval \<Rightarrow> bool" where
  "copyable (JArr xs) = list_all copyable xs"
| "copyable (JObj ps) =
     (''$ref'' \<notin> fst ` set ps \<and> ''__proto__'' \<notin> fst ` set ps \<and> ordered_props ps \<and> list_all (\<lambda>(k, v). copyable v) ps)"
| "copyable (JHost k) = False"
| "copyable _ = True"

definition spend :: "nat \<Rightarrow> deref_state \<Rightarrow> deref_state" where
  "spend n st = st\<lparr> d_trav := (d_trav st)\<lparr> nodes := nodes (d_trav st) + n \<rparr> \<rparr>"

lemma spend_simps [simp]: "spend m (spend n st) = spend (n + m) st" "nodes (d_trav (spend n st)) = nodes (d_trav st) + n"
  by (simp_all add: spend_def add.assoc)

lemma visit_elements_id:
  assumes "\<And>x s. x \<in> set xs \<Longrightarrow> nodes (d_trav s) + node_count x \<le> IMPORT_MAX_NODES \<Longrightarrow>
      visit E x uri stack d s = Inr (x, spend (node_count x) s)"
    and "nodes (d_trav st) + sum_list (map node_count xs) \<le> IMPORT_MAX_NODES"
  shows "try_fold (\<lambda>item (acc, s). try_bind (visit E item uri stack d s) (\<lambda>(v, s'). Inr (acc @ [v], s')))
      xs (acc, st) = Inr (acc @ xs, spend (sum_list (map node_count xs)) st)"
  using assms
proof (induction xs arbitrary: acc st)
  case (Cons x xs)
  have x: "visit E x uri stack d st = Inr (x, spend (node_count x) st)"
    using Cons.prems by simp
  have "try_fold (\<lambda>item (acc, s). try_bind (visit E item uri stack d s) (\<lambda>(v, s'). Inr (acc @ [v], s')))
      xs (acc @ [x], spend (node_count x) st)
    = Inr ((acc @ [x]) @ xs, spend (sum_list (map node_count xs)) (spend (node_count x) st))"
    using Cons.prems by (intro Cons.IH) auto
  then show ?case by (simp add: x)
qed (simp add: spend_def)

lemma visit_members_id:
  assumes "\<And>k x s. (k, x) \<in> set ps \<Longrightarrow> nodes (d_trav s) + node_count x \<le> IMPORT_MAX_NODES \<Longrightarrow>
      visit E x uri stack d s = Inr (x, spend (node_count x) s)"
    and "nodes (d_trav st) + sum_list (map (\<lambda>(k, v). node_count v) ps) \<le> IMPORT_MAX_NODES"
    and "''__proto__'' \<notin> fst ` set ps"
  shows "try_fold (\<lambda>(key, item) (acc, s).
        try_bind (visit E item uri stack d s) (\<lambda>(v, s'). Inr (set_prop key v acc, s')))
      ps (acc, st) = Inr (foldl (\<lambda>ps (k, v). def_prop k v ps) acc ps,
        spend (sum_list (map (\<lambda>(k, v). node_count v) ps)) st)"
  using assms
proof (induction ps arbitrary: acc st)
  case (Cons p ps)
  obtain k x where p: "p = (k, x)" by (cases p)
  have x: "visit E x uri stack d st = Inr (x, spend (node_count x) st)"
    using Cons.prems(1) [of k x st] Cons.prems(2) p by simp
  have k: "set_prop k x acc = def_prop k x acc"
    using Cons.prems(3) p by (auto simp: set_prop_def)
  have "try_fold (\<lambda>(key, item) (acc, s).
        try_bind (visit E item uri stack d s) (\<lambda>(v, s'). Inr (set_prop key v acc, s')))
      ps (def_prop k x acc, spend (node_count x) st)
    = Inr (foldl (\<lambda>ps (k, v). def_prop k v ps) (def_prop k x acc) ps,
        spend (sum_list (map (\<lambda>(k, v). node_count v) ps)) (spend (node_count x) st))"
    using Cons.prems p by (intro Cons.IH) auto
  then show ?case by (simp add: x k p)
qed (simp add: spend_def)

lemma visit_id:
  "copyable v \<Longrightarrow> depth + tree_depth v \<le> IMPORT_MAX_DEPTH \<Longrightarrow> nodes (d_trav st) + node_count v \<le> IMPORT_MAX_NODES
   \<Longrightarrow> visit E v uri stack depth st = Inr (v, spend (node_count v) st)"
proof (induction v arbitrary: depth st)
  case (JArr xs)
  have c: "consumeNode (d_trav st) depth = Inr ((d_trav st)\<lparr> nodes := Suc (nodes (d_trav st)) \<rparr>)"
    using JArr.prems by (simp add: consumeNode_Inr_iff)
  have s1: "st\<lparr> d_trav := (d_trav st)\<lparr> nodes := Suc (nodes (d_trav st)) \<rparr> \<rparr> = spend 1 st"
    by (simp add: spend_def)
  have "visit E x uri stack (depth + 1) s = Inr (x, spend (node_count x) s)"
    if "x \<in> set xs" "nodes (d_trav s) + node_count x \<le> IMPORT_MAX_NODES" for x s
    using that JArr.IH [of x "depth + 1" s] JArr.prems tree_depth_children [of depth "JArr xs" IMPORT_MAX_DEPTH]
    by (simp add: children_def list_all_iff)
  then have "try_fold (\<lambda>item (acc, s). try_bind (visit E item uri stack (depth + 1) s) (\<lambda>(v, s'). Inr (acc @ [v], s')))
      xs ([], spend 1 st) = Inr ([] @ xs, spend (sum_list (map node_count xs)) (spend 1 st))"
    using JArr.prems by (intro visit_elements_id) auto
  then show ?case
    by (subst visit.simps) (simp add: c s1 Let_def)
next
  case (JObj ps)
  have c: "consumeNode (d_trav st) depth = Inr ((d_trav st)\<lparr> nodes := Suc (nodes (d_trav st)) \<rparr>)"
    using JObj.prems by (simp add: consumeNode_Inr_iff)
  have s1: "st\<lparr> d_trav := (d_trav st)\<lparr> nodes := Suc (nodes (d_trav st)) \<rparr> \<rparr> = spend 1 st"
    by (simp add: spend_def)
  have "visit E x uri stack (depth + 1) s = Inr (x, spend (node_count x) s)"
    if "(k, x) \<in> set ps" "nodes (d_trav s) + node_count x \<le> IMPORT_MAX_NODES" for k x s
    using that JObj.IH [of "(k, x)" x "depth + 1" s] JObj.prems
      tree_depth_children [of depth "JObj ps" IMPORT_MAX_DEPTH]
    by (force simp: children_def list_all_iff)
  then have "try_fold (\<lambda>(key, item) (acc, s).
        try_bind (visit E item uri stack (depth + 1) s) (\<lambda>(v, s'). Inr (set_prop key v acc, s')))
      ps ([], spend 1 st) = Inr (foldl (\<lambda>ps (k, v). def_prop k v ps) [] ps,
        spend (sum_list (map (\<lambda>(k, v). node_count v) ps)) (spend 1 st))"
    using JObj.prems by (intro visit_members_id) auto
  moreover have "foldl (\<lambda>ps (k, v). def_prop k v ps) [] ps = ps"
    using JObj.prems(1) by (simp add: ordered_props_def fromEntries_def)
  moreover have "obj_get ps ''$ref'' = JUndef"
  proof -
    have "own ps ''$ref'' = None" using JObj.prems(1) by (simp add: map_of_eq_None_iff)
    then show ?thesis by (simp add: obj_get_def proto_get_def OBJECT_PROTOTYPE_def)
  qed
  ultimately show ?case
    by (subst visit.simps) (simp add: c s1 Let_def)
qed (simp_all add: visit.simps consumeNode_Inr_iff [THEN iffD2] spend_def)

text \<open>Dereferencing returns, and returns the document unchanged, when it has no references, no own
  \<^verbatim>\<open>__proto__\<close> property and is within the depth and node limits.\<close>

theorem dereference_id:
  assumes "copyable (JObj root)" and "tree_depth (JObj root) \<le> IMPORT_MAX_DEPTH"
    and "node_count (JObj root) \<le> IMPORT_MAX_NODES"
  shows "dereferenceOpenApi E root \<lparr> io_baseUri = None, io_documents = [] \<rparr> b = Inr root"
proof -
  have "visit E (JObj root) ''openapi.yaml'' [] 0
      \<lparr> d_cache = [''openapi.yaml'' \<mapsto> root], d_docs = b, d_trav = createBudget \<rparr>
    = Inr (JObj root, spend (node_count (JObj root))
        \<lparr> d_cache = [''openapi.yaml'' \<mapsto> root], d_docs = b, d_trav = createBudget \<rparr>)"
    using assms by (intro visit_id) (simp_all add: createBudget_def del: tree_depth.simps node_count.simps copyable.simps)
  then show ?thesis by (simp add: dereferenceOpenApi_def canonical_openapi_yaml)
qed

theorem dereference_id_witness:
  "dereferenceOpenApi env0 [(''openapi'', JStr ''3.1.0''), (''paths'', JObj [])] \<lparr> io_baseUri = None, io_documents = [] \<rparr> createBudget
     = Inr [(''openapi'', JStr ''3.1.0''), (''paths'', JObj [])]"
  by (rule dereference_id)
    (simp_all add: ordered_props_def fromEntries_def def_prop_def index_key_def all_digits_def is_digit_def code_def
      max_list_def import_limits)

section \<open>Pointers, addresses, templates, URI components\<close>

text \<open>\<^verbatim>\<open>resolvePointer\<close> follows chains of local references to their end: what it returns is never itself a
  reference.\<close>

theorem resolvePointer_not_ref:
  assumes "resolvePointer root v seen b = Inr (w, seen', b')"
  shows "ref_of w = None"
proof -
  have "resolvePointer_loop root v seen b depth = Inr (w, seen', b') \<Longrightarrow> ref_of w = None" for depth
  proof (induction root v seen b depth rule: resolvePointer_loop.induct)
    case (1 root v seen b depth)
    show ?case
    proof (cases "ref_of v")
      case None
      with "1.prems" show ?thesis by (simp add: resolvePointer_loop.simps [of root v])
    next
      case (Some ref)
      with "1.prems" obtain b1 b2 u where s: "consumeNode b depth = Inr b1" "consumeRef b1 = Inr b2"
        "\<not> \<not> startsWith ref ''#/''" "ref \<notin> set seen"
        "walk_segments (JObj root) (map unescape_segment (split (CHR ''/'') (drop 2 ref))) = Inr u"
        and l: "resolvePointer_loop root u (seen @ [ref]) b2 (depth + 1) = Inr (w, seen', b')"
        by (auto simp: resolvePointer_loop.simps [of root v] try_bind_Inr_iff split: if_splits)
      from "1.IH" [OF Some s l] show ?thesis .
    qed
  qed
  with assms show ?thesis by (simp add: resolvePointer_def)
qed

theorem resolvePointer_not_ref_witness:
  "\<exists>s b. resolvePointer [(''x'', JObj [(''$ref'', JStr ''#/y'')]), (''y'', JBool True)] (JObj [(''$ref'', JStr ''#/x'')]) [] createBudget
      = Inr (JBool True, s, b) \<and> ref_of (JBool True) = None"
proof -
  have "resolvePointer [(''x'', JObj [(''$ref'', JStr ''#/y'')]), (''y'', JBool True)] (JObj [(''$ref'', JStr ''#/x'')]) [] createBudget
      = Inr (JBool True, [''#/x'', ''#/y''], createBudget\<lparr> nodes := 2, refs := 2 \<rparr>)"
    by (simp add: resolvePointer_def resolvePointer_loop.simps ref_of_def budget_eval as_object_def
        unescape_segment_def obj_get_def proto_get_def OBJECT_PROTOTYPE_def cong: try_bind_weak_cong)
  with resolvePointer_not_ref [OF this] show ?thesis by blast
qed

text \<open>The parts of a normalised path: not empty, neither \<^verbatim>\<open>.\<close> nor \<^verbatim>\<open>..\<close>.\<close>

definition proper_part :: "string \<Rightarrow> bool" where
  "proper_part p = (p \<noteq> [] \<and> p \<noteq> ''.'' \<and> p \<noteq> ''..'')"

lemma normal_parts_proper:
  "list_all proper_part acc \<Longrightarrow> list_all proper_part (foldl normal_part acc parts)"
proof (induction parts arbitrary: acc)
  case (Cons p ps)
  have "list_all proper_part (normal_part acc p)"
    using Cons.prems by (auto simp: normal_part_def proper_part_def list_all_iff dest: in_set_butlastD)
  then show ?case using Cons.IH by simp
qed simp

lemma normal_parts_id: "list_all proper_part parts \<Longrightarrow> foldl normal_part acc parts = acc @ parts"
  by (induction parts arbitrary: acc) (auto simp: normal_part_def proper_part_def)

lemma normal_parts_chars:
  "(\<And>p. p \<in> set acc \<Longrightarrow> P p) \<Longrightarrow> (\<And>p. p \<in> set parts \<Longrightarrow> P p) \<Longrightarrow> q \<in> set (foldl normal_part acc parts) \<Longrightarrow> P q"
proof (induction parts arbitrary: acc)
  case (Cons p ps)
  have "P x" if "x \<in> set (normal_part acc p)" for x
    using that Cons.prems by (auto simp: normal_part_def split: if_splits dest: in_set_butlastD)
  with Cons.IH [of "normal_part acc p"] Cons.prems show ?case by simp
qed simp

text \<open>A path that is already normalised is its own canonical address.\<close>

lemma canonical_normal:
  assumes "list_all proper_part ps" and "\<And>p. p \<in> set ps \<Longrightarrow> CHR ''/'' \<notin> set p \<and> CHR 0x5C \<notin> set p"
    and "slash = [] \<or> slash = ''/''"
    and "uri = (if slash @ join ''/'' ps = [] then ''.'' else slash @ join ''/'' ps)" and "\<not> has_scheme uri"
  shows "canonicalUri E uri [] = Inr uri"
proof (cases "ps = []")
  case True
  with assms(3-5) show ?thesis
    by (auto simp: canonicalUri_def replace_char_def Let_def normal_part_def)
next
  case False
  then obtain p qs where ps: "ps = p # qs" by (cases ps) auto
  have sp: "split (CHR ''/'') (join ''/'' ps) = ps"
    using split_join [OF False, of "CHR ''/''"] assms(2) by blast
  have ne: "join ''/'' ps \<noteq> []" and hd: "\<not> startsWith (join ''/'' ps) ''/''"
    using ps assms(1) assms(2) [of p] by (cases p; cases qs; auto simp: proper_part_def)+
  have bs: "CHR 0x5C \<notin> set (join ''/'' ps)"
    using set_join [of "CHR 0x5C" "''/''" ps] assms(2) by auto
  have u: "uri = slash @ join ''/'' ps" using assms(4) ne by simp
  have "CHR 0x5C \<notin> set uri" using bs assms(3) u by auto
  then have r: "replace_char (CHR 0x5C) ''/'' uri = uri" by (rule replace_char_id)
  have f: "foldl normal_part [] ps = ps" using normal_parts_id [OF assms(1), of "[]"] by simp
  from assms(3) show ?thesis
  proof
    assume "slash = []"
    with u r f sp hd ne assms(5) show ?thesis
      by (simp add: canonicalUri_def Let_def replace_char_def [of _ _ "[]"])
  next
    assume "slash = ''/''"
    with u r f sp ne assms(5) show ?thesis
      by (simp add: canonicalUri_def Let_def normal_part_def [of "[]" "[]"])
  qed
qed

text \<open>The address computed for a relative reference is canonical: without a scheme it is a fixed point of the
  computation, so two spellings of one document meet in the cache under one key.\<close>

theorem canonicalUri_idem:
  assumes "canonicalUri E input base = Inr uri" and "\<not> has_scheme input" and "\<not> has_scheme base"
    and "\<not> has_scheme uri"
  shows "canonicalUri E uri [] = Inr uri"
proof -
  define normalized where "normalized = replace_char (CHR 0x5C) ''/'' input"
  define parts where "parts = (if startsWith normalized ''/'' then []
      else butlast (split (CHR ''/'') (replace_char (CHR 0x5C) ''/'' base))) @ split (CHR ''/'') normalized"
  define ps where "ps = foldl normal_part [] parts"
  have "CHR ''/'' \<notin> set p \<and> CHR 0x5C \<notin> set p" if "p \<in> set parts" for p
    using that split_no_sep [of p] split_subset [of p]
      replace_char_gone [of "CHR 0x5C" "''/''" input] replace_char_gone [of "CHR 0x5C" "''/''" base]
    unfolding parts_def normalized_def by (fastforce split: if_splits dest: in_set_butlastD)
  then have ok: "CHR ''/'' \<notin> set p \<and> CHR 0x5C \<notin> set p" if "p \<in> set ps" for p
    using normal_parts_chars [of "[]" "\<lambda>p. CHR ''/'' \<notin> set p \<and> CHR 0x5C \<notin> set p" parts p] that
    unfolding ps_def by simp
  have "list_all proper_part ps" unfolding ps_def by (rule normal_parts_proper) simp
  moreover have "uri = (if (if startsWith normalized ''/'' then ''/'' else []) @ join ''/'' ps = [] then ''.''
      else (if startsWith normalized ''/'' then ''/'' else []) @ join ''/'' ps)"
    using assms(1-3) by (simp add: canonicalUri_def Let_def normalized_def parts_def ps_def split: if_splits)
  ultimately show ?thesis
    using canonical_normal [of ps "if startsWith normalized ''/'' then ''/'' else []" uri E] ok assms(4) by simp
qed

theorem canonicalUri_idem_witness:
  "canonicalUri env0 ''../schemas/./user.yaml'' ''api/v1/openapi.yaml'' = Inr ''api/schemas/user.yaml''
   \<and> canonicalUri env0 ''api/schemas/user.yaml'' [] = Inr ''api/schemas/user.yaml''"
proof -
  note eval = canonicalUri_def has_scheme_def scheme_char_def is_alpha_def is_lower_az_def is_upper_az_def
    is_digit_def code_def replace_char_def normal_part_def Let_def
  have c: "canonicalUri env0 ''../schemas/./user.yaml'' ''api/v1/openapi.yaml'' = Inr ''api/schemas/user.yaml''"
    by (simp add: eval)
  show ?thesis using c by (intro conjI canonicalUri_idem [OF c]) (simp_all add: eval)
qed

lemma decode_escape_percent:
  "n < 128 \<Longrightarrow> decode_escape (tl (percent n) @ r) = Some (char_of n, r)"
  "128 \<le> n \<Longrightarrow> n < 256 \<Longrightarrow>
     decode_escape (tl (percent (192 + n div 64)) @ percent (128 + n mod 64) @ r) = Some (char_of n, r)"
proof -
  have hex: "hex_val (hex_upper d) = Some d" if "d < 16" for d
    using that by (auto simp: hex_val_def hex_upper_def is_digit_def)
  have h2: "hex2 (hex_upper (n div 16)) (hex_upper (n mod 16)) = Some n" if "n < 256" for n
    using that hex [of "n div 16"] hex [of "n mod 16"] by (simp add: hex2_def less_mult_imp_div_less)
  show "n < 128 \<Longrightarrow> decode_escape (tl (percent n) @ r) = Some (char_of n, r)"
    using h2 [of n] by (simp add: decode_escape_def percent_def)
  show "128 \<le> n \<Longrightarrow> n < 256 \<Longrightarrow>
     decode_escape (tl (percent (192 + n div 64)) @ percent (128 + n mod 64) @ r) = Some (char_of n, r)"
  proof -
    assume n: "128 \<le> n" "n < 256"
    then have q: "n div 64 = 2 \<or> n div 64 = 3" and v: "(n div 64) * 64 + n mod 64 = n" by auto
    have a: "hex2 (hex_upper ((192 + n div 64) div 16)) (hex_upper ((192 + n div 64) mod 16)) = Some (192 + n div 64)"
      using q by (intro h2) auto
    have b: "hex2 (hex_upper ((128 + n mod 64) div 16)) (hex_upper ((128 + n mod 64) mod 16)) = Some (128 + n mod 64)"
    proof -
      have "n mod 64 < 64" by simp
      then show ?thesis by (intro h2) linarith
    qed
    have m: "n mod 64 < 64" by simp
    from q show ?thesis
      unfolding decode_escape_def percent_def list.sel append.simps list.case a b option.case
      using v m by auto
  qed
qed

text \<open>Decoding an encoded URI component gives it back.\<close>

lemma decode_encode_uri: "decodeURIComponent (encodeURIComponent s) = Some s"
proof (induction s)
  case (Cons c s)
  have enc: "encodeURIComponent (c # s) =
      (if uri_unreserved c then [c] else if code c < 128 then percent (code c)
       else percent (192 + code c div 64) @ percent (128 + code c mod 64)) @ encodeURIComponent s"
    by (simp add: encodeURIComponent_def)
  have pc: "percent n = CHR ''%'' # tl (percent n)" for n by (simp add: percent_def)
  show ?case
  proof (cases "uri_unreserved c")
    case True
    then have "c \<noteq> CHR ''%''"
      by (auto simp: uri_unreserved_def is_alpha_def is_upper_az_def is_lower_az_def is_digit_def code_def)
    with True Cons show ?thesis by (simp add: enc)
  next
    case False
    show ?thesis
    proof (cases "code c < 128")
      case True
      from decode_escape_percent(1) [OF True, of "encodeURIComponent s"] True False Cons show ?thesis
        unfolding enc by (subst pc) (simp add: encodeURIComponent_def)
    next
      case big: False
      from decode_escape_percent(2) [of "code c" "encodeURIComponent s"] big False Cons show ?thesis
        unfolding enc by (subst pc) simp
    qed
  qed
qed (simp add: encodeURIComponent_def)

text \<open>A server template expands variable by variable: literal text before an opening brace is copied, the
  variable's name is put in double braces, and expansion continues behind the closing brace.\<close>

theorem expand_template:
  assumes "CHR ''{'' \<notin> set lit" and "CHR ''}'' \<notin> set name"
  shows "expandOpenApiServerUrl (lit @ ''{'' @ name @ ''}'' @ rest) =
     lit @ ''{{'' @ name @ ''}}'' @ expandOpenApiServerUrl rest"
proof -
  have idx: "indexOf (name @ CHR ''}'' # rest) (CHR ''}'') = Some (length name)"
    using assms(2) by (induction name) auto
  from assms(1) show ?thesis
    by (induction lit) (auto simp: idx)
qed

theorem expand_template_witness:
  "expandOpenApiServerUrl (''http://'' @ ''{'' @ ''host'' @ ''}'' @ ''/v1'') = ''http://'' @ ''{{'' @ ''host'' @ ''}}'' @ ''/v1''"
proof -
  have "expandOpenApiServerUrl ''/v1'' = ''/v1''" by simp
  with expand_template [of "''http://''" "''host''" "''/v1''"] show ?thesis by simp
qed

end
