(* ===== verification/ImportExport.thy ===== *)
theory ImportExport imports ImportOpenApi begin

text \<open>
  The other formats and the entry points of \<^verbatim>\<open>packages/import-export/src/index.ts\<close>: Postman collections
  (a walk with an explicit stack), HAR archives, project packages, the recognition of the format, the scan
  for credentials and the export. Query parameter names come from the platform's URL parser, a parameter.
\<close>

section \<open>Headers and Postman collections\<close>

definition header_entry :: "jsval \<Rightarrow> string \<times> string" where
  "header_entry x =
     (js_String (coalesce (js_get x ''name'') (js_get x ''key'')), js_String (coalesce (js_get x ''value'') (JStr [])))"

text \<open>The filter of the code, with the precedence \<^verbatim>\<open>(!x.disabled && name) || key\<close> it has.\<close>

definition header_kept :: "jsval \<Rightarrow> bool" where
  "header_kept x = ((\<not> truthy (js_get x ''disabled'') \<and> is_str (js_get x ''name'')) \<or> is_str (js_get x ''key''))"

definition headerMap :: "jsval \<Rightarrow> (string \<times> string) list" where
  "headerMap v =
     (if isArray v then fromEntries (map header_entry (filter header_kept (filter is_object (elements v))))
      else if is_object v then fromEntries (map (\<lambda>(k, x). (k, js_String x)) (entries v))
      else [])"

definition postmanUrl :: "jsval \<Rightarrow> string" where
  "postmanUrl v =
     (case v of
        JStr s \<Rightarrow> s
      | _ \<Rightarrow> if is_object v then (case js_get v ''raw'' of JStr raw \<Rightarrow> raw | _ \<Rightarrow> []) else [])"

definition postman_variables :: "jsval \<Rightarrow> (string \<times> string) list" where
  "postman_variables v =
     fromEntries (filter (\<lambda>(k, _). k \<noteq> [])
       (map (\<lambda>item. (js_String (coalesce (js_get item ''key'') (coalesce (js_get item ''id'') (JStr []))),
                     js_String (coalesce (js_get item ''value'') (JStr []))))
         (filter is_object (elements v))))"

definition postman_request ::
  "(string \<times> string) list \<Rightarrow> string list \<Rightarrow> props \<Rightarrow> (import_error, PortableRequest) result" where
  "postman_request variables path item =
     try_bind (case obj_get item ''request'' of JStr s \<Rightarrow> Inr [(''url'', JStr s)] | r \<Rightarrow> as_object r) (\<lambda>request.
     try_bind (if is_object (obj_get request ''body'') then as_object (obj_get request ''body'') else Inr []) (\<lambda>bodyObject.
       Inr \<lparr> pr_name = js_String (coalesce (obj_get item ''name'') (JStr ''Imported request'')),
             pr_method = toUpperCase (js_String (coalesce (obj_get request ''method'') (JStr ''GET''))),
             pr_url = postmanUrl (obj_get request ''url''),
             pr_headers = headerMap (obj_get request ''header''),
             pr_body = (case obj_get bodyObject ''raw'' of JStr raw \<Rightarrow> Some raw | _ \<Rightarrow> None),
             pr_collectionPath = Some path,
             pr_variables = Some variables \<rparr>))"

definition folder_name :: "props \<Rightarrow> string" where
  "folder_name item = js_String (coalesce (obj_get item ''name'') (JStr ''Folder''))"

lemma obj_get_node_count:
  "sum_list (map node_count (elements (obj_get ps k))) < Suc (sum_list (map (\<lambda>(k, v). node_count v) ps))"
proof (cases "own ps k")
  case None
  then show ?thesis by (simp add: obj_get_def proto_get_def)
next
  case (Some v)
  then have "(k, v) \<in> set ps" by (rule map_of_SomeD)
  then have "node_count v \<le> sum_list (map (\<lambda>(k, v). node_count v) ps)"
    using member_le_sum_list [of "node_count v" "map (\<lambda>(k, v). node_count v) ps"] by force
  moreover have "sum_list (map node_count (elements v)) < node_count v"
    by (cases v) auto
  ultimately show ?thesis using Some by (simp add: obj_get_def)
qed

lemma as_object_node_count:
  "as_object v = Inr ps \<Longrightarrow> sum_list (map (\<lambda>(k, v). node_count v) ps) < node_count v"
  by (cases v) (auto simp: as_object_def is_record_cases split: if_splits)

text \<open>The stack of the walk, its top first: the item, the names of the folders around it, its depth.\<close>

function postman_loop ::
  "(string \<times> string) list \<Rightarrow> (jsval \<times> string list \<times> nat) list \<Rightarrow> PortableRequest list \<Rightarrow> ImportBudget
     \<Rightarrow> (import_error, PortableRequest list \<times> ImportBudget) result" where
  "postman_loop variables [] rs b = Inr (rs, b)"
| "postman_loop variables ((cur, path, depth) # stack) rs b =
     try_bind (consumeNode b depth) (\<lambda>b1.
     try_bind (as_object cur) (\<lambda>item.
     try_bind (if truthy (obj_get item ''request'') then
                 try_bind (consumeRequest b1) (\<lambda>b2.
                 try_bind (postman_request variables path item) (\<lambda>r. Inr (rs @ [r], b2)))
               else Inr (rs, b1)) (\<lambda>(rs', b3).
       postman_loop variables
         (map (\<lambda>c. (c, path @ [folder_name item], depth + 1)) (elements (obj_get item ''item'')) @ stack) rs' b3)))"
  by pat_completeness auto
termination
proof (relation "measure (\<lambda>(vs, st, rs, b). sum_list (map (node_count \<circ> fst) st))", goal_cases)
  case (2 variables cur path depth stack rs b b1 item)
  have "sum_list (map node_count (elements (obj_get item ''item''))) < node_count cur"
    using obj_get_node_count [of item "''item''"] as_object_node_count [OF 2(2)] by linarith
  then show ?case by (simp add: comp_def)
qed simp

definition importPostman :: "props \<Rightarrow> ImportBudget \<Rightarrow> (import_error, ImportResult \<times> ImportBudget) result" where
  "importPostman root b =
     try_bind (postman_loop (postman_variables (obj_get root ''variable''))
        (map (\<lambda>item. (item, [], 0)) (elements (obj_get root ''item''))) [] b) (\<lambda>(rs, b').
     try_bind (if is_object (obj_get root ''info'') then as_object (obj_get root ''info'') else Inr []) (\<lambda>info.
       Inr (\<lparr> ir_source = Postman,
              ir_name = js_String (coalesce (obj_get info ''name'') (JStr ''Postman Import'')),
              ir_requests = map request_js rs,
              ir_warnings = [] \<rparr>, b')))"

section \<open>HAR archives\<close>

definition har_request :: "jsval \<Rightarrow> (import_error, PortableRequest) result" where
  "har_request entryValue =
     try_bind (as_object entryValue) (\<lambda>entry.
     try_bind (as_object (obj_get entry ''request'')) (\<lambda>request.
     try_bind (if is_object (obj_get request ''postData'') then as_object (obj_get request ''postData'') else Inr []) (\<lambda>postData.
       let method = coalesce (obj_get request ''method'') (JStr ''GET'');
           url = coalesce (obj_get request ''url'') (JStr [])
       in Inr \<lparr> pr_name = js_String (coalesce (obj_get entry ''comment'') (JStr (js_String method @ '' '' @ js_String url))),
                pr_method = toUpperCase (js_String method),
                pr_url = js_String url,
                pr_headers = headerMap (obj_get request ''headers''),
                pr_body = (case obj_get postData ''text'' of JStr t \<Rightarrow> Some t | _ \<Rightarrow> None),
                pr_collectionPath = Some (case obj_get entry ''pageref'' of JStr p \<Rightarrow> [p] | _ \<Rightarrow> []),
                pr_variables = None \<rparr>)))"

definition importHar :: "props \<Rightarrow> ImportBudget \<Rightarrow> (import_error, ImportResult \<times> ImportBudget) result" where
  "importHar root b =
     try_bind (as_object (obj_get root ''log'')) (\<lambda>log.
     try_bind (try_fold (\<lambda>e (rs, c). try_bind (consumeRequest c) (\<lambda>c'. try_bind (har_request e) (\<lambda>r. Inr (rs @ [r], c'))))
        (elements (obj_get log ''entries'')) ([], b)) (\<lambda>(rs, b').
       Inr (\<lparr> ir_source = Har, ir_name = ''HAR Import'', ir_requests = map request_js rs, ir_warnings = [] \<rparr>, b')))"

section \<open>Recognising the format\<close>

definition importObject :: "props \<Rightarrow> ImportBudget \<Rightarrow> (import_error, ImportResult \<times> ImportBudget) result" where
  "importObject root b =
     (if is_str (obj_get root ''openapi'') \<or> is_str (obj_get root ''swagger'') then importOpenApi root b
      else if is_object (obj_get root ''log'') then importHar root b
      else
        try_bind (if is_object (obj_get root ''info'')
                  then try_bind (as_object (obj_get root ''info''))
                         (\<lambda>info. Inr (str_includes (js_String (coalesce (obj_get info ''schema'') (JStr []))) ''postman''))
                  else Inr False) (\<lambda>postman.
          if postman then importPostman root b
          else if obj_get root ''format'' = JStr ''apivoy-project'' \<and> isArray (obj_get root ''requests'') then
            try_bind (try_fold (\<lambda>_. consumeRequest) (elements (obj_get root ''requests'')) b) (\<lambda>b'.
              Inr (\<lparr> ir_source = ApiVoy,
                     ir_name = js_String (coalesce (obj_get root ''name'') (JStr ''ApiVoy Import'')),
                     ir_requests = elements (obj_get root ''requests''),
                     ir_warnings = [] \<rparr>, b'))
          else Inl UnknownFormat))"

definition importJson :: "string \<Rightarrow> (import_error, ImportResult) result" where
  "importJson text =
     try_bind (consumeDocument createBudget text) (\<lambda>b.
     try_bind (case JSON_parse text of None \<Rightarrow> Inl JsonSyntax | Some v \<Rightarrow> as_object v) (\<lambda>root.
     try_bind (validateStructure (JObj root)) (\<lambda>_.
     try_bind (importObject root b) (\<lambda>(r, _). Inr r))))"

definition importDocument :: "import_env \<Rightarrow> string \<Rightarrow> ImportDocumentOptions \<Rightarrow> (import_error, ImportResult) result" where
  "importDocument E text opts =
     (if length (io_documents opts) > IMPORT_MAX_DOCUMENTS - 1 then Inl TooManyDocuments
      else
        try_bind (parseDocumentObject E text createBudget) (\<lambda>(root, b).
        try_bind (validateStructure (JObj root)) (\<lambda>_.
        try_bind (if is_str (obj_get root ''openapi'') \<or> is_str (obj_get root ''swagger'')
                  then dereferenceOpenApi E root opts b else Inr root) (\<lambda>resolved.
        try_bind (validateStructure (JObj resolved)) (\<lambda>_.
        try_bind (importObject resolved createBudget) (\<lambda>(r, _). Inr r))))))"

section \<open>Credentials and export\<close>

text \<open>\<^verbatim>\<open>/(^|[-_])(authorization|api[-_]?key|token|secret|password|passwd|cookie|set-cookie)($|[-_])/i\<close>.\<close>

definition SECRET_KEY :: re where
  "SECRET_KEY =
     RSeqs [RAlt RBol (ROne ''-_''),
            RAlts [RLitI ''authorization'', RSeqs [RLitI ''api'', ROpt (ROne ''-_''), RLitI ''key''], RLitI ''token'',
                   RLitI ''secret'', RLitI ''password'', RLitI ''passwd'', RLitI ''cookie'', RLitI ''set-cookie''],
            RAlt REol (ROne ''-_'')]"

text \<open>The expression over bodies: an optional quote, a name with one of the words, an optional quote, a colon or
  an equals sign.\<close>

definition BODY_SECRET :: re where
  "BODY_SECRET =
     RSeqs [ROpt (ROne [CHR 0x22, CHR 0x27]),
            RGroup 1 (RSeqs [RStar (RSet (\<lambda>c. is_word c \<or> c = CHR ''-'')),
                             RAlts [RLitI ''token'', RLitI ''secret'', RLitI ''password'',
                                    RSeqs [RLitI ''api'', ROpt (ROne ''-_''), RLitI ''key'']],
                             RStar (RSet (\<lambda>c. is_word c \<or> c = CHR ''-''))]),
            ROpt (ROne [CHR 0x22, CHR 0x27]), RStar RSpace, ROne '':=''] "

datatype sensitive_kind = KHeader | KQuery | KBody

record SensitiveFinding =
  sf_path :: string
  sf_kind :: sensitive_kind
  sf_key :: string

definition request_path :: "nat \<Rightarrow> string" where
  "request_path i = ''requests['' @ digits_of i @ '']''"

definition scan_request :: "(string \<Rightarrow> string list option) \<Rightarrow> nat \<Rightarrow> PortableRequest \<Rightarrow> SensitiveFinding list" where
  "scan_request search_keys i r =
     map (\<lambda>k. \<lparr> sf_path = request_path i @ ''.headers.'' @ k, sf_kind = KHeader, sf_key = k \<rparr>)
       (filter (rtest SECRET_KEY) (map fst (pr_headers r)))
     @ (case search_keys (pr_url r) of
          None \<Rightarrow> []
        | Some ks \<Rightarrow> map (\<lambda>k. \<lparr> sf_path = request_path i @ ''.url.'' @ k, sf_kind = KQuery, sf_key = k \<rparr>)
                      (filter (rtest SECRET_KEY) ks))
     @ (case pr_body r of
          None \<Rightarrow> []
        | Some body \<Rightarrow> if body = [] then []
            else map (\<lambda>m. \<lparr> sf_path = request_path i @ ''.body'', sf_kind = KBody,
                              sf_key = (case m_group body m 1 of Some k \<Rightarrow> k | None \<Rightarrow> []) \<rparr>)
                   (rmatchAll BODY_SECRET body))"

definition scanSensitiveData :: "(string \<Rightarrow> string list option) \<Rightarrow> PortableRequest list \<Rightarrow> SensitiveFinding list" where
  "scanSensitiveData search_keys rs = concat (map (\<lambda>(i, r). scan_request search_keys i r) (enumerate 0 rs))"

definition project_js :: "string \<Rightarrow> string \<Rightarrow> jsval list \<Rightarrow> jsval" where
  "project_js name exportedAt rs = JObj
     [(''format'', JStr ''apivoy-project''), (''version'', JNum (NInt 1)), (''name'', JStr name),
      (''exportedAt'', JStr exportedAt), (''requests'', JArr rs)]"

definition exportApiVoyProject ::
  "(string \<Rightarrow> string list option) \<Rightarrow> string \<Rightarrow> string \<Rightarrow> PortableRequest list \<Rightarrow> bool \<Rightarrow> (import_error, string) result" where
  "exportApiVoyProject search_keys now name rs allowSensitive =
     (let findings = scanSensitiveData search_keys rs in
      if findings \<noteq> [] \<and> \<not> allowSensitive then Inl (SensitiveData (length findings))
      else Inr (json_text 2 0 (project_js name now (map request_js rs))))"

end
