(* ===== verification/ImportExportLaws.thy ===== *)
theory ImportExportLaws imports ImportExport begin

text \<open>
  Laws of the importers and of the export: what a project package carries through an export and an import, what
  an export without permission never contains, and how many requests an import can produce.
\<close>

section \<open>JSON drops what it cannot carry\<close>

fun json_strip :: "jsval \<Rightarrow> jsval" where
  "json_strip (JArr xs) = JArr (map json_strip xs)"
| "json_strip (JObj ps) = JObj (map snd (filter fst (map (\<lambda>(k, v). (serialisable v, k, json_strip v)) ps)))"
| "json_strip v = v"

lemma serialisable_strip [simp]: "serialisable (json_strip v) = serialisable v"
  by (cases v) auto

lemma strip_props:
  assumes "\<And>k v. (k, v) \<in> set ps \<Longrightarrow> h k (json_strip v) = (h k v :: string)"
  shows "map snd (filter fst (map (\<lambda>(k, v). (serialisable v, h k v))
      (map snd (filter fst (map (\<lambda>(k, v). (serialisable v, k, json_strip v)) ps)))))
    = map snd (filter fst (map (\<lambda>(k, v). (serialisable v, h k v)) ps))"
  using assms
proof (induction ps)
  case (Cons p ps)
  obtain k v where "p = (k, v)" by (cases p)
  with Cons.IH Cons.prems show ?case by simp
qed simp

lemma strip_filter:
  "filter (serialisable \<circ> snd) (map snd (filter fst (map (\<lambda>(k, v). (serialisable v, k, json_strip v)) ps))) = []
     \<longleftrightarrow> filter (serialisable \<circ> snd) ps = []"
  by (induction ps) auto

lemma json_text_strip: "json_text u l (json_strip v) = json_text u l v"
proof (induction v arbitrary: l)
  case (JArr xs)
  then show ?case by (simp cong: map_cong)
next
  case (JObj ps)
  have "map snd (filter fst (map (\<lambda>(k, v). (serialisable v, quote k @ '':'' @ (if u = 0 then [] else '' '') @ json_text u (Suc l) v))
          (map snd (filter fst (map (\<lambda>(k, v). (serialisable v, k, json_strip v)) ps)))))
      = map snd (filter fst (map (\<lambda>(k, v). (serialisable v, quote k @ '':'' @ (if u = 0 then [] else '' '') @ json_text u (Suc l) v)) ps))"
    using JObj.IH by (intro strip_props) auto
  then show ?case unfolding json_strip.simps json_text.simps strip_filter by (simp only:)
qed auto

section \<open>A project package comes back\<close>

text \<open>How the clients read a request of an import, by the fields of the TypeScript interface.\<close>

definition str_field :: "jsval \<Rightarrow> string" where
  "str_field v = (case v of JStr s \<Rightarrow> s | _ \<Rightarrow> [])"

definition opt_field :: "(jsval \<Rightarrow> 'a) \<Rightarrow> jsval \<Rightarrow> 'a option" where
  "opt_field f v = (if v = JUndef then None else Some (f v))"

definition dict_field :: "jsval \<Rightarrow> (string \<times> string) list" where
  "dict_field v = map (\<lambda>(k, x). (k, str_field x)) (entries v)"

definition portable_of :: "jsval \<Rightarrow> PortableRequest" where
  "portable_of v =
     \<lparr> pr_name = str_field (js_get v ''name''), pr_method = str_field (js_get v ''method''),
       pr_url = str_field (js_get v ''url''), pr_headers = dict_field (js_get v ''headers''),
       pr_body = opt_field str_field (js_get v ''body''),
       pr_collectionPath = opt_field (\<lambda>p. map str_field (elements p)) (js_get v ''collectionPath''),
       pr_variables = opt_field dict_field (js_get v ''variables'') \<rparr>"

text \<open>The dictionaries of a request are JavaScript objects: their keys are in enumeration order.\<close>

definition wf_request :: "PortableRequest \<Rightarrow> bool" where
  "wf_request r = (ordered_props (map (\<lambda>(k, v). (k, JStr v)) (pr_headers r))
     \<and> (case pr_variables r of None \<Rightarrow> True | Some vs \<Rightarrow> ordered_props (map (\<lambda>(k, v). (k, JStr v)) vs)))"

lemma dict_field_dict [simp]: "dict_field (string_dict ds) = ds"
  by (induction ds) (auto simp: dict_field_def string_dict_def str_field_def comp_def)

lemma strip_dict [simp]: "json_strip (string_dict ds) = string_dict ds"
  by (induction ds) (auto simp: string_dict_def)

lemma dict_not_undef [simp]: "string_dict ds \<noteq> JUndef" "serialisable (string_dict ds)"
  by (simp_all add: string_dict_def)

lemmas obj_eval = obj_get_def proto_get_def OBJECT_PROTOTYPE_def

lemma portable_of_request: "portable_of (json_strip (request_js r)) = r"
proof -
  have map_id: "map str_field (map JStr xs) = xs" for xs by (induction xs) (auto simp: str_field_def)
  have strip_id: "map json_strip (map JStr xs) = map JStr xs" for xs by (induction xs) auto
  show ?thesis
    by (cases "pr_body r"; cases "pr_collectionPath r"; cases "pr_variables r")
      (simp_all add: portable_of_def request_js_def opt_val_def obj_eval opt_field_def str_field_def [of "JStr _"]
        map_id strip_id del: map_map)
qed

definition stored_project :: "string \<Rightarrow> string \<Rightarrow> PortableRequest list \<Rightarrow> jsval" where
  "stored_project name now rs = project_js name now (map (json_strip \<circ> request_js) rs)"

lemma ordered_five [simp]:
  "ordered_props [(''format'', a), (''version'', b), (''name'', c), (''exportedAt'', d), (''requests'', e)]"
  by (simp add: ordered_props_def fromEntries_def def_prop_def index_key_def all_digits_def is_digit_def code_def)

lemma request_plain:
  assumes "wf_request r"
  shows "json_plain (json_strip (request_js r))"
proof -
  have d: "json_plain (string_dict ds)" if "ordered_props (map (\<lambda>(k, v). (k, JStr v)) ds)" for ds
    using that by (simp add: string_dict_def list_all_iff case_prod_beta')
  have strip_id: "map json_strip (map JStr xs) = map JStr xs" for xs by (induction xs) auto
  have l: "list_all json_plain (map JStr xs)" for xs by (simp add: list_all_iff)
  note ord = ordered_props_def fromEntries_def def_prop_def index_key_def all_digits_def is_digit_def code_def
  show ?thesis
    using assms
    by (cases "pr_body r"; cases "pr_collectionPath r"; cases "pr_variables r")
      (simp_all add: wf_request_def request_js_def opt_val_def strip_id d l ord [abs_def] del: map_map)
qed

lemma strip_project: "json_strip (project_js name now (map request_js rs)) = stored_project name now rs"
  by (simp add: stored_project_def project_js_def)

lemma project_plain:
  "list_all wf_request rs \<Longrightarrow> json_plain (stored_project name now rs)"
  by (simp add: stored_project_def project_js_def list_all_iff request_plain)

lemma dict_depth: "tree_depth (string_dict ds) \<le> 1"
proof -
  have "max_list (map (\<lambda>(k, v). tree_depth v) (map (\<lambda>(k, v). (k, JStr v)) ds)) = 0"
    by (induction ds) (auto simp: max_list_def)
  then show ?thesis by (simp add: string_dict_def)
qed

lemma strings_depth: "tree_depth (JArr (map JStr xs)) \<le> 1"
proof -
  have "max_list (map tree_depth (map JStr xs)) = 0" by (induction xs) (auto simp: max_list_def)
  then show ?thesis by simp
qed

lemma request_depth: "tree_depth (json_strip (request_js r)) \<le> 2"
proof -
  have strip_id: "map json_strip (map JStr xs) = map JStr xs" for xs by (induction xs) auto
  have m: "max_list (x # xs) = max x (max_list xs)" "max_list [] = 0" for x xs by (simp_all add: max_list_def)
  note h = dict_depth [of "pr_headers r"]
  show ?thesis
    using h dict_depth [of "the (pr_variables r)"] strings_depth [of "the (pr_collectionPath r)"]
    by (cases "pr_body r"; cases "pr_collectionPath r"; cases "pr_variables r")
      (simp_all add: request_js_def opt_val_def strip_id m del: map_map tree_depth.simps(1))
qed

lemma project_depth: "tree_depth (stored_project name now rs) \<le> 4"
proof -
  have "0 + max_list (map (tree_depth \<circ> (json_strip \<circ> request_js)) rs) \<le> 2"
    unfolding max_list_le using request_depth by simp
  then show ?thesis by (simp add: stored_project_def project_js_def max_list_def comp_def)
qed

text \<open>C1: a project exported as a package and imported again has the same name and the same requests, whenever the
  text is within the limits of an import.\<close>

theorem export_import_roundtrip:
  assumes "exportApiVoyProject search_keys now name rs allow = Inr package" and "list_all wf_request rs"
    and "textBytes package \<le> IMPORT_MAX_FILE_BYTES" and "length rs \<le> IMPORT_MAX_REQUESTS"
    and "node_count (stored_project name now rs) \<le> IMPORT_MAX_NODES"
  shows "\<exists>r. importJson package = Inr r \<and> ir_source r = ApiVoy \<and> ir_name r = name \<and> map portable_of (ir_requests r) = rs"
proof -
  have t: "package = json_text 2 0 (stored_project name now rs)"
    using assms(1) json_text_strip [of 2 0 "project_js name now (map request_js rs)"]
    by (simp add: exportApiVoyProject_def strip_project Let_def split: if_splits)
  obtain root where root: "stored_project name now rs = JObj root" and
    root': "root = [(''format'', JStr ''apivoy-project''), (''version'', JNum (NInt 1)), (''name'', JStr name),
      (''exportedAt'', JStr now), (''requests'', JArr (map (json_strip \<circ> request_js) rs))]"
    by (simp add: stored_project_def project_js_def)
  have p: "JSON_parse package = Some (JObj root)"
    unfolding t using JSON_parse_text [OF project_plain [OF assms(2)], of 2 name now] root by simp
  obtain b where b: "consumeDocument createBudget package = Inr b" "requests b = 0"
    using assms(3) by (auto simp: consumeDocument_def createBudget_def import_limits Let_def)
  have v: "validateStructure (JObj root) = Inr ()"
    using assms(5) project_depth [of name now rs] unfolding validateStructure_iff root by (simp add: import_limits)
  have "rs = [] \<or> requests b + length (map (json_strip \<circ> request_js) rs) \<le> IMPORT_MAX_REQUESTS"
    using b assms(4) by simp
  then obtain b' where b': "try_fold (\<lambda>_. consumeRequest) (map (json_strip \<circ> request_js) rs) b = Inr b'"
    using request_counter.consume_all_iff [of "map (json_strip \<circ> request_js) rs" b] by auto
  have "importObject root b = Inr (\<lparr> ir_source = ApiVoy, ir_name = name,
      ir_requests = map (json_strip \<circ> request_js) rs, ir_warnings = [] \<rparr>, b')"
    using b' by (simp add: importObject_def root' obj_eval coalesce_def nullish_def)
  with b p v have "importJson package = Inr \<lparr> ir_source = ApiVoy, ir_name = name,
      ir_requests = map (json_strip \<circ> request_js) rs, ir_warnings = [] \<rparr>"
    by (simp add: importJson_def)
  moreover have "map portable_of (map (json_strip \<circ> request_js) rs) = rs"
    by (simp add: comp_def portable_of_request)
  ultimately show ?thesis by simp
qed

definition sample_request :: PortableRequest where
  "sample_request = \<lparr> pr_name = ''List users'', pr_method = ''GET'', pr_url = ''https://api.test/users'',
     pr_headers = [(''Accept'', ''*/*'')], pr_body = None, pr_collectionPath = Some [''Users''], pr_variables = None \<rparr>"

theorem export_import_roundtrip_witness:
  "\<exists>package r. exportApiVoyProject (\<lambda>_. None) ''now'' ''Demo'' [sample_request] True = Inr package
     \<and> importJson package = Inr r \<and> ir_source r = ApiVoy \<and> ir_name r = ''Demo'' \<and> map portable_of (ir_requests r) = [sample_request]"
proof -
  define package where "package = json_text 2 0 (project_js ''Demo'' ''now'' (map request_js [sample_request]))"
  have e: "exportApiVoyProject (\<lambda>_. None) ''now'' ''Demo'' [sample_request] True = Inr package"
    by (simp add: exportApiVoyProject_def package_def)
  have w: "list_all wf_request [sample_request]"
    by (simp add: wf_request_def sample_request_def ordered_props_def fromEntries_def def_prop_def index_key_def
        all_digits_def is_digit_def code_def)
  have "textBytes package \<le> 400" unfolding package_def by code_simp
  then have t: "textBytes package \<le> IMPORT_MAX_FILE_BYTES" by (simp add: import_limits)
  have l: "length [sample_request] \<le> IMPORT_MAX_REQUESTS" by (simp add: import_limits)
  have n: "node_count (stored_project ''Demo'' ''now'' [sample_request]) \<le> IMPORT_MAX_NODES"
    by (simp add: stored_project_def project_js_def request_js_def sample_request_def opt_val_def string_dict_def import_limits)
  from export_import_roundtrip [OF e w t l n] e show ?thesis by auto
qed

section \<open>An export without permission\<close>

definition secret_words :: "string list" where
  "secret_words = [''authorization'', ''apikey'', ''api-key'', ''api_key'', ''token'', ''secret'', ''password'', ''passwd'', ''cookie'']"

definition SECRET_WORDS :: re where
  "SECRET_WORDS = RAlts [RLitI ''authorization'', RSeqs [RLitI ''api'', ROpt (ROne ''-_''), RLitI ''key''], RLitI ''token'',
     RLitI ''secret'', RLitI ''password'', RLitI ''passwd'', RLitI ''cookie'', RLitI ''set-cookie'']"

lemma toLowerCase_eq_append:
  "toLowerCase s = u @ v \<Longrightarrow> \<exists>s1 s2. s = s1 @ s2 \<and> toLowerCase s1 = u \<and> toLowerCase s2 = v"
  unfolding toLowerCase_def by (drule map_eq_append_conv [THEN iffD1]) auto

lemma lower_char_low: "lower_char c = d \<Longrightarrow> code d < 97 \<Longrightarrow> c = d"
proof -
  have "lower_char c = c \<or> code (lower_char c) = code c + 32 \<and> 65 \<le> code c"
    by (auto simp: lower_char_def is_upper_az_def code_def of_char_of)
  then show "lower_char c = d \<Longrightarrow> code d < 97 \<Longrightarrow> c = d" by auto
qed

lemma rmatch_Seq:
  "x \<in> set (rmatch a s st) \<Longrightarrow> y \<in> set (rmatch b s x) \<Longrightarrow> y \<in> set (rmatch (RSeq a b) s st)"
  by auto

lemma secret_word_matches:
  assumes "toLowerCase w \<in> set secret_words"
  shows "(length p + length w, cs) \<in> set (rmatch SECRET_WORDS (p @ w @ q) (length p, cs))"
proof -
  have lit: "(length p + length w, cs) \<in> set (rmatch (RLitI (toLowerCase w)) (p @ w @ q) (length p, cs))"
    by (simp add: rmatch_LitI same_text_lower)
  have key: "(length p + length w, cs) \<in> set (rmatch (RSeqs [RLitI ''api'', ROpt (ROne ''-_''), RLitI ''key'']) (p @ w @ q) (length p, cs))"
    if w: "toLowerCase w = ''api'' @ sep @ ''key''" and sep: "sep = [] \<or> sep = ''-'' \<or> sep = ''_''" for sep
  proof -
    obtain a w1 where a: "w = a @ w1" "toLowerCase a = ''api''" and w1: "toLowerCase w1 = sep @ ''key''"
      using toLowerCase_eq_append [OF w] by auto
    obtain m k where mk: "w1 = m @ k" "toLowerCase m = sep" "toLowerCase k = ''key''"
      using toLowerCase_eq_append [OF w1] by auto
    note amk = a(1) [unfolded mk(1)] a(2) mk(2,3)
    have la: "length a = 3" and lm: "length m = length sep"
      using amk(2,3) by (auto simp: toLowerCase_def dest: arg_cong [of _ _ length])
    have a: "rmatch (RLitI ''api'') (p @ a @ m @ k @ q) (length p, cs) = [(length p + length a, cs)]"
      using rmatch_LitI [of "''api''" a p "m @ k @ q" cs] same_text_lower [of a] amk(2) by simp
    have k: "rmatch (RLitI ''key'') (p @ a @ m @ k @ q) (length p + length a + length m, cs)
        = [(length p + length a + length m + length k, cs)]"
      using rmatch_LitI [of "''key''" k "p @ a @ m" q cs] same_text_lower [of k] amk(4) by (simp add: add.assoc)
    have m: "m = sep"
      using amk(3) sep lower_char_low [of _ "CHR ''-''"] lower_char_low [of _ "CHR ''_''"]
      by (auto simp: toLowerCase_def code_def)
    then have "(length p + length a + length m, cs) \<in> set (rmatch (ROpt (ROne ''-_'')) (p @ a @ m @ k @ q) (length p + length a, cs))"
      using sep by (auto simp: ROpt_def ROne_def nth_append)
    then have "(length p + length a + length m + length k, cs)
        \<in> set (rmatch (RSeqs [RLitI ''api'', ROpt (ROne ''-_''), RLitI ''key'']) (p @ a @ m @ k @ q) (length p, cs))"
      unfolding RSeqs.simps using a k
      by (intro rmatch_Seq [of "(length p + length a, cs)"] rmatch_Seq [of "(length p + length a + length m, cs)"]) simp_all
    then show ?thesis by (simp add: amk(1) add.assoc)
  qed
  from assms consider "toLowerCase w \<in> set [''authorization'', ''token'', ''secret'', ''password'', ''passwd'', ''cookie'']"
    | "toLowerCase w = ''api'' @ [] @ ''key''" | "toLowerCase w = ''api'' @ ''-'' @ ''key''" | "toLowerCase w = ''api'' @ ''_'' @ ''key''"
    by (auto simp: secret_words_def)
  then show ?thesis
  proof cases
    case 1
    then have "RLitI (toLowerCase w) \<in> RLitI ` set [''authorization'', ''token'', ''secret'', ''password'', ''passwd'', ''cookie'']"
      by blast
    then show ?thesis unfolding SECRET_WORDS_def by (intro rmatch_Alts [OF lit]) auto
  next
    case 2
    from key [OF 2] show ?thesis unfolding SECRET_WORDS_def by (rule rmatch_Alts) auto
  next
    case 3
    from key [OF 3] show ?thesis unfolding SECRET_WORDS_def by (rule rmatch_Alts) auto
  next
    case 4
    from key [OF 4] show ?thesis unfolding SECRET_WORDS_def by (rule rmatch_Alts) auto
  qed
qed

lemma secret_header_found:
  assumes "toLowerCase w \<in> set secret_words" and "p = [] \<or> last p \<in> set ''-_''" and "q = [] \<or> hd q \<in> set ''-_''"
  shows "rtest SECRET_KEY (p @ w @ q)"
proof -
  let ?s = "p @ w @ q" and ?e = "length p + length w"
  have S: "SECRET_KEY = RSeqs [RAlt RBol (ROne ''-_''), SECRET_WORDS, RAlt REol (ROne ''-_'')]"
    by (simp add: SECRET_KEY_def SECRET_WORDS_def)
  obtain i where i: "i \<le> length ?s" and start: "(length p, []) \<in> set (rmatch (RAlt RBol (ROne ''-_'')) ?s (i, []))"
  proof (cases p rule: rev_cases)
    case Nil
    then show ?thesis using that [of 0] by simp
  next
    case (snoc p' c)
    then show ?thesis using that [of "length p'"] assms(2) by (simp add: ROne_def nth_append)
  qed
  obtain j where "(j, []) \<in> set (rmatch (RAlt REol (ROne ''-_'')) ?s (?e, []))"
  proof (cases q)
    case Nil
    then show ?thesis using that [of ?e] by simp
  next
    case (Cons c q')
    then show ?thesis using that [of "Suc ?e"] assms(3) by (simp add: ROne_def nth_append)
  qed
  then have "(j, []) \<in> set (rmatch SECRET_KEY ?s (i, []))"
    unfolding S RSeqs.simps
    using start secret_word_matches [OF assms(1), of p "[]" q] by (intro rmatch_Seq)
  then show ?thesis using i unfolding rtest_iff by (metis empty_iff empty_set)
qed

text \<open>C11: an export that was not allowed to contain credentials has, in no request, a header whose name carries one of
  the credential words, in any case, as a whole part of the name between its ends, hyphens and underscores.\<close>

theorem export_without_secrets:
  assumes "exportApiVoyProject search_keys now name rs False = Inr package"
    and "r \<in> set rs" and "(p @ w @ q, v) \<in> set (pr_headers r)"
    and "p = [] \<or> last p \<in> set ''-_''" and "q = [] \<or> hd q \<in> set ''-_''"
  shows "toLowerCase w \<notin> set secret_words"
proof
  assume w: "toLowerCase w \<in> set secret_words"
  have "scanSensitiveData search_keys rs = []"
    using assms(1) by (simp add: exportApiVoyProject_def Let_def split: if_splits)
  moreover obtain i where "i < length rs" "rs ! i = r"
    using assms(2) by (auto simp: in_set_conv_nth)
  then have "(i, r) \<in> set (enumerate 0 rs)" by (simp add: in_set_enumerate_eq)
  ultimately have "scan_request search_keys i r = []"
    by (force simp: scanSensitiveData_def)
  then have "filter (rtest SECRET_KEY) (map fst (pr_headers r)) = []"
    by (simp add: scan_request_def)
  moreover have "p @ w @ q \<in> set (map fst (pr_headers r))" using assms(3) by force
  ultimately show False
    using secret_header_found [OF w assms(4,5)] by (metis filter_empty_conv)
qed

theorem export_without_secrets_witness:
  "\<exists>package. exportApiVoyProject (\<lambda>_. None) ''now'' ''Demo'' [sample_request] False = Inr package
     \<and> toLowerCase ''Accept'' \<notin> set secret_words"
proof -
  have "scanSensitiveData (\<lambda>_. None) [sample_request] = []" by code_simp
  then obtain package where e: "exportApiVoyProject (\<lambda>_. None) ''now'' ''Demo'' [sample_request] False = Inr package"
    by (simp add: exportApiVoyProject_def)
  with export_without_secrets [OF e, of sample_request "[]" "''Accept''" "[]" "''*/*''"] show ?thesis
    by (simp add: sample_request_def)
qed

section \<open>The number of requests of an import\<close>

lemma consumeNode_requests: "consumeNode b d = Inr b' \<Longrightarrow> requests b' = requests b"
  by (auto simp: consumeNode_Inr_iff)

lemma consumeRef_requests: "consumeRef b = Inr b' \<Longrightarrow> requests b' = requests b"
  by (auto simp: consumeRef_def Let_def split: if_splits)

lemma resolvePointer_requests: "resolvePointer root v seen b = Inr (w, seen', b') \<Longrightarrow> requests b' = requests b"
proof -
  have "resolvePointer_loop root v seen b depth = Inr (w, seen', b') \<Longrightarrow> requests b' = requests b" for depth
  proof (induction root v seen b depth rule: resolvePointer_loop.induct)
    case (1 root v seen b depth)
    show ?case
    proof (cases "ref_of v")
      case None
      with "1.prems" show ?thesis by (simp add: resolvePointer_loop.simps [of root v])
    next
      case (Some ref)
      with "1.prems" obtain b1 b2 u where s: "consumeNode b depth = Inr b1" "consumeRef b1 = Inr b2"
        "\<not> \<not> startsWith ref ''#/''" "ref \<notin> set seen"
        "walk_segments (JObj root) (map unescape_segment (split (CHR ''/'') (drop 2 ref))) = Inr u"
        and l: "resolvePointer_loop root u (seen @ [ref]) b2 (depth + 1) = Inr (w, seen', b')"
        by (auto simp: resolvePointer_loop.simps [of root v] try_bind_Inr_iff split: if_splits)
      from "1.IH" [OF Some s l] s(1,2) show ?thesis
        by (simp add: consumeNode_requests consumeRef_requests)
    qed
  qed
  then show "resolvePointer root v seen b = Inr (w, seen', b') \<Longrightarrow> requests b' = requests b"
    by (simp add: resolvePointer_def)
qed

lemma resolve_requests: "resolve root v b = Inr (w, b') \<Longrightarrow> requests b' = requests b"
  by (auto simp: resolve_def try_bind_Inr_iff dest: resolvePointer_requests)

lemma resolve_object_requests: "resolve_object root v b = Inr (w, b') \<Longrightarrow> requests b' = requests b"
  by (auto simp: resolve_object_def try_bind_Inr_iff dest: resolve_requests)

lemma resolve_all_requests: "resolve_all root vs b = Inr (ws, b') \<Longrightarrow> requests b' = requests b"
  by (induction vs arbitrary: b ws) (auto simp: try_bind_Inr_iff dest!: resolve_requests)

lemma schemaExample_requests: "schemaExample root v b seen d = Inr (w, b') \<Longrightarrow> requests b' = requests b"
proof (induction root v b seen d arbitrary: w b' rule: schemaExample.induct)
  case (1 root input b seen depth)
  from "1.prems" obtain b1 resolved seen' b2 where
    n: "consumeNode b depth = Inr b1" and r: "resolvePointer root input seen b1 = Inr (resolved, seen', b2)"
    by (subst (asm) schemaExample.simps) (auto simp: try_bind_Inr_iff)
  have b2: "requests b2 = requests b"
    using consumeNode_requests [OF n] resolvePointer_requests [OF r] by simp
  show ?case
  proof (cases "is_record resolved")
    case False
    with "1.prems" n r b2 show ?thesis by (subst (asm) schemaExample.simps) simp
  next
    case rec: True
    note IH = "1.IH" [OF n r refl refl]
    have member: "requests c' = requests c" if "(key, x) \<in> set (all_entries (obj_get (entries resolved) ''properties''))"
      "schemaExample root x c seen' (depth + 1) = Inr (v, c')"
      "obj_get (entries resolved) ''example'' = JUndef" "obj_get (entries resolved) ''default'' = JUndef"
      "elements (obj_get (entries resolved) ''enum'') = []" "obj_get (entries resolved) ''type'' \<noteq> JStr ''array''"
      "obj_get (entries resolved) ''type'' = JStr ''object'' \<or> is_object (obj_get (entries resolved) ''properties'')"
      for key x c v c'
      using IH(2) rec that by simp
    have fold: "requests c' = requests b2"
      if "try_fold (\<lambda>(key, value) (acc, c).
              try_bind (schemaExample root value c seen' (depth + 1)) (\<lambda>(v, c'). Inr (acc @ [(key, v)], c')))
            (all_entries (obj_get (entries resolved) ''properties'')) ([], b2) = Inr (acc, c')"
        "obj_get (entries resolved) ''example'' = JUndef" "obj_get (entries resolved) ''default'' = JUndef"
        "elements (obj_get (entries resolved) ''enum'') = []" "obj_get (entries resolved) ''type'' \<noteq> JStr ''array''"
        "obj_get (entries resolved) ''type'' = JStr ''object'' \<or> is_object (obj_get (entries resolved) ''properties'')"
      for acc c'
    proof -
      have "(\<lambda>(acc, c). requests c = requests b2) (acc, c')"
        by (rule try_fold_invariant [OF that(1)])
          (use member that(2-) in \<open>fastforce simp: try_bind_Inr_iff\<close>)+
      then show ?thesis by simp
    qed
    show ?thesis
      using "1.prems" n r b2 rec IH(1) fold
      by (subst (asm) schemaExample.simps) (fastforce simp: try_bind_Inr_iff Let_def split: if_splits)
  qed
qed

lemma operation_body_requests: "operation_body root op b = Inr (m, v, b') \<Longrightarrow> requests b' = requests b"
  by (auto simp: operation_body_def try_bind_Inr_iff Let_def split: if_splits option.splits
      dest!: resolve_object_requests schemaExample_requests)

lemma import_operation_requests:
  assumes "import_operation root base vs path item method b = Inr (r, b')"
  shows "requests b' = Suc (requests b) \<and> requests b' \<le> IMPORT_MAX_REQUESTS"
proof -
  from assms obtain b1 op b2 ps b3 m v where
    c: "consumeRequest b = Inr b1" and "resolve_object root (obj_get item method) b1 = Inr (op, b2)"
    and "resolve_all root (elements (obj_get item ''parameters'') @ elements (obj_get op ''parameters'')) b2 = Inr (ps, b3)"
    and "operation_body root op b3 = Inr (m, v, b')"
    by (auto simp: import_operation_def try_bind_Inr_iff Let_def)
  then have "requests b' = requests b1"
    using resolve_object_requests resolve_all_requests operation_body_requests by metis
  with request_counter.consume_Inr [OF c] request_counter.consume_bounded [OF c] show ?thesis by simp
qed

text \<open>The collected requests are exactly the counted ones.\<close>

definition counted :: "'a list \<times> ImportBudget \<Rightarrow> bool" where
  "counted acc = (requests (snd acc) = length (fst acc) \<and> length (fst acc) \<le> IMPORT_MAX_REQUESTS)"

lemma import_path_counted:
  assumes "import_path root base vs entry acc = Inr acc'" and "counted acc"
  shows "counted acc'"
proof -
  obtain path item rs b where e: "entry = (path, item)" "acc = (rs, b)" by (cases entry, cases acc)
  with assms(1) obtain pathItem b1 where r: "resolve_object root item b = Inr (pathItem, b1)"
    and f: "try_fold (\<lambda>method (rs, b).
              if \<not> truthy (obj_get pathItem method) then Inr (rs, b)
              else try_bind (import_operation root base vs path pathItem method b)
                     (\<lambda>(r, b'). Inr (rs @ [r], b'))) METHODS (rs, b1) = Inr acc'"
    by (auto simp: import_path_def try_bind_Inr_iff)
  from f show ?thesis
  proof (rule try_fold_invariant)
    show "counted (rs, b1)" using assms(2) e resolve_object_requests [OF r] by (simp add: counted_def)
  next
    fix m u v
    assume "counted u" "(case u of (rs, b) \<Rightarrow> if \<not> truthy (obj_get pathItem m) then Inr (rs, b)
              else try_bind (import_operation root base vs path pathItem m b) (\<lambda>(r, b'). Inr (rs @ [r], b'))) = Inr v"
    then show "counted v"
      by (auto simp: counted_def try_bind_Inr_iff split: if_splits prod.splits dest!: import_operation_requests)
  qed
qed

lemma consumeRequest_counted:
  "consumeRequest b = Inr b' \<Longrightarrow> counted (rs, b) \<Longrightarrow> counted (rs @ [r], b')"
  using request_counter.consume_Inr request_counter.consume_bounded by (fastforce simp: counted_def)

lemma postman_loop_counted:
  "postman_loop vs st rs b = Inr acc \<Longrightarrow> counted (rs, b) \<Longrightarrow> counted acc"
proof (induction vs st rs b rule: postman_loop.induct)
  case (2 vs cur path depth stack rs b)
  from "2.prems"(1) obtain b1 item rs' b3 where
    n: "consumeNode b depth = Inr b1" and i: "as_object cur = Inr item"
    and step: "(if truthy (obj_get item ''request'') then
                 try_bind (consumeRequest b1) (\<lambda>b2.
                 try_bind (postman_request vs path item) (\<lambda>r. Inr (rs @ [r], b2)))
               else Inr (rs, b1)) = Inr (rs', b3)"
    and l: "postman_loop vs (map (\<lambda>c. (c, path @ [folder_name item], depth + 1)) (elements (obj_get item ''item'')) @ stack) rs' b3 = Inr acc"
    by (auto simp: try_bind_Inr_iff)
  have "counted (rs, b1)" using "2.prems"(2) consumeNode_requests [OF n] by (simp add: counted_def)
  then have "counted (rs', b3)"
    using step by (auto simp: try_bind_Inr_iff split: if_splits intro: consumeRequest_counted)
  with "2.IH" [OF n i step refl l] show ?case by blast
qed simp

lemma importObject_counted:
  assumes "importObject root b = Inr (r, b')" and "requests b = 0"
  shows "counted (ir_requests r, b')"
proof -
  have start: "counted ([], b)" using assms(2) by (simp add: counted_def)
  have openapi: "counted (ir_requests r, b')" if o: "importOpenApi root b = Inr (r, b')"
  proof -
    from o obtain base vs paths rs where f: "try_fold (import_path root base vs) paths ([], b) = Inr (rs, b')"
      and r: "ir_requests r = map request_js rs"
      by (auto simp: importOpenApi_def try_bind_Inr_iff Let_def)
    have "counted (rs, b')" using f start by (rule try_fold_invariant) (rule import_path_counted)
    with r show ?thesis by (simp add: counted_def)
  qed
  have har: "counted (ir_requests r, b')" if h: "importHar root b = Inr (r, b')"
  proof -
    from h obtain es rs where f: "try_fold (\<lambda>e (rs, c). try_bind (consumeRequest c) (\<lambda>c'. try_bind (har_request e) (\<lambda>r. Inr (rs @ [r], c'))))
        es ([], b) = Inr (rs, b')" and r: "ir_requests r = map request_js rs"
      by (auto simp: importHar_def try_bind_Inr_iff)
    have "counted (rs, b')"
      using f start
      by (rule try_fold_invariant) (auto simp: try_bind_Inr_iff split: prod.splits intro: consumeRequest_counted)
    with r show ?thesis by (simp add: counted_def)
  qed
  have postman: "counted (ir_requests r, b')" if p: "importPostman root b = Inr (r, b')"
  proof -
    from p obtain vs st rs where f: "postman_loop vs st [] b = Inr (rs, b')" and r: "ir_requests r = map request_js rs"
      by (auto simp: importPostman_def try_bind_Inr_iff)
    from postman_loop_counted [OF f start] r show ?thesis by (simp add: counted_def)
  qed
  have project: "counted (xs, c)" if "try_fold (\<lambda>_. consumeRequest) xs b = Inr c" for xs :: "jsval list" and c
    using request_counter.consume_all_used [OF that] request_counter.consume_all_iff [of xs b] that assms(2)
    by (auto simp: counted_def)
  show ?thesis
    using assms(1) openapi har postman project
    by (auto simp: importObject_def try_bind_Inr_iff split: if_splits)
qed

text \<open>C38: no import produces more requests than the limit, whatever the format of the document and however its
  references expand.\<close>

theorem import_request_limit:
  assumes "importJson package = Inr r \<or> importDocument E package opts = Inr r"
  shows "length (ir_requests r) \<le> IMPORT_MAX_REQUESTS"
proof -
  from assms obtain root b b' where "importObject root b = Inr (r, b')" "requests b = 0"
    by (auto simp: importJson_def importDocument_def try_bind_Inr_iff consumeDocument_def createBudget_def Let_def
        split: if_splits)
  from importObject_counted [OF this] show ?thesis by (simp add: counted_def)
qed

theorem import_request_limit_witness:
  "\<exists>r. importJson ''{\"format\":\"apivoy-project\",\"requests\":[]}'' = Inr r \<and> length (ir_requests r) \<le> IMPORT_MAX_REQUESTS"
proof -
  let ?t = "''{\"format\":\"apivoy-project\",\"requests\":[]}''"
  let ?root = "[(''format'', JStr ''apivoy-project''), (''requests'', JArr [])]"
  have p: "JSON_parse ?t = Some (JObj ?root)" by code_simp
  have b: "consumeDocument createBudget ?t = Inr (createBudget\<lparr> documents := 1, bytes := 41 \<rparr>)"
    by (simp add: consumeDocument_def createBudget_def import_limits textBytes_def code_def)
  have v: "validateStructure (JObj ?root) = Inr ()"
    unfolding validateStructure_iff by (simp add: max_list_def import_limits)
  have i: "importJson ?t = Inr \<lparr> ir_source = ApiVoy, ir_name = ''ApiVoy Import'', ir_requests = [], ir_warnings = [] \<rparr>"
    unfolding importJson_def b p option.case as_object_simps try_bind_simps v
    by (simp add: importObject_def obj_eval coalesce_def nullish_def)
  with import_request_limit [OF disjI1, OF i] show ?thesis by blast
qed

end
