(* ===== verification/HttpRequest.thy ===== *)
theory HttpRequest imports RequestModel JsRegex begin

text \<open>
  The request of the HTTP workbench and what happens to it before it is stored
  (\<^verbatim>\<open>packages/ui/src/HttpWorkbench.tsx\<close>, its first part): the removal of credentials from headers, the
  authentication and the metadata, the default name and directory of a saved interface, the list of
  directories offered for saving, and the translation of a stored envelope. The path of a URL is computed by
  the platform's URL parser, a parameter.
\<close>

section \<open>The request\<close>

record HttpWorkbenchRequest =
  hw_id :: "string option"
  hw_name :: "string option"
  hw_url :: string
  hw_method :: string
  hw_headers :: header_list
  hw_body :: "string option"
  hw_bodyEncoding :: "body_encoding option"
  hw_bodySource :: "string option"
  hw_multipart :: "MultipartPart list option"
  hw_timeoutMs :: nat
  hw_variables :: header_list
  hw_assertions :: "Assertion list"
  hw_auth :: "AuthRef option"
  hw_followRedirects :: bool
  hw_retryMax :: nat
  hw_retryBackoffMs :: nat
  hw_proxy :: "string option"
  hw_tlsVerify :: bool
  hw_tlsClientCertRef :: "string option"
  hw_environmentRef :: "string option"
  hw_preScripts :: "string list option"
  hw_postScripts :: "string list option"
  hw_metadata :: "jsval option"

section \<open>Credentials\<close>

definition SENSITIVE_HEADER_NAMES :: "string list" where
  "SENSITIVE_HEADER_NAMES =
     [''authorization'', ''proxyauthorization'', ''cookie'', ''setcookie'', ''apikey'', ''xapikey'',
      ''authtoken'', ''xauthtoken'', ''accesstoken'', ''xaccesstoken'']"

definition SENSITIVE_CREDENTIAL_SUFFIXES :: "string list" where
  "SENSITIVE_CREDENTIAL_SUFFIXES = [''token'', ''secret'', ''password'', ''passwd'', ''apikey'']"

definition SENSITIVE_JSON_KEYS :: "string list" where
  "SENSITIVE_JSON_KEYS = [''authorizationcode'', ''codeverifier'']"

definition normalizedCredentialName :: "string \<Rightarrow> string" where
  "normalizedCredentialName v = filter (\<lambda>c. is_lower_az c \<or> is_digit c) (toLowerCase v)"

definition isSensitiveHeaderName :: "string \<Rightarrow> bool" where
  "isSensitiveHeaderName name =
     (let normalized = normalizedCredentialName name in
      normalized \<in> set SENSITIVE_HEADER_NAMES \<or> (\<exists>suffix \<in> set SENSITIVE_CREDENTIAL_SUFFIXES. endsWith normalized suffix))"

definition isSensitiveJsonKey :: "string \<Rightarrow> bool" where
  "isSensitiveJsonKey name =
     (normalizedCredentialName name \<in> set SENSITIVE_JSON_KEYS \<or> isSensitiveHeaderName name)"

text \<open>An item \<^verbatim>\<open>[name, ...]\<close> of a \<^verbatim>\<open>headers\<close> array with a sensitive name.\<close>

fun sensitive_pair :: "jsval \<Rightarrow> bool" where
  "sensitive_pair (JArr (JStr name # _)) = isSensitiveHeaderName name"
| "sensitive_pair _ = False"

definition headers_key :: "string option \<Rightarrow> bool" where
  "headers_key parentKey = (normalizedCredentialName (or_default parentKey []) = ''headers'')"

lemma size_elem_less: "x \<in> set xs \<Longrightarrow> size x < Suc (size_list size xs)"
  by (simp add: less_Suc_eq_le size_list_estimation')

lemma size_prop_less: "(k, v) \<in> set ps \<Longrightarrow> size v < Suc (size_list (size_prod (\<lambda>k. 0) size) ps)"
proof -
  assume "(k, v) \<in> set ps"
  then have "size_prod (\<lambda>k. 0) size (k, v) \<le> size_list (size_prod (\<lambda>k. 0) size) ps"
    by (rule size_list_estimation') simp
  then show ?thesis by simp
qed

function sanitizeMetadataValue :: "jsval \<Rightarrow> string option \<Rightarrow> jsval" where
  "sanitizeMetadataValue (JArr xs) parentKey =
     JArr (map (\<lambda>item. sanitizeMetadataValue item None)
       (if headers_key parentKey then filter (\<lambda>item. \<not> sensitive_pair item) xs else xs))"
| "sanitizeMetadataValue (JObj ps) parentKey =
     JObj (foldl (\<lambda>acc (key, nested).
         if \<not> isSensitiveJsonKey key then set_prop key (sanitizeMetadataValue nested (Some key)) acc else acc) [] ps)"
| "sanitizeMetadataValue (JHost k) parentKey = (if k = ''__proto__'' then JObj [] else JHost k)"
| "sanitizeMetadataValue JUndef parentKey = JUndef"
| "sanitizeMetadataValue JNull parentKey = JNull"
| "sanitizeMetadataValue (JBool b) parentKey = JBool b"
| "sanitizeMetadataValue (JNum n) parentKey = JNum n"
| "sanitizeMetadataValue (JStr s) parentKey = JStr s"
  by pat_completeness auto

termination
  by (relation "measure (\<lambda>(v, k). size v)") (auto intro: size_elem_less size_prop_less split: if_splits)

definition sanitizeHttpRequestForPersistence :: "HttpWorkbenchRequest \<Rightarrow> HttpWorkbenchRequest" where
  "sanitizeHttpRequestForPersistence request = request
     \<lparr> hw_headers := filter (\<lambda>(name, _). \<not> isSensitiveHeaderName name) (hw_headers request),
       hw_auth := map_option (\<lambda>a. a\<lparr> au_token := None \<rparr>) (hw_auth request),
       hw_metadata := map_option (\<lambda>m. if truthy m then sanitizeMetadataValue m None else m) (hw_metadata request) \<rparr>"

definition snapshotActualRequest :: "HttpWorkbenchRequest \<Rightarrow> HttpWorkbenchRequest" where
  "snapshotActualRequest request = sanitizeHttpRequestForPersistence (request\<lparr> hw_metadata := Some (JObj []) \<rparr>)"

section \<open>Names and directories\<close>

text \<open>\<open>url_path target\<close> is \<^verbatim>\<open>new URL(target, "http://apivoy.local").pathname\<close>, \<open>None\<close> when it throws.\<close>

definition requestNameFromUrl :: "(string \<Rightarrow> string option) \<Rightarrow> string \<Rightarrow> string" where
  "requestNameFromUrl url_path v =
     (let target = trim v in
      if target = [] then []
      else (case url_path target of
              Some p \<Rightarrow> if p = [] then ''/'' else p
            | None \<Rightarrow> takeWhile (\<lambda>c. c \<noteq> CHR ''?'' \<and> c \<noteq> CHR ''#'') target))"

record collection =
  col_id :: string
  col_parentId :: "string option"

definition has_parent :: "collection \<Rightarrow> bool" where
  "has_parent c = (case col_parentId c of None \<Rightarrow> False | Some p \<Rightarrow> p \<noteq> [])"

fun first_some :: "'a option list \<Rightarrow> 'a option" where
  "first_some [] = None"
| "first_some (Some x # xs) = Some x"
| "first_some (None # xs) = first_some xs"

definition resolveDefaultSaveCollectionId :: "collection list \<Rightarrow> string \<Rightarrow> string" where
  "resolveDefaultSaveCollectionId collections preferredId =
     or_default (first_some
       [map_option col_id (find (\<lambda>c. col_id c = ''default-collection'') collections),
        map_option col_id (find (\<lambda>c. col_id c = preferredId) collections),
        map_option col_id (find (\<lambda>c. \<not> has_parent c) collections),
        map_option col_id (case collections of [] \<Rightarrow> None | c # _ \<Rightarrow> Some c)]) []"

text \<open>The calls of \<^verbatim>\<open>append\<close> still to be made, in order, form the first argument: a call that is not yet visited
  replaces itself by the calls for its children. The set of visited identifiers is a list.\<close>

function append_loop ::
  "collection list \<Rightarrow> (collection \<times> nat) list \<Rightarrow> string list \<Rightarrow> (collection \<times> nat) list \<Rightarrow> (collection \<times> nat) list" where
  "append_loop collections [] visited result = result"
| "append_loop collections ((c, depth) # calls) visited result =
     (if col_id c \<in> set visited then append_loop collections calls visited result
      else append_loop collections
             (map (\<lambda>child. (child, depth + 1)) (filter (\<lambda>x. col_parentId x = Some (col_id c)) collections) @ calls)
             (col_id c # visited) (result @ [(c, depth)]))"
  by pat_completeness auto
termination
proof (relation "measures [\<lambda>(cs, calls, visited, result). card (col_id ` (set cs \<union> fst ` set calls) - set visited),
    \<lambda>(cs, calls, visited, result). length calls]", goal_cases)
  case (2 cs c depth calls visited result)
  then have "col_id ` (set cs \<union> fst ` set calls) - set visited = col_id ` (set cs \<union> fst ` set ((c, depth) # calls)) - set visited"
    by auto
  then show ?case by simp
next
  case (3 cs c depth calls visited result)
  then have "col_id ` (set cs \<union> fst ` set (map (\<lambda>child. (child, depth + 1)) (filter (\<lambda>x. col_parentId x = Some (col_id c)) cs) @ calls)) - set (col_id c # visited)
      \<subset> col_id ` (set cs \<union> fst ` set ((c, depth) # calls)) - set visited" by auto
  then have "card (col_id ` (set cs \<union> fst ` set (map (\<lambda>child. (child, depth + 1)) (filter (\<lambda>x. col_parentId x = Some (col_id c)) cs) @ calls)) - set (col_id c # visited))
      < card (col_id ` (set cs \<union> fst ` set ((c, depth) # calls)) - set visited)"
    by (rule psubset_card_mono [rotated]) simp
  then show ?case by simp
qed auto

definition flattenSaveCollections :: "collection list \<Rightarrow> (collection \<times> nat) list" where
  "flattenSaveCollections collections =
     (let ids = map col_id collections;
          is_root = (\<lambda>c. \<not> has_parent c \<or> the (col_parentId c) \<notin> set ids)
      in append_loop collections (map (\<lambda>c. (c, 0)) (filter is_root collections) @ map (\<lambda>c. (c, 0)) collections) [] [])"

text \<open>\<^verbatim>\<open>httpRequestFromEnvelope\<close>: a stored envelope as a request of the workbench, \<open>None\<close> for other protocols.\<close>

definition httpRequestFromEnvelope :: "RequestEnvelope \<Rightarrow> HttpWorkbenchRequest option" where
  "httpRequestFromEnvelope envelope =
     (case re_payload envelope of
        PHttp payload \<Rightarrow> Some
          \<lparr> hw_id = Some (re_id envelope), hw_name = Some (re_name envelope), hw_url = re_target envelope,
            hw_method = hp_method payload, hw_headers = hp_headers payload, hw_body = hp_body payload,
            hw_bodyEncoding = Some (hp_bodyEncoding payload), hw_bodySource = hp_bodySource payload,
            hw_multipart = Some (hp_multipart payload), hw_timeoutMs = re_timeoutMs envelope,
            hw_variables = re_variables envelope, hw_assertions = re_assertions envelope, hw_auth = re_authRef envelope,
            hw_followRedirects = hp_followRedirects payload,
            hw_retryMax = rp_max_retries (re_retryPolicy envelope),
            hw_retryBackoffMs = rp_backoff_ms (re_retryPolicy envelope), hw_proxy = re_proxy envelope,
            hw_tlsVerify = tls_verify (re_tls envelope), hw_tlsClientCertRef = tls_client_cert_ref (re_tls envelope),
            hw_environmentRef = re_environmentRef envelope, hw_preScripts = Some (re_preScripts envelope),
            hw_postScripts = Some (re_postScripts envelope),
            hw_metadata = Some (if nullish (re_metadata envelope) then JObj [] else re_metadata envelope) \<rparr>
      | _ \<Rightarrow> None)"

section \<open>Nothing sensitive is stored\<close>

text \<open>No sensitive key and no sensitive header pair at any depth.\<close>

function metadata_clean :: "jsval \<Rightarrow> string option \<Rightarrow> bool" where
  "metadata_clean (JArr xs) parentKey =
     (list_all (\<lambda>x. metadata_clean x None \<and> (headers_key parentKey \<longrightarrow> \<not> sensitive_pair x)) xs)"
| "metadata_clean (JObj ps) parentKey =
     list_all (\<lambda>(k, v). \<not> isSensitiveJsonKey k \<and> metadata_clean v (Some k)) ps"
| "metadata_clean JUndef parentKey = True"
| "metadata_clean JNull parentKey = True"
| "metadata_clean (JBool b) parentKey = True"
| "metadata_clean (JNum n) parentKey = True"
| "metadata_clean (JStr s) parentKey = True"
| "metadata_clean (JHost k) parentKey = True"
  by pat_completeness auto
termination
  by (relation "measure (\<lambda>(v, k). size v)") (auto intro: size_elem_less size_prop_less)

lemma not_headers_key_None [simp]: "\<not> headers_key None"
  by (simp add: headers_key_def normalizedCredentialName_def)

lemma sensitive_pair_sanitize [simp]: "sensitive_pair (sanitizeMetadataValue x None) = sensitive_pair x"
proof (cases x)
  case (JArr xs)
  show ?thesis
  proof (cases xs)
    case (Cons y ys)
    then show ?thesis using JArr by (cases y) auto
  qed (simp add: JArr)
qed auto

lemma list_all_set_prop:
  "list_all P ps \<Longrightarrow> P (k, v) \<Longrightarrow> list_all P (set_prop k v ps)"
  by (auto simp: list_all_iff set_prop_def dest: set_def_prop [THEN subsetD])

lemma sanitize_clean: "metadata_clean (sanitizeMetadataValue v parentKey) parentKey"
proof (induction v parentKey rule: sanitizeMetadataValue.induct)
  case (1 xs parentKey)
  then show ?case by (auto simp: list_all_iff)
next
  case (2 ps parentKey)
  have "list_all (\<lambda>(k, v). \<not> isSensitiveJsonKey k \<and> metadata_clean v (Some k))
      (foldl (\<lambda>acc (key, nested). if \<not> isSensitiveJsonKey key then set_prop key (sanitizeMetadataValue nested (Some key)) acc else acc) acc qs)"
    if "list_all (\<lambda>(k, v). \<not> isSensitiveJsonKey k \<and> metadata_clean v (Some k)) acc" "set qs \<subseteq> set ps" for acc qs
    using that
  proof (induction qs arbitrary: acc)
    case (Cons q qs)
    obtain k v where "q = (k, v)" by (cases q)
    with Cons "2.IH" [of "(k, v)" k v] show ?case
      by (auto intro!: Cons.IH list_all_set_prop)
  qed simp
  then show ?case by simp
qed auto

text \<open>What may be stored of a request: no header with a sensitive name, no literal token in the authentication, and in the
  metadata no sensitive key and no sensitive header pair at any depth.\<close>

definition persisted_clean :: "HttpWorkbenchRequest \<Rightarrow> bool" where
  "persisted_clean r \<longleftrightarrow> list_all (\<lambda>(name, v). \<not> isSensitiveHeaderName name) (hw_headers r)
     \<and> pred_option (\<lambda>a. au_token a = None) (hw_auth r) \<and> pred_option (\<lambda>m. metadata_clean m None) (hw_metadata r)"

lemma sanitized_request_clean: "persisted_clean (sanitizeHttpRequestForPersistence r)"
proof -
  have "metadata_clean m None" if "\<not> truthy m" for m using that by (cases m) auto
  then show ?thesis
    by (cases "hw_auth r"; cases "hw_metadata r")
      (auto simp: persisted_clean_def sanitizeHttpRequestForPersistence_def sanitize_clean list_all_iff)
qed

section \<open>The directories offered for saving\<close>

lemma append_loop_result:
  "\<exists>new. append_loop cs calls visited result = result @ new
     \<and> distinct (map (col_id \<circ> fst) new) \<and> set (map (col_id \<circ> fst) new) \<inter> set visited = {}
     \<and> col_id ` fst ` set calls \<subseteq> set visited \<union> set (map (col_id \<circ> fst) new)
     \<and> (\<forall>(c, d) \<in> set new. c \<in> set cs \<union> fst ` set calls)"
proof (induction cs calls visited result rule: append_loop.induct)
  case (2 cs c depth calls visited result)
  show ?case
  proof (cases "col_id c \<in> set visited")
    case True
    from "2.IH"(1) [OF True] True show ?thesis by auto
  next
    case False
    from "2.IH"(2) [OF False] obtain new where
      "append_loop cs (map (\<lambda>child. (child, depth + 1)) (filter (\<lambda>x. col_parentId x = Some (col_id c)) cs) @ calls)
             (col_id c # visited) (result @ [(c, depth)]) = (result @ [(c, depth)]) @ new"
      and n: "distinct (map (col_id \<circ> fst) new)" "set (map (col_id \<circ> fst) new) \<inter> set (col_id c # visited) = {}"
      "col_id ` fst ` set (map (\<lambda>child. (child, depth + 1)) (filter (\<lambda>x. col_parentId x = Some (col_id c)) cs) @ calls)
        \<subseteq> set (col_id c # visited) \<union> set (map (col_id \<circ> fst) new)"
      "\<forall>(c', d) \<in> set new. c' \<in> set cs \<union> fst ` set (map (\<lambda>child. (child, depth + 1)) (filter (\<lambda>x. col_parentId x = Some (col_id c)) cs) @ calls)"
      by blast
    with False have "append_loop cs ((c, depth) # calls) visited result = result @ (c, depth) # new" by simp
    moreover have "distinct (map (col_id \<circ> fst) ((c, depth) # new))" using n(1,2) by auto
    moreover have "set (map (col_id \<circ> fst) ((c, depth) # new)) \<inter> set visited = {}" using n(2) False by auto
    moreover have "col_id ` fst ` set ((c, depth) # calls) \<subseteq> set visited \<union> set (map (col_id \<circ> fst) ((c, depth) # new))"
      using n(3) by auto
    moreover have "\<forall>(c', d) \<in> set ((c, depth) # new). c' \<in> set cs \<union> fst ` set ((c, depth) # calls)"
      using n(4) by auto
    ultimately show ?thesis by blast
  qed
qed simp

text \<open>The list of directories offered for saving shows every directory exactly once, also when the parent links are
  dangling or form a cycle.\<close>

theorem flattenSaveCollections_complete:
  "distinct (map (col_id \<circ> fst) (flattenSaveCollections cs))
   \<and> set (map (col_id \<circ> fst) (flattenSaveCollections cs)) = col_id ` set cs"
proof -
  define calls where "calls = map (\<lambda>c. (c, 0 :: nat)) (filter (\<lambda>c. \<not> has_parent c \<or> the (col_parentId c) \<notin> set (map col_id cs)) cs)
      @ map (\<lambda>c. (c, 0)) cs"
  from append_loop_result [of cs calls "[]" "[]"] obtain new where
    r: "append_loop cs calls [] [] = new" and d: "distinct (map (col_id \<circ> fst) new)"
    and sup: "col_id ` fst ` set calls \<subseteq> set (map (col_id \<circ> fst) new)"
    and sub: "\<forall>(c, d) \<in> set new. c \<in> set cs \<union> fst ` set calls"
    by auto
  have "fst ` set calls = set cs" by (auto simp: calls_def image_Un image_image)
  with sup sub have "set (map (col_id \<circ> fst) new) = col_id ` set cs" by fastforce
  moreover have "flattenSaveCollections cs = new"
    using r by (simp add: flattenSaveCollections_def calls_def)
  ultimately show ?thesis using d by simp
qed

end
