(* ===== verification/FormUrl.thy ===== *)
theory FormUrl imports ImportOpenApi begin

text \<open>
  The part of the platform's URL interface the clients use directly: \<^verbatim>\<open>URLSearchParams\<close>, that is, reading and
  writing \<^verbatim>\<open>application/x-www-form-urlencoded\<close> texts. Reading gives \<open>None\<close> when a decoded character lies beyond
  the model's strings.
\<close>

definition form_safe :: "char \<Rightarrow> bool" where
  "form_safe c = (is_alpha c \<or> is_digit c \<or> c \<in> set ''*-._'')"

definition form_char :: "char \<Rightarrow> string" where
  "form_char c =
     (if form_safe c then [c] else if c = CHR '' '' then ''+''
      else if code c < 128 then percent (code c)
      else percent (192 + code c div 64) @ percent (128 + code c mod 64))"

definition form_encode :: "string \<Rightarrow> string" where
  "form_encode s = concat (map form_char s)"

text \<open>\<^verbatim>\<open>new URLSearchParams(pairs).toString()\<close>.\<close>

definition form_serialize :: "(string \<times> string) list \<Rightarrow> string" where
  "form_serialize ps = join ''&'' (map (\<lambda>(k, v). form_encode k @ ''='' @ form_encode v) ps)"

text \<open>Percent decoding leaves an incomplete or malformed escape as it stands; the bytes are then read as UTF-8.\<close>

fun percent_bytes :: "string \<Rightarrow> nat list" where
  "percent_bytes (c # a # b # r) =
     (if c = CHR ''%'' then (case hex2 a b of Some n \<Rightarrow> n # percent_bytes r | None \<Rightarrow> 37 # percent_bytes (a # b # r))
      else code c # percent_bytes (a # b # r))"
| "percent_bytes (c # r) = code c # percent_bytes r"
| "percent_bytes [] = []"

fun utf8_text :: "nat list \<Rightarrow> string option" where
  "utf8_text [] = Some []"
| "utf8_text (n # ns) =
     (if n < 128 then map_option ((#) (char_of n)) (utf8_text ns)
      else if n = 194 \<or> n = 195 then
        (case ns of
           m # ms \<Rightarrow> if 128 \<le> m \<and> m < 192 then map_option ((#) (char_of ((n - 192) * 64 + (m - 128)))) (utf8_text ms) else None
         | [] \<Rightarrow> None)
      else None)"

definition form_decode :: "string \<Rightarrow> string option" where
  "form_decode s = (if list_all (\<lambda>c. code c < 128) s then utf8_text (percent_bytes (replace_char (CHR ''+'') '' '' s)) else None)"

definition form_pair :: "string \<Rightarrow> (string \<times> string) option" where
  "form_pair s =
     (let (k, v) = (case indexOf s (CHR ''='') of None \<Rightarrow> (s, []) | Some i \<Rightarrow> (take i s, drop (Suc i) s))
      in (case (form_decode k, form_decode v) of (Some k', Some v') \<Rightarrow> Some (k', v') | _ \<Rightarrow> None))"

fun all_some :: "'a option list \<Rightarrow> 'a list option" where
  "all_some [] = Some []"
| "all_some (None # xs) = None"
| "all_some (Some x # xs) = map_option ((#) x) (all_some xs)"

text \<open>\<^verbatim>\<open>new URLSearchParams(query).entries()\<close>.\<close>

definition form_parse :: "string \<Rightarrow> (string \<times> string) list option" where
  "form_parse q = all_some (map form_pair (filter (\<lambda>s. s \<noteq> []) (split (CHR ''&'') q)))"

section \<open>Round trip\<close>

lemma hex_val_upper: "d < 16 \<Longrightarrow> hex_val (hex_upper d) = Some d"
  by (auto simp: hex_val_def hex_upper_def is_digit_def)

lemma hex2_upper: "n < 256 \<Longrightarrow> hex2 (hex_upper (n div 16)) (hex_upper (n mod 16)) = Some n"
  using hex_val_upper [of "n div 16"] hex_val_upper [of "n mod 16"] by (simp add: hex2_def less_mult_imp_div_less)

lemma percent_bytes_percent: "n < 256 \<Longrightarrow> percent_bytes (percent n @ r) = n # percent_bytes r"
  by (simp add: percent_def hex2_upper)

lemma percent_bytes_plain: "c \<noteq> CHR ''%'' \<Longrightarrow> percent_bytes (c # r) = code c # percent_bytes r"
  by (cases r; cases "tl r") auto

definition char_bytes :: "char \<Rightarrow> nat list" where
  "char_bytes c = (if code c < 128 then [code c] else [192 + code c div 64, 128 + code c mod 64])"

lemma hex_upper_chars: "d < 16 \<Longrightarrow> hex_upper d \<noteq> CHR ''+'' \<and> hex_upper d \<noteq> CHR ''&'' \<and> hex_upper d \<noteq> CHR ''='' \<and> hex_upper d \<noteq> CHR ''#'' \<and> hex_upper d \<noteq> CHR ''?'' \<and> code (hex_upper d) < 128"
proof -
  assume "d < 16"
  then have c: "code (hex_upper d) = (if d < 10 then 48 + d else 55 + d)" by (simp add: hex_upper_def)
  have "code (CHR ''+'') = 43" "code (CHR ''&'') = 38" "code (CHR ''='') = 61" "code (CHR ''#'') = 35" "code (CHR ''?'') = 63" by (simp_all add: code_def)
  with c \<open>d < 16\<close> show ?thesis by (auto split: if_splits)
qed

lemma percent_chars: "n < 256 \<Longrightarrow> c \<in> set (percent n) \<Longrightarrow> c \<noteq> CHR ''+'' \<and> c \<noteq> CHR ''&'' \<and> c \<noteq> CHR ''='' \<and> c \<noteq> CHR ''#'' \<and> c \<noteq> CHR ''?'' \<and> code c < 128"
proof -
  assume n: "n < 256" and "c \<in> set (percent n)"
  then consider "c = CHR ''%''" | "c = hex_upper (n div 16)" | "c = hex_upper (n mod 16)" by (auto simp: percent_def)
  then show ?thesis
  proof cases
    case 1
    then show ?thesis by (simp add: code_def)
  next
    case 2
    have "n div 16 < 16" using n by (simp add: less_mult_imp_div_less)
    from hex_upper_chars [OF this] 2 show ?thesis by simp
  next
    case 3
    from hex_upper_chars [of "n mod 16"] 3 show ?thesis by simp
  qed
qed

lemma code_bytes: "192 + code c div 64 < 256" "128 + code c mod 64 < 256"
  "\<not> code c < 128 \<Longrightarrow> code c div 64 = 2 \<or> code c div 64 = 3"
proof -
  have d: "code c div 64 < 4" by (rule less_mult_imp_div_less) simp
  then show "192 + code c div 64 < 256" by simp
  have "code c mod 64 < 64" by simp
  then show "128 + code c mod 64 < 256" by linarith
  assume "\<not> code c < 128"
  then have "2 \<le> code c div 64" by linarith
  with d show "code c div 64 = 2 \<or> code c div 64 = 3" by linarith
qed

lemma form_char_chars: "d \<in> set (form_char c) \<Longrightarrow> d \<noteq> CHR ''&'' \<and> d \<noteq> CHR ''='' \<and> d \<noteq> CHR ''#'' \<and> d \<noteq> CHR ''?'' \<and> code d < 128"
proof -
  assume "d \<in> set (form_char c)"
  then consider "form_safe c" "d = c" | "d = CHR ''+''" | "d \<in> set (percent (code c))"
    | "d \<in> set (percent (192 + code c div 64))" | "d \<in> set (percent (128 + code c mod 64))"
    by (auto simp: form_char_def split: if_splits)
  then show ?thesis
  proof cases
    case 1
    then show ?thesis
      by (auto simp: form_safe_def is_alpha_def is_upper_az_def is_lower_az_def is_digit_def code_def)
  next
    case 2
    then show ?thesis by (simp add: code_def)
  next
    case 3
    with percent_chars [OF code_less_256] show ?thesis by blast
  next
    case 4
    with percent_chars [OF code_bytes(1)] show ?thesis by blast
  next
    case 5
    with percent_chars [OF code_bytes(2)] show ?thesis by blast
  qed
qed

lemma percent_bytes_form_char:
  "percent_bytes (replace_char (CHR ''+'') '' '' (form_char c) @ r) = char_bytes c @ percent_bytes r"
proof (cases "form_safe c")
  case True
  then have "c \<noteq> CHR ''+'' \<and> c \<noteq> CHR ''%'' \<and> code c < 128"
    by (auto simp: form_safe_def is_alpha_def is_upper_az_def is_lower_az_def is_digit_def code_def)
  with True show ?thesis by (simp add: form_char_def replace_char_def percent_bytes_plain char_bytes_def)
next
  case unsafe: False
  show ?thesis
  proof (cases "c = CHR '' ''")
    case True
    with unsafe show ?thesis by (simp add: form_char_def replace_char_def percent_bytes_plain char_bytes_def code_def)
  next
    case False
    have id: "replace_char (CHR ''+'') '' '' (percent n) = percent n" if "n < 256" for n
      using percent_chars [OF that] by (intro replace_char_id) blast
    note small = code_less_256 [of c] code_bytes(1,2) [of c]
    show ?thesis
      using unsafe False small by (simp add: form_char_def id percent_bytes_percent char_bytes_def)
  qed
qed

lemma percent_bytes_encode:
  "percent_bytes (replace_char (CHR ''+'') '' '' (form_encode s)) = concat (map char_bytes s)"
proof (induction s)
  case (Cons c s)
  have "form_encode (c # s) = form_char c @ form_encode s" by (simp add: form_encode_def)
  with Cons show ?case by (simp add: percent_bytes_form_char)
qed (simp add: form_encode_def replace_char_def)

lemma utf8_text_bytes: "utf8_text (concat (map char_bytes s)) = Some s"
proof (induction s)
  case (Cons c s)
  show ?case
  proof (cases "code c < 128")
    case True
    with Cons show ?thesis by (simp add: char_bytes_def)
  next
    case False
    then have q: "code c div 64 = 2 \<or> code c div 64 = 3" by (rule code_bytes(3))
    have v: "(code c div 64) * 64 + code c mod 64 = code c" by simp
    have "code c mod 64 < 64" by simp
    with q v False Cons show ?thesis by (auto simp: char_bytes_def)
  qed
qed simp

lemma form_decode_encode [simp]: "form_decode (form_encode s) = Some s"
proof -
  have "list_all (\<lambda>c. code c < 128) (form_encode s)"
    using form_char_chars by (auto simp: form_encode_def list_all_iff)
  then show ?thesis by (simp add: form_decode_def percent_bytes_encode utf8_text_bytes)
qed

lemma form_encode_no: "CHR ''&'' \<notin> set (form_encode s)" "CHR ''='' \<notin> set (form_encode s)" "CHR ''#'' \<notin> set (form_encode s)"
  using form_char_chars by (auto simp: form_encode_def)

lemma indexOf_append_sep: "c \<notin> set p \<Longrightarrow> indexOf (p @ c # s) c = Some (length p)"
  by (induction p) auto

lemma form_pair_encode: "form_pair (form_encode k @ ''='' @ form_encode v) = Some (k, v)"
  using form_encode_no(2) [of k] by (simp add: form_pair_def indexOf_append_sep)

lemma all_some_map: "all_some (map Some xs) = Some xs"
  by (induction xs) auto

lemma form_parse_serialize: "form_parse (form_serialize ps) = Some ps"
proof (cases "ps = []")
  case True
  then show ?thesis by (simp add: form_parse_def form_serialize_def)
next
  case False
  let ?qs = "map (\<lambda>(k, v). form_encode k @ ''='' @ form_encode v) ps"
  have "split (CHR ''&'') (join ''&'' ?qs) = ?qs"
    using False form_encode_no by (intro split_join) auto
  moreover have "filter (\<lambda>s. s \<noteq> []) ?qs = ?qs" by (intro filter_True) auto
  moreover have "map form_pair ?qs = map Some ps"
    using form_pair_encode by (auto simp del: append.simps)
  ultimately show ?thesis by (simp add: form_parse_def form_serialize_def all_some_map del: map_map)
qed

end
