(* ===== verification/InterfaceStructure.thy ===== *)
theory InterfaceStructure imports HttpRequest FormUrl begin

text \<open>
  The structure of an interface: which query parameters, headers and body fields a request has
  (\<^verbatim>\<open>packages/ui/src/interfaceStructure.ts\<close>, its successor \<^verbatim>\<open>interfaceStructureV2.ts\<close> which also describes the
  elements of arrays, and \<^verbatim>\<open>caseStructureBridge.ts\<close>). A structure is captured from a request, stored in its
  metadata, compared with another and imposed on a request.

  Parsing a URL and assigning its path are the platform's and parameters (\<open>url_env\<close>). Alignment builds the new
  body while it still reads the old one, and puts objects of the old body into the new one without copying
  them. A node of the new body is therefore a \<open>slot\<close>, and \<open>SShared\<close> says that it is the very object the
  old body has at the same place: a write below it changes the old body too. An object made with
  \<^verbatim>\<open>Object.create(null)\<close> is modelled like any other object.
\<close>

section \<open>Structures\<close>

datatype InterfaceFieldLocation = LQuery | LHeader | LBody
datatype InterfaceFieldType = FString | FInteger | FNumber | FBoolean | FArray | FObject | FNull

record InterfaceStructureField =
  f_key :: string
  f_name :: string
  f_location :: InterfaceFieldLocation
  f_type :: InterfaceFieldType

record HttpInterfaceStructure =
  st_method :: string
  st_path :: string
  st_fields :: "InterfaceStructureField list"

datatype difference_kind = DAdded | DRemoved | DChanged

record InterfaceStructureDifference =
  df_kind :: difference_kind
  df_key :: string
  df_field :: InterfaceStructureField
  df_baseline :: "InterfaceStructureField option"

definition INTERFACE_STRUCTURE_METADATA_KEY :: string where
  "INTERFACE_STRUCTURE_METADATA_KEY = ''__apivoyInterfaceStructure''"

section \<open>Capturing\<close>

fun valueType :: "jsval \<Rightarrow> InterfaceFieldType" where
  "valueType JNull = FNull"
| "valueType (JArr xs) = FArray"
| "valueType (JNum n) = (if num_isInteger n then FInteger else FNumber)"
| "valueType (JBool b) = FBoolean"
| "valueType v = (if typeof v = ''object'' then FObject else FString)"

definition body_field :: "string \<Rightarrow> jsval \<Rightarrow> InterfaceStructureField" where
  "body_field path item = \<lparr> f_key = ''body:'' @ path, f_name = path, f_location = LBody, f_type = valueType item \<rparr>"

fun bodyFields :: "jsval \<Rightarrow> string \<Rightarrow> InterfaceStructureField list" where
  "bodyFields (JObj ps) pre =
     concat (map (\<lambda>(name, item).
       (let path = (if pre \<noteq> [] then pre @ ''.'' @ name else name)
        in body_field path item # bodyFields item path)) ps)"
| "bodyFields v pre = []"

text \<open>The second version also describes the first element of an array, under the path \<^verbatim>\<open>path[]\<close>.\<close>

fun bodyValueFields :: "jsval \<Rightarrow> string \<Rightarrow> InterfaceStructureField list" where
  "bodyValueFields (JArr (x # xs)) path = body_field path (JArr (x # xs)) # bodyValueFields x (path @ ''[]'')"
| "bodyValueFields (JObj ps) path =
     body_field path (JObj ps) # concat (map (\<lambda>(name, item). bodyValueFields item (path @ ''.'' @ name)) ps)"
| "bodyValueFields v path = [body_field path v]"

definition bodyFieldsV2 :: "jsval \<Rightarrow> InterfaceStructureField list" where
  "bodyFieldsV2 v = (if \<not> is_record v then [] else concat (map (\<lambda>(name, item). bodyValueFields item name) (entries v)))"

record parsed_url =
  pu_pathname :: string
  pu_params :: "(string \<times> string) list"

text \<open>\<^verbatim>\<open>new URL(input, "http://apivoy.local")\<close> (\<open>None\<close> when it throws) and the path after \<^verbatim>\<open>url.pathname = p\<close>.\<close>

record url_env =
  ue_parse :: "string \<Rightarrow> parsed_url option"
  ue_setPathname :: "string \<Rightarrow> string \<Rightarrow> string"

definition url_or_root :: "string \<Rightarrow> string" where
  "url_or_root url = (if url = [] then ''/'' else url)"

definition ignoredHeaders :: "string list" where
  "ignoredHeaders = [''authorization'', ''cookie'', ''content-length'', ''host'', ''connection'', ''user-agent'',
     ''accept-encoding'', ''content-type'', ''accept'']"

definition query_fields :: "(string \<times> string) list \<Rightarrow> InterfaceStructureField list" where
  "query_fields params = map (\<lambda>name. \<lparr> f_key = ''query:'' @ toLowerCase name, f_name = name, f_location = LQuery, f_type = FString \<rparr>)
     (uniq (map fst params))"

definition header_fields :: "header_list \<Rightarrow> InterfaceStructureField list" where
  "header_fields headers =
     map (\<lambda>(name, _). \<lparr> f_key = ''header:'' @ toLowerCase (trim name), f_name = trim name, f_location = LHeader, f_type = FString \<rparr>)
       (filter (\<lambda>(name, _). trim name \<noteq> [] \<and> toLowerCase (trim name) \<notin> set ignoredHeaders) headers)"

definition captured_body :: "(jsval \<Rightarrow> InterfaceStructureField list) \<Rightarrow> string option \<Rightarrow> InterfaceStructureField list" where
  "captured_body describe body =
     (if trim (or_default body []) = [] then []
      else (case JSON_parse (or_default body []) of Some v \<Rightarrow> describe v | None \<Rightarrow> []))"

definition capture_with ::
  "(jsval \<Rightarrow> InterfaceStructureField list) \<Rightarrow> url_env \<Rightarrow> HttpWorkbenchRequest \<Rightarrow> HttpInterfaceStructure option" where
  "capture_with describe U request =
     map_option (\<lambda>url.
         \<lparr> st_method = toUpperCase (hw_method request),
           st_path = (if pu_pathname url = [] then ''/'' else pu_pathname url),
           st_fields = query_fields (pu_params url) @ header_fields (hw_headers request) @ captured_body describe (hw_body request) \<rparr>)
       (ue_parse U (url_or_root (hw_url request)))"

definition captureHttpInterfaceStructure :: "url_env \<Rightarrow> HttpWorkbenchRequest \<Rightarrow> HttpInterfaceStructure option" where
  "captureHttpInterfaceStructure U request = capture_with (\<lambda>v. bodyFields v []) U request"

definition captureHttpInterfaceStructureV2 :: "url_env \<Rightarrow> HttpWorkbenchRequest \<Rightarrow> HttpInterfaceStructure option" where
  "captureHttpInterfaceStructureV2 U request = capture_with bodyFieldsV2 U request"

section \<open>Metadata\<close>

text \<open>The stored value when it has the shape of a structure.\<close>

definition readInterfaceStructureMetadata :: "jsval option \<Rightarrow> jsval option" where
  "readInterfaceStructureMetadata metadata =
     (let v = (case metadata of None \<Rightarrow> JUndef | Some m \<Rightarrow> js_get m INTERFACE_STRUCTURE_METADATA_KEY) in
      if \<not> is_object v then None
      else if js_get v ''version'' = JNum (NInt 1) \<and> is_str (js_get v ''method'') \<and> is_str (js_get v ''path'')
        \<and> isArray (js_get v ''fields'')
      then Some v else None)"

section \<open>Comparing\<close>

definition by_key :: "InterfaceStructureField list \<Rightarrow> string \<Rightarrow> InterfaceStructureField option" where
  "by_key fs = map_of (rev (map (\<lambda>f. (f_key f, f)) fs))"

definition operation_field :: "string \<Rightarrow> string \<Rightarrow> InterfaceStructureField" where
  "operation_field key name = \<lparr> f_key = key, f_name = name, f_location = LQuery, f_type = FString \<rparr>"

definition operation_change :: "string \<Rightarrow> string \<Rightarrow> string \<Rightarrow> InterfaceStructureDifference list" where
  "operation_change key now before =
     (if now \<noteq> before then [\<lparr> df_kind = DChanged, df_key = key, df_field = operation_field key now, df_baseline = Some (operation_field key before) \<rparr>]
      else [])"

definition field_change :: "InterfaceStructureField list \<Rightarrow> InterfaceStructureField \<Rightarrow> InterfaceStructureDifference list" where
  "field_change baseline field =
     (case by_key baseline (f_key field) of
        None \<Rightarrow> [\<lparr> df_kind = DAdded, df_key = f_key field, df_field = field, df_baseline = None \<rparr>]
      | Some before \<Rightarrow>
          if f_name before \<noteq> f_name field \<or> f_location before \<noteq> f_location field \<or> f_type before \<noteq> f_type field
          then [\<lparr> df_kind = DChanged, df_key = f_key field, df_field = field, df_baseline = Some before \<rparr>] else [])"

definition diffHttpInterfaceStructure ::
  "HttpInterfaceStructure \<Rightarrow> HttpInterfaceStructure \<Rightarrow> InterfaceStructureDifference list" where
  "diffHttpInterfaceStructure current baseline =
     operation_change ''operation:path'' (st_path current) (st_path baseline)
     @ operation_change ''operation:method'' (st_method current) (st_method baseline)
     @ concat (map (field_change (st_fields baseline)) (st_fields current))
     @ map (\<lambda>f. \<lparr> df_kind = DRemoved, df_key = f_key f, df_field = f, df_baseline = Some f \<rparr>)
         (filter (\<lambda>f. by_key (st_fields current) (f_key f) = None) (st_fields baseline))"

section \<open>Writing along a path\<close>

definition isSafePathSegment :: "string \<Rightarrow> bool" where
  "isSafePathSegment part = (part \<noteq> ''__proto__'' \<and> part \<noteq> ''prototype'' \<and> part \<noteq> ''constructor'')"

datatype write_step = StKey string | StItem string

definition path_step :: "string \<Rightarrow> write_step" where
  "path_step raw = (if endsWith raw ''[]'' then StItem (take (length raw - 2) raw) else StKey raw)"

fun step_part :: "write_step \<Rightarrow> string" where
  "step_part (StKey p) = p"
| "step_part (StItem p) = p"

fun step_keys :: "write_step \<Rightarrow> string list" where
  "step_keys (StKey p) = [p]"
| "step_keys (StItem p) = [p, ''0'']"

text \<open>Which containers a write passes through or creates, and whether it writes at the end: the first version
  stops at an unsafe segment, the second one skips it.\<close>

definition write_path :: "string \<Rightarrow> write_step list \<times> bool" where
  "write_path path =
     (let parts = split (CHR ''.'') path in
      if list_all isSafePathSegment parts then (map StKey parts, True)
      else (map StKey (takeWhile isSafePathSegment parts), False))"

definition write_pathV2 :: "string \<Rightarrow> write_step list \<times> bool" where
  "write_pathV2 path =
     (let steps = map path_step (split (CHR ''.'') path)
      in (filter (\<lambda>s. isSafePathSegment (step_part s)) steps, isSafePathSegment (step_part (last steps))))"

fun set_first :: "'a \<Rightarrow> 'a list \<Rightarrow> 'a list" where
  "set_first v [] = [v]"
| "set_first v (x # xs) = v # xs"

text \<open>Writing below an object of the old body. Without a value the containers are created only.\<close>

function js_write :: "props \<Rightarrow> write_step list \<Rightarrow> jsval option \<Rightarrow> props"
  and js_write_item :: "jsval list \<Rightarrow> write_step list \<Rightarrow> jsval option \<Rightarrow> jsval list" where
  "js_write ps [] v = ps"
| "js_write ps (StKey p # steps) v =
     (case (steps, v) of
        ([], Some x) \<Rightarrow> def_prop p x ps
      | _ \<Rightarrow> def_prop p (JObj (js_write (if is_record (obj_get ps p) then entries (obj_get ps p) else []) steps v)) ps)"
| "js_write ps (StItem p # steps) v = def_prop p (JArr (js_write_item (elements (obj_get ps p)) steps v)) ps"
| "js_write_item items steps v =
     (case (steps, v) of
        ([], Some x) \<Rightarrow> set_first x items
      | _ \<Rightarrow> set_first (JObj (js_write (case items of x # _ \<Rightarrow> if is_record x then entries x else [] | [] \<Rightarrow> []) steps v)) items)"

  by pat_completeness auto
termination
  by (relation "measure (\<lambda>x. case x of Inl (_, steps, _) \<Rightarrow> 2 * length steps | Inr (_, steps, _) \<Rightarrow> Suc (2 * length steps))") auto

datatype slot = SShared | SVal jsval | SObj "(string \<times> slot) list" | SArr "slot list"

text \<open>The value of the old body at a place, and the old body with another value there.\<close>

definition at_place :: "jsval \<Rightarrow> string list \<Rightarrow> jsval" where
  "at_place = foldl js_get"

fun put_place :: "jsval \<Rightarrow> string list \<Rightarrow> jsval \<Rightarrow> jsval" where
  "put_place old [] v = v"
| "put_place (JObj ps) (k # ks) v = JObj (def_prop k (put_place (obj_get ps k) ks v) ps)"
| "put_place (JArr xs) (k # ks) v =
     (case index_key k of
        Some n \<Rightarrow> if n < length xs then JArr (xs[n := put_place (xs ! n) ks v]) else JArr xs
      | None \<Rightarrow> JArr xs)"
| "put_place old (k # ks) v = old"

lemma enumerate_size: "(i, s) \<in> set (enumerate 0 xs) \<Longrightarrow> size (s :: slot) < Suc (size_list size xs)"
proof -
  assume "(i, s) \<in> set (enumerate 0 xs)"
  then have "s \<in> set xs" by (auto simp: in_set_enumerate_eq)
  then have "size s \<le> size_list size xs" by (rule size_list_estimation') simp
  then show ?thesis by simp
qed

lemma prop_size: "(k, s) \<in> set sl \<Longrightarrow> size (s :: slot) < Suc (size_list (size_prod (\<lambda>k. 0) size) sl)"
proof -
  assume "(k, s) \<in> set sl"
  then have "size_prod (\<lambda>k. 0) size (k, s) \<le> size_list (size_prod (\<lambda>k. 0) size) sl"
    by (rule size_list_estimation') simp
  then show ?thesis by simp
qed

text \<open>The value a slot stands for, at its place.\<close>

function slot_value :: "jsval \<Rightarrow> string list \<Rightarrow> slot \<Rightarrow> jsval" where
  "slot_value old at SShared = at_place old at"
| "slot_value old at (SVal v) = v"
| "slot_value old at (SObj sl) = JObj (map (\<lambda>(k, s). (k, slot_value old (at @ [k]) s)) sl)"
| "slot_value old at (SArr xs) = JArr (map (\<lambda>(i, s). slot_value old (at @ [digits_of i]) s) (enumerate 0 xs))"
  by pat_completeness auto

termination
  by (relation "measure (\<lambda>(old, at, s). size s)") (auto intro: enumerate_size prop_size)

text \<open>Writing below an object of the new body at the place \<open>at\<close>; \<open>full\<close> is the place written to.\<close>

definition shared_write :: "jsval \<Rightarrow> string list \<Rightarrow> write_step list \<Rightarrow> string list \<Rightarrow> slot option \<Rightarrow> jsval" where
  "shared_write old at steps full w =
     put_place old at (JObj (js_write (entries (at_place old at)) steps (map_option (slot_value old full) w)))"

fun slot_write ::
  "jsval \<Rightarrow> string list \<Rightarrow> (string \<times> slot) list \<Rightarrow> write_step list \<Rightarrow> string list \<Rightarrow> slot option \<Rightarrow> (string \<times> slot) list \<times> jsval" where
  "slot_write old at sl [] full w = (sl, old)"
| "slot_write old at sl (StKey p # steps) full w =
     (case (steps, w) of
        ([], Some s) \<Rightarrow> (def_prop p s sl, old)
      | _ \<Rightarrow>
          if map_of sl p = Some SShared \<and> is_record (at_place old (at @ [p]))
          then (sl, shared_write old (at @ [p]) steps full w)
          else
            (let inner = (case map_of sl p of Some (SObj i) \<Rightarrow> i | _ \<Rightarrow> []);
                 (inner', old') = slot_write old (at @ [p]) inner steps full w
             in (def_prop p (SObj inner') sl, old')))"
| "slot_write old at sl (StItem p # steps) full w =
     (if map_of sl p = Some SShared \<and> isArray (at_place old (at @ [p]))
      then (sl, put_place old (at @ [p])
                  (JArr (js_write_item (elements (at_place old (at @ [p]))) steps (map_option (slot_value old full) w))))
      else
        (let items = (case map_of sl p of Some (SArr xs) \<Rightarrow> xs | _ \<Rightarrow> [])
         in case (steps, w) of
              ([], Some s) \<Rightarrow> (def_prop p (SArr (set_first s items)) sl, old)
            | _ \<Rightarrow>
                if take 1 items = [SShared] \<and> is_record (at_place old (at @ [p, ''0'']))
                then (def_prop p (SArr items) sl, shared_write old (at @ [p, ''0'']) steps full w)
                else
                  (let inner = (case items of SObj i # _ \<Rightarrow> i | _ \<Rightarrow> []);
                       (inner', old') = slot_write old (at @ [p, ''0'']) inner steps full w
                   in (def_prop p (SArr (set_first (SObj inner') items)) sl, old'))))"

section \<open>Aligning\<close>

definition read_step :: "jsval \<Rightarrow> string \<Rightarrow> jsval" where
  "read_step v part = (if is_object v then js_get v part else JUndef)"

definition value_at :: "jsval \<Rightarrow> string \<Rightarrow> jsval" where
  "value_at existing path = foldl read_step existing (split (CHR ''.'') path)"

fun valueAtPath_loop :: "jsval \<Rightarrow> write_step list \<Rightarrow> jsval" where
  "valueAtPath_loop cursor [] = cursor"
| "valueAtPath_loop cursor (s # steps) =
     (if \<not> isSafePathSegment (step_part s) then JUndef
      else
        (let c = read_step cursor (step_part s);
             c' = (case s of StKey _ \<Rightarrow> c | StItem _ \<Rightarrow> (case c of JArr (x # _) \<Rightarrow> x | _ \<Rightarrow> JUndef))
         in valueAtPath_loop c' steps))"

definition valueAtPath :: "jsval \<Rightarrow> string \<Rightarrow> jsval" where
  "valueAtPath root path = valueAtPath_loop root (map path_step (split (CHR ''.'') path))"

definition default_slot :: "InterfaceFieldType \<Rightarrow> slot" where
  "default_slot t =
     (case t of FBoolean \<Rightarrow> SVal (JBool False) | FInteger \<Rightarrow> SVal (JNum (NInt 0)) | FNumber \<Rightarrow> SVal (JNum (NInt 0))
      | FArray \<Rightarrow> SArr [] | FObject \<Rightarrow> SObj [] | _ \<Rightarrow> SVal (JStr []))"

definition found_slot :: "jsval \<Rightarrow> slot" where
  "found_slot v = (if is_object v then SShared else SVal v)"

definition write_slot :: "write_step list \<times> bool \<Rightarrow> slot \<Rightarrow> (string \<times> slot) list \<times> jsval \<Rightarrow> (string \<times> slot) list \<times> jsval" where
  "write_slot target s st =
     (case st of (next, existing) \<Rightarrow>
        slot_write existing [] next (fst target) (concat (map step_keys (fst target))) (if snd target then Some s else None))"

text \<open>A write returns the slots of the new body and the old body: a slot may be a part of the old body that was put into the new
  one, and a write through it changes both. \<open>slot_value\<close> reads a slot in the old body as it is at the end.\<close>

definition setAtPath :: "string \<Rightarrow> slot \<Rightarrow> (string \<times> slot) list \<times> jsval \<Rightarrow> (string \<times> slot) list \<times> jsval" where
  "setAtPath path s st = write_slot (write_path path) s st"

definition setAtPathV2 :: "string \<Rightarrow> slot \<Rightarrow> (string \<times> slot) list \<times> jsval \<Rightarrow> (string \<times> slot) list \<times> jsval" where
  "setAtPathV2 path s st = write_slot (write_pathV2 path) s st"

definition align_field :: "InterfaceStructureField list \<Rightarrow> InterfaceStructureField
    \<Rightarrow> (string \<times> slot) list \<times> jsval \<Rightarrow> (string \<times> slot) list \<times> jsval" where
  "align_field expected field st =
     (let v = value_at (snd st) (f_name field) in
      if v \<noteq> JUndef then setAtPath (f_name field) (found_slot v) st
      else if \<not> (\<exists>c \<in> set expected. startsWith (f_name c) (f_name field @ ''.''))
        then setAtPath (f_name field) (default_slot (f_type field)) st
      else st)"

definition align_fieldV2 :: "InterfaceStructureField list \<Rightarrow> InterfaceStructureField
    \<Rightarrow> (string \<times> slot) list \<times> jsval \<Rightarrow> (string \<times> slot) list \<times> jsval" where
  "align_fieldV2 expected field st =
     (let v = valueAtPath (snd st) (f_name field) in
      if v \<noteq> JUndef then setAtPathV2 (f_name field) (found_slot v) st
      else if \<not> (\<exists>c \<in> set expected. startsWith (f_name c) (f_name field @ ''.'') \<or> startsWith (f_name c) (f_name field @ ''[]''))
        then setAtPathV2 (f_name field) (default_slot (f_type field)) st
      else st)"

text \<open>The body built from the fields it should have.\<close>

definition aligned_body ::
  "(InterfaceStructureField list \<Rightarrow> InterfaceStructureField \<Rightarrow> (string \<times> slot) list \<times> jsval \<Rightarrow> (string \<times> slot) list \<times> jsval)
     \<Rightarrow> InterfaceStructureField list \<Rightarrow> string option \<Rightarrow> string option" where
  "aligned_body align expected body =
     (if expected = [] then body
      else
        (let existing = or_default (JSON_parse (if or_default body [] = [] then ''{}'' else or_default body [])) (JObj []);
             (next, existing') = fold (align expected) expected ([], existing)
         in JSON_stringify2 (slot_value existing' [] (SObj next))))"

text \<open>\<^verbatim>\<open>URLSearchParams.set\<close>: the first parameter of that name gets the value, the others go.\<close>

fun params_set :: "string \<Rightarrow> string \<Rightarrow> (string \<times> string) list \<Rightarrow> (string \<times> string) list" where
  "params_set k v [] = [(k, v)]"
| "params_set k v ((k', v') # ps) = (if k' = k then (k, v) # filter (\<lambda>(x, _). x \<noteq> k) ps else (k', v') # params_set k v ps)"

definition at_location :: "InterfaceFieldLocation \<Rightarrow> HttpInterfaceStructure \<Rightarrow> InterfaceStructureField list" where
  "at_location l baseline = filter (\<lambda>f. f_location f = l) (st_fields baseline)"

definition aligned_params :: "HttpInterfaceStructure \<Rightarrow> (string \<times> string) list \<Rightarrow> (string \<times> string) list" where
  "aligned_params baseline existing =
     fold (\<lambda>f ps. params_set (f_name f) (or_default (map_of (rev existing) (f_name f)) []) ps) (at_location LQuery baseline) []"

definition next_header :: "header_list \<Rightarrow> InterfaceStructureField \<Rightarrow> string \<times> string" where
  "next_header headers f =
     (f_name f, (case find (\<lambda>(name, _). toLowerCase name = toLowerCase (f_name f)) headers of Some (_, v) \<Rightarrow> v | None \<Rightarrow> []))"

definition special_header :: "string \<times> string \<Rightarrow> bool" where
  "special_header h = (toLowerCase (fst h) \<in> set [''authorization'', ''cookie'', ''content-type'', ''accept''])"

text \<open>\<^verbatim>\<open>/^[a-z][a-z\d+.-]*:\/\/[^/]+/i\<close>, the origin of an absolute URL.\<close>

definition ORIGIN :: re where
  "ORIGIN = RSeqs [RBol, RSet is_alpha, RStar (RSet scheme_char), RLit ''://'', RPlus (RNone ''/'')]"

definition origin_of :: "string \<Rightarrow> string" where
  "origin_of url = (case rexec ORIGIN url 0 of Some m \<Rightarrow> m_text url m | None \<Rightarrow> [])"

definition align_with ::
  "(InterfaceStructureField list \<Rightarrow> InterfaceStructureField \<Rightarrow> (string \<times> slot) list \<times> jsval \<Rightarrow> (string \<times> slot) list \<times> jsval)
     \<Rightarrow> url_env \<Rightarrow> HttpWorkbenchRequest \<Rightarrow> HttpInterfaceStructure \<Rightarrow> HttpWorkbenchRequest option" where
  "align_with align U request baseline =
     map_option (\<lambda>url.
         let params = aligned_params baseline (pu_params url) in
         request\<lparr> hw_method := st_method baseline,
           hw_url := origin_of (hw_url request) @ ue_setPathname U (url_or_root (hw_url request)) (st_path baseline)
             @ (if params = [] then [] else ''?'' @ form_serialize params),
           hw_headers := map (next_header (hw_headers request)) (at_location LHeader baseline)
             @ filter special_header (hw_headers request),
           hw_body := aligned_body align (at_location LBody baseline) (hw_body request) \<rparr>)
       (ue_parse U (url_or_root (hw_url request)))"

definition alignRequestToInterface :: "url_env \<Rightarrow> HttpWorkbenchRequest \<Rightarrow> HttpInterfaceStructure \<Rightarrow> HttpWorkbenchRequest option" where
  "alignRequestToInterface U request baseline = align_with align_field U request baseline"

definition alignRequestToInterfaceV2 :: "url_env \<Rightarrow> HttpWorkbenchRequest \<Rightarrow> HttpInterfaceStructure \<Rightarrow> HttpWorkbenchRequest option" where
  "alignRequestToInterfaceV2 U request baseline = align_with align_fieldV2 U request baseline"

section \<open>Structures waiting for a case\<close>

type_synonym pending_structures = "string \<rightharpoonup> HttpInterfaceStructure"

definition stashCaseInterfaceStructure :: "string \<Rightarrow> HttpInterfaceStructure \<Rightarrow> pending_structures \<Rightarrow> pending_structures" where
  "stashCaseInterfaceStructure caseId structure pending = pending(caseId \<mapsto> structure)"

definition consumeCaseInterfaceStructure :: "string \<Rightarrow> pending_structures \<Rightarrow> HttpInterfaceStructure option \<times> pending_structures" where
  "consumeCaseInterfaceStructure caseId pending = (pending caseId, pending(caseId := None))"

end
