(* ===== verification/InterfaceStructureLaws.thy ===== *)
theory InterfaceStructureLaws imports InterfaceStructure begin

text \<open>
  Laws of interface structures: when two structures are reported to agree, what alignment restores, and that
  alignment never writes to a property through which a prototype could be reached.
\<close>

section \<open>Comparing\<close>

lemma by_key_Some: "by_key fs k = Some f \<Longrightarrow> f \<in> set fs \<and> f_key f = k"
  by (auto simp: by_key_def dest!: map_of_SomeD)

lemma by_key_None: "by_key fs k = None \<longleftrightarrow> k \<notin> f_key ` set fs"
  by (force simp: by_key_def map_of_eq_None_iff)

lemma by_key_distinct: "distinct (map f_key fs) \<Longrightarrow> f \<in> set fs \<Longrightarrow> by_key fs (f_key f) = Some f"
  unfolding by_key_def by (intro map_of_is_SomeI) (auto simp: rev_map [symmetric] comp_def)

lemma field_change_empty:
  "distinct (map f_key bs) \<Longrightarrow> field_change bs f = [] \<longleftrightarrow> f \<in> set bs"
proof
  assume "field_change bs f = []"
  then obtain b where "by_key bs (f_key f) = Some b" "f_name b = f_name f" "f_location b = f_location f" "f_type b = f_type f"
    by (auto simp: field_change_def split: option.splits if_splits)
  with by_key_Some [of bs "f_key f" b] have "b \<in> set bs" "b = f" by auto
  then show "f \<in> set bs" by simp
next
  assume "distinct (map f_key bs)" "f \<in> set bs"
  then show "field_change bs f = []" by (simp add: field_change_def by_key_distinct)
qed

text \<open>C26: when the keys of the baseline are distinct (a structure that was captured can repeat one, see below), no
  difference is reported exactly when method, path and the set of fields agree.\<close>

theorem diff_empty_iff:
  assumes "distinct (map f_key (st_fields baseline))"
  shows "diffHttpInterfaceStructure current baseline = [] \<longleftrightarrow>
     st_path current = st_path baseline \<and> st_method current = st_method baseline
     \<and> set (st_fields current) = set (st_fields baseline)"
proof -
  have changes: "concat (map (field_change (st_fields baseline)) (st_fields current)) = [] \<longleftrightarrow> set (st_fields current) \<subseteq> set (st_fields baseline)"
    using field_change_empty [OF assms] by auto
  have removed: "filter (\<lambda>f. by_key (st_fields current) (f_key f) = None) (st_fields baseline) = [] \<longleftrightarrow>
      f_key ` set (st_fields baseline) \<subseteq> f_key ` set (st_fields current)"
    by (auto simp: filter_empty_conv by_key_None)
  have keys: "set (st_fields current) = set (st_fields baseline)"
    if "set (st_fields current) \<subseteq> set (st_fields baseline)" "f_key ` set (st_fields baseline) \<subseteq> f_key ` set (st_fields current)"
    using that assms by (auto simp: distinct_map inj_on_def subset_iff image_iff) metis
  show ?thesis
    using changes removed keys by (auto simp: diffHttpInterfaceStructure_def operation_change_def)
qed

theorem diff_empty_iff_witness:
  "diffHttpInterfaceStructure \<lparr> st_method = ''GET'', st_path = ''/a'', st_fields = [body_field ''x'' JNull, body_field ''y'' JNull] \<rparr>
     \<lparr> st_method = ''GET'', st_path = ''/a'', st_fields = [body_field ''y'' JNull, body_field ''x'' JNull] \<rparr> = []"
  by (subst diff_empty_iff) (auto simp: body_field_def)

text \<open>The condition is needed: query names are compared without their case, so a request with two parameters \<^verbatim>\<open>A\<close> and
  \<^verbatim>\<open>a\<close> is captured with one key twice, and its structure then differs from itself: the map of the baseline keeps the
  last field of a key.\<close>

lemma captured_differs_from_itself:
  "map df_kind (diffHttpInterfaceStructure \<lparr> st_method = m, st_path = p, st_fields = query_fields [(''A'', v), (''a'', w)] \<rparr>
       \<lparr> st_method = m, st_path = p, st_fields = query_fields [(''A'', v), (''a'', w)] \<rparr>) = [DChanged]"
proof -
  have "query_fields [(''A'', v), (''a'', w)]
      = [\<lparr> f_key = ''query:a'', f_name = ''A'', f_location = LQuery, f_type = FString \<rparr>,
         \<lparr> f_key = ''query:a'', f_name = ''a'', f_location = LQuery, f_type = FString \<rparr>]"
    by (simp add: query_fields_def) code_simp
  then show ?thesis
    by (simp add: diffHttpInterfaceStructure_def operation_change_def field_change_def by_key_def)
qed

section \<open>What alignment restores\<close>

lemma bodyValueFields_body: "f \<in> set (bodyValueFields v path) \<Longrightarrow> f_location f = LBody"
  by (induction v path rule: bodyValueFields.induct) (auto simp: body_field_def)

lemma captured_body_body: "f \<in> set (captured_body bodyFieldsV2 body) \<Longrightarrow> f_location f = LBody"
  by (auto simp: captured_body_def bodyFieldsV2_def split: if_splits option.splits dest!: bodyValueFields_body)

lemma captured_locations:
  assumes "captureHttpInterfaceStructureV2 U r = Some b"
  shows "\<exists>ps. at_location LQuery b = query_fields ps" and "at_location LHeader b = header_fields (hw_headers r)"
proof -
  obtain url where "ue_parse U (url_or_root (hw_url r)) = Some url"
    using assms by (cases "ue_parse U (url_or_root (hw_url r))") (auto simp: captureHttpInterfaceStructureV2_def capture_with_def)
  with assms have b: "st_fields b = query_fields (pu_params url) @ header_fields (hw_headers r) @ captured_body bodyFieldsV2 (hw_body r)"
    by (auto simp: captureHttpInterfaceStructureV2_def capture_with_def)
  have q: "filter (\<lambda>f. f_location f = l) (query_fields ps) = (if l = LQuery then query_fields ps else [])" for l ps
    by (auto simp: query_fields_def intro!: filter_True)
  have h: "filter (\<lambda>f. f_location f = l) (header_fields hs) = (if l = LHeader then header_fields hs else [])" for l hs
    by (auto simp: header_fields_def intro!: filter_True)
  have "filter (\<lambda>f. f_location f = l) (captured_body bodyFieldsV2 (hw_body r)) = (if l = LBody then captured_body bodyFieldsV2 (hw_body r) else [])" for l
    using captured_body_body by (auto intro!: filter_True simp: filter_empty_conv)
  then show "\<exists>ps. at_location LQuery b = query_fields ps" and "at_location LHeader b = header_fields (hw_headers r)"
    by (auto simp: at_location_def b q h)
qed

lemma header_fields_append: "header_fields (xs @ ys) = header_fields xs @ header_fields ys"
  by (simp add: header_fields_def)

lemma header_fields_special: "header_fields (filter special_header hs) = []"
proof -
  have "toLowerCase (trim n) \<in> set ignoredHeaders \<or> trim n = []"
    if "toLowerCase n \<in> set [''authorization'', ''cookie'', ''content-type'', ''accept'']" for n
  proof -
    have "list_all (\<lambda>c. \<not> js_ws c) (toLowerCase n)"
      using that by (auto simp: js_ws_def code_def)
    then have "list_all (\<lambda>c. \<not> js_ws c) n" by (simp add: toLowerCase_def list_all_iff)
    moreover have "dropWhile js_ws m = m" if "list_all (\<lambda>c. \<not> js_ws c) m" for m
      using that by (cases m) auto
    ultimately have "trim n = n" by (simp add: trim_def trimStart_def trimEnd_def)
    with that show ?thesis by (auto simp: ignoredHeaders_def)
  qed
  then have "\<not> (trim n \<noteq> [] \<and> toLowerCase (trim n) \<notin> set ignoredHeaders)" if "special_header (n, v)" for n v
    using that unfolding special_header_def fst_conv by blast
  then have "filter (\<lambda>(name, _). trim name \<noteq> [] \<and> toLowerCase (trim name) \<notin> set ignoredHeaders) (filter special_header hs) = []"
    unfolding filter_empty_conv by auto
  then show ?thesis by (simp add: header_fields_def del: filter_filter)
qed

lemma header_fields_next: "header_fields (map (next_header hs) (header_fields xs)) = header_fields xs"
proof (induction xs)
  case (Cons x xs)
  obtain n v where x: "x = (n, v)" by (cases x)
  let ?f = "\<lparr> f_key = ''header:'' @ toLowerCase (trim n), f_name = trim n, f_location = LHeader, f_type = FString \<rparr>"
  show ?case
  proof (cases "trim n \<noteq> [] \<and> toLowerCase (trim n) \<notin> set ignoredHeaders")
    case True
    obtain w where w: "next_header hs ?f = (trim n, w)" by (simp add: next_header_def)
    have one: "header_fields [(m, u)] = [\<lparr> f_key = ''header:'' @ toLowerCase (trim m), f_name = trim m, f_location = LHeader, f_type = FString \<rparr>]"
      if "trim m \<noteq> []" "toLowerCase (trim m) \<notin> set ignoredHeaders" for m u
      using that by (simp add: header_fields_def)
    have "header_fields (x # xs) = ?f # header_fields xs"
      using header_fields_append [of "[x]" xs] one [of n v] True x by simp
    moreover have "header_fields ((trim n, w) # map (next_header hs) (header_fields xs)) = ?f # header_fields xs"
      using header_fields_append [of "[(trim n, w)]" "map (next_header hs) (header_fields xs)"] one [of "trim n" w] True Cons.IH
      by simp
    ultimately show ?thesis by (simp only: list.map w)
  next
    case False
    then have "header_fields [x] = []" by (simp add: header_fields_def x)
    with header_fields_append [of "[x]" xs] Cons.IH show ?thesis by simp
  qed
qed (simp add: header_fields_def)

lemma params_set_keys: "k \<notin> fst ` set ps \<Longrightarrow> map fst (params_set k v ps) = map fst ps @ [k]"
  by (induction k v ps rule: params_set.induct) auto

lemma params_fold_keys:
  "distinct (map f_name fs) \<Longrightarrow> fst ` set ps \<inter> f_name ` set fs = {} \<Longrightarrow>
     map fst (fold (\<lambda>f ps. params_set (f_name f) (g f) ps) fs ps) = map fst ps @ map f_name fs"
proof (induction fs arbitrary: ps)
  case (Cons f fs)
  have k: "map fst (params_set (f_name f) (g f) ps) = map fst ps @ [f_name f]"
    using Cons.prems by (intro params_set_keys) auto
  then have "fst ` set (params_set (f_name f) (g f) ps) = fst ` set ps \<union> {f_name f}"
    by (metis list.set(1) list.set(2) list.set_map set_append)
  with Cons.prems have "fst ` set (params_set (f_name f) (g f) ps) \<inter> f_name ` set fs = {}" by auto
  with Cons k show ?case by simp
qed simp

lemma query_fields_aligned:
  assumes "at_location LQuery b = query_fields ps"
  shows "query_fields (aligned_params b existing) = at_location LQuery b"
proof -
  have names: "map f_name (query_fields ps) = uniq (map fst ps)" by (simp add: query_fields_def comp_def)
  have "map fst (aligned_params b existing) = uniq (map fst ps)"
    unfolding aligned_params_def assms
    using params_fold_keys [of "query_fields ps" "[]" "\<lambda>f. or_default (map_of (rev existing) (f_name f)) []"] names by simp
  then show ?thesis by (simp add: assms query_fields_def uniq_distinct)
qed

text \<open>C3: aligning any request to a captured structure gives a request with exactly the structure's headers and query
  parameters, and its method: captured again, these parts show no difference.\<close>

theorem align_restores_structure:
  assumes "captureHttpInterfaceStructureV2 U r0 = Some b" and "alignRequestToInterfaceV2 U r b = Some r'"
  shows "header_fields (hw_headers r') = at_location LHeader b \<and> hw_method r' = st_method b
    \<and> (\<exists>params. query_fields params = at_location LQuery b
         \<and> hw_url r' = origin_of (hw_url r) @ ue_setPathname U (url_or_root (hw_url r)) (st_path b)
             @ (if params = [] then [] else ''?'' @ form_serialize params))"
proof -
  from captured_locations [OF assms(1)] obtain ps where
    q: "at_location LQuery b = query_fields ps" and h: "at_location LHeader b = header_fields (hw_headers r0)" by blast
  obtain url where "ue_parse U (url_or_root (hw_url r)) = Some url"
    using assms(2) by (cases "ue_parse U (url_or_root (hw_url r))") (auto simp: alignRequestToInterfaceV2_def align_with_def)
  with assms(2) have r': "r' = r\<lparr> hw_method := st_method b,
       hw_url := origin_of (hw_url r) @ ue_setPathname U (url_or_root (hw_url r)) (st_path b)
         @ (if aligned_params b (pu_params url) = [] then [] else ''?'' @ form_serialize (aligned_params b (pu_params url))),
       hw_headers := map (next_header (hw_headers r)) (at_location LHeader b) @ filter special_header (hw_headers r),
       hw_body := aligned_body align_fieldV2 (at_location LBody b) (hw_body r) \<rparr>"
    by (auto simp: alignRequestToInterfaceV2_def align_with_def Let_def)
  have "header_fields (hw_headers r') = at_location LHeader b"
    by (simp add: r' header_fields_append header_fields_special h header_fields_next)
  moreover have "query_fields (aligned_params b (pu_params url)) = at_location LQuery b"
    by (rule query_fields_aligned [OF q])
  ultimately show ?thesis by (auto simp: r')
qed

definition sample_url_env :: url_env where
  "sample_url_env = \<lparr> ue_parse = (\<lambda>_. Some \<lparr> pu_pathname = ''/users'', pu_params = [(''page'', ''2'')] \<rparr>), ue_setPathname = (\<lambda>_ p. p) \<rparr>"

definition sample_http_request :: HttpWorkbenchRequest where
  "sample_http_request = \<lparr> hw_id = None, hw_name = None, hw_url = ''/users?page=2'', hw_method = ''GET'',
     hw_headers = [(''X-Tenant'', ''acme''), (''Cookie'', ''k'')], hw_body = None, hw_bodyEncoding = None, hw_bodySource = None,
     hw_multipart = None, hw_timeoutMs = 0, hw_variables = [], hw_assertions = [], hw_auth = None, hw_followRedirects = True,
     hw_retryMax = 0, hw_retryBackoffMs = 0, hw_proxy = None, hw_tlsVerify = True, hw_tlsClientCertRef = None,
     hw_environmentRef = None, hw_preScripts = None, hw_postScripts = None, hw_metadata = None \<rparr>"

theorem align_restores_structure_witness:
  "\<exists>b r'. captureHttpInterfaceStructureV2 sample_url_env sample_http_request = Some b
     \<and> alignRequestToInterfaceV2 sample_url_env sample_http_request b = Some r'
     \<and> header_fields (hw_headers r') = at_location LHeader b"
proof -
  obtain b where b: "captureHttpInterfaceStructureV2 sample_url_env sample_http_request = Some b"
    by (simp add: captureHttpInterfaceStructureV2_def capture_with_def sample_url_env_def)
  obtain r' where r': "alignRequestToInterfaceV2 sample_url_env sample_http_request b = Some r'"
    by (simp add: alignRequestToInterfaceV2_def align_with_def sample_url_env_def)
  from align_restores_structure [OF b r'] b r' show ?thesis by blast
qed

section \<open>No write reaches a prototype\<close>

text \<open>No object of a value has a property \<^verbatim>\<open>__proto__\<close>, \<^verbatim>\<open>prototype\<close> or \<^verbatim>\<open>constructor\<close> of its own.\<close>

fun unsafe_free :: "jsval \<Rightarrow> bool" where
  "unsafe_free (JArr xs) = list_all unsafe_free xs"
| "unsafe_free (JObj ps) = list_all (\<lambda>(k, v). isSafePathSegment k \<and> unsafe_free v) ps"
| "unsafe_free _ = True"

fun slot_safe :: "slot \<Rightarrow> bool" where
  "slot_safe (SObj sl) = list_all (\<lambda>(k, s). isSafePathSegment k \<and> slot_safe s) sl"
| "slot_safe (SArr xs) = list_all slot_safe xs"
| "slot_safe (SVal v) = unsafe_free v"
| "slot_safe SShared = True"

definition slots_safe :: "(string \<times> slot) list \<Rightarrow> bool" where
  "slots_safe sl = list_all (\<lambda>(k, s). isSafePathSegment k \<and> slot_safe s) sl"

lemma slots_safe_def_prop: "slots_safe sl \<Longrightarrow> isSafePathSegment k \<Longrightarrow> slot_safe s \<Longrightarrow> slots_safe (def_prop k s sl)"
  unfolding slots_safe_def list_all_iff using set_def_prop [of k s sl] by fastforce

lemma slots_safe_get: "slots_safe sl \<Longrightarrow> map_of sl k = Some s \<Longrightarrow> slot_safe s"
  by (auto simp: slots_safe_def list_all_iff dest!: map_of_SomeD)

lemma set_first_safe: "list_all slot_safe xs \<Longrightarrow> slot_safe s \<Longrightarrow> list_all slot_safe (set_first s xs)"
  by (cases xs) auto

lemma inner_safe:
  "slots_safe sl \<Longrightarrow> slots_safe (case map_of sl p of Some (SObj i) \<Rightarrow> i | _ \<Rightarrow> [])"
  "slots_safe sl \<Longrightarrow> list_all slot_safe (case map_of sl p of Some (SArr xs) \<Rightarrow> xs | _ \<Rightarrow> [])"
  "list_all slot_safe xs \<Longrightarrow> slots_safe (case xs of SObj i # _ \<Rightarrow> i | _ \<Rightarrow> [])"
  using slots_safe_get [of sl p]
  by (auto simp: slots_safe_def split: option.splits slot.splits list.splits)

lemma slot_write_deep:
  assumes "steps \<noteq> [] \<or> w = None"
  shows "slot_write old at sl (StKey p # steps) full w =
     (if map_of sl p = Some SShared \<and> is_record (at_place old (at @ [p]))
      then (sl, shared_write old (at @ [p]) steps full w)
      else (let (inner', old') = slot_write old (at @ [p]) (case map_of sl p of Some (SObj i) \<Rightarrow> i | _ \<Rightarrow> []) steps full w
            in (def_prop p (SObj inner') sl, old')))"
  and "slot_write old at sl (StItem p # steps) full w =
     (if map_of sl p = Some SShared \<and> isArray (at_place old (at @ [p]))
      then (sl, put_place old (at @ [p])
                  (JArr (js_write_item (elements (at_place old (at @ [p]))) steps (map_option (slot_value old full) w))))
      else
        (let items = (case map_of sl p of Some (SArr xs) \<Rightarrow> xs | _ \<Rightarrow> [])
         in if take 1 items = [SShared] \<and> is_record (at_place old (at @ [p, ''0'']))
            then (def_prop p (SArr items) sl, shared_write old (at @ [p, ''0'']) steps full w)
            else (let (inner', old') = slot_write old (at @ [p, ''0'']) (case items of SObj i # _ \<Rightarrow> i | _ \<Rightarrow> []) steps full w
                  in (def_prop p (SArr (set_first (SObj inner') items)) sl, old'))))"
  using assms by (cases steps; cases w; simp add: Let_def)+

lemma slot_write_safe:
  "slot_write old at sl steps full w = (sl', old') \<Longrightarrow> slots_safe sl \<Longrightarrow> list_all (isSafePathSegment \<circ> step_part) steps
     \<Longrightarrow> pred_option slot_safe w \<Longrightarrow> slots_safe sl'"
proof (induction steps arbitrary: old at sl sl' old')
  case (Cons step steps)
  have obj: "slot_safe (SObj sl'')" if "slots_safe sl''" for sl'' using that by (simp add: slots_safe_def)
  have arr: "slot_safe (SArr xs)" if "list_all slot_safe xs" for xs using that by simp
  have rest: "list_all (isSafePathSegment \<circ> step_part) steps" and p: "isSafePathSegment (step_part step)"
    using Cons.prems(3) by (simp_all add: comp_def)
  show ?case
  proof (cases "steps \<noteq> [] \<or> w = None")
    case False
    then obtain s where "steps = []" "w = Some s" by auto
    with Cons.prems p show ?thesis
      by (cases step)
        (auto simp: Let_def simp del: slot_safe.simps split: if_splits intro!: slots_safe_def_prop arr set_first_safe inner_safe(2))
  next
    case deep: True
    show ?thesis
    proof (cases step)
      case (StKey q)
      have ih: "slots_safe x" if "slot_write old (at @ [q]) (case map_of sl q of Some (SObj i) \<Rightarrow> i | _ \<Rightarrow> []) steps full w = (x, y)" for x y
        using Cons.IH [OF that inner_safe(1) [OF Cons.prems(2)] rest Cons.prems(4)] .
      show ?thesis
        using Cons.prems(1,2) p unfolding StKey slot_write_deep(1) [OF deep]
        by (auto simp: Let_def simp del: slot_safe.simps split: if_splits prod.splits intro!: slots_safe_def_prop obj dest: ih)
    next
      case (StItem q)
      let ?items = "case map_of sl q of Some (SArr xs) \<Rightarrow> xs | _ \<Rightarrow> []"
      note items = inner_safe(2) [OF Cons.prems(2), of q]
      have ih: "slots_safe x" if "slot_write old (at @ [q, ''0'']) (case ?items of SObj i # _ \<Rightarrow> i | _ \<Rightarrow> []) steps full w = (x, y)" for x y
        using Cons.IH [OF that inner_safe(3) [OF items] rest Cons.prems(4)] .
      show ?thesis
        using Cons.prems(1,2) p items unfolding StItem slot_write_deep(2) [OF deep]
        by (auto simp: Let_def simp del: slot_safe.simps split: if_splits prod.splits
            intro!: slots_safe_def_prop arr obj set_first_safe dest: ih)
    qed
  qed
qed simp

lemma write_pathV2_safe: "list_all (isSafePathSegment \<circ> step_part) (fst (write_pathV2 path))"
  by (simp add: write_pathV2_def Let_def list_all_iff)

text \<open>The objects of the old body, which the new one shares.\<close>

lemma obj_get_free: "unsafe_free (JObj ps) \<Longrightarrow> unsafe_free (obj_get ps k)"
  by (auto simp: obj_get_def proto_get_def list_all_iff split: option.split dest: map_of_SomeD)

lemma js_get_free: "unsafe_free v \<Longrightarrow> unsafe_free (js_get v k)"
  by (cases v) (auto simp: proto_get_def list_all_iff obj_get_free simp del: unsafe_free.simps(2) split: option.split)

lemma at_place_free: "unsafe_free v \<Longrightarrow> unsafe_free (at_place v ks)"
  by (induction ks arbitrary: v) (simp_all add: at_place_def js_get_free)

lemma def_prop_free: "unsafe_free (JObj ps) \<Longrightarrow> isSafePathSegment k \<Longrightarrow> unsafe_free v \<Longrightarrow> unsafe_free (JObj (def_prop k v ps))"
  unfolding unsafe_free.simps list_all_iff using set_def_prop [of k v ps] by fastforce

lemma put_place_free:
  "unsafe_free v \<Longrightarrow> list_all isSafePathSegment ks \<Longrightarrow> unsafe_free x \<Longrightarrow> unsafe_free (put_place v ks x)"
proof (induction v ks x rule: put_place.induct)
  case (2 ps k ks x)
  then show ?case by (auto simp del: unsafe_free.simps(2) intro!: def_prop_free obj_get_free)
next
  case (3 xs k ks x)
  then show ?case
    by (auto simp: list_all_iff split: option.split dest!: set_update_subset_insert [THEN subsetD])
qed simp_all

lemma set_first_free: "list_all unsafe_free xs \<Longrightarrow> unsafe_free x \<Longrightarrow> list_all unsafe_free (set_first x xs)"
  by (cases xs) auto

lemma elements_free: "unsafe_free v \<Longrightarrow> list_all unsafe_free (elements v)"
  by (cases v) auto

lemma entries_free: "unsafe_free v \<Longrightarrow> unsafe_free (JObj (entries v))"
  by (cases v) auto

lemma js_write_free:
  "unsafe_free (JObj ps) \<Longrightarrow> list_all (isSafePathSegment \<circ> step_part) steps \<Longrightarrow> pred_option unsafe_free w \<Longrightarrow> unsafe_free (JObj (js_write ps steps w))"
  "list_all unsafe_free items \<Longrightarrow> list_all (isSafePathSegment \<circ> step_part) steps \<Longrightarrow> pred_option unsafe_free w
     \<Longrightarrow> list_all unsafe_free (js_write_item items steps w)"
proof (induction ps steps w and items steps w rule: js_write_js_write_item.induct)
  case (2 ps p steps v)
  have inner: "unsafe_free (JObj (js_write (if is_record (obj_get ps p) then entries (obj_get ps p) else []) steps v))"
    if "\<not> (steps = [] \<and> v \<noteq> None)"
  proof -
    have old: "unsafe_free (JObj (if is_record (obj_get ps p) then entries (obj_get ps p) else []))"
      using entries_free [OF obj_get_free [OF "2.prems"(1)]] by simp
    show ?thesis using that "2.IH" old "2.prems"(2,3) by (cases steps; cases v) auto
  qed
  show ?case
  proof (cases "steps = [] \<and> v \<noteq> None")
    case True
    then show ?thesis using 2 by (auto simp del: unsafe_free.simps(2) intro!: def_prop_free)
  next
    case False
    then have "js_write ps (StKey p # steps) v
        = def_prop p (JObj (js_write (if is_record (obj_get ps p) then entries (obj_get ps p) else []) steps v)) ps"
      by (cases steps; cases v) simp_all
    then show ?thesis using inner [OF False] 2 by (auto simp del: unsafe_free.simps(2) js_write.simps intro!: def_prop_free)
  qed
next
  case (3 ps p steps v)
  then have "list_all unsafe_free (js_write_item (elements (obj_get ps p)) steps v)" by (simp add: elements_free obj_get_free del: unsafe_free.simps(2))
  then show ?case using 3 by (auto simp del: unsafe_free.simps(2) js_write_item.simps intro!: def_prop_free)
next
  case (4 items steps v)
  let ?old = "case items of x # _ \<Rightarrow> if is_record x then entries x else [] | [] \<Rightarrow> []"
  have old: "unsafe_free (JObj ?old)" using "4.prems"(1) entries_free by (cases items) auto
  show ?case
  proof (cases "steps = [] \<and> v \<noteq> None")
    case True
    then show ?thesis using 4 by (auto intro!: set_first_free)
  next
    case False
    then have "js_write_item items steps v = set_first (JObj (js_write ?old steps v)) items" by (cases steps; cases v) simp_all
    moreover have "unsafe_free (JObj (js_write ?old steps v))"
      using False "4.IH" old "4.prems"(2,3) by (cases steps; cases v) auto
    ultimately show ?thesis using "4.prems"(1) by (auto simp del: unsafe_free.simps(2) js_write_item.simps intro!: set_first_free)
  qed
qed simp

lemma setAtPathV2_safe:
  "slots_safe (fst st) \<Longrightarrow> slot_safe s \<Longrightarrow> slots_safe (fst (setAtPathV2 path s st))"
proof -
  assume st: "slots_safe (fst st)" and s: "slot_safe s"
  obtain next' existing where e: "st = (next', existing)" by (cases st)
  show ?thesis
    using slot_write_safe [of existing "[]" next' "fst (write_pathV2 path)" _ "if snd (write_pathV2 path) then Some s else None"
        "fst (setAtPathV2 path s st)" "snd (setAtPathV2 path s st)"] write_pathV2_safe [of path] st s
    by (simp add: setAtPathV2_def write_slot_def e)
qed

lemma primitive_free: "\<not> is_object v \<Longrightarrow> unsafe_free v"
  by (cases v) (auto simp: is_object_def)

lemma slots_filled_safe: "slot_safe (found_slot v)" "slot_safe (default_slot t)"
  by (auto simp: found_slot_def default_slot_def primitive_free split: InterfaceFieldType.split)

lemma align_fieldV2_safe: "slots_safe (fst st) \<Longrightarrow> slots_safe (fst (align_fieldV2 expected f st))"
  by (auto simp: align_fieldV2_def Let_def slots_filled_safe intro!: setAtPathV2_safe)

text \<open>What a slot stands for, and what a write into the new body leaves of the old one.\<close>

lemma slot_value_free: "unsafe_free old \<Longrightarrow> slot_safe s \<Longrightarrow> unsafe_free (slot_value old at s)"
proof (induction old at s rule: slot_value.induct)
  case (3 old at sl)
  then show ?case by (force simp: list_all_iff)
next
  case (4 old at xs)
  have "unsafe_free (slot_value old (at @ [digits_of i]) s)" if "(i, s) \<in> set (enumerate 0 xs)" for i s
    using that 4 by (auto simp: list_all_iff in_set_enumerate_eq)
  then show ?case by (auto simp: list_all_iff)
qed (simp_all add: at_place_free)

lemma shared_write_free:
  assumes "unsafe_free old" "list_all isSafePathSegment at" "list_all (isSafePathSegment \<circ> step_part) steps" "pred_option slot_safe w"
  shows "unsafe_free (shared_write old at steps full w)"
proof -
  have "pred_option unsafe_free (map_option (slot_value old full) w)" using assms(1,4) by (cases w) (simp_all add: slot_value_free)
  then have "unsafe_free (JObj (js_write (entries (at_place old at)) steps (map_option (slot_value old full) w)))"
    by (intro js_write_free(1) entries_free at_place_free assms)
  then show ?thesis unfolding shared_write_def by (rule put_place_free [OF assms(1,2)])
qed

lemma item_write_free:
  assumes "unsafe_free old" "list_all isSafePathSegment at" "list_all (isSafePathSegment \<circ> step_part) steps" "pred_option slot_safe w"
  shows "unsafe_free (put_place old at (JArr (js_write_item (elements (at_place old at)) steps (map_option (slot_value old full) w))))"
proof -
  have "pred_option unsafe_free (map_option (slot_value old full) w)" using assms(1,4) by (cases w) (simp_all add: slot_value_free)
  then have "list_all unsafe_free (js_write_item (elements (at_place old at)) steps (map_option (slot_value old full) w))"
    by (intro js_write_free(2) elements_free at_place_free assms)
  then show ?thesis by (intro put_place_free [OF assms(1,2)]) (simp del: js_write_item.simps)
qed

lemma zero_safe: "isSafePathSegment ''0''"
  by (simp add: isSafePathSegment_def)

lemma slot_write_shared_free:
  "slot_write old at sl steps full w = (sl', old') \<Longrightarrow> unsafe_free old \<Longrightarrow> list_all isSafePathSegment at
     \<Longrightarrow> list_all (isSafePathSegment \<circ> step_part) steps \<Longrightarrow> pred_option slot_safe w \<Longrightarrow> unsafe_free old'"
proof (induction steps arbitrary: old at sl sl' old')
  case (Cons step steps)
  have p: "isSafePathSegment (step_part step)" and rest: "list_all (isSafePathSegment \<circ> step_part) steps"
    using Cons.prems(4) by (simp_all add: comp_def)
  show ?case
  proof (cases "steps \<noteq> [] \<or> w = None")
    case False
    then obtain s where w: "steps = []" "w = Some s" by auto
    show ?thesis
    proof (cases step)
      case (StKey q)
      then show ?thesis using Cons.prems(1,2) w by simp
    next
      case (StItem q)
      have "unsafe_free (put_place old (at @ [q]) (JArr (js_write_item (elements (at_place old (at @ [q]))) [] (map_option (slot_value old full) w))))"
        using p StItem Cons.prems(2,3,5) by (intro item_write_free) simp_all
      then show ?thesis using Cons.prems(1,2) w unfolding StItem by (auto simp: Let_def split: if_splits)
    qed
  next
    case deep: True
    show ?thesis
    proof (cases step)
      case (StKey q)
      have at: "list_all isSafePathSegment (at @ [q])" using p StKey Cons.prems(3) by simp
      show ?thesis
      proof (cases "map_of sl q = Some SShared \<and> is_record (at_place old (at @ [q]))")
        case True
        then show ?thesis using Cons.prems(1) shared_write_free [OF Cons.prems(2) at rest Cons.prems(5)]
          unfolding StKey slot_write_deep(1) [OF deep] by auto
      next
        case False
        obtain x y where "slot_write old (at @ [q]) (case map_of sl q of Some (SObj i) \<Rightarrow> i | _ \<Rightarrow> []) steps full w = (x, y)" by fastforce
        then show ?thesis using Cons.IH [OF _ Cons.prems(2) at rest Cons.prems(5)] Cons.prems(1) False
          unfolding StKey slot_write_deep(1) [OF deep] by (auto simp: Let_def)
      qed
    next
      case (StItem q)
      let ?items = "case map_of sl q of Some (SArr xs) \<Rightarrow> xs | _ \<Rightarrow> []"
      have at: "list_all isSafePathSegment (at @ [q])" and at0: "list_all isSafePathSegment (at @ [q, ''0''])"
        using p StItem Cons.prems(3) zero_safe by simp_all
      obtain x y where xy: "slot_write old (at @ [q, ''0'']) (case ?items of SObj i # _ \<Rightarrow> i | _ \<Rightarrow> []) steps full w = (x, y)" by fastforce
      note y = Cons.IH [OF xy Cons.prems(2) at0 rest Cons.prems(5)]
      show ?thesis
        using Cons.prems(1) y shared_write_free [OF Cons.prems(2) at0 rest Cons.prems(5)] item_write_free [OF Cons.prems(2) at rest Cons.prems(5)]
        unfolding StItem slot_write_deep(2) [OF deep] Let_def xy by (auto simp del: js_write_item.simps split: if_splits)
    qed
  qed
qed simp

lemma setAtPathV2_shared_free: "unsafe_free (snd st) \<Longrightarrow> slot_safe s \<Longrightarrow> unsafe_free (snd (setAtPathV2 path s st))"
proof -
  assume st: "unsafe_free (snd st)" and s: "slot_safe s"
  obtain next' existing where e: "st = (next', existing)" by (cases st)
  show ?thesis
    using slot_write_shared_free [of existing "[]" next' "fst (write_pathV2 path)" _ "if snd (write_pathV2 path) then Some s else None"
        "fst (setAtPathV2 path s st)" "snd (setAtPathV2 path s st)"] write_pathV2_safe [of path] st s
    by (simp add: setAtPathV2_def write_slot_def e)
qed

lemma align_fieldV2_shared_free: "unsafe_free (snd st) \<Longrightarrow> unsafe_free (snd (align_fieldV2 expected f st))"
  by (auto simp: align_fieldV2_def Let_def slots_filled_safe intro!: setAtPathV2_shared_free)

text \<open>C27: whatever names the fields of a stored structure have, alignment creates no property \<^verbatim>\<open>__proto__\<close>, \<^verbatim>\<open>prototype\<close> or
  \<^verbatim>\<open>constructor\<close>: neither in the objects of the new body, nor in those of the old body it shares and writes into. When the old body
  has no such property, the body that is sent has none, at any depth.\<close>

theorem align_no_pollution:
  assumes "unsafe_free existing" and "fold (align_fieldV2 expected) fs ([], existing) = (next', existing')"
  shows "slots_safe next' \<and> unsafe_free existing' \<and> unsafe_free (slot_value existing' [] (SObj next'))"
proof -
  have "slots_safe (fst st) \<and> unsafe_free (snd st) \<Longrightarrow> slots_safe (fst (fold (align_fieldV2 expected) fs st))
      \<and> unsafe_free (snd (fold (align_fieldV2 expected) fs st))" for st
  proof (induction fs arbitrary: st)
    case (Cons f fs)
    from Cons.IH [of "align_fieldV2 expected f st"] Cons.prems show ?case by (simp add: align_fieldV2_safe align_fieldV2_shared_free)
  qed simp
  from this [of "([], existing)"] have "slots_safe next'" "unsafe_free existing'" using assms by (simp_all add: slots_safe_def)
  moreover from this have "slot_safe (SObj next')" by (simp add: slots_safe_def)
  ultimately show ?thesis using slot_value_free by blast
qed

lemma align_no_pollution_witness:
  "unsafe_free (slot_value (JObj [(''a'', JNum (NInt 1))]) [] (SObj [(''a'', SVal (JNum (NInt 1)))]))"
proof -
  have "fold (align_fieldV2 []) [\<lparr> f_key = [], f_name = ''a'', f_location = LBody, f_type = FInteger \<rparr>] ([], JObj [(''a'', JNum (NInt 1))])
      = ([(''a'', SVal (JNum (NInt 1)))], JObj [(''a'', JNum (NInt 1))])"
    by (simp add: align_fieldV2_def valueAtPath_def path_step_def isSafePathSegment_def read_step_def is_object_def obj_get_def Let_def
        found_slot_def setAtPathV2_def write_slot_def write_pathV2_def endsWith_def def_prop_def index_key_def)
  from align_no_pollution [OF _ this] show ?thesis by (simp add: isSafePathSegment_def)
qed

end
