(* ===== verification/ResponseValidation.thy ===== *)
theory ResponseValidation imports RequestModel JsRegex begin

text \<open>
  The check of a response against its design (\<^verbatim>\<open>packages/ui/src/designedResponseValidator.ts\<close>) and the types of
  response bodies (\<^verbatim>\<open>responseComponents.ts\<close>). The texts shown to the user are constructors. The walk over the
  body keeps its counter, its stop flag and its results in a state; it terminates because every call is one level
  deeper and the depth is limited.
\<close>

section \<open>Types of response bodies\<close>

datatype ResponseBodyType = BJson | BXml | BHtml | BText | BBinary | BMsgpack | BEventStream | BNone

fun body_type_id :: "ResponseBodyType \<Rightarrow> string" where
  "body_type_id BJson = ''json''"
| "body_type_id BXml = ''xml''"
| "body_type_id BHtml = ''html''"
| "body_type_id BText = ''text''"
| "body_type_id BBinary = ''binary''"
| "body_type_id BMsgpack = ''msgpack''"
| "body_type_id BEventStream = ''event-stream''"
| "body_type_id BNone = ''none''"

text \<open>Identifier and content type of each entry of \<^verbatim>\<open>RESPONSE_BODY_TYPES\<close>, whose content types are also the
  validator's \<^verbatim>\<open>DEFAULT_CONTENT_TYPES\<close>.\<close>

definition RESPONSE_BODY_TYPES :: "(ResponseBodyType \<times> string) list" where
  "RESPONSE_BODY_TYPES =
     [(BJson, ''application/json''), (BXml, ''application/xml''), (BHtml, ''text/html''), (BText, ''text/plain''),
      (BBinary, ''application/octet-stream''), (BMsgpack, ''application/msgpack''), (BEventStream, ''text/event-stream''),
      (BNone, [])]"

fun DEFAULT_CONTENT_TYPES :: "ResponseBodyType \<Rightarrow> string" where
  "DEFAULT_CONTENT_TYPES BJson = ''application/json''"
| "DEFAULT_CONTENT_TYPES BXml = ''application/xml''"
| "DEFAULT_CONTENT_TYPES BHtml = ''text/html''"
| "DEFAULT_CONTENT_TYPES BText = ''text/plain''"
| "DEFAULT_CONTENT_TYPES BBinary = ''application/octet-stream''"
| "DEFAULT_CONTENT_TYPES BMsgpack = ''application/msgpack''"
| "DEFAULT_CONTENT_TYPES BEventStream = ''text/event-stream''"
| "DEFAULT_CONTENT_TYPES BNone = []"

definition normalizeResponseBodyType :: "jsval \<Rightarrow> ResponseBodyType" where
  "normalizeResponseBodyType v =
     (if v = JStr ''sse'' then BEventStream
      else (case find (\<lambda>(t, _). v = JStr (body_type_id t)) RESPONSE_BODY_TYPES of Some (t, _) \<Rightarrow> t | None \<Rightarrow> BJson))"

section \<open>Designs, results, settings\<close>

record DesignedResponseField =
  dr_id :: string
  dr_name :: string
  dr_type :: string
  dr_required :: bool
  dr_parentId :: "string option"
  dr_scope :: string
  dr_example :: "string option"

record DesignedResponse =
  de_status :: string
  de_bodyType :: "ResponseBodyType option"
  de_contentType :: "string option"
  de_fields :: "DesignedResponseField list"

record DesignedResponseResult =
  rs_status :: "int option"
  rs_preview :: "string option"
  rs_meta :: "ResponseMeta option"

record ProjectResponseValidationSettings =
  vs_enabled :: bool
  vs_interfaceRun :: bool
  vs_singleCase :: bool
  vs_testScenario :: bool
  vs_status :: bool
  vs_headers :: bool
  vs_bodyFormat :: bool
  vs_bodySchema :: bool
  vs_allowAdditionalProperties :: bool

datatype check_name =
    CheckStatus | CheckHeader string | CheckContentType | CheckFormat | CheckStructure | CheckComplexity | CheckPath string

datatype check_text =
    Text string | TypeRequired string | TypeOptional string | Absent | Exists | NotProvided | Unknown | Dash | NoBody
  | UndefinedField | AtMostChars nat | CharCount nat | WithinLimits nat nat | DepthAndNodes nat nat

datatype check_message =
    StatusDiffers | MissingHeader | HeaderTypeDiffers | ContentTypeDiffers | InvalidJson | InvalidXml | InvalidHtml
  | InvalidEventStream | UnexpectedBody | TooLarge nat | StructureSkipped | TooComplex | ParentTypeDiffers
  | MissingProperty | ValueTypeDiffers | AdditionalProperty

record design_check =
  ck_name :: check_name
  ck_passed :: bool
  ck_expected :: check_text
  ck_actual :: check_text
  ck_message :: "check_message option"

definition check :: "check_name \<Rightarrow> bool \<Rightarrow> check_text \<Rightarrow> check_text \<Rightarrow> check_message option \<Rightarrow> design_check" where
  "check name passed expected actual message =
     \<lparr> ck_name = name, ck_passed = passed, ck_expected = expected, ck_actual = actual, ck_message = message \<rparr>"

definition unless_passed :: "bool \<Rightarrow> check_message \<Rightarrow> check_message option" where
  "unless_passed passed m = (if passed then None else Some m)"

section \<open>Types of values\<close>

definition value_type :: "jsval \<Rightarrow> string" where
  "value_type v =
     (if isArray v then ''array'' else if v = JNull then ''null''
      else (case v of JNum n \<Rightarrow> if num_isInteger n then ''integer'' else ''number'' | _ \<Rightarrow> typeof v))"

definition matchesJsonType :: "jsval \<Rightarrow> string \<Rightarrow> bool" where
  "matchesJsonType v expected =
     (if expected = ''number'' then (case v of JNum n \<Rightarrow> num_finite n | _ \<Rightarrow> False)
      else if expected = ''object'' then is_record v
      else if expected \<in> set [''bytes'', ''file'', ''enum''] then is_str v
      else value_type v = expected)"

definition matchesHeaderType :: "string \<Rightarrow> string \<Rightarrow> bool" where
  "matchesHeaderType v expected =
     (let normalized = trim v in
      if expected = ''integer'' then rtest (RSeqs [RBol, ROpt (ROne ''-+''), RPlus RDigit, REol]) normalized
      else if expected = ''number'' then normalized \<noteq> [] \<and> num_finite (string_Number normalized)
      else if expected = ''boolean'' then rtest (RSeqs [RBol, RAlt (RLitI ''true'') (RLitI ''false''), REol]) normalized
      else if expected = ''null'' then rtest (RSeqs [RBol, RLitI ''null'', REol]) normalized
      else if expected = ''array'' then list_ex (\<lambda>part. trim part \<noteq> []) (split (CHR '','') normalized)
      else if expected = ''object'' then (case JSON_parse normalized of Some parsed \<Rightarrow> is_record parsed | None \<Rightarrow> False)
      else True)"

definition mediaType :: "string option \<Rightarrow> string" where
  "mediaType v = toLowerCase (trim (takeWhile (\<lambda>c. c \<noteq> CHR '';'') (or_default v [])))"

definition mediaTypeMatches :: "string \<Rightarrow> string \<Rightarrow> ResponseBodyType \<Rightarrow> bool" where
  "mediaTypeMatches actual expected bodyType =
     (if expected = [] \<or> actual = expected then True
      else if bodyType = BJson then endsWith actual ''+json'' \<and> expected = ''application/json''
      else if bodyType = BXml then endsWith actual ''+xml'' \<and> expected \<in> set [''application/xml'', ''text/xml'']
      else False)"

definition MAX_RESPONSE_VALIDATION_CHARS :: nat where "MAX_RESPONSE_VALIDATION_CHARS = 1000000"
definition MAX_SCHEMA_VALIDATION_NODES :: nat where "MAX_SCHEMA_VALIDATION_NODES = 10000"
definition MAX_SCHEMA_VALIDATION_DEPTH :: nat where "MAX_SCHEMA_VALIDATION_DEPTH = 64"

section \<open>Formats\<close>

definition not_space_or :: "string \<Rightarrow> re" where
  "not_space_or cs = RSet (\<lambda>c. \<not> js_ws c \<and> c \<notin> set cs)"

definition XML_DECLARATION :: re where
  "XML_DECLARATION = RSeqs [RBol, RStar RSpace, RLitI ''<?xml'', RStarLazy RAll, RLit ''?>'', RStar RSpace]"

definition XML_TAG :: re where "XML_TAG = RSeqs [RLit ''<'', RPlus (RNone ''>''), RLit ''>'']"

definition XML_CLOSE :: re where
  "XML_CLOSE = RSeqs [RBol, RLit ''</'', RStar RSpace, RGroup 1 (RPlus (not_space_or ''>'')), RStar RSpace, RLit ''>'', REol]"

definition XML_OPEN :: re where
  "XML_OPEN = RSeqs [RBol, RLit ''<'', RStar RSpace, RGroup 1 (RPlus (not_space_or ''/>''))]"

definition xml_special :: "string \<Rightarrow> bool" where
  "xml_special tag = (startsWith tag ''<!--'' \<or> startsWith tag ''<![CDATA['' \<or> startsWith (toLowerCase tag) ''<!doctype'' \<or> startsWith tag ''<?'')"

text \<open>The loop over the tags with the stack of open names, its top first.\<close>

fun xml_tags :: "string list \<Rightarrow> string list \<Rightarrow> bool" where
  "xml_tags [] stack = (stack = [])"
| "xml_tags (tag # tags) stack =
     (if xml_special tag then False
      else (case rexec XML_CLOSE tag 0 of
              Some m \<Rightarrow>
                (case stack of
                   [] \<Rightarrow> False
                 | name # rest \<Rightarrow> if Some name \<noteq> m_group tag m 1 then False else xml_tags tags rest)
            | None \<Rightarrow>
                (case rexec XML_OPEN tag 0 of
                   None \<Rightarrow> False
                 | Some m \<Rightarrow>
                     if endsWith tag ''/>'' then xml_tags tags stack
                     else xml_tags tags (or_default (m_group tag m 1) [] # stack))))"

definition validXml :: "string \<Rightarrow> bool" where
  "validXml source =
     (if trim source = [] then False
      else
        (let cleaned = rreplace XML_DECLARATION (\<lambda>_. []) (trim source);
             tags = map (m_text cleaned) (rmatchAll XML_TAG cleaned)
         in if tags = [] \<or> \<not> startsWith cleaned ''<'' \<or> \<not> endsWith cleaned ''>'' then False else xml_tags tags []))"

definition HTML_MARKUP :: re where
  "HTML_MARKUP =
     RSeqs [RLit ''<'',
            RAlts [RSeqs [RLitI ''!doctype'', RPlus RSpace, RLitI ''html''], RLitI ''html'', RLitI ''head'', RLitI ''body'',
                   RSeq (RSet is_alpha) (RStar (RSet (\<lambda>c. is_word c \<or> c = CHR ''-'')))],
            RSet (\<lambda>c. js_ws c \<or> c = CHR ''>'' \<or> c = CHR ''/'')]"

text \<open>\<^verbatim>\<open>preview.split(/\r?\n/)\<close>.\<close>

fun strip_returns :: "string list \<Rightarrow> string list" where
  "strip_returns [] = []"
| "strip_returns [l] = [l]"
| "strip_returns (l # ls) = (if endsWith l [CHR 0x0D] then butlast l else l) # strip_returns ls"

definition text_lines :: "string \<Rightarrow> string list" where
  "text_lines s = strip_returns (split (CHR 0x0A) s)"

definition EVENT_FIELD :: re where
  "EVENT_FIELD = RSeqs [RBol, RAlts [RLit ''data'', RLit ''event'', RLit ''id'', RLit ''retry''], RAlt (RLit '':'') REol]"

definition formatError :: "ResponseBodyType \<Rightarrow> string \<Rightarrow> check_message option" where
  "formatError bodyType preview =
     (case bodyType of
        BJson \<Rightarrow> (case JSON_parse preview of Some _ \<Rightarrow> None | None \<Rightarrow> Some InvalidJson)
      | BXml \<Rightarrow> if validXml preview then None else Some InvalidXml
      | BHtml \<Rightarrow> if trim preview \<noteq> [] \<and> \<not> rtest HTML_MARKUP preview then Some InvalidHtml else None
      | BEventStream \<Rightarrow>
          if trim preview \<noteq> [] \<and> list_ex (\<lambda>line. line \<noteq> [] \<and> \<not> startsWith line '':'' \<and> \<not> rtest EVENT_FIELD line) (text_lines preview)
          then Some InvalidEventStream else None
      | BNone \<Rightarrow> if length preview > 0 then Some UnexpectedBody else None
      | _ \<Rightarrow> None)"

section \<open>The structure of the body\<close>

record walk_state =
  visitedNodes :: nat
  budgetExceeded :: bool
  results :: "design_check list"

definition push :: "design_check \<Rightarrow> walk_state \<Rightarrow> walk_state" where
  "push c st = st\<lparr> results := results st @ [c] \<rparr>"

definition requirement :: "DesignedResponseField \<Rightarrow> check_text" where
  "requirement f = (if dr_required f then TypeRequired (dr_type f) else TypeOptional (dr_type f))"

definition children_of :: "DesignedResponseField list \<Rightarrow> string option \<Rightarrow> DesignedResponseField list" where
  "children_of bodyFields parentId = filter (\<lambda>f. dr_parentId f = parentId) bodyFields"

function walk ::
  "DesignedResponseField list \<Rightarrow> bool \<Rightarrow> jsval \<Rightarrow> string option \<Rightarrow> string \<Rightarrow> nat \<Rightarrow> walk_state \<Rightarrow> walk_state" where
  "walk bodyFields allowAdditional parent parentId path depth st0 =
     (if budgetExceeded st0 then st0
      else
        (let st = st0\<lparr> visitedNodes := visitedNodes st0 + 1 \<rparr>;
             children = children_of bodyFields parentId
         in if depth > MAX_SCHEMA_VALIDATION_DEPTH \<or> visitedNodes st > MAX_SCHEMA_VALIDATION_NODES then
              push (check CheckComplexity False (WithinLimits MAX_SCHEMA_VALIDATION_DEPTH MAX_SCHEMA_VALIDATION_NODES)
                     (DepthAndNodes depth (visitedNodes st)) (Some TooComplex))
                (st\<lparr> budgetExceeded := True \<rparr>)
            else if \<not> is_record parent then
              (if children \<noteq> []
               then push (check (CheckPath path) False (Text ''object'') (Text (value_type parent)) (Some ParentTypeDiffers)) st
               else st)
            else
              (let st1 = fold (\<lambda>field s.
                     (let v = js_get parent (dr_name field); fieldPath = path @ ''.'' @ dr_name field in
                      if v = JUndef then
                        push (check (CheckPath fieldPath) (\<not> dr_required field) (requirement field) Absent
                               (if dr_required field then Some MissingProperty else None)) s
                      else
                        (let passed = matchesJsonType v (dr_type field);
                             s1 = push (check (CheckPath fieldPath) passed (Text (dr_type field)) (Text (value_type v))
                                    (unless_passed passed ValueTypeDiffers)) s;
                             s2 = (if passed \<and> dr_type field = ''object''
                                   then walk bodyFields allowAdditional v (Some (dr_id field)) fieldPath (depth + 1) s1 else s1)
                         in if passed \<and> dr_type field = ''array''
                            then fold (\<lambda>(index, item) u.
                                     if budgetExceeded u then u
                                     else walk bodyFields allowAdditional item (Some (dr_id field))
                                            (fieldPath @ ''['' @ digits_of index @ '']'') (depth + 1) u)
                                   (enumerate 0 (elements v)) s2
                            else s2))) children st
               in if allowAdditional then st1
                  else fold (\<lambda>name s.
                         if name \<in> set (map dr_name children) then s
                         else push (check (CheckPath (path @ ''.'' @ name)) False UndefinedField Exists (Some AdditionalProperty)) s)
                       (map fst (entries parent)) st1)))"
  by pat_completeness auto
termination
  by (relation "measure (\<lambda>(fs, a, p, i, path, depth, st). Suc MAX_SCHEMA_VALIDATION_DEPTH - depth)") auto

declare walk.simps [simp del]

section \<open>The whole check\<close>

definition header_check :: "(string \<times> string) list \<Rightarrow> DesignedResponseField \<Rightarrow> design_check" where
  "header_check headers field =
     (case map_of (rev (map (\<lambda>(n, v). (toLowerCase n, v)) headers)) (toLowerCase (dr_name field)) of
        None \<Rightarrow> check (CheckHeader (dr_name field)) (\<not> dr_required field) (requirement field) Absent
                  (if dr_required field then Some MissingHeader else None)
      | Some actual \<Rightarrow>
          (let passed = matchesHeaderType actual (dr_type field)
           in check (CheckHeader (dr_name field)) passed (Text (dr_type field)) (Text actual) (unless_passed passed HeaderTypeDiffers)))"

definition or_text :: "string \<Rightarrow> check_text \<Rightarrow> check_text" where
  "or_text s alternative = (if s = [] then alternative else Text s)"

definition meta_headers :: "DesignedResponseResult \<Rightarrow> (string \<times> string) list" where
  "meta_headers result = (case rs_meta result of None \<Rightarrow> [] | Some m \<Rightarrow> rm_headers m)"

definition meta_contentType :: "DesignedResponseResult \<Rightarrow> string option" where
  "meta_contentType result = (case rs_meta result of None \<Rightarrow> None | Some m \<Rightarrow> rm_contentType m)"

definition actual_content_type :: "DesignedResponseResult \<Rightarrow> string" where
  "actual_content_type result =
     (let t = mediaType (meta_contentType result) in
      if t \<noteq> [] then t
      else mediaType (map_option snd (find (\<lambda>(name, _). toLowerCase name = ''content-type'') (meta_headers result))))"

definition format_checks :: "ResponseBodyType \<Rightarrow> DesignedResponse \<Rightarrow> DesignedResponseResult \<Rightarrow> design_check list" where
  "format_checks bodyType design result =
     (let preview = or_default (rs_preview result) [];
          declared = mediaType (de_contentType design);
          expectedContentType = (if declared \<noteq> [] then declared else DEFAULT_CONTENT_TYPES bodyType);
          actualContentType = actual_content_type result;
          contentTypePassed = mediaTypeMatches actualContentType expectedContentType bodyType;
          error = (if length preview \<le> MAX_RESPONSE_VALIDATION_CHARS then formatError bodyType preview
                   else Some (TooLarge MAX_RESPONSE_VALIDATION_CHARS));
          label = Text (toUpperCase (body_type_id bodyType))
      in (if expectedContentType \<noteq> []
          then [check CheckContentType contentTypePassed (Text expectedContentType) (or_text actualContentType NotProvided)
                  (unless_passed contentTypePassed ContentTypeDiffers)] else [])
         @ [check CheckFormat (error = None) (if bodyType = BNone then NoBody else label)
              (if error \<noteq> None then or_text actualContentType Unknown else label) error])"

definition schema_checks ::
  "DesignedResponseField list \<Rightarrow> DesignedResponseResult \<Rightarrow> ProjectResponseValidationSettings \<Rightarrow> design_check list" where
  "schema_checks bodyFields result settings =
     (let preview = or_default (rs_preview result) [] in
      if length preview > MAX_RESPONSE_VALIDATION_CHARS then
        (if vs_bodyFormat settings then []
         else [check CheckStructure False (AtMostChars MAX_RESPONSE_VALIDATION_CHARS) (CharCount (length preview)) (Some StructureSkipped)])
      else (case JSON_parse preview of
              None \<Rightarrow>
                if vs_bodyFormat settings then []
                else [check CheckFormat False (Text ''JSON'') (or_text (mediaType (meta_contentType result)) Unknown) (Some InvalidJson)]
            | Some body \<Rightarrow>
                results (walk bodyFields (vs_allowAdditionalProperties settings) body None ''$'' 0
                  \<lparr> visitedNodes = 0, budgetExceeded = False, results = [] \<rparr>)))"

definition validateDesignedResponse ::
  "DesignedResponse \<Rightarrow> DesignedResponseResult \<Rightarrow> ProjectResponseValidationSettings \<Rightarrow> design_check list" where
  "validateDesignedResponse design result settings =
     (let actualStatus = (case rs_status result of Some n \<Rightarrow> show_int n | None \<Rightarrow> []);
          bodyFields = filter (\<lambda>f. dr_scope f = ''response.body'' \<and> dr_name f \<noteq> []) (de_fields design);
          bodyType = (case de_bodyType design of Some t \<Rightarrow> Some t | None \<Rightarrow> if bodyFields \<noteq> [] then Some BJson else None)
      in (if vs_status settings
          then [check CheckStatus (actualStatus = de_status design) (Text (de_status design)) (or_text actualStatus Dash)
                  (unless_passed (actualStatus = de_status design) StatusDiffers)] else [])
         @ (if vs_headers settings
            then map (header_check (meta_headers result))
                   (filter (\<lambda>f. dr_scope f = ''response.headers'' \<and> dr_name f \<noteq> []) (de_fields design)) else [])
         @ (case bodyType of Some t \<Rightarrow> if vs_bodyFormat settings then format_checks t design result else [] | None \<Rightarrow> [])
         @ (if vs_bodySchema settings \<and> bodyFields \<noteq> [] then schema_checks bodyFields result settings else []))"

end
