(* ===== verification/ResponseValidationLaws.thy ===== *)
theory ResponseValidationLaws imports ResponseValidation begin

text \<open>
  The walk over the body implements a plain recursive specification of what it means for a value to have the
  designed structure: it reports a failure exactly when the value does not conform, unless it ran out of its
  budget, and then it reports that.
\<close>

section \<open>What conforming means\<close>

lemma js_get_size: "is_record v \<Longrightarrow> js_get v k \<noteq> JUndef \<Longrightarrow> size (js_get v k) < size v"
proof (cases v)
  case (JObj ps)
  assume "js_get v k \<noteq> JUndef"
  show ?thesis
  proof (cases "own ps k")
    case None
    then show ?thesis by (simp add: JObj obj_get_def proto_get_def)
  next
    case (Some w)
    then have "(k, w) \<in> set ps" by (rule map_of_SomeD)
    then have "size_prod (\<lambda>k. 0) size (k, w) \<le> size_list (size_prod (\<lambda>k. 0) size) ps"
      by (rule size_list_estimation') simp
    with Some show ?thesis by (simp add: JObj obj_get_def)
  qed
qed (auto simp: is_record_def)

lemma elements_size: "x \<in> set (elements v) \<Longrightarrow> size x < size v"
  by (cases v) (auto intro!: le_imp_less_Suc size_list_estimation')

function conforms :: "DesignedResponseField list \<Rightarrow> bool \<Rightarrow> jsval \<Rightarrow> string option \<Rightarrow> bool" where
  "conforms fs allowAdditional v parentId =
     (if \<not> is_record v then children_of fs parentId = []
      else list_all (\<lambda>f.
             (let w = js_get v (dr_name f) in
              if w = JUndef then \<not> dr_required f
              else matchesJsonType w (dr_type f)
                \<and> (if dr_type f = ''object'' then conforms fs allowAdditional w (Some (dr_id f)) else True)
                \<and> (if dr_type f = ''array'' then list_all (\<lambda>x. conforms fs allowAdditional x (Some (dr_id f))) (elements w) else True)))
             (children_of fs parentId)
           \<and> (allowAdditional \<or> set (map fst (entries v)) \<subseteq> set (map dr_name (children_of fs parentId))))"
  by pat_completeness auto
termination
proof (relation "measure (\<lambda>(fs, a, v, pid). size v)", goal_cases)
  case (3 fs a v pid f w x)
  then show ?case using js_get_size [of v "dr_name f"] elements_size [of x w] by auto
qed (auto intro: js_get_size)

declare conforms.simps [simp del]

section \<open>Reporting\<close>

definition all_passed :: "design_check list \<Rightarrow> bool" where
  "all_passed cs = list_all ck_passed cs"

text \<open>From \<open>s\<close> to \<open>s'\<close> checks were added that all pass exactly when \<open>P\<close> holds, up to the budget.\<close>

definition reports :: "walk_state \<Rightarrow> walk_state \<Rightarrow> bool \<Rightarrow> bool" where
  "reports s s' P = (\<exists>new. results s' = results s @ new
     \<and> (\<not> budgetExceeded s \<longrightarrow> all_passed new \<longrightarrow> P \<and> \<not> budgetExceeded s')
     \<and> (P \<longrightarrow> \<not> budgetExceeded s' \<longrightarrow> all_passed new)
     \<and> (budgetExceeded s \<longrightarrow> budgetExceeded s'))"

lemma reports_refl: "reports s s True"
  by (simp add: reports_def all_passed_def)

lemma reports_exceeded: "budgetExceeded s \<Longrightarrow> reports s s P"
  by (simp add: reports_def all_passed_def)

lemma reports_push: "ck_passed c = P \<Longrightarrow> reports s (push c s) P"
  by (auto simp: reports_def push_def all_passed_def)

lemma reports_trans:
  assumes "reports s t P" and "reports t u Q"
  shows "reports s u (P \<and> Q)"
proof -
  from assms obtain n1 n2 where
    n1: "results t = results s @ n1" "\<not> budgetExceeded s \<longrightarrow> all_passed n1 \<longrightarrow> P \<and> \<not> budgetExceeded t"
      "P \<longrightarrow> \<not> budgetExceeded t \<longrightarrow> all_passed n1" "budgetExceeded s \<longrightarrow> budgetExceeded t"
    and n2: "results u = results t @ n2" "\<not> budgetExceeded t \<longrightarrow> all_passed n2 \<longrightarrow> Q \<and> \<not> budgetExceeded u"
      "Q \<longrightarrow> \<not> budgetExceeded u \<longrightarrow> all_passed n2" "budgetExceeded t \<longrightarrow> budgetExceeded u"
    unfolding reports_def by blast
  have "all_passed (n1 @ n2) \<longleftrightarrow> all_passed n1 \<and> all_passed n2" by (simp add: all_passed_def)
  with n1 n2 show ?thesis unfolding reports_def by (intro exI [of _ "n1 @ n2"]) auto
qed

lemma reports_fold:
  assumes "\<And>x u. x \<in> set xs \<Longrightarrow> reports u (f x u) (P x)"
  shows "reports s (fold f xs s) (list_all P xs)"
  using assms
proof (induction xs arbitrary: s)
  case (Cons x xs)
  from Cons.prems have "reports s (f x s) (P x)" by simp
  moreover have "reports (f x s) (fold f xs (f x s)) (list_all P xs)" using Cons by simp
  ultimately show ?case using reports_trans by fastforce
qed (simp add: reports_refl)

lemma reports_count: "reports (s\<lparr> visitedNodes := n \<rparr>) t P \<longleftrightarrow> reports s t P"
  by (simp add: reports_def)

section \<open>The walk\<close>

lemma list_all_enumerate: "list_all (\<lambda>x. P (snd x)) (enumerate n xs) = list_all P xs"
  by (induction xs arbitrary: n) auto

definition items_step ::
  "DesignedResponseField list \<Rightarrow> bool \<Rightarrow> DesignedResponseField \<Rightarrow> string \<Rightarrow> nat \<Rightarrow> nat \<times> jsval \<Rightarrow> walk_state \<Rightarrow> walk_state" where
  "items_step fs a field fieldPath depth = (\<lambda>(index, item) u.
     if budgetExceeded u then u
     else walk fs a item (Some (dr_id field)) (fieldPath @ ''['' @ digits_of index @ '']'') (depth + 1) u)"

definition field_step ::
  "DesignedResponseField list \<Rightarrow> bool \<Rightarrow> jsval \<Rightarrow> string \<Rightarrow> nat \<Rightarrow> DesignedResponseField \<Rightarrow> walk_state \<Rightarrow> walk_state" where
  "field_step fs a parent path depth = (\<lambda>field s.
     let v = js_get parent (dr_name field); fieldPath = path @ ''.'' @ dr_name field in
     if v = JUndef then
       push (check (CheckPath fieldPath) (\<not> dr_required field) (requirement field) Absent
              (if dr_required field then Some MissingProperty else None)) s
     else
       (let passed = matchesJsonType v (dr_type field);
            s1 = push (check (CheckPath fieldPath) passed (Text (dr_type field)) (Text (value_type v))
                   (unless_passed passed ValueTypeDiffers)) s;
            s2 = (if passed \<and> dr_type field = ''object''
                  then walk fs a v (Some (dr_id field)) fieldPath (depth + 1) s1 else s1)
        in if passed \<and> dr_type field = ''array''
           then fold (items_step fs a field fieldPath depth) (enumerate 0 (elements v)) s2 else s2))"

definition extra_step :: "DesignedResponseField list \<Rightarrow> string \<Rightarrow> string \<Rightarrow> walk_state \<Rightarrow> walk_state" where
  "extra_step children path = (\<lambda>name s.
     if name \<in> set (map dr_name children) then s
     else push (check (CheckPath (path @ ''.'' @ name)) False UndefinedField Exists (Some AdditionalProperty)) s)"

lemma walk_eq:
  "walk fs a parent pid path depth st0 =
     (if budgetExceeded st0 then st0
      else
        (let st = st0\<lparr> visitedNodes := visitedNodes st0 + 1 \<rparr>; children = children_of fs pid
         in if depth > MAX_SCHEMA_VALIDATION_DEPTH \<or> visitedNodes st > MAX_SCHEMA_VALIDATION_NODES then
              push (check CheckComplexity False (WithinLimits MAX_SCHEMA_VALIDATION_DEPTH MAX_SCHEMA_VALIDATION_NODES)
                     (DepthAndNodes depth (visitedNodes st)) (Some TooComplex)) (st\<lparr> budgetExceeded := True \<rparr>)
            else if \<not> is_record parent then
              (if children \<noteq> []
               then push (check (CheckPath path) False (Text ''object'') (Text (value_type parent)) (Some ParentTypeDiffers)) st
               else st)
            else
              (let st1 = fold (field_step fs a parent path depth) children st
               in if a then st1 else fold (extra_step children path) (map fst (entries parent)) st1)))"
  unfolding walk.simps [of fs a parent pid path depth st0] field_step_def items_step_def extra_step_def Let_def ..

lemma walk_reports: "reports s (walk fs a v pid path depth s) (conforms fs a v pid)"
proof (induction fs a v pid arbitrary: path depth s rule: conforms.induct)
  case (1 fs a v pid)
  let ?children = "children_of fs pid" and ?st = "s\<lparr> visitedNodes := visitedNodes s + 1 \<rparr>"
  let ?P = "\<lambda>f. (let w = js_get v (dr_name f) in
              if w = JUndef then \<not> dr_required f
              else matchesJsonType w (dr_type f)
                \<and> (if dr_type f = ''object'' then conforms fs a w (Some (dr_id f)) else True)
                \<and> (if dr_type f = ''array'' then list_all (\<lambda>x. conforms fs a x (Some (dr_id f))) (elements w) else True))"
  consider "budgetExceeded s" | "\<not> budgetExceeded s" "depth > MAX_SCHEMA_VALIDATION_DEPTH \<or> visitedNodes ?st > MAX_SCHEMA_VALIDATION_NODES"
    | "\<not> budgetExceeded s" "\<not> (depth > MAX_SCHEMA_VALIDATION_DEPTH \<or> visitedNodes ?st > MAX_SCHEMA_VALIDATION_NODES)" "\<not> is_record v"
    | (rec) "\<not> budgetExceeded s" "\<not> (depth > MAX_SCHEMA_VALIDATION_DEPTH \<or> visitedNodes ?st > MAX_SCHEMA_VALIDATION_NODES)" "is_record v"
    by blast
  then show ?case
  proof cases
    case 1
    then show ?thesis by (simp add: walk_eq reports_exceeded)
  next
    case 2
    then show ?thesis by (auto simp: walk_eq [of fs a v] reports_def push_def check_def all_passed_def Let_def)
  next
    case 3
    then show ?thesis
      by (auto simp: walk_eq [of fs a v] conforms.simps [of fs a v] reports_def push_def check_def all_passed_def Let_def)
  next
    case rec
    have field: "reports u (field_step fs a v path depth f u) (?P f)" if f: "f \<in> set ?children" for f u
    proof (cases "js_get v (dr_name f) = JUndef")
      case True
      then show ?thesis by (auto simp: field_step_def Let_def check_def intro!: reports_push)
    next
      case defined: False
      let ?w = "js_get v (dr_name f)" and ?path = "path @ ''.'' @ dr_name f"
      let ?passed = "matchesJsonType ?w (dr_type f)"
      define u1 where "u1 = push (check (CheckPath ?path) ?passed (Text (dr_type f)) (Text (value_type ?w)) (unless_passed ?passed ValueTypeDiffers)) u"
      have u1: "reports u u1 ?passed" unfolding u1_def by (rule reports_push) (simp add: check_def)
      show ?thesis
      proof (cases "?passed \<and> (dr_type f = ''object'' \<or> dr_type f = ''array'')")
        case False
        then show ?thesis using defined by (auto simp: field_step_def Let_def check_def intro!: reports_push)
      next
        case True
        then consider (o) "dr_type f = ''object''" "?passed" | (arr) "dr_type f = ''array''" "?passed" by blast
        then show ?thesis
        proof cases
          case o
          have "reports u1 (walk fs a ?w (Some (dr_id f)) ?path (depth + 1) u1) (conforms fs a ?w (Some (dr_id f)))"
            using "1.IH"(1) rec(3) f defined o by simp
          from reports_trans [OF u1 this] o defined show ?thesis
            by (simp add: field_step_def Let_def u1_def)
        next
          case arr
          have item: "reports t (items_step fs a f ?path depth x t) (conforms fs a (snd x) (Some (dr_id f)))"
            if "x \<in> set (enumerate 0 (elements ?w))" for x t
          proof -
            obtain i y where x: "x = (i, y)" by (cases x)
            with that have "y \<in> set (elements ?w)" by (auto simp: in_set_enumerate_eq)
            then have "reports t (walk fs a y (Some (dr_id f)) p (depth + 1) t) (conforms fs a y (Some (dr_id f)))" for p
              using "1.IH"(2) rec(3) f defined arr by simp
            then show ?thesis by (simp add: x items_step_def reports_exceeded)
          qed
          have "reports u1 (fold (items_step fs a f ?path depth) (enumerate 0 (elements ?w)) u1)
              (list_all (\<lambda>x. conforms fs a (snd x) (Some (dr_id f))) (enumerate 0 (elements ?w)))"
            by (rule reports_fold) (rule item)
          moreover have "list_all (\<lambda>x. conforms fs a (snd x) (Some (dr_id f))) (enumerate 0 (elements ?w))
              = list_all (\<lambda>x. conforms fs a x (Some (dr_id f))) (elements ?w)"
            by (rule list_all_enumerate)
          ultimately show ?thesis
            using reports_trans [OF u1] arr defined by (simp add: field_step_def Let_def u1_def)
        qed
      qed
    qed
    have st1: "reports s (fold (field_step fs a v path depth) ?children ?st) (list_all ?P ?children)"
      using reports_fold [of ?children "field_step fs a v path depth" ?P ?st] field by (simp add: reports_count)
    have extra: "reports u (fold (extra_step ?children path) names u) (list_all (\<lambda>n. n \<in> set (map dr_name ?children)) names)" for names u
      by (rule reports_fold) (auto simp: extra_step_def check_def reports_refl intro!: reports_push)
    have names: "set ns \<subseteq> set (map dr_name ?children) \<longleftrightarrow> list_all (\<lambda>n. n \<in> set (map dr_name ?children)) ns" for ns
      by (auto simp: list_all_iff)
    have c: "conforms fs a v pid \<longleftrightarrow> list_all ?P ?children \<and> (a \<or> list_all (\<lambda>n. n \<in> set (map dr_name ?children)) (map fst (entries v)))"
      unfolding conforms.simps [of fs a v pid] names using rec(3) by simp
    have w: "walk fs a v pid path depth s =
        (if a then fold (field_step fs a v path depth) ?children ?st
         else fold (extra_step ?children path) (map fst (entries v)) (fold (field_step fs a v path depth) ?children ?st))"
      unfolding walk_eq [of fs a v pid path depth s] Let_def using rec by simp
    show ?thesis
    proof (cases a)
      case True
      have "reports s (walk fs a v pid path depth s) (list_all ?P ?children)" unfolding w if_P [OF True] by (rule st1)
      moreover have "conforms fs a v pid \<longleftrightarrow> list_all ?P ?children" unfolding c using True by blast
      ultimately show ?thesis by (rule ssubst [rotated])
    next
      case False
      have "reports s (walk fs a v pid path depth s)
          (list_all ?P ?children \<and> list_all (\<lambda>n. n \<in> set (map dr_name ?children)) (map fst (entries v)))"
        unfolding w if_not_P [OF False] by (rule reports_trans [OF st1 extra])
      moreover have "conforms fs a v pid \<longleftrightarrow> list_all ?P ?children \<and> list_all (\<lambda>n. n \<in> set (map dr_name ?children)) (map fst (entries v))"
        unfolding c using False by blast
      ultimately show ?thesis by (rule ssubst [rotated])
    qed
  qed
qed

section \<open>The whole check\<close>

text \<open>The fields of a design that describe the body.\<close>

definition body_fields :: "DesignedResponse \<Rightarrow> DesignedResponseField list" where
  "body_fields design = filter (\<lambda>f. dr_scope f = ''response.body'' \<and> dr_name f \<noteq> []) (de_fields design)"

lemma schema_checks_sound:
  assumes "all_passed (schema_checks fs result settings)" and "JSON_parse (or_default (rs_preview result) []) = Some body"
    and "length (or_default (rs_preview result) []) \<le> MAX_RESPONSE_VALIDATION_CHARS"
  shows "conforms fs (vs_allowAdditionalProperties settings) body None"
proof -
  let ?s = "\<lparr> visitedNodes = 0, budgetExceeded = False, results = [] \<rparr>"
  have "reports ?s (walk fs (vs_allowAdditionalProperties settings) body None ''$'' 0 ?s)
      (conforms fs (vs_allowAdditionalProperties settings) body None)"
    by (rule walk_reports)
  with assms show ?thesis by (auto simp: schema_checks_def reports_def)
qed

lemma checked_body_conforms:
  assumes "all_passed (validateDesignedResponse design result settings)"
    and "vs_bodySchema settings" and "vs_bodyFormat settings" and "de_bodyType design \<in> {None, Some BJson}" and "body_fields design \<noteq> []"
  shows "\<exists>body. JSON_parse (or_default (rs_preview result) []) = Some body
     \<and> conforms (body_fields design) (vs_allowAdditionalProperties settings) body None"
proof -
  have t: "(case de_bodyType design of Some t \<Rightarrow> Some t | None \<Rightarrow> if body_fields design \<noteq> [] then Some BJson else None) = Some BJson"
    using assms(4,5) by auto
  have f: "all_passed (format_checks BJson design result)" and s: "all_passed (schema_checks (body_fields design) result settings)"
    using assms t unfolding validateDesignedResponse_def body_fields_def Let_def all_passed_def by auto
  from f have e: "(if length (or_default (rs_preview result) []) \<le> MAX_RESPONSE_VALIDATION_CHARS
        then formatError BJson (or_default (rs_preview result) []) else Some (TooLarge MAX_RESPONSE_VALIDATION_CHARS)) = None"
    by (auto simp: format_checks_def Let_def all_passed_def check_def)
  then obtain body where "JSON_parse (or_default (rs_preview result) []) = Some body"
    "length (or_default (rs_preview result) []) \<le> MAX_RESPONSE_VALIDATION_CHARS"
    by (auto simp: formatError_def split: if_splits option.splits)
  with schema_checks_sound [OF s] show ?thesis by blast
qed

text \<open>C9: when every check of a response designed as JSON passes with the format and the structure checks on, the body
  is JSON of the designed structure. Neither the size limit nor the limits of the walk let a body pass unseen.\<close>

theorem validated_body_conforms:
  assumes "all_passed (validateDesignedResponse design result settings)"
    and "vs_bodySchema settings" and "vs_bodyFormat settings" and "de_bodyType design \<in> {None, Some BJson}" and "body_fields design \<noteq> []"
  shows "\<exists>body. JSON_parse (or_default (rs_preview result) []) = Some body
     \<and> conforms (body_fields design) (vs_allowAdditionalProperties settings) body None"
  using assms by (rule checked_body_conforms)

definition sample_design :: DesignedResponse where
  "sample_design = \<lparr> de_status = ''200'', de_bodyType = Some BJson, de_contentType = None,
     de_fields = [\<lparr> dr_id = ''f'', dr_name = ''ok'', dr_type = ''boolean'', dr_required = True, dr_parentId = None,
                    dr_scope = ''response.body'', dr_example = None \<rparr>] \<rparr>"

definition sample_result :: DesignedResponseResult where
  "sample_result = \<lparr> rs_status = Some 200, rs_preview = Some ''{\"ok\":true}'',
     rs_meta = Some \<lparr> rm_status = Some 200, rm_statusText = None, rm_headers = [], rm_contentType = Some ''application/json'', rm_sizeHint = None \<rparr> \<rparr>"

definition sample_settings :: ProjectResponseValidationSettings where
  "sample_settings = \<lparr> vs_enabled = True, vs_interfaceRun = True, vs_singleCase = True, vs_testScenario = True, vs_status = True,
     vs_headers = True, vs_bodyFormat = True, vs_bodySchema = True, vs_allowAdditionalProperties = False \<rparr>"

lemma sample_parse: "JSON_parse ''{\"ok\":true}'' = Some (JObj [(''ok'', JBool True)])"
  by code_simp

lemma sample_walk:
  "results (walk (body_fields sample_design) False (JObj [(''ok'', JBool True)]) None ''$'' 0
     \<lparr> visitedNodes = 0, budgetExceeded = False, results = [] \<rparr>)
   = [check (CheckPath ''$.ok'') True (Text ''boolean'') (Text ''boolean'') None]"
  by (simp add: walk_eq body_fields_def sample_design_def children_of_def field_step_def extra_step_def Let_def push_def
      obj_get_def matchesJsonType_def value_type_def unless_passed_def MAX_SCHEMA_VALIDATION_DEPTH_def MAX_SCHEMA_VALIDATION_NODES_def)

lemma sample_checked: "all_passed (validateDesignedResponse sample_design sample_result sample_settings)"
proof -
  have fs: "filter (\<lambda>f. dr_scope f = ''response.body'' \<and> dr_name f \<noteq> []) (de_fields sample_design) = body_fields sample_design"
    by (simp add: body_fields_def)
  have p: "schema_checks (body_fields sample_design) sample_result sample_settings
      = [check (CheckPath ''$.ok'') True (Text ''boolean'') (Text ''boolean'') None]"
    using sample_walk
    by (simp add: schema_checks_def sample_result_def sample_settings_def sample_parse MAX_RESPONSE_VALIDATION_CHARS_def)
  have f: "all_passed (format_checks BJson sample_design sample_result)"
    by (simp add: format_checks_def sample_result_def sample_design_def actual_content_type_def meta_contentType_def
        mediaType_def trim_def trimStart_def trimEnd_def js_ws_def code_def toLowerCase_def lower_char_def is_upper_az_def
        mediaTypeMatches_def formatError_def sample_parse MAX_RESPONSE_VALIDATION_CHARS_def check_def all_passed_def Let_def)
  have s: "show_int 200 = ''200''" by code_simp
  show ?thesis
    unfolding validateDesignedResponse_def fs Let_def
    using p f s by (simp add: sample_settings_def sample_result_def sample_design_def all_passed_def check_def body_fields_def)
qed

theorem validated_body_conforms_witness:
  "all_passed (validateDesignedResponse sample_design sample_result sample_settings)
   \<and> (\<exists>body. JSON_parse ''{\"ok\":true}'' = Some body \<and> conforms (body_fields sample_design) False body None)"
  using validated_body_conforms [OF sample_checked] sample_checked
  by (simp add: sample_settings_def sample_design_def sample_result_def body_fields_def)

section \<open>The budget of the walk\<close>

definition within_budget :: "walk_state \<Rightarrow> bool" where
  "within_budget s = (visitedNodes s \<le> (if budgetExceeded s then Suc MAX_SCHEMA_VALIDATION_NODES else MAX_SCHEMA_VALIDATION_NODES))"

lemma within_push [simp]: "within_budget (push c s) = within_budget s"
  by (simp add: within_budget_def push_def)

lemma within_fold: "(\<And>x u. x \<in> set xs \<Longrightarrow> within_budget u \<Longrightarrow> within_budget (f x u)) \<Longrightarrow> within_budget s \<Longrightarrow> within_budget (fold f xs s)"
  by (induction xs arbitrary: s) auto

lemma walk_within_budget: "within_budget s \<Longrightarrow> within_budget (walk fs a v pid path depth s)"
proof (induction fs a v pid arbitrary: path depth s rule: conforms.induct)
  case (1 fs a v pid)
  let ?st = "s\<lparr> visitedNodes := visitedNodes s + 1 \<rparr>"
  show ?case
  proof (cases "budgetExceeded s \<or> depth > MAX_SCHEMA_VALIDATION_DEPTH \<or> visitedNodes ?st > MAX_SCHEMA_VALIDATION_NODES \<or> \<not> is_record v")
    case True
    with "1.prems" show ?thesis
      by (auto simp: walk_eq [of fs a v] Let_def within_budget_def push_def split: if_splits)
  next
    case False
    have field: "within_budget (field_step fs a v path depth f u)" if f: "f \<in> set (children_of fs pid)" and u: "within_budget u" for f u
    proof (cases "js_get v (dr_name f) = JUndef")
      case True
      with u show ?thesis by (simp add: field_step_def Let_def)
    next
      case defined: False
      let ?w = "js_get v (dr_name f)"
      have o: "within_budget (walk fs a ?w (Some (dr_id f)) p d t)" if "within_budget t" "dr_type f = ''object''" "matchesJsonType ?w (dr_type f)" for p d t
        using "1.IH"(1) False f defined that by simp
      have "within_budget (items_step fs a f p d x t)"
        if x: "x \<in> set (enumerate 0 (elements ?w))" and t: "within_budget t" and a: "dr_type f = ''array''" "matchesJsonType ?w (dr_type f)" for p d x t
      proof -
        obtain i y where xy: "x = (i, y)" by (cases x)
        with x have "y \<in> set (elements ?w)" by (auto simp: in_set_enumerate_eq)
        then have "within_budget (walk fs a y (Some (dr_id f)) q (Suc d) t)" for q
          using "1.IH"(2) False f defined t a by simp
        with t show ?thesis by (simp add: xy items_step_def)
      qed
      then have arr: "within_budget (fold (items_step fs a f p d) (enumerate 0 (elements ?w)) t)"
        if "within_budget t" "dr_type f = ''array''" "matchesJsonType ?w (dr_type f)" for p d t
        using that by (intro within_fold)
      show ?thesis
        using u defined by (auto simp: field_step_def Let_def intro!: o arr)
    qed
    have st: "within_budget ?st" using False by (simp add: within_budget_def)
    have w: "within_budget (fold (field_step fs a v path depth) (children_of fs pid) ?st)"
      using field st by (rule within_fold)
    have "within_budget (fold (extra_step cs path) ns u)" if "within_budget u" for cs ns u
      using that by (rule within_fold [rotated]) (simp add: extra_step_def)
    with w show ?thesis
      unfolding walk_eq [of fs a v pid path depth s] Let_def using False by (cases a) simp_all
  qed
qed

text \<open>The walk over the body stops: it counts at most one node more than its limit, whatever the body and the design.\<close>

theorem walk_bounded:
  "visitedNodes (walk fs a v pid path 0 \<lparr> visitedNodes = 0, budgetExceeded = False, results = [] \<rparr>)
     \<le> Suc MAX_SCHEMA_VALIDATION_NODES"
  using walk_within_budget [of "\<lparr> visitedNodes = 0, budgetExceeded = False, results = [] \<rparr>" fs a v pid path 0]
  by (auto simp: within_budget_def split: if_splits)

end
