(* ===== verification/Preferences.thy ===== *)
theory Preferences imports RequestModel begin

text \<open>
  The browser's key-value stores as the clients use them, and the user's preferences
  (\<^verbatim>\<open>packages/ui/src/userPreferences.ts\<close>, \<^verbatim>\<open>runtimeConfig.ts\<close>). A store may be unavailable; reading then gives
  nothing and writing has no effect, as in the guarded helpers of the code. What a preference promises its
  clients is the locale \<open>stored_preference\<close>, and every preference of the program is an instance of it.
\<close>

section \<open>Stores and events\<close>

datatype PreferenceKey =
    collaborationUrl | aiEndpoint | aiModel | aiSecretRef | gatewayUrl | gatewayKey | agentUrl | agentToken

datatype app_event =
    PreferencesChanged "PreferenceKey list"
  | ResponseValidationSettingsChanged string
  | ResponseComponentsChanged "string option"
  | ScriptLibraryChanged string

record browser =
  local_store :: "string \<rightharpoonup> string"
  session_store :: "string \<rightharpoonup> string"
  local_ok :: bool
  session_ok :: bool
  dispatched :: "app_event list"

definition readLocal :: "browser \<Rightarrow> string \<Rightarrow> string option" where
  "readLocal b key = (if local_ok b then local_store b key else None)"

definition writeLocal :: "string \<Rightarrow> string \<Rightarrow> browser \<Rightarrow> browser" where
  "writeLocal key v b = (if local_ok b then b\<lparr> local_store := (local_store b)(key \<mapsto> v) \<rparr> else b)"

definition removeLocal :: "string \<Rightarrow> browser \<Rightarrow> browser" where
  "removeLocal key b = (if local_ok b then b\<lparr> local_store := (local_store b)(key := None) \<rparr> else b)"

definition readSession :: "browser \<Rightarrow> string \<Rightarrow> string option" where
  "readSession b key = (if session_ok b then session_store b key else None)"

definition writeSession :: "string \<Rightarrow> string \<Rightarrow> browser \<Rightarrow> browser" where
  "writeSession key v b = (if session_ok b then b\<lparr> session_store := (session_store b)(key \<mapsto> v) \<rparr> else b)"

definition dispatch :: "app_event \<Rightarrow> browser \<Rightarrow> browser" where
  "dispatch e b = b\<lparr> dispatched := dispatched b @ [e] \<rparr>"

definition emitChanged :: "PreferenceKey list \<Rightarrow> browser \<Rightarrow> browser" where
  "emitChanged keys b = dispatch (PreferencesChanged keys) b"

section \<open>Keys and defaults\<close>

fun KEYS :: "PreferenceKey \<Rightarrow> string" where
  "KEYS collaborationUrl = ''apivoy:collaboration-url''"
| "KEYS aiEndpoint = ''apivoy:ai-endpoint''"
| "KEYS aiModel = ''apivoy:ai-model''"
| "KEYS aiSecretRef = ''apivoy:ai-secret-ref''"
| "KEYS gatewayUrl = ''apivoy:gateway-url''"
| "KEYS gatewayKey = ''apivoy:gateway-key''"
| "KEYS agentUrl = ''apivoy:agent-url''"
| "KEYS agentToken = ''apivoy-agent-token''"

text \<open>The configuration injected into the page, and the page's origin.\<close>

record ApiVoyRuntimeConfig =
  rc_agentUrl :: "string option"
  rc_agentToken :: "string option"
  rc_collaborationUrl :: "string option"
  rc_origin :: "string option"

definition defaultCollaborationUrl :: "ApiVoyRuntimeConfig \<Rightarrow> string" where
  "defaultCollaborationUrl E = or_default (rc_collaborationUrl E) ''http://localhost:8088''"

definition defaultGatewayUrl :: "ApiVoyRuntimeConfig \<Rightarrow> string" where
  "defaultGatewayUrl E = (case rc_origin E of None \<Rightarrow> ''/gateway'' | Some origin \<Rightarrow> origin @ ''/gateway'')"

definition defaultAgentUrl :: "ApiVoyRuntimeConfig \<Rightarrow> string" where
  "defaultAgentUrl E = or_default (rc_agentUrl E) ''http://127.0.0.1:39217''"

definition defaultAgentToken :: "ApiVoyRuntimeConfig \<Rightarrow> string" where
  "defaultAgentToken E = or_default (rc_agentToken E) []"

section \<open>Getters and setters\<close>

definition getCollaborationUrl :: "ApiVoyRuntimeConfig \<Rightarrow> browser \<Rightarrow> string" where
  "getCollaborationUrl E b = or_default (readLocal b (KEYS collaborationUrl)) (defaultCollaborationUrl E)"

definition setCollaborationUrl :: "ApiVoyRuntimeConfig \<Rightarrow> string \<Rightarrow> browser \<Rightarrow> browser" where
  "setCollaborationUrl E v b =
     (if getCollaborationUrl E b = v then b else emitChanged [collaborationUrl] (writeLocal (KEYS collaborationUrl) v b))"

definition getAiEndpoint :: "browser \<Rightarrow> string" where
  "getAiEndpoint b = or_default (readLocal b (KEYS aiEndpoint)) ''https://api.openai.com/v1''"

definition setAiEndpoint :: "string \<Rightarrow> browser \<Rightarrow> browser" where
  "setAiEndpoint v b = (if getAiEndpoint b = v then b else emitChanged [aiEndpoint] (writeLocal (KEYS aiEndpoint) v b))"

definition getAiModel :: "browser \<Rightarrow> string" where
  "getAiModel b = or_default (readLocal b (KEYS aiModel)) ''gpt-4.1-mini''"

definition setAiModel :: "string \<Rightarrow> browser \<Rightarrow> browser" where
  "setAiModel v b = (if getAiModel b = v then b else emitChanged [aiModel] (writeLocal (KEYS aiModel) v b))"

definition getAiSecretRef :: "browser \<Rightarrow> string" where
  "getAiSecretRef b = or_default (readLocal b (KEYS aiSecretRef)) ''ai-provider-key''"

definition setAiSecretRef :: "string \<Rightarrow> browser \<Rightarrow> browser" where
  "setAiSecretRef v b = (if getAiSecretRef b = v then b else emitChanged [aiSecretRef] (writeLocal (KEYS aiSecretRef) v b))"

definition getGatewayUrl :: "ApiVoyRuntimeConfig \<Rightarrow> browser \<Rightarrow> string" where
  "getGatewayUrl E b = or_default (readSession b (KEYS gatewayUrl)) (defaultGatewayUrl E)"

definition setGatewayUrl :: "ApiVoyRuntimeConfig \<Rightarrow> string \<Rightarrow> browser \<Rightarrow> browser" where
  "setGatewayUrl E v b = (if getGatewayUrl E b = v then b else emitChanged [gatewayUrl] (writeSession (KEYS gatewayUrl) v b))"

definition getGatewayKey :: "browser \<Rightarrow> string" where
  "getGatewayKey b = or_default (readSession b (KEYS gatewayKey)) []"

definition setGatewayKey :: "string \<Rightarrow> browser \<Rightarrow> browser" where
  "setGatewayKey v b = (if getGatewayKey b = v then b else emitChanged [gatewayKey] (writeSession (KEYS gatewayKey) v b))"

definition getAgentUrl :: "ApiVoyRuntimeConfig \<Rightarrow> browser \<Rightarrow> string" where
  "getAgentUrl E b = or_default (readLocal b (KEYS agentUrl)) (defaultAgentUrl E)"

definition setAgentUrl :: "ApiVoyRuntimeConfig \<Rightarrow> string \<Rightarrow> browser \<Rightarrow> browser" where
  "setAgentUrl E v b =
     (let next = trim v; current = getAgentUrl E b in
      if next = [] then
        (let b' = removeLocal (KEYS agentUrl) b
         in if current \<noteq> defaultAgentUrl E then emitChanged [agentUrl] b' else b')
      else if current = next then b
      else emitChanged [agentUrl] (writeLocal (KEYS agentUrl) next b))"

definition getAgentToken :: "ApiVoyRuntimeConfig \<Rightarrow> browser \<Rightarrow> string" where
  "getAgentToken E b = or_default (readLocal b (KEYS agentToken)) (defaultAgentToken E)"

definition setAgentToken :: "ApiVoyRuntimeConfig \<Rightarrow> string \<Rightarrow> browser \<Rightarrow> browser" where
  "setAgentToken E v b = (if getAgentToken E b = v then b else emitChanged [agentToken] (writeLocal (KEYS agentToken) v b))"

record UserPreferencesSnapshot =
  up_collaborationUrl :: string
  up_aiEndpoint :: string
  up_aiModel :: string
  up_aiSecretRef :: string
  up_gatewayUrl :: string
  up_gatewayKey :: string
  up_agentUrl :: string
  up_agentToken :: string

definition getUserPreferencesSnapshot :: "ApiVoyRuntimeConfig \<Rightarrow> browser \<Rightarrow> UserPreferencesSnapshot" where
  "getUserPreferencesSnapshot E b =
     \<lparr> up_collaborationUrl = getCollaborationUrl E b, up_aiEndpoint = getAiEndpoint b, up_aiModel = getAiModel b,
       up_aiSecretRef = getAiSecretRef b, up_gatewayUrl = getGatewayUrl E b, up_gatewayKey = getGatewayKey b,
       up_agentUrl = getAgentUrl E b, up_agentToken = getAgentToken E b \<rparr>"

section \<open>The contract of a preference\<close>

locale stored_preference =
  fixes get :: "browser \<Rightarrow> string"
    and set :: "string \<Rightarrow> browser \<Rightarrow> browser"
    and usable :: "browser \<Rightarrow> bool"
    and accepted :: "string \<Rightarrow> string"
    and key :: PreferenceKey
  assumes get_set: "usable b \<Longrightarrow> get (set v b) = accepted v"
    and usable_set: "usable (set v b) = usable b"
    and set_events: "usable b \<Longrightarrow> dispatched (set v b) = dispatched b @ (if get b = accepted v then [] else [PreferencesChanged [key]])"
begin

lemma get_set_set: "usable b \<Longrightarrow> get (set w (set v b)) = accepted w"
  by (simp add: get_set usable_set)

lemma set_again_quiet: "usable b \<Longrightarrow> dispatched (set v (set v b)) = dispatched (set v b)"
  by (simp add: set_events get_set usable_set)

text \<open>The notifications of a sequence of writes: one per write that changes the value.\<close>

fun changes :: "string \<Rightarrow> string list \<Rightarrow> nat" where
  "changes current [] = 0"
| "changes current (v # vs) = (if accepted v = current then 0 else 1) + changes (accepted v) vs"

lemma events_of_writes:
  "usable b \<Longrightarrow> length (dispatched (fold set vs b)) = length (dispatched b) + changes (get b) vs"
proof (induction vs arbitrary: b)
  case (Cons v vs)
  then show ?case using Cons.IH [of "set v b"] by (simp add: usable_set get_set set_events)
qed simp

end

lemmas preference_defs = readLocal_def writeLocal_def removeLocal_def readSession_def writeSession_def emitChanged_def dispatch_def

interpretation collaboration_pref: stored_preference "getCollaborationUrl E" "setCollaborationUrl E" local_ok id collaborationUrl
  for E
  by unfold_locales (auto simp: setCollaborationUrl_def getCollaborationUrl_def preference_defs)

interpretation ai_endpoint_pref: stored_preference getAiEndpoint setAiEndpoint local_ok id aiEndpoint
  by unfold_locales (auto simp: setAiEndpoint_def getAiEndpoint_def preference_defs)

interpretation ai_model_pref: stored_preference getAiModel setAiModel local_ok id aiModel
  by unfold_locales (auto simp: setAiModel_def getAiModel_def preference_defs)

interpretation ai_secret_pref: stored_preference getAiSecretRef setAiSecretRef local_ok id aiSecretRef
  by unfold_locales (auto simp: setAiSecretRef_def getAiSecretRef_def preference_defs)

interpretation gateway_url_pref: stored_preference "getGatewayUrl E" "setGatewayUrl E" session_ok id gatewayUrl
  for E
  by unfold_locales (auto simp: setGatewayUrl_def getGatewayUrl_def preference_defs)

interpretation gateway_key_pref: stored_preference getGatewayKey setGatewayKey session_ok id gatewayKey
  by unfold_locales (auto simp: setGatewayKey_def getGatewayKey_def preference_defs)

interpretation agent_token_pref: stored_preference "getAgentToken E" "setAgentToken E" local_ok id agentToken
  for E
  by unfold_locales (auto simp: setAgentToken_def getAgentToken_def preference_defs)

definition accepted_agent_url :: "ApiVoyRuntimeConfig \<Rightarrow> string \<Rightarrow> string" where
  "accepted_agent_url E v = (if trim v = [] then defaultAgentUrl E else trim v)"

interpretation agent_url_pref: stored_preference "getAgentUrl E" "setAgentUrl E" local_ok "accepted_agent_url E" agentUrl
  for E
  by unfold_locales (auto simp: setAgentUrl_def getAgentUrl_def accepted_agent_url_def preference_defs Let_def)

section \<open>Preferences do not interfere\<close>

fun get_pref :: "ApiVoyRuntimeConfig \<Rightarrow> PreferenceKey \<Rightarrow> browser \<Rightarrow> string" where
  "get_pref E collaborationUrl = getCollaborationUrl E"
| "get_pref E aiEndpoint = getAiEndpoint"
| "get_pref E aiModel = getAiModel"
| "get_pref E aiSecretRef = getAiSecretRef"
| "get_pref E gatewayUrl = getGatewayUrl E"
| "get_pref E gatewayKey = getGatewayKey"
| "get_pref E agentUrl = getAgentUrl E"
| "get_pref E agentToken = getAgentToken E"

fun set_pref :: "ApiVoyRuntimeConfig \<Rightarrow> PreferenceKey \<Rightarrow> string \<Rightarrow> browser \<Rightarrow> browser" where
  "set_pref E collaborationUrl = setCollaborationUrl E"
| "set_pref E aiEndpoint = setAiEndpoint"
| "set_pref E aiModel = setAiModel"
| "set_pref E aiSecretRef = setAiSecretRef"
| "set_pref E gatewayUrl = setGatewayUrl E"
| "set_pref E gatewayKey = setGatewayKey"
| "set_pref E agentUrl = setAgentUrl E"
| "set_pref E agentToken = setAgentToken E"

lemmas setter_defs = setCollaborationUrl_def setAiEndpoint_def setAiModel_def setAiSecretRef_def setGatewayUrl_def
  setGatewayKey_def setAgentUrl_def setAgentToken_def

text \<open>Every setter leaves alone all keys but its own, in both stores.\<close>

lemma set_pref_other:
  assumes "key \<noteq> KEYS k"
  shows "local_store (set_pref E k v b) key = local_store b key" and "session_store (set_pref E k v b) key = session_store b key"
    and "local_ok (set_pref E k v b) = local_ok b" and "session_ok (set_pref E k v b) = session_ok b"
  using assms by (cases k; simp add: setter_defs preference_defs Let_def)+

lemma get_pref_cong:
  assumes "local_store b (KEYS k) = local_store c (KEYS k)" and "session_store b (KEYS k) = session_store c (KEYS k)"
    and "local_ok b = local_ok c" and "session_ok b = session_ok c"
  shows "get_pref E k b = get_pref E k c"
  using assms
  by (cases k) (simp_all add: getCollaborationUrl_def getAiEndpoint_def getAiModel_def getAiSecretRef_def getGatewayUrl_def
      getGatewayKey_def getAgentUrl_def getAgentToken_def readLocal_def readSession_def)

lemma KEYS_inject: "KEYS k = KEYS k' \<longleftrightarrow> k = k'"
  by (cases k; cases k') auto

text \<open>Setting a preference changes that preference, to the value given (the agent's address is trimmed, and an
  empty one restores the default), and no other.\<close>

theorem set_pref_frame:
  assumes "local_ok b" and "session_ok b"
  shows "get_pref E k' (set_pref E k v b) =
     (if k' = k then (if k = agentUrl then accepted_agent_url E v else v) else get_pref E k' b)"
proof (cases "k' = k")
  case True
  have "get_pref E k (set_pref E k v b) = (if k = agentUrl then accepted_agent_url E v else v)"
    using assms collaboration_pref.get_set ai_endpoint_pref.get_set ai_model_pref.get_set ai_secret_pref.get_set
      gateway_url_pref.get_set gateway_key_pref.get_set agent_token_pref.get_set agent_url_pref.get_set
    by (cases k) simp_all
  with True show ?thesis by simp
next
  case False
  then have "KEYS k' \<noteq> KEYS k" by (simp add: KEYS_inject)
  from get_pref_cong [OF set_pref_other [OF this]] False show ?thesis by simp
qed

theorem set_pref_frame_witness:
  "\<exists>b. local_ok b \<and> session_ok b \<and> (\<forall>E. get_pref E aiModel (set_pref E aiEndpoint ''http://x'' b) = get_pref E aiModel b
      \<and> get_pref E aiEndpoint (set_pref E aiEndpoint ''http://x'' b) = ''http://x'')"
proof -
  let ?b = "\<lparr> local_store = Map.empty, session_store = Map.empty, local_ok = True, session_ok = True, dispatched = [] \<rparr>"
  have "local_ok ?b" "session_ok ?b" by simp_all
  moreover have "get_pref E aiModel (set_pref E aiEndpoint ''http://x'' ?b) = get_pref E aiModel ?b" for E
    by (subst set_pref_frame) simp_all
  moreover have "get_pref E aiEndpoint (set_pref E aiEndpoint ''http://x'' ?b) = ''http://x''" for E
    by (subst set_pref_frame) simp_all
  ultimately show ?thesis by blast
qed

text \<open>A sequence of writes to the agent's address notifies the listeners once per write that changes the address.\<close>

theorem agent_url_notifications:
  assumes "local_ok b"
  shows "length (dispatched (fold (setAgentUrl E) vs b)) =
     length (dispatched b) + length (filter (\<lambda>(v, w). v \<noteq> w)
        (zip (getAgentUrl E b # map (accepted_agent_url E) vs) (map (accepted_agent_url E) vs)))"
proof -
  have "stored_preference.changes (accepted_agent_url E) current vs =
      length (filter (\<lambda>(v, w). v \<noteq> w) (zip (current # map (accepted_agent_url E) vs) (map (accepted_agent_url E) vs)))" for current
    by (induction vs arbitrary: current) (auto simp: agent_url_pref.changes.simps)
  with agent_url_pref.events_of_writes [OF assms] show ?thesis by simp
qed

theorem agent_url_notifications_witness:
  "\<exists>b E. local_ok b \<and> length (dispatched (fold (setAgentUrl E) [''http://a'', ''http://a'', ''http://b''] b)) = 2"
proof -
  let ?b = "\<lparr> local_store = Map.empty, session_store = Map.empty, local_ok = True, session_ok = True, dispatched = [] \<rparr>"
  let ?E = "\<lparr> rc_agentUrl = None, rc_agentToken = None, rc_collaborationUrl = None, rc_origin = None \<rparr>"
  have b: "local_ok ?b" by simp
  have t: "trim ''http://a'' = ''http://a''" "trim ''http://b'' = ''http://b''"
    by (simp_all add: trim_def trimStart_def trimEnd_def js_ws_def code_def)
  have g: "getAgentUrl ?E ?b = ''http://127.0.0.1:39217''"
    by (simp add: getAgentUrl_def readLocal_def defaultAgentUrl_def)
  have "length (dispatched (fold (setAgentUrl ?E) [''http://a'', ''http://a'', ''http://b''] ?b)) = 2"
    unfolding agent_url_notifications [OF b] g by (simp add: accepted_agent_url_def t)
  with b show ?thesis by blast
qed

end
