(* ===== verification/Stores.thy ===== *)
theory Stores imports Preferences ResponseValidation begin

text \<open>
  What the clients keep in the browser's local store as JSON: the settings of response validation
  (\<^verbatim>\<open>packages/ui/src/responseValidationSettings.ts\<close>), the response components of a project
  (\<^verbatim>\<open>responseComponents.ts\<close>), the drafts of the workbenches (\<^verbatim>\<open>draftRecovery.ts\<close>) and the script library
  (\<^verbatim>\<open>scriptLibrary.ts\<close>). Stored values are read back as JavaScript values, since nothing guarantees their shape. An
  exception of an unguarded write is \<open>None\<close>. Identifiers and times are arguments.
\<close>

section \<open>JSON in the local store\<close>

text \<open>\<^verbatim>\<open>localStorage.setItem\<close> outside a \<^verbatim>\<open>try\<close>: throws when the store is unavailable.\<close>

definition setItem :: "string \<Rightarrow> string \<Rightarrow> browser \<Rightarrow> browser option" where
  "setItem key v b = (if local_ok b then Some (writeLocal key v b) else None)"

text \<open>\<^verbatim>\<open>JSON.parse(localStorage.getItem(key) ?? fallback)\<close> inside a \<^verbatim>\<open>try\<close>: \<open>None\<close> is an exception.\<close>

definition read_json :: "browser \<Rightarrow> string \<Rightarrow> string \<Rightarrow> jsval option" where
  "read_json b key fallback = (if local_ok b then JSON_parse (or_default (local_store b key) fallback) else None)"

text \<open>The properties a spread \<^verbatim>\<open>...v\<close> copies.\<close>

fun spread_entries :: "jsval \<Rightarrow> props" where
  "spread_entries (JStr s) = map (\<lambda>(i, c). (digits_of i, JStr [c])) (enumerate 0 s)"
| "spread_entries v = all_entries v"

section \<open>Settings of response validation\<close>

definition DEFAULT_RESPONSE_VALIDATION_SETTINGS :: ProjectResponseValidationSettings where
  "DEFAULT_RESPONSE_VALIDATION_SETTINGS =
     \<lparr> vs_enabled = True, vs_interfaceRun = True, vs_singleCase = True, vs_testScenario = True, vs_status = True,
       vs_headers = True, vs_bodyFormat = True, vs_bodySchema = True, vs_allowAdditionalProperties = True \<rparr>"

definition settings_props :: "ProjectResponseValidationSettings \<Rightarrow> props" where
  "settings_props s =
     [(''enabled'', JBool (vs_enabled s)), (''interfaceRun'', JBool (vs_interfaceRun s)), (''singleCase'', JBool (vs_singleCase s)),
      (''testScenario'', JBool (vs_testScenario s)), (''status'', JBool (vs_status s)), (''headers'', JBool (vs_headers s)),
      (''bodyFormat'', JBool (vs_bodyFormat s)), (''bodySchema'', JBool (vs_bodySchema s)),
      (''allowAdditionalProperties'', JBool (vs_allowAdditionalProperties s))]"

definition settings_key :: "string \<Rightarrow> string" where
  "settings_key projectId = ''apivoy.project.'' @ projectId @ ''.response-validation''"

definition readResponseValidationSettings :: "string option \<Rightarrow> browser \<Rightarrow> props" where
  "readResponseValidationSettings projectId b =
     (let defaults = settings_props DEFAULT_RESPONSE_VALIDATION_SETTINGS in
      if or_default projectId [] = [] then defaults
      else (case read_json b (settings_key (the projectId)) ''{}'' of
              None \<Rightarrow> defaults
            | Some stored \<Rightarrow>
                if nullish stored then defaults
                else
                  (let legacyEnabled = coalesce (js_get stored ''enabled'') (JBool True);
                       field = (\<lambda>name. coalesce (js_get stored name) legacyEnabled)
                   in spread (spread defaults (spread_entries stored))
                        [(''interfaceRun'', field ''interfaceRun''), (''singleCase'', field ''singleCase''),
                         (''testScenario'', field ''testScenario''), (''enabled'', field ''interfaceRun'')])))"

definition writeResponseValidationSettings :: "string \<Rightarrow> ProjectResponseValidationSettings \<Rightarrow> browser \<Rightarrow> browser option" where
  "writeResponseValidationSettings projectId s b =
     (let normalized = s\<lparr> vs_enabled := vs_interfaceRun s \<rparr>
      in map_option (dispatch (ResponseValidationSettingsChanged projectId))
           (setItem (settings_key projectId) (json_text 0 0 (JObj (settings_props normalized))) b))"

section \<open>Response components\<close>

definition components_key :: "string option \<Rightarrow> string" where
  "components_key projectId =
     ''apivoy:project:'' @ (if or_default projectId [] = [] then ''default'' else the projectId) @ '':response-components:v1''"

definition component_kept :: "jsval \<Rightarrow> bool" where
  "component_kept item = (is_object item \<and> is_str (js_get item ''id''))"

definition normal_component :: "jsval \<Rightarrow> jsval" where
  "normal_component item =
     (let bodyType = normalizeResponseBodyType (js_get item ''bodyType'');
          contentType = (if truthy (js_get item ''contentType'') then js_get item ''contentType''
                         else JStr (or_default (map_of RESPONSE_BODY_TYPES bodyType) []))
      in JObj (spread (spread_entries item) [(''bodyType'', JStr (body_type_id bodyType)), (''contentType'', contentType)]))"

definition readResponseComponents :: "string option \<Rightarrow> browser \<Rightarrow> jsval list" where
  "readResponseComponents projectId b =
     (if \<not> local_ok b then []
      else
        (let raw = or_default (local_store b (components_key projectId)) []
         in case JSON_parse (if raw = [] then ''[]'' else raw) of
              Some (JArr items) \<Rightarrow> map normal_component (filter component_kept items)
            | _ \<Rightarrow> []))"

definition writeResponseComponents :: "string option \<Rightarrow> jsval list \<Rightarrow> browser \<Rightarrow> browser option" where
  "writeResponseComponents projectId components b =
     map_option (dispatch (ResponseComponentsChanged projectId))
       (setItem (components_key projectId) (json_text 0 0 (JArr components)) b)"

section \<open>Drafts\<close>

definition draft_key :: "string \<Rightarrow> string" where
  "draft_key protocol = ''apivoy:workbench-draft:'' @ protocol"

text \<open>A draft that cannot be read is removed; when the store itself fails, so does the removal, and the exception
  escapes (\<open>None\<close>).\<close>

definition readWorkbenchDraft :: "string \<Rightarrow> browser \<Rightarrow> (jsval option \<times> browser) option" where
  "readWorkbenchDraft protocol b =
     (if \<not> local_ok b then None
      else
        (let raw = or_default (local_store b (draft_key protocol)) [] in
         if raw = [] then Some (None, b)
         else (case JSON_parse raw of
                 Some parsed \<Rightarrow>
                   if nullish parsed then Some (None, removeLocal (draft_key protocol) b)
                   else Some (if js_get parsed ''version'' = JNum (NInt 1) \<and> truthy (js_get parsed ''value'')
                              then Some (js_get parsed ''value'') else None, b)
               | None \<Rightarrow> Some (None, removeLocal (draft_key protocol) b))))"

definition clearWorkbenchDraft :: "string \<Rightarrow> browser \<Rightarrow> browser" where
  "clearWorkbenchDraft protocol b = removeLocal (draft_key protocol) b"

text \<open>What the timer of \<^verbatim>\<open>useAutosaveDraft\<close> does when it fires.\<close>

definition autosave_draft :: "string \<Rightarrow> string \<Rightarrow> jsval \<Rightarrow> browser \<Rightarrow> browser" where
  "autosave_draft protocol now v b =
     writeLocal (draft_key protocol)
       (json_text 0 0 (JObj [(''version'', JNum (NInt 1)), (''savedAt'', JStr now), (''value'', v)])) b"

section \<open>Scripts\<close>

datatype ScriptLanguage = Javascript | Typescript

record ScriptAsset =
  sa_id :: string
  sa_projectId :: string
  sa_name :: string
  sa_language :: ScriptLanguage
  sa_source :: string
  sa_createdAt :: string
  sa_updatedAt :: string

datatype script_source = FromAsset | Inline

record ScriptStep =
  ss_id :: string
  ss_enabled :: bool
  ss_sourceType :: script_source
  ss_scriptId :: "string option"
  ss_language :: ScriptLanguage
  ss_source :: "string option"

definition scripts_key :: string where "scripts_key = ''apivoy-project-scripts-v1''"

text \<open>\<^verbatim>\<open>(JSON.parse(...) as ScriptAsset[]).filter(...)\<close> by project; reading a property of \<^verbatim>\<open>null\<close> throws.\<close>

definition stored_scripts :: "(jsval \<Rightarrow> bool) \<Rightarrow> browser \<Rightarrow> jsval list" where
  "stored_scripts keep b =
     (case read_json b scripts_key ''[]'' of
        Some (JArr items) \<Rightarrow> if list_ex nullish items then [] else filter (\<lambda>item. keep (js_get item ''projectId'')) items
      | _ \<Rightarrow> [])"

definition readScriptAssets :: "string \<Rightarrow> browser \<Rightarrow> jsval list" where
  "readScriptAssets projectId b = stored_scripts (\<lambda>p. p = JStr projectId) b"

definition writeScriptAssets :: "string \<Rightarrow> jsval list \<Rightarrow> browser \<Rightarrow> browser option" where
  "writeScriptAssets projectId assets b =
     map_option (dispatch (ScriptLibraryChanged projectId))
       (setItem scripts_key (json_text 0 0 (JArr (stored_scripts (\<lambda>p. p \<noteq> JStr projectId) b @ assets))) b)"

definition legacyScriptSteps :: "string list option \<Rightarrow> string list \<Rightarrow> ScriptStep list" where
  "legacyScriptSteps sources uuids =
     map (\<lambda>(source, uuid). \<lparr> ss_id = uuid, ss_enabled = True, ss_sourceType = Inline, ss_scriptId = None,
                              ss_language = Javascript, ss_source = Some source \<rparr>)
       (zip (or_default sources []) uuids)"

definition step_source :: "ScriptAsset list \<Rightarrow> ScriptStep \<Rightarrow> string option" where
  "step_source assets step =
     (case ss_sourceType step of
        FromAsset \<Rightarrow> map_option sa_source (find (\<lambda>a. Some (sa_id a) = ss_scriptId step) assets)
      | Inline \<Rightarrow> ss_source step)"

definition resolveScriptSteps :: "ScriptStep list \<Rightarrow> ScriptAsset list \<Rightarrow> string list" where
  "resolveScriptSteps steps assets =
     concat (map (\<lambda>step. case step_source assets step of Some s \<Rightarrow> if trim s \<noteq> [] then [s] else [] | None \<Rightarrow> [])
       (filter ss_enabled steps))"

section \<open>What was written is read\<close>

lemma read_json_written:
  "local_ok b \<Longrightarrow> json_plain v \<Longrightarrow> read_json (writeLocal key (json_text 0 0 v) b) key fallback = Some v"
  by (simp add: read_json_def writeLocal_def JSON_parse_text)

lemma setItem_Some: "setItem key v b = Some c \<longleftrightarrow> local_ok b \<and> c = writeLocal key v b"
  by (auto simp: setItem_def)

lemma dispatch_reads [simp]:
  "read_json (dispatch e b) key f = read_json b key f" "local_ok (dispatch e b) = local_ok b"
  "local_store (dispatch e b) = local_store b"
  by (simp_all add: read_json_def dispatch_def)

lemmas ordered_eval = ordered_props_def fromEntries_def def_prop_def index_key_def all_digits_def is_digit_def code_def

lemma update_prop_same: "map_of ps k = Some v \<Longrightarrow> update_prop k v ps = ps"
  by (induction ps) (auto split: if_splits)

lemma def_prop_same: "map_of ps k = Some v \<Longrightarrow> def_prop k v ps = ps"
  by (auto simp: def_prop_def update_prop_same dest: map_of_SomeD intro: rev_image_eqI)

lemma update_prop_append: "k \<notin> fst ` set as \<Longrightarrow> update_prop k v (as @ (k, w) # bs) = as @ (k, v) # bs"
  by (induction as) auto

text \<open>Spreading an object over one with the same keys gives the second.\<close>

lemma spread_same_keys:
  assumes "distinct (map fst qs)" and "map fst ps = map fst qs"
  shows "spread ps qs = qs"
proof -
  have "foldl (\<lambda>ps (k, v). def_prop k v ps) (as @ bs') bs = as @ bs"
    if "distinct (map fst (as @ bs))" "map fst bs' = map fst bs" for as bs' bs :: "(string \<times> 'a) list"
    using that
  proof (induction bs arbitrary: as bs')
    case (Cons b bs)
    obtain k v where b: "b = (k, v)" by (cases b)
    with Cons.prems obtain w bs'' where bs': "bs' = (k, w) # bs''" "map fst bs'' = map fst bs"
      by (cases bs') auto
    have "k \<notin> fst ` set as" using Cons.prems b by auto
    then have "def_prop k v (as @ bs') = (as @ [(k, v)]) @ bs''"
      by (simp add: def_prop_def bs' update_prop_append)
    with Cons.IH [of "as @ [(k, v)]" bs''] Cons.prems b bs' show ?case by simp
  qed simp
  from this [of "[]" qs ps] assms show ?thesis by (simp add: spread_def)
qed

text \<open>The settings of response validation read back as they were written, with the old switch \<^verbatim>\<open>enabled\<close> following
  the switch for interface runs.\<close>

theorem settings_roundtrip:
  assumes "writeResponseValidationSettings projectId s b = Some c" and "projectId \<noteq> []"
  shows "readResponseValidationSettings (Some projectId) c = settings_props (s\<lparr> vs_enabled := vs_interfaceRun s \<rparr>)"
proof -
  let ?n = "s\<lparr> vs_enabled := vs_interfaceRun s \<rparr>"
  have plain: "json_plain (JObj (settings_props ?n))"
    by (simp add: settings_props_def ordered_eval)
  from assms(1) have c: "local_ok b" "c = dispatch (ResponseValidationSettingsChanged projectId)
      (writeLocal (settings_key projectId) (json_text 0 0 (JObj (settings_props ?n))) b)"
    by (auto simp: writeResponseValidationSettings_def setItem_Some Let_def)
  then have r: "read_json c (settings_key projectId) ''{}'' = Some (JObj (settings_props ?n))"
    using read_json_written [OF c(1) plain] by (simp only: c(2) dispatch_reads)
  let ?ps = "settings_props ?n"
  have sp: "spread (settings_props DEFAULT_RESPONSE_VALIDATION_SETTINGS) ?ps = ?ps"
    by (rule spread_same_keys) (simp_all add: settings_props_def)
  have m: "map_of ?ps ''enabled'' = Some (JBool (vs_interfaceRun s))" "map_of ?ps ''interfaceRun'' = Some (JBool (vs_interfaceRun s))"
    "map_of ?ps ''singleCase'' = Some (JBool (vs_singleCase s))" "map_of ?ps ''testScenario'' = Some (JBool (vs_testScenario s))"
    by (simp_all add: settings_props_def)
  then have g: "js_get (JObj ?ps) ''interfaceRun'' = JBool (vs_interfaceRun s)" "js_get (JObj ?ps) ''singleCase'' = JBool (vs_singleCase s)"
    "js_get (JObj ?ps) ''testScenario'' = JBool (vs_testScenario s)"
    by (simp_all add: obj_get_def)
  have "spread ?ps [(''interfaceRun'', JBool (vs_interfaceRun s)), (''singleCase'', JBool (vs_singleCase s)),
      (''testScenario'', JBool (vs_testScenario s)), (''enabled'', JBool (vs_interfaceRun s))] = ?ps"
    by (simp add: spread_def def_prop_same m)
  then show ?thesis
    using assms(2) by (simp add: readResponseValidationSettings_def r sp g nullish_def coalesce_def del: js_get.simps)
qed

theorem settings_roundtrip_witness:
  "\<exists>b c. writeResponseValidationSettings ''p'' DEFAULT_RESPONSE_VALIDATION_SETTINGS b = Some c
     \<and> readResponseValidationSettings (Some ''p'') c = settings_props DEFAULT_RESPONSE_VALIDATION_SETTINGS"
proof -
  let ?b = "\<lparr> local_store = Map.empty, session_store = Map.empty, local_ok = True, session_ok = True, dispatched = [] \<rparr>"
  obtain c where c: "writeResponseValidationSettings ''p'' DEFAULT_RESPONSE_VALIDATION_SETTINGS ?b = Some c"
    by (simp add: writeResponseValidationSettings_def setItem_def Let_def del: json_text.simps)
  from settings_roundtrip [OF c] have "readResponseValidationSettings (Some ''p'') c = settings_props DEFAULT_RESPONSE_VALIDATION_SETTINGS"
    by (simp add: DEFAULT_RESPONSE_VALIDATION_SETTINGS_def)
  with c show ?thesis by blast
qed

text \<open>A saved draft is recovered exactly, and reading it leaves the store alone.\<close>

theorem draft_roundtrip:
  assumes "local_ok b" and "json_plain v" and "truthy v"
  shows "readWorkbenchDraft protocol (autosave_draft protocol now v b) = Some (Some v, autosave_draft protocol now v b)"
proof -
  let ?d = "JObj [(''version'', JNum (NInt 1)), (''savedAt'', JStr now), (''value'', v)]"
  have "json_plain ?d" using assms(2) by (simp add: ordered_eval)
  then have p: "JSON_parse (json_text 0 0 ?d) = Some ?d" by (rule JSON_parse_text)
  have n: "json_text 0 0 ?d \<noteq> []" by simp
  have l: "local_ok (autosave_draft protocol now v b)"
    "local_store (autosave_draft protocol now v b) (draft_key protocol) = Some (json_text 0 0 ?d)"
    using assms(1) by (simp_all add: autosave_draft_def writeLocal_def)
  show ?thesis
    unfolding readWorkbenchDraft_def l(2) or_default_simps Let_def p
    using assms(3) n l(1) by (simp add: nullish_def obj_get_def del: json_text.simps)
qed

theorem draft_roundtrip_witness:
  "\<exists>b. local_ok b \<and> readWorkbenchDraft ''http'' (autosave_draft ''http'' ''now'' (JObj []) b) = Some (Some (JObj []), autosave_draft ''http'' ''now'' (JObj []) b)"
proof -
  let ?b = "\<lparr> local_store = Map.empty, session_store = Map.empty, local_ok = True, session_ok = True, dispatched = [] \<rparr>"
  have b: "local_ok ?b" by simp
  from draft_roundtrip [OF b, of "JObj []" "''http''" "''now''"] b show ?thesis
    by (intro exI [of _ ?b]) (simp add: ordered_eval)
qed

lemma stored_scripts_written:
  assumes "local_ok b" and "json_plain (JArr items)" and "\<not> list_ex nullish items"
  shows "stored_scripts keep (dispatch e (writeLocal scripts_key (json_text 0 0 (JArr items)) b))
     = filter (\<lambda>item. keep (js_get item ''projectId'')) items"
  using read_json_written [OF assms(1,2)] assms(3) by (simp add: stored_scripts_def del: json_text.simps)

lemma stored_scripts_not_null: "\<not> list_ex nullish (stored_scripts keep b)"
  by (auto simp: stored_scripts_def list_ex_iff split: option.splits jsval.splits)

lemma stored_scripts_filter:
  "filter (\<lambda>item. keep (js_get item ''projectId'')) (stored_scripts other b) = stored_scripts (\<lambda>p. other p \<and> keep p) b"
  by (auto simp: stored_scripts_def split: option.splits jsval.splits)

text \<open>Saving the scripts of one project replaces exactly the scripts of that project: they are read back as saved, and
  the scripts of every other project stay.\<close>

theorem scripts_roundtrip:
  assumes "writeScriptAssets p assets b = Some c"
    and "list_all (\<lambda>a. js_get a ''projectId'' = JStr p) assets"
    and "json_plain (JArr (stored_scripts (\<lambda>x. x \<noteq> JStr p) b @ assets))"
  shows "readScriptAssets q c = (if q = p then assets else readScriptAssets q b)"
proof -
  let ?items = "stored_scripts (\<lambda>x. x \<noteq> JStr p) b @ assets"
  from assms(1) have c: "local_ok b" "c = dispatch (ScriptLibraryChanged p) (writeLocal scripts_key (json_text 0 0 (JArr ?items)) b)"
    by (auto simp: writeScriptAssets_def setItem_Some)
  have "\<not> list_ex nullish assets"
  proof
    assume "list_ex nullish assets"
    then obtain a where "a \<in> set assets" "nullish a" by (auto simp: list_ex_iff)
    with assms(2) show False by (auto simp: list_all_iff nullish_def)
  qed
  then have n: "\<not> list_ex nullish ?items" using stored_scripts_not_null by simp
  have r: "readScriptAssets q c = filter (\<lambda>item. js_get item ''projectId'' = JStr q) ?items"
    unfolding c(2) readScriptAssets_def by (rule stored_scripts_written [OF c(1) assms(3) n])
  have a: "filter (\<lambda>item. js_get item ''projectId'' = JStr q) assets = (if q = p then assets else [])"
    using assms(2) by (auto simp: list_all_iff filter_empty_conv intro!: filter_True)
  have o: "filter (\<lambda>item. js_get item ''projectId'' = JStr q) (stored_scripts (\<lambda>x. x \<noteq> JStr p) b)
      = (if q = p then [] else readScriptAssets q b)"
  proof (cases "q = p")
    case True
    have "(\<lambda>x. x \<noteq> JStr p \<and> x = JStr p) = (\<lambda>x. False)" by auto
    then show ?thesis
      using True stored_scripts_filter [of "\<lambda>x. x = JStr p" "\<lambda>x. x \<noteq> JStr p" b]
      by (simp add: stored_scripts_def [of "\<lambda>x. False"] split: option.splits jsval.splits)
  next
    case False
    then have "(\<lambda>x. x \<noteq> JStr p \<and> x = JStr q) = (\<lambda>x. x = JStr q)" by auto
    with False stored_scripts_filter [of "\<lambda>x. x = JStr q" "\<lambda>x. x \<noteq> JStr p" b] show ?thesis
      by (simp add: readScriptAssets_def)
  qed
  show ?thesis by (simp add: r a o)
qed

theorem scripts_roundtrip_witness:
  "\<exists>b c. writeScriptAssets ''p'' [JObj [(''projectId'', JStr ''p'')]] b = Some c
     \<and> readScriptAssets ''p'' c = [JObj [(''projectId'', JStr ''p'')]] \<and> readScriptAssets ''q'' c = readScriptAssets ''q'' b"
proof -
  let ?b = "\<lparr> local_store = Map.empty, session_store = Map.empty, local_ok = True, session_ok = True, dispatched = [] \<rparr>"
  let ?a = "[JObj [(''projectId'', JStr ''p'')]]"
  obtain c where c: "writeScriptAssets ''p'' ?a ?b = Some c"
    by (simp add: writeScriptAssets_def setItem_def)
  have e: "JSON_parse ''[]'' = Some (JArr [])" by code_simp
  have "stored_scripts keep ?b = []" for keep
    by (simp add: stored_scripts_def read_json_def e)
  then have pl: "json_plain (JArr (stored_scripts (\<lambda>x. x \<noteq> JStr ''p'') ?b @ ?a))" by (simp add: ordered_eval)
  have l: "list_all (\<lambda>a. js_get a ''projectId'' = JStr ''p'') ?a" by (simp add: obj_get_def)
  from scripts_roundtrip [OF c l pl, of "''p''"] scripts_roundtrip [OF c l pl, of "''q''"] c show ?thesis
    by (intro exI [of _ ?b] exI [of _ c]) simp
qed

text \<open>Whatever is stored, every response component that is read has a text as its identifier and one of the known body
  types.\<close>

theorem components_wellformed:
  "list_all (\<lambda>x. is_str (js_get x ''id'') \<and> (\<exists>t. js_get x ''bodyType'' = JStr (body_type_id t))) (readResponseComponents projectId b)"
proof -
  have "is_str (js_get (normal_component x) ''id'') \<and> (\<exists>t. js_get (normal_component x) ''bodyType'' = JStr (body_type_id t))"
    if "component_kept x" for x
  proof -
    from that obtain ps where ps: "x = JObj ps"
      by (cases x) (auto simp: component_kept_def is_object_def index_key_def proto_get_def ARRAY_PROTOTYPE_def OBJECT_PROTOTYPE_def all_digits_def is_digit_def code_def)
    with that have "is_str (obj_get ps ''id'')" by (simp add: component_kept_def)
    then show ?thesis
      by (simp add: normal_component_def ps Let_def spread_def obj_get_def) blast
  qed
  then show ?thesis
    by (auto simp: readResponseComponents_def list_all_iff Let_def split: option.splits jsval.splits)
qed

end
