(* ===== verification/AppState.thy ===== *)
theory AppState imports RequestModel "HOL-Library.Sublist" begin

text \<open>
  The state of the application's frame: the store of the user interface (\<^verbatim>\<open>packages/ui/src/appStore.ts\<close>) with its
  actions as a transition system, the hand-over of a request to a workbench that is still to be mounted
  (\<^verbatim>\<open>openRequestPipeline.ts\<close>), the registry of workbenches (\<^verbatim>\<open>workbenchRegistry.ts\<close>), the check of plugin
  schemas (\<^verbatim>\<open>packages/protocol-ui-sdk\<close>) and the window of a virtual list (\<^verbatim>\<open>VirtualList.tsx\<close>, in whole pixels).
\<close>

section \<open>The store of the user interface\<close>

datatype ThemeMode = Dark | Light | System
datatype SplitDirection = Horizontal | Vertical
datatype WorkbenchLayoutPreference = Auto | Fixed SplitDirection

record SplitPanePreference =
  sp_direction :: WorkbenchLayoutPreference
  sp_ratio :: jsnum

record AppStore =
  activeWorkbench :: string
  themeMode :: ThemeMode
  collapsedNavigation :: bool
  collapsedExplorer :: bool
  collapsedExplorerNodes :: "string list"
  favoriteWorkbenches :: "string list"
  recentWorkbenches :: "string list"
  splitDirection :: SplitDirection
  splitPreferences :: "(string \<times> SplitPanePreference) list"

definition initial_store :: AppStore where
  "initial_store =
     \<lparr> activeWorkbench = [], themeMode = Dark, collapsedNavigation = False, collapsedExplorer = False,
       collapsedExplorerNodes = [], favoriteWorkbenches = [], recentWorkbenches = [''http''],
       splitDirection = Vertical, splitPreferences = [] \<rparr>"

definition setActiveWorkbench :: "string \<Rightarrow> AppStore \<Rightarrow> AppStore" where
  "setActiveWorkbench wb s = s
     \<lparr> activeWorkbench := wb,
       recentWorkbenches :=
         (if wb = [] \<or> startsWith wb ''__'' then recentWorkbenches s
          else take 6 (wb # filter (\<lambda>i. i \<noteq> wb) (recentWorkbenches s))) \<rparr>"

definition setThemeMode :: "ThemeMode \<Rightarrow> AppStore \<Rightarrow> AppStore" where
  "setThemeMode mode s = s\<lparr> themeMode := mode \<rparr>"

definition toggleNavigation :: "AppStore \<Rightarrow> AppStore" where
  "toggleNavigation s = s\<lparr> collapsedNavigation := \<not> collapsedNavigation s \<rparr>"

definition toggleExplorer :: "AppStore \<Rightarrow> AppStore" where
  "toggleExplorer s = s\<lparr> collapsedExplorer := \<not> collapsedExplorer s \<rparr>"

definition toggle_member :: "string \<Rightarrow> string list \<Rightarrow> string list" where
  "toggle_member i xs = (if i \<in> set xs then filter (\<lambda>x. x \<noteq> i) xs else xs @ [i])"

definition toggleExplorerNode :: "string \<Rightarrow> AppStore \<Rightarrow> AppStore" where
  "toggleExplorerNode i s = s\<lparr> collapsedExplorerNodes := toggle_member i (collapsedExplorerNodes s) \<rparr>"

definition toggleFavorite :: "string \<Rightarrow> AppStore \<Rightarrow> AppStore" where
  "toggleFavorite i s = s\<lparr> favoriteWorkbenches := toggle_member i (favoriteWorkbenches s) \<rparr>"

definition setSplitDirection :: "SplitDirection \<Rightarrow> AppStore \<Rightarrow> AppStore" where
  "setSplitDirection d s = s\<lparr> splitDirection := d \<rparr>"

definition setSplitPreference :: "string \<Rightarrow> SplitPanePreference \<Rightarrow> AppStore \<Rightarrow> AppStore" where
  "setSplitPreference i p s = s\<lparr> splitPreferences := def_prop i p (splitPreferences s) \<rparr>"

inductive app_step :: "AppStore \<Rightarrow> AppStore \<Rightarrow> bool" where
  active: "app_step s (setActiveWorkbench wb s)"
| theme: "app_step s (setThemeMode mode s)"
| navigation: "app_step s (toggleNavigation s)"
| explorer: "app_step s (toggleExplorer s)"
| node: "app_step s (toggleExplorerNode i s)"
| favorite: "app_step s (toggleFavorite i s)"
| direction: "app_step s (setSplitDirection d s)"
| preference: "app_step s (setSplitPreference i p s)"

inductive app_reachable :: "AppStore \<Rightarrow> bool" where
  start: "app_reachable initial_store"
| step: "app_reachable s \<Longrightarrow> app_step s t \<Longrightarrow> app_reachable t"

text \<open>The migration of a stored state, on the stored object.\<close>

definition migrate :: "jsval \<Rightarrow> jsval" where
  "migrate persisted =
     (let prefs = js_get persisted ''splitPreferences'';
          of_pref = (\<lambda>p. if nullish p then JUndef else js_get p ''direction'');
          http = (if nullish prefs then JUndef else of_pref (js_get prefs ''http-workbench''));
          legacy = (if \<not> nullish http then http
                    else (case find (\<lambda>(_, p). truthy (of_pref p)) (all_entries (coalesce prefs (JObj []))) of
                            Some (_, p) \<Rightarrow> of_pref p | None \<Rightarrow> JUndef));
          nodes = js_get persisted ''collapsedExplorerNodes'';
          direction = coalesce (js_get persisted ''splitDirection'')
            (JStr (if legacy = JStr ''horizontal'' then ''horizontal'' else ''vertical''))
      in JObj (spread (all_entries persisted)
           [(''collapsedExplorerNodes'', if isArray nodes then nodes else JArr []), (''splitDirection'', direction)]))"

section \<open>Handing a request over\<close>

record HydratePayload =
  hy_workbenchId :: string
  hy_sessionId :: "string option"
  hy_protocolId :: "string option"
  hy_envelope :: jsval

definition stashHydrate :: "HydratePayload \<Rightarrow> HydratePayload option \<Rightarrow> HydratePayload option" where
  "stashHydrate payload pending = Some payload"

definition consumeHydrate :: "string \<Rightarrow> string option \<Rightarrow> HydratePayload option \<Rightarrow> HydratePayload option \<times> HydratePayload option" where
  "consumeHydrate workbenchId sessionId pending =
     (case pending of
        None \<Rightarrow> (None, pending)
      | Some p \<Rightarrow>
          if hy_workbenchId p \<noteq> workbenchId then (None, pending)
          else if or_default (hy_sessionId p) [] \<noteq> [] \<and> hy_sessionId p \<noteq> sessionId then (None, pending)
          else (Some p, None))"

definition peekHydrate :: "string \<Rightarrow> HydratePayload option \<Rightarrow> HydratePayload option" where
  "peekHydrate workbenchId pending =
     (case pending of None \<Rightarrow> None | Some p \<Rightarrow> if hy_workbenchId p \<noteq> workbenchId then None else Some p)"

datatype hydrate_op = Stash HydratePayload | Consume string "string option"

text \<open>A run: the payloads delivered, in order, from a pending one.\<close>

fun deliveries :: "HydratePayload option \<Rightarrow> hydrate_op list \<Rightarrow> HydratePayload list" where
  "deliveries pending [] = []"
| "deliveries pending (Stash p # ops) = deliveries (stashHydrate p pending) ops"
| "deliveries pending (Consume w s # ops) =
     (case consumeHydrate w s pending of
        (Some p, pending') \<Rightarrow> p # deliveries pending' ops
      | (None, pending') \<Rightarrow> deliveries pending' ops)"

fun stashed :: "hydrate_op list \<Rightarrow> HydratePayload list" where
  "stashed [] = []"
| "stashed (Stash p # ops) = p # stashed ops"
| "stashed (Consume w s # ops) = stashed ops"

section \<open>The registry\<close>

record WorkbenchTab =
  wt_id :: string
  wt_label :: string
  wt_protocols :: "string list"

record WorkbenchRegistryEntry =
  wr_tab :: WorkbenchTab
  wr_runner :: bool

definition workbench :: "string \<Rightarrow> string \<Rightarrow> string list \<Rightarrow> bool \<Rightarrow> WorkbenchRegistryEntry" where
  "workbench i label protocols runner =
     \<lparr> wr_tab = \<lparr> wt_id = i, wt_label = label, wt_protocols = protocols \<rparr>, wr_runner = runner \<rparr>"

definition WORKBENCH_REGISTRY :: "WorkbenchRegistryEntry list" where
  "WORKBENCH_REGISTRY =
     [workbench ''http'' ''HTTP'' [''http'', ''graphql'', ''soap'', ''jsonrpc''] False,
      workbench ''sse'' ''SSE'' [''sse''] False, workbench ''tcp'' ''TCP'' [''tcp''] False,
      workbench ''udp'' ''UDP'' [''udp''] False, workbench ''websocket'' ''WebSocket'' [''websocket''] False,
      workbench ''grpc'' ''gRPC'' [''grpc''] False, workbench ''redis'' ''Redis'' [''redis''] False,
      workbench ''mqtt'' ''MQTT'' [''mqtt''] False, workbench ''amqp'' ''AMQP'' [''amqp''] False,
      workbench ''kafka'' ''Kafka'' [''kafka''] False, workbench ''sql'' ''SQL'' [''sql''] False,
      workbench ''mock'' ''Mock'' [] False, workbench ''runner'' ''Runner'' [] True,
      workbench ''gateway'' ''Gateway'' [] False, workbench ''capture'' ''Capture'' [] False,
      workbench ''plugins'' ''Plugins'' [] False, workbench ''ai'' ''AI'' [] False]"

text \<open>The capability is \<^verbatim>\<open>undefined\<close> (\<open>None\<close>) or a flag.\<close>

definition buildWorkbenchTabs :: "bool option \<Rightarrow> WorkbenchTab list" where
  "buildWorkbenchTabs runner = map wr_tab (filter (\<lambda>e. \<not> wr_runner e \<or> runner \<noteq> Some False) WORKBENCH_REGISTRY)"

section \<open>Plugin schemas\<close>

text \<open>\<^verbatim>\<open>v?.trim()\<close> on a field that should be a text: \<open>None\<close> is the exception for anything but a text,
  \<^verbatim>\<open>null\<close> and \<^verbatim>\<open>undefined\<close>.\<close>

definition blank_field :: "jsval \<Rightarrow> bool option" where
  "blank_field v = (if nullish v then Some True else case v of JStr s \<Rightarrow> Some (trim s = []) | _ \<Rightarrow> None)"

definition has_own_or_proto :: "jsval \<Rightarrow> string \<Rightarrow> bool" where
  "has_own_or_proto v k = (case v of JObj ps \<Rightarrow> k \<in> fst ` set ps \<or> k \<in> set OBJECT_PROTOTYPE | _ \<Rightarrow> js_get v k \<noteq> JUndef)"

definition schema_field_ok :: "jsval \<Rightarrow> bool" where
  "schema_field_ok f = (is_object f \<and> has_own_or_proto f ''kind'' \<and> has_own_or_proto f ''name'' \<and> has_own_or_proto f ''label'')"

definition validateProtocolUiSchema :: "jsval \<Rightarrow> bool option" where
  "validateProtocolUiSchema v =
     (if \<not> is_object v then Some False
      else (case blank_field (js_get v ''protocolId'') of
              None \<Rightarrow> None
            | Some True \<Rightarrow> Some False
            | Some False \<Rightarrow>
                (case blank_field (js_get v ''version'') of
                   None \<Rightarrow> None
                 | Some True \<Rightarrow> Some False
                 | Some False \<Rightarrow>
                     (case blank_field (js_get v ''displayName'') of
                        None \<Rightarrow> None
                      | Some True \<Rightarrow> Some False
                      | Some False \<Rightarrow>
                          (case js_get v ''fields'' of JArr fs \<Rightarrow> Some (list_all schema_field_ok fs) | _ \<Rightarrow> Some False)))))"

section \<open>The window of a virtual list\<close>

definition ceil_div :: "nat \<Rightarrow> nat \<Rightarrow> nat" where
  "ceil_div a b = (a + b - 1) div b"

definition getVirtualRange :: "nat \<Rightarrow> nat \<Rightarrow> nat \<Rightarrow> nat \<Rightarrow> nat \<Rightarrow> nat \<times> nat" where
  "getVirtualRange itemCount itemHeight height scrollTop overscan =
     (let visibleCount = ceil_div height itemHeight;
          start = scrollTop div itemHeight - overscan
      in (start, min itemCount (start + visibleCount + overscan * 2)))"

text \<open>The offset a key asks for (\<^verbatim>\<open>onKeyDown\<close>); other keys leave it.\<close>

definition key_scroll :: "nat \<Rightarrow> nat \<Rightarrow> nat \<Rightarrow> string \<Rightarrow> int \<Rightarrow> int" where
  "key_scroll itemCount itemHeight height k current =
     (if itemCount = 0 then current
      else
        (let page = max (int itemHeight) (int height - int itemHeight);
             bottom = int itemCount * int itemHeight - int height
         in if k = ''Home'' then 0
            else if k = ''End'' then max 0 bottom
            else if k = ''PageDown'' then min bottom (current + page)
            else if k = ''PageUp'' then max 0 (current - page)
            else if k = ''ArrowDown'' then min bottom (current + int itemHeight)
            else if k = ''ArrowUp'' then max 0 (current - int itemHeight)
            else current))"

section \<open>Laws\<close>

definition store_inv :: "AppStore \<Rightarrow> bool" where
  "store_inv s = (length (recentWorkbenches s) \<le> 6 \<and> distinct (recentWorkbenches s)
     \<and> list_all (\<lambda>i. i \<noteq> [] \<and> \<not> startsWith i ''__'') (recentWorkbenches s)
     \<and> distinct (favoriteWorkbenches s) \<and> distinct (collapsedExplorerNodes s)
     \<and> distinct (map fst (splitPreferences s)))"

lemma distinct_toggle: "distinct xs \<Longrightarrow> distinct (toggle_member i xs)"
  by (simp add: toggle_member_def)

inductive_cases app_stepE: "app_step s t"

lemma app_step_inv: "app_step s t \<Longrightarrow> store_inv s \<Longrightarrow> store_inv t"
proof (induction rule: app_step.induct)
  case (active s wb)
  then show ?case
    by (auto simp: store_inv_def setActiveWorkbench_def list_all_iff distinct_take dest!: in_set_takeD)
qed (auto simp: store_inv_def setThemeMode_def toggleNavigation_def toggleExplorer_def toggleExplorerNode_def toggleFavorite_def
    setSplitDirection_def setSplitPreference_def distinct_toggle)

text \<open>C37: in every reachable state of the user interface the list of recent workbenches has at most six entries, without
  repetition and without internal or empty names, and favourites, collapsed nodes and split preferences have no
  duplicates.\<close>

theorem app_store_invariant: "app_reachable s \<Longrightarrow> store_inv s"
proof (induction rule: app_reachable.induct)
  case start
  then show ?case by (simp add: store_inv_def initial_store_def)
next
  case (step s t)
  then show ?case by (blast intro: app_step_inv)
qed

theorem app_store_invariant_witness: "store_inv (setActiveWorkbench ''grpc'' initial_store)"
proof -
  have "app_reachable (setActiveWorkbench ''grpc'' initial_store)"
    by (rule app_reachable.step [OF app_reachable.start app_step.active])
  then show ?thesis by (rule app_store_invariant)
qed

text \<open>Payloads are delivered in the order they were stashed and none twice: what workbenches receive is a
  subsequence of what was stashed.\<close>

theorem deliveries_subseq: "subseq (deliveries None ops) (stashed ops)"
proof -
  have "subseq (deliveries pending ops) (case pending of None \<Rightarrow> stashed ops | Some p \<Rightarrow> p # stashed ops)" for pending
  proof (induction pending ops rule: deliveries.induct)
    case (1 pending)
    then show ?case by simp
  next
    case (2 pending p ops)
    then show ?case
      by (cases pending) (auto simp: stashHydrate_def intro: subseq_order.order_trans)
  next
    case (3 pending w s ops)
    then show ?case
      by (cases pending) (auto simp: consumeHydrate_def)
  qed
  from this [of None] show ?thesis by simp
qed

text \<open>Every row that is at least partly inside the viewport is in the rendered window, for any positive overscan.\<close>

theorem virtual_range_covers:
  assumes "0 < itemHeight" and "0 < overscan" and "i < itemCount"
    and "scrollTop < (i + 1) * itemHeight" and "i * itemHeight < scrollTop + height"
  shows "fst (getVirtualRange itemCount itemHeight height scrollTop overscan) \<le> i
    \<and> i < snd (getVirtualRange itemCount itemHeight height scrollTop overscan)"
proof -
  let ?f = "scrollTop div itemHeight" and ?v = "ceil_div height itemHeight"
  have "?f < i + 1" using assms(4) by (rule less_mult_imp_div_less)
  then have "?f \<le> i" by simp
  moreover have "i \<le> ?f + ?v"
  proof -
    have "height \<le> ?v * itemHeight"
      using assms(1) unfolding ceil_div_def
      using dividend_less_div_times [of itemHeight "height + itemHeight - 1"] by linarith
    moreover have "scrollTop < (?f + 1) * itemHeight" using assms(1) by (simp add: dividend_less_div_times)
    ultimately have "i * itemHeight < (?f + 1 + ?v) * itemHeight" using assms(5) by (simp add: algebra_simps)
    then have "i < ?f + 1 + ?v" by (metis mult_less_cancel2)
    then show ?thesis by simp
  qed
  ultimately show ?thesis using assms(2,3) by (auto simp: getVirtualRange_def Let_def)
qed

theorem virtual_range_covers_witness:
  "fst (getVirtualRange 100 30 300 95 5) \<le> 13 \<and> 13 < snd (getVirtualRange 100 30 300 95 5)"
  by (rule virtual_range_covers) simp_all

end
