(* ===== verification/WorkspaceTree.thy ===== *)
theory WorkspaceTree imports RequestModel begin

text \<open>
  The rows of the workspace tree (\<^verbatim>\<open>packages/ui/src/workspaceTreeRows.ts\<close>), with the records of
  \<^verbatim>\<open>WorkspaceExplorer.tsx\<close>. The comparison of names is the platform's \<^verbatim>\<open>localeCompare\<close>, a parameter. The two recursive
  functions follow parent links, which may form a cycle when identifiers repeat: they carry fuel, and \<open>None\<close> is
  a recursion that did not end. For distinct identifiers the number of collections is fuel enough.
\<close>

section \<open>Records\<close>

record WorkspaceRecord =
  wk_id :: string
  wk_name :: string
  wk_rootPath :: "string option"
  wk_archived :: "bool option"
  wk_updatedAt :: "string option"

record ProjectRecord =
  pj_id :: string
  pj_workspaceId :: string
  pj_name :: string

record ModuleRecord =
  md_id :: string
  md_projectId :: string
  md_name :: string
  md_isDefault :: bool

record CollectionRecord =
  cl_id :: string
  cl_projectId :: string
  cl_moduleId :: "string option"
  cl_name :: string
  cl_parentId :: "string option"
  cl_sortOrder :: int
  cl_tags :: "string list option"

record RequestRecord =
  rq_id :: string
  rq_projectId :: string
  rq_collectionId :: string
  rq_name :: string
  rq_protocolId :: "string option"
  rq_method :: "string option"
  rq_target :: string
  rq_variables :: "(string \<times> string) list option"
  rq_metadata :: "props option"

record WorkspaceTree =
  wt_workspaces :: "WorkspaceRecord list"
  wt_projects :: "ProjectRecord list"
  wt_modules :: "ModuleRecord list option"
  wt_collections :: "CollectionRecord list"
  wt_requests :: "RequestRecord list"

datatype WorkspaceTreeRow =
    RowProject ProjectRecord
  | RowCollection nat CollectionRecord
  | RowRequest nat RequestRecord

fun row_id :: "WorkspaceTreeRow \<Rightarrow> string" where
  "row_id (RowProject p) = ''project:'' @ pj_id p"
| "row_id (RowCollection d c) = ''collection:'' @ cl_id c"
| "row_id (RowRequest d r) = ''request:'' @ rq_id r"

section \<open>Indices\<close>

text \<open>A stable sort by a comparison function.\<close>

fun insert_by :: "('a \<Rightarrow> 'a \<Rightarrow> int) \<Rightarrow> 'a \<Rightarrow> 'a list \<Rightarrow> 'a list" where
  "insert_by cmp x [] = [x]"
| "insert_by cmp x (y # ys) = (if cmp x y \<le> 0 then x # y # ys else y # insert_by cmp x ys)"

definition sort_by :: "('a \<Rightarrow> 'a \<Rightarrow> int) \<Rightarrow> 'a list \<Rightarrow> 'a list" where
  "sort_by cmp xs = foldr (insert_by cmp) xs []"

definition compare_collections :: "(string \<Rightarrow> string \<Rightarrow> int) \<Rightarrow> CollectionRecord \<Rightarrow> CollectionRecord \<Rightarrow> int" where
  "compare_collections localeCompare a b =
     (if cl_sortOrder a - cl_sortOrder b \<noteq> 0 then cl_sortOrder a - cl_sortOrder b else localeCompare (cl_name a) (cl_name b))"

definition is_child :: "CollectionRecord \<Rightarrow> bool" where
  "is_child c = (or_default (cl_parentId c) [] \<noteq> [])"

definition index_key_of :: "CollectionRecord \<Rightarrow> string" where
  "index_key_of c = or_default (cl_parentId c) (cl_projectId c)"

record FlattenWorkspaceTreeOptions =
  fo_projects :: "ProjectRecord list"
  fo_collections :: "CollectionRecord list"
  fo_requests :: "RequestRecord list"
  fo_workspaceId :: "string option"
  fo_collapsedNodes :: "string list"
  fo_query :: "string option"
  fo_localeCompare :: "string \<Rightarrow> string \<Rightarrow> int"

definition normalizedQuery :: "FlattenWorkspaceTreeOptions \<Rightarrow> string" where
  "normalizedQuery T = (case fo_query T of None \<Rightarrow> [] | Some q \<Rightarrow> toLowerCase (trim q))"

definition rootCollectionsByProject :: "FlattenWorkspaceTreeOptions \<Rightarrow> string \<Rightarrow> CollectionRecord list" where
  "rootCollectionsByProject T key = sort_by (compare_collections (fo_localeCompare T))
     (filter (\<lambda>c. \<not> is_child c \<and> index_key_of c = key) (fo_collections T))"

definition childCollectionsByParent :: "FlattenWorkspaceTreeOptions \<Rightarrow> string \<Rightarrow> CollectionRecord list" where
  "childCollectionsByParent T key = sort_by (compare_collections (fo_localeCompare T))
     (filter (\<lambda>c. is_child c \<and> index_key_of c = key) (fo_collections T))"

definition requestsByCollection :: "FlattenWorkspaceTreeOptions \<Rightarrow> string \<Rightarrow> RequestRecord list" where
  "requestsByCollection T key = filter (\<lambda>r. rq_collectionId r = key) (fo_requests T)"

section \<open>Rows\<close>

definition requestMatches :: "FlattenWorkspaceTreeOptions \<Rightarrow> RequestRecord \<Rightarrow> bool" where
  "requestMatches T r =
     (normalizedQuery T = [] \<or> str_includes (toLowerCase (rq_name r @ '' '' @ rq_target r)) (normalizedQuery T))"

text \<open>\<^verbatim>\<open>xs.some(f)\<close> and \<^verbatim>\<open>xs.forEach(f)\<close> collecting rows, for functions that may not return.\<close>

fun any_opt :: "('a \<Rightarrow> bool option) \<Rightarrow> 'a list \<Rightarrow> bool option" where
  "any_opt f [] = Some False"
| "any_opt f (x # xs) = (case f x of None \<Rightarrow> None | Some True \<Rightarrow> Some True | Some False \<Rightarrow> any_opt f xs)"

fun collect_opt :: "('a \<Rightarrow> 'b list option) \<Rightarrow> 'a list \<Rightarrow> 'b list option" where
  "collect_opt f [] = Some []"
| "collect_opt f (x # xs) =
     (case f x of None \<Rightarrow> None | Some ys \<Rightarrow> map_option ((@) ys) (collect_opt f xs))"

fun collectionMatches :: "nat \<Rightarrow> FlattenWorkspaceTreeOptions \<Rightarrow> CollectionRecord \<Rightarrow> bool option" where
  "collectionMatches 0 T c = None"
| "collectionMatches (Suc n) T c =
     (if normalizedQuery T = [] \<or> str_includes (toLowerCase (cl_name c)) (normalizedQuery T) then Some True
      else if list_ex (requestMatches T) (requestsByCollection T (cl_id c)) then Some True
      else any_opt (collectionMatches n T) (childCollectionsByParent T (cl_id c)))"

fun appendCollection :: "nat \<Rightarrow> nat \<Rightarrow> FlattenWorkspaceTreeOptions \<Rightarrow> nat \<Rightarrow> CollectionRecord \<Rightarrow> WorkspaceTreeRow list option" where
  "appendCollection fuel 0 T depth c = None"
| "appendCollection fuel (Suc n) T depth c =
     (case collectionMatches fuel T c of
        None \<Rightarrow> None
      | Some False \<Rightarrow> Some []
      | Some True \<Rightarrow>
          if ''collection:'' @ cl_id c \<in> set (fo_collapsedNodes T) then Some [RowCollection depth c]
          else map_option (\<lambda>rows. RowCollection depth c
                 # map (RowRequest (depth + 1)) (filter (requestMatches T) (requestsByCollection T (cl_id c))) @ rows)
                 (collect_opt (appendCollection fuel n T (depth + 1)) (childCollectionsByParent T (cl_id c))))"

definition project_shown :: "nat \<Rightarrow> FlattenWorkspaceTreeOptions \<Rightarrow> ProjectRecord \<Rightarrow> bool option" where
  "project_shown fuel T p =
     (if normalizedQuery T = [] \<or> str_includes (toLowerCase (pj_name p)) (normalizedQuery T) then Some True
      else any_opt (collectionMatches fuel T) (rootCollectionsByProject T (pj_id p)))"

definition project_rows :: "nat \<Rightarrow> FlattenWorkspaceTreeOptions \<Rightarrow> ProjectRecord \<Rightarrow> WorkspaceTreeRow list option" where
  "project_rows fuel T p =
     (case project_shown fuel T p of
        None \<Rightarrow> None
      | Some False \<Rightarrow> Some []
      | Some True \<Rightarrow>
          if ''project:'' @ pj_id p \<in> set (fo_collapsedNodes T) then Some [RowProject p]
          else map_option ((#) (RowProject p))
                 (collect_opt (appendCollection fuel fuel T 1) (rootCollectionsByProject T (pj_id p))))"

definition flattenWorkspaceTree :: "nat \<Rightarrow> FlattenWorkspaceTreeOptions \<Rightarrow> WorkspaceTreeRow list option" where
  "flattenWorkspaceTree fuel T =
     collect_opt (project_rows fuel T)
       (filter (\<lambda>p. or_default (fo_workspaceId T) [] = [] \<or> Some (pj_workspaceId p) = fo_workspaceId T) (fo_projects T))"

section \<open>Termination\<close>

lemma set_insert_by [simp]: "set (insert_by cmp x ys) = insert x (set ys)"
  by (induction ys) auto

lemma set_sort_by [simp]: "set (sort_by cmp xs) = set xs"
  by (induction xs) (auto simp: sort_by_def)

text \<open>The collections above one another, the innermost first, up to a root.\<close>

inductive chain :: "FlattenWorkspaceTreeOptions \<Rightarrow> CollectionRecord list \<Rightarrow> bool" for T where
  root: "c \<in> set (fo_collections T) \<Longrightarrow> \<not> is_child c \<Longrightarrow> chain T [c]"
| child: "chain T (c # p) \<Longrightarrow> x \<in> set (childCollectionsByParent T (cl_id c)) \<Longrightarrow> chain T (x # c # p)"

inductive_cases chain_ConsE: "chain T (c # p)"

lemma child_of: "x \<in> set (childCollectionsByParent T i) \<longleftrightarrow> x \<in> set (fo_collections T) \<and> is_child x \<and> cl_parentId x = Some i"
  by (cases "cl_parentId x") (auto simp: childCollectionsByParent_def is_child_def index_key_of_def)

lemma chain_set: "chain T p \<Longrightarrow> set p \<subseteq> set (fo_collections T)"
  by (induction rule: chain.induct) (auto simp: child_of)

lemma chain_parent: "chain T p \<Longrightarrow> Suc i < length p \<Longrightarrow> is_child (p ! i) \<and> cl_parentId (p ! i) = Some (cl_id (p ! Suc i))"
proof (induction arbitrary: i rule: chain.induct)
  case (child c p x)
  then show ?case by (cases i) (auto simp: child_of)
qed simp

lemma chain_root: "chain T p \<Longrightarrow> \<not> is_child (last p)"
  by (induction rule: chain.induct) auto

lemma chain_distinct:
  assumes "distinct (map cl_id (fo_collections T))" and "chain T p"
  shows "distinct p"
  using assms(2)
proof (induction rule: chain.induct)
  case (child c p x)
  have "x \<notin> set (c # p)"
  proof
    assume "x \<in> set (c # p)"
    then obtain i where i: "i < length (c # p)" "(c # p) ! i = x" by (metis in_set_conv_nth)
    have par: "cl_parentId x = Some (cl_id c)" "is_child x" using child.hyps(2) by (simp_all add: child_of)
    show False
    proof (cases "Suc i < length (c # p)")
      case True
      from chain_parent [OF child.hyps(1) True] i par have "cl_id ((c # p) ! Suc i) = cl_id c" by simp
      moreover have "(c # p) ! Suc i \<in> set (fo_collections T)" "c \<in> set (fo_collections T)"
        using chain_set [OF child.hyps(1)] True nth_mem [OF True] by auto
      ultimately have "(c # p) ! Suc i = c" using assms(1) by (auto simp: distinct_map inj_on_def)
      with child.IH True show False using nth_eq_iff_index_eq [of "c # p" "Suc i" 0] by simp
    next
      case False
      then have "last (c # p) = x" using i by (metis Suc_lessI diff_Suc_1 last_conv_nth list.discI)
      with chain_root [OF child.hyps(1)] par show False by simp
    qed
  qed
  with child.IH show ?case by simp
qed simp

lemma chain_length:
  assumes "distinct (map cl_id (fo_collections T))" and "chain T p"
  shows "length p \<le> length (fo_collections T)"
  by (metis assms card_mono chain_distinct chain_set distinct_card distinct_map List.finite_set)

lemma any_opt_Some: "(\<And>x. x \<in> set xs \<Longrightarrow> f x \<noteq> None) \<Longrightarrow> any_opt f xs \<noteq> None"
  by (induction xs) (auto split: option.splits bool.splits)

lemma collect_opt_Some: "(\<And>x. x \<in> set xs \<Longrightarrow> f x \<noteq> None) \<Longrightarrow> collect_opt f xs \<noteq> None"
  by (induction xs) (auto split: option.splits)

lemma collectionMatches_ends:
  assumes "distinct (map cl_id (fo_collections T))"
  shows "chain T (c # p) \<Longrightarrow> length (fo_collections T) \<le> n + length p \<Longrightarrow> collectionMatches n T c \<noteq> None"
proof (induction n arbitrary: c p)
  case 0
  with chain_length [OF assms 0(1)] show ?case by simp
next
  case (Suc n)
  have "collectionMatches n T x \<noteq> None" if "x \<in> set (childCollectionsByParent T (cl_id c))" for x
    using Suc.IH [OF chain.child [OF Suc.prems(1) that]] Suc.prems(2) by simp
  then have "any_opt (collectionMatches n T) (childCollectionsByParent T (cl_id c)) \<noteq> None"
    by (rule any_opt_Some)
  then show ?case by (simp del: not_None_eq)
qed

lemma appendCollection_ends:
  assumes "distinct (map cl_id (fo_collections T))" and "length (fo_collections T) \<le> fuel"
  shows "chain T (c # p) \<Longrightarrow> length (fo_collections T) \<le> n + length p \<Longrightarrow> appendCollection fuel n T d c \<noteq> None"
proof (induction n arbitrary: c p d)
  case 0
  with chain_length [OF assms(1) 0(1)] show ?case by simp
next
  case (Suc n)
  have "appendCollection fuel n T (d + 1) x \<noteq> None" if "x \<in> set (childCollectionsByParent T (cl_id c))" for x
    using Suc.IH [OF chain.child [OF Suc.prems(1) that]] Suc.prems(2) by simp
  then have "collect_opt (appendCollection fuel n T (d + 1)) (childCollectionsByParent T (cl_id c)) \<noteq> None"
    by (rule collect_opt_Some)
  moreover have "collectionMatches fuel T c \<noteq> None"
    using collectionMatches_ends [OF assms(1) Suc.prems(1)] assms(2) by simp
  ultimately show ?case by (auto split: option.splits bool.splits)
qed

lemma root_chain: "c \<in> set (rootCollectionsByProject T k) \<Longrightarrow> chain T [c]"
  by (auto simp: rootCollectionsByProject_def intro: chain.root)

lemma project_rows_ends:
  assumes "distinct (map cl_id (fo_collections T))" and "length (fo_collections T) \<le> fuel"
  shows "project_rows fuel T p \<noteq> None"
proof -
  have "collectionMatches fuel T c \<noteq> None" if "c \<in> set (rootCollectionsByProject T (pj_id p))" for c
    using collectionMatches_ends [OF assms(1) root_chain [OF that]] assms(2) by simp
  then have "any_opt (collectionMatches fuel T) (rootCollectionsByProject T (pj_id p)) \<noteq> None"
    by (rule any_opt_Some)
  then have "project_shown fuel T p \<noteq> None" by (simp add: project_shown_def del: not_None_eq)
  moreover have "appendCollection fuel fuel T 1 c \<noteq> None" if "c \<in> set (rootCollectionsByProject T (pj_id p))" for c
    using appendCollection_ends [OF assms root_chain [OF that]] assms(2) by simp
  then have "collect_opt (appendCollection fuel fuel T 1) (rootCollectionsByProject T (pj_id p)) \<noteq> None"
    by (rule collect_opt_Some)
  ultimately show ?thesis by (auto simp: project_rows_def split: option.splits bool.splits)
qed

lemma flatten_ends:
  "distinct (map cl_id (fo_collections T)) \<Longrightarrow> \<exists>rows. flattenWorkspaceTree (length (fo_collections T)) T = Some rows"
  using collect_opt_Some [of _ "project_rows (length (fo_collections T)) T"] project_rows_ends [OF _ order_refl]
  by (auto simp: flattenWorkspaceTree_def)

text \<open>C40: flattening the workspace tree returns, whatever the parent links, when the identifiers of the collections are
  distinct: as many nested calls as there are collections are enough.\<close>

theorem flatten_terminates:
  assumes "distinct (map cl_id (fo_collections T))"
  shows "\<exists>rows. flattenWorkspaceTree (length (fo_collections T)) T = Some rows"
  using assms by (rule flatten_ends)

definition sample_collection :: "string \<Rightarrow> string option \<Rightarrow> CollectionRecord" where
  "sample_collection i up = \<lparr>cl_id = i, cl_projectId = ''p'', cl_moduleId = None, cl_name = i, cl_parentId = up,
     cl_sortOrder = 0, cl_tags = None\<rparr>"

definition sample_tree :: FlattenWorkspaceTreeOptions where
  "sample_tree = \<lparr>fo_projects = [\<lparr>pj_id = ''p'', pj_workspaceId = ''w'', pj_name = ''P''\<rparr>],
     fo_collections = [sample_collection ''b'' (Some ''a''), sample_collection ''a'' None, sample_collection ''x'' (Some ''x'')],
     fo_requests = [], fo_workspaceId = None, fo_collapsedNodes = [], fo_query = None, fo_localeCompare = (\<lambda>_ _. 0)\<rparr>"

theorem flatten_terminates_witness: "\<exists>rows. flattenWorkspaceTree (length (fo_collections sample_tree)) sample_tree = Some rows"
  by (rule flatten_terminates) (simp add: sample_tree_def sample_collection_def)

section \<open>Every nested collection is shown\<close>

lemma collect_opt_mem: "collect_opt f xs = Some rows \<Longrightarrow> x \<in> set xs \<Longrightarrow> \<exists>ys. f x = Some ys \<and> set ys \<subseteq> set rows"
  by (induction xs arbitrary: rows) (auto split: option.splits, blast)

lemma collectionMatches_plain: "normalizedQuery T = [] \<Longrightarrow> collectionMatches n T c = Some b \<Longrightarrow> b"
  by (cases n) auto

text \<open>The rows of a collection, within the rows of the tree, have the rows of its children among them.\<close>

lemma chain_rows:
  assumes all: "flattenWorkspaceTree fuel T = Some rows" and nq: "normalizedQuery T = []" and nc: "fo_collapsedNodes T = []"
    and pr: "p \<in> set (fo_projects T)" and ws: "or_default (fo_workspaceId T) [] = [] \<or> fo_workspaceId T = Some (pj_workspaceId p)"
  shows "chain T ch \<Longrightarrow> index_key_of (last ch) = pj_id p \<Longrightarrow>
    \<exists>n ys. appendCollection fuel n T (length ch) (hd ch) = Some ys \<and> set ys \<subseteq> set rows"
proof (induction rule: chain.induct)
  case (root c)
  obtain ps where ps: "project_rows fuel T p = Some ps" "set ps \<subseteq> set rows"
    using collect_opt_mem [OF all [unfolded flattenWorkspaceTree_def], of p] pr ws by auto
  then obtain cs where cs: "collect_opt (appendCollection fuel fuel T 1) (rootCollectionsByProject T (pj_id p)) = Some cs" "ps = RowProject p # cs"
    using nq nc by (auto simp: project_rows_def project_shown_def)
  have "c \<in> set (rootCollectionsByProject T (pj_id p))" using root by (simp add: rootCollectionsByProject_def)
  from collect_opt_mem [OF cs(1) this] cs(2) ps(2) show ?case by fastforce
next
  case (child c q x)
  then obtain n ys where a: "appendCollection fuel n T (length (c # q)) c = Some ys" "set ys \<subseteq> set rows" by auto
  then obtain m where m: "n = Suc m" by (cases n) auto
  with a nc collectionMatches_plain [OF nq] obtain cs where
    cs: "collect_opt (appendCollection fuel m T (length (c # q) + 1)) (childCollectionsByParent T (cl_id c)) = Some cs" "set cs \<subseteq> set ys"
    by (force split: option.splits bool.splits)
  from collect_opt_mem [OF cs(1) child.hyps(2)] cs(2) a(2) show ?case by fastforce
qed

text \<open>C29: when the identifiers of the collections are distinct, the flattening returns, and without a search and with nothing
  collapsed a collection of a shown project (one of the chosen workspace, or any without a choice) whose parents reach a root
  collection of the project has its row, at the depth of its nesting, and so has every request it holds, one level deeper.\<close>

theorem flatten_shows_nested:
  assumes "distinct (map cl_id (fo_collections T))" and "normalizedQuery T = []" and "fo_collapsedNodes T = []"
    and "p \<in> set (fo_projects T)" and "or_default (fo_workspaceId T) [] = [] \<or> fo_workspaceId T = Some (pj_workspaceId p)"
    and "chain T (c # up)" and "index_key_of (last (c # up)) = pj_id p"
  shows "\<exists>rows. flattenWorkspaceTree (length (fo_collections T)) T = Some rows \<and> RowCollection (Suc (length up)) c \<in> set rows \<and>
    (\<forall>r. r \<in> set (fo_requests T) \<and> rq_collectionId r = cl_id c \<longrightarrow> RowRequest (length up + 2) r \<in> set rows)"
proof -
  obtain rows where all: "flattenWorkspaceTree (length (fo_collections T)) T = Some rows" using flatten_ends [OF assms(1)] by blast
  obtain n ys where a: "appendCollection (length (fo_collections T)) n T (Suc (length up)) c = Some ys" "set ys \<subseteq> set rows"
    using chain_rows [OF all assms(2-5) assms(6,7)] by auto
  then obtain m where "n = Suc m" by (cases n) auto
  with a(1) assms(2,3) collectionMatches_plain [OF assms(2)]
  have "RowCollection (Suc (length up)) c \<in> set ys"
    "RowRequest (length up + 2) r \<in> set ys" if "r \<in> set (fo_requests T)" "rq_collectionId r = cl_id c" for r
    using that by (force simp: requestsByCollection_def requestMatches_def split: option.splits bool.splits)+
  moreover have "RowCollection (Suc (length up)) c \<in> set ys"
    using a(1) assms(3) \<open>n = Suc m\<close> collectionMatches_plain [OF assms(2)] by (force split: option.splits bool.splits)
  ultimately show ?thesis using a(2) all by blast
qed

theorem flatten_shows_nested_witness:
  "RowCollection 2 (sample_collection ''b'' (Some ''a''))
    \<in> set (the (flattenWorkspaceTree 3 sample_tree))"
proof -
  have c: "chain sample_tree [sample_collection ''b'' (Some ''a''), sample_collection ''a'' None]"
    by (intro chain.intros) (simp_all add: child_of sample_tree_def sample_collection_def is_child_def)
  have three: "length (fo_collections sample_tree) = 3" by (simp add: sample_tree_def)
  have "distinct (map cl_id (fo_collections sample_tree))" by (simp add: sample_tree_def sample_collection_def)
  from flatten_shows_nested [OF this _ _ _ _ c, of "hd (fo_projects sample_tree)"]
  show ?thesis unfolding three by (auto simp: sample_tree_def sample_collection_def normalizedQuery_def index_key_of_def numeral_2_eq_2)
qed

end
