(* ===== verification/AgentClient.thy ===== *)
theory AgentClient imports HttpRequest Preferences WorkspaceTree FormUrl begin

text \<open>
  The web client of the local agent (\<^verbatim>\<open>apps/web/src/agentClient.ts\<close>). An operation is a function from the
  client's state to a result and the next state; the state records the calls made, in order, and the hooks
  invoked. The agent is a parameter: a function from the calls made so far and the next call to its answer,
  \<open>None\<close> when the network fails. The JSON text of a value is represented by the value it denotes
  (\<open>wire\<close>); an answer of another shape than the declared one is the error \<open>Malformed\<close>. Operations run one
  after the other.
\<close>

section \<open>Calls and answers\<close>

record HistoryRecord =
  hi_id :: string
  hi_protocolId :: string
  hi_state :: string
  hi_status :: "int option"
  hi_durationMs :: nat
  hi_startedAt :: string
  hi_requestSnapshot :: "RequestEnvelope option"
  hi_preview :: "string option"

record StoredRequest =
  st_id :: string
  st_target :: string
  st_envelope :: RequestEnvelope

record tree_item =
  ti_record :: RequestRecord
  ti_envelope :: "RequestEnvelope option"

datatype wire =
    WJson jsval
  | WEnvelope RequestEnvelope
  | WStored "StoredRequest option"
  | WHistory "HistoryRecord list"
  | WHistoryItem "HistoryRecord option"
  | WTree WorkspaceTree "tree_item list"

record http_call =
  hc_method :: string
  hc_url :: string
  hc_headers :: header_list
  hc_body :: "wire option"

record http_reply =
  hr_status :: nat
  hr_text :: string
  hr_json :: "wire option"
  hr_chunks :: "string list option"

definition reply_ok :: "http_reply \<Rightarrow> bool" where
  "reply_ok r = (200 \<le> hr_status r \<and> hr_status r < 300)"

datatype agent_error =
    NetworkError
  | NotJson
  | Malformed
  | HealthFailed nat
  | Incompatible string
  | SessionExchangeFailed nat
  | AgentError string
  | HttpReplayOnly
  | NoEventBody
  | RequestMissing
  | Aborted
  | StorageUnavailable

datatype session = NoSession | SessionOpen | SessionRejected agent_error

datatype hook_call = OnStarted string | OnEvent ExecutionEvent | OnChunk string

record agent_client =
  ag_token :: "string option"
  ag_bootstrap :: "string option"
  ag_session :: session
  ag_browser :: browser
  ag_calls :: "http_call list"
  ag_hooks :: "hook_call list"

record agent_env =
  en_agent :: "http_call list \<Rightarrow> http_call \<Rightarrow> http_reply option"
  en_runtime :: ApiVoyRuntimeConfig
  en_viteUrl :: "string option"
  en_viteToken :: "string option"
  en_uuid :: string
  en_now :: string

section \<open>Operations\<close>

type_synonym 'a agent_op = "agent_client \<Rightarrow> (agent_error, 'a) result \<times> agent_client"

definition op_return :: "'a \<Rightarrow> 'a agent_op" where
  "op_return x s = (Inr x, s)"

definition op_fail :: "agent_error \<Rightarrow> 'a agent_op" where
  "op_fail e s = (Inl e, s)"

definition op_bind :: "'a agent_op \<Rightarrow> ('a \<Rightarrow> 'b agent_op) \<Rightarrow> 'b agent_op" where
  "op_bind m k s = (case m s of (Inl e, t) \<Rightarrow> (Inl e, t) | (Inr x, t) \<Rightarrow> k x t)"

definition op_map :: "('a \<Rightarrow> 'b) \<Rightarrow> 'a agent_op \<Rightarrow> 'b agent_op" where
  "op_map f m = op_bind m (\<lambda>x. op_return (f x))"

definition fetch :: "agent_env \<Rightarrow> http_call \<Rightarrow> http_reply agent_op" where
  "fetch E c s =
     (let t = s\<lparr> ag_calls := ag_calls s @ [c] \<rparr> in
      case en_agent E (ag_calls s) c of None \<Rightarrow> (Inl NetworkError, t) | Some r \<Rightarrow> (Inr r, t))"

definition reply_json :: "http_reply \<Rightarrow> wire agent_op" where
  "reply_json r = (case hr_json r of None \<Rightarrow> op_fail NotJson | Some w \<Rightarrow> op_return w)"

definition truthy_text :: "string option \<Rightarrow> bool" where
  "truthy_text t = (or_default t [] \<noteq> [])"

definition agentBase :: "agent_env \<Rightarrow> browser \<Rightarrow> string" where
  "agentBase E b =
     (let override = map_option trim (readLocal b ''apivoy:agent-url'') in
      if truthy_text override then the override
      else or_default (rc_agentUrl (en_runtime E)) (or_default (en_viteUrl E) ''http://127.0.0.1:39217''))"

definition configuredAgentToken :: "agent_env \<Rightarrow> browser \<Rightarrow> string option" where
  "configuredAgentToken E b =
     (let override = readLocal b ''apivoy-agent-token'' in
      if truthy_text override then override
      else case rc_agentToken (en_runtime E) of Some t \<Rightarrow> Some t | None \<Rightarrow> en_viteToken E)"

text \<open>The module's state when it is loaded.\<close>

definition agent_init :: "agent_env \<Rightarrow> browser \<Rightarrow> agent_client" where
  "agent_init E b =
     (let token = configuredAgentToken E b in
      \<lparr> ag_token = token, ag_bootstrap = token, ag_session = NoSession,
        ag_browser = (if truthy_text token then writeLocal ''apivoy-agent-token'' (the token) b else b),
        ag_calls = [], ag_hooks = [] \<rparr>)"

definition headers_set :: "string \<Rightarrow> string \<Rightarrow> header_list \<Rightarrow> header_list" where
  "headers_set name v hs = filter (\<lambda>(n, _). toLowerCase n \<noteq> toLowerCase name) hs @ [(name, v)]"

definition agentHeaders :: "header_list \<Rightarrow> agent_client \<Rightarrow> header_list" where
  "agentHeaders extra s =
     (let headers = headers_set ''X-ApiVoy-Client-Version'' CLIENT_VERSION
            (headers_set ''X-ApiVoy-Client'' ''web''
              (headers_set ''X-ApiVoy-Protocol-Api-Version'' PROTOCOL_API_VERSION
                (headers_set ''Content-Type'' ''application/json'' extra)))
      in if truthy_text (ag_token s) then headers_set ''Authorization'' (''Bearer '' @ the (ag_token s)) headers else headers)"

definition health_call :: "agent_env \<Rightarrow> agent_client \<Rightarrow> http_call" where
  "health_call E s = \<lparr> hc_method = ''GET'', hc_url = agentBase E (ag_browser s) @ ''/health'', hc_headers = [], hc_body = None \<rparr>"

definition session_call :: "agent_env \<Rightarrow> string \<Rightarrow> agent_client \<Rightarrow> http_call" where
  "session_call E token s =
     \<lparr> hc_method = ''POST'', hc_url = agentBase E (ag_browser s) @ ''/v1/session'',
       hc_headers = [(''Authorization'', ''Bearer '' @ token), (''X-ApiVoy-Protocol-Api-Version'', PROTOCOL_API_VERSION)],
       hc_body = None \<rparr>"

definition agent_call :: "agent_env \<Rightarrow> string \<Rightarrow> string \<Rightarrow> wire option \<Rightarrow> header_list \<Rightarrow> agent_client \<Rightarrow> http_call" where
  "agent_call E method path body extra s =
     \<lparr> hc_method = method, hc_url = agentBase E (ag_browser s) @ path, hc_headers = agentHeaders extra s, hc_body = body \<rparr>"

text \<open>The exchange of the configured token for a session token. \<^verbatim>\<open>sessionPromise\<close> keeps its outcome, a failure included.\<close>

definition open_session :: "agent_env \<Rightarrow> string \<Rightarrow> unit agent_op" where
  "open_session E token s =
     op_bind (fetch E (session_call E token s)) (\<lambda>r.
       if \<not> reply_ok r then op_fail (SessionExchangeFailed (hr_status r))
       else op_bind (reply_json r) (\<lambda>w t.
         case w of
           WJson v \<Rightarrow>
             if nullish v then (Inl Malformed, t)
             else (Inr (), t\<lparr> ag_token := (let x = js_get v ''token'' in if truthy x then Some (js_String x) else None) \<rparr>)
         | _ \<Rightarrow> (Inl Malformed, t))) s"

definition ensure_session :: "agent_env \<Rightarrow> unit agent_op" where
  "ensure_session E s =
     (case ag_session s of
        SessionRejected e \<Rightarrow> (Inl e, s)
      | SessionOpen \<Rightarrow> (Inr (), s)
      | NoSession \<Rightarrow>
          if truthy_text (ag_bootstrap s)
          then (case open_session E (the (ag_bootstrap s)) s of
                  (Inl e, t) \<Rightarrow> (Inl e, t\<lparr> ag_session := SessionRejected e \<rparr>)
                | (Inr u, t) \<Rightarrow> (Inr u, t\<lparr> ag_session := SessionOpen \<rparr>))
          else (Inr (), s))"

definition health_compatible :: "wire \<Rightarrow> (agent_error, jsval) result" where
  "health_compatible w =
     (case w of
        WJson v \<Rightarrow>
          if nullish v then Inl Malformed
          else if js_get v ''protocolApiVersion'' \<noteq> JStr PROTOCOL_API_VERSION
               then Inl (Incompatible (js_String (js_get v ''protocolApiVersion'')))
          else Inr v
      | _ \<Rightarrow> Inl Malformed)"

definition checkAgentHandshake :: "agent_env \<Rightarrow> jsval agent_op" where
  "checkAgentHandshake E s =
     op_bind (fetch E (health_call E s)) (\<lambda>r.
       if \<not> reply_ok r then op_fail (HealthFailed (hr_status r))
       else op_bind (reply_json r) (\<lambda>w.
         case health_compatible w of
           Inl e \<Rightarrow> op_fail e
         | Inr health \<Rightarrow> op_map (\<lambda>_. health) (ensure_session E))) s"

text \<open>A call after the handshake; an answer that is not successful is an error with its text.\<close>

definition send_call :: "agent_env \<Rightarrow> string \<Rightarrow> string \<Rightarrow> wire option \<Rightarrow> header_list \<Rightarrow> http_reply agent_op" where
  "send_call E method path body extra s =
     op_bind (fetch E (agent_call E method path body extra s))
       (\<lambda>r. if reply_ok r then op_return r else op_fail (AgentError (hr_text r))) s"

definition agent_request :: "agent_env \<Rightarrow> string \<Rightarrow> string \<Rightarrow> wire option \<Rightarrow> http_reply agent_op" where
  "agent_request E method path body = op_bind (checkAgentHandshake E) (\<lambda>_. send_call E method path body [])"

definition agent_json :: "agent_env \<Rightarrow> string \<Rightarrow> string \<Rightarrow> wire option \<Rightarrow> wire agent_op" where
  "agent_json E method path body = op_bind (agent_request E method path body) reply_json"

definition captureRequest :: "agent_env \<Rightarrow> string \<Rightarrow> string \<Rightarrow> wire option \<Rightarrow> wire option agent_op" where
  "captureRequest E path method body =
     op_bind (agent_request E method path body)
       (\<lambda>r. if hr_status r = 204 then op_return None else op_map Some (reply_json r))"

definition mutateWorkspace :: "agent_env \<Rightarrow> string \<Rightarrow> string \<Rightarrow> wire option \<Rightarrow> unit agent_op" where
  "mutateWorkspace E path method body = op_map (\<lambda>_. ()) (agent_request E method path body)"

definition createWorkspaceRecord :: "agent_env \<Rightarrow> string \<Rightarrow> wire \<Rightarrow> wire agent_op" where
  "createWorkspaceRecord E path body = agent_json E ''POST'' path (Some body)"

section \<open>Envelopes\<close>

definition toEnvelope :: "agent_env \<Rightarrow> HttpWorkbenchRequest \<Rightarrow> RequestEnvelope" where
  "toEnvelope E r =
     (let envelope = createHttpRequest (en_uuid E) (en_now E)
            \<lparr> co_name = hw_name r, co_url = hw_url r, co_method = Some (hw_method r), co_headers = Some (hw_headers r),
              co_body = hw_body r, co_bodyEncoding = hw_bodyEncoding r, co_bodySource = hw_bodySource r,
              co_multipart = hw_multipart r, co_timeoutMs = Some (hw_timeoutMs r),
              co_followRedirects = Some (hw_followRedirects r), co_variables = Some (hw_variables r),
              co_assertions = Some (hw_assertions r), co_auth = hw_auth r, co_environmentRef = Some ''default-env'',
              co_retryPolicy = Some \<lparr> rp_max_retries = hw_retryMax r, rp_backoff_ms = hw_retryBackoffMs r \<rparr>,
              co_proxy = hw_proxy r,
              co_tls = Some \<lparr> tls_verify = hw_tlsVerify r, tls_client_cert_ref = hw_tlsClientCertRef r \<rparr>,
              co_preScripts = hw_preScripts r, co_postScripts = hw_postScripts r \<rparr>;
          stored = envelope\<lparr> re_metadata := JObj (spread (entries (re_metadata envelope)) (entries (or_default (hw_metadata r) JNull))) \<rparr>
      in if truthy_text (hw_id r) then stored\<lparr> re_id := the (hw_id r) \<rparr> else stored)"

definition fromEnvelope :: "RequestEnvelope \<Rightarrow> string option \<Rightarrow> (agent_error, HttpWorkbenchRequest) result" where
  "fromEnvelope envelope fallbackTarget =
     (case re_payload envelope of
        PHttp payload \<Rightarrow> Inr
          \<lparr> hw_id = Some (re_id envelope), hw_name = Some (re_name envelope),
            hw_url = (if re_target envelope \<noteq> [] then re_target envelope else or_default fallbackTarget []),
            hw_method = hp_method payload, hw_headers = hp_headers payload, hw_body = hp_body payload,
            hw_bodyEncoding = Some (hp_bodyEncoding payload), hw_bodySource = hp_bodySource payload,
            hw_multipart = Some (hp_multipart payload), hw_timeoutMs = re_timeoutMs envelope,
            hw_variables = re_variables envelope, hw_assertions = re_assertions envelope, hw_auth = re_authRef envelope,
            hw_followRedirects = hp_followRedirects payload,
            hw_retryMax = rp_max_retries (re_retryPolicy envelope),
            hw_retryBackoffMs = rp_backoff_ms (re_retryPolicy envelope), hw_proxy = re_proxy envelope,
            hw_tlsVerify = tls_verify (re_tls envelope), hw_tlsClientCertRef = tls_client_cert_ref (re_tls envelope),
            hw_environmentRef = None, hw_preScripts = Some (re_preScripts envelope),
            hw_postScripts = Some (re_postScripts envelope),
            hw_metadata = Some (if nullish (re_metadata envelope) then JObj [] else re_metadata envelope) \<rparr>
      | _ \<Rightarrow> Inl HttpReplayOnly)"

section \<open>Bodies and paths\<close>

definition opt_text :: "string \<Rightarrow> string option \<Rightarrow> props" where
  "opt_text key v = (case v of None \<Rightarrow> [] | Some x \<Rightarrow> [(key, JStr x)])"

definition null_text :: "string option \<Rightarrow> jsval" where
  "null_text v = (case v of None \<Rightarrow> JNull | Some x \<Rightarrow> JStr x)"

definition obj_body :: "props \<Rightarrow> wire option" where
  "obj_body ps = Some (WJson (JObj ps))"

definition query_text :: "(string \<times> string) list \<Rightarrow> string" where
  "query_text ps = (if ps = [] then [] else ''?'' @ form_serialize ps)"

definition truthy_param :: "string \<Rightarrow> string option \<Rightarrow> (string \<times> string) list" where
  "truthy_param key v = (if truthy_text v then [(key, the v)] else [])"

definition stored_of :: "wire \<Rightarrow> StoredRequest option agent_op" where
  "stored_of w = (case w of WStored x \<Rightarrow> op_return x | _ \<Rightarrow> op_fail Malformed)"

definition lift_result :: "(agent_error, 'a) result \<Rightarrow> 'a agent_op" where
  "lift_result r s = (r, s)"

section \<open>Stored requests and definitions\<close>

definition loadEnvelopeViaAgent :: "agent_env \<Rightarrow> string \<Rightarrow> RequestEnvelope option agent_op" where
  "loadEnvelopeViaAgent E i =
     op_map (map_option st_envelope) (op_bind (agent_json E ''GET'' (''/v1/requests/'' @ i) None) stored_of)"

definition listApiDefinitionsViaAgent :: "agent_env \<Rightarrow> string \<Rightarrow> wire agent_op" where
  "listApiDefinitionsViaAgent E projectId =
     agent_json E ''GET'' (''/v1/api-definitions?projectId='' @ encodeURIComponent projectId) None"

definition saveApiDefinitionViaAgent :: "agent_env \<Rightarrow> string \<Rightarrow> string \<Rightarrow> string \<Rightarrow> string \<Rightarrow> string \<Rightarrow> wire agent_op" where
  "saveApiDefinitionViaAgent E projectId name format fileName content =
     agent_json E ''POST'' ''/v1/api-definitions''
       (obj_body [(''projectId'', JStr projectId), (''name'', JStr name), (''format'', JStr format),
                  (''fileName'', JStr fileName), (''content'', JStr content)])"

definition binding_path :: "string \<Rightarrow> string" where
  "binding_path requestId = ''/v1/requests/'' @ requestId @ ''/definition-binding''"

definition getRequestDefinitionBindingViaAgent :: "agent_env \<Rightarrow> string \<Rightarrow> wire agent_op" where
  "getRequestDefinitionBindingViaAgent E requestId = agent_json E ''GET'' (binding_path requestId) None"

definition bindRequestDefinitionViaAgent :: "agent_env \<Rightarrow> string \<Rightarrow> string \<Rightarrow> string option \<Rightarrow> wire agent_op" where
  "bindRequestDefinitionViaAgent E requestId definitionId operationRef =
     agent_json E ''PUT'' (binding_path requestId)
       (obj_body ((''definitionId'', JStr definitionId) # opt_text ''operationRef'' operationRef))"

definition unbindRequestDefinitionViaAgent :: "agent_env \<Rightarrow> string \<Rightarrow> unit agent_op" where
  "unbindRequestDefinitionViaAgent E requestId = op_map (\<lambda>_. ()) (agent_request E ''DELETE'' (binding_path requestId) None)"

definition save_query :: "string option \<Rightarrow> string option \<Rightarrow> string" where
  "save_query projectId collectionId =
     query_text (truthy_param ''projectId'' projectId @ truthy_param ''collectionId'' collectionId)"

definition saveEnvelopeViaAgent :: "agent_env \<Rightarrow> RequestEnvelope \<Rightarrow> string option \<Rightarrow> string option \<Rightarrow> unit agent_op" where
  "saveEnvelopeViaAgent E envelope projectId collectionId =
     op_map (\<lambda>_. ()) (agent_request E ''POST'' (''/v1/requests'' @ save_query projectId collectionId) (Some (WEnvelope envelope)))"

definition saveRequestViaAgent :: "agent_env \<Rightarrow> HttpWorkbenchRequest \<Rightarrow> string option \<Rightarrow> string option \<Rightarrow> unit agent_op" where
  "saveRequestViaAgent E r projectId collectionId =
     op_map (\<lambda>_. ()) (agent_request E ''POST'' (''/v1/requests'' @ save_query projectId collectionId) (Some (WEnvelope (toEnvelope E r))))"

definition stored_request :: "StoredRequest option \<Rightarrow> HttpWorkbenchRequest option agent_op" where
  "stored_request stored =
     (case stored of
        None \<Rightarrow> op_return None
      | Some x \<Rightarrow> op_map Some (lift_result (fromEnvelope (st_envelope x) (Some (st_target x)))))"

definition loadRequestViaAgent :: "agent_env \<Rightarrow> string \<Rightarrow> HttpWorkbenchRequest option agent_op" where
  "loadRequestViaAgent E i =
     op_bind (op_bind (agent_json E ''GET'' (''/v1/requests/'' @ i) None) stored_of) stored_request"

definition loadLatestRequestViaAgent :: "agent_env \<Rightarrow> HttpWorkbenchRequest option agent_op" where
  "loadLatestRequestViaAgent E =
     op_bind (op_bind (agent_json E ''GET'' ''/v1/requests/latest'' None) stored_of) stored_request"

section \<open>Secrets, assistance, capture, cookies, environments\<close>

definition putSecretViaAgent :: "agent_env \<Rightarrow> string \<Rightarrow> string \<Rightarrow> unit agent_op" where
  "putSecretViaAgent E name v =
     op_map (\<lambda>_. ()) (agent_request E ''PUT'' ''/v1/secrets'' (obj_body [(''name'', JStr name), (''value'', JStr v)]))"

definition runAiAssistViaAgent :: "agent_env \<Rightarrow> jsval \<Rightarrow> wire agent_op" where
  "runAiAssistViaAgent E request = agent_json E ''POST'' ''/v1/ai/assist'' (Some (WJson request))"

definition captureStatusViaAgent :: "agent_env \<Rightarrow> wire option agent_op" where
  "captureStatusViaAgent E = captureRequest E ''/v1/capture/status'' ''GET'' None"

definition startCaptureViaAgent :: "agent_env \<Rightarrow> string \<Rightarrow> wire option agent_op" where
  "startCaptureViaAgent E bind_address =
     captureRequest E ''/v1/capture/start'' ''POST'' (obj_body [(''bind'', JStr bind_address), (''allowRemote'', JBool False)])"

definition stopCaptureViaAgent :: "agent_env \<Rightarrow> wire option agent_op" where
  "stopCaptureViaAgent E = captureRequest E ''/v1/capture/stop'' ''POST'' None"

definition listCapturesViaAgent :: "agent_env \<Rightarrow> wire option agent_op" where
  "listCapturesViaAgent E = captureRequest E ''/v1/capture/exchanges'' ''GET'' None"

definition clearCapturesViaAgent :: "agent_env \<Rightarrow> wire option agent_op" where
  "clearCapturesViaAgent E = captureRequest E ''/v1/capture/exchanges'' ''DELETE'' None"

definition listCookiesViaAgent :: "agent_env \<Rightarrow> string \<Rightarrow> wire agent_op" where
  "listCookiesViaAgent E url = agent_json E ''GET'' (''/v1/cookies?url='' @ encodeURIComponent url) None"

definition setCookieViaAgent :: "agent_env \<Rightarrow> string \<Rightarrow> string \<Rightarrow> string \<Rightarrow> unit agent_op" where
  "setCookieViaAgent E url name v =
     mutateWorkspace E ''/v1/cookies'' ''PUT'' (obj_body [(''url'', JStr url), (''name'', JStr name), (''value'', JStr v)])"

definition deleteCookieViaAgent :: "agent_env \<Rightarrow> string \<Rightarrow> string \<Rightarrow> unit agent_op" where
  "deleteCookieViaAgent E url name =
     mutateWorkspace E ''/v1/cookies'' ''DELETE'' (obj_body [(''url'', JStr url), (''name'', JStr name)])"

definition environment_parts :: "wire \<Rightarrow> (jsval \<times> jsval) agent_op" where
  "environment_parts w =
     (case w of
        WJson v \<Rightarrow> if nullish v then op_fail Malformed
          else op_return (coalesce (js_get v ''variables'') (JObj []), coalesce (js_get v ''secretRefs'') (JArr []))
      | _ \<Rightarrow> op_fail Malformed)"

definition getEnvironmentViaAgent :: "agent_env \<Rightarrow> (jsval \<times> jsval) agent_op" where
  "getEnvironmentViaAgent E = op_bind (agent_json E ''GET'' ''/v1/environments/default'' None) environment_parts"

definition saveEnvironmentViaAgent :: "agent_env \<Rightarrow> (string \<times> string) list \<Rightarrow> string list \<Rightarrow> unit agent_op" where
  "saveEnvironmentViaAgent E variables secretRefs =
     op_map (\<lambda>_. ()) (agent_request E ''PUT'' ''/v1/environments/default''
       (obj_body [(''variables'', JObj (map (\<lambda>(k, v). (k, JStr v)) variables)), (''secretRefs'', JArr (map JStr secretRefs))]))"

section \<open>History\<close>

record HistoryFilter =
  hf_state :: "string option"
  hf_status :: "int option"
  hf_protocolId :: "string option"
  hf_requestId :: "string option"

record HistoryItem =
  hm_id :: string
  hm_protocolId :: string
  hm_method :: "string option"
  hm_name :: "string option"
  hm_state :: string
  hm_status :: "int option"
  hm_durationMs :: nat
  hm_startedAt :: string
  hm_target :: "string option"
  hm_preview :: "string option"

definition payload_method :: "RequestEnvelope \<Rightarrow> string option" where
  "payload_method e = (case re_payload e of PHttp p \<Rightarrow> Some (hp_method p) | _ \<Rightarrow> None)"

definition history_params :: "HistoryFilter option \<Rightarrow> (string \<times> string) list" where
  "history_params f =
     (''limit'', ''30'') #
     (case f of
        None \<Rightarrow> []
      | Some x \<Rightarrow> truthy_param ''state'' (hf_state x) @ truthy_param ''protocolId'' (hf_protocolId x)
          @ (case hf_status x of None \<Rightarrow> [] | Some n \<Rightarrow> [(''status'', show_int n)]) @ truthy_param ''requestId'' (hf_requestId x))"

definition history_item :: "HistoryRecord \<Rightarrow> HistoryItem" where
  "history_item r =
     \<lparr> hm_id = hi_id r, hm_protocolId = hi_protocolId r, hm_method = Option.bind (hi_requestSnapshot r) payload_method,
       hm_name = map_option re_name (hi_requestSnapshot r), hm_state = hi_state r, hm_status = hi_status r,
       hm_durationMs = hi_durationMs r, hm_startedAt = hi_startedAt r,
       hm_target = map_option re_target (hi_requestSnapshot r), hm_preview = hi_preview r \<rparr>"

definition listHistoryViaAgent :: "agent_env \<Rightarrow> HistoryFilter option \<Rightarrow> HistoryItem list agent_op" where
  "listHistoryViaAgent E f =
     op_bind (agent_json E ''GET'' (''/v1/history?'' @ form_serialize (history_params f)) None)
       (\<lambda>w. case w of WHistory rows \<Rightarrow> op_return (map history_item rows) | _ \<Rightarrow> op_fail Malformed)"

datatype replay = ReplayHttp HttpWorkbenchRequest | ReplayOther RequestEnvelope

definition replay_of :: "RequestEnvelope \<Rightarrow> replay agent_op" where
  "replay_of e = (if payload_method e \<noteq> None then op_map ReplayHttp (lift_result (fromEnvelope e None)) else op_return (ReplayOther e))"

definition getHistoryItemViaAgent :: "agent_env \<Rightarrow> string \<Rightarrow> replay option agent_op" where
  "getHistoryItemViaAgent E i =
     op_bind (agent_json E ''GET'' (''/v1/history/'' @ i) None) (\<lambda>w.
       case w of
         WHistoryItem item \<Rightarrow>
           (case Option.bind item hi_requestSnapshot of None \<Rightarrow> op_return None | Some e \<Rightarrow> op_map Some (replay_of e))
       | _ \<Rightarrow> op_fail Malformed)"

section \<open>Workspace\<close>

definition with_method :: "tree_item \<Rightarrow> RequestRecord" where
  "with_method item =
     (ti_record item)\<lparr> rq_method :=
        (case Option.bind (ti_envelope item) payload_method of Some m \<Rightarrow> Some m | None \<Rightarrow> rq_method (ti_record item)) \<rparr>"

definition getWorkspaceTreeViaAgent :: "agent_env \<Rightarrow> WorkspaceTree agent_op" where
  "getWorkspaceTreeViaAgent E =
     op_bind (agent_json E ''GET'' ''/v1/workspace-tree'' None) (\<lambda>w.
       case w of WTree tree items \<Rightarrow> op_return (tree\<lparr> wt_requests := map with_method items \<rparr>) | _ \<Rightarrow> op_fail Malformed)"

definition createProjectViaAgent :: "agent_env \<Rightarrow> string \<Rightarrow> string \<Rightarrow> wire agent_op" where
  "createProjectViaAgent E workspaceId name =
     createWorkspaceRecord E ''/v1/projects'' (WJson (JObj [(''workspaceId'', JStr workspaceId), (''name'', JStr name)]))"

definition createModuleViaAgent :: "agent_env \<Rightarrow> string \<Rightarrow> string \<Rightarrow> wire agent_op" where
  "createModuleViaAgent E projectId name =
     createWorkspaceRecord E ''/v1/modules'' (WJson (JObj [(''projectId'', JStr projectId), (''name'', JStr name)]))"

definition createWorkspaceViaAgent :: "agent_env \<Rightarrow> string \<Rightarrow> wire agent_op" where
  "createWorkspaceViaAgent E name = createWorkspaceRecord E ''/v1/workspaces'' (WJson (JObj [(''name'', JStr name)]))"

definition renameWorkspaceViaAgent :: "agent_env \<Rightarrow> string \<Rightarrow> string \<Rightarrow> unit agent_op" where
  "renameWorkspaceViaAgent E i name = mutateWorkspace E (''/v1/workspaces/'' @ i) ''PATCH'' (obj_body [(''name'', JStr name)])"

definition archiveWorkspaceViaAgent :: "agent_env \<Rightarrow> string \<Rightarrow> bool \<Rightarrow> unit agent_op" where
  "archiveWorkspaceViaAgent E i archived =
     mutateWorkspace E (''/v1/workspaces/'' @ i @ ''/archive'') ''PATCH'' (obj_body [(''archived'', JBool archived)])"

definition touchWorkspaceViaAgent :: "agent_env \<Rightarrow> string \<Rightarrow> unit agent_op" where
  "touchWorkspaceViaAgent E i = mutateWorkspace E (''/v1/workspaces/'' @ i @ ''/touch'') ''POST'' None"

definition deleteWorkspaceViaAgent :: "agent_env \<Rightarrow> string \<Rightarrow> unit agent_op" where
  "deleteWorkspaceViaAgent E i = mutateWorkspace E (''/v1/workspaces/'' @ i) ''DELETE'' None"

definition renameProjectViaAgent :: "agent_env \<Rightarrow> string \<Rightarrow> string \<Rightarrow> unit agent_op" where
  "renameProjectViaAgent E i name = mutateWorkspace E (''/v1/projects/'' @ i) ''PATCH'' (obj_body [(''name'', JStr name)])"

definition deleteProjectViaAgent :: "agent_env \<Rightarrow> string \<Rightarrow> unit agent_op" where
  "deleteProjectViaAgent E i = mutateWorkspace E (''/v1/projects/'' @ i) ''DELETE'' None"

definition createCollectionViaAgent :: "agent_env \<Rightarrow> string \<Rightarrow> string option \<Rightarrow> string \<Rightarrow> string option \<Rightarrow> wire agent_op" where
  "createCollectionViaAgent E projectId parentId name moduleId =
     createWorkspaceRecord E ''/v1/collections''
       (WJson (JObj ([(''projectId'', JStr projectId), (''parentId'', null_text parentId), (''name'', JStr name)] @ opt_text ''moduleId'' moduleId)))"

definition renameCollectionViaAgent :: "agent_env \<Rightarrow> string \<Rightarrow> string \<Rightarrow> string option \<Rightarrow> int \<Rightarrow> unit agent_op" where
  "renameCollectionViaAgent E i name parentId sortOrder =
     mutateWorkspace E (''/v1/collections/'' @ i) ''PATCH''
       (obj_body [(''name'', JStr name), (''parentId'', null_text parentId), (''sortOrder'', JNum (NInt sortOrder))])"

definition updateCollectionTagsViaAgent :: "agent_env \<Rightarrow> string \<Rightarrow> string list \<Rightarrow> unit agent_op" where
  "updateCollectionTagsViaAgent E i tags =
     mutateWorkspace E (''/v1/collections/'' @ i @ ''/tags'') ''PATCH'' (obj_body [(''tags'', JArr (map JStr tags))])"

definition deleteCollectionViaAgent :: "agent_env \<Rightarrow> string \<Rightarrow> unit agent_op" where
  "deleteCollectionViaAgent E i = mutateWorkspace E (''/v1/collections/'' @ i) ''DELETE'' None"

definition deleteRequestViaAgent :: "agent_env \<Rightarrow> string \<Rightarrow> unit agent_op" where
  "deleteRequestViaAgent E i = mutateWorkspace E (''/v1/requests/'' @ i) ''DELETE'' None"

definition moveRequestViaAgent :: "agent_env \<Rightarrow> string \<Rightarrow> string \<Rightarrow> string \<Rightarrow> unit agent_op" where
  "moveRequestViaAgent E i projectId collectionId =
     mutateWorkspace E (''/v1/requests/'' @ i) ''PATCH''
       (obj_body [(''projectId'', JStr projectId), (''collectionId'', JStr collectionId)])"

section \<open>Mock rules, sessions, plugins\<close>

definition listMockRulesViaAgent :: "agent_env \<Rightarrow> wire agent_op" where
  "listMockRulesViaAgent E = agent_json E ''GET'' ''/v1/mock-rules'' None"

definition createMockRuleViaAgent :: "agent_env \<Rightarrow> jsval \<Rightarrow> unit agent_op" where
  "createMockRuleViaAgent E rule = mutateWorkspace E ''/v1/mock-rules'' ''POST'' (Some (WJson rule))"

definition deleteMockRuleViaAgent :: "agent_env \<Rightarrow> string \<Rightarrow> unit agent_op" where
  "deleteMockRuleViaAgent E i = mutateWorkspace E (''/v1/mock-rules/'' @ i) ''DELETE'' None"

definition agentBaseUrl :: "agent_env \<Rightarrow> browser \<Rightarrow> string" where
  "agentBaseUrl E b = agentBase E b"

record TcpSessionConnection =
  tc_url :: string
  tc_protocols :: "string list"

definition ws_url :: "string \<Rightarrow> string" where
  "ws_url url = (if startsWith url ''http'' then ''ws'' @ drop 4 url else url)"

definition tcpSessionConnectionViaAgent :: "agent_env \<Rightarrow> string \<Rightarrow> TcpSessionConnection agent_op" where
  "tcpSessionConnectionViaAgent E target =
     op_bind (agent_json E ''POST'' ''/v1/tcp-session-ticket'' (obj_body [(''target'', JStr target)])) (\<lambda>w s.
       case w of
         WJson v \<Rightarrow> if nullish v then (Inl Malformed, s)
           else (Inr \<lparr> tc_url = ws_url (agentBase E (ag_browser s)) @ ''/v1/tcp-session'',
                       tc_protocols = [''apivoy'', ''apivoy-ticket.'' @ js_String (js_get v ''ticket'')] \<rparr>, s)
       | _ \<Rightarrow> (Inl Malformed, s))"

definition listPluginsViaAgent :: "agent_env \<Rightarrow> wire agent_op" where
  "listPluginsViaAgent E = agent_json E ''GET'' ''/v1/plugins'' None"

definition installPluginViaAgent :: "agent_env \<Rightarrow> jsval \<Rightarrow> string \<Rightarrow> unit agent_op" where
  "installPluginViaAgent E manifest wasmBase64 =
     mutateWorkspace E ''/v1/plugins'' ''POST'' (obj_body [(''manifest'', manifest), (''wasmBase64'', JStr wasmBase64)])"

definition enablePluginViaAgent :: "agent_env \<Rightarrow> string \<Rightarrow> bool \<Rightarrow> unit agent_op" where
  "enablePluginViaAgent E i enabled = mutateWorkspace E (''/v1/plugins/'' @ i) ''PATCH'' (obj_body [(''enabled'', JBool enabled)])"

definition deletePluginViaAgent :: "agent_env \<Rightarrow> string \<Rightarrow> unit agent_op" where
  "deletePluginViaAgent E i = mutateWorkspace E (''/v1/plugins/'' @ i) ''DELETE'' None"

definition invokePluginViaAgent :: "agent_env \<Rightarrow> string \<Rightarrow> string \<Rightarrow> jsval agent_op" where
  "invokePluginViaAgent E i text_input =
     op_bind (agent_json E ''POST'' (''/v1/plugins/'' @ i @ ''/invoke'') (obj_body [(''input'', JStr text_input)]))
       (\<lambda>w. case w of WJson v \<Rightarrow> if nullish v then op_fail Malformed else op_return (js_get v ''output'') | _ \<Rightarrow> op_fail Malformed)"

end
