(* ===== verification/AgentExecution.thy ===== *)
theory AgentExecution imports AgentClient begin

text \<open>
  Executions through the agent (\<^verbatim>\<open>apps/web/src/agentClient.ts\<close>, second part): the event stream, the run of one
  request, the run of a collection, cancelling. The stream arrives in pieces that the platform has decoded to
  text; an event is the JSON value of a block's data lines, read as the declared type of events.
\<close>

section \<open>The event stream\<close>

text \<open>\<^verbatim>\<open>buffer.split("\n\n")\<close>.\<close>

fun split_blocks :: "string \<Rightarrow> string list" where
  "split_blocks [] = [[]]"
| "split_blocks [c] = [[c]]"
| "split_blocks (c # d # r) =
     (if c = NL \<and> d = NL then [] # split_blocks r
      else (c # hd (split_blocks (d # r))) # tl (split_blocks (d # r)))"

definition block_data :: "string \<Rightarrow> string list" where
  "block_data block =
     (let dataLines = map (\<lambda>line. trimStart (drop 5 line)) (filter (\<lambda>line. startsWith line ''data:'') (split NL block))
      in if dataLines = [] then [] else [join [NL] dataLines])"

fun readSseEvents :: "string \<Rightarrow> string list \<Rightarrow> string list" where
  "readSseEvents buffer [] = []"
| "readSseEvents buffer (piece # pieces) =
     (let chunks = split_blocks (buffer @ piece)
      in concat (map block_data (butlast chunks)) @ readSseEvents (last chunks) pieces)"

section \<open>Events\<close>

definition text_of :: "jsval \<Rightarrow> string option" where
  "text_of v = (case v of JStr s \<Rightarrow> Some s | _ \<Rightarrow> None)"

definition nat_of :: "jsval \<Rightarrow> nat option" where
  "nat_of v = (case v of JNum (NInt n) \<Rightarrow> if 0 \<le> n then Some (nat n) else None | _ \<Rightarrow> None)"

definition int_of :: "jsval \<Rightarrow> int option" where
  "int_of v = (case v of JNum (NInt n) \<Rightarrow> Some n | _ \<Rightarrow> None)"

definition num_of :: "jsval \<Rightarrow> jsnum option" where
  "num_of v = (case v of JNum n \<Rightarrow> Some n | _ \<Rightarrow> None)"

definition bool_of :: "jsval \<Rightarrow> bool option" where
  "bool_of v = (case v of JBool b \<Rightarrow> Some b | _ \<Rightarrow> None)"

text \<open>An optional member may be absent or \<^verbatim>\<open>null\<close>.\<close>

definition maybe :: "(jsval \<Rightarrow> 'a option) \<Rightarrow> jsval \<Rightarrow> 'a option option" where
  "maybe f v = (if nullish v then Some None else map_option Some (f v))"

definition state_of :: "jsval \<Rightarrow> ExecutionState option" where
  "state_of v =
     (case text_of v of
        None \<Rightarrow> None
      | Some s \<Rightarrow> map_of [(''queued'', Queued), (''running'', Running), (''completed'', Completed),
                          (''failed'', Failed), (''cancelled'', Cancelled)] s)"

definition phase_of :: "jsval \<Rightarrow> ExecutionPhase option" where
  "phase_of v =
     (case text_of v of
        None \<Rightarrow> None
      | Some s \<Rightarrow> map_of [(''validate'', Validate), (''resolve'', Resolve), (''pre_script'', PreScript), (''connect'', Connect),
                          (''transfer'', Transfer), (''post_script'', PostScript), (''assert'', Assert), (''persist'', Persist)] s)"

definition pair_of :: "jsval \<Rightarrow> (string \<times> string) option" where
  "pair_of v = (case v of JArr [JStr a, JStr b] \<Rightarrow> Some (a, b) | _ \<Rightarrow> None)"

definition pairs_of :: "jsval \<Rightarrow> header_list option" where
  "pairs_of v = (case v of JArr xs \<Rightarrow> all_some (map pair_of xs) | _ \<Rightarrow> None)"

definition dict_of :: "jsval \<Rightarrow> header_list option" where
  "dict_of v =
     (case v of
        JObj ps \<Rightarrow> all_some (map (\<lambda>(k, x). map_option (Pair k) (text_of x)) ps)
      | _ \<Rightarrow> None)"

definition summary_of :: "jsval \<Rightarrow> ExecutionSummary option" where
  "summary_of v =
     Option.bind (text_of (js_get v ''executionId'')) (\<lambda>a.
     Option.bind (text_of (js_get v ''requestId'')) (\<lambda>b.
     Option.bind (text_of (js_get v ''protocolId'')) (\<lambda>c.
     Option.bind (state_of (js_get v ''state'')) (\<lambda>d.
     Option.bind (text_of (js_get v ''startedAt'')) (\<lambda>e.
     Option.bind (text_of (js_get v ''finishedAt'')) (\<lambda>f.
     Option.bind (nat_of (js_get v ''durationMs'')) (\<lambda>g.
     Option.bind (nat_of (js_get v ''bytesReceived'')) (\<lambda>h.
     map_option (\<lambda>i. \<lparr> es_executionId = a, es_requestId = b, es_protocolId = c, es_state = d, es_startedAt = e,
       es_finishedAt = f, es_durationMs = g, es_bytesReceived = h, es_status = i \<rparr>) (maybe int_of (js_get v ''status''))))))))))"

definition meta_of :: "jsval \<Rightarrow> ResponseMeta option" where
  "meta_of v =
     Option.bind (maybe int_of (js_get v ''status'')) (\<lambda>a.
     Option.bind (maybe text_of (js_get v ''statusText'')) (\<lambda>b.
     Option.bind (pairs_of (js_get v ''headers'')) (\<lambda>c.
     Option.bind (maybe text_of (js_get v ''contentType'')) (\<lambda>d.
     map_option (\<lambda>e. \<lparr> rm_status = a, rm_statusText = b, rm_headers = c, rm_contentType = d, rm_sizeHint = e \<rparr>)
       (maybe nat_of (js_get v ''sizeHint''))))))"

definition assertion_of :: "jsval \<Rightarrow> AssertionResultEvent option" where
  "assertion_of v =
     Option.bind (maybe text_of (js_get v ''ruleId'')) (\<lambda>a.
     Option.bind (text_of (js_get v ''name'')) (\<lambda>b.
     Option.bind (bool_of (js_get v ''passed'')) (\<lambda>c.
     Option.bind (maybe text_of (js_get v ''expected'')) (\<lambda>d.
     Option.bind (maybe text_of (js_get v ''actual'')) (\<lambda>e.
     map_option (\<lambda>f. \<lparr> ar_ruleId = a, ar_name = b, ar_passed = c, ar_expected = d, ar_actual = e, ar_message = f \<rparr>)
       (maybe text_of (js_get v ''message'')))))))"

definition chunk_of :: "jsval \<Rightarrow> ExecutionEvent option" where
  "chunk_of v =
     Option.bind (maybe text_of (js_get v ''contentType'')) (\<lambda>a.
     Option.bind (nat_of (js_get v ''size'')) (\<lambda>b.
     Option.bind (maybe text_of (js_get v ''preview'')) (\<lambda>c.
     Option.bind (maybe text_of (js_get v ''dataBase64'')) (\<lambda>d.
     map_option (ResponseChunk a b c d) (bool_of (js_get v ''done''))))))"

definition two_texts :: "(string \<Rightarrow> string \<Rightarrow> 'a) \<Rightarrow> string \<Rightarrow> string \<Rightarrow> jsval \<Rightarrow> 'a option" where
  "two_texts f a b v = Option.bind (text_of (js_get v a)) (\<lambda>x. map_option (f x) (text_of (js_get v b)))"

text \<open>An event is read as the type the protocol declares; anything else ends the run of the model with an error, where the code
  would count it, hand it to the hooks and go on with whatever parts it has.\<close>

definition event_of :: "jsval \<Rightarrow> ExecutionEvent option" where
  "event_of v =
     (let kind = js_get v ''type'' in
      if kind = JStr ''state_changed'' then
        Option.bind (state_of (js_get v ''state'')) (\<lambda>s. map_option (StateChanged s) (maybe phase_of (js_get v ''phase'')))
      else if kind = JStr ''log'' then two_texts Log ''level'' ''message'' v
      else if kind = JStr ''variables_extracted'' then map_option VariablesExtracted (dict_of (js_get v ''variables''))
      else if kind = JStr ''metric'' then
        Option.bind (text_of (js_get v ''name'')) (\<lambda>n. Option.bind (num_of (js_get v ''value''))
          (\<lambda>x. map_option (Metric n x) (text_of (js_get v ''unit''))))
      else if kind = JStr ''response_meta'' then map_option ResponseMetaEv (meta_of v)
      else if kind = JStr ''response_chunk'' then chunk_of v
      else if kind = JStr ''assertion_result'' then map_option AssertionResult (assertion_of v)
      else if kind = JStr ''warning'' then two_texts Warning ''code'' ''message'' v
      else if kind = JStr ''completed'' then map_option CompletedEv (summary_of (js_get v ''summary''))
      else if kind = JStr ''failed'' then two_texts FailedEv ''code'' ''message'' v
      else if kind = JStr ''cancelled'' then map_option CancelledEv (maybe text_of (js_get v ''reason''))
      else None)"

section \<open>One execution\<close>

record HttpRunResult =
  hr_summary :: ExecutionSummary
  hr_eventCount :: nat
  hr_preview :: "string option"
  hr_error :: "string option"
  hr_executionId :: "string option"
  hr_assertions :: "AssertionResultEvent list"
  hr_responseMeta :: "ResponseMeta option"

record run_acc =
  ra_summary :: "ExecutionSummary option"
  ra_preview :: "string option"
  ra_eventCount :: nat
  ra_error :: "string option"
  ra_assertions :: "AssertionResultEvent list"
  ra_meta :: "ResponseMeta option"

definition run_start :: run_acc where
  "run_start = \<lparr> ra_summary = None, ra_preview = None, ra_eventCount = 0, ra_error = None, ra_assertions = [], ra_meta = None \<rparr>"

text \<open>The body of \<^verbatim>\<open>for await (const event of readSseEvents(...))\<close>.\<close>

definition run_event :: "run_acc \<Rightarrow> ExecutionEvent \<Rightarrow> run_acc" where
  "run_event acc event =
     (let counted = acc\<lparr> ra_eventCount := ra_eventCount acc + 1 \<rparr> in
      case event of
        ResponseChunk ct sz preview data done \<Rightarrow> counted\<lparr> ra_preview := reduceCompletedResponsePreview (ra_preview acc) event \<rparr>
      | ResponseMetaEv m \<Rightarrow> counted\<lparr> ra_meta := Some m \<rparr>
      | AssertionResult a \<Rightarrow> counted\<lparr> ra_assertions := ra_assertions acc @ [a] \<rparr>
      | CompletedEv summary \<Rightarrow> counted\<lparr> ra_summary := Some summary \<rparr>
      | FailedEv kind message \<Rightarrow> counted\<lparr> ra_error := Some (kind @ '': '' @ message) \<rparr>
      | CancelledEv reason \<Rightarrow> counted\<lparr> ra_error := Some (or_default reason ''cancelled'') \<rparr>
      | _ \<Rightarrow> counted)"

definition event_hooks :: "ExecutionEvent \<Rightarrow> hook_call list" where
  "event_hooks event =
     OnEvent event #
     (case event of ResponseChunk ct sz preview data done \<Rightarrow> if truthy_text preview then [OnChunk (the preview)] else [] | _ \<Rightarrow> [])"

definition add_hooks :: "hook_call list \<Rightarrow> unit agent_op" where
  "add_hooks hs s = (Inr (), s\<lparr> ag_hooks := ag_hooks s @ hs \<rparr>)"

fun consume_events :: "run_acc \<Rightarrow> string list \<Rightarrow> run_acc agent_op" where
  "consume_events acc [] = op_return acc"
| "consume_events acc (payload # payloads) =
     (case JSON_parse payload of
        None \<Rightarrow> op_fail NotJson
      | Some v \<Rightarrow>
          (case event_of v of
             None \<Rightarrow> op_fail Malformed
           | Some event \<Rightarrow> op_bind (add_hooks (event_hooks event)) (\<lambda>_. consume_events (run_event acc event) payloads)))"

definition is_text_body :: "ResponseMeta option \<Rightarrow> bool" where
  "is_text_body m =
     (let contentType = (case Option.bind m rm_contentType of None \<Rightarrow> [] | Some t \<Rightarrow> toLowerCase t)
      in startsWith contentType ''text/''
         \<or> list_ex (str_includes contentType) [''json'', ''xml'', ''javascript'', ''x-www-form-urlencoded''])"

definition full_preview :: "agent_env \<Rightarrow> string \<Rightarrow> run_acc \<Rightarrow> string option agent_op" where
  "full_preview E executionId acc =
     (if is_text_body (ra_meta acc)
      then (\<lambda>s. op_bind (fetch E (agent_call E ''GET'' (''/v1/history/'' @ executionId @ ''/body'') None [] s))
             (\<lambda>r. op_return (if reply_ok r then Some (hr_text r) else ra_preview acc)) s)
      else op_return (ra_preview acc))"

definition run_result :: "agent_env \<Rightarrow> RequestEnvelope \<Rightarrow> string \<Rightarrow> run_acc \<Rightarrow> string option \<Rightarrow> HttpRunResult" where
  "run_result E envelope executionId acc preview =
     (case ra_summary acc of
        None \<Rightarrow>
          \<lparr> hr_summary = \<lparr> es_executionId = executionId, es_requestId = re_id envelope, es_protocolId = re_protocolId envelope,
              es_state = (if truthy_text (ra_error acc) then Failed else Completed), es_startedAt = en_now E,
              es_finishedAt = en_now E, es_durationMs = 0, es_bytesReceived = 0, es_status = None \<rparr>,
            hr_eventCount = ra_eventCount acc, hr_preview = preview,
            hr_error = Some (or_default (ra_error acc) ''execution finished without summary''),
            hr_executionId = Some executionId, hr_assertions = ra_assertions acc, hr_responseMeta = ra_meta acc \<rparr>
      | Some summary \<Rightarrow>
          \<lparr> hr_summary = summary, hr_eventCount = ra_eventCount acc, hr_preview = selectResponsePreview [preview],
            hr_error = ra_error acc, hr_executionId = Some executionId, hr_assertions = ra_assertions acc,
            hr_responseMeta = ra_meta acc \<rparr>)"

definition started_id :: "wire \<Rightarrow> string agent_op" where
  "started_id w =
     (case w of WJson v \<Rightarrow> if nullish v then op_fail Malformed else op_return (js_String (js_get v ''executionId'')) | _ \<Rightarrow> op_fail Malformed)"

definition event_payloads :: "http_reply \<Rightarrow> string list agent_op" where
  "event_payloads r = (case hr_chunks r of None \<Rightarrow> op_fail NoEventBody | Some pieces \<Rightarrow> op_return (readSseEvents [] pieces))"

definition executeEnvelopeViaAgent :: "agent_env \<Rightarrow> RequestEnvelope \<Rightarrow> HttpRunResult agent_op" where
  "executeEnvelopeViaAgent E envelope =
     op_bind (agent_json E ''POST'' ''/v1/executions'' (Some (WEnvelope envelope))) (\<lambda>w.
     op_bind (started_id w) (\<lambda>executionId.
     op_bind (add_hooks [OnStarted executionId]) (\<lambda>_.
     op_bind (send_call E ''GET'' (''/v1/executions/'' @ executionId @ ''/events'') None [(''Accept'', ''text/event-stream'')]) (\<lambda>r.
     op_bind (event_payloads r) (\<lambda>payloads.
     op_bind (consume_events run_start payloads) (\<lambda>acc.
     op_map (run_result E envelope executionId acc) (full_preview E executionId acc)))))))"

definition executeViaAgent :: "agent_env \<Rightarrow> HttpWorkbenchRequest \<Rightarrow> HttpRunResult agent_op" where
  "executeViaAgent E request = executeEnvelopeViaAgent E (toEnvelope E request)"

definition cancelViaAgent :: "agent_env \<Rightarrow> string \<Rightarrow> unit agent_op" where
  "cancelViaAgent E executionId =
     op_map (\<lambda>_. ()) (send_call E ''POST'' (''/v1/executions/'' @ executionId @ ''/cancel'') None [])"

section \<open>Runs of a collection\<close>

record CollectionRunCase =
  cr_requestId :: string
  cr_name :: string
  cr_protocolId :: string
  cr_passed :: bool
  cr_status :: "int option"
  cr_durationMs :: nat
  cr_error :: "agent_error option"
  cr_failedAssertions :: "string list"

definition failed_case :: "RequestRecord \<Rightarrow> agent_error \<Rightarrow> CollectionRunCase" where
  "failed_case item e =
     \<lparr> cr_requestId = rq_id item, cr_name = rq_name item, cr_protocolId = ''unknown'', cr_passed = False, cr_status = None,
       cr_durationMs = 0, cr_error = Some e, cr_failedAssertions = [] \<rparr>"

definition finished_case :: "RequestRecord \<Rightarrow> RequestEnvelope \<Rightarrow> HttpRunResult \<Rightarrow> CollectionRunCase" where
  "finished_case item envelope result =
     (let failedAssertions = map ar_name (filter (\<lambda>a. \<not> ar_passed a) (hr_assertions result)) in
      \<lparr> cr_requestId = rq_id item, cr_name = rq_name item, cr_protocolId = re_protocolId envelope,
        cr_passed = (es_state (hr_summary result) = Completed \<and> failedAssertions = []),
        cr_status = es_status (hr_summary result), cr_durationMs = es_durationMs (hr_summary result), cr_error = None,
        cr_failedAssertions = failedAssertions \<rparr>)"

text \<open>One turn of the loop; whatever is thrown becomes a failed case.\<close>

definition run_case :: "agent_env \<Rightarrow> RequestRecord \<Rightarrow> agent_client \<Rightarrow> CollectionRunCase \<times> agent_client" where
  "run_case E item s =
     (case op_bind (loadEnvelopeViaAgent E (rq_id item)) (\<lambda>stored.
             case stored of
               None \<Rightarrow> op_return (failed_case item RequestMissing)
             | Some envelope \<Rightarrow> op_map (finished_case item envelope) (executeEnvelopeViaAgent E envelope)) s of
        (Inl e, t) \<Rightarrow> (failed_case item e, t)
      | (Inr c, t) \<Rightarrow> (c, t))"

fun run_cases :: "agent_env \<Rightarrow> bool \<Rightarrow> RequestRecord list \<Rightarrow> agent_client \<Rightarrow> CollectionRunCase list \<times> agent_client" where
  "run_cases E failFast [] s = ([], s)"
| "run_cases E failFast (item # items) s =
     (let (c, t) = run_case E item s in
      if failFast \<and> \<not> cr_passed c then ([c], t)
      else let (cs, u) = run_cases E failFast items t in (c # cs, u))"

definition runCollectionViaAgent :: "agent_env \<Rightarrow> string \<Rightarrow> bool \<Rightarrow> CollectionRunCase list agent_op" where
  "runCollectionViaAgent E collectionId failFast =
     op_bind (getWorkspaceTreeViaAgent E) (\<lambda>tree s.
       case run_cases E failFast (filter (\<lambda>item. rq_collectionId item = collectionId) (wt_requests tree)) s of
         (cs, t) \<Rightarrow> (Inr cs, t))"

section \<open>The bootstrap of the workspace\<close>

text \<open>\<^verbatim>\<open>workspaceTreeClient.ts\<close>: the tree with a health call first; \<open>aborted\<close> is the signal's state after the handshake.\<close>

definition getWorkspaceTreeAbortable :: "agent_env \<Rightarrow> string \<Rightarrow> bool \<Rightarrow> WorkspaceTree agent_op" where
  "getWorkspaceTreeAbortable E base aborted =
     op_bind (fetch E \<lparr> hc_method = ''GET'', hc_url = base @ ''/health'', hc_headers = [], hc_body = None \<rparr>) (\<lambda>health.
       if \<not> reply_ok health then op_fail (HealthFailed (hr_status health))
       else op_bind (checkAgentHandshake E) (\<lambda>_ s.
         if aborted then (Inl Aborted, s)
         else if \<not> local_ok (ag_browser s) then (Inl StorageUnavailable, s)
         else
           (let token = readLocal (ag_browser s) ''apivoy-agent-token'';
                headers = [(''Content-Type'', ''application/json''), (''X-ApiVoy-Protocol-Api-Version'', PROTOCOL_API_VERSION),
                           (''X-ApiVoy-Client'', ''web''), (''X-ApiVoy-Client-Version'', CLIENT_VERSION)]
                  @ (if truthy_text token then [(''Authorization'', ''Bearer '' @ the token)] else [])
            in op_bind (fetch E \<lparr> hc_method = ''GET'', hc_url = base @ ''/v1/workspace-tree'', hc_headers = headers, hc_body = None \<rparr>)
                 (\<lambda>r. if \<not> reply_ok r then op_fail (AgentError (hr_text r))
                      else op_bind (reply_json r) (\<lambda>w.
                        case w of WTree tree items \<Rightarrow> op_return (tree\<lparr> wt_requests := map with_method items \<rparr>)
                        | _ \<Rightarrow> op_fail Malformed)) s)))"

end
