(* ===== verification/AgentLaws.thy ===== *)
theory AgentLaws imports AgentExecution begin

text \<open>
  What the agent client promises: no operation but the cancelling of an execution reaches an incompatible agent, the configured token is exchanged at
  most once and afterwards every call carries the session's token, a failed exchange stays failed, the events of a
  stream do not depend on how it was cut into pieces, a collection run reports its cases in order, and a request
  survives its envelope. The steps a client may take are the relation \<open>agent_step\<close>; every operation is a sequence
  of such steps, and all but the cancelling begin with the handshake (\<open>gated_operation\<close>).
\<close>

section \<open>Sequencing\<close>

lemma op_simps [simp]:
  "op_return x s = (Inr x, s)" "op_fail e s = (Inl e, s)" "lift_result r s = (r, s)"
  by (simp_all add: op_return_def op_fail_def lift_result_def)

lemma op_bind_eq: "op_bind m k s = (r, t) \<longleftrightarrow>
    (\<exists>e. m s = (Inl e, t) \<and> r = Inl e) \<or> (\<exists>x u. m s = (Inr x, u) \<and> k x u = (r, t))"
  by (auto simp: op_bind_def split: prod.splits sum.splits)

lemma op_bind_assoc: "op_bind (op_bind m k) l = op_bind m (\<lambda>x. op_bind (k x) l)"
  by (rule ext) (simp add: op_bind_def split: prod.splits sum.splits)

lemma op_bind_fail: "m s = (Inl e, t) \<Longrightarrow> op_bind m k s = (Inl e, t)"
  by (simp add: op_bind_def)

section \<open>The steps of a client\<close>

inductive agent_step :: "agent_env \<Rightarrow> agent_client \<Rightarrow> agent_client \<Rightarrow> bool" for E where
  ask_health: "agent_step E s (s\<lparr> ag_calls := ag_calls s @ [health_call E s] \<rparr>)"
| open_session: "ag_session s = NoSession \<Longrightarrow> truthy_text (ag_bootstrap s) \<Longrightarrow>
    agent_step E s (s\<lparr> ag_calls := ag_calls s @ [session_call E (the (ag_bootstrap s)) s], ag_token := token, ag_session := SessionOpen \<rparr>)"
| reject_session: "ag_session s = NoSession \<Longrightarrow> truthy_text (ag_bootstrap s) \<Longrightarrow>
    agent_step E s (s\<lparr> ag_calls := ag_calls s @ [session_call E (the (ag_bootstrap s)) s], ag_session := SessionRejected e \<rparr>)"
| signed_call: "path \<noteq> ''/v1/session'' \<Longrightarrow>
    agent_step E s (s\<lparr> ag_calls := ag_calls s @ [agent_call E method path body extra s] \<rparr>)"
| hook: "agent_step E s (s\<lparr> ag_hooks := ag_hooks s @ hs \<rparr>)"

inductive_cases agent_stepE: "agent_step E s t"

definition stepping :: "agent_env \<Rightarrow> 'a agent_op \<Rightarrow> bool" where
  "stepping E m \<longleftrightarrow> (\<forall>s r t. m s = (r, t) \<longrightarrow> (agent_step E)\<^sup>*\<^sup>* s t)"

lemma steppingI: "(\<And>s r t. m s = (r, t) \<Longrightarrow> (agent_step E)\<^sup>*\<^sup>* s t) \<Longrightarrow> stepping E m"
  by (auto simp: stepping_def)

lemma steppingD: "stepping E m \<Longrightarrow> m s = (r, t) \<Longrightarrow> (agent_step E)\<^sup>*\<^sup>* s t"
  by (auto simp: stepping_def)

lemma stepping_pure [intro]:
  "stepping E (op_return x)" "stepping E (op_fail e)" "stepping E (lift_result r)"
  by (auto simp: stepping_def)

lemma stepping_bind [intro]:
  "stepping E m \<Longrightarrow> (\<And>x. stepping E (k x)) \<Longrightarrow> stepping E (op_bind m k)"
  by (rule steppingI) (auto simp: op_bind_eq dest: steppingD intro: rtranclp_trans)

lemma stepping_map [intro]: "stepping E m \<Longrightarrow> stepping E (op_map f m)"
  unfolding op_map_def by (intro stepping_bind stepping_pure)

lemma fetch_state: "fetch E c s = (r, t) \<Longrightarrow> t = s\<lparr> ag_calls := ag_calls s @ [c] \<rparr>"
  by (auto simp: fetch_def Let_def split: option.splits)

lemma stepping_reply_json [intro]: "stepping E (reply_json r)"
  unfolding reply_json_def by (cases "hr_json r") auto

lemma stepping_send [intro]:
  assumes "path \<noteq> ''/v1/session''"
  shows "stepping E (send_call E method path body extra)"
proof (rule steppingI)
  fix s r t assume "send_call E method path body extra s = (r, t)"
  then have "t = s\<lparr> ag_calls := ag_calls s @ [agent_call E method path body extra s] \<rparr>"
    by (auto simp: send_call_def op_bind_eq split: if_splits dest: fetch_state)
  then show "(agent_step E)\<^sup>*\<^sup>* s t" using agent_step.signed_call [OF assms] by (metis r_into_rtranclp)
qed

lemma stepping_hooks [intro]: "stepping E (add_hooks hs)"
  by (rule steppingI) (auto simp: add_hooks_def intro: agent_step.hook)

lemma open_session_state:
  assumes "open_session E token s = (r, t)"
  shows "\<exists>tok. t = s\<lparr> ag_calls := ag_calls s @ [session_call E token s], ag_token := tok \<rparr>
    \<and> (\<forall>e. r = Inl e \<longrightarrow> tok = ag_token s)"
proof -
  obtain q u where f: "fetch E (session_call E token s) s = (q, u)" by fastforce
  note u = fetch_state [OF f]
  show ?thesis
  proof (cases q)
    case (Inl e)
    with f assms have "t = u" by (simp add: open_session_def op_bind_def)
    with u show ?thesis by (intro exI [of _ "ag_token s"]) simp
  next
    case (Inr x)
    show ?thesis
    proof (cases "reply_ok x \<and> (\<exists>v. hr_json x = Some (WJson v) \<and> \<not> nullish v)")
      case True
      with f u Inr assms show ?thesis by (auto simp: open_session_def op_bind_def reply_json_def Let_def)
    next
      case False
      with f u Inr assms have "t = u"
        by (auto simp: open_session_def op_bind_def reply_json_def split: if_splits option.splits wire.splits)
      with u show ?thesis by (intro exI [of _ "ag_token s"]) simp
    qed
  qed
qed

lemma stepping_ensure [intro]: "stepping E (ensure_session E)"
proof (rule steppingI)
  fix s r t assume e: "ensure_session E s = (r, t)"
  show "(agent_step E)\<^sup>*\<^sup>* s t"
  proof (cases "ag_session s = NoSession \<and> truthy_text (ag_bootstrap s)")
    case False
    with e show ?thesis by (auto simp: ensure_session_def split: session.splits if_splits)
  next
    case True
    obtain q u where o: "open_session E (the (ag_bootstrap s)) s = (q, u)" by fastforce
    then obtain tok where u: "u = s\<lparr> ag_calls := ag_calls s @ [session_call E (the (ag_bootstrap s)) s], ag_token := tok \<rparr>"
      "\<forall>e. q = Inl e \<longrightarrow> tok = ag_token s" using open_session_state by blast
    have "agent_step E s t"
    proof (cases q)
      case (Inl e')
      with u have "tok = ag_token s" by simp
      with e o u True Inl have "t = s\<lparr> ag_calls := ag_calls s @ [session_call E (the (ag_bootstrap s)) s], ag_session := SessionRejected e' \<rparr>"
        by (simp add: ensure_session_def)
      with True show ?thesis using agent_step.reject_session by simp
    next
      case (Inr x)
      with e o u True have "t = s\<lparr> ag_calls := ag_calls s @ [session_call E (the (ag_bootstrap s)) s], ag_token := tok, ag_session := SessionOpen \<rparr>"
        by (simp add: ensure_session_def)
      with True show ?thesis using agent_step.open_session by simp
    qed
    then show ?thesis by simp
  qed
qed

lemma stepping_handshake [intro]: "stepping E (checkAgentHandshake E)"
proof (rule steppingI)
  fix s r t assume h: "checkAgentHandshake E s = (r, t)"
  obtain q u where f: "fetch E (health_call E s) s = (q, u)" by fastforce
  then have su: "agent_step E s u" using fetch_state agent_step.ask_health by metis
  have "(agent_step E)\<^sup>*\<^sup>* u t"
  proof (cases "\<exists>x w v. q = Inr x \<and> reply_ok x \<and> hr_json x = Some w \<and> health_compatible w = Inr v")
    case True
    then obtain r' where "ensure_session E u = (r', t)"
      using f h by (auto simp: checkAgentHandshake_def op_bind_def op_map_def reply_json_def split: prod.splits sum.splits)
    then show ?thesis by (rule steppingD [OF stepping_ensure])
  next
    case False
    then have "t = u"
      using f h by (cases q) (auto simp: checkAgentHandshake_def op_bind_def reply_json_def split: if_splits option.splits sum.splits)
    then show ?thesis by simp
  qed
  with su show "(agent_step E)\<^sup>*\<^sup>* s t" by (rule converse_rtranclp_into_rtranclp)
qed

lemma stepping_request [intro]: "path \<noteq> ''/v1/session'' \<Longrightarrow> stepping E (agent_request E method path body)"
  unfolding agent_request_def by (intro stepping_bind stepping_handshake stepping_send)

lemma stepping_json [intro]: "path \<noteq> ''/v1/session'' \<Longrightarrow> stepping E (agent_json E method path body)"
  unfolding agent_json_def by (intro stepping_bind stepping_request stepping_reply_json)

lemma stepping_consume [intro]: "stepping E (consume_events acc payloads)"
  by (induction payloads arbitrary: acc)
    (auto split: option.splits)

lemma stepping_preview [intro]: "stepping E (full_preview E i acc)"
proof (rule steppingI)
  fix s r t assume p: "full_preview E i acc s = (r, t)"
  show "(agent_step E)\<^sup>*\<^sup>* s t"
  proof (cases "is_text_body (ra_meta acc)")
    case True
    with p have "t = s\<lparr> ag_calls := ag_calls s @ [agent_call E ''GET'' (''/v1/history/'' @ i @ ''/body'') None [] s] \<rparr>"
      by (auto simp: full_preview_def op_bind_eq dest: fetch_state)
    then show ?thesis using agent_step.signed_call [of "''/v1/history/'' @ i @ ''/body''" E s "''GET''" None "[]"] by (simp add: r_into_rtranclp)
  next
    case False
    with p show ?thesis by (simp add: full_preview_def)
  qed
qed

lemma stepping_execute [intro]: "stepping E (executeEnvelopeViaAgent E envelope)"
  unfolding executeEnvelopeViaAgent_def started_id_def event_payloads_def
  by (intro stepping_bind stepping_json stepping_hooks stepping_send stepping_consume stepping_map stepping_preview stepping_pure)
    (auto split: wire.splits option.splits)

lemma stepping_load [intro]: "stepping E (loadEnvelopeViaAgent E i)"
  unfolding loadEnvelopeViaAgent_def stored_of_def by (intro stepping_bind stepping_json stepping_map) (auto split: wire.splits)

lemma run_case_steps: "run_case E item s = (c, t) \<Longrightarrow> (agent_step E)\<^sup>*\<^sup>* s t"
proof -
  assume r: "run_case E item s = (c, t)"
  let ?m = "op_bind (loadEnvelopeViaAgent E (rq_id item)) (\<lambda>stored.
       case stored of None \<Rightarrow> op_return (failed_case item RequestMissing)
       | Some envelope \<Rightarrow> op_map (finished_case item envelope) (executeEnvelopeViaAgent E envelope))"
  have "stepping E ?m" by (intro stepping_bind stepping_load) (auto split: option.splits)
  moreover obtain x u where "?m s = (x, u)" by fastforce
  moreover from this r have "u = t" by (auto simp: run_case_def split: sum.splits)
  ultimately show ?thesis by (blast dest: steppingD)
qed

lemma run_cases_steps: "run_cases E ff items s = (cs, t) \<Longrightarrow> (agent_step E)\<^sup>*\<^sup>* s t"
proof (induction items arbitrary: s cs t)
  case (Cons item items)
  obtain c u where r: "run_case E item s = (c, u)" by fastforce
  obtain ds w where rest: "run_cases E ff items u = (ds, w)" by fastforce
  from Cons.prems r rest have "t = u \<or> t = w" by (auto split: if_splits)
  with run_case_steps [OF r] Cons.IH [OF rest] show ?case by (auto intro: rtranclp_trans)
qed simp

section \<open>Operations that begin with the handshake\<close>

text \<open>The contract of an operation of the client: it begins with the handshake, and it takes steps of the client only.\<close>

locale gated_operation =
  fixes E :: agent_env and perform :: "'a agent_op"
  assumes gate: "\<exists>k. perform = op_bind (checkAgentHandshake E) k"
    and steps: "stepping E perform"
begin

lemma handshake_fails: "checkAgentHandshake E s = (Inl e, t) \<Longrightarrow> perform s = (Inl e, t)"
  using gate op_bind_fail by metis

lemma performed: "perform s = (r, t) \<Longrightarrow> (agent_step E)\<^sup>*\<^sup>* s t"
  by (rule steppingD [OF steps])

end

lemma gated_bind:
  assumes "gated_operation E m" and "\<And>x. stepping E (k x)"
  shows "gated_operation E (op_bind m k)"
proof
  from assms(1) obtain l where "m = op_bind (checkAgentHandshake E) l" by (auto simp: gated_operation_def)
  then show "\<exists>l. op_bind m k = op_bind (checkAgentHandshake E) l" by (auto simp: op_bind_assoc)
  show "stepping E (op_bind m k)" using assms by (auto simp: gated_operation_def)
qed

lemma gated_map: "gated_operation E m \<Longrightarrow> gated_operation E (op_map f m)"
  unfolding op_map_def by (intro gated_bind stepping_pure)

lemma gated_request: "path \<noteq> ''/v1/session'' \<Longrightarrow> gated_operation E (agent_request E method path body)"
  unfolding gated_operation_def by (auto simp: agent_request_def)

lemma gated_json: "path \<noteq> ''/v1/session'' \<Longrightarrow> gated_operation E (agent_json E method path body)"
  unfolding agent_json_def by (intro gated_bind gated_request stepping_reply_json)

lemma gated_capture: "path \<noteq> ''/v1/session'' \<Longrightarrow> gated_operation E (captureRequest E path method body)"
  unfolding captureRequest_def by (intro gated_bind gated_request) auto

lemma gated_mutate: "path \<noteq> ''/v1/session'' \<Longrightarrow> gated_operation E (mutateWorkspace E path method body)"
  unfolding mutateWorkspace_def by (intro gated_map gated_request)

lemma gated_create: "path \<noteq> ''/v1/session'' \<Longrightarrow> gated_operation E (createWorkspaceRecord E path body)"
  unfolding createWorkspaceRecord_def by (intro gated_json)

lemmas gated_intros = gated_map gated_request gated_json gated_capture gated_mutate gated_create

interpretation handshake_op: gated_operation E "checkAgentHandshake E" for E
proof
  have "checkAgentHandshake E = op_bind (checkAgentHandshake E) op_return"
    by (rule ext) (simp add: op_bind_def split: prod.splits sum.splits)
  then show "\<exists>k. checkAgentHandshake E = op_bind (checkAgentHandshake E) k" by blast
qed auto

interpretation tree_op: gated_operation E "getWorkspaceTreeViaAgent E" for E
  unfolding getWorkspaceTreeViaAgent_def by (intro gated_bind gated_intros) (auto split: wire.splits)

interpretation execute_op: gated_operation E "executeEnvelopeViaAgent E envelope" for E envelope
proof
  show "\<exists>k. executeEnvelopeViaAgent E envelope = op_bind (checkAgentHandshake E) k"
    unfolding executeEnvelopeViaAgent_def agent_json_def agent_request_def op_bind_assoc by blast
qed auto

interpretation run_op: gated_operation E "runCollectionViaAgent E collectionId failFast" for E collectionId failFast
  unfolding runCollectionViaAgent_def
  by (intro gated_bind tree_op.gated_operation_axioms steppingI) (auto dest: run_cases_steps split: prod.splits)

text \<open>The operations that begin with the handshake, their results left aside.\<close>

inductive handshake_operation :: "agent_env \<Rightarrow> unit agent_op \<Rightarrow> bool" for E where
  "handshake_operation E (op_map (\<lambda>_. ()) (loadEnvelopeViaAgent E i))"
| "handshake_operation E (op_map (\<lambda>_. ()) (listApiDefinitionsViaAgent E p))"
| "handshake_operation E (op_map (\<lambda>_. ()) (saveApiDefinitionViaAgent E p n f fn c))"
| "handshake_operation E (op_map (\<lambda>_. ()) (getRequestDefinitionBindingViaAgent E i))"
| "handshake_operation E (op_map (\<lambda>_. ()) (bindRequestDefinitionViaAgent E i d ref))"
| "handshake_operation E (op_map (\<lambda>_. ()) (unbindRequestDefinitionViaAgent E i))"
| "handshake_operation E (op_map (\<lambda>_. ()) (saveEnvelopeViaAgent E env pid cid))"
| "handshake_operation E (op_map (\<lambda>_. ()) (saveRequestViaAgent E req pid cid))"
| "handshake_operation E (op_map (\<lambda>_. ()) (loadRequestViaAgent E i))"
| "handshake_operation E (op_map (\<lambda>_. ()) (loadLatestRequestViaAgent E))"
| "handshake_operation E (op_map (\<lambda>_. ()) (putSecretViaAgent E n v))"
| "handshake_operation E (op_map (\<lambda>_. ()) (runAiAssistViaAgent E q))"
| "handshake_operation E (op_map (\<lambda>_. ()) (captureStatusViaAgent E))"
| "handshake_operation E (op_map (\<lambda>_. ()) (startCaptureViaAgent E a))"
| "handshake_operation E (op_map (\<lambda>_. ()) (stopCaptureViaAgent E))"
| "handshake_operation E (op_map (\<lambda>_. ()) (listCapturesViaAgent E))"
| "handshake_operation E (op_map (\<lambda>_. ()) (clearCapturesViaAgent E))"
| "handshake_operation E (op_map (\<lambda>_. ()) (listCookiesViaAgent E u))"
| "handshake_operation E (op_map (\<lambda>_. ()) (setCookieViaAgent E u n v))"
| "handshake_operation E (op_map (\<lambda>_. ()) (deleteCookieViaAgent E u n))"
| "handshake_operation E (op_map (\<lambda>_. ()) (getEnvironmentViaAgent E))"
| "handshake_operation E (op_map (\<lambda>_. ()) (saveEnvironmentViaAgent E vars srefs))"
| "handshake_operation E (op_map (\<lambda>_. ()) (listHistoryViaAgent E flt))"
| "handshake_operation E (op_map (\<lambda>_. ()) (getHistoryItemViaAgent E i))"
| "handshake_operation E (op_map (\<lambda>_. ()) (getWorkspaceTreeViaAgent E))"
| "handshake_operation E (op_map (\<lambda>_. ()) (createProjectViaAgent E i n))"
| "handshake_operation E (op_map (\<lambda>_. ()) (createModuleViaAgent E i n))"
| "handshake_operation E (op_map (\<lambda>_. ()) (createWorkspaceViaAgent E n))"
| "handshake_operation E (op_map (\<lambda>_. ()) (renameWorkspaceViaAgent E i n))"
| "handshake_operation E (op_map (\<lambda>_. ()) (archiveWorkspaceViaAgent E i b))"
| "handshake_operation E (op_map (\<lambda>_. ()) (touchWorkspaceViaAgent E i))"
| "handshake_operation E (op_map (\<lambda>_. ()) (deleteWorkspaceViaAgent E i))"
| "handshake_operation E (op_map (\<lambda>_. ()) (renameProjectViaAgent E i n))"
| "handshake_operation E (op_map (\<lambda>_. ()) (deleteProjectViaAgent E i))"
| "handshake_operation E (op_map (\<lambda>_. ()) (createCollectionViaAgent E p parent n m))"
| "handshake_operation E (op_map (\<lambda>_. ()) (renameCollectionViaAgent E i n parent so))"
| "handshake_operation E (op_map (\<lambda>_. ()) (updateCollectionTagsViaAgent E i ts))"
| "handshake_operation E (op_map (\<lambda>_. ()) (deleteCollectionViaAgent E i))"
| "handshake_operation E (op_map (\<lambda>_. ()) (deleteRequestViaAgent E i))"
| "handshake_operation E (op_map (\<lambda>_. ()) (moveRequestViaAgent E i p c))"
| "handshake_operation E (op_map (\<lambda>_. ()) (listMockRulesViaAgent E))"
| "handshake_operation E (op_map (\<lambda>_. ()) (createMockRuleViaAgent E rule))"
| "handshake_operation E (op_map (\<lambda>_. ()) (deleteMockRuleViaAgent E i))"
| "handshake_operation E (op_map (\<lambda>_. ()) (tcpSessionConnectionViaAgent E target))"
| "handshake_operation E (op_map (\<lambda>_. ()) (listPluginsViaAgent E))"
| "handshake_operation E (op_map (\<lambda>_. ()) (installPluginViaAgent E m w))"
| "handshake_operation E (op_map (\<lambda>_. ()) (enablePluginViaAgent E i b))"
| "handshake_operation E (op_map (\<lambda>_. ()) (deletePluginViaAgent E i))"
| "handshake_operation E (op_map (\<lambda>_. ()) (invokePluginViaAgent E i inp))"
| "handshake_operation E (op_map (\<lambda>_. ()) (executeEnvelopeViaAgent E env))"
| "handshake_operation E (op_map (\<lambda>_. ()) (executeViaAgent E req))"
| "handshake_operation E (op_map (\<lambda>_. ()) (runCollectionViaAgent E c ff))"

text \<open>All operations the web client offers: only the cancelling of an execution goes without the handshake.\<close>

inductive web_operation :: "agent_env \<Rightarrow> unit agent_op \<Rightarrow> bool" for E where
  handshakes: "handshake_operation E op \<Longrightarrow> web_operation E op"
| cancels: "web_operation E (cancelViaAgent E executionId)"

lemmas operation_defs =
    loadEnvelopeViaAgent_def listApiDefinitionsViaAgent_def saveApiDefinitionViaAgent_def
    getRequestDefinitionBindingViaAgent_def bindRequestDefinitionViaAgent_def unbindRequestDefinitionViaAgent_def
    saveEnvelopeViaAgent_def saveRequestViaAgent_def loadRequestViaAgent_def loadLatestRequestViaAgent_def
    putSecretViaAgent_def runAiAssistViaAgent_def captureStatusViaAgent_def startCaptureViaAgent_def
    stopCaptureViaAgent_def listCapturesViaAgent_def clearCapturesViaAgent_def listCookiesViaAgent_def
    setCookieViaAgent_def deleteCookieViaAgent_def getEnvironmentViaAgent_def saveEnvironmentViaAgent_def
    listHistoryViaAgent_def getHistoryItemViaAgent_def createProjectViaAgent_def createModuleViaAgent_def
    createWorkspaceViaAgent_def renameWorkspaceViaAgent_def archiveWorkspaceViaAgent_def touchWorkspaceViaAgent_def
    deleteWorkspaceViaAgent_def renameProjectViaAgent_def deleteProjectViaAgent_def createCollectionViaAgent_def
    renameCollectionViaAgent_def updateCollectionTagsViaAgent_def deleteCollectionViaAgent_def
    deleteRequestViaAgent_def moveRequestViaAgent_def listMockRulesViaAgent_def createMockRuleViaAgent_def
    deleteMockRuleViaAgent_def tcpSessionConnectionViaAgent_def listPluginsViaAgent_def installPluginViaAgent_def
    enablePluginViaAgent_def deletePluginViaAgent_def invokePluginViaAgent_def

lemmas operation_parts = stored_of_def stored_request_def environment_parts_def replay_of_def

lemma stepping_parts [intro]:
  "stepping E (stored_of w)" "stepping E (stored_request x)" "stepping E (environment_parts w)" "stepping E (replay_of e)"
  unfolding operation_parts by (auto split: wire.splits option.splits)

lemma stepping_read_only: "(\<And>s r t. m s = (r, t) \<Longrightarrow> t = s) \<Longrightarrow> stepping E m"
  by (rule steppingI) auto

lemma stepping_ticket: "stepping E (\<lambda>s. case w of
    WJson v \<Rightarrow> if nullish v then (Inl Malformed, s) else (Inr (f v s), s) | _ \<Rightarrow> (Inl Malformed, s))"
  by (rule stepping_read_only) (auto split: wire.splits if_splits)

lemma web_operation_gated: "handshake_operation E op \<Longrightarrow> gated_operation E op"
  by (induction rule: handshake_operation.induct; intro gated_map; (intro execute_op.gated_operation_axioms tree_op.gated_operation_axioms
      run_op.gated_operation_axioms | unfold executeViaAgent_def, intro execute_op.gated_operation_axioms
      | unfold operation_defs binding_path_def, intro gated_bind gated_intros stepping_parts stepping_ticket;
        auto split: wire.splits option.splits))

section \<open>The handshake protects the agent\<close>

text \<open>The agent answered the health call, and speaks the client's version of the protocol.\<close>

definition agent_compatible :: "agent_env \<Rightarrow> agent_client \<Rightarrow> bool" where
  "agent_compatible E s =
     (case en_agent E (ag_calls s) (health_call E s) of
        None \<Rightarrow> False
      | Some r \<Rightarrow> reply_ok r \<and> (case hr_json r of
           Some (WJson v) \<Rightarrow> \<not> nullish v \<and> js_get v ''protocolApiVersion'' = JStr PROTOCOL_API_VERSION
         | _ \<Rightarrow> False))"

abbreviation after_health :: "agent_env \<Rightarrow> agent_client \<Rightarrow> agent_client" where
  "after_health E s \<equiv> s\<lparr> ag_calls := ag_calls s @ [health_call E s] \<rparr>"

lemma handshake_refuses:
  "\<not> agent_compatible E s \<Longrightarrow> \<exists>e. checkAgentHandshake E s = (Inl e, after_health E s)"
  by (auto simp: agent_compatible_def checkAgentHandshake_def health_compatible_def op_bind_def fetch_def Let_def reply_json_def
      split: option.splits sum.splits wire.splits if_splits)

lemma handshake_accepts:
  "agent_compatible E s \<Longrightarrow> \<exists>v. checkAgentHandshake E s = op_map (\<lambda>_. v) (ensure_session E) (after_health E s)"
  by (auto simp: agent_compatible_def checkAgentHandshake_def health_compatible_def op_bind_def fetch_def Let_def reply_json_def
      split: option.splits sum.splits wire.splits if_splits)

text \<open>Cancelling sends its request, with the token, to whatever answers at the address of the agent.\<close>

abbreviation cancel_call :: "agent_env \<Rightarrow> string \<Rightarrow> agent_client \<Rightarrow> http_call" where
  "cancel_call E executionId s \<equiv> agent_call E ''POST'' (''/v1/executions/'' @ executionId @ ''/cancel'') None [] s"

lemma cancel_calls: "ag_calls (snd (cancelViaAgent E i s)) = ag_calls s @ [cancel_call E i s] \<and> ag_session (snd (cancelViaAgent E i s)) = ag_session s"
  by (auto simp: cancelViaAgent_def op_map_def op_bind_def send_call_def op_return_def op_fail_def fetch_def Let_def split: option.splits)

lemma cancel_path: "''/v1/executions/'' @ i @ ''/cancel'' \<noteq> ''/v1/session''"
  by simp

lemma web_operation_steps: "web_operation E op \<Longrightarrow> stepping E op"
proof (induction rule: web_operation.induct)
  case (handshakes op)
  then show ?case using gated_operation.steps [OF web_operation_gated] by blast
next
  case cancels
  show ?case unfolding cancelViaAgent_def by (intro stepping_map stepping_send cancel_path)
qed


definition sample_browser :: browser where
  "sample_browser = \<lparr> local_store = Map.empty, session_store = Map.empty, local_ok = True, session_ok = True, dispatched = [] \<rparr>"

definition sample_env :: "(http_call list \<Rightarrow> http_call \<Rightarrow> http_reply option) \<Rightarrow> agent_env" where
  "sample_env agent = \<lparr> en_agent = agent,
     en_runtime = \<lparr> rc_agentUrl = None, rc_agentToken = Some ''t'', rc_collaborationUrl = None, rc_origin = None \<rparr>,
     en_viteUrl = None, en_viteToken = None, en_uuid = ''u'', en_now = ''n'' \<rparr>"

definition silent_env :: agent_env where
  "silent_env = sample_env (\<lambda>_ _. None)"

definition silent_client :: agent_client where
  "silent_client = agent_init silent_env sample_browser"


section \<open>One session\<close>

lemma step_browser: "agent_step E s t \<Longrightarrow> ag_browser t = ag_browser s \<and> ag_bootstrap t = ag_bootstrap s"
  by (auto elim: agent_stepE)

lemma steps_browser: "(agent_step E)\<^sup>*\<^sup>* s t \<Longrightarrow> ag_browser t = ag_browser s"
  by (induction rule: rtranclp_induct) (auto dest: step_browser)

definition session_calls :: "agent_env \<Rightarrow> agent_client \<Rightarrow> http_call list" where
  "session_calls E s = filter (\<lambda>c. hc_url c = agentBase E (ag_browser s) @ ''/v1/session'') (ag_calls s)"

definition session_inv :: "agent_env \<Rightarrow> agent_client \<Rightarrow> bool" where
  "session_inv E s = (length (session_calls E s) = (if ag_session s = NoSession then 0 else 1))"

lemma step_session_inv: "agent_step E s t \<Longrightarrow> session_inv E s \<Longrightarrow> session_inv E t"
  by (erule agent_stepE)
    (auto simp: session_inv_def session_calls_def health_call_def session_call_def agent_call_def split: if_splits)

lemma steps_session_inv: "(agent_step E)\<^sup>*\<^sup>* s t \<Longrightarrow> session_inv E s \<Longrightarrow> session_inv E t"
  by (induction rule: rtranclp_induct) (auto intro: step_session_inv)

lemma operations_steps:
  "list_all (web_operation E) ops \<Longrightarrow> (agent_step E)\<^sup>*\<^sup>* s (fold (\<lambda>op u. snd (op u)) ops s)"
proof (induction ops arbitrary: s)
  case (Cons op ops)
  from Cons.prems have "web_operation E op" by simp
  from steppingD [OF web_operation_steps [OF this], of s "fst (op s)" "snd (op s)"]
  have "(agent_step E)\<^sup>*\<^sup>* s (snd (op s))" by simp
  with Cons show ?case by (auto intro: rtranclp_trans)
qed simp



lemma map_of_headers_set:
  "map_of (headers_set n v hs) k = (if k = n then Some v else if toLowerCase k = toLowerCase n then None else map_of hs k)"
proof -
  have "map_of (filter (\<lambda>(m, _). toLowerCase m \<noteq> toLowerCase n) hs) k = (if toLowerCase k = toLowerCase n then None else map_of hs k)"
    using map_of_filter_key [of "\<lambda>m. toLowerCase m \<noteq> toLowerCase n" hs k] by simp
  then show ?thesis by (auto simp: headers_set_def map_add_def split: option.splits)
qed

lemma agentHeaders_token:
  "truthy_text (ag_token s) \<Longrightarrow> map_of (agentHeaders extra s) ''Authorization'' = Some (''Bearer '' @ the (ag_token s))"
  by (simp add: agentHeaders_def Let_def map_of_headers_set)

lemma steps_signed:
  assumes "(agent_step E)\<^sup>*\<^sup>* s t" and "ag_session s = SessionOpen" and "truthy_text (ag_token s)"
  shows "ag_session t = SessionOpen \<and> ag_token t = ag_token s \<and> (\<exists>cs. ag_calls t = ag_calls s @ cs
    \<and> list_all (\<lambda>c. c = health_call E s \<or> map_of (hc_headers c) ''Authorization'' = Some (''Bearer '' @ the (ag_token s))) cs)"
  using assms(1)
proof (induction rule: rtranclp_induct)
  case base
  with assms show ?case by auto
next
  case (step t u)
  then have b: "ag_browser t = ag_browser s" and k: "truthy_text (ag_token t)" using steps_browser assms(3) by auto
  from b have h: "health_call E t = health_call E s" by (simp add: health_call_def)
  from step.hyps(2) step.IH k h show ?case
    by (elim agent_stepE) (auto simp: agent_call_def agentHeaders_token)
qed

text \<open>Once a session is open every call carries the session's token, except the health call, which carries none; no
  operation changes the token.\<close>

theorem session_token_used:
  assumes "web_operation E op" and "op s = (r, t)" and "ag_session s = SessionOpen" and "truthy_text (ag_token s)"
  shows "ag_token t = ag_token s \<and> (\<exists>cs. ag_calls t = ag_calls s @ cs \<and>
    list_all (\<lambda>c. c = health_call E s \<or> map_of (hc_headers c) ''Authorization'' = Some (''Bearer '' @ the (ag_token s))) cs)"
  using steps_signed [OF steppingD [OF web_operation_steps [OF assms(1)] assms(2)] assms(3,4)] by blast


definition healthy_agent :: "http_call list \<Rightarrow> http_call \<Rightarrow> http_reply option" where
  "healthy_agent calls c = Some \<lparr> hr_status = 200, hr_text = [],
     hr_json = Some (WJson (JObj [(''protocolApiVersion'', JStr ''1''), (''token'', JStr ''s'')])), hr_chunks = None \<rparr>"

definition sample_client :: "session \<Rightarrow> agent_client" where
  "sample_client session = (agent_init (sample_env healthy_agent) sample_browser)\<lparr> ag_session := session \<rparr>"

lemma sample_compatible: "agent_compatible (sample_env healthy_agent) s"
  by (simp add: agent_compatible_def sample_env_def healthy_agent_def reply_ok_def health_compatible_def obj_get_def nullish_def PROTOCOL_API_VERSION_def)

definition refused_client :: agent_client where
  "refused_client = sample_client (SessionRejected (SessionExchangeFailed 503))"


theorem session_token_used_witness:
  "ag_token (snd (op_map (\<lambda>_. ()) (listMockRulesViaAgent (sample_env healthy_agent)) (sample_client SessionOpen))) = ag_token (sample_client SessionOpen)"
proof -
  have "truthy_text (ag_token (sample_client SessionOpen))"
    by (simp add: sample_client_def agent_init_def sample_env_def configuredAgentToken_def truthy_text_def sample_browser_def readLocal_def Let_def)
  moreover have "ag_session (sample_client SessionOpen) = SessionOpen" by (simp add: sample_client_def)
  moreover have "web_operation (sample_env healthy_agent) (op_map (\<lambda>_. ()) (listMockRulesViaAgent (sample_env healthy_agent)))"
    by (intro web_operation.intros handshake_operation.intros)
  ultimately show ?thesis using session_token_used by (metis prod.collapse)
qed

section \<open>The event stream\<close>

lemma split_blocks_not_Nil [simp]: "split_blocks s \<noteq> []"
  by (induction s rule: split_blocks.induct) auto

lemma split_blocks_single: "split_blocks s = [h] \<Longrightarrow> h = s"
proof (induction s arbitrary: h rule: split_blocks.induct)
  case (3 c d r)
  then show ?case by (cases "split_blocks (d # r)") (auto split: if_splits)
qed auto

lemma split_blocks_append:
  "split_blocks (x @ y) = butlast (split_blocks x) @ split_blocks (last (split_blocks x) @ y)"
proof (induction x rule: split_blocks.induct)
  case (3 c d r)
  show ?case
  proof (cases "c = NL \<and> d = NL")
    case True
    with 3 show ?thesis by simp
  next
    case False
    let ?q = "split_blocks (d # r)"
    obtain h t where q: "?q = h # t" by (cases ?q) auto
    from False 3(2) have IH: "split_blocks (d # r @ y) = butlast ?q @ split_blocks (last ?q @ y)" by auto
    show ?thesis
    proof (cases "t = []")
      case True
      with q split_blocks_single have "h = d # r" by blast
      with True False q show ?thesis by auto
    next
      case t: False
      have l: "split_blocks (c # d # r) = (c # h) # t" using False q by auto
      have "split_blocks (c # d # r @ y) = (c # hd (split_blocks (d # r @ y))) # tl (split_blocks (d # r @ y))" using False by simp
      also have "\<dots> = butlast ((c # h) # t) @ split_blocks (last t @ y)" using IH q t by simp
      finally show ?thesis using l t by simp
    qed
  qed
qed simp_all

lemma readSseEvents_whole:
  "readSseEvents buffer pieces = concat (map block_data (butlast (split_blocks (buffer @ concat pieces))))"
  if "butlast (split_blocks buffer) = []"
  using that
proof (induction pieces arbitrary: buffer)
  case Nil
  then show ?case by simp
next
  case (Cons piece pieces)
  let ?c = "split_blocks (buffer @ piece)"
  have "butlast (split_blocks (last ?c)) = []"
    using split_blocks_append [of "buffer @ piece" "[]"] by (metis append.right_neutral append_butlast_last_id append_eq_append_conv2
        butlast.simps(2) same_append_eq split_blocks_not_Nil)
  from Cons.IH [OF this] have "readSseEvents buffer (piece # pieces) =
      concat (map block_data (butlast ?c @ butlast (split_blocks (last ?c @ concat pieces))))"
    by (simp add: Let_def)
  also have "butlast ?c @ butlast (split_blocks (last ?c @ concat pieces)) = butlast (split_blocks (buffer @ concat (piece # pieces)))"
    using split_blocks_append [of "buffer @ piece" "concat pieces"] by (simp add: butlast_append)
  finally show ?case .
qed

text \<open>C16: the events read from a stream depend on its text only, not on how the network cut it into pieces: cutting a line, a
  block or the blank line between blocks changes nothing.\<close>

theorem sse_pieces_irrelevant:
  "concat pieces = concat pieces' \<Longrightarrow> readSseEvents [] pieces = readSseEvents [] pieces'"
  by (simp add: readSseEvents_whole)

theorem sse_pieces_irrelevant_witness:
  "readSseEvents [] [''data:a'' @ [NL], [NL] @ ''da'', ''ta: b'' @ [NL, NL]] = readSseEvents [] [''data:a'' @ [NL, NL] @ ''data: b'' @ [NL, NL]]"
  by (rule sse_pieces_irrelevant) simp

section \<open>Runs\<close>

lemma run_event_count [simp]: "ra_eventCount (run_event acc e) = ra_eventCount acc + 1"
  by (cases e) (simp_all add: run_event_def Let_def)

text \<open>The events of the payloads of a stream, when each is JSON of the declared type.\<close>

definition payload_event :: "string \<Rightarrow> ExecutionEvent option" where
  "payload_event payload = Option.bind (JSON_parse payload) event_of"

lemma consume_events_fold:
  "all_some (map payload_event payloads) = Some events \<Longrightarrow>
   consume_events acc payloads s = (Inr (foldl run_event acc events), s\<lparr> ag_hooks := ag_hooks s @ concat (map event_hooks events) \<rparr>)"
proof (induction payloads arbitrary: acc events s)
  case Nil
  then show ?case by simp
next
  case (Cons payload payloads)
  then obtain e es where p: "payload_event payload = Some e" and es: "all_some (map payload_event payloads) = Some es" "events = e # es"
    by (cases "payload_event payload") auto
  from p obtain v where "JSON_parse payload = Some v" "event_of v = Some e"
    by (auto simp: payload_event_def Option.bind_eq_Some_conv)
  with es Cons.IH [of es "run_event acc e" "s\<lparr> ag_hooks := ag_hooks s @ event_hooks e \<rparr>"] show ?case
    by (simp add: op_bind_def add_hooks_def)
qed

lemma run_preview: "ra_preview (foldl run_event acc events) = foldl reduceCompletedResponsePreview (ra_preview acc) events"
  by (induction events arbitrary: acc) (auto simp: run_event_def Let_def split: ExecutionEvent.splits)

lemma run_count: "ra_eventCount (foldl run_event acc events) = ra_eventCount acc + length events"
  by (induction events arbitrary: acc) auto

fun last_summary :: "ExecutionEvent list \<Rightarrow> ExecutionSummary option \<Rightarrow> ExecutionSummary option" where
  "last_summary [] found = found"
| "last_summary (CompletedEv x # es) found = last_summary es (Some x)"
| "last_summary (_ # es) found = last_summary es found"

lemma run_summary: "ra_summary (foldl run_event acc events) = last_summary events (ra_summary acc)"
proof (induction events arbitrary: acc)
  case (Cons e es)
  then show ?case by (cases e) (simp_all add: run_event_def Let_def)
qed simp

lemma consume_events_Inr:
  "consume_events acc payloads s = (Inr acc', t) \<Longrightarrow>
   \<exists>events. all_some (map payload_event payloads) = Some events \<and> acc' = foldl run_event acc events"
proof (induction payloads arbitrary: acc s)
  case (Cons payload payloads)
  from Cons.prems obtain v e where p: "JSON_parse payload = Some v" "event_of v = Some e"
    by (auto split: option.splits)
  with Cons.prems obtain u where "consume_events (run_event acc e) payloads u = (Inr acc', t)"
    by (auto simp: op_bind_def add_hooks_def)
  from Cons.IH [OF this] p show ?case by (auto simp: payload_event_def)
qed simp

fun event_assertions :: "ExecutionEvent list \<Rightarrow> AssertionResultEvent list" where
  "event_assertions [] = []"
| "event_assertions (AssertionResult a # es) = a # event_assertions es"
| "event_assertions (_ # es) = event_assertions es"

lemma run_assertions: "ra_assertions (foldl run_event acc events) = ra_assertions acc @ event_assertions events"
proof (induction events arbitrary: acc)
  case (Cons e es)
  then show ?case by (cases e) (simp_all add: run_event_def Let_def)
qed simp

lemma execute_stream:
  assumes "executeEnvelopeViaAgent E envelope s = (Inr result, t)"
  shows "\<exists>i past call answer pieces events preview. en_agent E past call = Some answer \<and> hr_chunks answer = Some pieces
    \<and> hc_url call = agentBase E (ag_browser s) @ ''/v1/executions/'' @ i @ ''/events''
    \<and> all_some (map payload_event (readSseEvents [] pieces)) = Some events
    \<and> result = run_result E envelope i (foldl run_event run_start events) preview"
proof -
  obtain w i u1 u2 r u3 payloads acc u4 preview where
    j: "agent_json E ''POST'' ''/v1/executions'' (Some (WEnvelope envelope)) s = (Inr w, u1)" and i: "started_id w u1 = (Inr i, u2)"
    and c: "send_call E ''GET'' (''/v1/executions/'' @ i @ ''/events'') None [(''Accept'', ''text/event-stream'')]
        (u2\<lparr> ag_hooks := ag_hooks u2 @ [OnStarted i] \<rparr>) = (Inr r, u3)"
    and p: "event_payloads r u3 = (Inr payloads, u3)" and a: "\<exists>u. consume_events run_start payloads u3 = (Inr acc, u)"
    and res: "result = run_result E envelope i acc preview"
    using assms unfolding executeEnvelopeViaAgent_def op_map_def
    by (auto simp: op_bind_eq add_hooks_def event_payloads_def split: option.splits)
  have "u2 = u1" using i by (auto simp: started_id_def split: wire.splits if_splits)
  moreover have "ag_browser u1 = ag_browser s"
    using steppingD [OF stepping_json j] steps_browser by simp
  moreover obtain pieces where "hr_chunks r = Some pieces" "payloads = readSseEvents [] pieces"
    using p by (auto simp: event_payloads_def split: option.splits)
  moreover obtain events where "all_some (map payload_event payloads) = Some events" "acc = foldl run_event run_start events"
    using a consume_events_Inr by blast
  moreover have "\<exists>past call. en_agent E past call = Some r \<and> hc_url call = agentBase E (ag_browser u2) @ ''/v1/executions/'' @ i @ ''/events''"
    using c by (fastforce simp: send_call_def op_bind_def fetch_def Let_def agent_call_def split: option.splits if_splits)
  ultimately show ?thesis using res by metis
qed

text \<open>C7: what an execution returns is what its event stream says: the number of events, the assertion results in order, and the
  summary of the last completion; without any completion the run is reported with an error.\<close>

theorem execution_reports_stream:
  assumes "executeEnvelopeViaAgent E envelope s = (Inr result, t)"
  shows "\<exists>i past call answer pieces events. en_agent E past call = Some answer \<and> hr_chunks answer = Some pieces
    \<and> hc_url call = agentBase E (ag_browser s) @ ''/v1/executions/'' @ i @ ''/events''
    \<and> all_some (map payload_event (readSseEvents [] pieces)) = Some events
    \<and> hr_executionId result = Some i \<and> hr_eventCount result = length events \<and> hr_assertions result = event_assertions events
    \<and> (case last_summary events None of Some x \<Rightarrow> hr_summary result = x | None \<Rightarrow> hr_error result \<noteq> None)"
proof -
  from execute_stream [OF assms] obtain i past call answer pieces events preview where
    x: "en_agent E past call = Some answer" "hr_chunks answer = Some pieces"
      "hc_url call = agentBase E (ag_browser s) @ ''/v1/executions/'' @ i @ ''/events''"
      "all_some (map payload_event (readSseEvents [] pieces)) = Some events"
    and r: "result = run_result E envelope i (foldl run_event run_start events) preview" by blast
  have "ra_summary (foldl run_event run_start events) = last_summary events None"
    by (simp add: run_summary run_start_def)
  with r have "hr_executionId result = Some i \<and> hr_eventCount result = length events \<and> hr_assertions result = event_assertions events
    \<and> (case last_summary events None of Some x \<Rightarrow> hr_summary result = x | None \<Rightarrow> hr_error result \<noteq> None)"
    by (auto simp: run_result_def run_count run_assertions run_start_def split: option.splits)
  with x show ?thesis by blast
qed

text \<open>An agent with one request whose execution sends a comment and ends.\<close>

definition sample_request :: HttpWorkbenchRequest where
  "sample_request = \<lparr> hw_id = Some ''r'', hw_name = Some ''R'', hw_url = ''http://h/'', hw_method = ''GET'', hw_headers = [], hw_body = None,
     hw_bodyEncoding = None, hw_bodySource = None, hw_multipart = None, hw_timeoutMs = 1, hw_variables = [], hw_assertions = [],
     hw_auth = None, hw_followRedirects = True, hw_retryMax = 0, hw_retryBackoffMs = 0, hw_proxy = None, hw_tlsVerify = True,
     hw_tlsClientCertRef = None, hw_environmentRef = None, hw_preScripts = None, hw_postScripts = None, hw_metadata = None \<rparr>"

definition sample_item :: tree_item where
  "sample_item = \<lparr> ti_record = \<lparr> rq_id = ''r'', rq_projectId = ''p'', rq_collectionId = ''c'', rq_name = ''R'', rq_protocolId = None,
     rq_method = None, rq_target = ''http://h/'', rq_variables = None, rq_metadata = None \<rparr>, ti_envelope = None \<rparr>"

definition quiet_agent :: "http_call list \<Rightarrow> http_call \<Rightarrow> http_reply option" where
  "quiet_agent calls c = Some \<lparr> hr_status = 200, hr_text = [],
     hr_json = Some (if endsWith (hc_url c) ''/workspace-tree''
       then WTree \<lparr> wt_workspaces = [], wt_projects = [], wt_modules = None, wt_collections = [], wt_requests = [] \<rparr> [sample_item]
       else if endsWith (hc_url c) ''/requests/r''
       then WStored (Some \<lparr> st_id = ''r'', st_target = [], st_envelope = toEnvelope (sample_env healthy_agent) sample_request \<rparr>)
       else WJson (JObj [(''protocolApiVersion'', JStr ''1''), (''token'', JStr ''s''), (''executionId'', JStr ''x'')])),
     hr_chunks = Some ['': ping'' @ [NL], [NL]] \<rparr>"

definition sample_state :: agent_client where
  "sample_state = agent_init (sample_env quiet_agent) sample_browser"

definition sample_envelope :: RequestEnvelope where
  "sample_envelope = toEnvelope (sample_env healthy_agent) sample_request"

lemma sample_run: "map_sum (\<lambda>_. ()) hr_executionId (fst (executeEnvelopeViaAgent (sample_env quiet_agent) sample_envelope sample_state)) = Inr (Some ''x'')"
  by code_simp

theorem execution_reports_stream_witness:
  "\<exists>result t. executeEnvelopeViaAgent (sample_env quiet_agent) sample_envelope sample_state = (Inr result, t)
     \<and> hr_eventCount result = 0 \<and> hr_error result \<noteq> None"
proof -
  obtain x t where e: "executeEnvelopeViaAgent (sample_env quiet_agent) sample_envelope sample_state = (x, t)" by fastforce
  then have "map_sum (\<lambda>_. ()) hr_executionId x = Inr (Some ''x'')" using sample_run by (simp only: fst_conv)
  then obtain result where r: "x = Inr result" by (cases x) auto
  from execution_reports_stream [OF e [unfolded r]] obtain past call answer pieces events where
    a: "en_agent (sample_env quiet_agent) past call = Some answer" "hr_chunks answer = Some pieces"
      "all_some (map payload_event (readSseEvents [] pieces)) = Some events" "hr_eventCount result = length events"
      "case last_summary events None of Some x \<Rightarrow> hr_summary result = x | None \<Rightarrow> hr_error result \<noteq> None" by blast
  from a(1,2) have "pieces = ['': ping'' @ [NL], [NL]]" by (auto simp: sample_env_def quiet_agent_def)
  then have "readSseEvents [] pieces = []" by (simp add: block_data_def NL_def)
  with a(3) have "events = []" by simp
  with a(4,5) have "hr_eventCount result = 0" "hr_error result \<noteq> None" by simp_all
  with e r show ?thesis by blast
qed

section \<open>Runs of a collection\<close>

lemma run_case_id: "run_case E item s = (c, t) \<Longrightarrow> cr_requestId c = rq_id item"
  by (auto simp: run_case_def failed_case_def finished_case_def op_bind_eq op_map_def Let_def split: prod.splits sum.splits option.splits)

definition run_report :: "bool \<Rightarrow> RequestRecord list \<Rightarrow> CollectionRunCase list \<Rightarrow> bool" where
  "run_report failFast items cs \<longleftrightarrow>
     map cr_requestId cs = map rq_id (take (length cs) items)
     \<and> (length cs \<noteq> length items \<longrightarrow> failFast \<and> cs \<noteq> [] \<and> \<not> cr_passed (last cs))
     \<and> (failFast \<longrightarrow> list_all cr_passed (butlast cs))"

lemma run_cases_report: "run_cases E failFast items s = (cs, t) \<Longrightarrow> run_report failFast items cs"
proof (induction items arbitrary: s cs t)
  case Nil
  then show ?case by (simp add: run_report_def)
next
  case (Cons item items)
  obtain c u where r: "run_case E item s = (c, u)" by fastforce
  obtain ds w where rest: "run_cases E failFast items u = (ds, w)" by fastforce
  note i = run_case_id [OF r] and IH = Cons.IH [OF rest]
  show ?case
  proof (cases "failFast \<and> \<not> cr_passed c")
    case True
    with Cons.prems r i show ?thesis by (auto simp: run_report_def)
  next
    case False
    with Cons.prems r rest have "cs = c # ds" by auto
    with False IH i show ?thesis by (auto simp: run_report_def)
  qed
qed

text \<open>A collection run reports one case per request of the collection, in the order of the tree; it stops early only when asked
  to, and then exactly after its first failing case.\<close>

theorem collection_run_report:
  assumes "runCollectionViaAgent E collectionId failFast s = (Inr cs, t)"
  shows "\<exists>tree u. getWorkspaceTreeViaAgent E s = (Inr tree, u)
    \<and> run_report failFast (filter (\<lambda>r. rq_collectionId r = collectionId) (wt_requests tree)) cs"
proof -
  let ?items = "\<lambda>tree. filter (\<lambda>r. rq_collectionId r = collectionId) (wt_requests tree)"
  obtain q u where g: "getWorkspaceTreeViaAgent E s = (q, u)" by fastforce
  with assms obtain tree where q: "q = Inr tree" by (cases q) (auto simp: runCollectionViaAgent_def op_bind_def)
  obtain ds w where "run_cases E failFast (?items tree) u = (ds, w)" by fastforce
  with assms g q have "run_cases E failFast (?items tree) u = (cs, t)" by (simp add: runCollectionViaAgent_def op_bind_def)
  with g q have "getWorkspaceTreeViaAgent E s = (Inr tree, u)" "run_cases E failFast (?items tree) u = (cs, t)" by simp_all
  then show ?thesis using run_cases_report by blast
qed

lemma sample_tree_read:
  "map_sum (\<lambda>_. ()) (\<lambda>tree. map rq_id (filter (\<lambda>r. rq_collectionId r = ''c'') (wt_requests tree)))
     (fst (getWorkspaceTreeViaAgent (sample_env quiet_agent) sample_state)) = Inr [''r'']"
  by code_simp

theorem collection_run_report_witness:
  "\<exists>cs t. runCollectionViaAgent (sample_env quiet_agent) ''c'' True sample_state = (Inr cs, t) \<and> map cr_requestId cs = [''r'']"
proof -
  obtain x u where g: "getWorkspaceTreeViaAgent (sample_env quiet_agent) sample_state = (x, u)" by fastforce
  then have "map_sum (\<lambda>_. ()) (\<lambda>tree. map rq_id (filter (\<lambda>r. rq_collectionId r = ''c'') (wt_requests tree))) x = Inr [''r'']"
    using sample_tree_read by (simp only: fst_conv)
  then obtain tree where x: "x = Inr tree" "map rq_id (filter (\<lambda>r. rq_collectionId r = ''c'') (wt_requests tree)) = [''r'']"
    by (cases x) auto
  obtain cs t where r: "runCollectionViaAgent (sample_env quiet_agent) ''c'' True sample_state = (Inr cs, t)"
    using g x(1) by (cases "run_cases (sample_env quiet_agent) True (filter (\<lambda>r. rq_collectionId r = ''c'') (wt_requests tree)) u")
      (simp add: runCollectionViaAgent_def op_bind_def)
  from collection_run_report [OF r] g x(1) have "run_report True (filter (\<lambda>r. rq_collectionId r = ''c'') (wt_requests tree)) cs" by auto
  then have "map cr_requestId cs = [''r'']" using x(2) unfolding run_report_def
    by (cases cs; cases "filter (\<lambda>r. rq_collectionId r = ''c'') (wt_requests tree)") auto
  with r show ?thesis by (intro exI conjI)
qed

text \<open>A stream that ends before any summary and any error is reported as completed, and the collection run counts it as passed.\<close>

lemma truncated_stream_passes:
  "cr_passed (finished_case item envelope (run_result E envelope i run_start preview))"
  by (simp add: finished_case_def run_result_def run_start_def truthy_text_def)

section \<open>Envelopes\<close>

text \<open>C28: a request put into an envelope and read back is the same request up to the defaults of the envelope: its name, its
  identifier, the upper case of its method. The environment it was made for is not kept.\<close>

theorem envelope_roundtrip:
  "fromEnvelope (toEnvelope E r) fallback = Inr (r
     \<lparr> hw_id := Some (if truthy_text (hw_id r) then the (hw_id r) else en_uuid E),
       hw_name := Some (or_default (hw_name r) (toUpperCase (hw_method r) @ '' '' @ hw_url r)),
       hw_url := (if hw_url r \<noteq> [] then hw_url r else or_default fallback []),
       hw_method := toUpperCase (hw_method r),
       hw_bodyEncoding := Some (or_default (hw_bodyEncoding r) EncText),
       hw_multipart := Some (or_default (hw_multipart r) []),
       hw_environmentRef := None,
       hw_preScripts := Some (or_default (hw_preScripts r) []),
       hw_postScripts := Some (or_default (hw_postScripts r) []),
       hw_metadata := Some (JObj (spread [] (entries (or_default (hw_metadata r) JNull)))) \<rparr>)"
  by (simp add: toEnvelope_def fromEnvelope_def createHttpRequest_def Let_def nullish_def)

end
