(* ===== verification/PayloadCodec.thy ===== *)
theory PayloadCodec imports FormUrl JsRegex JsonText begin

text \<open>
  Payloads as bytes (\<^verbatim>\<open>packages/ui/src/TcpPayloadCodec.ts\<close> and the encoders of \<^verbatim>\<open>HttpWorkbench.tsx\<close>): Base64, hex,
  MessagePack in both directions, the shallow XML check and its layout. A byte is a number below 256. The decoder
  of MessagePack recurses as deep as the values are nested; its fuel is the length of the input, which is enough
  since every value takes at least one byte. Bytes that are not UTF-8, or that name characters beyond the model's
  strings, give \<open>BadUtf8\<close>.
\<close>

section \<open>Base64\<close>

definition b64_char :: "nat \<Rightarrow> char" where
  "b64_char n =
     (if n < 26 then char_of (65 + n) else if n < 52 then char_of (71 + n) else if n < 62 then char_of (n - 4)
      else if n = 62 then CHR ''+'' else CHR ''/'')"

definition b64_val :: "char \<Rightarrow> nat option" where
  "b64_val c =
     (let n = code c in
      if 65 \<le> n \<and> n \<le> 90 then Some (n - 65) else if 97 \<le> n \<and> n \<le> 122 then Some (n - 71)
      else if 48 \<le> n \<and> n \<le> 57 then Some (n + 4) else if c = CHR ''+'' then Some 62 else if c = CHR ''/'' then Some 63 else None)"

fun b64_text :: "nat list \<Rightarrow> string" where
  "b64_text [] = []"
| "b64_text [a] = [b64_char (a div 4), b64_char (a mod 4 * 16)] @ ''==''"
| "b64_text [a, b] = [b64_char (a div 4), b64_char (a mod 4 * 16 + b div 16), b64_char (b mod 16 * 4)] @ ''=''"
| "b64_text (a # b # c # r) =
     [b64_char (a div 4), b64_char (a mod 4 * 16 + b div 16), b64_char (b mod 16 * 4 + c div 64), b64_char (c mod 64)] @ b64_text r"

fun b64_bytes :: "nat list \<Rightarrow> nat list" where
  "b64_bytes (a # b # c # d # r) = [a * 4 + b div 16, b mod 16 * 16 + c div 4, c mod 4 * 64 + d] @ b64_bytes r"
| "b64_bytes [a, b, c] = [a * 4 + b div 16, b mod 16 * 16 + c div 4]"
| "b64_bytes [a, b] = [a * 4 + b div 16]"
| "b64_bytes _ = []"

text \<open>\<^verbatim>\<open>btoa\<close> and \<^verbatim>\<open>atob\<close> of the platform, on texts of one-byte characters.\<close>

definition btoa :: "string \<Rightarrow> string" where
  "btoa s = b64_text (map code s)"

definition strip_pad :: "string \<Rightarrow> string" where
  "strip_pad s = (if endsWith s ''=='' then take (length s - 2) s else if endsWith s ''='' then take (length s - 1) s else s)"

definition ascii_ws :: "char \<Rightarrow> bool" where
  "ascii_ws c = (c \<in> {CHR 0x09, CHR 0x0A, CHR 0x0C, CHR 0x0D, CHR '' ''})"

definition atob :: "string \<Rightarrow> string option" where
  "atob s =
     (let t = filter (\<lambda>c. \<not> ascii_ws c) s; u = (if length t mod 4 = 0 then strip_pad t else t)
      in if length u mod 4 = 1 then None
         else map_option (map char_of \<circ> b64_bytes) (all_some (map b64_val u)))"

text \<open>The bytes as one-byte characters, 32768 at a time.\<close>

function binary_text :: "nat list \<Rightarrow> string" where
  "binary_text octets = (if octets = [] then [] else map char_of (take 0x8000 octets) @ binary_text (drop 0x8000 octets))"
  by pat_completeness auto
termination
  by (relation "measure length") (auto simp: length_greater_0_conv)

declare binary_text.simps [simp del]

definition bytesToBase64 :: "nat list \<Rightarrow> string" where
  "bytesToBase64 octets = btoa (binary_text octets)"

definition base64Bytes :: "string \<Rightarrow> nat list option" where
  "base64Bytes v = map_option (map code) (atob v)"

datatype codec_error =
    BadBase64 | BadHex | BadXml | BadJson | BadUtf8 | Incomplete | Unsupported nat | Trailing nat | NotPacked | TooDeep

definition BASE64_TEXT :: re where
  "BASE64_TEXT = RSeqs [RBol, RStar (RSet (\<lambda>c. is_alpha c \<or> is_digit c \<or> c = CHR ''+'' \<or> c = CHR ''/'')), RUpTo 2 (RLit ''=''), REol]"

definition base64ToBytes :: "string \<Rightarrow> (codec_error, nat list) result" where
  "base64ToBytes v =
     (let compact = filter (\<lambda>c. \<not> js_ws c) v in
      if compact = [] \<or> \<not> rtest BASE64_TEXT compact \<or> length compact mod 4 \<noteq> 0 then Inl BadBase64
      else case base64Bytes compact of None \<Rightarrow> Inl BadBase64 | Some octets \<Rightarrow> Inr octets)"

section \<open>Hex\<close>

definition strip_0x :: "string \<Rightarrow> string" where
  "strip_0x s = (if startsWith (toLowerCase s) ''0x'' then drop 2 s else s)"

fun hex_pairs :: "string \<Rightarrow> nat list option" where
  "hex_pairs [] = Some []"
| "hex_pairs [c] = None"
| "hex_pairs (a # b # r) =
     (case hex2 a b of None \<Rightarrow> None | Some n \<Rightarrow> map_option ((#) n) (hex_pairs r))"

definition hexToBytes :: "string \<Rightarrow> (codec_error, nat list) result" where
  "hexToBytes v =
     (let compact = strip_0x (filter (\<lambda>c. \<not> js_ws c) v) in
      if compact = [] \<or> length compact mod 2 \<noteq> 0 \<or> \<not> list_all (\<lambda>c. hex_val c \<noteq> None) compact then Inl BadHex
      else case hex_pairs compact of None \<Rightarrow> Inl BadHex | Some octets \<Rightarrow> Inr octets)"

text \<open>\<^verbatim>\<open>byte.toString(16).padStart(2, "0")\<close>.\<close>

definition hex_byte :: "nat \<Rightarrow> string" where
  "hex_byte b = [hex_digit (b div 16), hex_digit (b mod 16)]"

section \<open>MessagePack\<close>

text \<open>Numbers in network order, as \<^verbatim>\<open>DataView\<close> stores and reads them.\<close>

fun be_bytes :: "nat \<Rightarrow> nat \<Rightarrow> nat list" where
  "be_bytes 0 w = []"
| "be_bytes (Suc n) w = be_bytes n (w div 256) @ [w mod 256]"

definition be_val :: "nat list \<Rightarrow> nat" where
  "be_val bs = foldl (\<lambda>acc b. acc * 256 + b) 0 bs"

definition push16 :: "nat \<Rightarrow> nat list" where
  "push16 n = [n div 256 mod 256, n mod 256]"

definition float64_word :: "bool \<Rightarrow> nat \<Rightarrow> nat \<Rightarrow> nat" where
  "float64_word neg biased frac = (if neg then 2 ^ 63 else 0) + biased * 2 ^ 52 + frac"

text \<open>The word of \<open>q / 2 ^ k\<close>.\<close>

definition float64_ratio :: "bool \<Rightarrow> nat \<Rightarrow> nat \<Rightarrow> nat" where
  "float64_ratio neg q k =
     (let L = bit_len q in
      if q = 0 then 0
      else if k + 1 \<le> L + 1022 then
        float64_word neg (L + 1022 - k) ((if L \<le> 53 then q * 2 ^ (53 - L) else q div 2 ^ (L - 53)) - 2 ^ 52)
      else float64_word neg 0 (q * 2 ^ (1074 - k)))"

fun float64_bits :: "jsnum \<Rightarrow> nat" where
  "float64_bits (NInt i) = float64_ratio (i < 0) (nat \<bar>i\<bar>) 0"
| "float64_bits (NFrac m k) = float64_ratio (m < 0) (nat \<bar>m\<bar>) k"
| "float64_bits NPosInf = float64_word False 2047 0"
| "float64_bits NNegInf = float64_word True 2047 0"
| "float64_bits NNaN = float64_word False 2047 (2 ^ 51)"

definition read_float :: "nat \<Rightarrow> nat \<Rightarrow> nat \<Rightarrow> jsnum" where
  \<comment> \<open>the number of a word with \<open>e\<close> exponent bits and \<open>f\<close> fraction bits\<close>
  "read_float e f w =
     (let neg = odd (w div 2 ^ (e + f)); biased = w div 2 ^ f mod 2 ^ e; frac = w mod 2 ^ f; bias = 2 ^ (e - 1) - 1 in
      if biased = 2 ^ e - 1 then (if frac = 0 then (if neg then NNegInf else NPosInf) else NNaN)
      else if biased = 0 then mk_num neg frac (1 - int bias - int f)
      else mk_num neg (2 ^ f + frac) (int biased - int bias - int f))"

definition pack_number :: "jsnum \<Rightarrow> nat list" where
  "pack_number n =
     (case n of
        NInt i \<Rightarrow>
          if 0 \<le> i \<and> i \<le> 0x7f then [nat i]
          else if - 32 \<le> i \<and> i < 0 then [nat (0x100 + i)]
          else if 0 \<le> i \<and> i \<le> 0xff then [0xcc, nat i]
          else if 0 \<le> i \<and> i \<le> 0xffff then 0xcd # push16 (nat i)
          else if - 128 \<le> i \<and> i < 0 then [0xd0, nat (i mod 256)]
          else 0xcb # be_bytes 8 (float64_bits n)
      | _ \<Rightarrow> 0xcb # be_bytes 8 (float64_bits n))"

definition utf8 :: "string \<Rightarrow> nat list" where
  "utf8 s = concat (map char_bytes s)"

definition pack_string :: "string \<Rightarrow> nat list" where
  "pack_string s =
     (let octets = utf8 s; n = length octets in
      (if n < 32 then [0xa0 + n] else if n \<le> 0xff then [0xd9, n] else 0xda # push16 n) @ octets)"

fun encodeMessagePack :: "jsval \<Rightarrow> (codec_error, nat list) result" where
  "encodeMessagePack JNull = Inr [0xc0]"
| "encodeMessagePack (JBool b) = Inr [if b then 0xc3 else 0xc2]"
| "encodeMessagePack (JNum n) = Inr (pack_number n)"
| "encodeMessagePack (JStr s) = Inr (pack_string s)"
| "encodeMessagePack (JArr xs) =
     (case all_some (map (\<lambda>x. case encodeMessagePack x of Inl e \<Rightarrow> None | Inr bs \<Rightarrow> Some bs) xs) of
        None \<Rightarrow> Inl NotPacked
      | Some parts \<Rightarrow> Inr ((if length xs < 16 then [0x90 + length xs] else 0xdc # push16 (length xs)) @ concat parts))"
| "encodeMessagePack (JObj ps) =
     (case all_some (map (\<lambda>(k, x). case encodeMessagePack x of Inl e \<Rightarrow> None | Inr bs \<Rightarrow> Some (pack_string k @ bs)) ps) of
        None \<Rightarrow> Inl NotPacked
      | Some parts \<Rightarrow> Inr ((if length ps < 16 then [0x80 + length ps] else 0xde # push16 (length ps)) @ concat parts))"
| "encodeMessagePack (JHost k) = (if k = ''__proto__'' then Inr [0x80] else Inl NotPacked)"
| "encodeMessagePack JUndef = Inl NotPacked"

text \<open>Reading: the value and the bytes after it. \<open>take_bytes\<close> is \<^verbatim>\<open>ensure\<close> followed by the advance of the offset.\<close>

type_synonym 'a reading = "(codec_error, 'a \<times> nat list) result"

definition take_bytes :: "nat \<Rightarrow> nat list \<Rightarrow> nat list reading" where
  "take_bytes n bs = (if length bs < n then Inl Incomplete else Inr (take n bs, drop n bs))"

definition read_uint :: "nat \<Rightarrow> nat list \<Rightarrow> nat reading" where
  "read_uint n bs = try_bind (take_bytes n bs) (\<lambda>(t, r). Inr (be_val t, r))"

definition read_int :: "nat \<Rightarrow> nat list \<Rightarrow> int reading" where
  "read_int n bs =
     try_bind (take_bytes n bs) (\<lambda>(t, r). Inr (if be_val t < 2 ^ (8 * n - 1) then int (be_val t) else int (be_val t) - 2 ^ (8 * n), r))"

definition read_text :: "nat \<Rightarrow> nat list \<Rightarrow> jsval reading" where
  "read_text n bs =
     try_bind (take_bytes n bs) (\<lambda>(t, r). case utf8_text t of None \<Rightarrow> Inl BadUtf8 | Some s \<Rightarrow> Inr (JStr s, r))"

definition read_binary :: "nat \<Rightarrow> nat list \<Rightarrow> jsval reading" where
  "read_binary n bs = try_bind (take_bytes n bs) (\<lambda>(t, r). Inr (JObj [(''base64'', JStr (bytesToBase64 t))], r))"

fun read_many :: "(nat list \<Rightarrow> 'a reading) \<Rightarrow> nat \<Rightarrow> nat list \<Rightarrow> 'a list reading" where
  "read_many f 0 bs = Inr ([], bs)"
| "read_many f (Suc n) bs =
     try_bind (f bs) (\<lambda>(x, r). try_bind (read_many f n r) (\<lambda>(xs, q). Inr (x # xs, q)))"

definition read_entry :: "(nat list \<Rightarrow> jsval reading) \<Rightarrow> nat list \<Rightarrow> (string \<times> jsval) reading" where
  "read_entry f bs = try_bind (f bs) (\<lambda>(k, r). try_bind (f r) (\<lambda>(v, q). Inr ((js_String k, v), q)))"

definition read_array :: "(nat list \<Rightarrow> jsval reading) \<Rightarrow> nat \<Rightarrow> nat list \<Rightarrow> jsval reading" where
  "read_array f n bs = try_bind (read_many f n bs) (\<lambda>(xs, r). Inr (JArr xs, r))"

definition read_object :: "(nat list \<Rightarrow> jsval reading) \<Rightarrow> nat \<Rightarrow> nat list \<Rightarrow> jsval reading" where
  "read_object f n bs = try_bind (read_many (read_entry f) n bs) (\<lambda>(ps, r). Inr (JObj (fromEntries ps), r))"

definition number_reading :: "nat reading \<Rightarrow> jsval reading" where
  "number_reading x = try_bind x (\<lambda>(n, r). Inr (JNum (NInt (int n)), r))"

fun mp_read :: "nat \<Rightarrow> nat list \<Rightarrow> jsval reading" where
  "mp_read 0 bs = Inl TooDeep"
| "mp_read (Suc fuel) [] = Inl Incomplete"
| "mp_read (Suc fuel) (p # bs) =
     (if p \<le> 0x7f then Inr (JNum (NInt (int p)), bs)
      else if 0xe0 \<le> p then Inr (JNum (NInt (int p - 0x100)), bs)
      else if p div 32 = 5 then read_text (p mod 32) bs
      else if p div 16 = 9 then read_array (mp_read fuel) (p mod 16) bs
      else if p div 16 = 8 then read_object (mp_read fuel) (p mod 16) bs
      else if p = 0xc0 then Inr (JNull, bs)
      else if p = 0xc2 then Inr (JBool False, bs)
      else if p = 0xc3 then Inr (JBool True, bs)
      else if p = 0xca then try_bind (read_uint 4 bs) (\<lambda>(w, r). Inr (JNum (read_float 8 23 w), r))
      else if p = 0xcb then try_bind (read_uint 8 bs) (\<lambda>(w, r). Inr (JNum (read_float 11 52 w), r))
      else if p = 0xcc then number_reading (read_uint 1 bs)
      else if p = 0xcd then number_reading (read_uint 2 bs)
      else if p = 0xce then number_reading (read_uint 4 bs)
      else if p = 0xd0 then try_bind (read_int 1 bs) (\<lambda>(i, r). Inr (JNum (NInt i), r))
      else if p = 0xd1 then try_bind (read_int 2 bs) (\<lambda>(i, r). Inr (JNum (NInt i), r))
      else if p = 0xd2 then try_bind (read_int 4 bs) (\<lambda>(i, r). Inr (JNum (NInt i), r))
      else if p = 0xd9 then try_bind (read_uint 1 bs) (\<lambda>(n, r). read_text n r)
      else if p = 0xda then try_bind (read_uint 2 bs) (\<lambda>(n, r). read_text n r)
      else if p = 0xdb then try_bind (read_uint 4 bs) (\<lambda>(n, r). read_text n r)
      else if p = 0xc4 then try_bind (read_uint 1 bs) (\<lambda>(n, r). read_binary n r)
      else if p = 0xc5 then try_bind (read_uint 2 bs) (\<lambda>(n, r). read_binary n r)
      else if p = 0xdc then try_bind (read_uint 2 bs) (\<lambda>(n, r). read_array (mp_read fuel) n r)
      else if p = 0xde then try_bind (read_uint 2 bs) (\<lambda>(n, r). read_object (mp_read fuel) n r)
      else Inl (Unsupported p))"

declare mp_read.simps(3) [simp del]

text \<open>Texts are decoded without the removal of a leading byte-order mark that \<^verbatim>\<open>TextDecoder\<close> makes (the mark lies outside the
  texts of the model), and a float that is negative zero is read as zero.\<close>

definition decodeMessagePack :: "nat list \<Rightarrow> (codec_error, jsval) result" where
  "decodeMessagePack octets =
     try_bind (mp_read (Suc (length octets)) octets)
       (\<lambda>(v, r). if r \<noteq> [] then Inl (Trailing (length r)) else Inr v)"

section \<open>XML\<close>

definition TAG_PATTERN :: re where
  "TAG_PATTERN = RAlts
     [RSeqs [RLit ''<![CDATA['', RStarLazy RAll, RLit '']]>''],
      RSeqs [RLit ''<!--'', RStarLazy RAll, RLit ''-->''],
      RSeqs [RLit ''<'', ROpt (RLit ''/''), RSet (\<lambda>c. is_alpha c \<or> c = CHR ''_''), RStar (RSet (\<lambda>c. is_word c \<or> c \<in> set '':.-'')),
             RWordB, RStar (RNone ''>''), ROpt (RLit ''/''), RLit ''>'']]"

text \<open>The loop over the tags: the depth and whether a tag was seen; \<open>None\<close> when a tag closes what was not open.\<close>

fun xml_depth :: "string list \<Rightarrow> nat \<Rightarrow> bool \<Rightarrow> (nat \<times> bool) option" where
  "xml_depth [] depth sawTag = Some (depth, sawTag)"
| "xml_depth (token # tokens) depth sawTag =
     (if startsWith token ''<![CDATA['' \<or> startsWith token ''<!--'' then xml_depth tokens depth sawTag
      else if startsWith token ''</'' then (if depth = 0 then None else xml_depth tokens (depth - 1) True)
      else if endsWith token ''/>'' then xml_depth tokens depth True
      else xml_depth tokens (depth + 1) True)"

definition validateXml :: "string \<Rightarrow> bool" where
  "validateXml v =
     (let trimmed = trim v in
      startsWith trimmed ''<'' \<and> endsWith trimmed ''>''
      \<and> xml_depth (map (m_text trimmed) (rmatchAll TAG_PATTERN trimmed)) 0 False = Some (0, True))"

definition BETWEEN_TAGS :: re where
  "BETWEEN_TAGS = RSeqs [RLit ''>'', RStar RSpace, RLit ''<'']"

definition ANY_TAG :: re where
  "ANY_TAG = RSeqs [RLit ''<'', RPlus (RNone ''>''), RLit ''>'']"

definition OPENING :: re where
  "OPENING = RSeqs [RBol, RLit ''<'', RNone ''!?/'', RStar (RNone ''>''), ROpt (RNone ''/''), RLit ''>'', REol]"

definition CLOSES_AT_END :: re where
  "CLOSES_AT_END = RSeqs [RLit ''</'', RPlus (RNone ''>''), RLit ''>'', REol]"

fun indent_parts :: "string list \<Rightarrow> nat \<Rightarrow> string list" where
  "indent_parts [] depth = []"
| "indent_parts (part # parts) depth =
     (let d = (if startsWith part ''</'' then depth - 1 else depth);
          after = (if rtest OPENING part \<and> \<not> rtest CLOSES_AT_END part then d + 1 else d)
      in (spaces (2 * d) @ part) # indent_parts parts after)"

definition prettyXml :: "string \<Rightarrow> (codec_error, string) result" where
  "prettyXml v =
     (if \<not> validateXml v then Inl BadXml
      else
        (let compact = trim (rreplaceAll BETWEEN_TAGS (\<lambda>_. ''><'') v);
             parts = filter (\<lambda>p. p \<noteq> []) (split NL (rreplaceAll ANY_TAG (\<lambda>m. m_text compact m @ [NL]) compact))
         in Inr (join [NL] (indent_parts parts 0))))"

section \<open>The codec\<close>

datatype TcpPayloadFormat = FText | FJson | FXml | FHex | FBase64 | FMsgpack

definition encodeTcpPayload :: "TcpPayloadFormat \<Rightarrow> string \<Rightarrow> (codec_error, nat list) result" where
  "encodeTcpPayload format v =
     (case format of
        FHex \<Rightarrow> hexToBytes v
      | FBase64 \<Rightarrow> base64ToBytes v
      | FJson \<Rightarrow> if JSON_parse v = None then Inl BadJson else Inr (utf8 v)
      | FXml \<Rightarrow> if validateXml v then Inr (utf8 v) else Inl BadXml
      | FMsgpack \<Rightarrow> (case JSON_parse v of None \<Rightarrow> Inl BadJson | Some x \<Rightarrow> encodeMessagePack x)
      | FText \<Rightarrow> Inr (utf8 v))"

definition stringify2 :: "jsval \<Rightarrow> (codec_error, string) result" where
  "stringify2 v = (case JSON_stringify2 v of None \<Rightarrow> Inl BadJson | Some s \<Rightarrow> Inr s)"

definition decode_utf8 :: "nat list \<Rightarrow> (codec_error, string) result" where
  "decode_utf8 octets = (case utf8_text octets of None \<Rightarrow> Inl BadUtf8 | Some s \<Rightarrow> Inr s)"

definition formatTcpPayload :: "nat list \<Rightarrow> TcpPayloadFormat \<Rightarrow> (codec_error, string) result" where
  "formatTcpPayload octets format =
     (case format of
        FHex \<Rightarrow> Inr (join '' '' (map hex_byte octets))
      | FBase64 \<Rightarrow> Inr (bytesToBase64 octets)
      | FMsgpack \<Rightarrow> try_bind (decodeMessagePack octets) stringify2
      | FJson \<Rightarrow> try_bind (decode_utf8 octets) (\<lambda>v. case JSON_parse v of None \<Rightarrow> Inl BadJson | Some x \<Rightarrow> stringify2 x)
      | FXml \<Rightarrow> try_bind (decode_utf8 octets) prettyXml
      | FText \<Rightarrow> decode_utf8 octets)"

definition tcpPayloadLanguage :: "TcpPayloadFormat \<Rightarrow> string" where
  "tcpPayloadLanguage format =
     (if format = FJson \<or> format = FMsgpack then ''json'' else if format = FXml then ''xml'' else ''plaintext'')"

fun format_name :: "TcpPayloadFormat \<Rightarrow> string" where
  "format_name FText = ''text''" | "format_name FJson = ''json''" | "format_name FXml = ''xml''"
| "format_name FHex = ''hex''" | "format_name FBase64 = ''base64''" | "format_name FMsgpack = ''msgpack''"

definition tcpPayloadLabel :: "TcpPayloadFormat \<Rightarrow> string" where
  "tcpPayloadLabel format =
     (if format = FMsgpack then ''MessagePack'' else if format = FBase64 then ''Base64'' else toUpperCase (format_name format))"

end
