(* ===== verification/MessagePackLaws.thy ===== *)
theory MessagePackLaws imports PayloadCodecLaws begin

text \<open>
  MessagePack in both directions: what the encoder of the workbench packs, the decoder of the payload view reads
  back. The encoder writes lengths with at most sixteen bits, so the law is for values within these bounds, and a
  longer text shows what is lost beyond them.
\<close>

section \<open>Numbers in network order\<close>

lemma be_val_snoc: "be_val (bs @ [b]) = be_val bs * 256 + b"
  by (simp add: be_val_def)

lemma be_val_bytes [simp]: "be_val (be_bytes n w) = w mod 256 ^ n"
proof (induction n arbitrary: w)
  case (Suc n)
  have "w mod 256 ^ Suc n = w div 256 mod 256 ^ n * 256 + w mod 256"
    by (simp add: mod_mult2_eq)
  with Suc show ?case by (simp add: be_val_snoc)
qed (simp add: be_val_def)

lemma length_be_bytes [simp]: "length (be_bytes n w) = n"
  by (induction n arbitrary: w) simp_all

lemma read_uint_append [simp]: "length t = n \<Longrightarrow> read_uint n (t @ r) = Inr (be_val t, r)"
  by (simp add: read_uint_def take_bytes_def)

lemma push16_be: "push16 n = be_bytes 2 n"
  by (simp add: push16_def numeral_2_eq_2)

lemma push16_read [simp]: "n < 65536 \<Longrightarrow> read_uint 2 (push16 n @ r) = Inr (n, r)"
  by (simp add: push16_be)

lemma read_uint1 [simp]: "read_uint (Suc 0) (n # r) = Inr (n, r)"
  using read_uint_append [of "[n]" 1 r] by (simp add: be_val_def)

lemma read_int1: "n < 256 \<Longrightarrow> read_int (Suc 0) (n # r) = Inr (if n < 128 then int n else int n - 256, r)"
  by (simp add: read_int_def take_bytes_def be_val_def)

section \<open>Doubles\<close>

lemma bit_len_bounds: "0 < n \<Longrightarrow> 2 ^ (bit_len n - 1) \<le> n \<and> n < 2 ^ bit_len n"
proof (induction n rule: bit_len.induct)
  case (1 n)
  show ?case
  proof (cases "n div 2 = 0")
    case True
    with 1 have "n = 1" by simp
    then show ?thesis by (simp add: bit_len.simps)
  next
    case False
    with 1 have ih: "2 ^ (bit_len (n div 2) - 1) \<le> n div 2" "n div 2 < 2 ^ bit_len (n div 2)" by simp_all
    have pos: "bit_len (n div 2) = Suc (bit_len (n div 2) - 1)" using False by (simp add: bit_len.simps)
    have "bit_len n = Suc (bit_len (n div 2))" using 1 by (simp add: bit_len.simps)
    moreover obtain j where j: "bit_len (n div 2) = Suc j" using pos by metis
    moreover have "2 * x \<le> n \<and> n < 4 * x" if "x \<le> n div 2" "n div 2 < 2 * x" for x using that by linarith
    ultimately show ?thesis using ih by simp
  qed
qed

lemma strip_twos_power: "odd m \<or> k = 0 \<Longrightarrow> strip_twos (m * 2 ^ j) (j + k) = (m, k)"
proof (induction j)
  case 0
  then show ?case by (cases k) auto
next
  case (Suc j)
  have "m * 2 ^ Suc j div 2 = m * 2 ^ j" by simp
  with Suc show ?case by simp
qed

lemma float64_word_fields:
  assumes "biased < 2048" and "frac < 2 ^ 52"
  shows "float64_word neg biased frac mod 256 ^ 8 = float64_word neg biased frac"
    "odd (float64_word neg biased frac div 2 ^ (11 + 52)) \<longleftrightarrow> neg"
    "float64_word neg biased frac div 2 ^ 52 mod 2 ^ 11 = biased"
    "float64_word neg biased frac mod 2 ^ 52 = frac"
proof -
  have low: "biased * 2 ^ 52 + frac < 2 ^ 63" using assms by simp
  then show "float64_word neg biased frac mod 256 ^ 8 = float64_word neg biased frac"
    by (simp add: float64_word_def)
  have "float64_word neg biased frac div 2 ^ 63 = (if neg then 1 else 0)"
    using low by (simp add: float64_word_def add.assoc div_add_self1)
  then show "odd (float64_word neg biased frac div 2 ^ (11 + 52)) \<longleftrightarrow> neg" by simp
  have "float64_word neg biased frac = ((if neg then 2048 else 0) + biased) * 2 ^ 52 + frac"
    by (simp add: float64_word_def algebra_simps)
  moreover have "(y * 2 ^ 52 + frac) div 2 ^ 52 = y" "(y * 2 ^ 52 + frac) mod 2 ^ 52 = frac" for y using assms(2) by simp_all
  moreover have "((if neg then 2048 else 0) + biased) mod 2 ^ 11 = biased" using assms(1) by simp
  ultimately show "float64_word neg biased frac div 2 ^ 52 mod 2 ^ 11 = biased" "float64_word neg biased frac mod 2 ^ 52 = frac"
    by (simp_all only:)
qed

lemma read_float_ratio:
  assumes "0 < q" "bit_len q \<le> 53" "k < bit_len q + 1022"
  shows "read_float 11 52 (float64_ratio neg q k mod 256 ^ 8) = mk_num neg (q * 2 ^ (53 - bit_len q)) (int (bit_len q) - 53 - int k)"
proof -
  let ?L = "bit_len q" and ?t = "q * 2 ^ (53 - bit_len q)"
  have Lpos: "0 < ?L" using assms(1) by (simp add: bit_len.simps)
  have "2 ^ (?L - 1) * 2 ^ (53 - ?L) \<le> ?t" using bit_len_bounds [OF assms(1)] by simp
  moreover have "(2::nat) ^ (?L - 1) * 2 ^ (53 - ?L) = 2 ^ 52"
    using Lpos assms(2) by (simp flip: power_add)
  moreover have "?t < 2 ^ ?L * 2 ^ (53 - ?L)" using bit_len_bounds [OF assms(1)] by simp
  moreover have "(2::nat) ^ ?L * 2 ^ (53 - ?L) = 2 ^ 53" using assms(2) by (simp flip: power_add)
  ultimately have t: "2 ^ 52 \<le> ?t" "?t < 2 ^ 53" by (simp_all only:)
  let ?b = "?L + 1022 - k" and ?f = "?t - 2 ^ 52"
  have w: "float64_ratio neg q k = float64_word neg ?b ?f" using assms by (simp add: float64_ratio_def Let_def)
  have b: "?b < 2047" "0 < ?b" using assms by simp_all
  have f: "?f < 2 ^ 52" "2 ^ 52 + ?f = ?t" using t by simp_all
  have fields: "float64_word neg ?b ?f mod 256 ^ 8 = float64_word neg ?b ?f" "odd (float64_word neg ?b ?f div 2 ^ (11 + 52)) = neg"
    "float64_word neg ?b ?f div 2 ^ 52 mod 2 ^ 11 = ?b" "float64_word neg ?b ?f mod 2 ^ 52 = ?f"
    by (rule float64_word_fields, use b(1) in simp, rule f(1))+
  have normal: "(?b = 2 ^ 11 - 1) = False" "(?b = 0) = False" using b by simp_all
  have "read_float 11 52 (float64_word neg ?b ?f mod 256 ^ 8) = mk_num neg (2 ^ 52 + ?f) (int ?b - int (2 ^ (11 - 1) - 1) - int 52)"
    unfolding read_float_def Let_def fields normal if_False ..
  moreover have "int ?b - int (2 ^ (11 - 1) - 1) - int 52 = int ?L - 53 - int k" using assms(3) by simp
  ultimately show ?thesis using f(2) w by (simp only:)
qed

text \<open>The numbers a double holds exactly: whole numbers of at most 53 bits, and normal fractions in lowest terms.\<close>

fun packable_num :: "jsnum \<Rightarrow> bool" where
  "packable_num (NInt i) = (bit_len (nat \<bar>i\<bar>) \<le> 53)"
| "packable_num (NFrac m k) = (odd m \<and> 0 < k \<and> bit_len (nat \<bar>m\<bar>) \<le> 53 \<and> k < bit_len (nat \<bar>m\<bar>) + 1022)"
| "packable_num _ = True"

lemma mk_num_exact:
  assumes "0 < q" "bit_len q \<le> 53" "odd q \<or> k = 0"
  shows "mk_num neg (q * 2 ^ (53 - bit_len q)) (int (bit_len q) - 53 - int k)
    = (if k = 0 then NInt (signed neg (int q)) else NFrac (signed neg (int q)) k)"
proof (cases "bit_len q = 53 \<and> k = 0")
  case True
  have "q < 2 ^ 53" using bit_len_bounds [OF assms(1)] True by simp
  also have "\<dots> < (2::nat) ^ 1024" by simp
  finally show ?thesis using True by (simp add: mk_num_def)
next
  case False
  then have "nat (- (int (bit_len q) - 53 - int k)) = 53 - bit_len q + k" "int (bit_len q) - 53 - int k < 0" using assms(2) by auto
  then show ?thesis using strip_twos_power [OF assms(3), of "53 - bit_len q"] by (cases k) (simp_all add: mk_num_def)
qed

lemma signed_abs: "signed (i < 0) \<bar>i\<bar> = i"
  by (simp add: signed_def)

lemma read_float_num:
  assumes "packable_num n" and "n \<noteq> NInt 0"
  shows "read_float 11 52 (float64_bits n mod 256 ^ 8) = n"
proof (cases n)
  case (NInt i)
  with assms have "0 < nat \<bar>i\<bar>" "bit_len (nat \<bar>i\<bar>) \<le> 53" by simp_all
  then show ?thesis
    using read_float_ratio [of "nat \<bar>i\<bar>" 0] mk_num_exact [of "nat \<bar>i\<bar>" 0] NInt
    by (simp add: signed_abs bit_len.simps [of "nat \<bar>i\<bar>"])
next
  case (NFrac m k)
  with assms have "0 < nat \<bar>m\<bar>" "bit_len (nat \<bar>m\<bar>) \<le> 53" "k < bit_len (nat \<bar>m\<bar>) + 1022" "odd (nat \<bar>m\<bar>)" "0 < k"
    by (auto simp: even_nat_iff)
  then show ?thesis
    using read_float_ratio [of "nat \<bar>m\<bar>" k] mk_num_exact [of "nat \<bar>m\<bar>" k] NFrac by (simp add: signed_abs)
qed (simp_all add: read_float_def float64_word_def)

section \<open>Values\<close>

text \<open>What each prefix leads to.\<close>

lemma mp_read_prefix:
  "p \<le> 0x7f \<Longrightarrow> mp_read (Suc fuel) (p # bs) = Inr (JNum (NInt (int p)), bs)"
  "0xe0 \<le> p \<Longrightarrow> mp_read (Suc fuel) (p # bs) = Inr (JNum (NInt (int p - 0x100)), bs)"
  "mp_read (Suc fuel) (0xc0 # bs) = Inr (JNull, bs)"
  "mp_read (Suc fuel) (0xc2 # bs) = Inr (JBool False, bs)"
  "mp_read (Suc fuel) (0xc3 # bs) = Inr (JBool True, bs)"
  "mp_read (Suc fuel) (0xcb # bs) = try_bind (read_uint 8 bs) (\<lambda>(w, r). Inr (JNum (read_float 11 52 w), r))"
  "mp_read (Suc fuel) (0xcc # bs) = number_reading (read_uint 1 bs)"
  "mp_read (Suc fuel) (0xcd # bs) = number_reading (read_uint 2 bs)"
  "mp_read (Suc fuel) (0xd0 # bs) = try_bind (read_int 1 bs) (\<lambda>(i, r). Inr (JNum (NInt i), r))"
  "mp_read (Suc fuel) (0xd9 # bs) = try_bind (read_uint 1 bs) (\<lambda>(n, r). read_text n r)"
  "mp_read (Suc fuel) (0xda # bs) = try_bind (read_uint 2 bs) (\<lambda>(n, r). read_text n r)"
  "mp_read (Suc fuel) (0xdc # bs) = try_bind (read_uint 2 bs) (\<lambda>(n, r). read_array (mp_read fuel) n r)"
  "mp_read (Suc fuel) (0xde # bs) = try_bind (read_uint 2 bs) (\<lambda>(n, r). read_object (mp_read fuel) n r)"
  by (simp_all add: mp_read.simps(3) split del: if_split)

lemma mp_read_short:
  "n < 32 \<Longrightarrow> mp_read (Suc fuel) ((0xa0 + n) # bs) = read_text n bs"
  "n < 16 \<Longrightarrow> mp_read (Suc fuel) ((0x90 + n) # bs) = read_array (mp_read fuel) n bs"
  "n < 16 \<Longrightarrow> mp_read (Suc fuel) ((0x80 + n) # bs) = read_object (mp_read fuel) n bs"
proof -
  assume n: "n < 32"
  then have "(160 + n) div 32 = 5" by (intro div_nat_eqI) simp_all
  moreover from this have "(160 + n) mod 32 = n" by (simp add: modulo_nat_def)
  ultimately show "mp_read (Suc fuel) ((0xa0 + n) # bs) = read_text n bs"
    using n by (simp add: mp_read.simps(3) split del: if_split)
next
  assume n: "n < 16"
  then have "(144 + n) div 32 = 4" "(144 + n) div 16 = 9" by (intro div_nat_eqI; simp)+
  moreover from this have "(144 + n) mod 16 = n" by (simp add: modulo_nat_def)
  ultimately show "mp_read (Suc fuel) ((0x90 + n) # bs) = read_array (mp_read fuel) n bs"
    using n by (simp add: mp_read.simps(3) split del: if_split)
next
  assume n: "n < 16"
  then have "(128 + n) div 32 = 4" "(128 + n) div 16 = 8" by (intro div_nat_eqI; simp)+
  moreover from this have "(128 + n) mod 16 = n" by (simp add: modulo_nat_def)
  ultimately show "mp_read (Suc fuel) ((0x80 + n) # bs) = read_object (mp_read fuel) n bs"
    using n by (simp add: mp_read.simps(3) split del: if_split)
qed

lemma mp_read_number:
  assumes "packable_num n"
  shows "mp_read (Suc fuel) (pack_number n @ r) = Inr (JNum n, r)"
proof -
  have float: ?thesis if "pack_number n = 0xcb # be_bytes 8 (float64_bits n)" "n \<noteq> NInt 0"
  proof -
    have "read_uint 8 (be_bytes 8 (float64_bits n) @ r) = Inr (float64_bits n mod 256 ^ 8, r)"
      by (subst read_uint_append) simp_all
    with that(1) show ?thesis using read_float_num [OF assms that(2)] by (simp add: mp_read_prefix del: power_numeral)
  qed
  show ?thesis
  proof (cases n)
    case n: (NInt i)
    consider "0 \<le> i" "i \<le> 0x7f" | "- 32 \<le> i" "i < 0" | "0x7f < i" "i \<le> 0xff" | "0xff < i" "i \<le> 0xffff"
      | "- 128 \<le> i" "i < - 32" | "i < - 128 \<or> 0xffff < i" by linarith
    then show ?thesis
    proof cases
      case 5
      then have "i mod 256 = i + 256" using mod_pos_pos_trivial [of "i + 256" 256] unfolding mod_add_self2 by simp
      with 5 n show ?thesis by (simp add: pack_number_def mp_read_prefix read_int1)
    next
      case 6
      with n show ?thesis by (intro float) (auto simp: pack_number_def)
    qed (use n in \<open>simp_all add: pack_number_def mp_read_prefix number_reading_def\<close>)
  qed (rule float; simp add: pack_number_def)+
qed

lemma read_text_utf8 [simp]: "read_text (length (utf8 s)) (utf8 s @ r) = Inr (JStr s, r)"
  by (simp add: read_text_def take_bytes_def utf8_text_bytes [folded utf8_def])

lemma mp_read_string:
  assumes "length (utf8 s) < 65536"
  shows "mp_read (Suc fuel) (pack_string s @ r) = Inr (JStr s, r)"
proof -
  consider "length (utf8 s) < 32" | "\<not> length (utf8 s) < 32" "length (utf8 s) \<le> 0xff" | "\<not> length (utf8 s) \<le> 0xff" by linarith
  then show ?thesis
    by cases (use assms in \<open>simp_all add: pack_string_def Let_def mp_read_short mp_read_prefix\<close>)
qed

fun packable :: "jsval \<Rightarrow> bool" where
  "packable (JNum n) = packable_num n"
| "packable (JStr s) = (length (utf8 s) < 65536)"
| "packable (JArr xs) = (length xs < 65536 \<and> list_all packable xs)"
| "packable (JObj ps) =
     (length ps < 65536 \<and> ordered_props ps \<and> list_all (\<lambda>(k, v). length (utf8 k) < 65536 \<and> packable v) ps)"
| "packable (JHost k) = False"
| "packable JUndef = False"
| "packable _ = True"

lemma read_many_parts:
  assumes "list_all2 (\<lambda>bs x. \<forall>q. f (bs @ q) = Inr (x, q)) parts xs"
  shows "read_many f (length xs) (concat parts @ r) = Inr (xs, r)"
  using assms by (induction rule: list_all2_induct) simp_all

text \<open>What it is for some bytes to stand for a value: they are read as it, whatever follows, by every reader deep enough.\<close>

definition reads_as :: "nat list \<Rightarrow> jsval \<Rightarrow> bool" where
  "reads_as bs v \<longleftrightarrow> bs \<noteq> [] \<and> (\<forall>fuel r. length bs \<le> fuel \<longrightarrow> mp_read fuel (bs @ r) = Inr (v, r))"

lemma reads_asI: "bs \<noteq> [] \<Longrightarrow> (\<And>fuel r. length bs \<le> Suc fuel \<Longrightarrow> mp_read (Suc fuel) (bs @ r) = Inr (v, r)) \<Longrightarrow> reads_as bs v"
  unfolding reads_as_def
proof (intro conjI allI impI)
  fix fuel r
  assume "bs \<noteq> []" "length bs \<le> fuel" and step: "\<And>fuel r. length bs \<le> Suc fuel \<Longrightarrow> mp_read (Suc fuel) (bs @ r) = Inr (v, r)"
  then show "mp_read fuel (bs @ r) = Inr (v, r)" using step [of "fuel - 1" r] by (cases fuel) auto
qed

lemma pack_nonempty [simp]: "pack_number n \<noteq> []" "pack_string s \<noteq> []"
  by (auto simp: pack_number_def pack_string_def Let_def split: jsnum.split)

lemma reads_as_array:
  assumes "list_all2 reads_as parts xs" and "length xs < 65536"
  shows "reads_as ((if length xs < 16 then [0x90 + length xs] else 0xdc # push16 (length xs)) @ concat parts) (JArr xs)"
    (is "reads_as (?h @ _) _")
proof (rule reads_asI)
  fix fuel r
  assume "length (?h @ concat parts) \<le> Suc fuel"
  then have "length (concat parts) \<le> fuel" by (auto split: if_splits)
  moreover have "length p \<le> length (concat parts)" if "p \<in> set parts" for p
    using that by (induction parts) auto
  ultimately have "length p \<le> fuel" if "p \<in> set parts" for p using that by fastforce
  then have "list_all2 (\<lambda>bs x. \<forall>q. mp_read fuel (bs @ q) = Inr (x, q)) parts xs"
    using assms(1) by (auto simp: reads_as_def list_all2_conv_all_nth)
  from read_many_parts [OF this] assms(2) show "mp_read (Suc fuel) ((?h @ concat parts) @ r) = Inr (JArr xs, r)"
    by (simp add: mp_read_short mp_read_prefix read_array_def)
qed simp

lemma reads_as_object:
  assumes "list_all2 (\<lambda>bs (k, x). \<exists>w. bs = pack_string k @ w \<and> reads_as w x) parts ps" and "length ps < 65536"
    and "ordered_props ps" and "list_all (\<lambda>(k, v). length (utf8 k) < 65536) ps"
  shows "reads_as ((if length ps < 16 then [0x80 + length ps] else 0xde # push16 (length ps)) @ concat parts) (JObj ps)"
    (is "reads_as (?h @ _) _")
proof (rule reads_asI)
  fix fuel r
  assume "length (?h @ concat parts) \<le> Suc fuel"
  then have "length (concat parts) \<le> fuel" by (auto split: if_splits)
  moreover have "length p \<le> length (concat parts)" if "p \<in> set parts" for p
    using that by (induction parts) auto
  ultimately have len: "length p \<le> fuel" if "p \<in> set parts" for p using that by fastforce
  have "read_entry (mp_read fuel) (bs @ q) = Inr ((k, x), q)"
    if bs: "bs \<in> set parts" and w: "bs = pack_string k @ w" "reads_as w x" and k: "length (utf8 k) < 65536" for bs k x w q
  proof -
    have "length (pack_string k) + length w \<le> fuel" using len [OF bs] w(1) by simp
    moreover obtain n where "fuel = Suc n" using calculation pack_nonempty(2) [of k] by (cases fuel) auto
    ultimately show ?thesis using w mp_read_string [OF k] by (simp add: read_entry_def reads_as_def)
  qed
  note entry = this
  have "list_all2 (\<lambda>bs p. \<forall>q. read_entry (mp_read fuel) (bs @ q) = Inr (p, q)) parts ps"
  proof (rule list_all2_all_nthI)
    show "length parts = length ps" using assms(1) by (rule list_all2_lengthD)
    fix i
    assume i: "i < length parts"
    obtain k x where kx: "ps ! i = (k, x)" by fastforce
    have "\<exists>w. parts ! i = pack_string k @ w \<and> reads_as w x" using list_all2_nthD [OF assms(1) i] kx by simp
    moreover have "length (utf8 k) < 65536" using assms(4) i kx list_all2_lengthD [OF assms(1)] by (auto simp: list_all_length)
    ultimately show "\<forall>q. read_entry (mp_read fuel) (parts ! i @ q) = Inr (ps ! i, q)" using entry nth_mem [OF i] kx by auto
  qed
  from read_many_parts [OF this] assms(2,3) show "mp_read (Suc fuel) ((?h @ concat parts) @ r) = Inr (JObj ps, r)"
    by (simp add: mp_read_short mp_read_prefix read_object_def ordered_props_def)
qed simp

lemma all_some_parts:
  "(\<And>x. x \<in> set xs \<Longrightarrow> \<exists>b. f x = Some b \<and> R b x) \<Longrightarrow> \<exists>parts. all_some (map f xs) = Some parts \<and> list_all2 R parts xs"
proof (induction xs)
  case (Cons x xs)
  obtain b where "f x = Some b" "R b x" using Cons.prems [of x] by auto
  moreover obtain parts where "all_some (map f xs) = Some parts" "list_all2 R parts xs" using Cons by auto
  ultimately show ?case by auto
qed simp

lemma packed_reads_as: "packable v \<Longrightarrow> \<exists>bs. encodeMessagePack v = Inr bs \<and> reads_as bs v"
proof (induction v rule: packable.induct)
  case (3 xs)
  then have "\<exists>b. (case encodeMessagePack x of Inl e \<Rightarrow> None | Inr bs \<Rightarrow> Some bs) = Some b \<and> reads_as b x" if "x \<in> set xs" for x
    using that by (force simp: list_all_iff)
  from all_some_parts [where R = reads_as and xs = xs, OF this] obtain parts where "list_all2 reads_as parts xs"
    "all_some (map (\<lambda>x. case encodeMessagePack x of Inl e \<Rightarrow> None | Inr bs \<Rightarrow> Some bs) xs) = Some parts" by blast
  then show ?case using reads_as_array [of parts xs] 3(2) by simp
next
  case (4 ps)
  let ?f = "\<lambda>(k, x). case encodeMessagePack x of Inl e \<Rightarrow> None | Inr bs \<Rightarrow> Some (pack_string k @ bs)"
  have "\<exists>b. ?f p = Some b \<and> (\<lambda>bs (k, x). \<exists>w. bs = pack_string k @ w \<and> reads_as w x) b p" if "p \<in> set ps" for p
  proof -
    obtain k x where p: "p = (k, x)" by fastforce
    with 4(2) that have "packable x" by (auto simp: list_all_iff)
    from 4(1) [OF that p [symmetric] this] show ?thesis using p by auto
  qed
  from all_some_parts [where xs = ps and f = ?f and R = "\<lambda>bs (k, x). \<exists>w. bs = pack_string k @ w \<and> reads_as w x", OF this]
  obtain parts where
    "list_all2 (\<lambda>bs (k, x). \<exists>w. bs = pack_string k @ w \<and> reads_as w x) parts ps" "all_some (map ?f ps) = Some parts" by blast
  moreover have "list_all (\<lambda>(k, v). length (utf8 k) < 65536) ps" using 4(2) by (auto simp: list_all_iff)
  ultimately show ?case using reads_as_object [of parts ps] 4(2) by simp
qed (auto intro!: reads_asI simp: mp_read_number mp_read_string mp_read_prefix)

text \<open>C13: a value packed as MessagePack is read back as that value, whatever its shape, as long as its numbers are doubles
  in lowest terms and its texts, lists and objects stay below 65536 bytes or entries, the most the encoder's length field holds.\<close>

theorem messagepack_roundtrip:
  assumes "packable v"
  shows "try_bind (encodeMessagePack v) decodeMessagePack = Inr v"
proof -
  obtain bs where bs: "encodeMessagePack v = Inr bs" "reads_as bs v" using packed_reads_as [OF assms] by blast
  then have "mp_read (Suc (length bs)) (bs @ []) = Inr (v, [])" unfolding reads_as_def by (metis le_SucI order_refl)
  with bs show ?thesis by (simp add: decodeMessagePack_def)
qed

theorem messagepack_roundtrip_witness:
  "try_bind (encodeMessagePack (JObj [(''a'', JArr [JNum (NInt (-70000)), JNum (NFrac 3 2), JNull]), (''b'', JStr ''x'')])) decodeMessagePack
    = Inr (JObj [(''a'', JArr [JNum (NInt (-70000)), JNum (NFrac 3 2), JNull]), (''b'', JStr ''x'')])"
  by (rule messagepack_roundtrip)
    (simp add: ordered_props_def fromEntries_def def_prop_def index_key_def all_digits_def is_digit_def code_def utf8_def char_bytes_def bit_len.simps)

text \<open>Beyond the bound the length is cut to sixteen bits: a text of 65536 bytes is packed as an empty text with 65536 bytes after it.\<close>

lemma long_text_lost:
  assumes "length (utf8 s) = 65536"
  shows "try_bind (encodeMessagePack (JStr s)) decodeMessagePack = Inl (Trailing 65536)"
proof -
  let ?bs = "0xda # 0 # 0 # utf8 s"
  have "mp_read (Suc (length ?bs)) ?bs = Inr (JStr [], utf8 s)"
    unfolding mp_read_prefix by (simp add: read_uint_def take_bytes_def be_val_def numeral_2_eq_2 read_text_def utf8_text_bytes [of "[]", simplified])
  moreover have "encodeMessagePack (JStr s) = Inr ?bs" using assms by (simp add: pack_string_def Let_def push16_def)
  ultimately show ?thesis using assms by (auto simp: decodeMessagePack_def simp del: mp_read.simps length_Cons)
qed

end
