(* ===== verification/HttpRows.thy ===== *)
theory HttpRows imports HttpRequest FormUrl begin

text \<open>
  The rows of the HTTP workbench (\<^verbatim>\<open>packages/ui/src/HttpWorkbench.tsx\<close>): headers, cookies, query parameters and
  multipart parts as lists of rows with a spare row at the end, the edits of the row editor \<^verbatim>\<open>KeyValueRows\<close>, and the
  passage between rows and the address. Random identifiers come from the argument \<open>uuid\<close>; the rows made in one
  call take \<open>uuid 0\<close>, \<open>uuid 1\<close> and so on.
\<close>

section \<open>Rows\<close>

datatype RowValueType = RString | RInteger | RNumber | RBoolean | RArray | RObject | RNull

record HeaderRow =
  kr_id :: string
  kr_key :: string
  kr_value :: string
  kr_enabled :: bool
  kr_valueType :: RowValueType
  kr_typeSelected :: bool
  kr_description :: string
  kr_required :: bool

definition not_blank :: "string \<Rightarrow> bool" where
  "not_blank s = (trim s \<noteq> [])"

definition createHeaderRow :: "string \<Rightarrow> string \<Rightarrow> string \<Rightarrow> RowValueType \<Rightarrow> string \<Rightarrow> HeaderRow" where
  "createHeaderRow uuid key v valueType description =
     \<lparr> kr_id = uuid, kr_key = key, kr_value = v, kr_enabled = (not_blank key \<or> not_blank v), kr_valueType = valueType,
       kr_typeSelected = (valueType \<noteq> RString), kr_description = description, kr_required = False \<rparr>"

definition createQueryRow :: "string \<Rightarrow> string \<Rightarrow> string \<Rightarrow> RowValueType \<Rightarrow> string \<Rightarrow> HeaderRow" where
  "createQueryRow uuid key v valueType description =
     (createHeaderRow uuid key v valueType description)\<lparr> kr_enabled := not_blank key \<or> not_blank v \<rparr>"

abbreviation header_row :: "string \<Rightarrow> string \<Rightarrow> string \<Rightarrow> HeaderRow" where
  "header_row uuid key v \<equiv> createHeaderRow uuid key v RString []"

abbreviation query_row :: "string \<Rightarrow> string \<Rightarrow> string \<Rightarrow> HeaderRow" where
  "query_row uuid key v \<equiv> createQueryRow uuid key v RString []"

definition number_rows :: "(string \<Rightarrow> string \<Rightarrow> string \<Rightarrow> HeaderRow) \<Rightarrow> (nat \<Rightarrow> string) \<Rightarrow> (string \<times> string) list \<Rightarrow> HeaderRow list" where
  "number_rows mk uuid pairs = map (\<lambda>(i, k, v). mk (uuid i) k v) (enumerate 0 pairs) @ [mk (uuid (length pairs)) [] []]"

definition headerRowsFromPairs :: "(nat \<Rightarrow> string) \<Rightarrow> header_list \<Rightarrow> HeaderRow list" where
  "headerRowsFromPairs uuid headers = number_rows header_row uuid headers"

definition cookie_pair :: "string \<Rightarrow> (string \<times> string) list" where
  "cookie_pair item =
     (let trimmed = trim item in
      case indexOf trimmed (CHR ''='') of
        Some separator \<Rightarrow> if separator > 0 then [(trim (take separator trimmed), trim (drop (Suc separator) trimmed))] else []
      | None \<Rightarrow> [])"

definition cookieRowsFromHeaders :: "(nat \<Rightarrow> string) \<Rightarrow> header_list \<Rightarrow> HeaderRow list" where
  "cookieRowsFromHeaders uuid headers =
     number_rows query_row uuid
       (concat (map cookie_pair (concat (map (\<lambda>(_, v). split (CHR '';'') v)
          (filter (\<lambda>(key, _). toLowerCase key = ''cookie'') headers)))))"

definition keyValueRowHasContent :: "HeaderRow \<Rightarrow> bool" where
  "keyValueRowHasContent row =
     (not_blank (kr_key row) \<or> not_blank (kr_value row) \<or> not_blank (kr_description row) \<or> kr_typeSelected row \<or> kr_required row)"

text \<open>The patches the editor applies.\<close>

datatype row_patch =
    SetKey string | SetValue string | SetType RowValueType | SelectType | SetDescription string | SetRequired bool

fun apply_patch :: "row_patch \<Rightarrow> HeaderRow \<Rightarrow> HeaderRow" where
  "apply_patch (SetKey k) row = row\<lparr> kr_key := k \<rparr>"
| "apply_patch (SetValue v) row = row\<lparr> kr_value := v \<rparr>"
| "apply_patch (SetType t) row = row\<lparr> kr_valueType := t, kr_typeSelected := True \<rparr>"
| "apply_patch SelectType row = row\<lparr> kr_typeSelected := True \<rparr>"
| "apply_patch (SetDescription d) row = row\<lparr> kr_description := d \<rparr>"
| "apply_patch (SetRequired b) row = row\<lparr> kr_required := b \<rparr>"

definition editKeyValueRow :: "HeaderRow \<Rightarrow> row_patch \<Rightarrow> HeaderRow" where
  "editKeyValueRow row patch =
     (let wasEmpty = \<not> keyValueRowHasContent row; next = apply_patch patch row; hasContent = keyValueRowHasContent next
      in next\<lparr> kr_enabled := (if hasContent then kr_enabled row \<or> wasEmpty else False) \<rparr>)"

definition appendEmptyKeyValueRow :: "string \<Rightarrow> HeaderRow list \<Rightarrow> nat \<Rightarrow> HeaderRow list" where
  "appendEmptyKeyValueRow uuid rows editedIndex =
     (if rows \<noteq> [] \<and> editedIndex = length rows - 1 \<and> keyValueRowHasContent (rows ! editedIndex) then rows @ [query_row uuid [] []] else rows)"

section \<open>Multipart parts\<close>

datatype part_kind = PartText | PartFile

record MultipartEditorPart = MultipartPart +
  me_id :: string
  me_enabled :: bool
  me_description :: string
  me_kind :: part_kind
  me_valueType :: RowValueType
  me_typeSelected :: bool
  me_required :: bool

definition truthy_name :: "string option \<Rightarrow> bool" where
  "truthy_name f = (or_default f [] \<noteq> [])"

definition createMultipartEditorPart :: "string \<Rightarrow> MultipartPart option \<Rightarrow> MultipartEditorPart" where
  "createMultipartEditorPart uuid part =
     (let name = (case part of None \<Rightarrow> [] | Some p \<Rightarrow> mp_name p); fileName = Option.bind part mp_fileName in
      \<lparr> mp_name = name, mp_value = (case part of None \<Rightarrow> [] | Some p \<Rightarrow> mp_value p), mp_fileName = fileName,
        mp_contentType = Option.bind part mp_contentType, mp_base64 = (case part of None \<Rightarrow> False | Some p \<Rightarrow> mp_base64 p),
        me_id = uuid, me_enabled = not_blank name, me_description = [],
        me_kind = (if truthy_name fileName then PartFile else PartText), me_valueType = RString,
        me_typeSelected = truthy_name fileName, me_required = False \<rparr>)"

definition multipartPartHasContent :: "MultipartEditorPart \<Rightarrow> bool" where
  "multipartPartHasContent part =
     (not_blank (mp_name part) \<or> mp_value part \<noteq> [] \<or> truthy_name (mp_fileName part) \<or> not_blank (me_description part)
      \<or> me_typeSelected part \<or> me_required part)"

section \<open>The address and its query rows\<close>

text \<open>\<^verbatim>\<open>url.split("#", 1)[0].split("?", 2)[1] ?? ""\<close>.\<close>

definition query_of :: "string \<Rightarrow> string" where
  "query_of url =
     (case split (CHR ''?'') (hd (split (CHR ''#'') url)) of _ # q # _ \<Rightarrow> q | _ \<Rightarrow> [])"

definition queryRowsFromUrl :: "(nat \<Rightarrow> string) \<Rightarrow> string \<Rightarrow> HeaderRow list option" where
  "queryRowsFromUrl uuid url = map_option (number_rows query_row uuid) (form_parse (query_of url))"

definition sent_rows :: "HeaderRow list \<Rightarrow> (string \<times> string) list" where
  "sent_rows rows = map (\<lambda>row. (kr_key row, kr_value row)) (filter (\<lambda>row. kr_enabled row \<and> not_blank (kr_key row)) rows)"

definition urlWithQueryRows :: "string \<Rightarrow> HeaderRow list \<Rightarrow> string" where
  "urlWithQueryRows url rows =
     (let hash = (case indexOf url (CHR ''#'') of Some i \<Rightarrow> drop i url | None \<Rightarrow> []);
          withoutHash = (case indexOf url (CHR ''#'') of Some i \<Rightarrow> take i url | None \<Rightarrow> url);
          base = hd (split (CHR ''?'') withoutHash);
          query = form_serialize (sent_rows rows)
      in base @ (if query \<noteq> [] then ''?'' @ query else []) @ hash)"

section \<open>The row editor\<close>

text \<open>Every change goes through \<^verbatim>\<open>update\<close>: it is dropped while loading, and otherwise becomes the new rows, which
  the owner is told.\<close>

record kv_state =
  kv_rows :: "HeaderRow list"
  kv_told :: "HeaderRow list list"

definition kv_update :: "bool \<Rightarrow> (HeaderRow list \<Rightarrow> HeaderRow list) \<Rightarrow> kv_state \<Rightarrow> kv_state" where
  "kv_update loading producer s =
     (if loading then s else s\<lparr> kv_rows := producer (kv_rows s), kv_told := kv_told s @ [producer (kv_rows s)] \<rparr>)"

definition edit_rows :: "string \<Rightarrow> HeaderRow \<Rightarrow> nat \<Rightarrow> row_patch \<Rightarrow> HeaderRow list \<Rightarrow> HeaderRow list" where
  "edit_rows uuid row index patch current =
     appendEmptyKeyValueRow uuid (map (\<lambda>item. if kr_id item = kr_id row then editKeyValueRow item patch else item) current) index"

definition edit_row :: "bool \<Rightarrow> string \<Rightarrow> HeaderRow \<Rightarrow> nat \<Rightarrow> row_patch \<Rightarrow> kv_state \<Rightarrow> kv_state" where
  "edit_row loading uuid row index patch = kv_update loading (edit_rows uuid row index patch)"

definition activateTypeSelection :: "bool \<Rightarrow> string \<Rightarrow> HeaderRow \<Rightarrow> nat \<Rightarrow> kv_state \<Rightarrow> kv_state" where
  "activateTypeSelection loading uuid row index s =
     (if kr_typeSelected row then s else edit_row loading uuid row index SelectType s)"

definition set_enabled :: "HeaderRow \<Rightarrow> bool \<Rightarrow> HeaderRow list \<Rightarrow> HeaderRow list" where
  "set_enabled row b rows = map (\<lambda>item. if kr_id item = kr_id row then item\<lparr> kr_enabled := b \<rparr> else item) rows"

definition activate_rows :: "string \<Rightarrow> HeaderRow \<Rightarrow> nat \<Rightarrow> bool \<Rightarrow> HeaderRow list \<Rightarrow> HeaderRow list" where
  "activate_rows uuid row index enabled current =
     (if enabled \<and> current \<noteq> [] \<and> index = length current - 1 then set_enabled row enabled current @ [query_row uuid [] []]
      else set_enabled row enabled current)"

definition activateEmptyRow :: "bool \<Rightarrow> string \<Rightarrow> HeaderRow \<Rightarrow> nat \<Rightarrow> kv_state \<Rightarrow> kv_state" where
  "activateEmptyRow loading uuid row index s =
     (if kr_enabled row \<or> keyValueRowHasContent row then s else kv_update loading (activate_rows uuid row index True) s)"

definition toggle_enabled :: "bool \<Rightarrow> string \<Rightarrow> HeaderRow \<Rightarrow> nat \<Rightarrow> bool \<Rightarrow> kv_state \<Rightarrow> kv_state" where
  "toggle_enabled loading uuid row index enabled = kv_update loading (activate_rows uuid row index enabled)"

definition remove_rows :: "string \<Rightarrow> HeaderRow \<Rightarrow> HeaderRow list \<Rightarrow> HeaderRow list" where
  "remove_rows uuid row current =
     (let next = filter (\<lambda>item. kr_id item \<noteq> kr_id row) current in
      if next \<noteq> [] \<and> \<not> keyValueRowHasContent (last next) then next else next @ [query_row uuid [] []])"

definition remove_row :: "bool \<Rightarrow> string \<Rightarrow> HeaderRow \<Rightarrow> kv_state \<Rightarrow> kv_state" where
  "remove_row loading uuid row = kv_update loading (remove_rows uuid row)"

definition require_rows :: "HeaderRow list \<Rightarrow> HeaderRow list" where
  "require_rows current =
     (let required = \<not> list_all kr_required (filter keyValueRowHasContent current)
      in map (\<lambda>item. if keyValueRowHasContent item then item\<lparr> kr_required := required \<rparr> else item) current)"

definition toggle_all_required :: "bool \<Rightarrow> kv_state \<Rightarrow> kv_state" where
  "toggle_all_required loading = kv_update loading require_rows"

text \<open>The actions the rendered rows offer: \<open>row\<close> is the row shown at \<open>index\<close>, new identifiers are fresh.\<close>

inductive kv_step :: "kv_state \<Rightarrow> kv_state \<Rightarrow> bool" where
  edit: "index < length (kv_rows s) \<Longrightarrow> uuid \<notin> kr_id ` set (kv_rows s) \<Longrightarrow>
    kv_step s (edit_row loading uuid (kv_rows s ! index) index patch s)"
| typing: "index < length (kv_rows s) \<Longrightarrow> uuid \<notin> kr_id ` set (kv_rows s) \<Longrightarrow>
    kv_step s (activateTypeSelection loading uuid (kv_rows s ! index) index s)"
| focus: "index < length (kv_rows s) \<Longrightarrow> uuid \<notin> kr_id ` set (kv_rows s) \<Longrightarrow>
    kv_step s (activateEmptyRow loading uuid (kv_rows s ! index) index s)"
| check: "index < length (kv_rows s) \<Longrightarrow> uuid \<notin> kr_id ` set (kv_rows s) \<Longrightarrow>
    kv_step s (toggle_enabled loading uuid (kv_rows s ! index) index enabled s)"
| delete: "index < length (kv_rows s) \<Longrightarrow> uuid \<notin> kr_id ` set (kv_rows s) \<Longrightarrow>
    kv_step s (remove_row loading uuid (kv_rows s ! index) s)"
| require_all: "kv_step s (toggle_all_required loading s)"

inductive_cases kv_stepE: "kv_step s t"

section \<open>The spare row\<close>

text \<open>Identifiers are distinct, and the last row is empty: there is always a row to type into.\<close>

definition rows_inv :: "HeaderRow list \<Rightarrow> bool" where
  "rows_inv rows \<longleftrightarrow> distinct (map kr_id rows) \<and> rows \<noteq> [] \<and> \<not> keyValueRowHasContent (last rows)"

lemma empty_row_content [simp]: "\<not> keyValueRowHasContent (query_row uuid [] [])" "\<not> keyValueRowHasContent (header_row uuid [] [])"
  by (simp_all add: createQueryRow_def createHeaderRow_def keyValueRowHasContent_def not_blank_def)

lemma row_ids [simp]:
  "kr_id (query_row uuid k v) = uuid" "kr_id (header_row uuid k v) = uuid"
  "kr_id (editKeyValueRow row patch) = kr_id row"
proof -
  show "kr_id (editKeyValueRow row patch) = kr_id row"
    by (cases patch) (simp_all add: editKeyValueRow_def Let_def)
qed (simp_all add: createQueryRow_def createHeaderRow_def)

lemma content_update [simp]: "keyValueRowHasContent (row\<lparr> kr_enabled := b \<rparr>) = keyValueRowHasContent row"
  by (simp add: keyValueRowHasContent_def)

text \<open>A change of one row that keeps the identifiers, with the optional new row at the end.\<close>

lemma replace_one_inv:
  assumes inv: "rows_inv rows" and i: "index < length rows" and new: "uuid \<notin> kr_id ` set rows"
    and id: "\<And>r. kr_id (f r) = kr_id r"
    and rows': "rows' = map (\<lambda>r. if kr_id r = kr_id (rows ! index) then f r else r) rows"
    and result: "result = rows' @ [query_row uuid [] []]
      \<or> result = rows' \<and> (index = length rows - 1 \<longrightarrow> \<not> keyValueRowHasContent (f (last rows)))"
  shows "rows_inv result"
proof -
  have ids: "map kr_id rows' = map kr_id rows" by (simp add: rows' id comp_def if_distrib cong: if_cong)
  from inv have ne: "rows \<noteq> []" "distinct (map kr_id rows)" by (simp_all add: rows_inv_def)
  have last: "last rows' = (if index = length rows - 1 then f (last rows) else last rows)"
  proof -
    have "kr_id (last rows) = kr_id (rows ! index) \<longleftrightarrow> index = length rows - 1"
      using ne i nth_eq_iff_index_eq [of "map kr_id rows" "length rows - 1" index] by (auto simp: last_conv_nth)
    then show ?thesis using ne by (simp add: rows' last_map)
  qed
  have "rows' \<noteq> []" using ne by (simp add: rows')
  from result show ?thesis
  proof
    assume "result = rows' @ [query_row uuid [] []]"
    with new ne ids show ?thesis by (simp add: rows_inv_def)
  next
    assume "result = rows' \<and> (index = length rows - 1 \<longrightarrow> \<not> keyValueRowHasContent (f (last rows)))"
    with last ids ne inv \<open>rows' \<noteq> []\<close> show ?thesis by (simp add: rows_inv_def)
  qed
qed

lemma edit_rows_inv:
  assumes "rows_inv rows" and "index < length rows" and "uuid \<notin> kr_id ` set rows"
  shows "rows_inv (edit_rows uuid (rows ! index) index patch rows)"
proof -
  let ?f = "\<lambda>r. editKeyValueRow r patch"
  let ?rows' = "map (\<lambda>r. if kr_id r = kr_id (rows ! index) then ?f r else r) rows"
  have "?rows' ! index = ?f (rows ! index)" and "rows \<noteq> []" using assms(1,2) by (auto simp: rows_inv_def)
  then show ?thesis
    by (intro replace_one_inv [OF assms, of ?f ?rows'])
      (auto simp: edit_rows_def appendEmptyKeyValueRow_def last_conv_nth)
qed

lemma activate_rows_inv:
  assumes "rows_inv rows" and "index < length rows" and "uuid \<notin> kr_id ` set rows"
  shows "rows_inv (activate_rows uuid (rows ! index) index enabled rows)"
  by (rule replace_one_inv [OF assms, of "\<lambda>r. r\<lparr> kr_enabled := enabled \<rparr>"])
    (use assms(1) in \<open>auto simp: activate_rows_def set_enabled_def rows_inv_def\<close>)

lemma remove_rows_inv:
  assumes "rows_inv rows" and "uuid \<notin> kr_id ` set rows"
  shows "rows_inv (remove_rows uuid row rows)"
proof -
  have "distinct (map kr_id (filter p rows))" for p using assms(1) by (auto simp: rows_inv_def distinct_map inj_on_def)
  with assms(2) show ?thesis by (auto simp: remove_rows_def Let_def rows_inv_def image_iff)
qed

lemma require_rows_inv: "rows_inv rows \<Longrightarrow> rows_inv (require_rows rows)"
proof -
  assume inv: "rows_inv rows"
  let ?f = "\<lambda>r. if keyValueRowHasContent r then r\<lparr> kr_required := \<not> list_all kr_required (filter keyValueRowHasContent rows) \<rparr> else r"
  have "map kr_id (map ?f rows) = map kr_id rows" by simp
  moreover have "last (map ?f rows) = last rows" using inv by (simp add: rows_inv_def last_map)
  moreover have "require_rows rows = map ?f rows" by (simp add: require_rows_def Let_def)
  ultimately show ?thesis using inv unfolding rows_inv_def by (metis map_is_Nil_conv)
qed

definition kv_inv :: "kv_state \<Rightarrow> bool" where
  "kv_inv s \<longleftrightarrow> rows_inv (kv_rows s) \<and> list_all rows_inv (kv_told s)"

lemma kv_update_inv: "kv_inv s \<Longrightarrow> rows_inv (producer (kv_rows s)) \<Longrightarrow> kv_inv (kv_update loading producer s)"
  by (simp add: kv_inv_def kv_update_def)

lemma kv_step_inv: "kv_step s t \<Longrightarrow> kv_inv s \<Longrightarrow> kv_inv t"
proof (induction rule: kv_step.induct)
  case (edit index s uuid loading patch)
  then show ?case unfolding edit_row_def by (intro kv_update_inv edit_rows_inv) (auto simp: kv_inv_def)
next
  case (typing index s uuid loading)
  then have "kv_inv (edit_row loading uuid (kv_rows s ! index) index SelectType s)"
    unfolding edit_row_def by (intro kv_update_inv edit_rows_inv) (auto simp: kv_inv_def)
  with typing show ?case by (simp add: activateTypeSelection_def)
next
  case (focus index s uuid loading)
  then have "kv_inv (kv_update loading (activate_rows uuid (kv_rows s ! index) index True) s)"
    by (intro kv_update_inv activate_rows_inv) (auto simp: kv_inv_def)
  with focus show ?case by (simp add: activateEmptyRow_def)
next
  case (check index s uuid loading enabled)
  then show ?case unfolding toggle_enabled_def by (intro kv_update_inv activate_rows_inv) (auto simp: kv_inv_def)
next
  case (delete index s uuid loading)
  then show ?case unfolding remove_row_def by (intro kv_update_inv remove_rows_inv) (auto simp: kv_inv_def)
next
  case (require_all s loading)
  then show ?case unfolding toggle_all_required_def by (intro kv_update_inv require_rows_inv) (auto simp: kv_inv_def)
qed

lemma number_rows_inv:
  assumes "inj uuid" and "mk \<in> {header_row, query_row}"
  shows "rows_inv (number_rows mk uuid pairs)"
proof -
  have ids: "kr_id (mk i k v) = i" for i k v using assms(2) by auto
  have "map kr_id (number_rows mk uuid pairs) = map uuid [0..<Suc (length pairs)]"
  proof -
    have "map (\<lambda>x. uuid (fst x)) (enumerate 0 pairs) = map uuid (map fst (enumerate 0 pairs))" by (simp add: comp_def del: map_fst_enumerate)
    then have "map (\<lambda>x. uuid (fst x)) (enumerate 0 pairs) = map uuid [0..<length pairs]" by (simp only: map_fst_enumerate add_0)
    then show ?thesis by (simp add: number_rows_def ids comp_def case_prod_beta)
  qed
  then show ?thesis using assms by (auto simp: rows_inv_def distinct_map number_rows_def intro: inj_on_subset dest: injD)
qed

text \<open>C14: from the rows of a request on, whatever the user edits, checks, removes or requires, and whatever is dropped while loading:
  row identifiers stay distinct and the last row has no content, so there is always a row to type into at the end (there may
  be more: checking the box of that row adds another), in the rows and in every list of rows the owner is told.\<close>

theorem rows_keep_spare:
  assumes "inj uuid" and "kv_step\<^sup>*\<^sup>* \<lparr> kv_rows = headerRowsFromPairs uuid headers, kv_told = [] \<rparr> s"
  shows "kv_inv s"
  using assms(2)
proof (induction rule: rtranclp_induct)
  case base
  have "rows_inv (headerRowsFromPairs uuid headers)"
    unfolding headerRowsFromPairs_def by (rule number_rows_inv [OF assms(1)]) simp
  then show ?case by (simp add: kv_inv_def)
next
  case (step s t)
  then show ?case by (blast intro: kv_step_inv)
qed

text \<open>Checking the box of the row to type into leaves two rows without content.\<close>

lemma checked_spare_row:
  "map (\<lambda>r. (kr_id r, keyValueRowHasContent r))
     (kv_rows (toggle_enabled False ''b'' (query_row ''a'' [] []) 0 True \<lparr> kv_rows = [query_row ''a'' [] []], kv_told = [] \<rparr>))
   = [(''a'', False), (''b'', False)]"
  by code_simp

definition sample_uuid :: "nat \<Rightarrow> string" where
  "sample_uuid n = replicate n (CHR ''x'')"

definition sample_editor :: kv_state where
  "sample_editor = \<lparr> kv_rows = headerRowsFromPairs sample_uuid [(''a'', ''1'')], kv_told = [] \<rparr>"

theorem rows_keep_spare_witness:
  "kv_inv (edit_row False ''new'' (kv_rows sample_editor ! 1) 1 (SetKey ''k'') sample_editor)"
proof -
  have "inj sample_uuid" by (rule injI) (metis length_replicate sample_uuid_def)
  moreover have "kv_step sample_editor (edit_row False ''new'' (kv_rows sample_editor ! 1) 1 (SetKey ''k'') sample_editor)"
    by (rule kv_step.edit) (simp_all add: sample_editor_def headerRowsFromPairs_def number_rows_def sample_uuid_def)
  ultimately show ?thesis
    using rows_keep_spare [of sample_uuid "[(''a'', ''1'')]"] by (auto simp: sample_editor_def)
qed

section \<open>Rows and address\<close>

lemma number_rows_pairs: "mk \<in> {header_row, query_row} \<Longrightarrow>
    map (\<lambda>r. (kr_key r, kr_value r)) (butlast (number_rows mk uuid pairs)) = pairs"
proof -
  assume "mk \<in> {header_row, query_row}"
  then have "kr_key (mk i k v) = k" "kr_value (mk i k v) = v" for i k v
    by (auto simp: createQueryRow_def createHeaderRow_def)
  then have "map (\<lambda>r. (kr_key r, kr_value r)) (butlast (number_rows mk uuid pairs)) = map snd (enumerate 0 pairs)"
    by (simp add: number_rows_def comp_def case_prod_beta)
  then show ?thesis by simp
qed

lemma form_serialize_no: "c \<in> {CHR ''#'', CHR ''?''} \<Longrightarrow> c \<notin> set (form_serialize ps)"
proof -
  assume c: "c \<in> {CHR ''#'', CHR ''?''}"
  have "c \<notin> set (form_encode s)" for s using form_char_chars c by (auto simp: form_encode_def)
  with c show ?thesis by (auto simp: form_serialize_def dest!: set_join)
qed

lemma form_serialize_empty: "form_serialize ps = [] \<longleftrightarrow> ps = []"
proof
  assume "form_serialize ps = []"
  then have "form_parse (form_serialize ps) = form_parse (form_serialize [])" by (simp add: form_serialize_def)
  then show "ps = []" by (simp add: form_parse_serialize)
qed (simp add: form_serialize_def)

lemma split_hd_take: "hd (split c s) = (case indexOf s c of Some i \<Rightarrow> take i s | None \<Rightarrow> s)"
proof (induction s)
  case (Cons d s)
  then show ?case by (cases "split c s") (auto split: option.splits)
qed simp

lemma split_hd_no: "c \<notin> set (hd (split c s))"
  by (meson list.set_sel(1) split_no_sep split_not_Nil)

lemma query_of_written: "query_of (urlWithQueryRows url rows) = form_serialize (sent_rows rows)"
proof -
  let ?w = "hd (split (CHR ''#'') url)" and ?q = "form_serialize (sent_rows rows)"
  let ?base = "hd (split (CHR ''?'') ?w)"
  let ?hash = "case indexOf url (CHR ''#'') of Some i \<Rightarrow> drop i url | None \<Rightarrow> []"
  have u: "urlWithQueryRows url rows = ?base @ (if ?q \<noteq> [] then ''?'' @ ?q else []) @ ?hash"
    by (simp add: urlWithQueryRows_def Let_def split_hd_take)
  have b: "CHR ''?'' \<notin> set ?base" "CHR ''#'' \<notin> set ?base"
    using split_hd_no [of "CHR ''?''" ?w] split_hd_no [of "CHR ''#''" url] split_subset [of ?base "CHR ''?''" ?w]
    by (auto simp: list.set_sel(1))
  have q: "CHR ''#'' \<notin> set ?q" "CHR ''?'' \<notin> set ?q" by (simp_all add: form_serialize_no)
  have h: "?hash = [] \<or> hd ?hash = CHR ''#''"
    by (cases "indexOf url (CHR ''#'')") (auto dest!: indexOf_Some simp: hd_drop_conv_nth)
  let ?front = "?base @ (if ?q \<noteq> [] then ''?'' @ ?q else [])"
  have front: "CHR ''#'' \<notin> set ?front" using b q by auto
  have "hd (split (CHR ''#'') (?front @ ?hash)) = ?front"
  proof (cases ?hash)
    case Nil
    with split_single [OF front] show ?thesis by simp
  next
    case (Cons c r)
    with h have "?hash = CHR ''#'' # r" by simp
    with split_append_sep [OF front] show ?thesis by simp
  qed
  then have "hd (split (CHR ''#'') (urlWithQueryRows url rows)) = ?front" by (simp add: u)
  moreover have "split (CHR ''?'') ?front = (if ?q \<noteq> [] then [?base, ?q] else [?base])"
    using b(1) q(2) by (simp add: split_append_sep split_single)
  ultimately show ?thesis by (simp add: query_of_def)
qed

text \<open>Writing the rows into the address and reading the address back gives the same parameters, in the same order, with the
  same names and values: the enabled rows with a name.\<close>

theorem query_rows_roundtrip:
  "\<exists>back. queryRowsFromUrl uuid (urlWithQueryRows url rows) = Some back
     \<and> map (\<lambda>r. (kr_key r, kr_value r)) (butlast back) = sent_rows rows"
  by (simp add: queryRowsFromUrl_def query_of_written form_parse_serialize number_rows_pairs)

end
