(* ===== verification/HttpText.thy ===== *)
theory HttpText imports HttpRows PayloadCodec Stores begin

text \<open>
  The functions of the HTTP workbench (\<^verbatim>\<open>packages/ui/src/HttpWorkbench.tsx\<close>) that work on texts and values: the body
  modes, the scripts a request carries, sizes, the views of a response, variables as lines of text, assertions and
  the rules generated from a response, and the authentication a form stands for. The TypeScript compiler that
  \<^verbatim>\<open>resolveAssets\<close> calls is the argument \<open>transpile\<close>; it returns \<open>None\<close> when it throws. Random identifiers come
  from \<open>uuid\<close>: the rules made in one call take \<open>uuid 0\<close>, \<open>uuid 1\<close> and so on.
\<close>

section \<open>Body modes\<close>

datatype BodyMode = MNone | MMultipart | MUrlencoded | MJson | MXml | MText | MGraphql | MJsonrpc | MSoap | MBinary | MMsgpack

definition BODY_MODES :: "(BodyMode \<times> string \<times> string option) list" where
  "BODY_MODES =
     [(MNone, ''none'', None),
      (MMultipart, ''form-data'', None),
      (MUrlencoded, ''x-www-form-urlencoded'', Some ''application/x-www-form-urlencoded''),
      (MJson, ''JSON'', Some ''application/json''),
      (MXml, ''XML'', Some ''application/xml''),
      (MText, ''Text'', Some ''text/plain''),
      (MGraphql, ''GraphQL'', Some ''application/json''),
      (MJsonrpc, ''JSON-RPC'', Some ''application/json''),
      (MSoap, ''SOAP'', Some ''application/soap+xml''),
      (MBinary, ''Binary'', Some ''application/octet-stream''),
      (MMsgpack, ''MessagePack'', Some ''application/msgpack'')]"

text \<open>\<open>None\<close>: \<^verbatim>\<open>JSON.parse\<close> throws.\<close>

definition formatJsonBody :: "string \<Rightarrow> string option" where
  "formatJsonBody v = (if \<not> not_blank v then Some v else Option.bind (JSON_parse v) JSON_stringify2)"

section \<open>Scripts\<close>

definition SCRIPT_MARK :: string where "SCRIPT_MARK = ''// @apivoy-script:''"

text \<open>\<^verbatim>\<open>assets.find((item) => item.id === id)\<close>; reading a property of \<^verbatim>\<open>null\<close> throws.\<close>

fun find_asset :: "string \<Rightarrow> jsval list \<Rightarrow> jsval option option" where
  "find_asset i [] = Some None"
| "find_asset i (item # items) =
     (if nullish item then None else if js_get item ''id'' = JStr i then Some (Some item) else find_asset i items)"

definition asset_script :: "(jsval \<Rightarrow> string option) \<Rightarrow> jsval \<Rightarrow> string option" where
  "asset_script transpile item =
     map_option (\<lambda>source. SCRIPT_MARK @ js_String (js_get item ''id'') @ [NL] @ source)
       (if js_get item ''language'' = JStr ''typescript'' then transpile (js_get item ''source'')
        else Some (js_String (js_get item ''source'')))"

definition resolveAssets :: "(jsval \<Rightarrow> string option) \<Rightarrow> browser \<Rightarrow> string list \<Rightarrow> string list option" where
  "resolveAssets transpile b ids =
     (case read_json b scripts_key ''[]'' of
        None \<Rightarrow> Some []
      | Some assets \<Rightarrow>
          if ids = [] then Some []
          else if \<not> isArray assets then None
          else Option.bind (all_some (map (\<lambda>i. find_asset i (elements assets)) ids))
                 (\<lambda>found. all_some (map (asset_script transpile) (List.map_filter id found))))"

definition SCRIPT_LINE :: re where
  "SCRIPT_LINE = RSeqs [RBolM, RLit SCRIPT_MARK, RGroup 1 (RPlus RNonSpace)]"

definition script_id :: "string \<Rightarrow> string option" where
  "script_id script = Option.bind (rexec SCRIPT_LINE script 0) (\<lambda>m. m_group script m 1)"

definition assetIdsFromScripts :: "string list option \<Rightarrow> string list" where
  "assetIdsFromScripts scripts =
     uniq (filter (\<lambda>i. i \<noteq> []) (List.map_filter script_id (or_default scripts [])))"

section \<open>Sizes\<close>

text \<open>\<^verbatim>\<open>(a / b).toFixed(d)\<close> for a quotient that is a double, not negative.\<close>

definition toFixed :: "nat \<Rightarrow> nat \<Rightarrow> nat \<Rightarrow> string" where
  "toFixed d a b =
     (let n = (2 * 10 ^ d * a + b) div (2 * b)
      in if d = 0 then digits_of n
         else (let s = digits_of n; padded = zeros (Suc d - length s) @ s in take (length padded - d) padded @ ''.'' @ drop (length padded - d) padded))"

definition formatBytes :: "nat \<Rightarrow> string" where
  "formatBytes octets =
     (if octets < 1024 then digits_of octets @ '' B''
      else if octets < 1024 * 1024 then toFixed (if octets < 10 * 1024 then 1 else 0) octets 1024 @ '' KB''
      else toFixed 1 octets (1024 * 1024) @ '' MB'')"

definition CHARSET :: re where
  "CHARSET = RSeqs [RLitI ''charset'', RStar RSpace, RLit ''='', RStar RSpace, ROpt (ROne [QUOTE, CHR 0x27]),
     RGroup 1 (RPlus (RSet (\<lambda>c. c \<notin> {CHR '';'', QUOTE, CHR 0x27} \<and> \<not> js_ws c)))]"

definition charsetFromContentType :: "string option \<Rightarrow> string" where
  "charsetFromContentType contentType =
     (case Option.bind contentType (\<lambda>s. Option.bind (rexec CHARSET s 0) (\<lambda>m. m_group s m 1)) of
        Some c \<Rightarrow> toLowerCase c | None \<Rightarrow> ''utf-8'')"

definition header_bytes :: "header_list \<Rightarrow> nat" where
  "header_bytes headers = foldl (\<lambda>n (name, v). n + length (utf8 (name @ '': '' @ v @ [CHR 0x0D, NL]))) 0 headers"

definition requestHeaderSize :: "HttpWorkbenchRequest option \<Rightarrow> nat" where
  "requestHeaderSize request = (case request of None \<Rightarrow> 0 | Some r \<Rightarrow> header_bytes (hw_headers r))"

definition requestBodySize :: "HttpWorkbenchRequest option \<Rightarrow> nat" where
  "requestBodySize request = length (utf8 (or_default (Option.bind request hw_body) []))"

definition requestSize :: "HttpWorkbenchRequest option \<Rightarrow> nat" where
  "requestSize request = (if request = None then 0 else requestHeaderSize request + requestBodySize request)"

definition responseHeaderSize :: "ResponseMeta option \<Rightarrow> nat" where
  "responseHeaderSize meta = (case meta of None \<Rightarrow> 0 | Some m \<Rightarrow> header_bytes (rm_headers m))"

text \<open>The content type \<^verbatim>\<open>HttpLiveRequestView\<close> shows.\<close>

definition live_content_type :: "HttpWorkbenchRequest \<Rightarrow> string" where
  "live_content_type request =
     (case find (\<lambda>(header, _). toLowerCase header = ''content-type'') (hw_headers request) of
        Some (_, v) \<Rightarrow> v | None \<Rightarrow> formatBytes (requestBodySize (Some request)))"

section \<open>Views of a response\<close>

definition prettyPreview :: "string \<Rightarrow> string" where
  "prettyPreview preview = or_default (Option.bind (JSON_parse preview) JSON_stringify2) preview"

text \<open>\<^verbatim>\<open>padStart\<close> with zeros, \<^verbatim>\<open>padEnd\<close> with blanks, \<^verbatim>\<open>toString(16)\<close>.\<close>

definition padEnd :: "nat \<Rightarrow> string \<Rightarrow> string" where
  "padEnd n s = s @ spaces (n - length s)"

fun hex_of :: "nat \<Rightarrow> string" where
  "hex_of n = (if n < 16 then [hex_digit n] else hex_of (n div 16) @ [hex_digit (n mod 16)])"

declare hex_of.simps [simp del]

definition pad8 :: "string \<Rightarrow> string" where
  "pad8 s = zeros (8 - length s) @ s"

definition ascii_char :: "nat \<Rightarrow> char" where
  "ascii_char b = (if 32 \<le> b \<and> b < 127 then char_of b else CHR ''.'')"

function hex_lines :: "nat \<Rightarrow> nat list \<Rightarrow> string list" where
  "hex_lines offset octets =
     (if octets = [] then []
      else (let row = take 16 octets;
                hex = padEnd 47 (join '' '' (map hex_byte row));
                ascii = map ascii_char row
            in (pad8 (hex_of offset) @ ''  '' @ hex @ ''  |'' @ ascii @ ''|'') # hex_lines (offset + 16) (drop 16 octets)))"
  by pat_completeness auto
termination
  by (relation "measure (length \<circ> snd)") (auto simp: length_greater_0_conv)

declare hex_lines.simps [simp del]

definition hexPreview :: "string \<Rightarrow> string" where
  "hexPreview preview = join [NL] (hex_lines 0 (utf8 preview))"

definition jsonRows :: "string \<Rightarrow> (string list \<times> jsval list) option" where
  "jsonRows preview =
     Option.bind (JSON_parse preview) (\<lambda>parsed.
       let rows = (if isArray parsed then elements parsed else [parsed]) in
       if list_all is_record rows then Some (uniq (concat (map (map fst \<circ> entries) rows)), rows) else None)"

definition failedSummary :: "string \<Rightarrow> ExecutionSummary" where
  "failedSummary now =
     \<lparr> es_executionId = [], es_requestId = [], es_protocolId = ''http'', es_state = Failed, es_startedAt = now,
       es_finishedAt = now, es_durationMs = 0, es_bytesReceived = 0, es_status = None \<rparr>"

section \<open>Variables as lines of text\<close>

definition kv_line :: "string \<Rightarrow> (string \<times> string) option" where
  "kv_line line =
     (let trimmed = trim line in
      if trimmed = [] \<or> startsWith trimmed ''#'' then None
      else (case indexOf trimmed (CHR ''='') of
              Some idx \<Rightarrow> if idx > 0 then Some (trim (take idx trimmed), trim (drop (Suc idx) trimmed)) else None
            | None \<Rightarrow> None))"

definition parseKv :: "string \<Rightarrow> header_list" where
  "parseKv source =
     foldl (\<lambda>out line. case kv_line line of None \<Rightarrow> out | Some (k, v) \<Rightarrow> set_prop k v out) [] (split NL source)"

definition formatKv :: "header_list \<Rightarrow> string" where
  "formatKv vars = join [NL] (map (\<lambda>(k, v). k @ ''='' @ v) vars)"

section \<open>Assertions\<close>

definition ASSERTION_SCHEMA_VERSION :: int where "ASSERTION_SCHEMA_VERSION = 2"

fun ASSERTION_OPERATORS :: "AssertionTarget \<Rightarrow> AssertionOperator list" where
  "ASSERTION_OPERATORS TStatus = [OpEquals, OpNotEquals, OpIn, OpGreaterThan, OpLessThan]"
| "ASSERTION_OPERATORS THeader = [OpEquals, OpNotEquals, OpContains, OpNotContains, OpExists, OpNotExists]"
| "ASSERTION_OPERATORS TBody = [OpContains, OpNotContains]"
| "ASSERTION_OPERATORS TJsonPath =
     [OpEquals, OpNotEquals, OpExists, OpNotExists, OpTypeIs, OpGreaterThan, OpLessThan, OpLengthEquals, OpLengthGreaterThan, OpLengthLessThan]"
| "ASSERTION_OPERATORS TDuration = [OpGreaterThan, OpLessThan]"
| "ASSERTION_OPERATORS TSize = [OpGreaterThan, OpLessThan]"

definition createAssertion :: "string \<Rightarrow> AssertionTarget \<Rightarrow> Assertion" where
  "createAssertion uuid target =
     \<lparr> as_id = uuid, as_enabled = True, as_target = target, as_operator = hd (ASSERTION_OPERATORS target),
       as_selector = Some [], as_expected = Some [] \<rparr>"

definition assertionNeedsSelector :: "Assertion \<Rightarrow> bool" where
  "assertionNeedsSelector rule = (as_target rule = THeader \<or> as_target rule = TJsonPath)"

definition assertionNeedsExpected :: "Assertion \<Rightarrow> bool" where
  "assertionNeedsExpected rule = (as_operator rule \<noteq> OpExists \<and> as_operator rule \<noteq> OpNotExists)"

definition filled :: "string option \<Rightarrow> bool" where
  "filled v = (case v of None \<Rightarrow> False | Some s \<Rightarrow> not_blank s)"

definition assertionValid :: "Assertion \<Rightarrow> bool" where
  "assertionValid rule =
     ((\<not> assertionNeedsSelector rule \<or> filled (as_selector rule)) \<and> (\<not> assertionNeedsExpected rule \<or> filled (as_expected rule)))"

text \<open>The rules so far, the nodes counted and whether the budget ran out.\<close>

record rule_state =
  gr_rules :: "Assertion list"
  gr_nodes :: nat
  gr_truncated :: bool

datatype generation_warning = TooLargeToExpand | NotJson | BudgetExceeded

definition push_rule :: "(nat \<Rightarrow> string) \<Rightarrow> AssertionTarget \<Rightarrow> AssertionOperator \<Rightarrow> string \<Rightarrow> string option \<Rightarrow> Assertion list \<Rightarrow> Assertion list" where
  "push_rule uuid target op selector expected rules =
     rules @ [(createAssertion (uuid (length rules)) target)\<lparr> as_operator := op, as_selector := Some selector, as_expected := expected \<rparr>]"

definition SAFE_NAME :: re where
  "SAFE_NAME = RSeqs [RBol, RSet (\<lambda>c. is_alpha c \<or> c = CHR ''_'' \<or> c = CHR ''$''), RStar (RSet (\<lambda>c. is_word c \<or> c = CHR ''$'')), REol]"

definition escape_pointer :: "string \<Rightarrow> string" where
  "escape_pointer key = replace_char (CHR ''/'') ''~1'' (replace_char (CHR ''~'') ''~0'' key)"

lemma isArray_elements: "isArray v \<Longrightarrow> v = JArr (elements v)"
  by (cases v) simp_all

lemma hd_less: "isArray v \<Longrightarrow> elements v \<noteq> [] \<Longrightarrow> size (hd (elements v)) < size v"
  using size_elem_less [of "hd (elements v)" "elements v"] by (cases v) auto

lemma entries_less: "is_object v \<Longrightarrow> \<not> isArray v \<Longrightarrow> 2 * size_list (size_prod (\<lambda>k. 0) size) (entries v) < Suc (2 * size v)"
  by (cases v) (auto simp: is_object_def)

function visit_value :: "(nat \<Rightarrow> string) \<Rightarrow> jsval \<Rightarrow> string \<Rightarrow> string \<Rightarrow> nat \<Rightarrow> bool \<Rightarrow> rule_state \<Rightarrow> rule_state"
  and visit_entries :: "(nat \<Rightarrow> string) \<Rightarrow> props \<Rightarrow> string \<Rightarrow> string \<Rightarrow> nat \<Rightarrow> bool \<Rightarrow> rule_state \<Rightarrow> rule_state"
where
  "visit_value uuid v path pointer depth usePointer st =
     (let counted = st\<lparr> gr_nodes := gr_nodes st + 1 \<rparr>; selector = (if usePointer then pointer else path) in
      if gr_nodes counted > 300 \<or> depth > 8 then counted\<lparr> gr_truncated := True \<rparr>
      else if isArray v then
        (let pushed = counted\<lparr> gr_rules := push_rule uuid TJsonPath OpLengthEquals selector (Some (digits_of (length (elements v)))) (gr_rules counted) \<rparr>
         in if elements v \<noteq> [] then visit_value uuid (hd (elements v)) (path @ ''[0]'') (pointer @ ''/0'') (depth + 1) usePointer pushed else pushed)
      else if is_object v then visit_entries uuid (entries v) path pointer depth usePointer counted
      else counted\<lparr> gr_rules := push_rule uuid TJsonPath OpEquals selector
             (case v of JStr s \<Rightarrow> Some s | _ \<Rightarrow> JSON_stringify v) (gr_rules counted) \<rparr>)"
| "visit_entries uuid [] path pointer depth usePointer st = st"
| "visit_entries uuid ((key, child) # ps) path pointer depth usePointer st =
     (if gr_nodes st > 300 then st
      else visit_entries uuid ps path pointer depth usePointer
        (visit_value uuid child (path @ ''.'' @ key) (pointer @ ''/'' @ escape_pointer key) (depth + 1)
          (usePointer \<or> \<not> rtest SAFE_NAME key) st))"
  by pat_completeness auto
termination
  by (relation "measure (\<lambda>x. case x of Inl (_, v, _) \<Rightarrow> 2 * size v + 2 | Inr (_, ps, _) \<Rightarrow> 2 * size_list (size_prod (\<lambda>k. 0) size) ps + 1)")
    (auto simp: hd_less entries_less)

declare visit_value.simps [simp del] visit_entries.simps(2) [simp del]

definition header_rules :: "(nat \<Rightarrow> string) \<Rightarrow> header_list \<Rightarrow> Assertion list \<Rightarrow> Assertion list" where
  "header_rules uuid headers rules =
     foldl (\<lambda>acc (selector, expected). push_rule uuid THeader OpEquals selector (Some expected) acc) rules (take 50 headers)"

definition generatedAssertions ::
  "(nat \<Rightarrow> string) \<Rightarrow> string \<Rightarrow> int option \<Rightarrow> header_list \<Rightarrow> Assertion list \<times> generation_warning option" where
  "generatedAssertions uuid preview status headers =
     (let first = (case status of None \<Rightarrow> [] | Some s \<Rightarrow> push_rule uuid TStatus OpEquals [] (Some (show_int s)) []);
          rules = header_rules uuid headers first
      in if length (utf8 preview) > 1000000 then (rules, Some TooLargeToExpand)
         else (case JSON_parse preview of
                 None \<Rightarrow> (rules, Some NotJson)
               | Some root \<Rightarrow>
                   (let st = visit_value uuid root ''$'' [] 0 False \<lparr> gr_rules = rules, gr_nodes = 0, gr_truncated = False \<rparr>
                    in (gr_rules st, if gr_truncated st then Some BudgetExceeded else None))))"

section \<open>Authentication\<close>

definition or_null :: "string \<Rightarrow> string option" where
  "or_null s = (if trim s = [] then None else Some (trim s))"

datatype BearerTokenSource = Direct | SecretRef

type_synonym auth_text = string \<comment> \<open>what was typed into a field of the authentication form\<close>

definition buildAuth ::
  "string \<Rightarrow> BearerTokenSource \<Rightarrow> auth_text \<Rightarrow> auth_text \<Rightarrow> auth_text \<Rightarrow> auth_text \<Rightarrow> auth_text \<Rightarrow> auth_text \<Rightarrow> auth_text \<Rightarrow> auth_text \<Rightarrow> auth_text \<Rightarrow> auth_text \<Rightarrow> auth_text
     \<Rightarrow> AuthRef option" where
  "buildAuth kind bearerTokenSource bearerToken secretRef username headerName tokenUrl scope audience authorizationUrl redirectUri
     codeRef verifierRef =
     (if kind = ''none'' then None
      else
        (let bearer = (kind = ''bearer'' \<and> bearerTokenSource = Direct); oauth = startsWith kind ''oauth2_'';
             code_flow = (kind = ''oauth2_authorization_code'')
         in Some
           \<lparr> au_kind = kind,
             au_secret_ref = (if bearer then None else or_null secretRef),
             au_token = (if bearer then or_null bearerToken else None),
             au_username = (if kind = ''basic'' \<or> oauth then or_null username else None),
             au_header_name = (if kind = ''api_key'' then Some (or_default (or_null headerName) ''X-Api-Key'') else None),
             au_token_url = (if oauth then or_null tokenUrl else None),
             au_scope = (if oauth then or_null scope else None),
             au_audience = (if oauth then or_null audience else None),
             au_authorization_url = (if code_flow then or_null authorizationUrl else None),
             au_redirect_uri = (if code_flow then or_null redirectUri else None),
             au_authorization_code_ref = (if code_flow then Some codeRef else None),
             au_code_verifier_ref = (if code_flow then Some verifierRef else None) \<rparr>))"

end
