(* ===== verification/RegexLaws.thy ===== *)
theory RegexLaws imports JsRegex JsonText begin

text \<open>
  What single expressions match, exactly: literals, greedy repetitions of a set of characters, and the first result of a
  sequence; and how a search passes over the lines on which an anchored expression cannot match.
\<close>

lemma rmatch_Lit: "rmatch (RLit p) (u @ p @ v) (length u, cs) = [(length u + length p, cs)]"
proof (induction p arbitrary: u)
  case (Cons c p)
  from Cons [of "u @ [c]"] show ?case by (cases p) (simp_all add: nth_append)
qed simp

lemma rmatch_Lit_eq:
  "i \<le> length s \<Longrightarrow> rmatch (RLit p) s (i, cs) = (if take (length p) (drop i s) = p then [(i + length p, cs)] else [])"
proof (induction p arbitrary: i)
  case Nil
  then show ?case by simp
next
  case (Cons c p)
  show ?case
  proof (cases "i < length s")
    case True
    then have d: "drop i s = s ! i # drop (Suc i) s" by (simp add: Cons_nth_drop_Suc)
    show ?thesis using True Cons.IH [of "Suc i"] by (cases p) (auto simp: d)
  next
    case False
    then show ?thesis using Cons.prems by (cases p) auto
  qed
qed

text \<open>A greedy repetition tries every length, the longest first.\<close>

lemma rmatch_star_run:
  assumes "i \<le> k" "k \<le> length s" "\<forall>j. i \<le> j \<and> j < k \<longrightarrow> p (s ! j)" "k = length s \<or> \<not> p (s ! k)"
  shows "rmatch (RStar (RSet p)) s (i, cs) = map (\<lambda>j. (j, cs)) (rev [i ..< Suc k])"
  using assms
proof (induction "k - i" arbitrary: i)
  case 0
  then show ?case by (subst rmatch.simps(5)) auto
next
  case (Suc n)
  then have i: "i < k" by simp
  then have "n = k - Suc i" using Suc.hyps(2) by simp
  from Suc.hyps(1) [OF this] i Suc.prems
  have "rmatch (RStar (RSet p)) s (Suc i, cs) = map (\<lambda>j. (j, cs)) (rev [Suc i ..< Suc k])" by simp
  moreover have "i < length s" "p (s ! i)" using i Suc.prems by auto
  ultimately show ?case using i by (subst rmatch.simps(5)) (simp add: upt_conv_Cons del: upt_Suc)
qed

lemma rmatch_star_greedy:
  assumes "i \<le> k" "k \<le> length s" "\<forall>j. i \<le> j \<and> j < k \<longrightarrow> p (s ! j)" "k = length s \<or> \<not> p (s ! k)"
  shows "\<exists>rest. rmatch (RStar (RSet p)) s (i, cs) = (k, cs) # rest"
  using rmatch_star_run [OF assms] assms(1) by simp

lemma rmatch_Seq_first:
  "rmatch a s st = x # xs \<Longrightarrow> rmatch b s x = y # ys \<Longrightarrow> \<exists>zs. rmatch (RSeq a b) s st = y # zs"
  by simp

lemma rmatch_Seq_second:
  "rmatch a s st = x # x' # xs \<Longrightarrow> rmatch b s x = [] \<Longrightarrow> rmatch b s x' = y # ys \<Longrightarrow> \<exists>zs. rmatch (RSeq a b) s st = y # zs"
  by simp

section \<open>Searching line by line\<close>

lemma rexec_from_skip:
  "\<forall>j < k. rmatch r s (i + j, []) = [] \<Longrightarrow> rexec_from (k + n) r s i = rexec_from n r s (i + k)"
proof (induction k arbitrary: i)
  case (Suc k)
  have "rexec_from (k + n) r s (Suc i) = rexec_from n r s (Suc i + k)"
    by (rule Suc.IH) (use Suc.prems in \<open>metis Suc_less_eq add_Suc_shift\<close>)
  moreover have "rmatch r s (i, []) = []" using Suc.prems by force
  ultimately show ?case by simp
qed simp

lemma RSeqs_Cons: "rs \<noteq> [] \<Longrightarrow> RSeqs (r # rs) = RSeq r (RSeqs rs)"
  by (cases rs) simp_all

text \<open>A line without line ends that does not begin with the key is passed over.\<close>

abbreviation keyed :: "string \<Rightarrow> re list \<Rightarrow> re" where "keyed key rs \<equiv> RSeqs (RBolM # RLit key # rs)"

abbreviation one_line :: "string \<Rightarrow> bool" where "one_line l \<equiv> list_all (\<lambda>c. \<not> is_nl c) l"

lemma keyed_line_start:
  assumes "rmatch (keyed key rs) s (i, cs) \<noteq> []" "rs \<noteq> []" "i \<le> length s"
  shows "(i = 0 \<or> is_nl (s ! (i - 1))) \<and> take (length key) (drop i s) = key"
  using assms by (auto simp: RSeqs_Cons rmatch_Lit_eq split: if_splits)

lemma rexec_from_line:
  assumes "one_line l" "one_line key" "key \<noteq> []" "take (length key) l \<noteq> key" "rs \<noteq> []"
  shows "rexec_from (Suc (length l) + n) (keyed key rs) (u @ l @ NL # t) (length u)
    = rexec_from n (keyed key rs) (u @ l @ NL # t) (length u + Suc (length l))"
proof (rule rexec_from_skip, intro allI impI)
  let ?s = "u @ l @ NL # t"
  fix j assume j: "j < Suc (length l)"
  show "rmatch (keyed key rs) ?s (length u + j, []) = []"
  proof (rule ccontr)
    assume hit: "rmatch (keyed key rs) ?s (length u + j, []) \<noteq> []"
    have "length u + j \<le> length ?s" using j by simp
    from keyed_line_start [OF hit assms(5) this]
    have start: "length u + j = 0 \<or> is_nl (?s ! (length u + j - 1))" and text_key: "take (length key) (drop j l @ NL # t) = key"
      using j by auto
    have "j = 0"
    proof (rule ccontr)
      assume "j \<noteq> 0"
      then have "?s ! (length u + j - 1) = l ! (j - 1)" "j - 1 < length l" using j by (auto simp: nth_append)
      with start assms(1) \<open>j \<noteq> 0\<close> show False by (auto simp: list_all_length)
    qed
    show False
    proof (cases "length key \<le> length l")
      case True
      with text_key \<open>j = 0\<close> assms(4) show False by simp
    next
      case False
      then have "key ! length l = (l @ NL # t) ! length l" using text_key \<open>j = 0\<close> by (metis drop0 nth_take not_le)
      with False assms(2) show False by (auto simp: list_all_length is_nl_def NL_def)
    qed
  qed
qed

lemma rexec_from_lines:
  assumes "list_all (\<lambda>l. one_line l \<and> take (length key) l \<noteq> key) ls" "one_line key" "key \<noteq> []" "rs \<noteq> []"
  shows "rexec_from (length (concat (map (\<lambda>l. l @ [NL]) ls)) + n) (keyed key rs) (u @ concat (map (\<lambda>l. l @ [NL]) ls) @ t) (length u)
    = rexec_from n (keyed key rs) (u @ concat (map (\<lambda>l. l @ [NL]) ls) @ t) (length u + length (concat (map (\<lambda>l. l @ [NL]) ls)))"
  using assms(1)
proof (induction ls arbitrary: u)
  case (Cons l ls)
  let ?rest = "concat (map (\<lambda>l. l @ [NL]) ls)"
  from Cons.IH [of "u @ l @ [NL]"] Cons.prems
  have "rexec_from (length ?rest + n) (keyed key rs) (u @ l @ NL # ?rest @ t) (length u + Suc (length l))
    = rexec_from n (keyed key rs) (u @ l @ NL # ?rest @ t) (length u + Suc (length l) + length ?rest)" by (simp add: add.assoc)
  moreover have "rexec_from (Suc (length l) + (length ?rest + n)) (keyed key rs) (u @ l @ NL # ?rest @ t) (length u)
    = rexec_from (length ?rest + n) (keyed key rs) (u @ l @ NL # ?rest @ t) (length u + Suc (length l))"
    by (rule rexec_from_line) (use Cons.prems assms in auto)
  ultimately show ?case by (simp add: add.assoc)
qed simp

lemma rexec_after_lines:
  assumes "list_all (\<lambda>l. one_line l \<and> take (length key) l \<noteq> key) ls" "one_line key" "key \<noteq> []" "rs \<noteq> []"
    and "rmatch (keyed key rs) (concat (map (\<lambda>l. l @ [NL]) ls) @ t) (length (concat (map (\<lambda>l. l @ [NL]) ls)), []) = (e, caps) # later"
  shows "rexec (keyed key rs) (concat (map (\<lambda>l. l @ [NL]) ls) @ t) 0
    = Some \<lparr> m_start = length (concat (map (\<lambda>l. l @ [NL]) ls)), m_end = e, m_caps = caps \<rparr>"
  using rexec_from_lines [OF assms(1-4), where n = "Suc (length t)" and u = "[]" and t = t] assms(5) by (simp add: rexec_def Suc_diff_le)

text \<open>Any repetition of a set at the end of an expression stops somewhere, and the stops before it are tried as well.\<close>

lemma rmatch_star_ex:
  assumes "i \<le> length s"
  shows "\<exists>k. i \<le> k \<and> rmatch (RStar (RSet p)) s (i, cs) = map (\<lambda>j. (j, cs)) (rev [i ..< Suc k])"
proof -
  let ?run = "takeWhile p (drop i s)"
  let ?k = "i + length ?run"
  have le: "?k \<le> length s" using assms length_takeWhile_le [of p "drop i s"] by simp
  have "p (s ! j)" if "i \<le> j" "j < ?k" for j
  proof -
    have "j - i < length ?run" using that by simp
    then have "p (drop i s ! (j - i))" by (metis nth_mem set_takeWhileD takeWhile_nth)
    then show ?thesis using that assms by simp
  qed
  moreover have "?k = length s \<or> \<not> p (s ! ?k)"
  proof (cases "length ?run < length (drop i s)")
    case True
    from nth_length_takeWhile [OF this] show ?thesis using assms by simp
  next
    case False
    then have "?k = length s" using le assms by (metis diff_diff_cancel diff_le_mono2 le_add_diff_inverse le_antisym length_drop not_less length_takeWhile_le)
    then show ?thesis ..
  qed
  ultimately show ?thesis using rmatch_star_run [of i ?k s p cs] le by auto
qed

end
