(* ===== verification/HttpTextLaws.thy ===== *)
theory HttpTextLaws imports HttpText RegexLaws begin

text \<open>
  Laws of the text functions of the HTTP workbench: variables written as lines are read back, the scripts a request
  carries name the assets they came from, and the rules generated from a response stay within their budget.
\<close>

section \<open>Variables\<close>

lemma trim_fixed: "trim s = s \<longleftrightarrow> s = [] \<or> (\<not> js_ws (hd s) \<and> \<not> js_ws (last s))"
proof -
  have "dropWhile js_ws xs = xs \<longleftrightarrow> xs = [] \<or> \<not> js_ws (hd xs)" for xs
    by (rule dropWhile_eq_self_iff)
  note start = this
  have len: "length (trimEnd xs) \<le> length xs" "length (trimStart xs) \<le> length xs" for xs
    using length_dropWhile_le [of js_ws "rev xs"] by (simp_all add: trimEnd_def trimStart_def length_dropWhile_le)
  have fin: "trimEnd xs = xs \<longleftrightarrow> xs = [] \<or> \<not> js_ws (last xs)" for xs
    unfolding trimEnd_def using start [of "rev xs"] by (metis hd_rev rev_is_Nil_conv rev_rev_ident)
  show ?thesis
  proof
    assume t: "trim s = s"
    then have "trimStart s = s"
      unfolding trim_def by (metis fin len le_antisym length_dropWhile_le suffix_dropWhile suffix_order.dual_order.antisym
          suffix_length_suffix suffix_order.refl trimStart_def)
    with t show "s = [] \<or> (\<not> js_ws (hd s) \<and> \<not> js_ws (last s))" using start [of s] fin [of s] by (auto simp: trim_def trimStart_def)
  next
    assume "s = [] \<or> (\<not> js_ws (hd s) \<and> \<not> js_ws (last s))"
    then show "trim s = s" using start [of s] fin [of s] by (auto simp: trim_def trimStart_def)
  qed
qed

text \<open>The variables the editor can show: names and values without blanks around them and without line breaks.\<close>

definition kv_ok :: "header_list \<Rightarrow> bool" where
  "kv_ok vars \<longleftrightarrow> fromEntries vars = vars \<and> list_all (\<lambda>(k, v). k \<noteq> [] \<and> k \<noteq> ''__proto__'' \<and> trim k = k \<and> hd k \<noteq> CHR ''#''
     \<and> CHR ''='' \<notin> set k \<and> NL \<notin> set k \<and> trim v = v \<and> NL \<notin> set v) vars"

lemma eq_not_ws [simp]: "\<not> js_ws (CHR ''='')" "CHR ''='' \<noteq> NL"
  by (simp_all add: js_ws_def code_def NL_def)

lemma kv_line_pair:
  assumes "k \<noteq> []" "trim k = k" "hd k \<noteq> CHR ''#''" "CHR ''='' \<notin> set k" "trim v = v"
  shows "kv_line (k @ ''='' @ v) = Some (k, v)"
proof -
  have "trim (k @ ''='' @ v) = k @ ''='' @ v" using assms by (auto simp: trim_fixed)
  moreover have "\<not> startsWith (k @ ''='' @ v) ''#''" using assms(1,3) by (cases k) auto
  ultimately show ?thesis using assms by (simp add: kv_line_def Let_def indexOf_append_sep)
qed

lemma parse_lines:
  assumes "list_all (\<lambda>(k, v). kv_line (k @ ''='' @ v) = Some (k, v) \<and> k \<noteq> ''__proto__'') vars"
  shows "foldl (\<lambda>out line. case kv_line line of None \<Rightarrow> out | Some (k, v) \<Rightarrow> set_prop k v out) out (map (\<lambda>(k, v). k @ ''='' @ v) vars)
    = foldl (\<lambda>ps (k, v). def_prop k v ps) out vars"
  using assms
proof (induction vars arbitrary: out)
  case (Cons p vars)
  obtain k v where "p = (k, v)" by (cases p)
  with Cons show ?case by (simp add: set_prop_def)
qed simp

lemma parseKv_formatKv:
  assumes "kv_ok vars"
  shows "parseKv (formatKv vars) = vars"
proof (cases "vars = []")
  case True
  then show ?thesis by (simp add: parseKv_def formatKv_def kv_line_def)
next
  case False
  let ?lines = "map (\<lambda>(k, v). k @ ''='' @ v) vars"
  have "NL \<notin> set k \<and> NL \<notin> set v" if "(k, v) \<in> set vars" for k v using assms that by (auto simp: kv_ok_def list_all_iff)
  then have "split NL (join [NL] ?lines) = ?lines"
    by (intro split_join) (use False in \<open>auto simp: NL_def\<close>)
  moreover have "list_all (\<lambda>(k, v). kv_line (k @ ''='' @ v) = Some (k, v) \<and> k \<noteq> ''__proto__'') vars"
    using assms kv_line_pair by (fastforce simp: kv_ok_def list_all_iff)
  ultimately show ?thesis using parse_lines assms by (simp add: parseKv_def formatKv_def kv_ok_def fromEntries_def)
qed

section \<open>Scripts\<close>

text \<open>An identifier as \<^verbatim>\<open>crypto.randomUUID\<close> makes them: not empty and without blanks.\<close>

definition id_token :: "string \<Rightarrow> bool" where
  "id_token i \<longleftrightarrow> i \<noteq> [] \<and> list_all (\<lambda>c. \<not> js_ws c) i"

lemma script_id_marked:
  assumes "id_token i"
  shows "script_id (SCRIPT_MARK @ i @ [NL] @ source) = Some i"
proof -
  let ?s = "SCRIPT_MARK @ i @ [NL] @ source" and ?m = "length SCRIPT_MARK" and ?e = "length SCRIPT_MARK + length i"
  have ws: "js_ws NL" by (simp add: js_ws_def NL_def code_def)
  have chars: "?s ! j = i ! (j - ?m)" if "?m \<le> j" "j < ?e" for j using that by (auto simp: nth_append)
  have stop: "?s ! ?e = NL" by (simp add: nth_append)
  have i0: "0 < length i" "\<not> js_ws (?s ! ?m)" using assms chars [of ?m] by (auto simp: id_token_def list_all_length)
  have "\<not> js_ws (?s ! j)" if "Suc ?m \<le> j" "j < ?e" for j
    using assms chars [of j] that by (auto simp: id_token_def list_all_length)
  then have "\<exists>rest. rmatch (RStar (RSet (\<lambda>c. \<not> js_ws c))) ?s (Suc ?m, []) = (?e, []) # rest"
    by (intro rmatch_star_greedy) (use i0(1) stop ws in \<open>auto simp: Suc_le_eq\<close>)
  then obtain rest where star: "rmatch (RStar (RSet (\<lambda>c. \<not> js_ws c))) ?s (Suc ?m, []) = (?e, []) # rest" by blast
  have lit: "rmatch (RLit SCRIPT_MARK) ?s (0, []) = [(?m, [])]" using rmatch_Lit [of SCRIPT_MARK "[]" "i @ [NL] @ source"] by simp
  have "rmatch (RPlus RNonSpace) ?s (?m, []) = (?e, []) # rest"
    using star i0 by (simp add: RPlus_def RNonSpace_def)
  then have "\<exists>r. rmatch SCRIPT_LINE ?s (0, []) = (?e, [(1, (?m, ?e))]) # r" using lit by (simp add: SCRIPT_LINE_def)
  then have "rexec SCRIPT_LINE ?s 0 = Some \<lparr> m_start = 0, m_end = ?e, m_caps = [(1, (?m, ?e))] \<rparr>"
    by (auto simp: rexec_def)
  then show ?thesis by (simp add: script_id_def m_group_def slice_def)
qed

lemma find_asset_id: "find_asset i items = Some (Some item) \<Longrightarrow> js_get item ''id'' = JStr i"
  by (induction items) (auto split: if_splits)

definition assets_known :: "browser \<Rightarrow> string list \<Rightarrow> bool" where
  "assets_known b ids \<longleftrightarrow> distinct ids \<and> list_all id_token ids
     \<and> (case read_json b scripts_key ''[]'' of
          Some (JArr items) \<Rightarrow> list_all (\<lambda>i. find_asset i items \<noteq> None \<and> find_asset i items \<noteq> Some None) ids | _ \<Rightarrow> False)"

lemma map_filter_Some: "List.map_filter f xs = List.map_filter id (map f xs)"
  by (induction xs) (simp_all add: List.map_filter_simps split: option.split)

lemma map_filter_id_Some: "List.map_filter id (map Some xs) = xs"
  by (induction xs) (simp_all add: List.map_filter_simps)

lemma scripts_of_assets:
  assumes "list_all (\<lambda>i. find_asset i items \<noteq> None \<and> find_asset i items \<noteq> Some None) ids" "list_all id_token ids"
    and "Option.bind (all_some (map (\<lambda>i. find_asset i items) ids)) (\<lambda>found. all_some (map (asset_script T) (List.map_filter id found))) = Some scripts"
  shows "map script_id scripts = map Some ids"
  using assms
proof (induction ids arbitrary: scripts)
  case (Cons i ids)
  then obtain item where item: "find_asset i items = Some (Some item)" by auto
  obtain found where found: "all_some (map (\<lambda>i. find_asset i items) ids) = Some found"
    using Cons.prems(3) item by (cases "all_some (map (\<lambda>i. find_asset i items) ids)") simp_all
  then obtain sc rest where sc: "asset_script T item = Some sc" "all_some (map (asset_script T) (List.map_filter id found)) = Some rest"
    "scripts = sc # rest" using Cons.prems(3) item
    by (cases "asset_script T item"; cases "all_some (map (asset_script T) (List.map_filter id found))")
      (auto simp: List.map_filter_simps id_def)
  have "map script_id rest = map Some ids" using Cons found sc(2) by (simp add: id_def)
  moreover have "script_id sc = Some i"
    using sc(1) find_asset_id [OF item] script_id_marked Cons.prems(2) by (auto simp: asset_script_def split: if_splits)
  ultimately show ?case using sc(3) by simp
qed (simp add: List.map_filter_simps)

lemma asset_ids_read_back:
  assumes "assets_known b ids" and "resolveAssets T b ids = Some scripts"
  shows "assetIdsFromScripts (Some scripts) = ids"
proof (cases "ids = []")
  case True
  with assms show ?thesis
    by (auto simp: resolveAssets_def assets_known_def assetIdsFromScripts_def uniq_def List.map_filter_simps split: option.splits jsval.splits)
next
  case False
  obtain items where items: "read_json b scripts_key ''[]'' = Some (JArr items)"
    using assms(1) by (auto simp: assets_known_def split: option.splits jsval.splits)
  have "map script_id scripts = map Some ids"
    by (rule scripts_of_assets) (use assms items False in \<open>auto simp: assets_known_def resolveAssets_def\<close>)
  then have "List.map_filter script_id scripts = ids" by (metis map_filter_Some map_filter_id_Some)
  moreover have "filter (\<lambda>i. i \<noteq> []) ids = ids" using assms(1) by (auto simp: assets_known_def id_token_def list_all_iff filter_id_conv)
  ultimately show ?thesis using assms(1) by (simp add: assetIdsFromScripts_def assets_known_def uniq_distinct)
qed

section \<open>Generated rules\<close>

text \<open>The rules made so far: as many as the budget allows, numbered, switched on, with an operator their target offers.\<close>

definition rules_ok :: "(nat \<Rightarrow> string) \<Rightarrow> Assertion list \<Rightarrow> bool" where
  "rules_ok uuid rules \<longleftrightarrow> map as_id rules = map uuid [0..<length rules]
     \<and> list_all (\<lambda>r. as_enabled r \<and> as_operator r \<in> set (ASSERTION_OPERATORS (as_target r))) rules"

definition gen_ok :: "(nat \<Rightarrow> string) \<Rightarrow> nat \<Rightarrow> rule_state \<Rightarrow> bool" where
  "gen_ok uuid base st \<longleftrightarrow> rules_ok uuid (gr_rules st) \<and> length (gr_rules st) \<le> base + min (gr_nodes st) 300"

lemma gen_ok_truncated [simp]: "gen_ok uuid base (st\<lparr> gr_truncated := b \<rparr>) = gen_ok uuid base st"
  by (simp add: gen_ok_def)

lemma push_rule_ok:
  "rules_ok uuid rules \<Longrightarrow> op \<in> set (ASSERTION_OPERATORS target) \<Longrightarrow> rules_ok uuid (push_rule uuid target op selector expected rules)"
  by (simp add: rules_ok_def push_rule_def createAssertion_def)

lemma length_push_rule [simp]: "length (push_rule uuid target op selector expected rules) = Suc (length rules)"
  by (simp add: push_rule_def)

lemma visit_ok:
  "gen_ok uuid base st \<Longrightarrow> gen_ok uuid base (visit_value uuid v path pointer depth usePointer st)"
  "gen_ok uuid base st \<Longrightarrow> gen_ok uuid base (visit_entries uuid ps path pointer depth usePointer st)"
proof (induction uuid v path pointer depth usePointer st and uuid ps path pointer depth usePointer st
    rule: visit_value_visit_entries.induct)
  case (1 uuid v path pointer depth usePointer st)
  let ?c = "st\<lparr> gr_nodes := gr_nodes st + 1 \<rparr>"
  have c: "gen_ok uuid base ?c" using 1(3) by (auto simp: gen_ok_def)
  have push: "gen_ok uuid base (?c\<lparr> gr_rules := push_rule uuid TJsonPath op selector expected (gr_rules st) \<rparr>)"
    if "\<not> 300 < gr_nodes st + 1" "op \<in> set (ASSERTION_OPERATORS TJsonPath)" for op selector expected
    using 1(3) that push_rule_ok [of uuid "gr_rules st" op TJsonPath] by (auto simp: gen_ok_def)
  show ?case
    using 1(1,2) c push [where op = OpEquals] push [where op = OpLengthEquals] by (subst visit_value.simps) (simp add: Let_def)
next
  case (3 uuid key child ps path pointer depth usePointer st)
  then show ?case by (subst visit_entries.simps) simp
qed simp

lemma header_rules_ok:
  "rules_ok uuid rules \<Longrightarrow> rules_ok uuid (header_rules uuid headers rules) \<and> length (header_rules uuid headers rules) = length rules + min 50 (length headers)"
proof -
  have "rules_ok uuid (foldl (\<lambda>acc (selector, expected). push_rule uuid THeader OpEquals selector (Some expected) acc) rules hs)
    \<and> length (foldl (\<lambda>acc (selector, expected). push_rule uuid THeader OpEquals selector (Some expected) acc) rules hs) = length rules + length hs"
    if "rules_ok uuid rules" for hs rules
    using that
  proof (induction hs arbitrary: rules)
    case (Cons h hs)
    then show ?case using push_rule_ok [of uuid rules OpEquals THeader] by (cases h) simp
  qed simp
  then show "rules_ok uuid rules \<Longrightarrow> rules_ok uuid (header_rules uuid headers rules)
      \<and> length (header_rules uuid headers rules) = length rules + min 50 (length headers)"
    by (simp add: header_rules_def min.commute)
qed

text \<open>However large a response is, the rules generated from it are at most 351 (the status, 50 headers, 300 nodes of the
  body), each is switched on, has its own identifier and an operator that its target offers.\<close>

theorem generated_rules_bounded:
  "length (fst (generatedAssertions uuid preview status headers)) \<le> 351
    \<and> rules_ok uuid (fst (generatedAssertions uuid preview status headers))"
proof -
  let ?first = "case status of None \<Rightarrow> [] | Some s \<Rightarrow> push_rule uuid TStatus OpEquals [] (Some (show_int s)) []"
  have "rules_ok uuid ?first \<and> length ?first \<le> 1"
    using push_rule_ok [of uuid "[]" OpEquals TStatus] by (simp add: rules_ok_def split: option.split)
  then have rules: "rules_ok uuid (header_rules uuid headers ?first)" "length (header_rules uuid headers ?first) \<le> 51"
    using header_rules_ok [of uuid ?first headers] by auto
  then have "gen_ok uuid 51 \<lparr> gr_rules = header_rules uuid headers ?first, gr_nodes = 0, gr_truncated = False \<rparr>"
    by (simp add: gen_ok_def)
  from visit_ok(1) [OF this] have "gen_ok uuid 51 (visit_value uuid root ''$'' [] 0 False
    \<lparr> gr_rules = header_rules uuid headers ?first, gr_nodes = 0, gr_truncated = False \<rparr>)" (is "gen_ok uuid 51 (?st root)") for root .
  moreover have total: "l \<le> 351" if "l \<le> 51 + min n 300" for l n :: nat using that by simp
  ultimately have "rules_ok uuid (gr_rules (?st root)) \<and> length (gr_rules (?st root)) \<le> 351" for root
    unfolding gen_ok_def using total by blast
  with rules show ?thesis by (simp add: generatedAssertions_def Let_def split: option.split)
qed

end
