(* ===== verification/HttpForm.thy ===== *)
theory HttpForm imports HttpText InterfaceStructure ResponseValidation begin

text \<open>
  The state of the HTTP workbench and its form (\<^verbatim>\<open>packages/ui/src/HttpWorkbench.tsx\<close>, the component
  \<^verbatim>\<open>HttpWorkbench\<close>): one field per \<^verbatim>\<open>useState\<close> that its operations read or write, the check of the parameter names,
  the request the form stands for (\<^verbatim>\<open>buildRequest\<close>) and the form of a request (\<^verbatim>\<open>applyRequest\<close>). Messages shown to the
  user are constructors of \<open>status_message\<close>. What the code casts from the request's metadata (saved responses,
  designed responses, structures) is read field by field from the JSON value. Texts made by \<^verbatim>\<open>crypto.randomUUID\<close> come
  from \<open>uuid group index\<close>, one group per list of rows.
\<close>

section \<open>State\<close>

datatype run_check = Designed design_check | Reported AssertionResultEvent

record HttpRunResult =
  hr_summary :: ExecutionSummary
  hr_eventCount :: nat
  hr_preview :: "string option"
  hr_error :: "string option"
  hr_executionId :: "string option"
  hr_assertions :: "run_check list option"
  hr_responseMeta :: "ResponseMeta option"

datatype param_group = GQuery | GHeader | GCookie | GForm | GMultipart

datatype status_message =
    JsonFormatted | JsonEmpty | JsonInvalid
  | NameMissing param_group nat | ValueMissing param_group nat
  | SavedResponseLoaded | RequestOpened | DraftRestored | DefinitionSynced | TreeRequestOpened | CaseOpened
  | SyncingCase nat | CaseSynced nat | CaseSyncFailed string | GraphqlLoaded | SoapLoaded | JsonRpcLoaded
  | RequestLoaded | CaseLoaded
  | PkceIncomplete | NoSecretStore | PkceOpened | VariablesInvalid
  | CancelRequested | SavedLocally | CaseSaved string | CaseAligned | InterfaceUpdated
  | HistoryRefreshed | NothingToReplay | Replayed | Copied | CopyFailed | Downloaded | SavedTo string | Problem string

datatype response_tab = TabBody | TabCookies | TabHeaders | TabConsole | TabRequest
datatype request_tab = ReqParams | ReqHeaders | ReqBody | ReqAuth | ReqCookies | ReqPre | ReqPost | ReqProxy
datatype case_type = CaseDebug | CaseTest
datatype soap_version = Soap11 | Soap12

datatype schema_state = SchemaIdle | SchemaLoading | SchemaReady nat | SchemaError string

text \<open>The last request that was sent, or the one stored with a case.\<close>

datatype last_request = Sent HttpWorkbenchRequest | Stored jsval

record HistoryItem =
  hi_id :: string
  hi_protocolId :: string
  hi_state :: string
  hi_status :: "int option"
  hi_durationMs :: nat
  hi_startedAt :: string

record WorkbenchHistoryFilter =
  hf_state :: "string option"
  hf_status :: "jsnum option"

record workbench =
  wb_name :: string
  wb_requestId :: "string option"
  wb_saveInterfaceDraft :: "(HttpWorkbenchRequest \<times> bool) option"
  wb_saveInterfaceName :: string
  wb_saveCollectionId :: string
  wb_saveModuleId :: string
  wb_saveDirectoryOpen :: bool
  wb_expandedSaveModules :: "string list"
  wb_expandedSaveCollections :: "string list"
  wb_saveInterfaceBusy :: bool
  wb_method :: string
  wb_url :: string
  wb_headerRows :: "HeaderRow list"
  wb_queryRows :: "HeaderRow list"
  wb_body :: string
  wb_bodyMode :: BodyMode
  wb_multipart :: "MultipartEditorPart list"
  wb_formRows :: "HeaderRow list"
  wb_timeoutMs :: nat
  wb_followRedirects :: bool
  wb_retryMax :: nat
  wb_retryBackoffMs :: nat
  wb_proxy :: string
  wb_tlsVerify :: bool
  wb_tlsClientCertRef :: string
  wb_environmentRef :: string
  wb_preScriptAssetIds :: "string list"
  wb_postScriptAssetIds :: "string list"
  wb_variablesText :: string
  wb_assertionRules :: "Assertion list"
  wb_assertionsEnabled :: bool
  wb_selectedDesignedResponse :: jsval
  wb_responseValidationSettings :: props
  wb_authKind :: string
  wb_bearerTokenSource :: BearerTokenSource
  wb_bearerToken :: string
  wb_authSecretRef :: string
  wb_authUsername :: string
  wb_authHeaderName :: string
  wb_oauthTokenUrl :: string
  wb_oauthScope :: string
  wb_oauthAudience :: string
  wb_oauthAuthorizationUrl :: string
  wb_oauthRedirectUri :: string
  wb_oauthAuthorizationCode :: string
  wb_oauthCodeRef :: string
  wb_oauthVerifierRef :: string
  wb_cookieRows :: "HeaderRow list"
  wb_loading :: bool
  wb_executionId :: "string option"
  wb_result :: "HttpRunResult option"
  wb_livePreview :: string
  wb_statusMsg :: "status_message option"
  wb_saveMenuOpen :: bool
  wb_caseDialogOpen :: bool
  wb_caseName :: string
  wb_caseSaveResponse :: bool
  wb_caseType :: case_type
  wb_caseCategory :: string
  wb_caseTags :: string
  wb_caseSaving :: bool
  wb_requestMetadata :: jsval
  wb_openedCaseParentId :: "string option"
  wb_openedCaseInterfaceName :: string
  wb_syncCaseResponse :: bool
  wb_caseStructureBusy :: bool
  wb_history :: "HistoryItem list"
  wb_historyOpen :: bool
  wb_historyStateFilter :: string
  wb_historyStatusFilter :: string
  wb_compareIds :: "string list"
  wb_responseBytes :: "nat list option"
  wb_responseSearch :: string
  wb_responseTab :: response_tab
  wb_lastRequest :: "last_request option"
  wb_requestWallMs :: nat
  wb_requestTab :: request_tab
  wb_timeline :: "(nat \<times> ExecutionEvent) list"
  wb_graphqlQuery :: string
  wb_graphqlVariables :: string
  wb_graphqlOperationName :: string
  wb_graphqlSchemaState :: schema_state
  wb_rpcMethod :: string
  wb_rpcParams :: string
  wb_rpcId :: string
  wb_soapVersion :: soap_version
  wb_soapAction :: string
  wb_soapEnvelope :: string
  wb_binaryBase64 :: string
  wb_binaryFileName :: string
  wb_binarySize :: nat
  wb_messagePackJson :: string

text \<open>What the component is given from outside: the URL parser, the TypeScript compiler, the browser's storage, the
  default environment and the clock.\<close>

record wb_env =
  we_url :: url_env
  we_transpile :: "jsval \<Rightarrow> string option"
  we_browser :: browser
  we_defaultEnvironmentId :: string
  we_now :: string

definition default_redirect :: string where
  "default_redirect = ''http://127.0.0.1:39218/oauth/callback''"

definition initial_workbench :: "wb_env \<Rightarrow> (nat \<Rightarrow> nat \<Rightarrow> string) \<Rightarrow> workbench" where
  "initial_workbench E uuid =
     \<lparr> wb_name = [], wb_requestId = None, wb_saveInterfaceDraft = None, wb_saveInterfaceName = [], wb_saveCollectionId = [],
       wb_saveModuleId = [], wb_saveDirectoryOpen = False, wb_expandedSaveModules = [], wb_expandedSaveCollections = [],
       wb_saveInterfaceBusy = False, wb_method = ''GET'', wb_url = [], wb_headerRows = [header_row (uuid 0 0) [] []],
       wb_queryRows = [query_row (uuid 1 0) [] []], wb_body = [], wb_bodyMode = MNone,
       wb_multipart = [createMultipartEditorPart (uuid 2 0) None], wb_formRows = [query_row (uuid 3 0) [] []],
       wb_timeoutMs = 30000, wb_followRedirects = True, wb_retryMax = 0, wb_retryBackoffMs = 250, wb_proxy = [],
       wb_tlsVerify = True, wb_tlsClientCertRef = [], wb_environmentRef = we_defaultEnvironmentId E,
       wb_preScriptAssetIds = [], wb_postScriptAssetIds = [], wb_variablesText = [], wb_assertionRules = [],
       wb_assertionsEnabled = True, wb_selectedDesignedResponse = JStr ''200'',
       wb_responseValidationSettings = settings_props DEFAULT_RESPONSE_VALIDATION_SETTINGS,
       wb_authKind = ''none'', wb_bearerTokenSource = Direct, wb_bearerToken = [], wb_authSecretRef = [],
       wb_authUsername = [], wb_authHeaderName = ''X-Api-Key'', wb_oauthTokenUrl = [], wb_oauthScope = [],
       wb_oauthAudience = [], wb_oauthAuthorizationUrl = [], wb_oauthRedirectUri = default_redirect,
       wb_oauthAuthorizationCode = [], wb_oauthCodeRef = ''oauth-code-'' @ uuid 4 0,
       wb_oauthVerifierRef = ''oauth-verifier-'' @ uuid 5 0, wb_cookieRows = [query_row (uuid 6 0) [] []],
       wb_loading = False, wb_executionId = None, wb_result = None, wb_livePreview = [], wb_statusMsg = None,
       wb_saveMenuOpen = False, wb_caseDialogOpen = False, wb_caseName = [], wb_caseSaveResponse = True,
       wb_caseType = CaseDebug, wb_caseCategory = ''positive'', wb_caseTags = [], wb_caseSaving = False,
       wb_requestMetadata = JObj [], wb_openedCaseParentId = None, wb_openedCaseInterfaceName = [],
       wb_syncCaseResponse = False, wb_caseStructureBusy = False, wb_history = [], wb_historyOpen = False,
       wb_historyStateFilter = [], wb_historyStatusFilter = [], wb_compareIds = [], wb_responseBytes = None,
       wb_responseSearch = [], wb_responseTab = TabBody, wb_lastRequest = None, wb_requestWallMs = 0,
       wb_requestTab = ReqParams, wb_timeline = [],
       wb_graphqlQuery = ''query Example {'' @ [NL] @ ''  __typename'' @ [NL] @ ''}'', wb_graphqlVariables = ''{}'',
       wb_graphqlOperationName = [], wb_graphqlSchemaState = SchemaIdle, wb_rpcMethod = ''users.list'',
       wb_rpcParams = ''{}'', wb_rpcId = ''1'', wb_soapVersion = Soap12, wb_soapAction = [],
       wb_soapEnvelope = ''<soap:Envelope xmlns:soap='' @ [QUOTE] @ ''http://www.w3.org/2003/05/soap-envelope'' @ [QUOTE] @ ''>'' @ [NL]
         @ ''  <soap:Body>'' @ [NL] @ ''  </soap:Body>'' @ [NL] @ ''</soap:Envelope>'',
       wb_binaryBase64 = [], wb_binaryFileName = [], wb_binarySize = 0, wb_messagePackJson = ''{}'' \<rparr>"

definition formatBodyJson :: "workbench \<Rightarrow> workbench" where
  "formatBodyJson s =
     (case formatJsonBody (wb_body s) of
        Some formatted \<Rightarrow> s\<lparr> wb_body := formatted, wb_statusMsg := Some (if not_blank (wb_body s) then JsonFormatted else JsonEmpty) \<rparr>
      | None \<Rightarrow> s\<lparr> wb_statusMsg := Some JsonInvalid \<rparr>)"

section \<open>The check before sending and saving\<close>

record param_row =
  pw_enabled :: bool
  pw_hasContent :: bool
  pw_name :: string
  pw_value :: string
  pw_required :: bool

definition row_param :: "HeaderRow \<Rightarrow> param_row" where
  "row_param row = \<lparr> pw_enabled = kr_enabled row, pw_hasContent = keyValueRowHasContent row, pw_name = kr_key row,
     pw_value = kr_value row, pw_required = kr_required row \<rparr>"

definition part_param :: "MultipartEditorPart \<Rightarrow> param_row" where
  "part_param part = \<lparr> pw_enabled = me_enabled part, pw_hasContent = multipartPartHasContent part, pw_name = mp_name part,
     pw_value = (if me_kind part = PartFile then or_default (mp_fileName part) [] else mp_value part), pw_required = me_required part \<rparr>"

fun group_tab :: "param_group \<Rightarrow> request_tab" where
  "group_tab GQuery = ReqParams" | "group_tab GHeader = ReqHeaders" | "group_tab GCookie = ReqCookies"
| "group_tab GForm = ReqBody" | "group_tab GMultipart = ReqBody"

definition param_groups :: "workbench \<Rightarrow> (param_group \<times> param_row list) list" where
  "param_groups s =
     [(GQuery, map row_param (wb_queryRows s)), (GHeader, map row_param (wb_headerRows s)), (GCookie, map row_param (wb_cookieRows s))]
     @ (if wb_bodyMode s = MUrlencoded then [(GForm, map row_param (wb_formRows s))] else [])
     @ (if wb_bodyMode s = MMultipart then [(GMultipart, map part_param (wb_multipart s))] else [])"

fun first_invalid :: "(param_row \<Rightarrow> bool) \<Rightarrow> (param_group \<times> param_row list) list \<Rightarrow> (param_group \<times> nat) option" where
  "first_invalid bad [] = None"
| "first_invalid bad ((g, rows) # groups) =
     (case findIndex bad rows of Some i \<Rightarrow> Some (g, i) | None \<Rightarrow> first_invalid bad groups)"

definition name_missing :: "param_row \<Rightarrow> bool" where
  "name_missing row = (pw_enabled row \<and> pw_hasContent row \<and> \<not> not_blank (pw_name row))"

definition value_missing :: "param_row \<Rightarrow> bool" where
  "value_missing row = (pw_enabled row \<and> pw_required row \<and> \<not> not_blank (pw_value row))"

definition validateParameterNames :: "workbench \<Rightarrow> bool \<times> workbench" where
  "validateParameterNames s =
     (case first_invalid name_missing (param_groups s) of
        Some (g, i) \<Rightarrow> (False, s\<lparr> wb_requestTab := group_tab g, wb_statusMsg := Some (NameMissing g (i + 1)) \<rparr>)
      | None \<Rightarrow>
          (case first_invalid value_missing (param_groups s) of
             Some (g, i) \<Rightarrow> (False, s\<lparr> wb_requestTab := group_tab g, wb_statusMsg := Some (ValueMissing g (i + 1)) \<rparr>)
           | None \<Rightarrow> (True, s)))"

section \<open>The request of the form\<close>

text \<open>Below, \<open>None\<close> means that \<^verbatim>\<open>JSON.parse\<close>, the packing of a value or the resolution of a script throws.\<close>

definition parse_or :: "string \<Rightarrow> string \<Rightarrow> jsval option" where
  "parse_or d source = JSON_parse (if source = [] then d else source)"

fun set_first_header :: "string \<Rightarrow> string \<Rightarrow> header_list \<Rightarrow> header_list" where
  "set_first_header name v [] = []"
| "set_first_header name v ((k, w) # hs) = (if toLowerCase k = name then (k, v) # hs else (k, w) # set_first_header name v hs)"

definition quoted :: "string \<Rightarrow> string" where
  "quoted s = [QUOTE] @ s @ [QUOTE]"

definition cookie_header :: "HeaderRow list \<Rightarrow> header_list" where
  "cookie_header rows =
     (let requestCookies = filter (\<lambda>row. kr_enabled row \<and> not_blank (kr_key row)) rows in
      if requestCookies = [] then []
      else [(''Cookie'', join ''; '' (map (\<lambda>row. trim (kr_key row) @ ''='' @ kr_value row) requestCookies))])"

definition request_headers :: "workbench \<Rightarrow> header_list" where
  "request_headers s =
     (let headers = map (\<lambda>row. (trim (kr_key row), trim (kr_value row))) (filter (\<lambda>row. kr_enabled row \<and> not_blank (kr_key row)) (wb_headerRows s))
            @ cookie_header (wb_cookieRows s);
          action = trim (wb_soapAction s)
      in if wb_bodyMode s = MSoap \<and> action \<noteq> [] then
           (if wb_soapVersion s = Soap11 then headers @ [(''SOAPAction'', quoted action)]
            else set_first_header ''content-type'' (''application/soap+xml; action='' @ quoted action) headers)
         else headers)"

definition encoded_body :: "workbench \<Rightarrow> string option option" where
  "encoded_body s =
     (case wb_bodyMode s of
        MBinary \<Rightarrow> Some (Some (wb_binaryBase64 s))
      | MMsgpack \<Rightarrow>
          Option.bind (parse_or ''null'' (wb_messagePackJson s))
            (\<lambda>v. case encodeMessagePack v of Inl e \<Rightarrow> None | Inr octets \<Rightarrow> Some (Some (bytesToBase64 octets)))
      | _ \<Rightarrow> Some None)"

definition rpc_id_value :: "string \<Rightarrow> jsval" where
  "rpc_id_value rpcId =
     (if rpcId = ''null'' then JNull else if string_Number rpcId = NNaN then JStr rpcId else JNum (string_Number rpcId))"

definition graphql_body :: "workbench \<Rightarrow> jsval \<Rightarrow> jsval" where
  "graphql_body s variables =
     JObj ([(''query'', JStr (wb_graphqlQuery s)), (''variables'', variables)]
       @ (if not_blank (wb_graphqlOperationName s) then [(''operationName'', JStr (trim (wb_graphqlOperationName s)))] else []))"

definition rpc_body :: "workbench \<Rightarrow> jsval \<Rightarrow> jsval" where
  "rpc_body s params =
     JObj [(''jsonrpc'', JStr ''2.0''), (''method'', JStr (wb_rpcMethod s)), (''params'', params), (''id'', rpc_id_value (wb_rpcId s))]"

definition request_body :: "workbench \<Rightarrow> string option \<Rightarrow> string option option" where
  "request_body s encodedBody =
     (if wb_method s = ''GET'' \<or> wb_method s = ''HEAD'' \<or> wb_bodyMode s = MNone \<or> wb_bodyMode s = MMultipart then Some None
      else (case wb_bodyMode s of
              MUrlencoded \<Rightarrow> Some (Some (form_serialize (sent_rows (wb_formRows s))))
            | MGraphql \<Rightarrow> map_option (\<lambda>v. Some (json_text 0 0 (graphql_body s v))) (parse_or ''{}'' (wb_graphqlVariables s))
            | MJsonrpc \<Rightarrow> map_option (\<lambda>v. Some (json_text 0 0 (rpc_body s v))) (parse_or ''{}'' (wb_rpcParams s))
            | MSoap \<Rightarrow> Some (Some (wb_soapEnvelope s))
            | MBinary \<Rightarrow> Some encodedBody
            | MMsgpack \<Rightarrow> Some encodedBody
            | _ \<Rightarrow> Some (Some (wb_body s))))"

definition body_source :: "workbench \<Rightarrow> string option option" where
  "body_source s =
     (case wb_bodyMode s of
        MMsgpack \<Rightarrow> Some (Some (wb_messagePackJson s))
      | MGraphql \<Rightarrow>
          map_option (\<lambda>v. Some (json_text 0 0 (JObj [(''type'', JStr ''graphql''), (''query'', JStr (wb_graphqlQuery s)), (''variables'', v),
              (''operationName'', if not_blank (wb_graphqlOperationName s) then JStr (trim (wb_graphqlOperationName s)) else JNull)])))
            (parse_or ''{}'' (wb_graphqlVariables s))
      | MJsonrpc \<Rightarrow>
          map_option (\<lambda>v. Some (json_text 0 0 (JObj [(''type'', JStr ''jsonrpc''), (''method'', JStr (wb_rpcMethod s)), (''params'', v),
              (''id'', JStr (wb_rpcId s))])))
            (parse_or ''{}'' (wb_rpcParams s))
      | _ \<Rightarrow> Some None)"

definition request_metadata :: "workbench \<Rightarrow> jsval" where
  "request_metadata s =
     JObj (spread (entries (wb_requestMetadata s))
       [(''__apivoyAssertionSchemaVersion'', JNum (NInt ASSERTION_SCHEMA_VERSION)),
        (''__apivoyAssertionsEnabled'', JBool (wb_assertionsEnabled s))])"

definition form_auth :: "workbench \<Rightarrow> AuthRef option" where
  "form_auth s =
     buildAuth (wb_authKind s) (wb_bearerTokenSource s) (wb_bearerToken s) (wb_authSecretRef s) (wb_authUsername s)
       (wb_authHeaderName s) (wb_oauthTokenUrl s) (wb_oauthScope s) (wb_oauthAudience s) (wb_oauthAuthorizationUrl s)
       (wb_oauthRedirectUri s) (wb_oauthCodeRef s) (wb_oauthVerifierRef s)"

definition url_pathname :: "wb_env \<Rightarrow> string \<Rightarrow> string option" where
  "url_pathname E target = map_option pu_pathname (ue_parse (we_url E) target)"

definition buildRequest :: "wb_env \<Rightarrow> workbench \<Rightarrow> HttpWorkbenchRequest option" where
  "buildRequest E s =
     Option.bind (encoded_body s) (\<lambda>encodedBody.
     Option.bind (request_body s encodedBody) (\<lambda>body.
     Option.bind (body_source s) (\<lambda>bodySource.
     Option.bind (resolveAssets (we_transpile E) (we_browser E) (wb_preScriptAssetIds s)) (\<lambda>preScripts.
     Option.bind (resolveAssets (we_transpile E) (we_browser E) (wb_postScriptAssetIds s)) (\<lambda>postScripts.
       Some \<lparr> hw_id = wb_requestId s,
         hw_name = Some (if not_blank (wb_name s) then trim (wb_name s) else requestNameFromUrl (url_pathname E) (wb_url s)),
         hw_url = trim (wb_url s), hw_method = wb_method s, hw_headers = request_headers s, hw_body = body,
         hw_bodyEncoding = Some (if wb_bodyMode s = MBinary \<or> wb_bodyMode s = MMsgpack then EncBase64 else EncText),
         hw_bodySource = bodySource,
         hw_multipart = Some (if wb_bodyMode s = MMultipart
           then map MultipartPart.truncate (filter (\<lambda>part. me_enabled part \<and> not_blank (mp_name part)) (wb_multipart s)) else []),
         hw_timeoutMs = wb_timeoutMs s, hw_variables = parseKv (wb_variablesText s), hw_assertions = wb_assertionRules s,
         hw_auth = form_auth s, hw_followRedirects = wb_followRedirects s, hw_retryMax = wb_retryMax s,
         hw_retryBackoffMs = wb_retryBackoffMs s, hw_proxy = or_null (wb_proxy s), hw_tlsVerify = wb_tlsVerify s,
         hw_tlsClientCertRef = or_null (wb_tlsClientCertRef s), hw_environmentRef = Some (wb_environmentRef s),
         hw_preScripts = Some preScripts, hw_postScripts = Some postScripts, hw_metadata = Some (request_metadata s) \<rparr>)))))"

section \<open>The form of a request\<close>

definition meta_get :: "jsval option \<Rightarrow> string \<Rightarrow> jsval" where
  "meta_get metadata k = (case metadata of None \<Rightarrow> JUndef | Some m \<Rightarrow> js_get m k)"

fun text_opt :: "jsval \<Rightarrow> string option" where
  "text_opt (JStr s) = Some s"
| "text_opt _ = None"

fun int_opt :: "jsval \<Rightarrow> int option" where
  "int_opt (JNum (NInt i)) = Some i"
| "int_opt _ = None"

fun header_pair :: "jsval \<Rightarrow> string \<times> string" where
  "header_pair v = (js_String (js_get v ''0''), js_String (js_get v ''1''))"

definition saved_result :: "string \<Rightarrow> HttpWorkbenchRequest \<Rightarrow> jsval \<Rightarrow> HttpRunResult" where
  "saved_result now loaded savedResponse =
     (let savedBody = or_default (text_opt (js_get savedResponse ''body'')) [];
          status = int_opt (js_get savedResponse ''status'') in
      \<lparr> hr_summary = \<lparr> es_executionId = ''saved-response'', es_requestId = or_default (hw_id loaded) ''saved-request'', es_protocolId = ''http'',
          es_state = Completed, es_startedAt = now, es_finishedAt = now,
          es_durationMs = nat (or_default (int_opt (js_get savedResponse ''durationMs'')) 0),
          es_bytesReceived = length (utf8 savedBody), es_status = status \<rparr>,
        hr_eventCount = 0, hr_preview = Some savedBody, hr_error = None, hr_executionId = None, hr_assertions = Some [],
        hr_responseMeta = Some \<lparr> rm_status = status, rm_statusText = None, rm_headers = map header_pair (elements (js_get savedResponse ''headers'')),
          rm_contentType = text_opt (js_get savedResponse ''contentType''), rm_sizeHint = Some (length (utf8 savedBody)) \<rparr> \<rparr>)"

definition stored_last_request :: "HttpWorkbenchRequest \<Rightarrow> last_request option" where
  "stored_last_request loaded =
     (let actual = meta_get (hw_metadata loaded) ''__apivoySavedActualRequest'' in
      if truthy actual \<and> is_str (js_get actual ''url'') \<and> isArray (js_get actual ''headers'') then Some (Stored actual)
      else if truthy (meta_get (hw_metadata loaded) ''__apivoySavedResponse'') then Some (Sent (snapshotActualRequest loaded))
      else None)"

definition apply_metadata :: "wb_env \<Rightarrow> HttpWorkbenchRequest \<Rightarrow> workbench \<Rightarrow> workbench" where
  "apply_metadata E loaded s =
     (let md = hw_metadata loaded;
          definitions = elements (meta_get md ''__apivoyResponseDefinitions'');
          savedResponse = meta_get md ''__apivoySavedResponse'';
          opened = s\<lparr> wb_requestId := hw_id loaded,
            wb_requestMetadata := or_default md (JObj []),
            wb_responseValidationSettings := readResponseValidationSettings (text_opt (meta_get md ''__apivoyProjectId'')) (we_browser E),
            wb_selectedDesignedResponse := (case definitions of [] \<Rightarrow> JStr ''200'' | d # _ \<Rightarrow> coalesce (js_get d ''status'') (JStr ''200'')),
            wb_openedCaseParentId := map_of (hw_variables loaded) ''__apivoyCaseOf'',
            wb_openedCaseInterfaceName := (case text_opt (meta_get md ''__apivoyCaseInterfaceName'') of
                Some n \<Rightarrow> n | None \<Rightarrow> or_default (map_of (hw_variables loaded) ''__apivoyCaseInterfaceName'') []),
            wb_syncCaseResponse := truthy savedResponse,
            wb_lastRequest := stored_last_request loaded \<rparr>
      in if truthy savedResponse then
           opened\<lparr> wb_result := Some (saved_result (we_now E) loaded savedResponse), wb_responseBytes := None,
             wb_responseTab := TabBody, wb_statusMsg := Some SavedResponseLoaded \<rparr>
         else opened\<lparr> wb_result := None \<rparr>)"

text \<open>The structured source of a body, and what it is recognised as.\<close>

definition structured_source :: "HttpWorkbenchRequest \<Rightarrow> jsval" where
  "structured_source loaded =
     (let source = (if or_default (hw_bodySource loaded) [] \<noteq> [] then the (hw_bodySource loaded)
                    else if or_default (hw_body loaded) [] \<noteq> [] then the (hw_body loaded) else ''null'')
      in or_default (JSON_parse source) JNull)"

definition graphql_source :: "jsval \<Rightarrow> bool" where
  "graphql_source v =
     (truthy v \<and> (js_get v ''type'' = JStr ''graphql'' \<or> (is_str (js_get v ''query'') \<and> js_get v ''variables'' \<noteq> JUndef)))"

definition rpc_source :: "jsval \<Rightarrow> bool" where
  "rpc_source v =
     (truthy v \<and> (js_get v ''type'' = JStr ''jsonrpc'' \<or> (js_get v ''jsonrpc'' = JStr ''2.0'' \<and> is_str (js_get v ''method''))))"

definition content_type_of :: "header_list \<Rightarrow> string" where
  "content_type_of headers =
     (case find (\<lambda>(key, _). toLowerCase key = ''content-type'') headers of Some (_, v) \<Rightarrow> toLowerCase v | None \<Rightarrow> [])"

definition body_mode_of :: "HttpWorkbenchRequest \<Rightarrow> BodyMode" where
  "body_mode_of loaded =
     (let contentType = content_type_of (hw_headers loaded); source = structured_source loaded in
      if or_default (hw_multipart loaded) [] \<noteq> [] then MMultipart
      else if str_includes contentType ''x-www-form-urlencoded'' then MUrlencoded
      else if str_includes contentType ''graphql'' \<or> graphql_source source then MGraphql
      else if rpc_source source then MJsonrpc
      else if hw_bodyEncoding loaded = Some EncBase64 \<and> str_includes contentType ''msgpack'' then MMsgpack
      else if hw_bodyEncoding loaded = Some EncBase64 then MBinary
      else if str_includes contentType ''json'' then MJson
      else if str_includes contentType ''xml'' then MXml
      else if or_default (hw_body loaded) [] \<noteq> [] then MText else MNone)"

definition apply_body :: "HttpWorkbenchRequest \<Rightarrow> workbench \<Rightarrow> workbench" where
  "apply_body loaded s0 =
     (let mode = body_mode_of loaded; source = structured_source loaded;
          graphql = (if graphql_source source then source else JNull);
          rpc = (if rpc_source source then source else JNull);
          text_body = or_default (hw_body loaded) [];
          s = s0\<lparr> wb_body := text_body, wb_bodyMode := mode \<rparr>
      in case mode of
           MBinary \<Rightarrow> s\<lparr> wb_binaryBase64 := text_body, wb_binaryFileName := ''saved-binary'', wb_binarySize := 3 * length text_body div 4 \<rparr>
         | MMsgpack \<Rightarrow> s\<lparr> wb_messagePackJson := or_default (hw_bodySource loaded) ''{}'' \<rparr>
         | MGraphql \<Rightarrow> s\<lparr> wb_graphqlQuery := or_default (text_opt (js_get graphql ''query'')) text_body,
             wb_graphqlVariables := json_text 2 0 (coalesce (js_get graphql ''variables'') (JObj [])),
             wb_graphqlOperationName := or_default (text_opt (js_get graphql ''operationName'')) [] \<rparr>
         | MJsonrpc \<Rightarrow> s\<lparr> wb_rpcMethod := or_default (text_opt (js_get rpc ''method'')) [],
             wb_rpcParams := json_text 2 0 (coalesce (js_get rpc ''params'') (JObj [])),
             wb_rpcId := (if js_get rpc ''id'' = JNull then ''null'' else js_String (coalesce (js_get rpc ''id'') (JStr ''1''))) \<rparr>
         | _ \<Rightarrow> s)"

definition apply_options :: "wb_env \<Rightarrow> HttpWorkbenchRequest \<Rightarrow> workbench \<Rightarrow> workbench" where
  "apply_options E loaded s =
     (let hasNewAssertions = (meta_get (hw_metadata loaded) ''__apivoyAssertionSchemaVersion'' = JNum (NInt ASSERTION_SCHEMA_VERSION)) in
      s\<lparr> wb_timeoutMs := hw_timeoutMs loaded, wb_followRedirects := hw_followRedirects loaded, wb_retryMax := hw_retryMax loaded,
        wb_retryBackoffMs := hw_retryBackoffMs loaded, wb_proxy := or_default (hw_proxy loaded) [], wb_tlsVerify := hw_tlsVerify loaded,
        wb_tlsClientCertRef := or_default (hw_tlsClientCertRef loaded) [],
        wb_environmentRef := or_default (hw_environmentRef loaded) (we_defaultEnvironmentId E),
        wb_preScriptAssetIds := assetIdsFromScripts (hw_preScripts loaded),
        wb_postScriptAssetIds := assetIdsFromScripts (hw_postScripts loaded),
        wb_variablesText := formatKv (hw_variables loaded),
        wb_assertionRules := (if hasNewAssertions then hw_assertions loaded else []),
        wb_assertionsEnabled := (hasNewAssertions \<and> meta_get (hw_metadata loaded) ''__apivoyAssertionsEnabled'' \<noteq> JBool False) \<rparr>)"

definition AUTH_KINDS :: "string list" where
  "AUTH_KINDS = [''bearer'', ''basic'', ''api_key'', ''oauth2_client_credentials'', ''oauth2_authorization_code'']"

definition apply_auth :: "AuthRef option \<Rightarrow> workbench \<Rightarrow> workbench" where
  "apply_auth auth s0 =
     (let s = s0\<lparr> wb_bearerToken := (case auth of Some a \<Rightarrow> if au_kind a = ''bearer'' then or_default (au_token a) [] else [] | None \<Rightarrow> []),
            wb_bearerTokenSource := (case auth of
                Some a \<Rightarrow> if au_kind a = ''bearer'' \<and> truthy_name (au_secret_ref a) \<and> \<not> truthy_name (au_token a) then SecretRef else Direct
              | None \<Rightarrow> Direct) \<rparr>
      in case auth of
           None \<Rightarrow> s\<lparr> wb_authKind := ''none'' \<rparr>
         | Some a \<Rightarrow>
             if au_kind a \<in> set AUTH_KINDS then
               s\<lparr> wb_authKind := au_kind a, wb_authSecretRef := or_default (au_secret_ref a) [], wb_authUsername := or_default (au_username a) [],
                 wb_authHeaderName := or_default (au_header_name a) ''X-Api-Key'', wb_oauthTokenUrl := or_default (au_token_url a) [],
                 wb_oauthScope := or_default (au_scope a) [], wb_oauthAudience := or_default (au_audience a) [],
                 wb_oauthAuthorizationUrl := or_default (au_authorization_url a) [],
                 wb_oauthRedirectUri := or_default (au_redirect_uri a) default_redirect \<rparr>
             else s\<lparr> wb_authKind := ''none'' \<rparr>)"

text \<open>\<^verbatim>\<open>new URLSearchParams(text)\<close> drops a leading question mark.\<close>

definition search_params :: "string \<Rightarrow> (string \<times> string) list option" where
  "search_params source = form_parse (if startsWith source ''?'' then tl source else source)"

definition number_parts :: "(nat \<Rightarrow> string) \<Rightarrow> MultipartPart list \<Rightarrow> MultipartEditorPart list" where
  "number_parts uuid parts =
     map (\<lambda>(i, part). createMultipartEditorPart (uuid i) (Some part)) (enumerate 0 parts) @ [createMultipartEditorPart (uuid (length parts)) None]"

text \<open>The whole of \<^verbatim>\<open>applyRequest\<close>; \<open>None\<close> when the address or the form carries characters beyond the model's strings.\<close>

definition applyRequest :: "wb_env \<Rightarrow> (nat \<Rightarrow> nat \<Rightarrow> string) \<Rightarrow> HttpWorkbenchRequest \<Rightarrow> workbench \<Rightarrow> workbench option" where
  "applyRequest E uuid loaded s =
     Option.bind (queryRowsFromUrl (uuid 0) (hw_url loaded)) (\<lambda>queryRows.
     Option.bind (if body_mode_of loaded = MUrlencoded then search_params (or_default (hw_body loaded) []) else Some []) (\<lambda>form.
       Some (apply_auth (hw_auth loaded) (apply_options E loaded (apply_body loaded
         ((apply_metadata E loaded s)\<lparr> wb_name := or_default (hw_name loaded) [], wb_method := hw_method loaded, wb_url := hw_url loaded,
            wb_queryRows := queryRows,
            wb_headerRows := headerRowsFromPairs (uuid 1) (filter (\<lambda>(key, _). toLowerCase key \<noteq> ''cookie'') (hw_headers loaded)),
            wb_cookieRows := cookieRowsFromHeaders (uuid 2) (hw_headers loaded),
            wb_multipart := number_parts (uuid 3) (or_default (hw_multipart loaded) []),
            wb_formRows := number_rows query_row (uuid 4) form \<rparr>))))))"

definition selectBodyMode :: "string \<Rightarrow> string \<Rightarrow> BodyMode \<Rightarrow> workbench \<Rightarrow> workbench" where
  "selectBodyMode uuid1 uuid2 nextMode s =
     (let contentType = (if nextMode = MSoap \<and> wb_soapVersion s = Soap11 then Some ''text/xml''
            else (case find (\<lambda>(m, _). m = nextMode) BODY_MODES of Some (_, _, c) \<Rightarrow> c | None \<Rightarrow> None));
          withoutContentType = filter (\<lambda>row. toLowerCase (kr_key row) \<noteq> ''content-type'') (wb_headerRows s);
          contentRows = (case contentType of Some c \<Rightarrow> header_row uuid1 ''Content-Type'' c # withoutContentType | None \<Rightarrow> withoutContentType);
          rows = (if contentRows \<noteq> [] \<and> kr_key (last contentRows) = [] \<and> kr_value (last contentRows) = [] then contentRows
                  else contentRows @ [header_row uuid2 [] []])
      in s\<lparr> wb_method := (if nextMode \<in> {MGraphql, MJsonrpc, MSoap, MBinary, MMsgpack} then ''POST'' else wb_method s),
           wb_bodyMode := nextMode, wb_headerRows := rows \<rparr>)"

end
