(* ===== verification/HttpActions.thy ===== *)
theory HttpActions imports HttpForm begin

text \<open>
  The actions of the HTTP workbench (\<^verbatim>\<open>packages/ui/src/HttpWorkbench.tsx\<close>): sending, cancelling, saving, cases and their
  structure, the history, and the editors of GraphQL and multipart bodies. The callbacks of the host are arguments: an
  absent callback is \<open>None\<close>, and a callback that rejects gives the message of the rejection. An action returns the new
  state and what it handed to the host. Settings and structures kept as JSON are read and written field by field.
\<close>

section \<open>Stored values\<close>

text \<open>Values of the types the code stores under metadata keys. A missing optional field is \<^verbatim>\<open>undefined\<close>.\<close>

definition opt_str :: "jsval \<Rightarrow> string option \<Rightarrow> jsval" where
  "opt_str absent v = (case v of None \<Rightarrow> absent | Some s \<Rightarrow> JStr s)"

definition num_val :: "nat \<Rightarrow> jsval" where "num_val n = JNum (NInt (int n))"

definition pairs_val :: "header_list \<Rightarrow> jsval" where
  "pairs_val hs = JArr (map (\<lambda>(k, v). JArr [JStr k, JStr v]) hs)"

definition part_val :: "MultipartPart \<Rightarrow> jsval" where
  "part_val p = JObj [(''name'', JStr (mp_name p)), (''value'', JStr (mp_value p)), (''fileName'', opt_str JUndef (mp_fileName p)),
     (''contentType'', opt_str JUndef (mp_contentType p)), (''base64'', JBool (mp_base64 p))]"

definition auth_val :: "AuthRef \<Rightarrow> jsval" where
  "auth_val a = JObj [(''kind'', JStr (au_kind a)), (''secret_ref'', opt_str JNull (au_secret_ref a)), (''token'', opt_str JNull (au_token a)),
     (''username'', opt_str JNull (au_username a)), (''header_name'', opt_str JNull (au_header_name a)),
     (''token_url'', opt_str JNull (au_token_url a)), (''scope'', opt_str JNull (au_scope a)), (''audience'', opt_str JNull (au_audience a)),
     (''authorization_url'', opt_str JNull (au_authorization_url a)), (''redirect_uri'', opt_str JNull (au_redirect_uri a)),
     (''authorization_code_ref'', opt_str JNull (au_authorization_code_ref a)), (''code_verifier_ref'', opt_str JNull (au_code_verifier_ref a))]"

fun target_name :: "AssertionTarget \<Rightarrow> string" where
  "target_name TStatus = ''status''" | "target_name THeader = ''header''" | "target_name TBody = ''body''"
| "target_name TJsonPath = ''json_path''" | "target_name TDuration = ''duration''" | "target_name TSize = ''size''"

fun operator_name :: "AssertionOperator \<Rightarrow> string" where
  "operator_name OpEquals = ''equals''" | "operator_name OpNotEquals = ''not_equals''" | "operator_name OpIn = ''in''"
| "operator_name OpGreaterThan = ''greater_than''" | "operator_name OpLessThan = ''less_than''" | "operator_name OpContains = ''contains''"
| "operator_name OpNotContains = ''not_contains''" | "operator_name OpExists = ''exists''" | "operator_name OpNotExists = ''not_exists''"
| "operator_name OpTypeIs = ''type_is''" | "operator_name OpLengthEquals = ''length_equals''"
| "operator_name OpLengthGreaterThan = ''length_greater_than''" | "operator_name OpLengthLessThan = ''length_less_than''"

definition assertion_val :: "Assertion \<Rightarrow> jsval" where
  "assertion_val a = JObj [(''id'', JStr (as_id a)), (''enabled'', JBool (as_enabled a)), (''target'', JStr (target_name (as_target a))),
     (''operator'', JStr (operator_name (as_operator a))), (''selector'', opt_str JUndef (as_selector a)), (''expected'', opt_str JUndef (as_expected a))]"

definition encoding_val :: "body_encoding option \<Rightarrow> jsval" where
  "encoding_val e = (case e of None \<Rightarrow> JUndef | Some EncText \<Rightarrow> JStr ''text'' | Some EncBase64 \<Rightarrow> JStr ''base64'')"

definition list_val :: "('a \<Rightarrow> jsval) \<Rightarrow> 'a list option \<Rightarrow> jsval" where
  "list_val f xs = (case xs of None \<Rightarrow> JUndef | Some ys \<Rightarrow> JArr (map f ys))"

definition request_val :: "HttpWorkbenchRequest \<Rightarrow> jsval" where
  "request_val r = JObj
     [(''id'', opt_str JUndef (hw_id r)), (''name'', opt_str JUndef (hw_name r)), (''url'', JStr (hw_url r)), (''method'', JStr (hw_method r)),
      (''headers'', pairs_val (hw_headers r)), (''body'', opt_str JUndef (hw_body r)), (''bodyEncoding'', encoding_val (hw_bodyEncoding r)),
      (''bodySource'', opt_str JUndef (hw_bodySource r)), (''multipart'', list_val part_val (hw_multipart r)),
      (''timeoutMs'', num_val (hw_timeoutMs r)), (''metadata'', or_default (hw_metadata r) JUndef),
      (''variables'', JObj (map (\<lambda>(k, v). (k, JStr v)) (hw_variables r))), (''assertions'', JArr (map assertion_val (hw_assertions r))),
      (''auth'', case hw_auth r of None \<Rightarrow> JNull | Some a \<Rightarrow> auth_val a), (''followRedirects'', JBool (hw_followRedirects r)),
      (''retryMax'', num_val (hw_retryMax r)), (''retryBackoffMs'', num_val (hw_retryBackoffMs r)), (''proxy'', opt_str JNull (hw_proxy r)),
      (''tlsVerify'', JBool (hw_tlsVerify r)), (''tlsClientCertRef'', opt_str JNull (hw_tlsClientCertRef r)),
      (''environmentRef'', opt_str JNull (hw_environmentRef r)), (''preScripts'', list_val JStr (hw_preScripts r)),
      (''postScripts'', list_val JStr (hw_postScripts r))]"

fun location_name :: "InterfaceFieldLocation \<Rightarrow> string" where
  "location_name LQuery = ''query''" | "location_name LHeader = ''header''" | "location_name LBody = ''body''"

fun type_name :: "InterfaceFieldType \<Rightarrow> string" where
  "type_name FString = ''string''" | "type_name FInteger = ''integer''" | "type_name FNumber = ''number''" | "type_name FBoolean = ''boolean''"
| "type_name FArray = ''array''" | "type_name FObject = ''object''" | "type_name FNull = ''null''"

definition structure_val :: "HttpInterfaceStructure \<Rightarrow> jsval" where
  "structure_val st = JObj [(''version'', JNum (NInt 1)), (''method'', JStr (st_method st)), (''path'', JStr (st_path st)),
     (''fields'', JArr (map (\<lambda>f. JObj [(''key'', JStr (f_key f)), (''name'', JStr (f_name f)), (''location'', JStr (location_name (f_location f))),
        (''type'', JStr (type_name (f_type f)))]) (st_fields st)))]"

definition field_of :: "jsval \<Rightarrow> InterfaceStructureField" where
  "field_of v =
     \<lparr> f_key = js_String (js_get v ''key''), f_name = js_String (js_get v ''name''),
       f_location = or_default (find (\<lambda>l. js_get v ''location'' = JStr (location_name l)) [LQuery, LHeader, LBody]) LBody,
       f_type = or_default (find (\<lambda>t. js_get v ''type'' = JStr (type_name t)) [FString, FInteger, FNumber, FBoolean, FArray, FObject, FNull]) FString \<rparr>"

definition structure_of :: "jsval \<Rightarrow> HttpInterfaceStructure" where
  "structure_of v = \<lparr> st_method = js_String (js_get v ''method''), st_path = js_String (js_get v ''path''),
     st_fields = map field_of (elements (js_get v ''fields'')) \<rparr>"

definition stored_structure :: "jsval option \<Rightarrow> HttpInterfaceStructure option" where
  "stored_structure metadata = map_option structure_of (readInterfaceStructureMetadata metadata)"

definition designed_field_of :: "jsval \<Rightarrow> DesignedResponseField" where
  "designed_field_of v =
     \<lparr> dr_id = js_String (js_get v ''id''), dr_name = js_String (js_get v ''name''), dr_type = js_String (js_get v ''type''),
       dr_required = truthy (js_get v ''required''), dr_parentId = text_opt (js_get v ''parentId''),
       dr_scope = js_String (js_get v ''scope''), dr_example = text_opt (js_get v ''example'') \<rparr>"

definition designed_of :: "jsval \<Rightarrow> DesignedResponse" where
  "designed_of v =
     \<lparr> de_status = js_String (js_get v ''status''),
       de_bodyType = (if nullish (js_get v ''bodyType'') then None else Some (normalizeResponseBodyType (js_get v ''bodyType''))),
       de_contentType = text_opt (js_get v ''contentType''), de_fields = map designed_field_of (elements (js_get v ''fields'')) \<rparr>"

definition settings_of :: "props \<Rightarrow> ProjectResponseValidationSettings" where
  "settings_of ps =
     (let on = (\<lambda>k. truthy (obj_get ps k)) in
      \<lparr> vs_enabled = on ''enabled'', vs_interfaceRun = on ''interfaceRun'', vs_singleCase = on ''singleCase'', vs_testScenario = on ''testScenario'',
        vs_status = on ''status'', vs_headers = on ''headers'', vs_bodyFormat = on ''bodyFormat'', vs_bodySchema = on ''bodySchema'',
        vs_allowAdditionalProperties = on ''allowAdditionalProperties'' \<rparr>)"

text \<open>\<^verbatim>\<open>snapshotActualRequest\<close> of the last request.\<close>

definition snapshot_stored :: "jsval \<Rightarrow> jsval" where
  "snapshot_stored v =
     JObj (spread (entries v)
       [(''metadata'', JObj []),
        (''headers'', JArr (filter (\<lambda>item. \<not> isSensitiveHeaderName (js_String (js_get item ''0''))) (elements (js_get v ''headers'')))),
        (''auth'', if truthy (js_get v ''auth'') then JObj (spread (entries (js_get v ''auth'')) [(''token'', JNull)]) else js_get v ''auth'')])"

fun snapshot_last :: "last_request \<Rightarrow> jsval" where
  "snapshot_last (Sent r) = request_val (snapshotActualRequest r)"
| "snapshot_last (Stored v) = snapshot_stored v"

definition with_meta :: "props \<Rightarrow> HttpWorkbenchRequest \<Rightarrow> HttpWorkbenchRequest" where
  "with_meta ps r = r\<lparr> hw_metadata := Some (JObj (spread (entries (or_default (hw_metadata r) (JObj []))) ps)) \<rparr>"

section \<open>Sending\<close>

datatype send_hook = OnStarted string | OnChunk string | OnEvent nat ExecutionEvent

record wb_host =
  ho_putSecret :: "(string \<Rightarrow> string \<Rightarrow> string option) option"
  ho_send :: "HttpWorkbenchRequest \<Rightarrow> send_hook list \<times> (string, HttpRunResult) result"
  ho_listHistory :: "(WorkbenchHistoryFilter option \<Rightarrow> (string, HistoryItem list) result) option"
  ho_cancel :: "(string \<Rightarrow> string option) option"
  ho_save :: "(HttpWorkbenchRequest \<Rightarrow> HttpRunResult option \<Rightarrow> string option) option"
  ho_saveAsCase :: "(HttpWorkbenchRequest \<Rightarrow> string option) option"
  ho_updateInterface :: "(HttpWorkbenchRequest \<Rightarrow> string option) option"
  ho_buildError :: string
  ho_wallMs :: nat

definition currentHistoryFilter :: "workbench \<Rightarrow> WorkbenchHistoryFilter option" where
  "currentHistoryFilter s =
     (let status = (if not_blank (wb_historyStatusFilter s) then Some (string_Number (trim (wb_historyStatusFilter s))) else None);
          state = (if not_blank (wb_historyStateFilter s) then Some (trim (wb_historyStateFilter s)) else None);
          kept = (if status = Some NNaN then None else status)
      in if state \<noteq> None \<or> kept \<noteq> None then Some \<lparr> hf_state = state, hf_status = kept \<rparr> else None)"

definition append_bytes :: "nat list option \<Rightarrow> nat list \<Rightarrow> nat list option" where
  "append_bytes current chunk = (if or_default current [] = [] then Some chunk else Some (the current @ chunk))"

text \<open>The hooks of the running request; \<open>None\<close> when a chunk is not Base64, which throws in the hook.\<close>

fun run_hook :: "workbench \<Rightarrow> send_hook \<Rightarrow> workbench option" where
  "run_hook s (OnStarted i) = Some (s\<lparr> wb_executionId := Some i \<rparr>)"
| "run_hook s (OnChunk preview) = Some (s\<lparr> wb_livePreview := wb_livePreview s @ preview \<rparr>)"
| "run_hook s (OnEvent at event) =
     (let logged = s\<lparr> wb_timeline := wb_timeline s @ [(at, event)] \<rparr> in
      case event of
        ResponseChunk ct sz preview (Some dataBase64) d \<Rightarrow>
          if dataBase64 = [] then Some logged
          else map_option (\<lambda>chunk. logged\<lparr> wb_responseBytes := append_bytes (wb_responseBytes logged) chunk \<rparr>) (base64Bytes dataBase64)
      | _ \<Rightarrow> Some logged)"

text \<open>The state after the hooks that ran, and whether one threw.\<close>

fun run_hooks :: "send_hook list \<Rightarrow> workbench \<Rightarrow> workbench \<times> bool" where
  "run_hooks [] s = (s, True)"
| "run_hooks (h # hs) s = (case run_hook s h of None \<Rightarrow> (s, False) | Some t \<Rightarrow> run_hooks hs t)"

definition reset_run :: "workbench \<Rightarrow> workbench" where
  "reset_run s = s\<lparr> wb_loading := True, wb_result := None, wb_livePreview := [], wb_responseBytes := None, wb_responseSearch := [],
     wb_timeline := [], wb_responseTab := TabBody, wb_executionId := None, wb_statusMsg := None \<rparr>"

definition run_failed :: "wb_env \<Rightarrow> wb_host \<Rightarrow> string \<Rightarrow> workbench \<Rightarrow> workbench" where
  "run_failed E H message s = s\<lparr> wb_requestWallMs := ho_wallMs H,
     wb_result := Some \<lparr> hr_summary = failedSummary (we_now E), hr_eventCount = 0, hr_preview = None, hr_error = Some message,
       hr_executionId = None, hr_assertions = None, hr_responseMeta = None \<rparr> \<rparr>"

definition run_settled :: "workbench \<Rightarrow> workbench" where
  "run_settled s = s\<lparr> wb_loading := False, wb_executionId := None \<rparr>"

definition validation_context :: "jsval option \<Rightarrow> string" where
  "validation_context metadata = (if meta_get metadata ''__apivoyCaseType'' = JStr ''test'' then ''singleCase'' else ''interfaceRun'')"

definition validation_enabled :: "HttpWorkbenchRequest \<Rightarrow> workbench \<Rightarrow> bool" where
  "validation_enabled request s =
     (wb_assertionsEnabled s \<and> truthy (obj_get (wb_responseValidationSettings s) (validation_context (hw_metadata request))))"

definition chosen_design :: "HttpWorkbenchRequest \<Rightarrow> jsval \<Rightarrow> jsval option" where
  "chosen_design request selected =
     (let designs = elements (meta_get (hw_metadata request) ''__apivoyResponseDefinitions'') in
      case find (\<lambda>item. js_get item ''status'' = selected) designs of
        Some d \<Rightarrow> Some d | None \<Rightarrow> (case designs of [] \<Rightarrow> None | d # _ \<Rightarrow> Some d))"

definition design_checks :: "HttpWorkbenchRequest \<Rightarrow> HttpRunResult \<Rightarrow> workbench \<Rightarrow> run_check list" where
  "design_checks request outcome s =
     (case (if validation_enabled request s then chosen_design request (wb_selectedDesignedResponse s) else None) of
        None \<Rightarrow> []
      | Some d \<Rightarrow> map Designed (validateDesignedResponse (designed_of d)
            \<lparr> rs_status = es_status (hr_summary outcome), rs_preview = hr_preview outcome, rs_meta = hr_responseMeta outcome \<rparr>
            (settings_of (wb_responseValidationSettings s))))"

definition combined_result :: "HttpWorkbenchRequest \<Rightarrow> HttpRunResult \<Rightarrow> workbench \<Rightarrow> HttpRunResult" where
  "combined_result request outcome s =
     (let designAssertions = design_checks request outcome s in
      if designAssertions \<noteq> [] then outcome\<lparr> hr_assertions := Some (designAssertions @ or_default (hr_assertions outcome) []) \<rparr> else outcome)"

definition after_send :: "wb_env \<Rightarrow> wb_host \<Rightarrow> HttpWorkbenchRequest \<Rightarrow> HttpRunResult \<Rightarrow> workbench \<Rightarrow> workbench" where
  "after_send E H request outcome s =
     (let done = s\<lparr> wb_result := Some (combined_result request outcome s), wb_requestWallMs := ho_wallMs H \<rparr> in
      case ho_listHistory H of
        None \<Rightarrow> done
      | Some list_history \<Rightarrow>
          (case list_history (currentHistoryFilter done) of
             Inr items \<Rightarrow> done\<lparr> wb_history := items \<rparr>
           | Inl message \<Rightarrow> run_failed E H message done))"

definition store_code :: "wb_host \<Rightarrow> workbench \<Rightarrow> string option" where
  "store_code H s =
     (if wb_authKind s = ''oauth2_authorization_code'' \<and> not_blank (wb_oauthAuthorizationCode s)
      then (case ho_putSecret H of None \<Rightarrow> Some ''no secret store'' | Some put \<Rightarrow> put (wb_oauthCodeRef s) (trim (wb_oauthAuthorizationCode s)))
      else None)"

text \<open>The new state and the request that was sent.\<close>

definition handleSend :: "wb_env \<Rightarrow> wb_host \<Rightarrow> workbench \<Rightarrow> workbench \<times> HttpWorkbenchRequest option" where
  "handleSend E H s0 =
     (case validateParameterNames s0 of
        (False, s) \<Rightarrow> (s, None)
      | (True, s) \<Rightarrow>
          (let started = reset_run s in
           case store_code H started of
             Some message \<Rightarrow> (run_settled (run_failed E H message started), None)
           | None \<Rightarrow>
               (case buildRequest E started of
                  None \<Rightarrow> (run_settled (run_failed E H (ho_buildError H) started), None)
                | Some request \<Rightarrow>
                    (let sending = started\<lparr> wb_lastRequest := Some (Sent request) \<rparr>;
                         executionRequest = (if validation_enabled request sending then request else request\<lparr> hw_assertions := [] \<rparr>)
                     in case ho_send H executionRequest of
                          (hooks, outcome) \<Rightarrow>
                            (case run_hooks hooks sending of
                               (t, False) \<Rightarrow> (run_settled (run_failed E H (ho_buildError H) t), Some executionRequest)
                             | (t, True) \<Rightarrow>
                                 (case outcome of
                                    Inl message \<Rightarrow> (run_settled (run_failed E H message t), Some executionRequest)
                                  | Inr r \<Rightarrow> (run_settled (after_send E H request r t), Some executionRequest)))))))"

definition handleCancel :: "wb_host \<Rightarrow> workbench \<Rightarrow> workbench \<times> string option" where
  "handleCancel H s =
     (case (ho_cancel H, wb_executionId s) of
        (Some cancel, Some i) \<Rightarrow>
          if i = [] then (s, None)
          else (s\<lparr> wb_statusMsg := Some (case cancel i of None \<Rightarrow> CancelRequested | Some message \<Rightarrow> Problem message) \<rparr>, Some i)
      | _ \<Rightarrow> (s, None))"

section \<open>Saving\<close>

definition hasResponseResult :: "workbench \<Rightarrow> bool" where
  "hasResponseResult s = (case wb_result s of
     None \<Rightarrow> False | Some r \<Rightarrow> es_status (hr_summary r) \<noteq> None \<or> hr_responseMeta r \<noteq> None \<or> hr_preview r \<noteq> None)"

definition int_val :: "int option \<Rightarrow> jsval" where
  "int_val i = (case i of None \<Rightarrow> JNull | Some n \<Rightarrow> JNum (NInt n))"

definition response_snapshot :: "HttpRunResult \<Rightarrow> jsval" where
  "response_snapshot r = JObj
     [(''status'', int_val (es_status (hr_summary r))), (''durationMs'', num_val (es_durationMs (hr_summary r))),
      (''body'', opt_str JNull (hr_preview r)), (''headers'', pairs_val (case hr_responseMeta r of None \<Rightarrow> [] | Some m \<Rightarrow> rm_headers m)),
      (''contentType'', opt_str JNull (Option.bind (hr_responseMeta r) rm_contentType))]"

definition actual_request_meta :: "workbench \<Rightarrow> props" where
  "actual_request_meta s = (case wb_lastRequest s of None \<Rightarrow> [] | Some l \<Rightarrow> [(''__apivoySavedActualRequest'', snapshot_last l)])"

record save_module =
  sm_id :: string
  sm_isDefault :: bool

record save_place =
  sp_toCollection :: bool
  sp_collections :: "collection list"
  sp_modules :: "save_module list"
  sp_defaultCollectionId :: string

text \<open>The dialog that asks where a new interface goes.\<close>

definition open_save_dialog :: "save_place \<Rightarrow> HttpWorkbenchRequest \<Rightarrow> bool \<Rightarrow> workbench \<Rightarrow> workbench" where
  "open_save_dialog P request saveDefinition s =
     (let defaultModule = (case find sm_isDefault (sp_modules P) of Some m \<Rightarrow> Some m | None \<Rightarrow> (case sp_modules P of [] \<Rightarrow> None | m # _ \<Rightarrow> Some m)) in
      s\<lparr> wb_saveInterfaceDraft := Some (request, saveDefinition),
        wb_saveInterfaceName := (if not_blank (or_default (hw_name request) []) then trim (the (hw_name request)) else trim (wb_name s)),
        wb_saveCollectionId := resolveDefaultSaveCollectionId (sp_collections P) (sp_defaultCollectionId P),
        wb_saveModuleId := (case defaultModule of None \<Rightarrow> [] | Some m \<Rightarrow> sm_id m),
        wb_expandedSaveModules := (case defaultModule of None \<Rightarrow> [] | Some m \<Rightarrow> [sm_id m]),
        wb_expandedSaveCollections := uniq (map col_id (filter (\<lambda>c. list_ex (\<lambda>child. col_parentId child = Some (col_id c)) (sp_collections P)) (sp_collections P))),
        wb_saveDirectoryOpen := False \<rparr>)"

text \<open>The new state, the request handed to \<^verbatim>\<open>onSave\<close>, and the request whose definition is to be saved.\<close>

definition finish_save :: "wb_host \<Rightarrow> bool \<Rightarrow> HttpWorkbenchRequest \<Rightarrow> workbench \<Rightarrow> workbench \<times> HttpWorkbenchRequest option \<times> string option option" where
  "finish_save H saveDefinition request s =
     (let snapshot = (if wb_syncCaseResponse s \<and> truthy_name (wb_openedCaseParentId s) \<and> hasResponseResult s
            then [(''__apivoySavedResponse'', response_snapshot (the (wb_result s)))] @ actual_request_meta s else []);
          complete = (if snapshot = [] then request else with_meta snapshot request);
          noted = (if snapshot = [] then s else s\<lparr> wb_requestMetadata := or_default (hw_metadata complete) (JObj []) \<rparr>);
          stored = sanitizeHttpRequestForPersistence complete
      in case (the (ho_save H)) stored (wb_result s) of
           Some message \<Rightarrow> (noted\<lparr> wb_statusMsg := Some (Problem message) \<rparr>, Some stored, None)
         | None \<Rightarrow> (noted\<lparr> wb_name := (if not_blank (wb_name s) then wb_name s else or_default (hw_name complete) []), wb_statusMsg := Some SavedLocally \<rparr>,
                    Some stored, if saveDefinition then Some (hw_id complete) else None))"

definition handleSave ::
  "wb_env \<Rightarrow> wb_host \<Rightarrow> save_place \<Rightarrow> bool \<Rightarrow> workbench \<Rightarrow> workbench \<times> HttpWorkbenchRequest option \<times> string option option" where
  "handleSave E H P saveDefinition s0 =
     (if ho_save H = None then (s0, None, None)
      else (case validateParameterNames s0 of
              (False, s) \<Rightarrow> (s, None, None)
            | (True, s) \<Rightarrow>
                (case buildRequest E s of
                   None \<Rightarrow> (s\<lparr> wb_statusMsg := Some (Problem (ho_buildError H)) \<rparr>, None, None)
                 | Some request \<Rightarrow>
                     if \<not> truthy_name (wb_requestId s) \<and> sp_toCollection P then (open_save_dialog P request saveDefinition s, None, None)
                     else if truthy_name (wb_openedCaseParentId s) then finish_save H saveDefinition request s
                     else (case captureHttpInterfaceStructureV2 (we_url E) request of
                             None \<Rightarrow> (s\<lparr> wb_statusMsg := Some (Problem (ho_buildError H)) \<rparr>, None, None)
                           | Some st \<Rightarrow> finish_save H saveDefinition (with_meta [(INTERFACE_STRUCTURE_METADATA_KEY, structure_val st)] request) s))))"

text \<open>The event that asks the workbench to save the draft of an interface.\<close>

definition save_draft_event :: "wb_env \<Rightarrow> wb_host \<Rightarrow> save_place \<Rightarrow> string option \<Rightarrow> string option \<Rightarrow> string option \<Rightarrow> workbench
    \<Rightarrow> workbench \<times> HttpWorkbenchRequest option \<times> string option option" where
  "save_draft_event E H P session targetId sessionId s =
     (if truthy_name sessionId \<and> sessionId \<noteq> session then (s, None, None)
      else if truthy_name (wb_openedCaseParentId s) \<or> (truthy_name targetId \<and> truthy_name (wb_requestId s) \<and> targetId \<noteq> wb_requestId s) then (s, None, None)
      else handleSave E H P False s)"

definition mark_request_deleted :: "string option \<Rightarrow> workbench \<Rightarrow> workbench" where
  "mark_request_deleted deletedId s =
     (if truthy_name deletedId \<and> wb_requestId s = deletedId then s\<lparr> wb_requestId := None \<rparr> else s)"

section \<open>Cases\<close>

definition CASE_NAME_PRESETS :: "nat list" where
  \<comment> \<open>the texts of the presets, by position\<close>
  "CASE_NAME_PRESETS = [0..<8]"

definition caseNameFromRequestName :: "(nat \<Rightarrow> string) \<Rightarrow> string \<Rightarrow> string" where
  "caseNameFromRequestName preset v = preset (hd CASE_NAME_PRESETS)"

definition openCaseDialog :: "wb_env \<Rightarrow> wb_host \<Rightarrow> (nat \<Rightarrow> string) \<Rightarrow> case_type \<Rightarrow> workbench \<Rightarrow> workbench" where
  "openCaseDialog E H preset defaultType s0 =
     (if ho_saveAsCase H = None then s0
      else (case validateParameterNames s0 of
              (False, s) \<Rightarrow> s
            | (True, s) \<Rightarrow>
                (case buildRequest E s of
                   None \<Rightarrow> s
                 | Some request \<Rightarrow>
                     s\<lparr> wb_caseName := caseNameFromRequestName preset (or_default (hw_name request) (requestNameFromUrl (url_pathname E) (hw_url request))),
                       wb_caseType := defaultType, wb_caseSaveResponse := (defaultType = CaseDebug \<and> hasResponseResult s),
                       wb_caseCategory := ''positive'', wb_caseTags := [], wb_saveMenuOpen := False, wb_caseDialogOpen := True \<rparr>)))"

fun case_type_name :: "case_type \<Rightarrow> string" where
  "case_type_name CaseDebug = ''debug''" | "case_type_name CaseTest = ''test''"

definition case_metadata :: "HttpInterfaceStructure \<Rightarrow> workbench \<Rightarrow> props" where
  "case_metadata st s =
     [(INTERFACE_STRUCTURE_METADATA_KEY, structure_val st), (''__apivoyCaseType'', JStr (case_type_name (wb_caseType s)))]
     @ (if wb_caseType s = CaseTest then
          [(''__apivoyCaseCategory'', JStr (wb_caseCategory s)),
           (''__apivoyCaseTags'', JArr (map JStr (filter (\<lambda>tag. tag \<noteq> []) (map trim (split (CHR '','') (wb_caseTags s))))))] else [])
     @ (if wb_caseType s = CaseDebug \<and> wb_caseSaveResponse s \<and> hasResponseResult s
        then [(''__apivoySavedResponse'', response_snapshot (the (wb_result s)))] else [])
     @ actual_request_meta s"

definition saveAsCase :: "wb_env \<Rightarrow> wb_host \<Rightarrow> workbench \<Rightarrow> workbench \<times> HttpWorkbenchRequest option" where
  "saveAsCase E H s =
     (let nextName = trim (wb_caseName s) in
      if ho_saveAsCase H = None \<or> nextName = [] \<or> wb_caseSaving s then (s, None)
      else (case Option.bind (buildRequest E s) (\<lambda>request. map_option (Pair request) (captureHttpInterfaceStructureV2 (we_url E) request)) of
              None \<Rightarrow> (s\<lparr> wb_statusMsg := Some (Problem (ho_buildError H)), wb_caseSaving := False \<rparr>, None)
            | Some (request, st) \<Rightarrow>
                (let stored = sanitizeHttpRequestForPersistence (with_meta (case_metadata st s) (request\<lparr> hw_name := Some nextName \<rparr>)) in
                 case (the (ho_saveAsCase H)) stored of
                   Some message \<Rightarrow> (s\<lparr> wb_statusMsg := Some (Problem message), wb_caseSaving := False \<rparr>, Some stored)
                 | None \<Rightarrow> (s\<lparr> wb_caseDialogOpen := False, wb_statusMsg := Some (CaseSaved nextName), wb_caseSaving := False \<rparr>, Some stored))))"

definition caseStructureState :: "wb_env \<Rightarrow> workbench \<Rightarrow> (HttpInterfaceStructure \<times> InterfaceStructureDifference list) option" where
  "caseStructureState E s =
     (if \<not> truthy_name (wb_openedCaseParentId s) then None
      else Option.bind (stored_structure (Some (wb_requestMetadata s))) (\<lambda>baseline.
        Option.bind (buildRequest E s) (\<lambda>request.
          map_option (\<lambda>st. (baseline, diffHttpInterfaceStructure st baseline)) (captureHttpInterfaceStructureV2 (we_url E) request))))"

definition syncCaseWithInterface :: "wb_env \<Rightarrow> (nat \<Rightarrow> nat \<Rightarrow> string) \<Rightarrow> workbench \<Rightarrow> workbench option" where
  "syncCaseWithInterface E uuid s =
     (case caseStructureState E s of
        None \<Rightarrow> Some s
      | Some (baseline, _) \<Rightarrow>
          if wb_caseStructureBusy s then Some s
          else Option.bind (buildRequest E s) (\<lambda>request.
            Option.bind (alignRequestToInterfaceV2 (we_url E) request baseline) (\<lambda>aligned.
              map_option (\<lambda>t. t\<lparr> wb_statusMsg := Some CaseAligned, wb_caseStructureBusy := False \<rparr>)
                (applyRequest E uuid (with_meta [(INTERFACE_STRUCTURE_METADATA_KEY, structure_val baseline)] aligned) s))))"

definition drop_case_variables :: "header_list \<Rightarrow> header_list" where
  "drop_case_variables vars = filter (\<lambda>(k, _). k \<noteq> ''__apivoyCaseOf'' \<and> k \<noteq> ''__apivoyCaseInterfaceName'') vars"

definition updateInterfaceFromCase :: "wb_env \<Rightarrow> wb_host \<Rightarrow> workbench \<Rightarrow> workbench \<times> HttpWorkbenchRequest option" where
  "updateInterfaceFromCase E H s =
     (case (ho_updateInterface H, caseStructureState E s) of
        (Some update_interface, Some (_, differences)) \<Rightarrow>
          if differences = [] \<or> wb_caseStructureBusy s then (s, None)
          else (case Option.bind (buildRequest E s) (\<lambda>request. map_option (Pair request) (captureHttpInterfaceStructureV2 (we_url E) request)) of
                  None \<Rightarrow> (s\<lparr> wb_statusMsg := Some (Problem (ho_buildError H)), wb_caseStructureBusy := False \<rparr>, None)
                | Some (request, st) \<Rightarrow>
                    (let stored = sanitizeHttpRequestForPersistence (request\<lparr> hw_id := wb_openedCaseParentId s,
                           hw_name := (if wb_openedCaseInterfaceName s \<noteq> [] then Some (wb_openedCaseInterfaceName s) else hw_name request),
                           hw_variables := drop_case_variables (hw_variables request),
                           hw_metadata := Some (JObj [(INTERFACE_STRUCTURE_METADATA_KEY, structure_val st)]) \<rparr>)
                     in case update_interface stored of
                          Some message \<Rightarrow> (s\<lparr> wb_statusMsg := Some (Problem message), wb_caseStructureBusy := False \<rparr>, Some stored)
                        | None \<Rightarrow> (s\<lparr> wb_requestMetadata := JObj (spread (entries (wb_requestMetadata s)) [(INTERFACE_STRUCTURE_METADATA_KEY, structure_val st)]),
                            wb_statusMsg := Some InterfaceUpdated, wb_caseStructureBusy := False \<rparr>, Some stored)))
      | _ \<Rightarrow> (s, None))"

section \<open>History\<close>

definition handleRefreshHistory :: "wb_host \<Rightarrow> workbench \<Rightarrow> workbench" where
  "handleRefreshHistory H s =
     (case ho_listHistory H of
        None \<Rightarrow> s
      | Some list_history \<Rightarrow>
          (case list_history (currentHistoryFilter s) of
             Inr items \<Rightarrow> s\<lparr> wb_history := items, wb_statusMsg := Some HistoryRefreshed \<rparr>
           | Inl message \<Rightarrow> s\<lparr> wb_statusMsg := Some (Problem message) \<rparr>))"

definition toggleCompare :: "string \<Rightarrow> workbench \<Rightarrow> workbench" where
  "toggleCompare i s =
     (let prev = wb_compareIds s in
      s\<lparr> wb_compareIds := (if i \<in> set prev then filter (\<lambda>x. x \<noteq> i) prev else if 2 \<le> length prev then [prev ! 1, i] else prev @ [i]) \<rparr>)"

datatype replay = ReplayRequest HttpWorkbenchRequest | ReplayEnvelope RequestEnvelope

definition replayed_request :: "RequestEnvelope \<Rightarrow> HttpWorkbenchRequest option" where
  "replayed_request loaded =
     map_option (\<lambda>r. r\<lparr> hw_id := None, hw_bodyEncoding := None, hw_bodySource := None, hw_environmentRef := None, hw_metadata := None \<rparr>)
       (httpRequestFromEnvelope loaded)"

definition handleReplay ::
  "wb_env \<Rightarrow> (nat \<Rightarrow> nat \<Rightarrow> string) \<Rightarrow> (string \<Rightarrow> (string, replay option) result) option \<Rightarrow> string \<Rightarrow> workbench \<Rightarrow> workbench option" where
  "handleReplay E uuid onReplayHistory i s =
     (case onReplayHistory of
        None \<Rightarrow> Some s
      | Some load_replay \<Rightarrow>
          (case load_replay i of
             Inl message \<Rightarrow> Some (s\<lparr> wb_statusMsg := Some (Problem message) \<rparr>)
           | Inr None \<Rightarrow> Some (s\<lparr> wb_statusMsg := Some NothingToReplay \<rparr>)
           | Inr (Some loaded) \<Rightarrow>
               map_option (\<lambda>t. t\<lparr> wb_historyOpen := False, wb_statusMsg := Some Replayed \<rparr>)
                 (case loaded of
                    ReplayRequest r \<Rightarrow> applyRequest E uuid r s
                  | ReplayEnvelope e \<Rightarrow> (case replayed_request e of None \<Rightarrow> Some s | Some r \<Rightarrow> applyRequest E uuid r s))))"

section \<open>Opening from outside\<close>

definition open_external ::
  "wb_env \<Rightarrow> (nat \<Rightarrow> nat \<Rightarrow> string) \<Rightarrow> HttpWorkbenchRequest option \<Rightarrow> HttpRunResult option \<Rightarrow> HttpWorkbenchRequest option \<Rightarrow> workbench \<Rightarrow> workbench option" where
  \<comment> \<open>the effect on \<open>externalRequest\<close> and \<open>initialResult\<close>; the last request is the draft \<^verbatim>\<open>readWorkbenchDraft\<close> returns\<close>
  "open_external E uuid externalRequest initialResult draft s =
     (case externalRequest of
        Some r \<Rightarrow> map_option (\<lambda>t. t\<lparr> wb_result := initialResult, wb_statusMsg := Some RequestOpened \<rparr>) (applyRequest E uuid r s)
      | None \<Rightarrow>
          (case draft of
             None \<Rightarrow> Some s
           | Some d \<Rightarrow> map_option (\<lambda>t. t\<lparr> wb_statusMsg := Some DraftRestored \<rparr>) (applyRequest E uuid d s)))"

text \<open>What the hydration event carries: a request, an envelope, or something else.\<close>

datatype hydration = HydrateRequest HttpWorkbenchRequest | HydrateEnvelope RequestEnvelope | HydrateOther

fun httpRequestFromHydration :: "hydration \<Rightarrow> HttpWorkbenchRequest option" where
  "httpRequestFromHydration (HydrateRequest r) = Some r"
| "httpRequestFromHydration (HydrateEnvelope e) = httpRequestFromEnvelope e"
| "httpRequestFromHydration HydrateOther = None"

definition latest_interface :: "HttpWorkbenchRequest \<Rightarrow> HttpInterfaceStructure option" where
  "latest_interface r =
     (if truthy_name (map_of (hw_variables r) ''__apivoyCaseOf'') then stored_structure (hw_metadata r) else None)"

text \<open>A case whose interface changed is aligned first and handed to \<^verbatim>\<open>onSave\<close>: the request to open, the one to save, and the
  number of differences. \<open>None\<close> when the URL parser throws.\<close>

definition hydrated_request :: "wb_env \<Rightarrow> HttpWorkbenchRequest \<Rightarrow> (HttpWorkbenchRequest \<times> HttpWorkbenchRequest option \<times> nat) option" where
  "hydrated_request E saved =
     (case latest_interface saved of
        None \<Rightarrow> Some (saved, None, 0)
      | Some latest \<Rightarrow>
          Option.bind (captureHttpInterfaceStructureV2 (we_url E) saved) (\<lambda>current.
            let differences = diffHttpInterfaceStructure current latest in
            if differences = [] then Some (saved, None, 0)
            else map_option (\<lambda>aligned.
                let opened = with_meta [(INTERFACE_STRUCTURE_METADATA_KEY, structure_val latest)] aligned
                in (opened, Some opened, length differences))
              (alignRequestToInterfaceV2 (we_url E) saved latest)))"

definition hydrate_http :: "wb_env \<Rightarrow> (nat \<Rightarrow> nat \<Rightarrow> string) \<Rightarrow> bool \<Rightarrow> HttpWorkbenchRequest \<Rightarrow> workbench \<Rightarrow> (workbench \<times> HttpWorkbenchRequest option) option" where
  "hydrate_http E uuid wrapped saved s =
     Option.bind (hydrated_request E saved) (\<lambda>(opened, to_save, differences).
       map_option (\<lambda>t. (t\<lparr> wb_statusMsg := Some (if differences > 0 then SyncingCase differences
             else if truthy (meta_get (hw_metadata opened) ''__apivoySavedResponse'') then CaseOpened
             else if wrapped then DefinitionSynced else TreeRequestOpened) \<rparr>, to_save))
         (applyRequest E uuid opened s))"

text \<open>When the save of an aligned case settles.\<close>

definition case_sync_settled :: "nat \<Rightarrow> string option \<Rightarrow> workbench \<Rightarrow> workbench" where
  "case_sync_settled differences failure s =
     s\<lparr> wb_statusMsg := Some (case failure of None \<Rightarrow> CaseSynced differences | Some message \<Rightarrow> CaseSyncFailed message) \<rparr>"

definition hydrate_graphql :: "(nat \<Rightarrow> string) \<Rightarrow> string \<Rightarrow> GraphqlPayload \<Rightarrow> workbench \<Rightarrow> workbench" where
  "hydrate_graphql uuid target payload s =
     s\<lparr> wb_method := ''POST'', wb_url := target, wb_bodyMode := MGraphql, wb_graphqlQuery := gql_query payload,
       wb_graphqlVariables := json_text 2 0 (coalesce (gql_variables payload) (JObj [])),
       wb_graphqlOperationName := or_default (gql_operationName payload) [],
       wb_headerRows := headerRowsFromPairs uuid ((''Content-Type'', ''application/json'')
         # filter (\<lambda>(name, _). toLowerCase name \<noteq> ''content-type'') (gql_headers payload)),
       wb_result := None, wb_statusMsg := Some GraphqlLoaded \<rparr>"

definition hydrate_raw :: "(nat \<Rightarrow> string) \<Rightarrow> bool \<Rightarrow> string \<Rightarrow> jsval \<Rightarrow> workbench \<Rightarrow> workbench" where
  "hydrate_raw uuid soap target v s0 =
     (let s = s0\<lparr> wb_method := ''POST'', wb_url := target, wb_bodyMode := (if soap then MSoap else MJsonrpc),
            wb_headerRows := headerRowsFromPairs uuid (map header_pair (elements (js_get v ''headers''))), wb_result := None,
            wb_statusMsg := Some (if soap then SoapLoaded else JsonRpcLoaded) \<rparr>
      in if soap then s\<lparr> wb_soapVersion := (if js_get v ''version'' = JStr ''1.1'' then Soap11 else Soap12),
             wb_soapAction := or_default (text_opt (js_get v ''action'')) [], wb_soapEnvelope := or_default (text_opt (js_get v ''envelope'')) [] \<rparr>
         else s\<lparr> wb_rpcMethod := or_default (text_opt (js_get v ''method'')) [],
             wb_rpcParams := json_text 2 0 (coalesce (js_get v ''params'') (JObj [])),
             wb_rpcId := (if nullish (js_get v ''id'') then ''null'' else js_String (js_get v ''id'')) \<rparr>)"

definition hydrate :: "wb_env \<Rightarrow> (nat \<Rightarrow> nat \<Rightarrow> string) \<Rightarrow> hydration \<Rightarrow> workbench \<Rightarrow> (workbench \<times> HttpWorkbenchRequest option) option" where
  "hydrate E uuid raw s =
     (case httpRequestFromHydration raw of
        Some saved \<Rightarrow> hydrate_http E uuid (case raw of HydrateRequest _ \<Rightarrow> True | _ \<Rightarrow> False) saved s
      | None \<Rightarrow>
          (case raw of
             HydrateEnvelope e \<Rightarrow>
               (case re_payload e of
                  PGraphql payload \<Rightarrow> Some (hydrate_graphql (uuid 1) (re_target e) payload s, None)
                | PRaw v \<Rightarrow>
                    if re_protocolId e = ''soap'' \<or> re_protocolId e = ''jsonrpc''
                    then Some (hydrate_raw (uuid 1) (re_protocolId e = ''soap'') (re_target e) v s, None) else Some (s, None)
                | _ \<Rightarrow> Some (s, None))
           | _ \<Rightarrow> Some (s, None)))"

end
