(* ===== verification/HttpEditors.thy ===== *)
theory HttpEditors imports HttpActions begin

text \<open>
  The remaining actions and derived values of the HTTP workbench (\<^verbatim>\<open>packages/ui/src/HttpWorkbench.tsx\<close>): the
  authorization-code flow, the GraphQL editor, multipart parts, and what the response panel shows. The random bytes, the
  SHA-256 digest, the URL parser with its query setters, text decoders and compiled search expressions are arguments.
\<close>

section \<open>Authorization with PKCE\<close>

definition base64_url :: "nat list \<Rightarrow> string" where
  "base64_url octets =
     rev (dropWhile (\<lambda>c. c = CHR ''='') (rev (replace_char (CHR ''/'') ''_'' (replace_char (CHR ''+'') ''-'' (btoa (map char_of octets))))))"

record pkce_env =
  pk_random :: "nat list"
  pk_sha256 :: "nat list \<Rightarrow> nat list"
  pk_authorize :: "string \<Rightarrow> (string \<times> string) list \<Rightarrow> string option"

definition pkce_params :: "string \<Rightarrow> workbench \<Rightarrow> (string \<times> string) list" where
  "pkce_params challenge s =
     [(''response_type'', ''code''), (''client_id'', wb_authUsername s), (''redirect_uri'', wb_oauthRedirectUri s),
      (''code_challenge'', challenge), (''code_challenge_method'', ''S256'')]
     @ (if not_blank (wb_oauthScope s) then [(''scope'', trim (wb_oauthScope s))] else [])
     @ (if not_blank (wb_oauthAudience s) then [(''audience'', trim (wb_oauthAudience s))] else [])"

text \<open>The new state, the secret that was stored and the page that was opened.\<close>

definition startPkceAuthorization ::
  "pkce_env \<Rightarrow> (string \<Rightarrow> string \<Rightarrow> string option) option \<Rightarrow> workbench \<Rightarrow> workbench \<times> (string \<times> string) option \<times> string option" where
  "startPkceAuthorization K onPutSecret s =
     (if \<not> not_blank (wb_oauthAuthorizationUrl s) \<or> \<not> not_blank (wb_authUsername s) \<or> \<not> not_blank (wb_oauthRedirectUri s)
      then (s\<lparr> wb_statusMsg := Some PkceIncomplete \<rparr>, None, None)
      else (case onPutSecret of
              None \<Rightarrow> (s\<lparr> wb_statusMsg := Some NoSecretStore \<rparr>, None, None)
            | Some put \<Rightarrow>
                (let verifier = base64_url (pk_random K);
                     challenge = base64_url (pk_sha256 K (utf8 verifier)) in
                 case put (wb_oauthVerifierRef s) verifier of
                   Some message \<Rightarrow> (s, Some (wb_oauthVerifierRef s, verifier), None)
                 | None \<Rightarrow>
                     (case pk_authorize K (wb_oauthAuthorizationUrl s) (pkce_params challenge s) of
                        None \<Rightarrow> (s, Some (wb_oauthVerifierRef s, verifier), None)
                      | Some page \<Rightarrow> (s\<lparr> wb_statusMsg := Some PkceOpened \<rparr>, Some (wb_oauthVerifierRef s, verifier), Some page)))))"

section \<open>GraphQL\<close>

definition introspectionQuery :: string where
  "introspectionQuery = ''query ApiVoySchemaIntrospection { __schema { queryType { name } mutationType { name } subscriptionType { name } types { name kind } } }''"

definition schema_request :: "HttpWorkbenchRequest \<Rightarrow> HttpWorkbenchRequest" where
  "schema_request request = request
     \<lparr> hw_name := Some ''GraphQL Schema Introspection'', hw_method := ''POST'',
       hw_headers := (if list_ex (\<lambda>(key, _). toLowerCase key = ''content-type'') (hw_headers request) then hw_headers request
                      else (''Content-Type'', ''application/json'') # hw_headers request),
       hw_body := Some (json_text 0 0 (JObj [(''query'', JStr introspectionQuery), (''operationName'', JStr ''ApiVoySchemaIntrospection''), (''variables'', JObj [])])) \<rparr>"

text \<open>The texts the code chooses: \<open>no_url\<close>, \<open>failed\<close> and \<open>missing\<close> are its own, \<open>thrown\<close> is that of the engine's exception, and
  \<open>separator\<close> joins the messages of a GraphQL answer.\<close>

record schema_texts =
  tx_no_url :: string
  tx_failed :: string
  tx_missing :: string
  tx_thrown :: string
  tx_separator :: string

definition schema_answer :: "schema_texts \<Rightarrow> HttpRunResult \<Rightarrow> schema_state" where
  "schema_answer T response =
     (if or_default (hr_error response) [] \<noteq> [] then SchemaError (the (hr_error response))
      else (case JSON_parse (or_default (hr_preview response) ''{}'') of
              None \<Rightarrow> SchemaError (tx_thrown T)
            | Some parsed \<Rightarrow>
                (let errors = elements (js_get parsed ''errors'');
                     messages = filter (\<lambda>m. m \<noteq> []) (List.map_filter (\<lambda>e. text_opt (js_get e ''message'')) errors);
                     answer = join (tx_separator T) messages in
                 if nullish parsed \<or> list_ex nullish errors then SchemaError (tx_thrown T)
                 else if errors \<noteq> [] then SchemaError (if answer = [] then tx_failed T else answer)
                 else (case js_get (js_get (js_get parsed ''data'') ''__schema'') ''types'' of
                         JArr types \<Rightarrow> SchemaReady (length types)
                       | _ \<Rightarrow> SchemaError (tx_missing T)))))"

definition fetchGraphqlSchema :: "wb_env \<Rightarrow> wb_host \<Rightarrow> schema_texts \<Rightarrow> workbench \<Rightarrow> workbench" where
  "fetchGraphqlSchema E H T s =
     s\<lparr> wb_graphqlSchemaState :=
       (if \<not> not_blank (wb_url s) then SchemaError (tx_no_url T)
        else (case buildRequest E s of
                None \<Rightarrow> SchemaError (ho_buildError H)
              | Some request \<Rightarrow>
                  (case snd (ho_send H (schema_request request)) of
                     Inl message \<Rightarrow> SchemaError message
                   | Inr response \<Rightarrow> schema_answer T response))) \<rparr>"

record gql_scan =
  gs_depth :: nat
  gs_quoted :: bool
  gs_escaped :: bool

definition scan_character :: "bool \<Rightarrow> gql_scan \<Rightarrow> char \<Rightarrow> gql_scan" where
  "scan_character closing st c =
     (if gs_escaped st then st\<lparr> gs_escaped := False \<rparr>
      else if c = BSLASH \<and> gs_quoted st then st\<lparr> gs_escaped := True \<rparr>
      else if c = QUOTE then st\<lparr> gs_quoted := \<not> gs_quoted st \<rparr>
      else if \<not> gs_quoted st \<and> c = CHR ''{'' then st\<lparr> gs_depth := gs_depth st + 1 \<rparr>
      else if \<not> gs_quoted st \<and> c = CHR ''}'' \<and> \<not> closing then st\<lparr> gs_depth := gs_depth st - 1 \<rparr>
      else st)"

fun format_lines :: "gql_scan \<Rightarrow> string list \<Rightarrow> string list" where
  "format_lines st [] = []"
| "format_lines st (raw # rest) =
     (let line = trim raw in
      if line = [] then [] # format_lines st rest
      else (let closing = startsWith line ''}'';
                opened = (if closing then st\<lparr> gs_depth := gs_depth st - 1 \<rparr> else st)
            in (spaces (2 * gs_depth opened) @ line) # format_lines (foldl (scan_character closing) opened line) rest))"

definition formatGraphqlQuery :: "workbench \<Rightarrow> workbench" where
  "formatGraphqlQuery s =
     s\<lparr> wb_graphqlQuery := trim (join [NL] (format_lines \<lparr> gs_depth = 0, gs_quoted = False, gs_escaped = False \<rparr> (split NL (wb_graphqlQuery s)))) \<rparr>"

definition formatGraphqlVariables :: "workbench \<Rightarrow> workbench" where
  "formatGraphqlVariables s =
     (case parse_or ''{}'' (wb_graphqlVariables s) of
        Some v \<Rightarrow> s\<lparr> wb_graphqlVariables := json_text 2 0 v, wb_statusMsg := None \<rparr>
      | None \<Rightarrow> s\<lparr> wb_statusMsg := Some VariablesInvalid \<rparr>)"

section \<open>Multipart parts\<close>

text \<open>A patch of a part: the new part before its switch is set, and the switch when the patch sets it.\<close>

type_synonym part_patch = "(MultipartEditorPart \<Rightarrow> MultipartEditorPart) \<times> bool option"

definition patched_part :: "part_patch \<Rightarrow> MultipartEditorPart \<Rightarrow> MultipartEditorPart" where
  "patched_part patch part =
     (let wasEmpty = \<not> multipartPartHasContent part; edited = fst patch part; hasContent = multipartPartHasContent edited
      in edited\<lparr> me_enabled := (case snd patch of Some b \<Rightarrow> b | None \<Rightarrow> hasContent \<and> (me_enabled part \<or> wasEmpty)) \<rparr>)"

definition updateMultipart :: "string \<Rightarrow> nat \<Rightarrow> part_patch \<Rightarrow> workbench \<Rightarrow> workbench" where
  "updateMultipart uuid index patch s =
     (let parts = wb_multipart s;
          next = (if index < length parts then parts[index := patched_part patch (parts ! index)] else parts)
      in s\<lparr> wb_multipart := (if Suc index = length parts \<and> (multipartPartHasContent (next ! index) \<or> me_enabled (next ! index))
             then next @ [createMultipartEditorPart uuid None] else next) \<rparr>)"

record file_content =
  fc_name :: string
  fc_type :: string
  fc_octets :: "nat list"

definition attachMultipartFile :: "string \<Rightarrow> nat \<Rightarrow> file_content option \<Rightarrow> workbench \<Rightarrow> workbench" where
  "attachMultipartFile uuid index file s =
     (case file of
        None \<Rightarrow> s
      | Some f \<Rightarrow> updateMultipart uuid index
          (\<lambda>part. part\<lparr> mp_value := btoa (binary_text (fc_octets f)), mp_fileName := Some (fc_name f),
             mp_contentType := Some (if fc_type f \<noteq> [] then fc_type f else ''application/octet-stream''), mp_base64 := True \<rparr>, None) s)"

section \<open>The response panel\<close>

datatype response_view = ViewPretty | ViewRaw | ViewHex | ViewTable | ViewPreview
datatype response_format = FmtAuto | FmtJson | FmtXml | FmtHtml | FmtText
datatype preview_kind = KindHtml | KindImage | KindAudio

text \<open>\<open>decode charset octets\<close> is \<^verbatim>\<open>new TextDecoder(charset).decode(octets)\<close>, \<open>None\<close> when it throws; \<open>utf8_decode\<close> is the decoder
  of the fallback.\<close>

definition decodedResponse :: "(string \<Rightarrow> nat list \<Rightarrow> string option) \<Rightarrow> (nat list \<Rightarrow> string) \<Rightarrow> string \<Rightarrow> workbench \<Rightarrow> string" where
  "decodedResponse decode utf8_decode responseCharset s =
     (let octets = or_default (wb_responseBytes s) [] in
      if octets = [] then or_default (Option.bind (wb_result s) hr_preview) (wb_livePreview s)
      else (let charset = (if responseCharset = ''auto''
                  then charsetFromContentType (Option.bind (Option.bind (wb_result s) hr_responseMeta) rm_contentType) else responseCharset)
            in or_default (decode charset octets) (utf8_decode octets)))"

definition responseContentType :: "workbench \<Rightarrow> string" where
  "responseContentType s = toLowerCase (or_default (Option.bind (Option.bind (wb_result s) hr_responseMeta) rm_contentType) [])"

definition responsePreviewKind :: "response_format \<Rightarrow> workbench \<Rightarrow> preview_kind option" where
  "responsePreviewKind format s =
     (let contentType = responseContentType s in
      if str_includes contentType ''text/html'' \<or> format = FmtHtml then Some KindHtml
      else if startsWith contentType ''image/'' then Some KindImage
      else if startsWith contentType ''audio/'' then Some KindAudio else None)"

definition responsePreview :: "response_view \<Rightarrow> response_format \<Rightarrow> string \<Rightarrow> string" where
  "responsePreview view format preview =
     (if view = ViewPretty then (if format = FmtText \<or> format = FmtHtml then preview else prettyPreview preview)
      else if view = ViewHex then hexPreview preview else preview)"

definition HTML_START :: re where
  "HTML_START = RAlt (RSeqs [RBol, RLitI ''<!doctype'', RPlus RSpace, RLitI ''html'']) (RSeqs [RBol, RLitI ''<html'', RSet (\<lambda>c. js_ws c \<or> c = CHR ''>'')])"

definition XML_START :: re where
  "XML_START = RAlt (RSeqs [RBol, RLit ''<?xml''])
     (RSeqs [RBol, RLit ''<'', RSet (\<lambda>c. is_alpha c \<or> c = CHR ''_''), RStar (RSet (\<lambda>c. is_word c \<or> c \<in> set '':.-'')), RSet (\<lambda>c. js_ws c \<or> c = CHR ''>'')])"

definition responseLanguage :: "response_view \<Rightarrow> response_format \<Rightarrow> string \<Rightarrow> string \<Rightarrow> string" where
  "responseLanguage view format contentType decoded =
     (if view = ViewHex then ''plaintext''
      else if format \<noteq> FmtAuto then (case format of FmtText \<Rightarrow> ''plaintext'' | FmtJson \<Rightarrow> ''json'' | FmtXml \<Rightarrow> ''xml'' | _ \<Rightarrow> ''html'')
      else if str_includes contentType ''json'' then ''json''
      else if str_includes contentType ''html'' then ''html''
      else if str_includes contentType ''xml'' then ''xml''
      else if str_includes contentType ''javascript'' then ''javascript''
      else if str_includes contentType ''css'' then ''css''
      else (let source = trimStart decoded in
            if (startsWith source ''{'' \<or> startsWith source ''['') \<and> JSON_parse source \<noteq> None then ''json''
            else if rtest HTML_START source then ''html''
            else if rtest XML_START source then ''xml'' else ''plaintext''))"

text \<open>The literal search text as an expression: special characters are escaped.\<close>

definition escape_search :: "string \<Rightarrow> string" where
  "escape_search s = concat (map (\<lambda>c. if c \<in> set ''.*+?^${}()|[]'' \<or> c = BSLASH then [BSLASH, c] else [c]) s)"

definition search_expression :: "bool \<Rightarrow> bool \<Rightarrow> string \<Rightarrow> string" where
  "search_expression regex word_only search =
     (let escaped = (if regex then search else escape_search search)
      in if word_only then [BSLASH] @ ''b(?:'' @ escaped @ '')'' @ [BSLASH] @ ''b'' else escaped)"

definition responseSearchMatches :: "(string \<Rightarrow> bool \<Rightarrow> string \<Rightarrow> nat list option) \<Rightarrow> bool \<Rightarrow> bool \<Rightarrow> bool \<Rightarrow> string \<Rightarrow> string \<Rightarrow> nat list" where
  "responseSearchMatches matches regex word_only match_case search preview =
     (if search = [] then [] else or_default (matches (search_expression regex word_only search) match_case preview) [])"

definition responseSearchLine :: "nat list \<Rightarrow> nat \<Rightarrow> string \<Rightarrow> nat option" where
  "responseSearchLine found index preview =
     (if index < length found then Some (length (split NL (take (found ! index) preview))) else None)"

definition responseCookies :: "workbench \<Rightarrow> string list" where
  "responseCookies s =
     map snd (filter (\<lambda>(name, _). toLowerCase name = ''set-cookie'') (case Option.bind (wb_result s) hr_responseMeta of None \<Rightarrow> [] | Some m \<Rightarrow> rm_headers m))"

fun console_event :: "ExecutionEvent \<Rightarrow> bool" where
  "console_event (Log _ _) = True"
| "console_event (VariablesExtracted _) = True"
| "console_event (FailedEv c _) = (c = ''script_error'')"
| "console_event _ = False"

definition scriptConsoleEvents :: "workbench \<Rightarrow> (nat \<times> ExecutionEvent) list" where
  "scriptConsoleEvents s = filter (console_event \<circ> snd) (wb_timeline s)"

definition download_extension :: "string \<Rightarrow> string" where
  "download_extension type =
     (case find (\<lambda>(part, _). str_includes type part)
        [(''json'', ''json''), (''xml'', ''xml''), (''html'', ''html''), (''png'', ''png''), (''jpeg'', ''jpg''), (''gif'', ''gif''), (''svg'', ''svg''),
         (''mpeg'', ''mp3''), (''wav'', ''wav''), (''ogg'', ''ogg'')] of Some (_, e) \<Rightarrow> e | None \<Rightarrow> ''txt'')"

text \<open>The name of the downloaded file; \<open>None\<close> when there is nothing to download.\<close>

definition downloadResponse :: "string \<Rightarrow> workbench \<Rightarrow> workbench \<times> string option" where
  "downloadResponse preview s =
     (if preview = [] \<and> or_default (wb_responseBytes s) [] = [] then (s, None)
      else (let type = or_default (Option.bind (Option.bind (wb_result s) hr_responseMeta) rm_contentType) ''text/plain;charset=utf-8'';
                stem = (case Option.bind (wb_result s) hr_executionId of Some i \<Rightarrow> take 8 i | None \<Rightarrow> ''latest'')
            in (s\<lparr> wb_statusMsg := Some Downloaded \<rparr>, Some (''apivoy-response-'' @ stem @ ''.'' @ download_extension type))))"

definition responseTotalBytes :: "workbench \<Rightarrow> nat" where
  "responseTotalBytes s = responseHeaderSize (Option.bind (wb_result s) hr_responseMeta)
     + (case wb_result s of None \<Rightarrow> 0 | Some r \<Rightarrow> es_bytesReceived (hr_summary r))"

fun check_passed :: "run_check \<Rightarrow> bool" where
  "check_passed (Designed c) = ck_passed c"
| "check_passed (Reported a) = ar_passed a"

definition assertion_counts :: "workbench \<Rightarrow> nat \<times> nat" where
  "assertion_counts s =
     (let checks = or_default (Option.bind (wb_result s) hr_assertions) []
      in (length (filter check_passed checks), length (filter (\<lambda>c. \<not> check_passed c) checks)))"

definition responseStatusTone :: "workbench \<Rightarrow> string" where
  "responseStatusTone s =
     (let status = (case wb_result s of None \<Rightarrow> 0 | Some r \<Rightarrow> or_default (es_status (hr_summary r)) 0)
      in if 100 \<le> status \<and> status < 600 then '' status-'' @ show_int (status div 100) @ ''xx'' else [])"

definition responseValidationActive :: "workbench \<Rightarrow> bool" where
  "responseValidationActive s =
     (truthy (obj_get (wb_responseValidationSettings s) (validation_context (Some (wb_requestMetadata s)))) \<and> wb_assertionsEnabled s)"

end
