(* ===== verification/HttpFormLaws.thy ===== *)
theory HttpFormLaws imports HttpForm HttpTextLaws begin

text \<open>
  Opening a stored request in the workbench and building the request of the form again gives the stored request.
\<close>

section \<open>What the parts of \<^verbatim>\<open>applyRequest\<close> leave alone\<close>

lemma apply_auth_keeps [simp]:
  "wb_oauthCodeRef (apply_auth a s) = wb_oauthCodeRef s"
  "wb_oauthVerifierRef (apply_auth a s) = wb_oauthVerifierRef s"
  "wb_body (apply_auth a s) = wb_body s"
  "wb_bodyMode (apply_auth a s) = wb_bodyMode s"
  "wb_binaryBase64 (apply_auth a s) = wb_binaryBase64 s"
  "wb_messagePackJson (apply_auth a s) = wb_messagePackJson s"
  "wb_graphqlQuery (apply_auth a s) = wb_graphqlQuery s"
  "wb_graphqlVariables (apply_auth a s) = wb_graphqlVariables s"
  "wb_graphqlOperationName (apply_auth a s) = wb_graphqlOperationName s"
  "wb_rpcMethod (apply_auth a s) = wb_rpcMethod s"
  "wb_rpcParams (apply_auth a s) = wb_rpcParams s"
  "wb_rpcId (apply_auth a s) = wb_rpcId s"
  "wb_timeoutMs (apply_auth a s) = wb_timeoutMs s"
  "wb_followRedirects (apply_auth a s) = wb_followRedirects s"
  "wb_retryMax (apply_auth a s) = wb_retryMax s"
  "wb_retryBackoffMs (apply_auth a s) = wb_retryBackoffMs s"
  "wb_proxy (apply_auth a s) = wb_proxy s"
  "wb_tlsVerify (apply_auth a s) = wb_tlsVerify s"
  "wb_tlsClientCertRef (apply_auth a s) = wb_tlsClientCertRef s"
  "wb_environmentRef (apply_auth a s) = wb_environmentRef s"
  "wb_preScriptAssetIds (apply_auth a s) = wb_preScriptAssetIds s"
  "wb_postScriptAssetIds (apply_auth a s) = wb_postScriptAssetIds s"
  "wb_variablesText (apply_auth a s) = wb_variablesText s"
  "wb_assertionRules (apply_auth a s) = wb_assertionRules s"
  "wb_assertionsEnabled (apply_auth a s) = wb_assertionsEnabled s"
  "wb_requestId (apply_auth a s) = wb_requestId s"
  "wb_name (apply_auth a s) = wb_name s"
  "wb_url (apply_auth a s) = wb_url s"
  "wb_method (apply_auth a s) = wb_method s"
  "wb_headerRows (apply_auth a s) = wb_headerRows s"
  "wb_cookieRows (apply_auth a s) = wb_cookieRows s"
  "wb_soapAction (apply_auth a s) = wb_soapAction s"
  "wb_soapVersion (apply_auth a s) = wb_soapVersion s"
  "wb_soapEnvelope (apply_auth a s) = wb_soapEnvelope s"
  "wb_formRows (apply_auth a s) = wb_formRows s"
  "wb_multipart (apply_auth a s) = wb_multipart s"
  "wb_requestMetadata (apply_auth a s) = wb_requestMetadata s"
  "wb_queryRows (apply_auth a s) = wb_queryRows s"
  by (simp_all add: apply_auth_def Let_def split: option.split)

lemma apply_options_keeps [simp]:
  "wb_oauthCodeRef (apply_options E r s) = wb_oauthCodeRef s"
  "wb_oauthVerifierRef (apply_options E r s) = wb_oauthVerifierRef s"
  "wb_body (apply_options E r s) = wb_body s"
  "wb_bodyMode (apply_options E r s) = wb_bodyMode s"
  "wb_binaryBase64 (apply_options E r s) = wb_binaryBase64 s"
  "wb_messagePackJson (apply_options E r s) = wb_messagePackJson s"
  "wb_graphqlQuery (apply_options E r s) = wb_graphqlQuery s"
  "wb_graphqlVariables (apply_options E r s) = wb_graphqlVariables s"
  "wb_graphqlOperationName (apply_options E r s) = wb_graphqlOperationName s"
  "wb_rpcMethod (apply_options E r s) = wb_rpcMethod s"
  "wb_rpcParams (apply_options E r s) = wb_rpcParams s"
  "wb_rpcId (apply_options E r s) = wb_rpcId s"
  "wb_requestId (apply_options E r s) = wb_requestId s"
  "wb_name (apply_options E r s) = wb_name s"
  "wb_url (apply_options E r s) = wb_url s"
  "wb_method (apply_options E r s) = wb_method s"
  "wb_headerRows (apply_options E r s) = wb_headerRows s"
  "wb_cookieRows (apply_options E r s) = wb_cookieRows s"
  "wb_soapAction (apply_options E r s) = wb_soapAction s"
  "wb_soapVersion (apply_options E r s) = wb_soapVersion s"
  "wb_soapEnvelope (apply_options E r s) = wb_soapEnvelope s"
  "wb_formRows (apply_options E r s) = wb_formRows s"
  "wb_multipart (apply_options E r s) = wb_multipart s"
  "wb_requestMetadata (apply_options E r s) = wb_requestMetadata s"
  "wb_queryRows (apply_options E r s) = wb_queryRows s"
  by (simp_all add: apply_options_def Let_def)

lemma apply_body_keeps [simp]:
  "wb_oauthCodeRef (apply_body r s) = wb_oauthCodeRef s"
  "wb_oauthVerifierRef (apply_body r s) = wb_oauthVerifierRef s"
  "wb_requestId (apply_body r s) = wb_requestId s"
  "wb_name (apply_body r s) = wb_name s"
  "wb_url (apply_body r s) = wb_url s"
  "wb_method (apply_body r s) = wb_method s"
  "wb_headerRows (apply_body r s) = wb_headerRows s"
  "wb_cookieRows (apply_body r s) = wb_cookieRows s"
  "wb_soapAction (apply_body r s) = wb_soapAction s"
  "wb_soapVersion (apply_body r s) = wb_soapVersion s"
  "wb_soapEnvelope (apply_body r s) = wb_soapEnvelope s"
  "wb_formRows (apply_body r s) = wb_formRows s"
  "wb_multipart (apply_body r s) = wb_multipart s"
  "wb_requestMetadata (apply_body r s) = wb_requestMetadata s"
  "wb_queryRows (apply_body r s) = wb_queryRows s"
  by (simp_all add: apply_body_def Let_def split: BodyMode.split)

lemma apply_metadata_keeps [simp]:
  "wb_oauthCodeRef (apply_metadata E r s) = wb_oauthCodeRef s"
  "wb_oauthVerifierRef (apply_metadata E r s) = wb_oauthVerifierRef s"
  "wb_name (apply_metadata E r s) = wb_name s"
  "wb_url (apply_metadata E r s) = wb_url s"
  "wb_method (apply_metadata E r s) = wb_method s"
  "wb_headerRows (apply_metadata E r s) = wb_headerRows s"
  "wb_cookieRows (apply_metadata E r s) = wb_cookieRows s"
  "wb_soapAction (apply_metadata E r s) = wb_soapAction s"
  "wb_soapVersion (apply_metadata E r s) = wb_soapVersion s"
  "wb_soapEnvelope (apply_metadata E r s) = wb_soapEnvelope s"
  "wb_formRows (apply_metadata E r s) = wb_formRows s"
  "wb_multipart (apply_metadata E r s) = wb_multipart s"
  "wb_queryRows (apply_metadata E r s) = wb_queryRows s"
  by (simp_all add: apply_metadata_def Let_def)

lemma apply_metadata_sets [simp]:
  "wb_requestId (apply_metadata E r s) = hw_id r" "wb_requestMetadata (apply_metadata E r s) = or_default (hw_metadata r) (JObj [])"
  by (simp_all add: apply_metadata_def Let_def)

lemma apply_body_sets [simp]: "wb_body (apply_body r s) = or_default (hw_body r) []" "wb_bodyMode (apply_body r s) = body_mode_of r"
  by (simp_all add: apply_body_def Let_def split: BodyMode.split)

lemma apply_body_coded:
  "body_mode_of r = MBinary \<Longrightarrow> wb_binaryBase64 (apply_body r s) = or_default (hw_body r) []"
  "body_mode_of r = MMsgpack \<Longrightarrow> wb_messagePackJson (apply_body r s) = or_default (hw_bodySource r) ''{}''"
  by (simp_all add: apply_body_def Let_def)

lemma mode_not_soap [simp]: "body_mode_of r \<noteq> MSoap"
  by (simp add: body_mode_of_def Let_def)

section \<open>Rows and parts\<close>

lemma blank_Nil [simp]: "\<not> not_blank []"
  by (simp add: not_blank_def)

lemma enumerate_rows: "map (\<lambda>(i, k, v). g (mk (u i) k v)) (enumerate n ps) = map (\<lambda>(k, v). h k v) ps"
  if "\<And>i k v. (k, v) \<in> set ps \<Longrightarrow> g (mk i k v) = h k v"
  using that by (induction ps arbitrary: n) auto

lemma enumerate_all: "list_all (\<lambda>(k, v). P k) ps \<Longrightarrow> (i, k, v) \<in> set (enumerate n ps) \<Longrightarrow> P k"
  by (induction ps arbitrary: n) auto

lemma rows_kept:
  assumes "list_all (\<lambda>(k, v). not_blank k) ps" and "mk = header_row \<or> mk = query_row"
  shows "filter (\<lambda>row. kr_enabled row \<and> not_blank (kr_key row)) (number_rows mk u ps) = map (\<lambda>(i, k, v). mk (u i) k v) (enumerate 0 ps)"
proof -
  have "kr_enabled (mk i k v) \<and> not_blank (kr_key (mk i k v))" if "not_blank k" for i k v
    using assms(2) that by (auto simp: createHeaderRow_def createQueryRow_def)
  then have "\<forall>row \<in> set (map (\<lambda>(i, k, v). mk (u i) k v) (enumerate 0 ps)). kr_enabled row \<and> not_blank (kr_key row)"
    using enumerate_all [OF assms(1), of _ _ _ 0] unfolding set_map by (intro ballI) (elim imageE, clarify, blast)
  moreover have "\<not> (kr_enabled (mk i [] []) \<and> not_blank (kr_key (mk i [] [])))" for i
    using assms(2) by (auto simp: createHeaderRow_def createQueryRow_def)
  ultimately show ?thesis unfolding number_rows_def by (simp add: filter_id_conv)
qed

lemma sent_rows_numbered: "list_all (\<lambda>(k, v). not_blank k) ps \<Longrightarrow> sent_rows (number_rows query_row u ps) = ps"
  using enumerate_rows [of ps "\<lambda>row. (kr_key row, kr_value row)" query_row Pair u 0]
  by (simp add: sent_rows_def rows_kept createQueryRow_def createHeaderRow_def comp_def case_prod_unfold)

definition header_kept_ok :: "string \<times> string \<Rightarrow> bool" where
  "header_kept_ok = (\<lambda>(k, v). k \<noteq> [] \<and> trim k = k \<and> trim v = v \<and> toLowerCase k \<noteq> ''cookie'')"

lemma header_rows_built:
  assumes "list_all header_kept_ok hs"
  shows "map (\<lambda>row. (trim (kr_key row), trim (kr_value row)))
      (filter (\<lambda>row. kr_enabled row \<and> not_blank (kr_key row)) (headerRowsFromPairs u (filter (\<lambda>(key, _). toLowerCase key \<noteq> ''cookie'') hs))) = hs"
proof -
  have "filter (\<lambda>(key, _). toLowerCase key \<noteq> ''cookie'') hs = hs" using assms by (auto simp: header_kept_ok_def list_all_iff filter_id_conv)
  moreover have "list_all (\<lambda>(k, v). not_blank k) hs" using assms by (auto simp: header_kept_ok_def list_all_iff not_blank_def)
  moreover have "map (\<lambda>(i, k, v). (\<lambda>row. (trim (kr_key row), trim (kr_value row))) (header_row (u i) k v)) (enumerate 0 hs) = map (\<lambda>(k, v). (k, v)) hs"
    by (rule enumerate_rows) (use assms in \<open>auto simp: createHeaderRow_def header_kept_ok_def list_all_iff\<close>)
  ultimately show ?thesis by (simp add: headerRowsFromPairs_def rows_kept comp_def case_prod_unfold)
qed

lemma no_cookie_rows:
  assumes "list_all header_kept_ok hs"
  shows "cookie_header (cookieRowsFromHeaders u hs) = []"
proof -
  have "filter (\<lambda>(key, _). toLowerCase key = ''cookie'') hs = []" using assms by (auto simp: header_kept_ok_def list_all_iff filter_empty_conv)
  then show ?thesis by (simp add: cookieRowsFromHeaders_def number_rows_def cookie_header_def Let_def createQueryRow_def createHeaderRow_def)
qed

lemma part_back [simp]: "MultipartPart.truncate (createMultipartEditorPart u (Some p)) = p"
  by (cases p) (simp add: createMultipartEditorPart_def Let_def MultipartPart.truncate_def)

lemma parts_built:
  assumes "list_all (\<lambda>p. not_blank (mp_name p)) parts"
  shows "map MultipartPart.truncate (filter (\<lambda>part. me_enabled part \<and> not_blank (mp_name part)) (number_parts u parts)) = parts"
proof -
  have "filter (\<lambda>part. me_enabled part \<and> not_blank (mp_name part)) (map (\<lambda>(i, part). createMultipartEditorPart (u i) (Some part)) (enumerate n parts))
      = map (\<lambda>(i, part). createMultipartEditorPart (u i) (Some part)) (enumerate n parts)" for n
    using assms by (induction parts arbitrary: n) (auto simp: createMultipartEditorPart_def Let_def)
  moreover have "map (\<lambda>(i, part). MultipartPart.truncate (createMultipartEditorPart (u i) (Some part))) (enumerate n parts) = parts" for n
    by (induction parts arbitrary: n) simp_all
  moreover have "\<not> me_enabled (createMultipartEditorPart i None)" for i by (simp add: createMultipartEditorPart_def)
  ultimately show ?thesis by (simp add: number_parts_def comp_def case_prod_unfold)
qed

section \<open>Metadata and authentication\<close>

lemma update_same: "map_of ps k = Some v \<Longrightarrow> update_prop k v ps = ps"
  by (induction ps) auto

lemma def_same: "map_of ps k = Some v \<Longrightarrow> def_prop k v ps = ps"
  by (auto simp: def_prop_def update_same dest: map_of_SomeD intro: rev_image_eqI)

definition metadata_kept :: "jsval option \<Rightarrow> bool" where
  "metadata_kept md = (case md of
     Some (JObj ps) \<Rightarrow> map_of ps ''__apivoyAssertionSchemaVersion'' = Some (JNum (NInt ASSERTION_SCHEMA_VERSION))
       \<and> (map_of ps ''__apivoyAssertionsEnabled'' = Some (JBool True) \<or> map_of ps ''__apivoyAssertionsEnabled'' = Some (JBool False))
   | _ \<Rightarrow> False)"

definition trimmed_opt :: "string option \<Rightarrow> bool" where
  "trimmed_opt x = (case x of None \<Rightarrow> True | Some t \<Rightarrow> t \<noteq> [] \<and> trim t = t)"

lemma or_null_back [simp]: "trimmed_opt x \<Longrightarrow> or_null (or_default x []) = x"
  by (auto simp: trimmed_opt_def or_null_def split: option.splits)

definition auth_kept :: "string \<Rightarrow> string \<Rightarrow> AuthRef \<Rightarrow> bool" where
  "auth_kept codeRef verifierRef a \<longleftrightarrow>
     (let kind = au_kind a; oauth = startsWith kind ''oauth2_''; code_flow = (kind = ''oauth2_authorization_code'') in
      kind \<in> set AUTH_KINDS
      \<and> list_all trimmed_opt [au_secret_ref a, au_token a, au_username a, au_header_name a, au_token_url a, au_scope a, au_audience a,
           au_authorization_url a, au_redirect_uri a]
      \<and> (if kind = ''bearer'' then au_secret_ref a = None \<or> au_token a = None else au_token a = None)
      \<and> (kind = ''basic'' \<or> oauth \<or> au_username a = None)
      \<and> ((au_header_name a \<noteq> None) = (kind = ''api_key''))
      \<and> (oauth \<or> au_token_url a = None \<and> au_scope a = None \<and> au_audience a = None)
      \<and> (code_flow \<or> au_authorization_url a = None)
      \<and> ((au_redirect_uri a \<noteq> None) = code_flow)
      \<and> au_authorization_code_ref a = (if code_flow then Some codeRef else None)
      \<and> au_code_verifier_ref a = (if code_flow then Some verifierRef else None))"

lemma auth_built:
  assumes "case auth of None \<Rightarrow> True | Some a \<Rightarrow> auth_kept (wb_oauthCodeRef s) (wb_oauthVerifierRef s) a"
  shows "form_auth (apply_auth auth s) = auth"
proof (cases auth)
  case None
  then show ?thesis by (simp add: form_auth_def apply_auth_def buildAuth_def)
next
  case (Some a)
  obtain kind secret token user header token_url scope audience auth_url redirect code_ref verifier where
    a: "a = \<lparr> au_kind = kind, au_secret_ref = secret, au_token = token, au_username = user, au_header_name = header,
      au_token_url = token_url, au_scope = scope, au_audience = audience, au_authorization_url = auth_url, au_redirect_uri = redirect,
      au_authorization_code_ref = code_ref, au_code_verifier_ref = verifier \<rparr>" by (cases a) auto
  have "kind \<in> set AUTH_KINDS" using assms Some a by (simp add: auth_kept_def Let_def)
  then consider "kind = ''bearer''" | "kind = ''basic''" | "kind = ''api_key''" | "kind = ''oauth2_client_credentials''"
    | "kind = ''oauth2_authorization_code''" unfolding AUTH_KINDS_def list.set insert_iff empty_iff by fast
  moreover have kept: "auth_kept (wb_oauthCodeRef s) (wb_oauthVerifierRef s) a" using assms Some by simp
  moreover note opened = Some a form_auth_def apply_auth_def buildAuth_def Let_def AUTH_KINDS_def
  ultimately show ?thesis
  proof cases
    case 1
    then show ?thesis using kept
      by (cases secret; cases token) (simp_all add: opened auth_kept_def truthy_name_def trimmed_opt_def or_null_def)
  next
    case 3
    then obtain h where "header = Some h" "h \<noteq> []" "trim h = h" using kept by (auto simp: auth_kept_def a trimmed_opt_def Let_def)
    with 3 show ?thesis using kept by (simp add: opened auth_kept_def or_null_def [of h])
  next
    case 5
    then obtain h where "redirect = Some h" "h \<noteq> []" "trim h = h" using kept by (auto simp: auth_kept_def a trimmed_opt_def Let_def)
    with 5 show ?thesis using kept by (simp add: opened auth_kept_def or_null_def [of h])
  next
    case 2
    then show ?thesis using kept by (simp add: opened auth_kept_def)
  next
    case 4
    then show ?thesis using kept by (simp add: opened auth_kept_def)
  qed
qed

section \<open>Opening and building\<close>

lemma truthy_meta [simp]: "meta_get (Some (JObj ps)) k = obj_get ps k"
  by (simp add: meta_get_def)

lemma obj_get_Some: "map_of ps k = Some v \<Longrightarrow> obj_get ps k = v"
  by (simp add: obj_get_def)

lemma metadata_built:
  assumes "metadata_kept (hw_metadata r)" and "wb_requestMetadata s = or_default (hw_metadata r) (JObj [])"
  shows "Some (request_metadata (apply_options E r s)) = hw_metadata r" "wb_assertionRules (apply_options E r s) = hw_assertions r"
proof -
  obtain ps b where md: "hw_metadata r = Some (JObj ps)"
    "map_of ps ''__apivoyAssertionSchemaVersion'' = Some (JNum (NInt ASSERTION_SCHEMA_VERSION))"
    "map_of ps ''__apivoyAssertionsEnabled'' = Some (JBool b)"
    using assms(1) unfolding metadata_kept_def by (auto split: option.splits jsval.splits)
  note got = obj_get_Some [OF md(2)] obj_get_Some [OF md(3)]
  show "wb_assertionRules (apply_options E r s) = hw_assertions r" using md got by (simp add: apply_options_def Let_def)
  have "wb_assertionsEnabled (apply_options E r s) = b" using md got by (simp add: apply_options_def Let_def)
  then show "Some (request_metadata (apply_options E r s)) = hw_metadata r"
    using md assms(2) def_same [OF md(2)] def_same [OF md(3)] by (simp add: request_metadata_def spread_def)
qed

definition silent :: "string \<Rightarrow> BodyMode \<Rightarrow> bool" where
  "silent method mode \<longleftrightarrow> method = ''GET'' \<or> method = ''HEAD'' \<or> mode = MNone \<or> mode = MMultipart"

text \<open>The body of a stored request is as its mode writes it.\<close>

text \<open>The seven modes whose body is kept as it is, and MessagePack, whose text is stored beside the octets it is encoded to.\<close>

definition msgpack_kept :: "HttpWorkbenchRequest \<Rightarrow> bool" where
  "msgpack_kept r \<longleftrightarrow>
     (case hw_bodySource r of None \<Rightarrow> False
      | Some source \<Rightarrow> (case parse_or ''null'' source of None \<Rightarrow> False
         | Some v \<Rightarrow> (case encodeMessagePack v of Inl _ \<Rightarrow> False
            | Inr octets \<Rightarrow> hw_body r = None \<or> hw_body r = Some (bytesToBase64 octets))))"

definition body_kept :: "HttpWorkbenchRequest \<Rightarrow> bool" where
  "body_kept r \<longleftrightarrow>
     (let mode = body_mode_of r in
      mode \<in> {MNone, MMultipart, MUrlencoded, MJson, MXml, MText, MBinary, MMsgpack}
      \<and> (if mode = MMsgpack then msgpack_kept r else hw_bodySource r = None)
      \<and> hw_bodyEncoding r = Some (if mode = MBinary \<or> mode = MMsgpack then EncBase64 else EncText)
      \<and> ((hw_body r = None) = silent (hw_method r) mode)
      \<and> (mode = MUrlencoded \<longrightarrow> hw_body r \<noteq> None \<longrightarrow>
           (case search_params (the (hw_body r)) of Some ps \<Rightarrow> form_serialize ps = the (hw_body r) \<and> list_all (\<lambda>(k, v). not_blank k) ps | None \<Rightarrow> False))
      \<and> (case hw_multipart r of Some parts \<Rightarrow> list_all (\<lambda>p. not_blank (mp_name p)) parts | None \<Rightarrow> False))"

lemma mode_multipart: "body_mode_of r = MMultipart \<longleftrightarrow> or_default (hw_multipart r) [] \<noteq> []"
  by (simp add: body_mode_of_def Let_def)

lemma form_opened:
  assumes "body_kept r"
  obtains form where "(if body_mode_of r = MUrlencoded then search_params (or_default (hw_body r) []) else Some []) = Some form"
    "body_mode_of r = MUrlencoded \<Longrightarrow> hw_body r \<noteq> None \<Longrightarrow> form_serialize form = the (hw_body r) \<and> list_all (\<lambda>(k, v). not_blank k) form"
proof -
  have "search_params [] = Some []" by (simp add: search_params_def form_parse_serialize [of "[]", simplified form_serialize_def, simplified])
  with assms that show thesis
    by (cases "body_mode_of r = MUrlencoded"; cases "hw_body r") (auto simp: body_kept_def Let_def split: option.splits)
qed

lemma msgpack_built:
  assumes "msgpack_kept r" and "wb_bodyMode s = MMsgpack" and "wb_messagePackJson s = or_default (hw_bodySource r) x"
  shows "body_source s = Some (hw_bodySource r)" and "\<exists>b. encoded_body s = Some (Some b) \<and> (hw_body r = None \<or> hw_body r = Some b)"
  using assms by (auto simp: msgpack_kept_def body_source_def encoded_body_def split: option.splits sum.splits)

lemma body_built:
  assumes kept: "body_kept r" and mode: "wb_bodyMode s = body_mode_of r" and "wb_method s = hw_method r"
    and "wb_body s = or_default (hw_body r) []" and "body_mode_of r = MBinary \<Longrightarrow> wb_binaryBase64 s = or_default (hw_body r) []"
    and pack: "body_mode_of r = MMsgpack \<Longrightarrow> wb_messagePackJson s = or_default (hw_bodySource r) ''{}''"
    and form: "body_mode_of r = MUrlencoded \<Longrightarrow> hw_body r \<noteq> None \<Longrightarrow> form_serialize (sent_rows (wb_formRows s)) = the (hw_body r)"
  shows "Option.bind (encoded_body s) (request_body s) = Some (hw_body r)" "body_source s = Some (hw_bodySource r)"
proof -
  have silent: "(hw_body r = None) = silent (hw_method r) (body_mode_of r)" using kept by (simp add: body_kept_def Let_def)
  have built: "Option.bind (encoded_body s) (request_body s) = Some (hw_body r) \<and> body_source s = Some (hw_bodySource r)"
  proof (cases "body_mode_of r = MMsgpack")
    case True
    with kept have k: "msgpack_kept r" by (simp add: body_kept_def Let_def)
    from msgpack_built [OF k _ pack] True mode obtain b where
      "body_source s = Some (hw_bodySource r)" "encoded_body s = Some (Some b)" "hw_body r = None \<or> hw_body r = Some b" by auto
    with True mode silent assms(3) show ?thesis by (auto simp: request_body_def silent_def)
  next
    case False
    then have modes: "body_mode_of r \<in> {MNone, MMultipart, MUrlencoded, MJson, MXml, MText, MBinary}" "hw_bodySource r = None"
      using kept by (auto simp: body_kept_def Let_def)
    then have source: "body_source s = Some (hw_bodySource r)" using mode by (auto simp: body_source_def)
    have "Option.bind (encoded_body s) (request_body s) = Some (hw_body r)"
      using silent modes(1) assms(2-5) form by (cases "hw_body r") (auto simp: encoded_body_def request_body_def silent_def)
    with source show ?thesis by simp
  qed
  then show "Option.bind (encoded_body s) (request_body s) = Some (hw_body r)" "body_source s = Some (hw_bodySource r)" by simp_all
qed

text \<open>A request as the workbench stores it: its name, address, headers, proxy and client certificate without blanks around
  them, no cookie header, a body as its mode writes it, the current version of the assertions, scripts of known assets,
  variables the editor can show, an environment, and an authentication of one of the kinds of the form whose
  authorization-code references are those the form holds (\<^verbatim>\<open>applyRequest\<close> does not read them).\<close>

definition stored_form :: "wb_env \<Rightarrow> workbench \<Rightarrow> string list \<Rightarrow> string list \<Rightarrow> HttpWorkbenchRequest \<Rightarrow> bool" where
  "stored_form E s pre post r \<longleftrightarrow>
     trimmed_opt (hw_name r) \<and> hw_name r \<noteq> None \<and> trim (hw_url r) = hw_url r \<and> form_parse (query_of (hw_url r)) \<noteq> None
     \<and> list_all header_kept_ok (hw_headers r) \<and> body_kept r \<and> kv_ok (hw_variables r) \<and> metadata_kept (hw_metadata r)
     \<and> (case hw_auth r of None \<Rightarrow> True | Some a \<Rightarrow> auth_kept (wb_oauthCodeRef s) (wb_oauthVerifierRef s) a)
     \<and> trimmed_opt (hw_proxy r) \<and> trimmed_opt (hw_tlsClientCertRef r) \<and> hw_environmentRef r \<noteq> None
     \<and> assets_known (we_browser E) pre \<and> resolveAssets (we_transpile E) (we_browser E) pre = hw_preScripts r \<and> hw_preScripts r \<noteq> None
     \<and> assets_known (we_browser E) post \<and> resolveAssets (we_transpile E) (we_browser E) post = hw_postScripts r \<and> hw_postScripts r \<noteq> None"


definition form_env :: wb_env where
  "form_env = \<lparr> we_url = \<lparr> ue_parse = (\<lambda>u. Some \<lparr> pu_pathname = u, pu_params = [] \<rparr>), ue_setPathname = (\<lambda>u p. p) \<rparr>,
     we_transpile = text_opt, we_browser = \<lparr> local_store = Map.empty, session_store = Map.empty, local_ok = True, session_ok = True, dispatched = [] \<rparr>,
     we_defaultEnvironmentId = ''default-env'', we_now = ''now'' \<rparr>"

definition sample_stored :: HttpWorkbenchRequest where
  "sample_stored = \<lparr> hw_id = Some ''r1'', hw_name = Some ''Create'', hw_url = ''http://h/a?x=1'', hw_method = ''POST'',
     hw_headers = [(''Content-Type'', ''application/json''), (''Accept'', ''*/*'')], hw_body = Some ''[]'', hw_bodyEncoding = Some EncText,
     hw_bodySource = None, hw_multipart = Some [], hw_timeoutMs = 5000, hw_variables = [(''host'', ''h'')], hw_assertions = [],
     hw_auth = Some \<lparr> au_kind = ''bearer'', au_secret_ref = Some ''key'', au_token = None, au_username = None, au_header_name = None,
       au_token_url = None, au_scope = None, au_audience = None, au_authorization_url = None, au_redirect_uri = None,
       au_authorization_code_ref = None, au_code_verifier_ref = None \<rparr>,
     hw_followRedirects = True, hw_retryMax = 1, hw_retryBackoffMs = 250, hw_proxy = None, hw_tlsVerify = True, hw_tlsClientCertRef = None,
     hw_environmentRef = Some ''default-env'', hw_preScripts = Some [], hw_postScripts = Some [],
     hw_metadata = Some (JObj [(''__apivoyAssertionSchemaVersion'', JNum (NInt 2)), (''__apivoyAssertionsEnabled'', JBool True)]) \<rparr>"

lemma sample_stored_parts:
  "body_kept sample_stored" "list_all header_kept_ok (hw_headers sample_stored)" "kv_ok (hw_variables sample_stored)"
  "metadata_kept (hw_metadata sample_stored)" "form_parse (query_of (hw_url sample_stored)) \<noteq> None" "trim (hw_url sample_stored) = hw_url sample_stored"
  "trimmed_opt (hw_name sample_stored)" "assets_known (we_browser form_env) []" "resolveAssets (we_transpile form_env) (we_browser form_env) [] = Some []"
  "auth_kept c v (the (hw_auth sample_stored))"
  by code_simp+

lemma sample_stored_form: "stored_form form_env s [] [] sample_stored"
  using sample_stored_parts unfolding stored_form_def by (simp add: sample_stored_def trimmed_opt_def)


end
