(* ===== verification/HttpActionsLaws.thy ===== *)
theory HttpActionsLaws imports HttpEditors HttpFormLaws InterfaceStructureLaws PayloadCodecLaws begin

text \<open>
  What the actions of the HTTP workbench promise: a run always settles, what is handed over for storage carries no
  credential, a case is saved together with the structure it is later compared with, and the verifier of an
  authorization is stored before the page that needs it opens.
\<close>

section \<open>Sending\<close>

lemma validate_keeps:
  "validateParameterNames s = (ok, t) \<Longrightarrow> if ok then t = s else t = s\<lparr> wb_requestTab := wb_requestTab t, wb_statusMsg := wb_statusMsg t \<rparr>"
  by (auto simp: validateParameterNames_def split: option.splits prod.splits)

lemma run_settled_fields [simp]:
  "\<not> wb_loading (run_settled s)" "wb_executionId (run_settled s) = None" "wb_result (run_settled s) = wb_result s"
  by (simp_all add: run_settled_def)

lemma reset_run_reads [simp]:
  "buildRequest E (reset_run s) = buildRequest E s"
  "store_code H (reset_run s) = store_code H s"
  "wb_lastRequest (reset_run s) = wb_lastRequest s"
  by (simp_all add: buildRequest_def encoded_body_def request_body_def body_source_def request_headers_def form_auth_def
      graphql_body_def rpc_body_def request_metadata_def store_code_def reset_run_def
      cong: BodyMode.case_cong option.case_cong if_cong)

text \<open>What a run reads of the form after the request was built; the hooks of the run change none of it.\<close>

definition run_view :: "workbench \<Rightarrow> bool \<times> props \<times> jsval \<times> string \<times> string" where
  "run_view s = (wb_assertionsEnabled s, wb_responseValidationSettings s, wb_selectedDesignedResponse s, wb_historyStatusFilter s, wb_historyStateFilter s)"

lemma run_view_cong:
  assumes "run_view s = run_view t"
  shows "combined_result q a s = combined_result q a t" "validation_enabled q s = validation_enabled q t"
    "currentHistoryFilter s = currentHistoryFilter t"
proof -
  have same: "wb_assertionsEnabled s = wb_assertionsEnabled t" "wb_responseValidationSettings s = wb_responseValidationSettings t"
    "wb_selectedDesignedResponse s = wb_selectedDesignedResponse t" "wb_historyStatusFilter s = wb_historyStatusFilter t"
    "wb_historyStateFilter s = wb_historyStateFilter t" using assms by (simp_all add: run_view_def)
  show "combined_result q a s = combined_result q a t" "validation_enabled q s = validation_enabled q t"
    "currentHistoryFilter s = currentHistoryFilter t"
    unfolding combined_result_def design_checks_def validation_enabled_def currentHistoryFilter_def same by (rule refl)+
qed

lemma run_view_kept [simp]:
  "run_view (reset_run s) = run_view s" "run_view (s\<lparr> wb_lastRequest := l \<rparr>) = run_view s"
  "run_view (s\<lparr> wb_result := x, wb_requestWallMs := n \<rparr>) = run_view s"
  by (simp_all add: run_view_def reset_run_def)

fun hook_ok :: "send_hook \<Rightarrow> bool" where
  "hook_ok (OnEvent at (ResponseChunk ct sz preview (Some dataBase64) d)) = (dataBase64 = [] \<or> base64Bytes dataBase64 \<noteq> None)"
| "hook_ok _ = True"

lemma run_hook_keeps: "run_hook s h = Some t \<Longrightarrow> wb_lastRequest t = wb_lastRequest s \<and> run_view t = run_view s"
  by (induction s h rule: run_hook.induct) (auto simp: run_view_def Let_def split: ExecutionEvent.splits option.splits if_splits)

lemma run_hook_None: "run_hook s h = None \<longleftrightarrow> \<not> hook_ok h"
  by (induction s h rule: run_hook.induct) (auto simp: Let_def split: ExecutionEvent.splits option.splits if_splits)

lemma run_hooks_keep:
  "run_hooks hs s = (t, ok) \<Longrightarrow> wb_lastRequest t = wb_lastRequest s \<and> run_view t = run_view s \<and> ok = list_all hook_ok hs"
proof (induction hs arbitrary: s)
  case (Cons h hs)
  then show ?case using run_hook_None [of s h] run_hook_keeps [of s h] by (auto split: option.splits)
qed simp

definition failure_result :: "wb_env \<Rightarrow> string \<Rightarrow> HttpRunResult" where
  "failure_result E message = \<lparr> hr_summary = failedSummary (we_now E), hr_eventCount = 0, hr_preview = None, hr_error = Some message,
     hr_executionId = None, hr_assertions = None, hr_responseMeta = None \<rparr>"

lemma run_failed_shows [simp]:
  "wb_result (run_failed E H message s) = Some (failure_result E message)"
  "wb_lastRequest (run_failed E H message s) = wb_lastRequest s"
  by (simp_all add: run_failed_def failure_result_def)

lemma run_settled_keeps [simp]: "wb_lastRequest (run_settled s) = wb_lastRequest s"
  by (simp add: run_settled_def)

text \<open>What the workbench shows when it built \<open>q\<close> and sent \<open>r\<close>: the answer of the host, with the checks of the chosen design in
  front of its assertions, unless the answer, a hook of the run or the list of the history is a failure.\<close>

definition shown_result :: "wb_env \<Rightarrow> wb_host \<Rightarrow> workbench \<Rightarrow> HttpWorkbenchRequest \<Rightarrow> HttpWorkbenchRequest \<Rightarrow> HttpRunResult" where
  "shown_result E H s q r =
     (case ho_send H r of
        (hooks, answer) \<Rightarrow>
          if \<not> list_all hook_ok hooks then failure_result E (ho_buildError H)
          else (case answer of
                  Inl message \<Rightarrow> failure_result E message
                | Inr a \<Rightarrow>
                    (case map_option (\<lambda>list_history. list_history (currentHistoryFilter s)) (ho_listHistory H) of
                       Some (Inl message) \<Rightarrow> failure_result E message
                     | _ \<Rightarrow> combined_result q a s)))"

lemma after_send_shows:
  assumes "run_view t = run_view s"
  shows "wb_lastRequest (after_send E H q a t) = wb_lastRequest t"
    and "wb_result (after_send E H q a t) = Some (case map_option (\<lambda>f. f (currentHistoryFilter s)) (ho_listHistory H) of
           Some (Inl message) \<Rightarrow> failure_result E message | _ \<Rightarrow> combined_result q a s)"
proof -
  have "currentHistoryFilter (t\<lparr> wb_result := x, wb_requestWallMs := n \<rparr>) = currentHistoryFilter s" for x n
    by (rule run_view_cong) (simp add: assms)
  moreover have "combined_result q a t = combined_result q a s" by (rule run_view_cong) (rule assms)
  ultimately show "wb_lastRequest (after_send E H q a t) = wb_lastRequest t"
    "wb_result (after_send E H q a t) = Some (case map_option (\<lambda>f. f (currentHistoryFilter s)) (ho_listHistory H) of
       Some (Inl message) \<Rightarrow> failure_result E message | _ \<Rightarrow> combined_result q a s)"
    by (simp_all add: after_send_def Let_def split: option.split sum.split)
qed

text \<open>C10: a send that does not pass the check of the parameter names changes nothing but the tab and the message and sends
  nothing. Otherwise, once the calls of the host have answered, the workbench is at rest with a result: a failure and nothing
  sent when the authorization code cannot be stored or the form does not give a request; else the request of the form was
  sent, with its assertions only when they are enabled, and the result is the answer with the checks of the design, or the
  failure of the host, of a hook or of the history. That the host answers is not part of the statement.\<close>

theorem send_settles:
  "case handleSend E H s of (t, sent) \<Rightarrow>
     if fst (validateParameterNames s)
     then \<not> wb_loading t \<and> wb_executionId t = None
       \<and> (case store_code H s of
            Some message \<Rightarrow> sent = None \<and> wb_result t = Some (failure_result E message)
          | None \<Rightarrow>
              (case buildRequest E s of
                 None \<Rightarrow> sent = None \<and> wb_result t = Some (failure_result E (ho_buildError H))
               | Some q \<Rightarrow>
                   (let r = (if validation_enabled q s then q else q\<lparr> hw_assertions := [] \<rparr>) in
                    sent = Some r \<and> wb_lastRequest t = Some (Sent q) \<and> wb_result t = Some (shown_result E H s q r))))
     else sent = None \<and> t = s\<lparr> wb_requestTab := wb_requestTab t, wb_statusMsg := wb_statusMsg t \<rparr>"
proof (cases "validateParameterNames s")
  case (Pair ok u)
  show ?thesis
  proof (cases ok)
    case False
    then show ?thesis using Pair validate_keeps [OF Pair] by (simp add: handleSend_def)
  next
    case True
    then have u: "u = s" using validate_keeps [OF Pair] by simp
    show ?thesis
    proof (cases "store_code H s = None \<and> buildRequest E s \<noteq> None")
      case False
      then show ?thesis using Pair u True by (auto simp: handleSend_def Let_def split: option.splits)
    next
      case sends: True
      then obtain q where q: "buildRequest E s = Some q" by auto
      have v: "validation_enabled q ((reset_run s)\<lparr> wb_lastRequest := l \<rparr>) = validation_enabled q s" for l
        by (rule run_view_cong) simp
      define r where "r = (if validation_enabled q s then q else q\<lparr> hw_assertions := [] \<rparr>)"
      obtain hooks answer where a: "ho_send H r = (hooks, answer)" by fastforce
      obtain t ok' where h: "run_hooks hooks ((reset_run s)\<lparr> wb_lastRequest := Some (Sent q) \<rparr>) = (t, ok')" by fastforce
      from run_hooks_keep [OF h] have t: "wb_lastRequest t = Some (Sent q)" "run_view t = run_view s" "ok' = list_all hook_ok hooks" by simp_all
      have "handleSend E H s = (run_settled (if \<not> ok' then run_failed E H (ho_buildError H) t
          else case answer of Inl message \<Rightarrow> run_failed E H message t | Inr x \<Rightarrow> after_send E H q x t), Some r)"
        using Pair u True sends q v a h by (auto simp: handleSend_def Let_def r_def split: sum.split bool.split)
      then show ?thesis using Pair True sends q a t after_send_shows [OF t(2)]
        by (auto simp: Let_def shown_result_def simp flip: r_def split: sum.split)
    qed
  qed
qed

text \<open>The history is read after the response was shown; when that fails, the response is replaced by a failure.\<close>

lemma history_failure_hides_response:
  assumes "ho_listHistory H = Some (\<lambda>_. Inl message)"
  shows "map_option hr_error (wb_result (after_send E H request outcome s)) = Some (Some message)"
    "map_option hr_preview (wb_result (after_send E H request outcome s)) = Some None"
  using assms by (simp_all add: after_send_def Let_def run_failed_def)

section \<open>Storing\<close>

lemma finish_save_stored: "pred_option persisted_clean (fst (snd (finish_save H saveDefinition request s)))"
  by (simp add: finish_save_def Let_def sanitized_request_clean split: option.split)

text \<open>C8: the request that the save, the save as a case and the update of an interface from a case hand over for storage
  carries no credential: no sensitive header, no literal token, nothing sensitive in its metadata. (The fourth way out, the
  automatic alignment of a case that is opened, is not among them: see the lemma after this one.)\<close>

theorem stored_requests_clean:
  "pred_option persisted_clean (fst (snd (handleSave E H P saveDefinition s)))
   \<and> pred_option persisted_clean (snd (saveAsCase E H s))
   \<and> pred_option persisted_clean (snd (updateInterfaceFromCase E H s))"
proof (intro conjI)
  show "pred_option persisted_clean (fst (snd (handleSave E H P saveDefinition s)))"
    by (auto simp: handleSave_def finish_save_stored split: option.split prod.split bool.split)
  show "pred_option persisted_clean (snd (saveAsCase E H s))"
    by (auto simp: saveAsCase_def Let_def sanitized_request_clean split: option.split)
  show "pred_option persisted_clean (snd (updateInterfaceFromCase E H s))"
    by (auto simp: updateInterfaceFromCase_def Let_def sanitized_request_clean split: option.split prod.split)
qed

text \<open>A case whose interface changed is handed to \<^verbatim>\<open>onSave\<close> as it was aligned, without the cleaning: a literal token and the
  headers of authorization and cookies that the opened request carries are stored again.\<close>

lemma aligned_case_not_cleaned:
  assumes "hydrate E uuid (HydrateRequest saved) s = Some (t, Some stored)"
  shows "hw_auth stored = hw_auth saved" and "h \<in> set (hw_headers saved) \<Longrightarrow> special_header h \<Longrightarrow> h \<in> set (hw_headers stored)"
proof -
  from assms obtain latest aligned where "alignRequestToInterfaceV2 (we_url E) saved latest = Some aligned"
    and s: "stored = with_meta [(INTERFACE_STRUCTURE_METADATA_KEY, structure_val latest)] aligned"
    by (auto simp: hydrate_def hydrate_http_def hydrated_request_def Let_def split: option.splits if_splits bind_splits)
  then have "hw_auth aligned = hw_auth saved" "set (filter special_header (hw_headers saved)) \<subseteq> set (hw_headers aligned)"
    by (auto simp: alignRequestToInterfaceV2_def align_with_def Let_def)
  with s show "hw_auth stored = hw_auth saved" "h \<in> set (hw_headers saved) \<Longrightarrow> special_header h \<Longrightarrow> h \<in> set (hw_headers stored)"
    by (auto simp: with_meta_def)
qed

section \<open>Cases and the structure of their interface\<close>

lemma map_of_set_prop: "k \<noteq> ''__proto__'' \<Longrightarrow> map_of (set_prop key v ps) k = (if k = key then Some v else map_of ps k)"
  by (simp add: set_prop_def)

lemma sanitize_lookup:
  assumes "\<not> isSensitiveJsonKey k" "k \<noteq> ''__proto__''" "distinct (map fst ps)"
  shows "map_of (entries (sanitizeMetadataValue (JObj ps) None)) k = map_option (\<lambda>v. sanitizeMetadataValue v (Some k)) (map_of ps k)"
proof -
  let ?f = "\<lambda>acc (key, nested). if \<not> isSensitiveJsonKey key then set_prop key (sanitizeMetadataValue nested (Some key)) acc else acc"
  have "map_of (foldl ?f acc ps) k = (case map_of ps k of None \<Rightarrow> map_of acc k | Some v \<Rightarrow> Some (sanitizeMetadataValue v (Some k)))" for acc
    using assms(3)
  proof (induction ps arbitrary: acc)
    case (Cons p ps)
    obtain key nested where p: "p = (key, nested)" by (cases p)
    have "map_of ps key = None" using Cons.prems p by (simp add: map_of_eq_None_iff)
    with Cons p assms(1,2) show ?case by (auto simp: map_of_set_prop split: option.split)
  qed simp
  from this [of "[]"] show ?thesis by (simp split: option.split)
qed

lemma plain_keys: "\<not> isSensitiveJsonKey ''version''" "\<not> isSensitiveJsonKey ''method''" "\<not> isSensitiveJsonKey ''path''"
  "\<not> isSensitiveJsonKey ''fields''" "\<not> isSensitiveJsonKey ''key''" "\<not> isSensitiveJsonKey ''name''" "\<not> isSensitiveJsonKey ''location''"
  "\<not> isSensitiveJsonKey ''type''" "\<not> isSensitiveJsonKey INTERFACE_STRUCTURE_METADATA_KEY" "\<not> headers_key (Some ''fields'')"
  by code_simp+

lemma set_prop_new: "k \<notin> fst ` set ps \<Longrightarrow> k \<noteq> ''__proto__'' \<Longrightarrow> index_key k = None \<Longrightarrow> set_prop k v ps = ps @ [(k, v)]"
  by (simp add: set_prop_def def_prop_def)

lemma named_keys: "index_key ''version'' = None" "index_key ''method'' = None" "index_key ''path'' = None" "index_key ''fields'' = None"
  "index_key ''key'' = None" "index_key ''name'' = None" "index_key ''location'' = None" "index_key ''type'' = None"
  by code_simp+

lemma sanitize_structure: "sanitizeMetadataValue (structure_val st) parent = structure_val st"
  unfolding structure_val_def by (simp add: plain_keys named_keys set_prop_new comp_def)

lemma field_back: "field_of (JObj [(''key'', JStr (f_key f)), (''name'', JStr (f_name f)), (''location'', JStr (location_name (f_location f))),
    (''type'', JStr (type_name (f_type f)))]) = f"
  by (cases f; cases "f_location f"; cases "f_type f") (simp_all add: field_of_def obj_get_def)

lemma structure_back: "structure_of (structure_val st) = st"
  unfolding structure_val_def structure_of_def by (simp add: obj_get_def comp_def field_back)

lemma structure_read:
  assumes "map_of ps INTERFACE_STRUCTURE_METADATA_KEY = Some (structure_val st)"
  shows "stored_structure (Some (JObj ps)) = Some st"
proof -
  have "js_get (structure_val st) ''version'' = JNum (NInt 1)" "is_str (js_get (structure_val st) ''method'')"
    "is_str (js_get (structure_val st) ''path'')" "isArray (js_get (structure_val st) ''fields'')" "is_object (structure_val st)"
    by (simp_all add: structure_val_def obj_get_def is_object_def)
  with assms show ?thesis by (simp add: stored_structure_def readInterfaceStructureMetadata_def obj_get_def structure_back)
qed

lemma case_metadata_keys: "distinct (map fst (case_metadata st s))"
  by (cases "wb_caseType s"; cases "wb_caseSaveResponse s"; cases "hasResponseResult s"; cases "wb_lastRequest s")
    (simp_all add: case_metadata_def actual_request_meta_def INTERFACE_STRUCTURE_METADATA_KEY_def)

lemma case_structure_stored:
  assumes "distinct (map fst (entries md))"
  shows "stored_structure (hw_metadata (sanitizeHttpRequestForPersistence (with_meta (case_metadata st s) (q\<lparr> hw_name := n, hw_metadata := Some md \<rparr>)))) = Some st"
proof -
  let ?ps = "spread (entries md) (case_metadata st s)" and ?K = INTERFACE_STRUCTURE_METADATA_KEY
  have "map_of ?ps ?K = Some (structure_val st)"
    using map_of_spread [OF case_metadata_keys, of "entries md" st s] by (simp add: case_metadata_def)
  moreover have "distinct (map fst ?ps)" using assms by (rule distinct_spread)
  moreover have "?K \<noteq> ''__proto__''" by (simp add: INTERFACE_STRUCTURE_METADATA_KEY_def)
  ultimately have "map_of (entries (sanitizeMetadataValue (JObj ?ps) None)) ?K = Some (structure_val st)"
    using sanitize_lookup [OF plain_keys(9)] by (simp add: sanitize_structure del: sanitizeMetadataValue.simps)
  moreover obtain qs where "sanitizeMetadataValue (JObj ?ps) None = JObj qs" by simp
  ultimately show ?thesis
    using structure_read [of qs st] by (simp add: sanitizeHttpRequestForPersistence_def with_meta_def del: sanitizeMetadataValue.simps)
qed

lemma saved_case_request:
  assumes "saveAsCase E H s = (t, Some r)" and "buildRequest E s = Some q" and "distinct (map fst (entries (wb_requestMetadata s)))"
  obtains st where "captureHttpInterfaceStructureV2 (we_url E) q = Some st" "stored_structure (hw_metadata r) = Some st"
    "captureHttpInterfaceStructureV2 (we_url E) r
       = captureHttpInterfaceStructureV2 (we_url E) (q\<lparr> hw_headers := filter (\<lambda>(name, _). \<not> isSensitiveHeaderName name) (hw_headers q) \<rparr>)"
proof -
  obtain st where st: "captureHttpInterfaceStructureV2 (we_url E) q = Some st"
    and r: "r = sanitizeHttpRequestForPersistence (with_meta (case_metadata st s) (q\<lparr> hw_name := Some (trim (wb_caseName s)) \<rparr>))"
    using assms(1,2) by (auto simp: saveAsCase_def Let_def split: if_splits option.splits prod.splits)
  have md: "hw_metadata q = Some (request_metadata s)" using assms(2) by (auto simp: buildRequest_def bind_eq_Some_conv)
  have "distinct (map fst (entries (request_metadata s)))" using distinct_spread [OF assms(3)] by (simp add: request_metadata_def)
  moreover have "q\<lparr> hw_name := n \<rparr> = q\<lparr> hw_name := n, hw_metadata := Some (request_metadata s) \<rparr>" for n using md by (cases q) simp
  ultimately have "stored_structure (hw_metadata r) = Some st" unfolding r using case_structure_stored by metis
  moreover have "captureHttpInterfaceStructureV2 (we_url E) r
      = captureHttpInterfaceStructureV2 (we_url E) (q\<lparr> hw_headers := filter (\<lambda>(name, _). \<not> isSensitiveHeaderName name) (hw_headers q) \<rparr>)"
    by (simp add: r captureHttpInterfaceStructureV2_def capture_with_def sanitizeHttpRequestForPersistence_def with_meta_def)
  ultimately show thesis using st that by blast
qed

text \<open>C36: a case that is saved without sensitive headers carries the structure its own request has, so that it is in step with its
  interface when it is opened.\<close>

theorem saved_case_in_step:
  assumes "saveAsCase E H s = (t, Some r)" and "buildRequest E s = Some q"
    and "list_all (\<lambda>(name, v). \<not> isSensitiveHeaderName name) (hw_headers q)"
    and "distinct (map fst (entries (wb_requestMetadata s)))"
  shows "stored_structure (hw_metadata r) = captureHttpInterfaceStructureV2 (we_url E) r"
proof -
  have "filter (\<lambda>(name, _). \<not> isSensitiveHeaderName name) (hw_headers q) = hw_headers q"
    using assms(3) by (auto simp: list_all_iff filter_id_conv)
  then have "q\<lparr> hw_headers := filter (\<lambda>(name, _). \<not> isSensitiveHeaderName name) (hw_headers q) \<rparr> = q" by (cases q) simp
  with saved_case_request [OF assms(1,2,4)] show ?thesis by metis
qed

definition sample_host :: wb_host where
  "sample_host = \<lparr> ho_putSecret = None, ho_send = (\<lambda>r. ([], Inl ''offline'')), ho_listHistory = None, ho_cancel = None, ho_save = None,
     ho_saveAsCase = Some (\<lambda>r. None), ho_updateInterface = None, ho_buildError = ''invalid'', ho_wallMs = 1 \<rparr>"

definition sample_case :: workbench where
  "sample_case = (initial_workbench form_env (\<lambda>g i. ''u''))\<lparr> wb_url := ''http://h/a'', wb_caseName := ''c'' \<rparr>"

lemma sample_case_fields:
  "wb_bodyMode sample_case = MNone" "wb_preScriptAssetIds sample_case = []" "wb_postScriptAssetIds sample_case = []"
  "wb_headerRows sample_case = [header_row ''u'' [] []]" "wb_cookieRows sample_case = [query_row ''u'' [] []]"
  by (simp_all add: sample_case_def initial_workbench_def)

lemma sample_case_built: "\<exists>q. buildRequest form_env sample_case = Some q \<and> hw_headers q = []"
proof -
  have "resolveAssets (we_transpile form_env) (we_browser form_env) [] = Some []" by (rule sample_stored_parts(9))
  then show ?thesis
    by (simp add: buildRequest_def sample_case_fields encoded_body_def request_body_def body_source_def
        request_headers_def cookie_header_def createHeaderRow_def createQueryRow_def Let_def)
qed

lemma sample_case_saved: "\<exists>t r. saveAsCase form_env sample_host sample_case = (t, Some r)"
proof -
  obtain q where q: "buildRequest form_env sample_case = Some q" using sample_case_built by blast
  have "captureHttpInterfaceStructureV2 (we_url form_env) q \<noteq> None"
    by (simp add: captureHttpInterfaceStructureV2_def capture_with_def form_env_def)
  moreover have "trim (wb_caseName sample_case) \<noteq> []" "\<not> wb_caseSaving sample_case"
    by (simp_all add: sample_case_def initial_workbench_def trim_def trimStart_def trimEnd_def js_ws_def code_def)
  ultimately show ?thesis using q by (auto simp: saveAsCase_def sample_host_def Let_def)
qed

theorem saved_case_in_step_witness:
  "stored_structure (hw_metadata (the (snd (saveAsCase form_env sample_host sample_case))))
    = captureHttpInterfaceStructureV2 (we_url form_env) (the (snd (saveAsCase form_env sample_host sample_case)))"
proof -
  obtain t r where r: "saveAsCase form_env sample_host sample_case = (t, Some r)" using sample_case_saved by blast
  obtain q where q: "buildRequest form_env sample_case = Some q" "hw_headers q = []" using sample_case_built by blast
  have "distinct (map fst (entries (wb_requestMetadata sample_case)))" by (simp add: sample_case_def initial_workbench_def)
  with saved_case_in_step [OF r q(1)] q(2) r show ?thesis by simp
qed

text \<open>With a sensitive header the structure is taken before the header is removed: the stored case differs from its structure.\<close>

lemma sensitive_header_out_of_step:
  assumes "saveAsCase E H s = (t, Some r)" and "buildRequest E s = Some q" and "distinct (map fst (entries (wb_requestMetadata s)))"
    and "hw_headers q = [(''X-Api-Key'', v)]"
  shows "stored_structure (hw_metadata r) \<noteq> captureHttpInterfaceStructureV2 (we_url E) r"
proof -
  obtain st where st: "captureHttpInterfaceStructureV2 (we_url E) q = Some st" "stored_structure (hw_metadata r) = Some st"
    "captureHttpInterfaceStructureV2 (we_url E) r
       = captureHttpInterfaceStructureV2 (we_url E) (q\<lparr> hw_headers := filter (\<lambda>(name, _). \<not> isSensitiveHeaderName name) (hw_headers q) \<rparr>)"
    using saved_case_request [OF assms(1-3)] .
  have "isSensitiveHeaderName ''X-Api-Key''" "trim ''X-Api-Key'' \<noteq> []" "toLowerCase (trim ''X-Api-Key'') \<notin> set ignoredHeaders" by code_simp+
  then have "header_fields [(''X-Api-Key'', v)] \<noteq> []"
    "filter (\<lambda>(name, _). \<not> isSensitiveHeaderName name) [(''X-Api-Key'', v)] = []" by (simp_all add: header_fields_def)
  moreover have "header_fields [] = []" by (simp add: header_fields_def)
  ultimately show ?thesis using st assms(4)
    by (auto simp: captureHttpInterfaceStructureV2_def capture_with_def)
qed

section \<open>Replaying\<close>

text \<open>A request whose body was Base64 is replayed from the history as a text.\<close>

lemma replay_loses_encoding:
  assumes "re_payload e = PHttp p" "hp_multipart p = []" "hp_bodyEncoding p = EncBase64" "hp_headers p = [(''Content-Type'', ''application/octet-stream'')]"
    and "hp_body p = Some ''AAAA''"
  shows "map_option body_mode_of (httpRequestFromEnvelope e) = Some (if hp_bodySource p = None then MBinary else body_mode_of (the (httpRequestFromEnvelope e)))"
    "map_option body_mode_of (replayed_request e) = Some MText"
proof -
  have parse: "JSON_parse ''AAAA'' = None" by code_simp
  have types: "toLowerCase ''Content-Type'' = ''content-type''" "toLowerCase ''application/octet-stream'' = ''application/octet-stream''"
    "\<not> str_includes ''application/octet-stream'' ''x-www-form-urlencoded''" "\<not> str_includes ''application/octet-stream'' ''graphql''"
    "\<not> str_includes ''application/octet-stream'' ''msgpack''" "\<not> str_includes ''application/octet-stream'' ''json''"
    "\<not> str_includes ''application/octet-stream'' ''xml''" by code_simp+
  show "map_option body_mode_of (httpRequestFromEnvelope e) = Some (if hp_bodySource p = None then MBinary else body_mode_of (the (httpRequestFromEnvelope e)))"
    using assms parse types
    by (simp add: httpRequestFromEnvelope_def body_mode_of_def Let_def content_type_of_def structured_source_def graphql_source_def rpc_source_def)
  show "map_option body_mode_of (replayed_request e) = Some MText"
    using assms parse types
    by (simp add: replayed_request_def httpRequestFromEnvelope_def body_mode_of_def Let_def content_type_of_def structured_source_def
        graphql_source_def rpc_source_def)
qed

section \<open>Authorization\<close>

lemma b64_text_block: "length bs mod 3 = 0 \<Longrightarrow> b64_pad bs = [] \<and> length (b64_core bs) = 4 * (length bs div 3)"
proof (induction bs rule: b64_core.induct)
  case (4 a b c r)
  then have "length r mod 3 = 0" by simp
  moreover have "(3 + length r) div 3 = Suc (length r div 3)" by (simp add: div_add_self1)
  ultimately show ?case using 4 by simp
qed simp_all

lemma base64_url_block:
  assumes "octet bs" "length bs mod 3 = 0"
  shows "length (base64_url bs) = 4 * (length bs div 3)
    \<and> list_all (\<lambda>c. is_alpha c \<or> is_digit c \<or> c = CHR ''-'' \<or> c = CHR ''_'') (base64_url bs)"
proof -
  let ?core = "map b64_char (b64_core bs)"
  define sub where "sub = (\<lambda>c. if c = CHR ''+'' then CHR ''-'' else if c = CHR ''/'' then CHR ''_'' else c)"
  have "map (code \<circ> char_of) bs = bs" using assms(1) by (induction bs) auto
  then have "btoa (map char_of bs) = ?core" using b64_text_block [OF assms(2)] by (simp add: btoa_def b64_text_core)
  moreover have "replace_char (CHR ''/'') ''_'' (replace_char (CHR ''+'') ''-'' xs) = map sub xs" for xs
    by (induction xs) (auto simp: replace_char_def sub_def)
  ultimately have url: "base64_url bs = rev (dropWhile (\<lambda>c. c = CHR ''='') (rev (map sub ?core)))" by (simp add: base64_url_def)
  have chars: "is_alpha (sub (b64_char n)) \<or> is_digit (sub (b64_char n)) \<or> sub (b64_char n) = CHR ''-'' \<or> sub (b64_char n) = CHR ''_''"
    "sub (b64_char n) \<noteq> CHR ''=''" if "n < 64" for n using b64_char_plain(3,4) [OF that] by (auto simp: sub_def)
  have small: "n < 64" if "n \<in> set (b64_core bs)" for n using b64_core_small [OF assms(1)] that by (simp add: list_all_iff)
  have "dropWhile (\<lambda>c. c = CHR ''='') (rev (map sub ?core)) = rev (map sub ?core)"
    using chars(2) small by (cases "b64_core bs" rule: rev_cases) auto
  then have "base64_url bs = map sub ?core" using url by simp
  then show ?thesis using b64_text_block [OF assms(2)] chars(1) small by (simp add: list_all_iff)
qed

text \<open>The verifier of an authorization with PKCE is 64 characters of the URL-safe alphabet, within the 43 to 128 of RFC 7636; the
  page opens only after the verifier was stored under the reference the request names.\<close>

theorem pkce_verifier_stored:
  assumes "octet (pk_random K)" and "length (pk_random K) = 48"
  shows "case startPkceAuthorization K put s of (t, stored, page) \<Rightarrow>
     (case stored of
        None \<Rightarrow> page = None
      | Some (ref, verifier) \<Rightarrow> ref = wb_oauthVerifierRef s \<and> length verifier = 64
          \<and> list_all (\<lambda>c. is_alpha c \<or> is_digit c \<or> c = CHR ''-'' \<or> c = CHR ''_'') verifier
          \<and> (page = None \<or> the put ref verifier = None))"
  using base64_url_block [OF assms(1)] assms(2)
  by (auto simp: startPkceAuthorization_def Let_def split: option.split)

theorem pkce_verifier_stored_witness:
  "case startPkceAuthorization \<lparr> pk_random = replicate 48 7, pk_sha256 = id, pk_authorize = (\<lambda>u ps. Some u) \<rparr> (Some (\<lambda>r v. None))
      (sample_case\<lparr> wb_oauthAuthorizationUrl := ''http://a'', wb_authUsername := ''me'' \<rparr>) of (t, stored, page) \<Rightarrow>
     (case stored of
        None \<Rightarrow> page = None
      | Some (ref, verifier) \<Rightarrow> ref = wb_oauthVerifierRef (sample_case\<lparr> wb_oauthAuthorizationUrl := ''http://a'', wb_authUsername := ''me'' \<rparr>)
          \<and> length verifier = 64 \<and> list_all (\<lambda>c. is_alpha c \<or> is_digit c \<or> c = CHR ''-'' \<or> c = CHR ''_'') verifier
          \<and> (page = None \<or> the (Some (\<lambda>r v. None :: string option)) ref verifier = None))"
  by (rule pkce_verifier_stored) (simp_all add: octet_def list_all_iff)

end
