(* ===== verification/ParentLinks.thy ===== *)
theory ParentLinks imports Prelude "HOL-Library.Sublist" begin

text \<open>
  Trees that are stored flat, every node naming its parent: the recursive functions of the program follow the links
  without looking for cycles. Along acyclic links the nested calls are at most as many as there are nodes.
\<close>

definition links :: "('a \<Rightarrow> string) \<Rightarrow> ('a \<Rightarrow> string option) \<Rightarrow> 'a list \<Rightarrow> (string \<times> string) set" where
  "links ident parent nodes = {(p, i). \<exists>x \<in> set nodes. parent x = Some p \<and> ident x = i}"

lemma links_Cons: "links ident parent (x # xs) =
    (case parent x of None \<Rightarrow> {} | Some p \<Rightarrow> {(p, ident x)}) \<union> links ident parent xs"
  by (auto simp: links_def split: option.split)

lemma links_append: "links ident parent (xs @ ys) = links ident parent xs \<union> links ident parent ys"
  by (auto simp: links_def)

lemma links_mono: "set xs \<subseteq> set ys \<Longrightarrow> links ident parent xs \<subseteq> links ident parent ys"
  by (auto simp: links_def)

lemma links_map: "(\<And>x. x \<in> set xs \<Longrightarrow> ident (f x) = ident x \<and> parent (f x) = parent x) \<Longrightarrow>
    links ident parent (map f xs) = links ident parent xs"
  by (auto simp: links_def)

lemma links_image: "snd ` links ident parent nodes \<subseteq> ident ` set nodes"
  by (auto simp: links_def)

lemma finite_links [simp]: "finite (links ident parent nodes)"
proof -
  have "links ident parent nodes \<subseteq> (\<lambda>x. (the (parent x), ident x)) ` set nodes" by (force simp: links_def image_iff)
  then show ?thesis by (rule finite_subset) simp
qed

text \<open>A new leaf closes no cycle.\<close>

lemma acyclic_new_leaf:
  assumes "acyclic r" and "i \<noteq> p" and "i \<notin> fst ` r"
  shows "acyclic (insert (p, i) r)"
proof -
  have "(i, p) \<notin> r\<^sup>*"
  proof
    assume "(i, p) \<in> r\<^sup>*"
    with assms(2) obtain z where "(i, z) \<in> r" by (auto elim: converse_rtranclE)
    with assms(3) show False by force
  qed
  with assms(1) show ?thesis by (simp add: acyclic_insert)
qed

text \<open>The nodes above one another, the innermost first.\<close>

inductive lineage :: "(string \<times> string) set \<Rightarrow> string list \<Rightarrow> bool" for r where
  top: "lineage r [i]"
| below: "lineage r (p # is) \<Longrightarrow> (p, i) \<in> r \<Longrightarrow> lineage r (i # p # is)"

lemma lineage_above: "lineage r (i # is) \<Longrightarrow> j \<in> set is \<Longrightarrow> (j, i) \<in> r\<^sup>+"
proof (induction "i # is" arbitrary: i "is" rule: lineage.induct)
  case (below p ps i)
  show ?case
  proof (cases "j = p")
    case True
    then show ?thesis using below.hyps(3) by blast
  next
    case False
    then have "(j, p) \<in> r\<^sup>+" using below by simp
    then show ?thesis using below.hyps(3) by simp
  qed
qed simp

lemma lineage_distinct: "lineage r is \<Longrightarrow> acyclic r \<Longrightarrow> distinct is"
proof (induction rule: lineage.induct)
  case (below p ps i)
  then have "lineage r (i # p # ps)" by (blast intro: lineage.below)
  then have "j \<noteq> i" if "j \<in> set (p # ps)" for j
    using lineage_above [of r i "p # ps" j] that below.prems by (auto simp: acyclic_def)
  then have "i \<notin> set (p # ps)" by blast
  with below show ?case by simp
qed simp

lemma lineage_inside: "lineage r is \<Longrightarrow> snd ` r \<subseteq> A \<Longrightarrow> last is \<in> A \<Longrightarrow> set is \<subseteq> A"
proof (induction rule: lineage.induct)
  case (below p ps i)
  from below.hyps(2) have "i \<in> snd ` r" by force
  with below show ?case by auto
qed simp

lemma lineage_bound:
  assumes "lineage r (i # is)" and "acyclic r" and "snd ` r \<subseteq> ident ` set nodes" and "last (i # is) \<in> ident ` set nodes"
  shows "length (i # is) \<le> length nodes"
proof -
  have "length (i # is) = card (set (i # is))"
    using distinct_card [OF lineage_distinct [OF assms(1,2)]] by simp
  also have "\<dots> \<le> card (ident ` set nodes)"
    using card_mono [OF _ lineage_inside [OF assms(1,3,4)]] by simp
  also have "\<dots> \<le> length nodes"
    using card_image_le [of "set nodes" ident] card_length [of nodes] by simp
  finally show ?thesis .
qed

section \<open>Descendants\<close>

definition descendants :: "('a \<Rightarrow> string) \<Rightarrow> ('a \<Rightarrow> string option) \<Rightarrow> 'a list \<Rightarrow> string \<Rightarrow> string set" where
  "descendants ident parent nodes i = {j. (i, j) \<in> (links ident parent nodes)\<^sup>+}"

lemma descendants_child: "x \<in> set nodes \<Longrightarrow> parent x = Some i \<Longrightarrow> ident x \<in> descendants ident parent nodes i"
  by (auto simp: descendants_def links_def)

lemma descendants_step:
  "p \<in> descendants ident parent nodes i \<Longrightarrow> x \<in> set nodes \<Longrightarrow> parent x = Some p \<Longrightarrow> ident x \<in> descendants ident parent nodes i"
  unfolding descendants_def mem_Collect_eq by (rule trancl_into_trancl) (auto simp: links_def)

text \<open>The least set with the children of \<open>i\<close> and of its own members.\<close>

lemma descendants_least:
  assumes "\<And>x. x \<in> set nodes \<Longrightarrow> parent x = Some i \<Longrightarrow> ident x \<in> S"
    and "\<And>x p. x \<in> set nodes \<Longrightarrow> parent x = Some p \<Longrightarrow> p \<in> S \<Longrightarrow> ident x \<in> S"
  shows "descendants ident parent nodes i \<subseteq> S"
proof
  fix j assume "j \<in> descendants ident parent nodes i"
  then have "(i, j) \<in> (links ident parent nodes)\<^sup>+" by (simp add: descendants_def)
  then show "j \<in> S" by (induction rule: trancl_induct) (use assms in \<open>auto simp: links_def\<close>)
qed

end
