(* ===== verification/DesignFields.thy ===== *)
theory DesignFields imports ParentLinks Stores ResponseValidation begin

text \<open>
  The design of an interface (\<^verbatim>\<open>packages/ui/src/InterfaceLifecycle.tsx\<close>): the fields and the responses of a definition and
  the edits of the visual editor. Fields are stored flat and name their parent. The scope of a field is text: a stored
  definition may hold any, and the code only compares it. Random identifiers are arguments (\<open>fresh\<close>, \<open>uuid 0\<close>,
  \<open>uuid 1\<close> and so on); the two texts in the language of the interface are the record \<open>design_texts\<close>.
\<close>

section \<open>Fields and responses\<close>

type_synonym DefinitionScope = string

record DefinitionField =
  df_id :: string
  df_name :: string
  df_type :: string
  df_required :: bool
  df_description :: string
  df_example :: "string option"
  df_parentId :: "string option"
  df_scope :: DefinitionScope
  df_status :: "string option"
  df_responseId :: "string option"

datatype reference_mode = Linked | Detached

record ResponseDefinition =
  rd_id :: string
  rd_name :: string
  rd_statusCode :: string
  rd_bodyType :: ResponseBodyType
  rd_contentType :: string
  rd_componentId :: "string option"
  rd_referenceMode :: "reference_mode option"

record design_texts =
  dt_success :: string
  dt_unnamed :: string

datatype definition_area = AreaRequest | AreaResponse

definition definitionAreaCount :: "definition_area \<Rightarrow> DefinitionField list \<Rightarrow> ResponseDefinition list \<Rightarrow> nat" where
  "definitionAreaCount area flds responses =
     (case area of
        AreaResponse \<Rightarrow> length responses
      | AreaRequest \<Rightarrow> length (filter (\<lambda>f. startsWith (df_scope f) ''request.'') flds))"

definition defaultResponseDefinition :: "design_texts \<Rightarrow> string \<Rightarrow> string \<Rightarrow> ResponseDefinition" where
  "defaultResponseDefinition D fresh statusCode =
     \<lparr> rd_id = fresh, rd_name = (if startsWith statusCode ''2'' then dt_success D else dt_unnamed D), rd_statusCode = statusCode,
       rd_bodyType = BJson, rd_contentType = ''application/json'', rd_componentId = None, rd_referenceMode = None \<rparr>"

definition definitionScopeSupportsChildren :: "DefinitionScope \<Rightarrow> bool" where
  "definitionScopeSupportsChildren scope = (scope = ''request.body'' \<or> scope = ''response.body'')"

definition is_response_scope :: "DefinitionScope \<Rightarrow> bool" where
  "is_response_scope scope = startsWith scope ''response.''"

text \<open>\<^verbatim>\<open>field.status || "200"\<close>, and whether a field belongs to a response.\<close>

definition status_of :: "DefinitionField \<Rightarrow> string" where
  "status_of f = (if or_default (df_status f) [] = [] then ''200'' else the (df_status f))"

definition in_response :: "string option \<Rightarrow> string \<Rightarrow> DefinitionField \<Rightarrow> bool" where
  "in_response responseId status f =
     (if or_default (df_responseId f) [] \<noteq> [] then df_responseId f = responseId else status_of f = status)"

section \<open>Descendants of a field\<close>

text \<open>The search of \<^verbatim>\<open>changeDefinitionFieldType\<close>: a stack of parents whose children are still to be found. The set of
  identifiers is the list in the order of insertion; the top of the stack comes first.\<close>

fun collect_children :: "string \<Rightarrow> DefinitionField list \<Rightarrow> string list \<times> string list \<Rightarrow> string list \<times> string list" where
  "collect_children p [] st = st"
| "collect_children p (f # fs) (ids, pending) =
     (if df_parentId f = Some p \<and> df_id f \<notin> set ids then collect_children p fs (ids @ [df_id f], df_id f # pending)
      else collect_children p fs (ids, pending))"

lemma collect_children_new:
  "collect_children p fs (ids, pending) = (ids', pending') \<Longrightarrow>
     \<exists>new. ids' = ids @ new \<and> pending' = rev new @ pending \<and> distinct new \<and> set new \<inter> set ids = {}
       \<and> set new \<subseteq> df_id ` set fs"
proof (induction p fs "(ids, pending)" arbitrary: ids pending rule: collect_children.induct)
  case (2 p f fs ids pending)
  show ?case
  proof (cases "df_parentId f = Some p \<and> df_id f \<notin> set ids")
    case True
    from 2(1) [OF True] 2(3) True obtain new where "ids' = (ids @ [df_id f]) @ new" "pending' = rev new @ df_id f # pending"
      "distinct new" "set new \<inter> set (ids @ [df_id f]) = {}" "set new \<subseteq> df_id ` set fs" by auto
    then show ?thesis using True by (intro exI [of _ "df_id f # new"]) auto
  next
    case False
    from 2(2) [OF False] 2(3) False obtain new where "ids' = ids @ new" "pending' = rev new @ pending"
      "distinct new" "set new \<inter> set ids = {}" "set new \<subseteq> df_id ` set fs" by (auto split: if_splits)
    then show ?thesis by (intro exI [of _ new]) auto
  qed
qed simp

function pending_loop :: "DefinitionField list \<Rightarrow> string list \<times> string list \<Rightarrow> string list" where
  "pending_loop flds (ids, []) = ids"
| "pending_loop flds (ids, p # pending) = pending_loop flds (collect_children p flds (ids, pending))"
  by pat_completeness auto

termination
proof (relation "inv_image (less_than <*lex*> less_than)
    (\<lambda>(flds, ids, pending). (card (df_id ` set flds - set ids), length pending))")
  fix flds ids p pending
  obtain ids' pending' where c: "collect_children p flds (ids, pending) = (ids', pending')" by fastforce
  then obtain new where new: "ids' = ids @ new" "pending' = rev new @ pending" "set new \<inter> set ids = {}"
    "set new \<subseteq> df_id ` set flds" using collect_children_new [OF c] by blast
  have "card (df_id ` set flds - set ids') < card (df_id ` set flds - set ids)" if "new \<noteq> []"
    by (rule psubset_card_mono) (use new that in \<open>auto simp: neq_Nil_conv\<close>)
  then show "((flds, collect_children p flds (ids, pending)), (flds, ids, p # pending))
      \<in> inv_image (less_than <*lex*> less_than) (\<lambda>(flds, ids, pending). (card (df_id ` set flds - set ids), length pending))"
    using c new by (cases "new = []") auto
qed (simp add: wf_inv_image wf_lex_prod)

definition field_descendants :: "DefinitionField list \<Rightarrow> string \<Rightarrow> string list" where
  "field_descendants flds i = pending_loop flds ([], [i])"

text \<open>The search of the visual editor: sweeps over the fields until nothing changes; the start belongs to the set.\<close>

fun sweep :: "DefinitionField list \<Rightarrow> string list \<times> bool \<Rightarrow> string list \<times> bool" where
  "sweep [] st = st"
| "sweep (f # fs) (ids, changed) =
     (if or_default (df_parentId f) [] \<noteq> [] \<and> the (df_parentId f) \<in> set ids \<and> df_id f \<notin> set ids
      then sweep fs (ids @ [df_id f], True) else sweep fs (ids, changed))"

lemma sweep_new:
  "sweep fs (ids, changed) = (ids', changed') \<Longrightarrow>
     \<exists>new. ids' = ids @ new \<and> set new \<inter> set ids = {} \<and> set new \<subseteq> df_id ` set fs \<and> changed' = (changed \<or> new \<noteq> [])"
proof (induction fs "(ids, changed)" arbitrary: ids changed rule: sweep.induct)
  case (2 f fs ids changed)
  let ?hit = "or_default (df_parentId f) [] \<noteq> [] \<and> the (df_parentId f) \<in> set ids \<and> df_id f \<notin> set ids"
  show ?case
  proof (cases ?hit)
    case True
    then have "sweep fs (ids @ [df_id f], True) = (ids', changed')" using 2(3) by (simp only: sweep.simps if_True simp_thms)
    from 2(1) [OF True this] obtain new where "ids' = (ids @ [df_id f]) @ new" "set new \<inter> set (ids @ [df_id f]) = {}"
      "set new \<subseteq> df_id ` set fs" "changed'" by blast
    then show ?thesis using True by (intro exI [of _ "df_id f # new"]) auto
  next
    case False
    then have "sweep fs (ids, changed) = (ids', changed')" using 2(3) by (simp only: sweep.simps if_False)
    from 2(2) [OF False this] show ?thesis by auto
  qed
qed simp

function sweep_loop :: "DefinitionField list \<Rightarrow> string list \<Rightarrow> string list" where
  "sweep_loop flds ids =
     (case sweep flds (ids, False) of (ids', changed) \<Rightarrow> if changed then sweep_loop flds ids' else ids')"
  by auto

termination
proof (relation "measure (\<lambda>(flds, ids). card (df_id ` set flds - set ids))", goal_cases)
  case (2 flds ids ids' changed)
  then obtain new where new: "ids' = ids @ new" "set new \<inter> set ids = {}" "set new \<subseteq> df_id ` set flds" "new \<noteq> []"
    using sweep_new [of flds ids False ids' changed] by auto
  have "card (df_id ` set flds - set ids') < card (df_id ` set flds - set ids)"
    by (rule psubset_card_mono) (use new in \<open>auto simp: neq_Nil_conv\<close>)
  then show ?case by simp
qed simp

declare sweep_loop.simps [simp del]

definition descendantsOf :: "DefinitionField list \<Rightarrow> string \<Rightarrow> string list" where
  "descendantsOf flds i = sweep_loop flds [i]"

section \<open>Changing the type of a field\<close>

definition items_field :: "string \<Rightarrow> DefinitionField \<Rightarrow> DefinitionField" where
  "items_field fresh target =
     \<lparr> df_id = fresh, df_name = ''items'', df_type = ''string'', df_required = False, df_description = [], df_example = Some [],
       df_parentId = Some (df_id target), df_scope = df_scope target, df_status = df_status target, df_responseId = None \<rparr>"

definition set_type :: "string \<Rightarrow> string \<Rightarrow> DefinitionField list \<Rightarrow> DefinitionField list" where
  "set_type i t flds = map (\<lambda>f. if df_id f = i then f\<lparr> df_type := t \<rparr> else f) flds"

definition set_name :: "string \<Rightarrow> string \<Rightarrow> DefinitionField list \<Rightarrow> DefinitionField list" where
  "set_name i n flds = map (\<lambda>f. if df_id f = i then f\<lparr> df_name := n \<rparr> else f) flds"

definition without :: "string list \<Rightarrow> DefinitionField list \<Rightarrow> DefinitionField list" where
  "without removed flds = filter (\<lambda>f. df_id f \<notin> set removed) flds"

definition field_children :: "DefinitionField list \<Rightarrow> string \<Rightarrow> DefinitionField list" where
  "field_children flds i = filter (\<lambda>f. df_parentId f = Some i) flds"

definition changeDefinitionFieldType :: "string \<Rightarrow> DefinitionField list \<Rightarrow> string \<Rightarrow> string \<Rightarrow> DefinitionField list" where
  "changeDefinitionFieldType fresh flds fieldId t =
     (case find (\<lambda>f. df_id f = fieldId) flds of
        None \<Rightarrow> flds
      | Some target \<Rightarrow>
          (let retyped = set_type fieldId t flds in
           if \<not> definitionScopeSupportsChildren (df_scope target) then without (field_descendants flds fieldId) retyped
           else if t = ''array'' then
             (case field_children flds fieldId of
                [] \<Rightarrow> retyped @ [items_field fresh target]
              | item # extraChildren \<Rightarrow>
                  set_name (df_id item) ''items''
                    (without (concat (map (\<lambda>c. df_id c # field_descendants flds (df_id c)) extraChildren)) retyped))
           else if t \<noteq> ''object'' then without (field_descendants flds fieldId) retyped
           else retyped))"

section \<open>The visual editor\<close>

datatype editor_area = EdRequest | EdResponse | EdSecurity

text \<open>The fields and responses belong to the panel that holds the editor; the rest is the editor's own state.\<close>

record visual_editor =
  ve_fields :: "DefinitionField list"
  ve_responses :: "ResponseDefinition list"
  ve_area :: editor_area
  ve_requestPart :: string
  ve_responsePart :: string
  ve_selectedResponseId :: string
  ve_draftFieldId :: string

definition selectedResponse :: "visual_editor \<Rightarrow> ResponseDefinition option" where
  "selectedResponse s =
     (case find (\<lambda>r. rd_id r = ve_selectedResponseId s) (ve_responses s) of
        Some r \<Rightarrow> Some r
      | None \<Rightarrow> (case ve_responses s of [] \<Rightarrow> None | r # _ \<Rightarrow> Some r))"

definition selected_status :: "visual_editor \<Rightarrow> string" where
  "selected_status s = (case selectedResponse s of None \<Rightarrow> ''200'' | Some r \<Rightarrow> rd_statusCode r)"

definition editor_scope :: "visual_editor \<Rightarrow> DefinitionScope" where
  "editor_scope s =
     (if ve_area s = EdResponse then ''response.'' @ ve_responsePart s else ''request.'' @ ve_requestPart s)"

text \<open>The selection follows the responses.\<close>

definition reselect :: "visual_editor \<Rightarrow> visual_editor" where
  "reselect s =
     (if list_ex (\<lambda>r. rd_id r = ve_selectedResponseId s) (ve_responses s) then s
      else s\<lparr> ve_selectedResponseId := (case ve_responses s of [] \<Rightarrow> [] | r # _ \<Rightarrow> rd_id r) \<rparr>)"

datatype field_patch = PName string | PType string | PExample string | PRequired bool | PDescription string

fun apply_field_patch :: "field_patch \<Rightarrow> DefinitionField \<Rightarrow> DefinitionField" where
  "apply_field_patch (PName n) f = f\<lparr> df_name := n \<rparr>"
| "apply_field_patch (PType t) f = f\<lparr> df_type := t \<rparr>"
| "apply_field_patch (PExample e) f = f\<lparr> df_example := Some e \<rparr>"
| "apply_field_patch (PRequired b) f = f\<lparr> df_required := b \<rparr>"
| "apply_field_patch (PDescription d) f = f\<lparr> df_description := d \<rparr>"

definition draft_field :: "visual_editor \<Rightarrow> DefinitionField" where
  "draft_field s =
     (let response = (ve_area s = EdResponse) in
      \<lparr> df_id = ve_draftFieldId s, df_name = [], df_type = ''string'', df_required = False, df_description = [], df_example = Some [],
        df_parentId = None, df_scope = editor_scope s, df_status = (if response then Some (selected_status s) else None),
        df_responseId = (if response then map_option rd_id (selectedResponse s) else None) \<rparr>)"

definition update_field :: "string \<Rightarrow> string \<Rightarrow> field_patch \<Rightarrow> visual_editor \<Rightarrow> visual_editor" where
  "update_field fresh i patch s =
     (if i = ve_draftFieldId s
      then s\<lparr> ve_draftFieldId := fresh, ve_fields := ve_fields s @ [apply_field_patch patch (draft_field s)] \<rparr>
      else s\<lparr> ve_fields := map (\<lambda>f. if df_id f = i then apply_field_patch patch f else f) (ve_fields s) \<rparr>)"

definition retype_field :: "string \<Rightarrow> string \<Rightarrow> string \<Rightarrow> visual_editor \<Rightarrow> visual_editor" where
  "retype_field fresh i t s =
     (if i = ve_draftFieldId s then update_field fresh i (PType t) s
      else s\<lparr> ve_fields := changeDefinitionFieldType fresh (ve_fields s) i t \<rparr>)"

definition isArrayItemsField :: "DefinitionField list \<Rightarrow> DefinitionField \<Rightarrow> bool" where
  "isArrayItemsField flds f =
     (or_default (df_parentId f) [] \<noteq> [] \<and> list_ex (\<lambda>p. Some (df_id p) = df_parentId f \<and> df_type p = ''array'') flds)"

definition child_field :: "string \<Rightarrow> DefinitionField \<Rightarrow> DefinitionField" where
  "child_field fresh parent =
     \<lparr> df_id = fresh, df_name = [], df_type = ''string'', df_required = False, df_description = [], df_example = Some [],
       df_parentId = Some (df_id parent), df_scope = df_scope parent, df_status = df_status parent,
       df_responseId = df_responseId parent \<rparr>"

definition addChild :: "string \<Rightarrow> DefinitionField \<Rightarrow> visual_editor \<Rightarrow> visual_editor" where
  "addChild fresh parent s =
     (if \<not> definitionScopeSupportsChildren (df_scope parent) then s
      else s\<lparr> ve_fields := (if df_type parent = ''object'' then ve_fields s else set_type (df_id parent) ''object'' (ve_fields s))
                 @ [child_field fresh parent] \<rparr>)"

definition delete_field :: "DefinitionField \<Rightarrow> visual_editor \<Rightarrow> visual_editor" where
  "delete_field f s = s\<lparr> ve_fields := without (descendantsOf (ve_fields s) (df_id f)) (ve_fields s) \<rparr>"

text \<open>The fields of the part that is shown, and their rows, every field below its parent. A field whose parent is not shown
  stands at the top. The recursion follows the parents and carries fuel; \<open>None\<close> is a recursion that did not end.\<close>

definition scoped :: "visual_editor \<Rightarrow> DefinitionField list" where
  "scoped s =
     (if ve_area s = EdSecurity then []
      else filter (\<lambda>f. df_scope f = editor_scope s
        \<and> (ve_area s \<noteq> EdResponse \<or> in_response (map_option rd_id (selectedResponse s)) (selected_status s) f)) (ve_fields s))"

definition branch_of :: "DefinitionField list \<Rightarrow> string option \<Rightarrow> DefinitionField list" where
  "branch_of shown parentId =
     filter (\<lambda>f. df_parentId f = parentId
        \<or> or_default parentId [] = [] \<and> or_default (df_parentId f) [] \<noteq> [] \<and> \<not> list_ex (\<lambda>g. Some (df_id g) = df_parentId f) shown) shown"

fun appendBranch :: "nat \<Rightarrow> DefinitionField list \<Rightarrow> string option \<Rightarrow> nat \<Rightarrow> (DefinitionField \<times> nat) list option" where
  "appendBranch 0 shown parentId depth = None"
| "appendBranch (Suc n) shown parentId depth =
     map_option concat (those (map (\<lambda>f. map_option ((#) (f, depth)) (appendBranch n shown (Some (df_id f)) (depth + 1)))
       (branch_of shown parentId)))"

definition visible_rows :: "nat \<Rightarrow> visual_editor \<Rightarrow> (DefinitionField \<times> nat) list option" where
  "visible_rows fuel s = appendBranch fuel (scoped s) None 0"

end
