(* ===== verification/DesignEditor.thy ===== *)
theory DesignEditor imports DesignFields begin

text \<open>
  The responses of the visual editor (\<^verbatim>\<open>VisualDefinitionEditor\<close> in \<^verbatim>\<open>packages/ui/src/InterfaceLifecycle.tsx\<close>) and the steps
  a user can take in it. A component is a stored object; its members are read at their declared types, and one that has
  another type counts as absent.
\<close>

section \<open>Reading stored objects at their declared types\<close>

definition text_at :: "jsval \<Rightarrow> string \<Rightarrow> string" where
  "text_at v k = (case js_get v k of JStr s \<Rightarrow> s | _ \<Rightarrow> [])"

definition opt_text_at :: "jsval \<Rightarrow> string \<Rightarrow> string option" where
  "opt_text_at v k = (case js_get v k of JStr s \<Rightarrow> Some s | _ \<Rightarrow> None)"

definition typed_field :: "jsval \<Rightarrow> DefinitionField" where
  "typed_field v =
     \<lparr> df_id = text_at v ''id'', df_name = text_at v ''name'', df_type = text_at v ''type'', df_required = truthy (js_get v ''required''),
       df_description = text_at v ''description'', df_example = opt_text_at v ''example'', df_parentId = opt_text_at v ''parentId'',
       df_scope = text_at v ''scope'', df_status = opt_text_at v ''status'', df_responseId = opt_text_at v ''responseId'' \<rparr>"

section \<open>Responses\<close>

definition typed_component_response :: "string \<Rightarrow> jsval \<Rightarrow> ResponseDefinition" where
  "typed_component_response fresh component =
     \<lparr> rd_id = fresh, rd_name = text_at component ''name'',
       rd_statusCode = (if text_at component ''statusCode'' = [] then ''200'' else text_at component ''statusCode''),
       rd_bodyType = normalizeResponseBodyType (js_get component ''bodyType''), rd_contentType = text_at component ''contentType'',
       rd_componentId = Some (text_at component ''id''), rd_referenceMode = Some Linked \<rparr>"

text \<open>The fields of a component in a response: new identifiers, no parents.\<close>

definition component_fields :: "(nat \<Rightarrow> string) \<Rightarrow> jsval \<Rightarrow> string \<Rightarrow> string \<Rightarrow> DefinitionField list" where
  "component_fields uuid component status responseId =
     map (\<lambda>(i, v). let f = typed_field v in
            f\<lparr> df_id := uuid i, df_parentId := None,
               df_scope := (if startsWith (df_scope f) ''response.'' then df_scope f else ''response.body''),
               df_status := Some status, df_responseId := Some responseId \<rparr>)
       (enumerate 0 (filter is_object (elements (js_get component ''fields''))))"

definition addComponentResponse :: "string \<Rightarrow> (nat \<Rightarrow> string) \<Rightarrow> jsval \<Rightarrow> visual_editor \<Rightarrow> visual_editor" where
  "addComponentResponse fresh uuid component s =
     (let response = typed_component_response fresh component
      in s\<lparr> ve_responses := ve_responses s @ [response],
            ve_fields := ve_fields s @ component_fields uuid component (rd_statusCode response) fresh,
            ve_selectedResponseId := fresh \<rparr>)"

definition valid_status :: "string \<Rightarrow> bool" where
  "valid_status s = (1 \<le> length s \<and> length s \<le> 9 \<and> list_all is_digit s)"

definition addBlankResponse :: "string \<Rightarrow> string \<Rightarrow> string \<Rightarrow> ResponseBodyType \<Rightarrow> visual_editor \<Rightarrow> visual_editor" where
  "addBlankResponse fresh statusCode name bodyType s =
     (if \<not> valid_status (trim statusCode) then s
      else s\<lparr> ve_responses := ve_responses s @ [\<lparr> rd_id = fresh, rd_name = trim name, rd_statusCode = trim statusCode,
                rd_bodyType = bodyType, rd_contentType = or_default (map_of RESPONSE_BODY_TYPES bodyType) [],
                rd_componentId = None, rd_referenceMode = None \<rparr>],
              ve_selectedResponseId := fresh \<rparr>)"

definition change_selected :: "(ResponseDefinition \<Rightarrow> ResponseDefinition) \<Rightarrow> ResponseDefinition \<Rightarrow> visual_editor \<Rightarrow> visual_editor" where
  "change_selected g r s = s\<lparr> ve_responses := map (\<lambda>q. if rd_id q = rd_id r then g q else q) (ve_responses s) \<rparr>"

definition setResponseStatus :: "string \<Rightarrow> ResponseDefinition \<Rightarrow> visual_editor \<Rightarrow> visual_editor" where
  "setResponseStatus statusCode r s =
     (change_selected (\<lambda>q. q\<lparr> rd_statusCode := statusCode \<rparr>) r s)
       \<lparr> ve_fields := map (\<lambda>f. if df_responseId f = Some (rd_id r) then f\<lparr> df_status := Some statusCode \<rparr> else f) (ve_fields s) \<rparr>"

definition setResponseName :: "string \<Rightarrow> ResponseDefinition \<Rightarrow> visual_editor \<Rightarrow> visual_editor" where
  "setResponseName name r s = change_selected (\<lambda>q. q\<lparr> rd_name := name \<rparr>) r s"

definition setResponseBodyType :: "ResponseBodyType \<Rightarrow> ResponseDefinition \<Rightarrow> visual_editor \<Rightarrow> visual_editor" where
  "setResponseBodyType t r s =
     change_selected (\<lambda>q. q\<lparr> rd_bodyType := t, rd_contentType := or_default (map_of RESPONSE_BODY_TYPES t) [] \<rparr>) r s"

definition deleteResponse :: "ResponseDefinition \<Rightarrow> visual_editor \<Rightarrow> visual_editor" where
  "deleteResponse r s =
     (if length (ve_responses s) \<le> 1 then s
      else reselect (s\<lparr> ve_responses := filter (\<lambda>q. rd_id q \<noteq> rd_id r) (ve_responses s),
                        ve_fields := filter (\<lambda>f. df_responseId f \<noteq> Some (rd_id r)) (ve_fields s) \<rparr>))"

text \<open>Dropping the dragged response on another: it takes that one's place.\<close>

definition moveResponse :: "string \<Rightarrow> string \<Rightarrow> ResponseDefinition list \<Rightarrow> ResponseDefinition list" where
  "moveResponse dragged onto responses =
     (if dragged = [] \<or> dragged = onto then responses
      else (case (findIndex (\<lambda>r. rd_id r = dragged) responses, findIndex (\<lambda>r. rd_id r = onto) responses) of
              (Some source, Some target) \<Rightarrow>
                (let moved = responses ! source; rest = take source responses @ drop (Suc source) responses
                 in take target rest @ moved # drop target rest)
            | _ \<Rightarrow> responses))"

section \<open>Steps\<close>

text \<open>An identifier no field has or names.\<close>

definition fresh_field :: "string \<Rightarrow> visual_editor \<Rightarrow> bool" where
  "fresh_field i s = (i \<noteq> [] \<and> i \<noteq> ve_draftFieldId s \<and> list_all (\<lambda>f. df_id f \<noteq> i \<and> df_parentId f \<noteq> Some i) (ve_fields s))"

inductive editor_step :: "visual_editor \<Rightarrow> visual_editor \<Rightarrow> bool" where
  edit: "fresh_field i s \<Longrightarrow> editor_step s (update_field i j patch s)"
| retype: "fresh_field i s \<Longrightarrow> editor_step s (retype_field i j t s)"
| child: "fresh_field i s \<Longrightarrow> f \<in> set (ve_fields s) \<Longrightarrow> editor_step s (addChild i f s)"
| delete: "f \<in> set (ve_fields s) \<Longrightarrow> editor_step s (delete_field f s)"
| status: "selectedResponse s = Some r \<Longrightarrow> editor_step s (setResponseStatus c r s)"
| name: "selectedResponse s = Some r \<Longrightarrow> editor_step s (setResponseName n r s)"
| body: "selectedResponse s = Some r \<Longrightarrow> editor_step s (setResponseBodyType t r s)"
| drop_response: "selectedResponse s = Some r \<Longrightarrow> editor_step s (deleteResponse r s)"
| blank: "editor_step s (addBlankResponse i c n t s)"
| from_component: "inj uuid \<Longrightarrow> (\<And>k. fresh_field (uuid k) s) \<Longrightarrow> editor_step s (addComponentResponse i uuid v s)"
| reorder: "editor_step s (s\<lparr> ve_responses := moveResponse a b (ve_responses s) \<rparr>)"
| choose: "editor_step s (s\<lparr> ve_selectedResponseId := i \<rparr>)"
| show_part: "editor_step s (s\<lparr> ve_area := a, ve_requestPart := p, ve_responsePart := q \<rparr>)"

end
