(* ===== verification/DesignText.thy ===== *)
theory DesignText imports DesignEditor JsRegex begin

text \<open>
  The texts of interface definitions (\<^verbatim>\<open>packages/ui/src/InterfaceLifecycle.tsx\<close>): the version of an OpenAPI document, the
  checks of a source before it is saved, its formatting, and the reading of fields from OpenAPI, Protocol Buffers, GraphQL,
  SQL and other sources. The expressions are those of the code. The message of the platform's JSON parser is a parameter.
\<close>

section \<open>Expressions\<close>

definition group_of :: "re \<Rightarrow> nat \<Rightarrow> string \<Rightarrow> string option" where
  "group_of r n s = Option.bind (rexec r s 0) (\<lambda>m. m_group s m n)"

definition group_text :: "string \<Rightarrow> rmatch_result \<Rightarrow> nat \<Rightarrow> string" where
  "group_text s m n = or_default (m_group s m n) []"

definition APOS :: char where "APOS = CHR 0x27"

definition QUOTES :: re where "QUOTES = ROne [QUOTE, APOS]"

definition RSpaces :: re where "RSpaces = RStar RSpace"

definition DASHED :: re where \<comment> \<open>\<^verbatim>\<open>[\w-]+\<close>\<close>
  "DASHED = RPlus (RSet (\<lambda>c. is_word c \<or> c = CHR ''-''))"

section \<open>Versions and checks\<close>

datatype OpenApiVersion = V20 | V30 | V31 | V32

definition SWAGGER_LINE :: re where
  "SWAGGER_LINE = RSeqs [RBolM, RSpaces, ROpt QUOTES, RLit ''swagger'', ROpt QUOTES, RSpaces, RLit '':'', RSpaces, ROpt QUOTES, RLit ''2.0'']"

definition SWAGGER_KEY :: re where
  "SWAGGER_KEY = RSeqs [QUOTES, RLit ''swagger'', QUOTES, RSpaces, RLit '':'', RSpaces, QUOTES, RLit ''2.0'']"

definition THREE :: re where "THREE = RGroup 1 (RSeq (RLit ''3.'') (ROne ''012''))"

definition OPENAPI_LINE :: re where
  "OPENAPI_LINE = RSeqs [RBolM, RSpaces, ROpt QUOTES, RLit ''openapi'', ROpt QUOTES, RSpaces, RLit '':'', RSpaces, ROpt QUOTES, THREE]"

definition OPENAPI_KEY :: re where
  "OPENAPI_KEY = RSeqs [QUOTES, RLit ''openapi'', QUOTES, RSpaces, RLit '':'', RSpaces, QUOTES, THREE]"

definition detectOpenApiVersion :: "string \<Rightarrow> OpenApiVersion" where
  "detectOpenApiVersion content =
     (if rtest SWAGGER_LINE content \<or> rtest SWAGGER_KEY content then V20
      else (case (case group_of OPENAPI_LINE 1 content of Some v \<Rightarrow> Some v | None \<Rightarrow> group_of OPENAPI_KEY 1 content) of
              None \<Rightarrow> V31
            | Some v \<Rightarrow> if v = ''3.0'' then V30 else if v = ''3.1'' then V31 else V32))"

datatype issue_message =
    EmptySource | TabIndent | JsonSyntax string | NoVersion | NoPaths | CountMismatch char char | KeepsRefs | AdvancedNodes

record DefinitionParseIssue =
  pi_error :: bool \<comment> \<open>severity: an error, otherwise a warning\<close>
  pi_message :: issue_message
  pi_line :: "nat option"

abbreviation issue_error :: "issue_message \<Rightarrow> nat option \<Rightarrow> DefinitionParseIssue" where
  "issue_error m l \<equiv> \<lparr> pi_error = True, pi_message = m, pi_line = l \<rparr>"

abbreviation issue_warning :: "issue_message \<Rightarrow> DefinitionParseIssue" where
  "issue_warning m \<equiv> \<lparr> pi_error = False, pi_message = m, pi_line = None \<rparr>"

definition TAB_INDENT :: re where
  "TAB_INDENT = RAlt (RSeqs [RBol, RSpaces, RLit [CHR 0x09]]) (RLit [CHR 0x09])"

definition POSITION :: re where
  "POSITION = RSeqs [RLit ''position'', RPlus RSpace, RGroup 1 (RPlus RDigit)]"

definition key_line :: "string list \<Rightarrow> re" where \<comment> \<open>\<^verbatim>\<open>/^\s*(?:a|b)\s*:/m\<close>\<close>
  "key_line ks = RSeqs [RBolM, RSpaces, RAlts (map RLit ks), RSpaces, RLit '':'']"

definition quoted_key :: "string list \<Rightarrow> re" where \<comment> \<open>\<^verbatim>\<open>/["'](?:a|b)["']\s*:/\<close>\<close>
  "quoted_key ks = RSeqs [QUOTES, RAlts (map RLit ks), QUOTES, RSpaces, RLit '':'']"

definition REF_KEY :: re where
  "REF_KEY = RAlt (RSeqs [RLit ''$ref'', RSpaces, RLit '':'']) (RSeqs [QUOTES, RLit ''$ref'', QUOTES, RSpaces, RLit '':''])"

definition count_of :: "char \<Rightarrow> string \<Rightarrow> nat" where
  "count_of c s = length (split c s) - 1"

definition json_issue :: "(string \<Rightarrow> string) \<Rightarrow> string \<Rightarrow> DefinitionParseIssue list" where
  "json_issue json_message content =
     (let trimmed = trimStart content in
      if (startsWith trimmed ''{'' \<or> startsWith trimmed ''['') \<and> JSON_parse content = None
      then (let message = json_message content;
                position = (case group_of POSITION 1 message of None \<Rightarrow> 0 | Some d \<Rightarrow> digits_val d)
            in [issue_error (JsonSyntax message) (if position = 0 then None else Some (length (text_lines (take position content))))])
      else [])"

definition validateDefinitionSource :: "(string \<Rightarrow> string) \<Rightarrow> string \<Rightarrow> string \<Rightarrow> DefinitionParseIssue list" where
  "validateDefinitionSource json_message content protocol =
     (if trim content = [] then [issue_error EmptySource (Some 1)]
      else
        (case findIndex (rtest TAB_INDENT) (text_lines content) of
           Some i \<Rightarrow> if protocol \<in> {''http'', ''mqtt'', ''amqp'', ''kafka''} then [issue_error TabIndent (Some (i + 1))] else []
         | None \<Rightarrow> [])
        @ json_issue json_message content
        @ (if protocol = ''http'' \<and> \<not> rtest (key_line [''openapi'', ''swagger'']) content
              \<and> \<not> rtest (quoted_key [''openapi'', ''swagger'']) content then [issue_error NoVersion (Some 1)] else [])
        @ (if protocol = ''http'' \<and> \<not> rtest (key_line [''paths'']) content \<and> \<not> rtest (quoted_key [''paths'']) content
           then [issue_error NoPaths None] else [])
        @ concat (map (\<lambda>(a, b). if count_of a content \<noteq> count_of b content then [issue_error (CountMismatch a b) None] else [])
            [(CHR ''{'', CHR ''}''), (CHR ''['', CHR '']'')])
        @ (if rtest REF_KEY content then [issue_warning KeepsRefs] else [])
        @ (if rtest (key_line [''callbacks'', ''links'', ''webhooks'']) content then [issue_warning AdvancedNodes] else []))"

definition editorLanguageFor :: "string \<Rightarrow> string \<Rightarrow> string" where
  "editorLanguageFor protocol content =
     (if protocol = ''grpc'' then ''protobuf'' else if protocol = ''graphql'' then ''graphql'' else if protocol = ''rpc'' then ''xml''
      else if protocol = ''sql'' then ''sql'' else if startsWith (trimStart content) ''{'' then ''json'' else ''yaml'')"

definition format_line :: "string \<Rightarrow> string" where \<comment> \<open>trailing spaces go, leading tabs become two spaces each\<close>
  "format_line l =
     (let l' = trimEnd l; tabs = takeWhile (\<lambda>c. c = CHR 0x09) l'
      in replicate (2 * length tabs) (CHR '' '') @ drop (length tabs) l')"

definition formatDefinitionSource :: "string \<Rightarrow> string" where
  "formatDefinitionSource content =
     (if startsWith (trimStart content) ''{'' \<or> startsWith (trimStart content) ''['' then
        (case JSON_parse content of Some v \<Rightarrow> json_text 2 0 v @ [NL] | None \<Rightarrow> content)
      else trimEnd (join [NL] (map format_line (text_lines content))) @ [NL])"

end
