(* ===== verification/DesignParse.thy ===== *)
theory DesignParse imports DesignText begin

text \<open>
  The reading of fields and responses from the text of a definition (\<^verbatim>\<open>packages/ui/src/InterfaceLifecycle.tsx\<close>). The
  identifiers of the fields that one call makes are \<open>uuid 0\<close>, \<open>uuid 1\<close> and so on.
\<close>

section \<open>Reading OpenAPI\<close>

definition NAME_CHARS :: re where \<comment> \<open>\<^verbatim>\<open>[\w.-]+\<close>\<close>
  "NAME_CHARS = RPlus (RSet (\<lambda>c. is_word c \<or> c = CHR ''.'' \<or> c = CHR ''-''))"

definition PARAMETER :: re where
  "PARAMETER = RSeqs [RBolM, RSpaces, RLit ''- name:'', RSpaces, RGroup 1 (RPlus (RSet (\<lambda>c. c \<noteq> NL))), RLit [NL],
     RPlus RSpace, RLit ''in:'', RSpaces, RGroup 2 (RAlts (map RLit [''query'', ''path'', ''header'', ''cookie''])), RLit [NL],
     RPlus RSpace, RLit ''required:'', RSpaces, RGroup 3 (RAlts (map RLit [''true'', ''false''])),
     ROpt (RSeqs [RLit [NL], RPlus RSpace, RLit ''schema:'']), RLit [NL], RPlus RSpace, RLit ''type:'', RSpaces, RGroup 4 DASHED]"

text \<open>A field as the parsers make it.\<close>

definition parsed_field :: "string \<Rightarrow> string \<Rightarrow> string \<Rightarrow> bool \<Rightarrow> string \<Rightarrow> DefinitionScope \<Rightarrow> string option \<Rightarrow> DefinitionField" where
  "parsed_field i name t required description scope status =
     \<lparr> df_id = i, df_name = name, df_type = t, df_required = required, df_description = description, df_example = None,
       df_parentId = None, df_scope = scope, df_status = status, df_responseId = None \<rparr>"

definition parameter_fields :: "(nat \<Rightarrow> string) \<Rightarrow> string \<Rightarrow> DefinitionField list" where
  "parameter_fields uuid content =
     map (\<lambda>(i, m). let location = group_text content m 2 in
            parsed_field (uuid i) (trim (group_text content m 1)) (group_text content m 4) (group_text content m 3 = ''true'') []
              (if location = ''header'' then ''request.headers'' else if location = ''cookie'' then ''request.cookies'' else ''request.params'') None)
       (enumerate 0 (rmatchAll PARAMETER content))"

definition STATUS_KEY :: re where
  "STATUS_KEY = RSeqs [RBol, ROpt QUOTES, RGroup 1 (RAlt (RSeqs [RDigit, RDigit, RDigit]) (RLit ''default'')), ROpt QUOTES, RLit '':'', REol]"

definition BODY_PARAMETER :: re where "BODY_PARAMETER = RSeqs [RBol, RLit ''- name:'', RSpaces, RLit ''body'', REol]"

definition REQUIRED_LIST :: re where
  "REQUIRED_LIST = RSeqs [RBol, RLit ''required:'', RSpaces, RLit ''['', RGroup 1 (RStar (RSet (\<lambda>c. c \<noteq> CHR '']''))), RLit '']'']"

definition PROPERTY_KEY :: re where "PROPERTY_KEY = RSeqs [RBol, RGroup 1 NAME_CHARS, RLit '':'', REol]"

definition TYPE_LINE :: re where "TYPE_LINE = RSeqs [RBolM, RSpaces, RLit ''type:'', RSpaces, RGroup 1 DASHED]"

definition SCHEMA_TYPE :: re where
  "SCHEMA_TYPE = RSeqs [RBolM, RSpaces, RLit ''schema:'', RSpaces, RLit [NL], RSpaces, RLit ''type:'', RSpaces, RGroup 1 DASHED]"

definition REQUIRED_LINE :: re where "REQUIRED_LINE = RSeqs [RBolM, RSpaces, RLit ''required:'', RSpaces, RLit ''true'']"

definition DESCRIPTION_LINE :: re where
  "DESCRIPTION_LINE = RSeqs [RBolM, RSpaces, RLit ''description:'', RSpaces, RGroup 1 (RPlus RAny), REolM]"

definition unquoted_names :: "string \<Rightarrow> string list" where
  "unquoted_names s = map (\<lambda>item. trim (filter (\<lambda>c. c \<noteq> QUOTE \<and> c \<noteq> APOS) item)) (split (CHR '','') s)"

text \<open>The scan of the lines: the section that is open, its indentation and the required names.\<close>

record openapi_scan =
  os_inResponses :: bool
  os_status :: string
  os_section :: "DefinitionScope option"
  os_sectionIndent :: int
  os_propertiesIndent :: int
  os_required :: "string list"
  os_fields :: "DefinitionField list"

definition open_section :: "DefinitionScope \<Rightarrow> int \<Rightarrow> int \<Rightarrow> openapi_scan \<Rightarrow> openapi_scan" where
  "open_section scope indent propertiesIndent st =
     st\<lparr> os_section := Some scope, os_sectionIndent := indent, os_propertiesIndent := propertiesIndent, os_required := [] \<rparr>"

text \<open>A line inside an open section.\<close>

definition scan_property :: "(nat \<Rightarrow> string) \<Rightarrow> DefinitionScope \<Rightarrow> string \<Rightarrow> int \<Rightarrow> string list \<Rightarrow> openapi_scan \<Rightarrow> openapi_scan" where
  "scan_property uuid section trimmed indent rest st =
     (case group_of REQUIRED_LIST 1 trimmed of
        Some names \<Rightarrow> st\<lparr> os_required := unquoted_names names \<rparr>
      | None \<Rightarrow>
          (case group_of PROPERTY_KEY 1 trimmed of
             None \<Rightarrow> st
           | Some name \<Rightarrow>
               (if indent \<noteq> (if os_propertiesIndent st \<ge> 0 then os_propertiesIndent st else os_sectionIndent st) + 2 then st
                else
                  (let details = join [NL] (take 5 rest) in
                   case (case group_of TYPE_LINE 1 details of Some t \<Rightarrow> Some t | None \<Rightarrow> group_of SCHEMA_TYPE 1 details) of
                     None \<Rightarrow> st
                   | Some t \<Rightarrow>
                       st\<lparr> os_fields := os_fields st @ [parsed_field (uuid (length (os_fields st))) name t
                              (name \<in> set (os_required st) \<or> rtest REQUIRED_LINE details)
                              (trim (or_default (group_of DESCRIPTION_LINE 1 details) [])) section
                              (if is_response_scope section then Some (os_status st) else None)] \<rparr>))))"

definition scan_line :: "(nat \<Rightarrow> string) \<Rightarrow> string \<Rightarrow> string list \<Rightarrow> openapi_scan \<Rightarrow> openapi_scan" where
  "scan_line uuid line rest st =
     (let indent = int (length (takeWhile js_ws line)); trimmed = trim line;
          status = (if os_inResponses st then group_of STATUS_KEY 1 trimmed else None) in
      if trimmed = ''responses:'' then st\<lparr> os_inResponses := True, os_section := None \<rparr>
      else if status \<noteq> None then st\<lparr> os_status := the status, os_section := None \<rparr>
      else if trimmed = ''requestBody:'' \<or> rtest BODY_PARAMETER trimmed then open_section ''request.body'' indent (- 1) st
      else if os_inResponses st \<and> trimmed = ''headers:'' then open_section ''response.headers'' indent (- 1) st
      else if os_inResponses st \<and> trimmed = ''x-response-cookies:'' then open_section ''response.cookies'' indent (- 1) st
      else if os_inResponses st \<and> trimmed = ''properties:'' then open_section ''response.body'' indent indent st
      else if \<not> os_inResponses st \<and> os_section st = Some ''request.body'' \<and> trimmed = ''properties:'' then st\<lparr> os_propertiesIndent := indent \<rparr>
      else
        (let st' = (if os_section st \<noteq> None \<and> indent \<le> os_sectionIndent st \<and> trimmed \<noteq> [] \<and> \<not> startsWith trimmed ''- ''
                    then st\<lparr> os_section := None, os_propertiesIndent := - 1 \<rparr> else st) in
         case os_section st' of None \<Rightarrow> st' | Some section \<Rightarrow> scan_property uuid section trimmed indent rest st'))"

fun scan_lines :: "(nat \<Rightarrow> string) \<Rightarrow> string list \<Rightarrow> openapi_scan \<Rightarrow> openapi_scan" where
  "scan_lines uuid [] st = st"
| "scan_lines uuid (l # ls) st = scan_lines uuid ls (scan_line uuid l ls st)"

definition parseOpenApiFields :: "(nat \<Rightarrow> string) \<Rightarrow> string \<Rightarrow> DefinitionField list" where
  "parseOpenApiFields uuid content =
     os_fields (scan_lines uuid (text_lines content)
       \<lparr> os_inResponses = False, os_status = ''200'', os_section = None, os_sectionIndent = - 1, os_propertiesIndent = - 1,
         os_required = [], os_fields = parameter_fields uuid content \<rparr>)"

section \<open>The extensions the editor writes\<close>

definition extension_line :: "string \<Rightarrow> char \<Rightarrow> char \<Rightarrow> re" where \<comment> \<open>\<^verbatim>\<open>/^key:\s*(\[.*\])\s*$/m\<close>\<close>
  "extension_line key left right =
     RSeqs [RBolM, RLit (key @ '':''), RSpaces, RGroup 1 (RSeqs [RLit [left], RStar RAny, RLit [right]]), RSpaces, REolM]"

definition is_field_object :: "jsval \<Rightarrow> bool" where
  "is_field_object v = (is_object v \<and> is_str (js_get v ''id'') \<and> is_str (js_get v ''name'') \<and> is_str (js_get v ''type'') \<and> is_str (js_get v ''scope''))"

definition parseVisualFieldsExtension :: "string \<Rightarrow> DefinitionField list option" where
  "parseVisualFieldsExtension content =
     (case group_of (extension_line ''x-apivoy-visual-fields'' (CHR ''['') (CHR '']'')) 1 content of
        None \<Rightarrow> None
      | Some source \<Rightarrow>
          (case JSON_parse source of
             Some (JArr items) \<Rightarrow> Some (map typed_field (filter is_field_object items))
           | _ \<Rightarrow> None))"

definition typed_response :: "jsval \<Rightarrow> ResponseDefinition" where
  "typed_response v =
     \<lparr> rd_id = text_at v ''id'', rd_name = text_at v ''name'', rd_statusCode = text_at v ''statusCode'',
       rd_bodyType = normalizeResponseBodyType (js_get v ''bodyType''), rd_contentType = text_at v ''contentType'',
       rd_componentId = opt_text_at v ''componentId'',
       rd_referenceMode = (if js_get v ''referenceMode'' = JStr ''linked'' then Some Linked
                           else if js_get v ''referenceMode'' = JStr ''detached'' then Some Detached else None) \<rparr>"

definition legacy_responses :: "design_texts \<Rightarrow> (nat \<Rightarrow> string) \<Rightarrow> DefinitionField list \<Rightarrow> ResponseDefinition list" where
  "legacy_responses D uuid flds =
     (let statuses = uniq (map status_of (filter (\<lambda>f. is_response_scope (df_scope f)) flds))
      in map (\<lambda>(i, s). defaultResponseDefinition D (uuid i) s) (enumerate 0 (if statuses = [] then [''200''] else statuses)))"

text \<open>A \<^verbatim>\<open>null\<close> among the stored responses makes the reading fail, which counts as no stored responses.\<close>

definition parseResponseDefinitions :: "design_texts \<Rightarrow> (nat \<Rightarrow> string) \<Rightarrow> string \<Rightarrow> DefinitionField list \<Rightarrow> ResponseDefinition list" where
  "parseResponseDefinitions D uuid content flds =
     (case group_of (extension_line ''x-apivoy-responses'' (CHR ''['') (CHR '']'')) 1 content of
        None \<Rightarrow> legacy_responses D uuid flds
      | Some source \<Rightarrow>
          (case JSON_parse source of
             Some (JArr items) \<Rightarrow>
               if items \<noteq> [] \<and> JNull \<notin> set items then map typed_response items else legacy_responses D uuid flds
           | _ \<Rightarrow> legacy_responses D uuid flds))"

section \<open>Security\<close>

text \<open>The security policy of a design: the members of the stored object over the defaults.\<close>

definition DEFAULT_SECURITY_DESIGN :: props where
  "DEFAULT_SECURITY_DESIGN =
     [(''authScheme'', JStr ''none''), (''apiKeyName'', JStr ''X-Api-Key''), (''apiKeyIn'', JStr ''header''), (''scopes'', JStr []),
      (''rateLimit'', JNum (NInt 0)), (''rateWindow'', JStr ''minute''), (''maxBodyKb'', JNum (NInt 0)), (''requireHttps'', JBool True)]"

definition parseSecurityDesign :: "string \<Rightarrow> props" where
  "parseSecurityDesign content =
     (case group_of (extension_line ''x-apivoy-security'' (CHR ''{'') (CHR ''}'')) 1 content of
        None \<Rightarrow> DEFAULT_SECURITY_DESIGN
      | Some source \<Rightarrow>
          (case JSON_parse source of
             Some v \<Rightarrow> spread DEFAULT_SECURITY_DESIGN (spread_entries v)
           | None \<Rightarrow> DEFAULT_SECURITY_DESIGN))"

end
