(* ===== verification/DesignSources.thy ===== *)
theory DesignSources imports DesignParse begin

text \<open>
  The fields of definitions in Protocol Buffers, GraphQL, SQL and other sources, the choice among the parsers, and the
  texts of errors shown to the user (\<^verbatim>\<open>packages/ui/src/InterfaceLifecycle.tsx\<close>).
\<close>

section \<open>Sources other than OpenAPI\<close>

definition UPPER_NAME :: re where "UPPER_NAME = RSeq (RSet is_upper_az) (RStar RWord)"

definition PROTO_FIELD :: re where
  "PROTO_FIELD = RSeqs [ROpt (RSeq (RLit ''repeated'') (RPlus RSpace)),
     RGroup 1 (RAlts (map RLit [''string'', ''bool'', ''bytes'', ''int32'', ''int64'', ''float'', ''double''] @ [UPPER_NAME])),
     RPlus RSpace, RGroup 2 (RPlus RWord), RSpaces, RLit ''='', RSpaces, RPlus RDigit]"

definition proto_type :: "string \<Rightarrow> string" where
  "proto_type t = (if t = ''bool'' then ''boolean'' else if startsWith t ''int'' then ''integer'' else t)"

definition proto_fields :: "(nat \<Rightarrow> string) \<Rightarrow> string \<Rightarrow> DefinitionField list" where
  "proto_fields uuid content =
     map (\<lambda>(i, m). parsed_field (uuid i) (group_text content m 2) (proto_type (group_text content m 1)) False [] ''request.body'' None)
       (enumerate 0 (rmatchAll PROTO_FIELD content))"

definition GRAPHQL_FIELD :: re where
  "GRAPHQL_FIELD = RSeqs [RBolM, RSpaces, RGroup 1 (RPlus RWord), RSpaces,
     ROpt (RSeqs [RLit ''('', RStar (RSet (\<lambda>c. c \<noteq> CHR '')'')), RLit '')'']), RSpaces, RLit '':'', RSpaces,
     RGroup 2 (RPlus (RSet (\<lambda>c. is_word c \<or> c \<in> set ''[]!'')))]"

definition graphql_fields :: "(nat \<Rightarrow> string) \<Rightarrow> string \<Rightarrow> DefinitionField list" where
  "graphql_fields uuid content =
     map (\<lambda>(i, m). parsed_field (uuid i) (group_text content m 1) (toLowerCase (filter (\<lambda>c. c \<notin> set ''[]!'') (group_text content m 2)))
            (CHR ''!'' \<in> set (group_text content m 2)) [] ''request.body'' None)
       (enumerate 0 (filter (\<lambda>m. group_text content m 1 \<notin> {''type'', ''input'', ''query'', ''mutation''}) (rmatchAll GRAPHQL_FIELD content)))"

definition SQL_TYPES :: "string list" where
  "SQL_TYPES = [''varchar'', ''text'', ''int'', ''integer'', ''bigint'', ''decimal'', ''numeric'', ''boolean'', ''timestamp'', ''date'', ''json'']"

definition SQL_QUOTES :: re where "SQL_QUOTES = ROne [CHR 0x60, QUOTE]"

definition SQL_COLUMN :: re where
  "SQL_COLUMN = RSeqs [RBolM, RSpaces, ROpt SQL_QUOTES, RGroup 1 (RPlus RWord), ROpt SQL_QUOTES, RPlus RSpace,
     RGroup 2 (RAlts (map RLitI SQL_TYPES)), RWordB, RGroup 3 (RStar (RSet (\<lambda>c. c \<noteq> CHR '','')))]"

definition NOT_NULL :: re where "NOT_NULL = RSeqs [RLitI ''not'', RPlus RSpace, RLitI ''null'']"

text \<open>The type of a column: these comparisons do not ignore case, although the expression of the column does.\<close>

definition sql_type :: "string \<Rightarrow> string" where
  "sql_type t =
     (if str_includes t ''int'' then ''integer'' else if str_includes t ''decimal'' \<or> str_includes t ''numeric'' then ''number''
      else if t = ''boolean'' then ''boolean'' else if t = ''json'' then ''object'' else ''string'')"

definition sql_fields :: "(nat \<Rightarrow> string) \<Rightarrow> string \<Rightarrow> DefinitionField list" where
  "sql_fields uuid content =
     map (\<lambda>(i, m). parsed_field (uuid i) (group_text content m 1) (sql_type (group_text content m 2))
            (rtest NOT_NULL (group_text content m 3)) [] ''response.body'' (Some ''success''))
       (enumerate 0 (rmatchAll SQL_COLUMN content))"

section \<open>Any other source\<close>

definition FIELD_TYPES :: "string list" where
  "FIELD_TYPES = [''string'', ''number'', ''integer'', ''boolean'', ''object'', ''array'', ''bytes'', ''enum'', ''file'', ''null'']"

definition structuralKeys :: "string list" where
  "structuralKeys = [''openapi'', ''swagger'', ''info'', ''servers'', ''host'', ''basePath'', ''schemes'', ''consumes'', ''produces'',
     ''paths'', ''responses'', ''properties'', ''schema'', ''content'', ''type'', ''description'', ''required'', ''items'', ''format'',
     ''example'', ''examples'', ''requestBody'', ''parameters'', ''components'', ''definitions'', ''security'', ''securitySchemes'',
     ''tags'', ''summary'', ''operationId'']"

definition documentKeys :: "string list" where
  "documentKeys = [''title'', ''version'', ''get'', ''put'', ''post'', ''delete'', ''patch'', ''head'', ''options'', ''trace'']"

definition REQUIRED_NAMES :: re where
  "REQUIRED_NAMES = RSeqs [RLit ''required'', RSpaces, RLit '':'', RSpaces, RLit ''['', RGroup 1 (RPlus (RSet (\<lambda>c. c \<noteq> CHR '']''))), RLit '']'']"

definition YAML_KEY :: re where
  "YAML_KEY = RSeqs [RBolM, RGroup 1 (RSeq RSpace (RPlus RSpace)),
     RGroup 2 (RSeq RWord (RStar (RSet (\<lambda>c. is_word c \<or> c = CHR ''.'' \<or> c = CHR ''-'')))), RSpaces, RLit '':'', RSpaces,
     ROpt (RLit ''{''), RSpaces, ROpt (RSeqs [RLit ''type'', RSpaces, RLit '':'', RSpaces]), ROpt (RGroup 3 DASHED)]"

definition THREE_DIGITS :: re where "THREE_DIGITS = RSeqs [RBol, RDigit, RDigit, RDigit, REol]"

definition kept_key :: "string \<Rightarrow> rmatch_result \<Rightarrow> bool" where
  "kept_key content m =
     (let key = group_text content m 2 in
      key \<notin> set structuralKeys \<and> \<not> (length (group_text content m 1) \<le> 10 \<and> key \<in> set documentKeys) \<and> \<not> rtest THREE_DIGITS key)"

definition yaml_fields :: "(nat \<Rightarrow> string) \<Rightarrow> string \<Rightarrow> DefinitionField list" where
  "yaml_fields uuid content =
     (let required = (case group_of REQUIRED_NAMES 1 content of None \<Rightarrow> [] | Some names \<Rightarrow> unquoted_names names)
      in map (\<lambda>(i, m). let t = group_text content m 3; name = group_text content m 2 in
                parsed_field (uuid i) name (if t \<in> set FIELD_TYPES then t else ''string'') (name \<in> set required) [] ''request.body'' None)
           (enumerate 0 (take 100 (filter (kept_key content) (rmatchAll YAML_KEY content)))))"

section \<open>The choice of the parser\<close>

text \<open>The cache holds the fields of the texts the editor wrote in this session.\<close>

type_synonym field_cache = "string \<Rightarrow> DefinitionField list option"

definition parseDefinitionFields :: "field_cache \<Rightarrow> (nat \<Rightarrow> string) \<Rightarrow> string \<Rightarrow> string \<Rightarrow> DefinitionField list" where
  "parseDefinitionFields cache uuid content protocol =
     (if trim content = [] then []
      else
        (case (if protocol = ''http'' then parseVisualFieldsExtension content else None) of
           Some flds \<Rightarrow> flds
         | None \<Rightarrow>
             (case cache content of
                Some flds \<Rightarrow> flds
              | None \<Rightarrow>
                  if protocol = ''http'' \<and> parseOpenApiFields uuid content \<noteq> [] then parseOpenApiFields uuid content
                  else if protocol = ''grpc'' then proto_fields uuid content
                  else if protocol = ''graphql'' then graphql_fields uuid content
                  else if protocol = ''sql'' then sql_fields uuid content
                  else yaml_fields uuid content)))"

section \<open>Readable errors\<close>

datatype thrown = ThrownError string | ThrownValue jsval

definition ENTITY :: re where
  "ENTITY = RSeqs [RLit ''&'', RGroup 1 (RAlts [RSeq (RLitI ''#x'') (RPlus (RSet (\<lambda>c. hex_val c \<noteq> None))), RSeq (RLit ''#'') (RPlus RDigit),
     RLitI ''nbsp'', RLitI ''amp'', RLitI ''lt'', RLitI ''gt'', RLitI ''quot'']), RLit '';'']"

definition named_entities :: "(string \<times> string) list" where
  "named_entities = [(''nbsp'', '' ''), (''amp'', ''&''), (''lt'', ''<''), (''gt'', ''>''), (''quot'', [QUOTE])]"

text \<open>The text of a code point above 255 lies outside the model's texts: it is the argument \<open>wide\<close>.\<close>

definition decode_entity :: "(nat \<Rightarrow> string) \<Rightarrow> string \<Rightarrow> string \<Rightarrow> string" where
  "decode_entity wide entity body =
     (case body of
        h # b \<Rightarrow>
          if h = CHR ''#'' then
            (let hexadecimal = (b \<noteq> [] \<and> (hd b = CHR ''x'' \<or> hd b = CHR ''X''));
                 n = or_default (radix_val (if hexadecimal then 16 else 10) 0 (if hexadecimal then tl b else b)) 0
             in if n > 0x10FFFF then entity else if n < 256 then [char_of n] else wide n)
          else or_default (map_of named_entities (toLowerCase body)) entity
      | [] \<Rightarrow> entity)"

definition decode_entities :: "(nat \<Rightarrow> string) \<Rightarrow> string \<Rightarrow> string" where
  "decode_entities wide raw = rreplaceAll ENTITY (\<lambda>m. decode_entity wide (m_text raw m) (group_text raw m 1)) raw"

definition raw_error :: "thrown \<Rightarrow> string option" where
  "raw_error e =
     (case e of ThrownError message \<Rightarrow> Some message | ThrownValue (JStr s) \<Rightarrow> Some s | ThrownValue v \<Rightarrow> JSON_stringify v)"

definition readableDefinitionError :: "(nat \<Rightarrow> string) \<Rightarrow> thrown \<Rightarrow> string \<Rightarrow> string option" where
  \<comment> \<open>\<open>None\<close>: the value thrown has no JSON text, and the replacement fails\<close>
  "readableDefinitionError wide e fallback =
     map_option (\<lambda>raw. let decoded = trim (decode_entities wide raw)
                        in if decoded \<noteq> [] \<and> decoded \<noteq> ''{}'' then decoded else fallback) (raw_error e)"

end
