(* ===== verification/DesignWriter.thy ===== *)
theory DesignWriter imports DesignSources begin

text \<open>
  The writing of a definition from its fields (\<^verbatim>\<open>fieldsToDefinition\<close> in \<^verbatim>\<open>packages/ui/src/InterfaceLifecycle.tsx\<close>). The
  members of a field or a response are written in the order of their interface; the code keeps the order in which an
  object got them. The recursion over the schema follows the parents and carries fuel; \<open>None\<close> is a recursion that did
  not end. The path of an address is the platform's, a parameter.
\<close>

abbreviation nl :: string where "nl \<equiv> [NL]"

abbreviation js_bool :: "bool \<Rightarrow> string" where "js_bool b \<equiv> (if b then ''true'' else ''false'')"

abbreviation or_text :: "string \<Rightarrow> string \<Rightarrow> string" where "or_text s d \<equiv> (if s = [] then d else s)"

section \<open>Values\<close>

definition opt_member :: "string \<Rightarrow> string option \<Rightarrow> props" where
  "opt_member k v = (case v of None \<Rightarrow> [] | Some s \<Rightarrow> [(k, JStr s)])"

definition field_val :: "DefinitionField \<Rightarrow> jsval" where
  "field_val f =
     JObj ([(''id'', JStr (df_id f)), (''name'', JStr (df_name f)), (''type'', JStr (df_type f)), (''required'', JBool (df_required f)),
            (''description'', JStr (df_description f))] @ opt_member ''example'' (df_example f) @ opt_member ''parentId'' (df_parentId f)
           @ [(''scope'', JStr (df_scope f))] @ opt_member ''status'' (df_status f) @ opt_member ''responseId'' (df_responseId f))"

definition response_val :: "ResponseDefinition \<Rightarrow> jsval" where
  "response_val r =
     JObj ([(''id'', JStr (rd_id r)), (''name'', JStr (rd_name r)), (''statusCode'', JStr (rd_statusCode r)),
            (''bodyType'', JStr (body_type_id (rd_bodyType r))), (''contentType'', JStr (rd_contentType r))]
           @ opt_member ''componentId'' (rd_componentId r)
           @ opt_member ''referenceMode'' (map_option (\<lambda>m. case m of Linked \<Rightarrow> ''linked'' | Detached \<Rightarrow> ''detached'') (rd_referenceMode r)))"

section \<open>Schemas\<close>

definition schema_metadata :: "DefinitionField \<Rightarrow> string \<Rightarrow> string" where
  "schema_metadata f indent =
     (if df_type f = ''file'' then nl @ indent @ ''format: binary'' else [])
     @ (if df_description f \<noteq> [] then nl @ indent @ ''description: '' @ df_description f else [])
     @ (if or_default (df_example f) [] \<noteq> [] then nl @ indent @ ''example: '' @ the (df_example f) else [])"

definition required_line :: "DefinitionField list \<Rightarrow> string \<Rightarrow> string" where
  "required_line items indent =
     (if list_ex df_required items then indent @ ''required: ['' @ join '', '' (map df_name (filter df_required items)) @ '']'' @ nl else [])"

fun renderSchemaField :: "nat \<Rightarrow> DefinitionField list \<Rightarrow> DefinitionField \<Rightarrow> string \<Rightarrow> string option" where
  "renderSchemaField 0 flds f indent = None"
| "renderSchemaField (Suc n) flds f indent =
     (let children = field_children flds (df_id f); metadata = schema_metadata f indent in
      if df_type f = ''array'' then
        map_option (\<lambda>t. indent @ ''type: array'' @ metadata @ nl @ indent @ ''items:'' @ nl @ t)
          (case children of
             [] \<Rightarrow> Some (indent @ ''  type: string'')
           | item # _ \<Rightarrow> renderSchemaField n flds item (indent @ ''  ''))
      else if df_type f = ''object'' \<and> children \<noteq> [] then
        map_option (\<lambda>ts. indent @ ''type: object'' @ metadata @ nl @ required_line children indent @ indent @ ''properties:'' @ nl @ join nl ts)
          (those (map (\<lambda>c. map_option (\<lambda>t. indent @ ''  '' @ or_text (df_name c) ''field'' @ '':'' @ nl @ t)
             (renderSchemaField n flds c (indent @ ''    ''))) children))
      else Some (indent @ ''type: '' @ (if df_type f = ''file'' then ''string'' else df_type f) @ metadata))"

definition schema_roots :: "DefinitionField list \<Rightarrow> DefinitionField list" where
  "schema_roots items =
     filter (\<lambda>f. or_default (df_parentId f) [] = [] \<or> \<not> list_ex (\<lambda>g. Some (df_id g) = df_parentId f) items) items"

definition yamlSchema :: "nat \<Rightarrow> DefinitionField list \<Rightarrow> DefinitionField list \<Rightarrow> string \<Rightarrow> string option" where
  "yamlSchema n flds items indent =
     map_option (\<lambda>ts. required_line (schema_roots items) indent @ indent @ ''properties:'' @ nl @ join nl ts)
       (those (map (\<lambda>f. map_option (\<lambda>t. indent @ ''  '' @ or_text (df_name f) ''field'' @ '':'' @ nl @ t)
          (renderSchemaField n flds f (indent @ ''    ''))) (schema_roots items)))"

section \<open>Sources without a schema\<close>

definition proto_text_type :: "string \<Rightarrow> string" where
  "proto_text_type t =
     (if t = ''boolean'' then ''bool'' else if t = ''integer'' then ''int64'' else if t = ''number'' then ''double''
      else if t = ''array'' then ''repeated string'' else t)"

definition proto_text :: "DefinitionField list \<Rightarrow> string" where
  "proto_text flds =
     ''message Request {'' @ nl
     @ join nl (map (\<lambda>(i, f). ''  '' @ proto_text_type (df_type f) @ '' '' @ or_text (df_name f) (''field_'' @ digits_of (i + 1))
          @ '' = '' @ digits_of (i + 1) @ '';'') (enumerate 0 flds)) @ nl @ ''}''"

definition graphql_text_type :: "string \<Rightarrow> string" where
  "graphql_text_type t =
     (if t = ''integer'' then ''Int'' else if t = ''number'' then ''Float'' else if t = ''boolean'' then ''Boolean''
      else if t = ''object'' then ''JSON'' else ''String'')"

definition graphql_text :: "DefinitionField list \<Rightarrow> string" where
  "graphql_text flds =
     ''input RequestInput {'' @ nl
     @ join nl (map (\<lambda>f. ''  '' @ or_text (df_name f) ''field'' @ '': '' @ graphql_text_type (df_type f) @ (if df_required f then ''!'' else [])) flds)
     @ nl @ ''}''"

definition sql_text_type :: "string \<Rightarrow> string" where
  "sql_text_type t =
     (if t = ''integer'' then ''BIGINT'' else if t = ''number'' then ''DECIMAL'' else if t = ''boolean'' then ''BOOLEAN''
      else if t = ''object'' then ''JSON'' else ''VARCHAR(255)'')"

definition sql_text :: "DefinitionField list \<Rightarrow> string" where
  "sql_text flds =
     ''CREATE TABLE result ('' @ nl
     @ join ('','' @ nl) (map (\<lambda>f. ''  '' @ or_text (df_name f) ''field'' @ '' '' @ sql_text_type (df_type f)
          @ (if df_required f then '' NOT NULL'' else [])) flds)
     @ nl @ '');''"

section \<open>OpenAPI\<close>

datatype BodyDesignMode = DesignNone | DesignFormData | DesignUrlencoded | DesignJson | DesignXml | DesignText | DesignBinary | DesignGraphql

fun body_mode_id :: "BodyDesignMode \<Rightarrow> string" where
  "body_mode_id DesignNone = ''none''"
| "body_mode_id DesignFormData = ''form-data''"
| "body_mode_id DesignUrlencoded = ''urlencoded''"
| "body_mode_id DesignJson = ''json''"
| "body_mode_id DesignXml = ''xml''"
| "body_mode_id DesignText = ''text''"
| "body_mode_id DesignBinary = ''binary''"
| "body_mode_id DesignGraphql = ''graphql''"

fun design_content_type :: "BodyDesignMode \<Rightarrow> string option" where \<comment> \<open>the content types of \<^verbatim>\<open>BODY_DESIGN_MODES\<close>\<close>
  "design_content_type DesignNone = None"
| "design_content_type DesignFormData = Some ''multipart/form-data''"
| "design_content_type DesignUrlencoded = Some ''application/x-www-form-urlencoded''"
| "design_content_type DesignJson = Some ''application/json''"
| "design_content_type DesignXml = Some ''application/xml''"
| "design_content_type DesignText = Some ''text/plain''"
| "design_content_type DesignBinary = Some ''application/octet-stream''"
| "design_content_type DesignGraphql = Some ''application/json''"

fun version_literal :: "OpenApiVersion \<Rightarrow> string" where
  "version_literal V30 = ''3.0.4''"
| "version_literal V32 = ''3.2.0''"
| "version_literal _ = ''3.1.2''"

definition design_extensions :: "DefinitionField list \<Rightarrow> props \<Rightarrow> ResponseDefinition list \<Rightarrow> string" where
  "design_extensions flds security responses =
     ''x-apivoy-visual-fields: '' @ json_text 0 0 (JArr (map field_val flds)) @ nl
     @ ''x-apivoy-security: '' @ json_text 0 0 (JObj security) @ nl
     @ ''x-apivoy-responses: '' @ json_text 0 0 (JArr (map response_val responses)) @ nl"

definition response_statuses :: "DefinitionField list \<Rightarrow> string list" where
  "response_statuses flds =
     (let statuses = uniq (map status_of (filter (\<lambda>f. is_response_scope (df_scope f)) flds))
      in if statuses = [] then [''200''] else statuses)"

definition of_status :: "DefinitionField list \<Rightarrow> string \<Rightarrow> DefinitionScope \<Rightarrow> DefinitionField list" where
  "of_status flds status scope = filter (\<lambda>f. status_of f = status \<and> df_scope f = scope) flds"

definition part_text :: "DefinitionField list \<Rightarrow> string \<Rightarrow> (DefinitionField \<Rightarrow> string) \<Rightarrow> string" where
  "part_text items title line = (if items = [] then [] else nl @ title @ nl @ join nl (map line items))"

definition part_schema :: "nat \<Rightarrow> DefinitionField list \<Rightarrow> DefinitionField list \<Rightarrow> string \<Rightarrow> string \<Rightarrow> string option" where
  "part_schema n flds items title indent =
     (if items = [] then Some [] else map_option (\<lambda>t. title @ nl @ t) (yamlSchema n flds items indent))"

definition swagger_response :: "nat \<Rightarrow> DefinitionField list \<Rightarrow> string \<Rightarrow> string option" where
  "swagger_response n flds status =
     (let line = (\<lambda>f. ''            '' @ df_name f @ '':'' @ nl @ ''              type: '' @ df_type f) in
      map_option (\<lambda>body. ''        '' @ [APOS] @ status @ [APOS] @ '':'' @ nl @ ''          description: Response '' @ status
          @ part_text (of_status flds status ''response.headers'') ''          headers:'' line
          @ part_text (of_status flds status ''response.cookies'') ''          x-response-cookies:'' line @ body)
        (part_schema n flds (of_status flds status ''response.body'') (nl @ ''          schema:'' @ nl @ ''            type: object'') ''            ''))"

definition swagger_text :: "nat \<Rightarrow> DefinitionField list \<Rightarrow> string \<Rightarrow> string \<times> string \<Rightarrow> string option" where
  "swagger_text n flds extensions operation =
     (case operation of (path, http_method) \<Rightarrow>
      (let regular = filter (\<lambda>f. df_scope f = ''request.params'' \<or> df_scope f = ''request.headers'') flds;
           cookies = filter (\<lambda>f. df_scope f = ''request.cookies'') flds;
           requestBody = filter (\<lambda>f. df_scope f = ''request.body'') flds;
           typed = (\<lambda>f. ''          required: '' @ js_bool (df_required f) @ nl @ ''          type: '' @ df_type f)
       in Option.bind (part_schema n flds requestBody
            ((if regular = [] then [] else nl) @ ''        - name: body'' @ nl @ ''          in: body'' @ nl @ ''          required: true'' @ nl
              @ ''          schema:'' @ nl @ ''            type: object'') ''            '') (\<lambda>body.
          map_option (\<lambda>responses.
            ''swagger: '' @ [APOS] @ ''2.0'' @ [APOS] @ nl @ extensions @ ''info:'' @ nl @ ''  title: Current API'' @ nl @ ''  version: 1.0.0'' @ nl
            @ ''produces: [application/json]'' @ nl @ ''paths:'' @ nl @ ''  '' @ path @ '':'' @ nl @ ''    '' @ http_method @ '':'' @ nl
            @ ''      parameters:'' @ nl
            @ join nl (map (\<lambda>f. ''        - name: '' @ df_name f @ nl @ ''          in: ''
                 @ (if df_scope f = ''request.headers'' then ''header'' else ''query'') @ nl @ typed f) regular)
            @ body @ part_text cookies ''      x-cookie-parameters:'' (\<lambda>f. ''        - name: '' @ df_name f @ nl @ typed f)
            @ nl @ ''      responses:'' @ nl @ join nl responses)
            (those (map (swagger_response n flds) (response_statuses flds))))))"

definition openapi_response :: "nat \<Rightarrow> DefinitionField list \<Rightarrow> string \<Rightarrow> string option" where
  "openapi_response n flds status =
     map_option (\<lambda>body. ''        '' @ [APOS] @ status @ [APOS] @ '':'' @ nl @ ''          description: Response '' @ status
         @ part_text (of_status flds status ''response.headers'') ''          headers:''
             (\<lambda>f. ''            '' @ df_name f @ '':'' @ nl @ ''              required: '' @ js_bool (df_required f) @ nl
                @ ''              schema:'' @ nl @ ''                type: '' @ df_type f)
         @ part_text (of_status flds status ''response.cookies'') ''          x-response-cookies:''
             (\<lambda>f. ''            '' @ df_name f @ '':'' @ nl @ ''              type: '' @ df_type f) @ body)
       (part_schema n flds (of_status flds status ''response.body'')
          (nl @ ''          content:'' @ nl @ ''            application/json:'' @ nl @ ''              schema:'' @ nl @ ''                type: object'')
          ''                '')"

definition parameter_location :: "DefinitionScope \<Rightarrow> string" where
  "parameter_location scope =
     (if scope = ''request.params'' then ''query'' else if scope = ''request.headers'' then ''header'' else ''cookie'')"

definition request_body_text :: "nat \<Rightarrow> DefinitionField list \<Rightarrow> BodyDesignMode \<Rightarrow> string option" where
  "request_body_text n flds bodyMode =
     (if bodyMode = DesignNone then Some []
      else if bodyMode = DesignBinary then
        Some (''      requestBody:'' @ nl @ ''        content:'' @ nl @ ''          application/octet-stream:'' @ nl @ ''            schema:'' @ nl
          @ ''              type: string'' @ nl @ ''              format: binary'' @ nl)
      else map_option (\<lambda>t. ''      requestBody:'' @ nl @ ''        content:'' @ nl @ ''          ''
               @ or_default (design_content_type bodyMode) ''application/json'' @ '':'' @ nl @ ''            schema:'' @ nl
               @ ''              type: object'' @ nl @ t @ nl)
             (yamlSchema n flds (filter (\<lambda>f. df_scope f = ''request.body'') flds) ''              ''))"

definition openapi_text :: "nat \<Rightarrow> DefinitionField list \<Rightarrow> OpenApiVersion \<Rightarrow> BodyDesignMode \<Rightarrow> string \<Rightarrow> string \<times> string \<Rightarrow> string option" where
  "openapi_text n flds version bodyMode extensions operation =
     (case operation of (path, http_method) \<Rightarrow>
      (let params = filter (\<lambda>f. df_scope f = ''request.params'' \<or> df_scope f = ''request.headers'' \<or> df_scope f = ''request.cookies'') flds
       in Option.bind (request_body_text n flds bodyMode) (\<lambda>body.
          map_option (\<lambda>responses.
            ''openapi: '' @ version_literal version @ nl @ ''x-apivoy-body-mode: '' @ body_mode_id bodyMode @ nl @ extensions
            @ ''info:'' @ nl @ ''  title: Current API'' @ nl @ ''  version: 1.0.0'' @ nl @ ''paths:'' @ nl @ ''  '' @ path @ '':'' @ nl
            @ ''    '' @ http_method @ '':'' @ nl
            @ (if params = [] then []
               else ''      parameters:'' @ nl
                 @ join nl (map (\<lambda>f. ''        - name: '' @ df_name f @ nl @ ''          in: '' @ parameter_location (df_scope f) @ nl
                     @ ''          required: '' @ js_bool (df_required f) @ nl @ ''          schema:'' @ nl @ ''            type: '' @ df_type f) params)
                 @ nl)
            @ body @ ''      responses:'' @ nl @ join nl responses)
            (those (map (openapi_response n flds) (response_statuses flds))))))"

text \<open>The operation of the draft in the workbench.\<close>

definition live_operation :: "(string \<Rightarrow> string option) \<Rightarrow> jsval option \<Rightarrow> string \<times> string" where
  "live_operation pathname draft =
     (let url = (case draft of None \<Rightarrow> [] | Some d \<Rightarrow> text_at d ''url'');
          http_method = (case draft of None \<Rightarrow> [] | Some d \<Rightarrow> toLowerCase (text_at d ''method''))
      in (case pathname (or_text url ''/'') of None \<Rightarrow> ''/'' | Some p \<Rightarrow> or_text p ''/'', or_text http_method ''get''))"

record design_env =
  de_texts :: design_texts
  de_uuid :: "nat \<Rightarrow> string"
  de_pathname :: "string \<Rightarrow> string option"

definition fieldsToDefinition :: "design_env \<Rightarrow> jsval option \<Rightarrow> DefinitionField list \<Rightarrow> string \<Rightarrow> OpenApiVersion \<Rightarrow> BodyDesignMode
    \<Rightarrow> props \<Rightarrow> ResponseDefinition list \<Rightarrow> string option" where
  "fieldsToDefinition E draft flds protocol version bodyMode security responses =
     (if protocol = ''grpc'' then Some (proto_text flds)
      else if protocol = ''graphql'' then Some (graphql_text flds)
      else if protocol = ''sql'' then Some (sql_text flds)
      else
        (let operation = live_operation (de_pathname E) (if protocol = ''http'' then draft else None);
             extensions = design_extensions flds security
               (if responses = [] then legacy_responses (de_texts E) (de_uuid E) flds else responses);
             n = Suc (length flds)
         in if version = V20 then swagger_text n flds extensions operation
            else openapi_text n flds version bodyMode extensions operation))"

end
