(* ===== verification/DesignSync.thy ===== *)
theory DesignSync imports DesignWriter InterfaceStructure AppState "HOL-Library.AList" begin

text \<open>
  The design and the request that is being debugged (\<^verbatim>\<open>packages/ui/src/InterfaceLifecycle.tsx\<close>): writing the designed names
  into the draft of the HTTP workbench, reading a design from a draft, and handing the result to the workbench. The members
  of a draft the code reads or writes are fields of a record; the others are carried along. Parsing an address is the
  platform's, a parameter. The recursion over the parents of body fields carries fuel.
\<close>

section \<open>Drafts\<close>

record draft_part =
  dp_name :: string
  dp_value :: string
  dp_fileName :: "string option"
  dp_contentType :: string

record HttpDebugDraft =
  dd_url :: string
  dd_method :: string
  dd_headers :: header_list
  dd_body :: "string option"
  dd_bodyEncoding :: "string option"
  dd_multipart :: "draft_part list option"
  dd_auth :: jsval
  dd_metadata :: props
  dd_rest :: props

datatype sync_error = InvalidAddress | EndlessExample

section \<open>A design in the draft\<close>

definition responses_metadata :: "DefinitionField list \<Rightarrow> ResponseDefinition list \<Rightarrow> jsval" where
  "responses_metadata flds responses =
     JArr (if responses \<noteq> [] then
             map (\<lambda>r. JObj (spread (spread_entries (response_val r))
                [(''status'', JStr (rd_statusCode r)),
                 (''fields'', JArr (map field_val (filter (\<lambda>f. is_response_scope (df_scope f)
                    \<and> in_response (Some (rd_id r)) (rd_statusCode r) f) flds)))])) responses
           else
             map (\<lambda>s. JObj [(''status'', JStr s),
                 (''fields'', JArr (map field_val (filter (\<lambda>f. is_response_scope (df_scope f) \<and> status_of f = s) flds)))])
               (response_statuses flds))"

definition named_in :: "DefinitionScope \<Rightarrow> DefinitionField list \<Rightarrow> DefinitionField list" where
  "named_in scope flds = filter (\<lambda>f. df_scope f = scope \<and> trim (df_name f) \<noteq> []) flds"

definition merged_params :: "DefinitionField list \<Rightarrow> (string \<times> string) list \<Rightarrow> (string \<times> string) list" where
  "merged_params flds params =
     fold (\<lambda>f ps. if df_name f \<in> fst ` set ps then ps else params_set (df_name f) [] ps) (named_in ''request.params'' flds) params"

definition merged_url :: "url_env \<Rightarrow> DefinitionField list \<Rightarrow> string \<Rightarrow> string option" where
  "merged_url U flds url =
     map_option (\<lambda>parsed.
         let query = form_serialize (merged_params flds (pu_params parsed));
             path = takeWhile (\<lambda>c. c \<noteq> CHR ''?'' \<and> c \<noteq> CHR ''#'') url
         in (if path = [] then url else path) @ (if query = [] then [] else ''?'' @ query))
       (ue_parse U (url_or_root url))"

definition merged_headers :: "DefinitionField list \<Rightarrow> header_list \<Rightarrow> header_list" where
  "merged_headers flds headers =
     fold (\<lambda>f hs. if list_ex (\<lambda>(name, _). toLowerCase name = toLowerCase (df_name f)) hs then hs else hs @ [(df_name f, [])])
       (named_in ''request.headers'' flds) headers"

text \<open>The cookies of the headers: the text after a second \<^verbatim>\<open>=\<close> is cut off. A map keeps the place of a name that is set again.\<close>

definition cookie_item :: "string \<Rightarrow> string \<times> string" where
  "cookie_item item =
     (case take 2 (split (CHR ''='') (trim item)) of
        [name, v] \<Rightarrow> (name, v) | [name] \<Rightarrow> (name, []) | _ \<Rightarrow> ([], []))"

definition named_header :: "string \<Rightarrow> string \<times> string \<Rightarrow> bool" where
  "named_header name h = (toLowerCase (fst h) = name)"

definition draft_cookies :: "header_list \<Rightarrow> (string \<times> string) list" where
  "draft_cookies headers =
     fold (\<lambda>(name, v). AList.update name v)
       (filter (\<lambda>(name, _). name \<noteq> [])
          (map cookie_item (concat (map (\<lambda>h. split (CHR '';'') (snd h)) (filter (named_header ''cookie'') headers))))) []"

definition merged_cookies :: "DefinitionField list \<Rightarrow> (string \<times> string) list \<Rightarrow> (string \<times> string) list" where
  "merged_cookies flds cookies =
     fold (\<lambda>f cs. if df_name f \<in> fst ` set cs then cs else AList.update (df_name f) [] cs) (named_in ''request.cookies'' flds) cookies"

definition with_cookies :: "(string \<times> string) list \<Rightarrow> header_list \<Rightarrow> header_list" where
  "with_cookies cookies headers =
     filter (\<lambda>h. \<not> named_header ''cookie'' h) headers
     @ (if cookies = [] then [] else [(''Cookie'', join ''; '' (map (\<lambda>(name, v). name @ ''='' @ v) cookies))])"

definition with_content_type :: "BodyDesignMode \<Rightarrow> header_list \<Rightarrow> header_list" where
  "with_content_type bodyMode headers =
     filter (\<lambda>h. \<not> named_header ''content-type'' h) headers
     @ (case design_content_type bodyMode of
          None \<Rightarrow> []
        | Some t \<Rightarrow> if bodyMode = DesignFormData then [] else [(''Content-Type'', t)])"

fun exampleFor :: "nat \<Rightarrow> DefinitionField list \<Rightarrow> DefinitionField \<Rightarrow> jsval option" where
  "exampleFor 0 bfs f = None"
| "exampleFor (Suc n) bfs f =
     (if or_default (df_example f) [] \<noteq> [] then Some (JStr (the (df_example f)))
      else
        (let children = field_children bfs (df_id f) in
         if df_type f = ''object'' then
           map_option (\<lambda>vs. JObj (fromEntries (zip (map df_name children) vs))) (those (map (exampleFor n bfs) children))
         else if df_type f = ''array'' then
           (case children of [] \<Rightarrow> Some (JArr []) | c # _ \<Rightarrow> map_option (\<lambda>v. JArr [v]) (exampleFor n bfs c))
         else Some (if df_type f = ''boolean'' then JBool False
                    else if df_type f = ''integer'' \<or> df_type f = ''number'' then JNum (NInt 0) else JStr [])))"

definition body_example :: "DefinitionField list \<Rightarrow> DefinitionField list \<Rightarrow> jsval option" where
  "body_example bfs roots =
     map_option (\<lambda>vs. JObj (fromEntries (zip (map df_name roots) vs))) (those (map (exampleFor (Suc (length bfs)) bfs) roots))"

definition form_part :: "DefinitionField \<Rightarrow> draft_part" where
  "form_part f =
     \<lparr> dp_name = df_name f, dp_value = or_default (df_example f) [],
       dp_fileName = (if df_type f = ''file'' then Some [] else None),
       dp_contentType = (if df_type f = ''file'' then ''application/octet-stream'' else ''text/plain'') \<rparr>"

definition merged_body :: "BodyDesignMode \<Rightarrow> DefinitionField list \<Rightarrow> HttpDebugDraft \<Rightarrow> (sync_error, HttpDebugDraft) result" where
  "merged_body bodyMode bfs draft =
     (let roots = schema_roots bfs in
      case bodyMode of
        DesignNone \<Rightarrow> Inr (draft\<lparr> dd_body := Some [], dd_multipart := Some [] \<rparr>)
      | DesignFormData \<Rightarrow> Inr (draft\<lparr> dd_body := Some [], dd_multipart := Some (map form_part roots) \<rparr>)
      | DesignUrlencoded \<Rightarrow>
          Inr (draft\<lparr> dd_body := Some (form_serialize (map (\<lambda>f. (df_name f, or_default (df_example f) [])) roots)) \<rparr>)
      | DesignBinary \<Rightarrow> Inr (draft\<lparr> dd_body := Some [], dd_bodyEncoding := Some ''base64'' \<rparr>)
      | _ \<Rightarrow>
          if bfs \<noteq> [] \<and> trim (or_default (dd_body draft) []) = [] then
            (case body_example bfs roots of
               None \<Rightarrow> Inl EndlessExample
             | Some v \<Rightarrow> Inr (draft\<lparr> dd_body := Some (json_text 2 0 v) \<rparr>))
          else Inr draft)"

definition mergeDesignIntoHttpDraft :: "url_env \<Rightarrow> HttpDebugDraft \<Rightarrow> DefinitionField list \<Rightarrow> BodyDesignMode \<Rightarrow> ResponseDefinition list
    \<Rightarrow> (sync_error, HttpDebugDraft) result" where
  "mergeDesignIntoHttpDraft U draft flds bodyMode responses =
     (case merged_url U flds (dd_url draft) of
        None \<Rightarrow> Inl InvalidAddress
      | Some url \<Rightarrow>
          (let headers = merged_headers flds (dd_headers draft);
               cookies = merged_cookies flds (draft_cookies headers)
           in merged_body bodyMode (named_in ''request.body'' flds)
                (draft\<lparr> dd_url := url, dd_headers := with_content_type bodyMode (with_cookies cookies headers),
                   dd_metadata := def_prop ''__apivoyResponseDefinitions'' (responses_metadata flds responses) (dd_metadata draft) \<rparr>)))"

section \<open>A design from the draft\<close>

text \<open>The fields of a draft are numbered in the order they are made: the field at place \<open>n\<close> has the identifier \<open>uuid n\<close>.\<close>

definition draft_named_field :: "(nat \<Rightarrow> string) \<Rightarrow> DefinitionScope \<Rightarrow> string \<Rightarrow> DefinitionField list \<Rightarrow> DefinitionField list" where
  "draft_named_field uuid scope name flds = flds @ [parsed_field (uuid (length flds)) name ''string'' False [] scope None]"

definition body_field_type :: "jsval \<Rightarrow> string" where
  "body_field_type v =
     (case v of
        JArr _ \<Rightarrow> ''array''
      | JNum n \<Rightarrow> (case n of NInt _ \<Rightarrow> ''integer'' | _ \<Rightarrow> ''number'')
      | JBool _ \<Rightarrow> ''boolean''
      | JObj _ \<Rightarrow> ''object''
      | _ \<Rightarrow> ''string'')"

definition draft_body_field :: "string \<Rightarrow> string \<Rightarrow> jsval \<Rightarrow> string option \<Rightarrow> DefinitionField" where
  "draft_body_field i name v parentId =
     (parsed_field i name (body_field_type v) False [] ''request.body'' None)
       \<lparr> df_parentId := parentId, df_example := (if typeof v = ''object'' then None else Some (if nullish v then [] else js_String v)) \<rparr>"

function addBodyField :: "(nat \<Rightarrow> string) \<Rightarrow> string \<Rightarrow> jsval \<Rightarrow> string option \<Rightarrow> DefinitionField list \<Rightarrow> DefinitionField list" where
  "addBodyField uuid name v parentId flds =
     (let i = uuid (length flds); flds' = flds @ [draft_body_field i name v parentId] in
      case v of
        JArr [] \<Rightarrow> flds' @ [draft_body_field (uuid (length flds')) ''items'' (JStr []) (Some i)]
      | JArr (x # _) \<Rightarrow> addBodyField uuid ''items'' x (Some i) flds'
      | JObj ps \<Rightarrow> fold (\<lambda>(k, item). addBodyField uuid k item (Some i)) ps flds'
      | _ \<Rightarrow> flds')"
  by pat_completeness auto
termination
  by (relation "measure (\<lambda>(uuid, name, v, parentId, flds). size v)") (auto intro: size_prop_less)

declare addBodyField.simps [simp del]

definition DRAFT_IGNORED :: "string list" where
  "DRAFT_IGNORED = [''authorization'', ''cookie'', ''content-type'', ''content-length'', ''host'', ''connection'', ''user-agent'',
     ''accept'', ''accept-encoding'']"

definition body_text_fields :: "(nat \<Rightarrow> string) \<Rightarrow> string \<Rightarrow> DefinitionField list \<Rightarrow> DefinitionField list" where
  "body_text_fields uuid body flds =
     (if trim body = [] then flds
      else (case JSON_parse body of
              Some (JObj ps) \<Rightarrow> fold (\<lambda>(k, item). addBodyField uuid k item None) ps flds
            | Some (JArr xs) \<Rightarrow> addBodyField uuid ''items'' (JArr xs) None flds
            | _ \<Rightarrow> flds))"

definition definitionFieldsFromHttpDraft :: "url_env \<Rightarrow> (nat \<Rightarrow> string) \<Rightarrow> HttpDebugDraft \<Rightarrow> DefinitionField list" where
  "definitionFieldsFromHttpDraft U uuid draft =
     (let params = (case ue_parse U (url_or_root (dd_url draft)) of None \<Rightarrow> [] | Some parsed \<Rightarrow> uniq (map fst (pu_params parsed)));
          headers = filter (\<lambda>name. name \<noteq> [] \<and> toLowerCase name \<notin> set DRAFT_IGNORED) (map (trim \<circ> fst) (dd_headers draft))
      in body_text_fields uuid (or_default (dd_body draft) [])
           (fold (draft_named_field uuid ''request.headers'') headers (fold (draft_named_field uuid ''request.params'') params [])))"

section \<open>Handing the request over\<close>

definition header_pair_of :: "jsval \<Rightarrow> string \<times> string" where
  "header_pair_of v = (text_at v ''0'', text_at v ''1'')"

definition DRAFT_KEYS :: "string list" where
  "DRAFT_KEYS = [''url'', ''method'', ''headers'', ''body'', ''bodyEncoding'', ''multipart'', ''auth'', ''metadata'']"

text \<open>The stored draft read at its declared type, and the request as a value; the multipart parts of a stored draft are
  replaced or carried along.\<close>

definition part_of :: "jsval \<Rightarrow> draft_part" where
  "part_of v = \<lparr> dp_name = text_at v ''name'', dp_value = text_at v ''value'', dp_fileName = opt_text_at v ''fileName'',
     dp_contentType = text_at v ''contentType'' \<rparr>"

definition draft_of :: "jsval \<Rightarrow> HttpDebugDraft" where
  "draft_of v =
     \<lparr> dd_url = text_at v ''url'', dd_method = text_at v ''method'', dd_headers = map header_pair_of (elements (js_get v ''headers'')),
       dd_body = opt_text_at v ''body'', dd_bodyEncoding = opt_text_at v ''bodyEncoding'',
       dd_multipart = (case js_get v ''multipart'' of JArr xs \<Rightarrow> Some (map part_of xs) | _ \<Rightarrow> None),
       dd_auth = js_get v ''auth'', dd_metadata = spread_entries (js_get v ''metadata''),
       dd_rest = filter (\<lambda>(k, _). k \<notin> set DRAFT_KEYS) (spread_entries v) \<rparr>"

definition empty_draft :: HttpDebugDraft where
  "empty_draft =
     \<lparr> dd_url = [], dd_method = ''GET'', dd_headers = [], dd_body = Some [], dd_bodyEncoding = None, dd_multipart = None,
       dd_auth = JNull, dd_metadata = [],
       dd_rest = [(''timeoutMs'', JNum (NInt 30000)), (''variables'', JObj []), (''assertions'', JArr []), (''followRedirects'', JBool True),
         (''retryMax'', JNum (NInt 0)), (''retryBackoffMs'', JNum (NInt 250)), (''proxy'', JNull), (''tlsVerify'', JBool True)] \<rparr>"

definition draft_part_val :: "draft_part \<Rightarrow> jsval" where
  "draft_part_val p =
     JObj ([(''name'', JStr (dp_name p)), (''value'', JStr (dp_value p))] @ opt_member ''fileName'' (dp_fileName p)
           @ [(''contentType'', JStr (dp_contentType p)), (''base64'', JBool False)])"

definition draft_val :: "HttpDebugDraft \<Rightarrow> jsval" where
  "draft_val d =
     JObj (spread (dd_rest d)
       ([(''url'', JStr (dd_url d)), (''method'', JStr (dd_method d)),
         (''headers'', JArr (map (\<lambda>(n, v). JArr [JStr n, JStr v]) (dd_headers d)))]
        @ opt_member ''body'' (dd_body d) @ opt_member ''bodyEncoding'' (dd_bodyEncoding d)
        @ (case dd_multipart d of None \<Rightarrow> [] | Some ps \<Rightarrow> [(''multipart'', JArr (map draft_part_val ps))])
        @ [(''auth'', dd_auth d), (''metadata'', JObj (dd_metadata d))]))"

definition design_auth :: "props \<Rightarrow> jsval \<Rightarrow> jsval" where
  "design_auth security auth =
     (let scheme = text_at (JObj security) ''authScheme'';
          existing = (if is_object auth then spread_entries auth else [])
      in if scheme = ''none'' then JNull
         else JObj (spread (spread (spread existing [(''kind'', JStr (if scheme = ''apiKey'' then ''api_key'' else scheme))])
                (if scheme = ''apiKey'' then [(''header_name'', obj_get security ''apiKeyName'')] else []))
                [(''token'', JNull),
                 (''secret_ref'', case obj_get existing ''secret_ref'' of JStr r \<Rightarrow> JStr r | _ \<Rightarrow> JNull)]))"

definition syncDesignToDebug :: "url_env \<Rightarrow> string \<Rightarrow> DefinitionField list \<Rightarrow> BodyDesignMode \<Rightarrow> props option \<Rightarrow> string option
    \<Rightarrow> ResponseDefinition list \<Rightarrow> jsval option \<Rightarrow> HydratePayload option \<Rightarrow> (sync_error, HydratePayload option) result" where
  "syncDesignToDebug U workbenchId flds bodyMode security projectId responses stored pending =
     (if workbenchId \<noteq> ''http'' then Inr pending
      else
        map_sum id (\<lambda>request.
            let tagged = request\<lparr> dd_metadata := def_prop ''__apivoyProjectId'' (case projectId of None \<Rightarrow> JUndef | Some p \<Rightarrow> JStr p)
                  (dd_metadata request) \<rparr>;
                guarded = (case security of None \<Rightarrow> tagged | Some policy \<Rightarrow> tagged\<lparr> dd_auth := design_auth policy (dd_auth tagged) \<rparr>)
            in stashHydrate \<lparr> hy_workbenchId = ''http'', hy_sessionId = None, hy_protocolId = None,
                 hy_envelope = JObj [(''request'', draft_val guarded)] \<rparr> pending)
          (mergeDesignIntoHttpDraft U (case stored of None \<Rightarrow> empty_draft | Some v \<Rightarrow> draft_of v) flds bodyMode responses))"

end
