(* ===== verification/DesignDocument.thy ===== *)
theory DesignDocument imports DesignSync begin

text \<open>
  The document view of a definition (\<^verbatim>\<open>packages/ui/src/InterfaceLifecycle.tsx\<close>): the operation and the authentication it
  names, the examples of fields, the example object built from them, and the tree of the structure panel. The example object
  is built in a store of objects, since a nested object is filled after it was put into its parent.
\<close>

section \<open>Operation and authentication\<close>

definition PATHS_LINE :: re where "PATHS_LINE = RSeqs [RBol, RSpaces, RLit ''paths'', RSpaces, RLit '':'', RSpaces, REol]"

definition PATH_LINE :: re where
  "PATH_LINE = RSeqs [RBol, RSpace, RSpace, RGroup 1 (RSeq RNonSpace (RStar (RNone '':''))), RSpaces, RLit '':'', RSpaces, REol]"

definition METHOD_LINE :: re where
  "METHOD_LINE = RSeqs [RBol, RSpace, RSpace, RSpace, RSpace,
     RGroup 1 (RAlts (map RLitI [''get'', ''post'', ''put'', ''patch'', ''delete'', ''head'', ''options'', ''trace''])),
     RSpaces, RLit '':'', RSpaces, REol]"

definition NEXT_PATH :: re where "NEXT_PATH = RSeqs [RBol, RSpace, RSpace, RNonSpace]"

definition EDGE_QUOTES :: re where "EDGE_QUOTES = RAlt (RSeq RBol QUOTES) (RSeq QUOTES REol)"

definition without_quotes :: "string \<Rightarrow> string" where
  "without_quotes s = rreplaceAll EDGE_QUOTES (\<lambda>_. []) s"

fun first_method :: "string list \<Rightarrow> string option" where
  "first_method [] = None"
| "first_method (l # ls) =
     (case group_of METHOD_LINE 1 l of
        Some m \<Rightarrow> Some (toUpperCase m)
      | None \<Rightarrow> if rtest NEXT_PATH l then None else first_method ls)"

fun first_operation :: "string list \<Rightarrow> (string \<times> string) option" where
  "first_operation [] = None"
| "first_operation (l # ls) =
     (case group_of PATH_LINE 1 l of
        None \<Rightarrow> first_operation ls
      | Some path \<Rightarrow>
          (case first_method ls of Some m \<Rightarrow> Some (m, without_quotes path) | None \<Rightarrow> first_operation ls))"

record document_operation =
  do_method :: string
  do_path :: string
  do_live :: bool

definition documentOperation :: "string \<Rightarrow> string \<Rightarrow> HttpDebugDraft option \<Rightarrow> document_operation" where
  "documentOperation content workbenchId request =
     (let url = (case request of None \<Rightarrow> [] | Some r \<Rightarrow> trim (dd_url r)) in
      if workbenchId = ''http'' \<and> url \<noteq> [] then
        \<lparr> do_method = or_text (toUpperCase (dd_method (the request))) ''HTTP'', do_path = url, do_live = True \<rparr>
      else if workbenchId \<noteq> ''http'' then
        \<lparr> do_method = toUpperCase workbenchId, do_path = ''Current operation'', do_live = False \<rparr>
      else
        (case dropWhile (\<lambda>l. \<not> rtest PATHS_LINE l) (text_lines content) of
           [] \<Rightarrow> \<lparr> do_method = ''HTTP'', do_path = ''/current'', do_live = False \<rparr>
         | _ # ls \<Rightarrow>
             (case first_operation ls of
                Some (m, path) \<Rightarrow> \<lparr> do_method = m, do_path = path, do_live = False \<rparr>
              | None \<Rightarrow> \<lparr> do_method = ''HTTP'', do_path = ''/current'', do_live = False \<rparr>)))"

text \<open>The label is that of the kind, in the language of the interface for \<^verbatim>\<open>none\<close>.\<close>

definition AUTH_LABELS :: "(string \<times> string) list" where
  "AUTH_LABELS = [(''bearer'', ''Bearer Token''), (''basic'', ''Basic Auth''), (''api_key'', ''API Key''), (''apiKey'', ''API Key''),
     (''oauth2'', ''OAuth 2.0''), (''oauth2_client_credentials'', ''OAuth 2.0 Client Credentials''),
     (''oauth2_authorization_code'', ''OAuth 2.0 Authorization Code'')]"

record document_auth =
  da_kind :: string
  da_label :: "string option"
  da_apiKeyName :: string
  da_apiKeyIn :: string
  da_tokenUrl :: "string option"
  da_authorizationUrl :: "string option"
  da_scopes :: string
  da_audience :: "string option"

definition documentAuth :: "jsval \<Rightarrow> props \<Rightarrow> document_auth" where
  "documentAuth auth policy =
     (let policy_text = text_at (JObj policy);
          stored = text_at auth ''kind'';
          kind = or_text (if stored \<noteq> [] \<and> stored \<noteq> ''none'' then stored else policy_text ''authScheme'') ''none''
      in \<lparr> da_kind = kind,
           da_label = (if kind = ''none'' then None else Some (or_default (map_of AUTH_LABELS kind) kind)),
           da_apiKeyName = or_text (text_at auth ''header_name'') (policy_text ''apiKeyName''),
           da_apiKeyIn = (if stored = ''api_key'' then ''header'' else policy_text ''apiKeyIn''),
           da_tokenUrl = opt_text_at auth ''token_url'',
           da_authorizationUrl = opt_text_at auth ''authorization_url'',
           da_scopes = or_text (text_at auth ''scope'') (policy_text ''scopes''),
           da_audience = opt_text_at auth ''audience'' \<rparr>)"

section \<open>Examples\<close>

definition fieldExample :: "DefinitionField \<Rightarrow> string" where
  "fieldExample f =
     (if or_default (df_example f) [] \<noteq> [] then the (df_example f)
      else if df_type f = ''boolean'' then ''true''
      else if df_type f = ''integer'' \<or> df_type f = ''number'' then ''0''
      else if df_type f = ''array'' then ''[]''
      else if df_type f = ''object'' then ''{}''
      else [QUOTE] @ ''string'' @ [QUOTE])"

definition documentExampleValue :: "DefinitionField \<Rightarrow> jsval" where
  "documentExampleValue f =
     (let raw = trim (or_default (df_example f) []) in
      if raw \<noteq> [] then (case JSON_parse raw of Some v \<Rightarrow> v | None \<Rightarrow> JStr (without_quotes raw))
      else if df_type f = ''boolean'' then JBool True
      else if df_type f = ''integer'' \<or> df_type f = ''number'' then JNum (NInt 0)
      else if df_type f = ''array'' then JArr []
      else if df_type f = ''object'' then JObj []
      else JStr ''string'')"

text \<open>The objects of the store are numbered; 0 is the result. A property holds a value or the number of an object, and an
  object is put into an older one only, so reading the result back ends.\<close>

datatype cell = CVal jsval | CObj nat

record example_store =
  es_objects :: "(string \<times> cell) list list"
  es_known :: "(string \<times> nat) list" \<comment> \<open>the objects of object fields, the latest first\<close>

definition put_example :: "DefinitionField \<Rightarrow> example_store \<Rightarrow> example_store" where
  "put_example f st =
     (let parent = (if or_default (df_parentId f) [] = [] then Some 0 else map_of (es_known st) (the (df_parentId f))) in
      if df_name f = [] \<or> parent = None then st
      else
        (let new = length (es_objects st);
             write = (\<lambda>c objects. objects[the parent := set_prop (df_name f) c (objects ! the parent)])
         in case (df_type f = ''object'', documentExampleValue f) of
              (True, JObj ps) \<Rightarrow>
                st\<lparr> es_objects := write (CObj new) (es_objects st) @ [map (\<lambda>(k, v). (k, CVal v)) ps],
                    es_known := (df_id f, new) # es_known st \<rparr>
            | (_, v) \<Rightarrow> st\<lparr> es_objects := write (CVal v) (es_objects st) \<rparr>))"

function read_example :: "(string \<times> cell) list list \<Rightarrow> nat \<Rightarrow> jsval" where
  "read_example objects n =
     (if n < length objects then
        JObj (map (\<lambda>(k, c). (k, case c of CVal v \<Rightarrow> v | CObj m \<Rightarrow> if n < m then read_example objects m else JUndef)) (objects ! n))
      else JUndef)"
  by pat_completeness auto
termination by (relation "measure (\<lambda>(objects, n). length objects - n)") auto

definition buildDocumentObjectExample :: "DefinitionField list \<Rightarrow> jsval" where
  "buildDocumentObjectExample flds =
     read_example (es_objects (fold put_example flds \<lparr> es_objects = [[]], es_known = [] \<rparr>)) 0"

section \<open>The structure panel\<close>

fun renderFields :: "nat \<Rightarrow> DefinitionField list \<Rightarrow> string option \<Rightarrow> nat \<Rightarrow> (DefinitionField \<times> nat) list option" where
  "renderFields 0 items parentId depth = None"
| "renderFields (Suc n) items parentId depth =
     map_option concat (those (map (\<lambda>f. map_option ((#) (f, depth))
         (if field_children items (df_id f) = [] then Some [] else renderFields n items (Some (df_id f)) (depth + 1)))
       (filter (\<lambda>f. df_parentId f = parentId) items)))"

definition structure_scope :: "DefinitionField list \<Rightarrow> DefinitionScope \<Rightarrow> ResponseDefinition option \<Rightarrow> DefinitionField list" where
  "structure_scope flds scope response =
     filter (\<lambda>f. df_scope f = scope
       \<and> (case response of None \<Rightarrow> True | Some r \<Rightarrow> in_response (Some (rd_id r)) (rd_statusCode r) f)) flds"

definition renderScope :: "DefinitionField list \<Rightarrow> DefinitionScope \<Rightarrow> ResponseDefinition option \<Rightarrow> (DefinitionField \<times> nat) list option" where
  "renderScope flds scope response = renderFields (Suc (length flds)) (structure_scope flds scope response) None 0"

definition responseStatusMeta :: "string \<Rightarrow> string" where
  "responseStatusMeta status =
     (if status = ''default'' then ''default''
      else if startsWith status ''2'' then ''success'' else if startsWith status ''3'' then ''redirect''
      else if startsWith status ''4'' then ''client-error'' else if startsWith status ''5'' then ''server-error'' else ''info'')"

end
