(* ===== verification/DesignPanel.thy ===== *)
theory DesignPanel imports DesignDocument begin

text \<open>
  The panel that edits a definition (\<^verbatim>\<open>DefinitionPanel\<close> in \<^verbatim>\<open>packages/ui/src/InterfaceLifecycle.tsx\<close>). A handler belongs to the
  render that created it: what it reads from the state is the state of that render, the argument \<open>c\<close>, while its writes and
  its reads of references go to the present state \<open>s\<close>. \<open>None\<close> is a text whose writing did not end. Messages are
  constructors. A text that is not a body mode counts as absent.
\<close>

section \<open>State\<close>

datatype panel_message =
    NoMessage | HasParseErrors | SavingDefinition | SaveFailed "string option" | SavedDefinition | SavedAdvanced
  | SavedUnbound | BindingFailed "string option" | VersionChanged OpenApiVersion | BodyModeChanged BodyDesignMode
  | SourceRejected | Reparsed | ReparsedAdvanced | SourceValid | FileLoaded string

record definition_panel =
  dp_definitionId :: string
  dp_content :: string
  dp_fields :: "DefinitionField list"
  dp_responses :: "ResponseDefinition list"
  dp_openApiVersion :: OpenApiVersion
  dp_bodyMode :: BodyDesignMode
  dp_security :: props
  dp_source :: bool \<comment> \<open>\<^verbatim>\<open>mode\<close>: the source, otherwise the visual editor\<close>
  dp_message :: panel_message
  dp_busy :: bool
  dp_lastSavedAt :: string
  dp_lastVisualContent :: string
  dp_lastValidFields :: "DefinitionField list"
  dp_sourceBaseline :: string
  dp_sourceDirty :: bool
  dp_parseIssues :: "DefinitionParseIssue list"
  dp_revealLine :: "nat option"
  dp_cache :: field_cache
  dp_pending :: "HydratePayload option" \<comment> \<open>the request handed to the workbench\<close>
  dp_draft_saves :: nat \<comment> \<open>how often the workbench was asked to save its draft\<close>

record panel_env =
  pe_design :: design_env
  pe_url :: url_env
  pe_workbench :: string
  pe_project :: string
  pe_title :: string
  pe_draft :: "jsval option" \<comment> \<open>the stored draft of the HTTP workbench\<close>
  pe_components :: "jsval list" \<comment> \<open>the response components of the project\<close>
  pe_json_message :: "string \<Rightarrow> string"
  pe_wide :: "nat \<Rightarrow> string"
  pe_now :: string
  pe_uuid :: "nat \<Rightarrow> string"
  pe_response_uuid :: "nat \<Rightarrow> string"
  pe_component_uuid :: "nat \<Rightarrow> nat \<Rightarrow> string"

text \<open>The hand-over fails when the address cannot be read; the statements after it are then skipped.\<close>

definition panel_sync :: "panel_env \<Rightarrow> DefinitionField list \<Rightarrow> BodyDesignMode \<Rightarrow> props \<Rightarrow> ResponseDefinition list
    \<Rightarrow> (definition_panel \<Rightarrow> definition_panel) \<Rightarrow> definition_panel \<Rightarrow> definition_panel" where
  "panel_sync E flds bodyMode security responses continue s =
     (case syncDesignToDebug (pe_url E) (pe_workbench E) flds bodyMode (Some security) (Some (pe_project E)) responses (pe_draft E) (dp_pending s) of
        Inl e \<Rightarrow> s
      | Inr pending \<Rightarrow> continue (s\<lparr> dp_pending := pending \<rparr>))"

definition panel_text :: "panel_env \<Rightarrow> DefinitionField list \<Rightarrow> OpenApiVersion \<Rightarrow> BodyDesignMode \<Rightarrow> props \<Rightarrow> ResponseDefinition list \<Rightarrow> string option" where
  "panel_text E flds version bodyMode security responses =
     fieldsToDefinition (pe_design E) (pe_draft E) flds (pe_workbench E) version bodyMode security responses"

definition panel_fields :: "panel_env \<Rightarrow> definition_panel \<Rightarrow> string \<Rightarrow> DefinitionField list" where
  "panel_fields E s content = parseDefinitionFields (dp_cache s) (pe_uuid E) content (pe_workbench E)"

definition panel_responses :: "panel_env \<Rightarrow> string \<Rightarrow> DefinitionField list \<Rightarrow> ResponseDefinition list" where
  "panel_responses E content flds = parseResponseDefinitions (de_texts (pe_design E)) (pe_response_uuid E) content flds"

definition panel_issues :: "panel_env \<Rightarrow> string \<Rightarrow> DefinitionParseIssue list" where
  "panel_issues E content = validateDefinitionSource (pe_json_message E) content (pe_workbench E)"

section \<open>Visual edits\<close>

definition write_content :: "string \<Rightarrow> definition_panel \<Rightarrow> definition_panel" where
  "write_content generated s = s\<lparr> dp_content := generated, dp_lastVisualContent := generated \<rparr>"

definition cached :: "string \<Rightarrow> DefinitionField list \<Rightarrow> definition_panel \<Rightarrow> definition_panel" where
  "cached generated flds s = s\<lparr> dp_cache := (dp_cache s)(generated \<mapsto> flds) \<rparr>"

definition updateFields :: "panel_env \<Rightarrow> definition_panel \<Rightarrow> DefinitionField list \<Rightarrow> definition_panel \<Rightarrow> definition_panel option" where
  "updateFields E c flds s =
     map_option (\<lambda>generated.
         panel_sync E flds (dp_bodyMode c) (dp_security c) (dp_responses c) id
           (write_content generated ((cached generated flds s)\<lparr> dp_fields := flds \<rparr>)))
       (panel_text E flds (dp_openApiVersion c) (dp_bodyMode c) (dp_security c) (dp_responses c))"

definition changeOpenApiVersion :: "panel_env \<Rightarrow> definition_panel \<Rightarrow> OpenApiVersion \<Rightarrow> definition_panel \<Rightarrow> definition_panel option" where
  "changeOpenApiVersion E c version s =
     (let chosen = s\<lparr> dp_openApiVersion := version \<rparr> in
      map_option (\<lambda>t. t\<lparr> dp_message := VersionChanged version \<rparr>)
        (if dp_fields c = [] then Some chosen
         else map_option (\<lambda>generated. write_content generated (cached generated (dp_fields c) chosen))
                (panel_text E (dp_fields c) version (dp_bodyMode c) (dp_security c) (dp_responses c))))"

definition changeBodyMode :: "panel_env \<Rightarrow> definition_panel \<Rightarrow> BodyDesignMode \<Rightarrow> definition_panel \<Rightarrow> definition_panel option" where
  "changeBodyMode E c bodyMode s =
     map_option (\<lambda>generated.
         panel_sync E (dp_fields c) bodyMode (dp_security c) (dp_responses c) (\<lambda>t. t\<lparr> dp_message := BodyModeChanged bodyMode \<rparr>)
           (write_content generated (cached generated (dp_fields c) (s\<lparr> dp_bodyMode := bodyMode \<rparr>))))
       (panel_text E (dp_fields c) (dp_openApiVersion c) bodyMode (dp_security c) (dp_responses c))"

definition changeSecurity :: "panel_env \<Rightarrow> definition_panel \<Rightarrow> props \<Rightarrow> definition_panel \<Rightarrow> definition_panel option" where
  "changeSecurity E c security s =
     map_option (\<lambda>generated.
         panel_sync E (dp_fields c) (dp_bodyMode c) security (dp_responses c) id
           (write_content generated (cached generated (dp_fields c) (s\<lparr> dp_security := security \<rparr>))))
       (panel_text E (dp_fields c) (dp_openApiVersion c) (dp_bodyMode c) security (dp_responses c))"

definition changeResponses :: "panel_env \<Rightarrow> definition_panel \<Rightarrow> ResponseDefinition list \<Rightarrow> definition_panel \<Rightarrow> definition_panel option" where
  "changeResponses E c responses s =
     map_option (\<lambda>generated.
         panel_sync E (dp_fields c) (dp_bodyMode c) (dp_security c) responses id
           (write_content generated (s\<lparr> dp_responses := responses \<rparr>)))
       (panel_text E (dp_fields c) (dp_openApiVersion c) (dp_bodyMode c) (dp_security c) responses)"

text \<open>One event of the visual editor may call both handlers of the same render: deleting a response, changing its status, adding a
  component.\<close>

definition edit_response :: "panel_env \<Rightarrow> definition_panel \<Rightarrow> ResponseDefinition list \<Rightarrow> DefinitionField list \<Rightarrow> definition_panel \<Rightarrow> definition_panel option" where
  "edit_response E c responses flds s = Option.bind (changeResponses E c responses s) (updateFields E c flds)"

section \<open>The source\<close>

definition first_error :: "DefinitionParseIssue list \<Rightarrow> DefinitionParseIssue option" where
  "first_error issues = find pi_error issues"

definition validateSource :: "panel_env \<Rightarrow> definition_panel \<Rightarrow> bool \<Rightarrow> definition_panel \<Rightarrow> definition_panel" where
  "validateSource E c showSuccess s =
     (let issues = panel_issues E (dp_content c);
          checked = s\<lparr> dp_parseIssues := issues, dp_revealLine := Option.bind (first_error issues) pi_line \<rparr>
      in if showSuccess \<and> issues = [] then checked\<lparr> dp_message := SourceValid \<rparr> else checked)"

text \<open>Entering the source mode keeps the fields; an effect of the change of mode copies them.\<close>

definition enterSourceMode :: "definition_panel \<Rightarrow> definition_panel \<Rightarrow> definition_panel" where
  "enterSourceMode c s =
     s\<lparr> dp_sourceBaseline := dp_content c, dp_sourceDirty := False, dp_parseIssues := [], dp_revealLine := None, dp_source := True,
        dp_lastValidFields := (if dp_source s then dp_lastValidFields s else dp_fields s) \<rparr>"

definition enterVisualMode :: "panel_env \<Rightarrow> definition_panel \<Rightarrow> definition_panel \<Rightarrow> definition_panel" where
  "enterVisualMode E c s =
     (if \<not> dp_sourceDirty s then s\<lparr> dp_parseIssues := [], dp_source := False \<rparr>
      else
        (let issues = panel_issues E (dp_content c); checked = validateSource E c False s in
         if first_error issues \<noteq> None then
           checked\<lparr> dp_fields := dp_lastValidFields s, dp_source := True, dp_message := SourceRejected \<rparr>
         else
           (let flds = (if dp_content c = dp_lastVisualContent s then dp_fields c else panel_fields E s (dp_content c))
            in checked\<lparr> dp_fields := flds, dp_responses := panel_responses E (dp_content c) flds, dp_lastVisualContent := dp_content c,
                 dp_sourceBaseline := dp_content c, dp_sourceDirty := False, dp_source := False,
                 dp_message := (if issues = [] then Reparsed else ReparsedAdvanced) \<rparr>)))"

definition formatSource :: "panel_env \<Rightarrow> definition_panel \<Rightarrow> definition_panel \<Rightarrow> definition_panel" where
  "formatSource E c s =
     (let formatted = formatDefinitionSource (dp_content c)
      in s\<lparr> dp_content := formatted, dp_parseIssues := panel_issues E formatted \<rparr>)"

definition editSource :: "panel_env \<Rightarrow> string \<Rightarrow> definition_panel \<Rightarrow> definition_panel" where
  "editSource E content s =
     (let dirty = (content \<noteq> dp_sourceBaseline s) in
      s\<lparr> dp_content := content, dp_sourceDirty := dirty, dp_parseIssues := (if dirty then [] else dp_parseIssues s),
         dp_openApiVersion := (if pe_workbench E = ''http'' then detectOpenApiVersion content else dp_openApiVersion s) \<rparr>)"

definition loadFile :: "panel_env \<Rightarrow> string \<Rightarrow> string \<Rightarrow> definition_panel \<Rightarrow> definition_panel" where
  "loadFile E name content s =
     (let flds = panel_fields E s content in
      s\<lparr> dp_content := content, dp_fields := flds, dp_responses := panel_responses E content flds,
         dp_openApiVersion := (if pe_workbench E = ''http'' then detectOpenApiVersion content else dp_openApiVersion s),
         dp_message := FileLoaded name \<rparr>)"

section \<open>Saving\<close>

definition FORMAT_BY_PROTOCOL :: "(string \<times> string) list" where
  "FORMAT_BY_PROTOCOL = [(''http'', ''openapi''), (''grpc'', ''protobuf''), (''graphql'', ''graphql-sdl''), (''rpc'', ''wsdl''),
     (''mqtt'', ''asyncapi''), (''amqp'', ''asyncapi''), (''kafka'', ''asyncapi''), (''sql'', ''sql-ddl'')]"

definition FILE_BY_PROTOCOL :: "(string \<times> string) list" where
  "FILE_BY_PROTOCOL = [(''http'', ''openapi.yaml''), (''grpc'', ''service.proto''), (''graphql'', ''schema.graphql''), (''rpc'', ''service.wsdl''),
     (''mqtt'', ''asyncapi.yaml''), (''amqp'', ''asyncapi.yaml''), (''kafka'', ''asyncapi.yaml''), (''sql'', ''schema.sql'')]"

record ApiDefinition =
  ad_id :: string
  ad_content :: string
  ad_updatedAt :: string

record save_input =
  sv_id :: "string option"
  sv_projectId :: string
  sv_name :: string
  sv_format :: string
  sv_fileName :: string
  sv_content :: string

text \<open>Names and details in the language of the user are stand-ins: '' definition'', ''no details''.\<close>

text \<open>The service as one save meets it: its answers to the calls, in the order of the calls.\<close>

record definition_service =
  ds_save :: "save_input \<Rightarrow> (thrown, ApiDefinition) result"
  ds_bind :: "string \<Rightarrow> thrown option"
  ds_list :: "(thrown, ApiDefinition list) result"
  ds_binding :: "(thrown, string option) result" \<comment> \<open>the identifier of the bound definition\<close>

definition UNSAVED_REQUEST :: re where
  "UNSAVED_REQUEST = RAlts [RLitI ''foreign key'', RSeqs [RLitI ''request'', RStar RAny, RLitI ''not found''], RLitI ''constraint'']"

definition binding_error :: "definition_service \<Rightarrow> ApiDefinition \<Rightarrow> thrown option" where
  "binding_error D saved =
     (case ds_bind D (ad_id saved) of
        Some e \<Rightarrow> Some e
      | None \<Rightarrow>
          (case (ds_list D, ds_binding D) of
             (Inl e, _) \<Rightarrow> Some e
           | (Inr items, Inl e) \<Rightarrow> Some e
           | (Inr items, Inr bound) \<Rightarrow>
               if list_ex (\<lambda>d. ad_id d = ad_id saved) items \<and> bound = Some (ad_id saved) then None
               else Some (ThrownError ''binding check failed'')))"

definition binding_message :: "panel_env \<Rightarrow> thrown \<Rightarrow> panel_message" where
  "binding_message E e =
     (let detail = readableDefinitionError (pe_wide E) e ''no details'' in
      if (case detail of None \<Rightarrow> False | Some d \<Rightarrow> rtest UNSAVED_REQUEST d) then SavedUnbound else BindingFailed detail)"

definition definition_input :: "panel_env \<Rightarrow> definition_panel \<Rightarrow> string \<Rightarrow> save_input" where
  "definition_input E c content =
     \<lparr> sv_id = (if dp_definitionId c = [] then None else Some (dp_definitionId c)), sv_projectId = pe_project E,
       sv_name = pe_title E @ '' definition'',
       sv_format = or_default (map_of FORMAT_BY_PROTOCOL (pe_workbench E)) (pe_workbench E),
       sv_fileName = or_default (map_of FILE_BY_PROTOCOL (pe_workbench E)) (pe_workbench E @ ''.txt''), sv_content = content \<rparr>"

text \<open>The content that is saved: what the editor shows, or a text for the fields when it is empty.\<close>

definition definition_content :: "panel_env \<Rightarrow> definition_panel \<Rightarrow> string option" where
  "definition_content E c =
     (if trim (dp_content c) \<noteq> [] then Some (dp_content c)
      else panel_text E (dp_fields c) (dp_openApiVersion c) (dp_bodyMode c) (dp_security c) (dp_responses c))"

text \<open>The state after a save and the input the service was given; the effect of a new \<open>dp_lastSavedAt\<close>, which hands the design over
  again, is \<open>after_save\<close>.\<close>

definition saveDefinition :: "panel_env \<Rightarrow> definition_service \<Rightarrow> definition_panel \<Rightarrow> definition_panel \<Rightarrow> (definition_panel \<times> save_input option) option" where
  "saveDefinition E D c s =
     map_option (\<lambda>content.
         let shown = (if trim (dp_content c) = [] then write_content content s else s);
             issues = panel_issues E content;
             checked = shown\<lparr> dp_parseIssues := issues \<rparr>
         in case first_error issues of
              Some issue \<Rightarrow> (checked\<lparr> dp_revealLine := pi_line issue, dp_source := True, dp_message := HasParseErrors \<rparr>, None)
            | None \<Rightarrow>
                let input = definition_input E c content in
                (case ds_save D input of
                   Inl e \<Rightarrow>
                     (checked\<lparr> dp_message := SaveFailed (readableDefinitionError (pe_wide E) e ''no details''), dp_busy := False \<rparr>, Some input)
                 | Inr saved \<Rightarrow>
                     (checked\<lparr> dp_definitionId := ad_id saved,
                        dp_lastSavedAt := (if ad_updatedAt saved = [] then pe_now E else ad_updatedAt saved),
                        dp_message := (case binding_error D saved of
                             Some e \<Rightarrow> binding_message E e
                           | None \<Rightarrow> if issues \<noteq> [] then SavedAdvanced else SavedDefinition),
                        dp_draft_saves :=
                          (if binding_error D saved = None \<and> pe_workbench E = ''http'' then Suc (dp_draft_saves s) else dp_draft_saves s),
                        dp_busy := False \<rparr>, Some input)))
       (definition_content E c)"

definition after_save :: "panel_env \<Rightarrow> definition_panel \<Rightarrow> definition_panel \<Rightarrow> definition_panel" where
  "after_save E c s =
     (if dp_lastSavedAt c = [] then s
      else panel_sync E (panel_fields E s (dp_content c)) (dp_bodyMode c) (dp_security c) (dp_responses c) id s)"

section \<open>Loading\<close>

definition BODY_MODE_LINE :: re where
  "BODY_MODE_LINE = RSeqs [RBolM, RSpaces, RLit ''x-apivoy-body-mode:'', RSpaces, RGroup 1 DASHED]"

definition REQUEST_BODY :: re where "REQUEST_BODY = RSeqs [RLit ''requestBody'', RSpaces, RLit '':'']"

definition body_modes :: "BodyDesignMode list" where
  "body_modes = [DesignNone, DesignFormData, DesignUrlencoded, DesignJson, DesignXml, DesignText, DesignBinary, DesignGraphql]"

definition written_body_mode :: "string \<Rightarrow> BodyDesignMode option" where
  "written_body_mode content =
     Option.bind (group_of BODY_MODE_LINE 1 content) (\<lambda>t. find (\<lambda>m. body_mode_id m = t) body_modes)"

definition new_responses :: "panel_env \<Rightarrow> jsval list \<Rightarrow> ResponseDefinition list" where
  "new_responses E components =
     (if components = [] then [defaultResponseDefinition (de_texts (pe_design E)) (pe_response_uuid E 0) ''200'']
      else map (\<lambda>(i, v). typed_component_response (pe_response_uuid E i) v) (enumerate 0 components))"

definition new_component_fields :: "panel_env \<Rightarrow> jsval list \<Rightarrow> ResponseDefinition list \<Rightarrow> DefinitionField list" where
  "new_component_fields E components responses =
     concat (map (\<lambda>(i, v). component_fields (pe_component_uuid E i) v
         (or_text (rd_statusCode (responses ! i)) ''200'') (rd_id (responses ! i))) (enumerate 0 components))"

definition adopt_response :: "ResponseDefinition list \<Rightarrow> DefinitionField \<Rightarrow> DefinitionField" where
  "adopt_response responses f =
     (if is_response_scope (df_scope f) \<and> or_default (df_responseId f) [] = []
      then f\<lparr> df_responseId := map_option rd_id (find (\<lambda>r. rd_statusCode r = status_of f) responses) \<rparr>
      else f)"

text \<open>\<open>current\<close> is the content of the definition bound to the request, with its identifier.\<close>

definition reload :: "panel_env \<Rightarrow> (string \<times> string) option \<Rightarrow> definition_panel \<Rightarrow> definition_panel option" where
  "reload E current s =
     (let live = (if pe_workbench E = ''http'' then map_option draft_of (pe_draft E) else None);
          inferred = (case (current, live) of
              (None, Some draft) \<Rightarrow> definitionFieldsFromHttpDraft (pe_url E) (pe_uuid E) draft | _ \<Rightarrow> []);
          inferredMode = (case live of Some draft \<Rightarrow> if trim (or_default (dd_body draft) []) \<noteq> [] then DesignJson else DesignNone | None \<Rightarrow> DesignNone);
          components = (if current = None then filter (\<lambda>v. truthy (js_get v ''addToNewInterfaces'')) (pe_components E) else []);
          responses = (case current of
              Some (_, content) \<Rightarrow> panel_responses E content (panel_fields E s content)
            | None \<Rightarrow> new_responses E components);
          initial = inferred @ new_component_fields E components responses
      in map_option (\<lambda>content.
           let flds = (if initial \<noteq> [] then initial else panel_fields E s content);
               written = written_body_mode content;
               security = parseSecurityDesign content;
               loaded = s\<lparr> dp_definitionId := (case current of Some (i, _) \<Rightarrow> i | None \<Rightarrow> []), dp_content := content, dp_responses := responses,
                 dp_fields := map (adopt_response responses) flds, dp_security := security,
                 dp_bodyMode := (case written of Some m \<Rightarrow> m
                   | None \<Rightarrow> if inferred \<noteq> [] then inferredMode else if rtest REQUEST_BODY content then DesignJson else DesignNone),
                 dp_lastVisualContent := content,
                 dp_openApiVersion := (if pe_workbench E = ''http'' then detectOpenApiVersion content else dp_openApiVersion s) \<rparr>
           in if pe_workbench E = ''http''
              then panel_sync E flds (or_default written inferredMode) security responses id loaded else loaded)
         (case current of
            Some (_, content) \<Rightarrow> Some content
          | None \<Rightarrow>
              if initial \<noteq> [] \<or> components \<noteq> []
              then panel_text E initial V31 inferredMode DEFAULT_SECURITY_DESIGN responses else Some []))"

end
