(* ===== verification/DesignEditorLaws.thy ===== *)
theory DesignEditorLaws imports DesignEditor begin

text \<open>
  What the visual editor keeps: both searches for descendants find exactly the fields below a field, every step keeps the
  fields a forest with distinct identifiers, and the rows show every field of the part that is open.
\<close>

section \<open>Descendants\<close>

abbreviation "field_links flds \<equiv> links df_id df_parentId flds"
abbreviation "below flds i \<equiv> descendants df_id df_parentId flds i"

lemma collect_children_sets:
  "collect_children p fs (ids, pending) = (ids', pending') \<Longrightarrow>
     set ids' = set ids \<union> df_id ` {f \<in> set fs. df_parentId f = Some p} \<and> set pending' = set pending \<union> (set ids' - set ids)"
proof (induction p fs "(ids, pending)" arbitrary: ids pending rule: collect_children.induct)
  case (2 p f fs ids pending)
  show ?case
  proof (cases "df_parentId f = Some p \<and> df_id f \<notin> set ids")
    case True
    with 2(1) [OF True] 2(3) show ?thesis by auto
  next
    case False
    then have "collect_children p fs (ids, pending) = (ids', pending')" using 2(3) by (simp only: collect_children.simps if_False)
    from 2(2) [OF False this] False show ?thesis by auto
  qed
qed auto

definition search_inv :: "DefinitionField list \<Rightarrow> string \<Rightarrow> string list \<times> string list \<Rightarrow> bool" where
  "search_inv flds i st = (case st of (ids, pending) \<Rightarrow>
     set ids \<subseteq> below flds i \<and> set pending \<subseteq> insert i (below flds i)
     \<and> (\<forall>f \<in> set flds. \<forall>p. df_parentId f = Some p \<and> (p = i \<or> p \<in> set ids) \<and> p \<notin> set pending \<longrightarrow> df_id f \<in> set ids))"

lemma search_inv_step:
  assumes "search_inv flds i (ids, p # pending)"
  shows "search_inv flds i (collect_children p flds (ids, pending))"
proof -
  obtain ids' pending' where c: "collect_children p flds (ids, pending) = (ids', pending')" by fastforce
  note sets = collect_children_sets [OF c]
  have p: "p = i \<or> p \<in> below flds i" and ids: "set ids \<subseteq> below flds i" and pending: "set pending \<subseteq> insert i (below flds i)"
    using assms by (auto simp: search_inv_def)
  have new: "df_id f \<in> below flds i" if "f \<in> set flds" "df_parentId f = Some p" for f
    using p that descendants_child [of f flds df_parentId] descendants_step [of p df_id df_parentId flds i f] by blast
  then have "set ids' \<subseteq> below flds i" using sets ids by auto
  moreover have "df_id f \<in> set ids'" if "f \<in> set flds" "df_parentId f = Some q" "q = i \<or> q \<in> set ids'" "q \<notin> set pending'" for f q
  proof (cases "q = p")
    case True
    with sets that show ?thesis by auto
  next
    case False
    with sets that have "q = i \<or> q \<in> set ids" "q \<notin> set (p # pending)" by auto
    with assms that have "df_id f \<in> set ids" by (auto simp: search_inv_def)
    with sets show ?thesis by auto
  qed
  moreover have "set pending' \<subseteq> insert i (below flds i)" using sets pending calculation(1) by auto
  ultimately show ?thesis using c by (auto simp: search_inv_def)
qed

lemma pending_loop_inv: "search_inv flds i st \<Longrightarrow> search_inv flds i (pending_loop flds st, [])"
  by (induction flds st rule: pending_loop.induct) (auto dest: search_inv_step)

lemma set_field_descendants: "set (field_descendants flds i) = below flds i"
proof -
  have "search_inv flds i ([], [i])" by (auto simp: search_inv_def)
  from pending_loop_inv [OF this] have inv: "search_inv flds i (field_descendants flds i, [])" by (simp add: field_descendants_def)
  have "below flds i \<subseteq> set (field_descendants flds i)"
    by (rule descendants_least) (use inv in \<open>auto simp: search_inv_def\<close>)
  with inv show ?thesis by (auto simp: search_inv_def)
qed

text \<open>The sweeps.\<close>

definition named_parent :: "DefinitionField \<Rightarrow> string option" where
  "named_parent f = (if or_default (df_parentId f) [] = [] then None else df_parentId f)"

lemma named_parent_Some: "named_parent f = Some p \<longleftrightarrow> df_parentId f = Some p \<and> p \<noteq> []"
  by (cases "df_parentId f") (auto simp: named_parent_def)

lemma sweep_below:
  "sweep fs (ids, c) = (ids', c') \<Longrightarrow> set fs \<subseteq> set flds \<Longrightarrow> set ids \<subseteq> insert i (descendants df_id named_parent flds i) \<Longrightarrow>
     set ids' \<subseteq> insert i (descendants df_id named_parent flds i)"
proof (induction fs "(ids, c)" arbitrary: ids c rule: sweep.induct)
  case (2 f fs ids c)
  let ?hit = "or_default (df_parentId f) [] \<noteq> [] \<and> the (df_parentId f) \<in> set ids \<and> df_id f \<notin> set ids"
  show ?case
  proof (cases ?hit)
    case True
    then obtain p where p: "named_parent f = Some p" "p \<in> set ids" by (cases "df_parentId f") (auto simp: named_parent_def)
    have f: "f \<in> set flds" using 2(4) by simp
    have "df_id f \<in> descendants df_id named_parent flds i"
      using p 2(5) f descendants_child [of f flds named_parent i df_id] descendants_step [of p df_id named_parent flds i f] by blast
    with 2(1) [OF True] 2(3-5) True show ?thesis by simp
  next
    case False
    then have "sweep fs (ids, c) = (ids', c')" using 2(3) by (simp only: sweep.simps if_False)
    from 2(2) [OF False this] 2(4,5) show ?thesis by simp
  qed
qed simp

lemma sweep_closed:
  "sweep fs (ids, False) = (ids', False) \<Longrightarrow> ids' = ids \<and>
     (\<forall>f \<in> set fs. \<forall>p. named_parent f = Some p \<and> p \<in> set ids \<longrightarrow> df_id f \<in> set ids)"
proof (induction fs "(ids, False)" arbitrary: ids rule: sweep.induct)
  case (2 f fs ids)
  let ?hit = "or_default (df_parentId f) [] \<noteq> [] \<and> the (df_parentId f) \<in> set ids \<and> df_id f \<notin> set ids"
  have no: "\<not> ?hit"
  proof
    assume ?hit
    then have "sweep fs (ids @ [df_id f], True) = (ids', False)" using 2(3) by (simp only: sweep.simps if_True simp_thms)
    from sweep_new [OF this] show False by simp
  qed
  then have "sweep fs (ids, False) = (ids', False)" using 2(3) by (simp only: sweep.simps if_False)
  from 2(2) [OF no this] no show ?case by (cases "df_parentId f") (auto simp: named_parent_def)
qed simp

lemma sweep_loop_set:
  "set ids \<subseteq> insert i (descendants df_id named_parent flds i) \<Longrightarrow> i \<in> set ids \<Longrightarrow>
     set (sweep_loop flds ids) = insert i (descendants df_id named_parent flds i)"
proof (induction flds ids rule: sweep_loop.induct)
  case (1 flds ids)
  obtain ids' c where s: "sweep flds (ids, False) = (ids', c)" by fastforce
  note sub = sweep_below [OF s order_refl 1(2)]
  obtain new where new: "ids' = ids @ new" using sweep_new [OF s] by blast
  show ?case
  proof (cases c)
    case True
    with 1(1) [OF s [symmetric] True] sub new 1(3) s show ?thesis by (simp add: sweep_loop.simps [of flds ids])
  next
    case False
    then have "sweep flds (ids, False) = (ids', False)" using s by simp
    note closed = sweep_closed [OF this]
    have "descendants df_id named_parent flds i \<subseteq> set ids"
      by (rule descendants_least) (use closed 1(3) in auto)
    with False s closed sub 1(3) show ?thesis by (auto simp: sweep_loop.simps [of flds ids])
  qed
qed

lemma set_descendantsOf: "set (descendantsOf flds i) = insert i (descendants df_id named_parent flds i)"
  unfolding descendantsOf_def by (rule sweep_loop_set) auto

text \<open>C35: the two searches of the editor agree: deleting a field removes it and exactly the fields whose type change would
  remove as its descendants, the fields below it through any number of parents, cycles included.\<close>

theorem descendant_searches_agree:
  assumes "list_all (\<lambda>f. df_parentId f \<noteq> Some []) flds"
  shows "set (descendantsOf flds i) = insert i (set (field_descendants flds i))
    \<and> set (field_descendants flds i) = {j. (i, j) \<in> (field_links flds)\<^sup>+}"
proof -
  have "named_parent f = df_parentId f" if "f \<in> set flds" for f
    using assms that by (cases "df_parentId f") (auto simp: named_parent_def list_all_iff)
  then have "links df_id named_parent flds = field_links flds" by (auto simp: links_def)
  then show ?thesis by (simp add: set_descendantsOf set_field_descendants descendants_def)
qed

definition sample_field :: "string \<Rightarrow> string option \<Rightarrow> DefinitionField" where
  "sample_field i parent = \<lparr> df_id = i, df_name = i, df_type = ''object'', df_required = False, df_description = [], df_example = None,
     df_parentId = parent, df_scope = ''request.body'', df_status = None, df_responseId = None \<rparr>"

theorem descendant_searches_agree_witness:
  "set (descendantsOf [sample_field ''c'' (Some ''b''), sample_field ''b'' (Some ''a''), sample_field ''a'' (Some ''c'')] ''a'')
    = insert ''a'' (set (field_descendants [sample_field ''c'' (Some ''b''), sample_field ''b'' (Some ''a''), sample_field ''a'' (Some ''c'')] ''a''))"
  by (rule descendant_searches_agree [THEN conjunct1]) (simp add: sample_field_def)

section \<open>The fields stay a forest\<close>

definition fields_ok :: "DefinitionField list \<Rightarrow> bool" where
  "fields_ok flds \<longleftrightarrow> distinct (map df_id flds) \<and> [] \<notin> df_id ` set flds \<and> Some [] \<notin> df_parentId ` set flds
     \<and> (\<forall>f \<in> set flds. \<forall>g \<in> set flds. df_parentId f = Some (df_id g) \<longrightarrow> df_scope f = df_scope g)
     \<and> acyclic (field_links flds)"

lemma fields_ok_filter [inv_intros]: "fields_ok flds \<Longrightarrow> fields_ok (filter p flds)"
  unfolding fields_ok_def
  by (auto simp: distinct_map_filter intro: acyclic_subset [OF _ links_mono])

lemma fields_ok_map [inv_intros]:
  assumes "fields_ok flds"
    and "\<And>f. df_id (g f) = df_id f \<and> df_parentId (g f) = df_parentId f \<and> df_scope (g f) = df_scope f"
  shows "fields_ok (map g flds)"
proof -
  have "df_id \<circ> g = df_id" using assms(2) by (simp add: fun_eq_iff)
  moreover have "field_links (map g flds) = field_links flds" by (rule links_map) (simp add: assms(2))
  moreover have "df_id ` set (map g flds) = df_id ` set flds" "df_parentId ` set (map g flds) = df_parentId ` set flds"
    using assms(2) by (simp_all add: image_image)
  ultimately show ?thesis using assms by (simp add: fields_ok_def)
qed

lemma fields_ok_leaf [inv_intros]:
  assumes "fields_ok flds" and "df_id f \<noteq> []" and "list_all (\<lambda>g. df_id g \<noteq> df_id f \<and> df_parentId g \<noteq> Some (df_id f)) flds"
    and "case df_parentId f of None \<Rightarrow> True | Some p \<Rightarrow> p \<noteq> [] \<and> p \<noteq> df_id f \<and> (\<forall>g \<in> set flds. df_id g = p \<longrightarrow> df_scope f = df_scope g)"
  shows "fields_ok (flds @ [f])"
proof -
  have "df_id f \<notin> fst ` field_links flds" using assms(3) by (auto simp: links_def list_all_iff)
  with assms(1) have leaf: "df_id f \<noteq> p \<Longrightarrow> acyclic (insert (p, df_id f) (field_links flds))" for p
    by (intro acyclic_new_leaf) (simp_all add: fields_ok_def)
  have "acyclic (field_links (flds @ [f]))"
  proof (cases "df_parentId f")
    case None
    then show ?thesis using assms(1) by (simp add: fields_ok_def links_append links_Cons links_def [of _ _ "[]"])
  next
    case (Some p)
    then have "field_links (flds @ [f]) = insert (p, df_id f) (field_links flds)"
      by (simp add: links_append links_Cons links_def [of _ _ "[]"])
    moreover have "df_id f \<noteq> p" using Some assms(4) by auto
    ultimately show ?thesis using leaf by presburger
  qed
  moreover have "distinct (map df_id (flds @ [f]))" using assms(1,3) by (auto simp: fields_ok_def list_all_iff)
  moreover have "df_scope g = df_scope h" if "g \<in> set (flds @ [f])" "h \<in> set (flds @ [f])" "df_parentId g = Some (df_id h)" for g h
    using that assms(1,3,4) by (auto simp: fields_ok_def list_all_iff split: option.splits)
  moreover have "Some [] \<notin> df_parentId ` set (flds @ [f])" "[] \<notin> df_id ` set (flds @ [f])"
    using assms(1,2,4) by (auto simp: fields_ok_def split: option.splits)
  ultimately show ?thesis unfolding fields_ok_def by blast
qed

lemma set_type_ok [inv_intros]: "fields_ok flds \<Longrightarrow> fields_ok (set_type i t flds)"
  unfolding set_type_def by (rule fields_ok_map) auto

lemma set_name_ok [inv_intros]: "fields_ok flds \<Longrightarrow> fields_ok (set_name i n flds)"
  unfolding set_name_def by (rule fields_ok_map) auto

lemma without_ok [inv_intros]: "fields_ok flds \<Longrightarrow> fields_ok (without removed flds)"
  unfolding without_def by (rule fields_ok_filter)

lemma set_type_fields: "f \<in> set (set_type i t flds) \<Longrightarrow> \<exists>g \<in> set flds. df_id f = df_id g \<and> df_parentId f = df_parentId g \<and> df_scope f = df_scope g"
  by (auto simp: set_type_def)

lemma same_scope: "fields_ok flds \<Longrightarrow> f \<in> set flds \<Longrightarrow> g \<in> set flds \<Longrightarrow> df_id f = df_id g \<Longrightarrow> f = g"
  by (auto simp: fields_ok_def distinct_map inj_on_def)

definition unused :: "string \<Rightarrow> DefinitionField list \<Rightarrow> bool" where
  "unused i flds = (i \<noteq> [] \<and> list_all (\<lambda>f. df_id f \<noteq> i \<and> df_parentId f \<noteq> Some i) flds)"

text \<open>A new field below an existing one, after the type of any field was changed.\<close>

lemma new_child_ok:
  assumes "fields_ok flds" and "unused (df_id f) flds" and "target \<in> set flds" and "df_parentId f = Some (df_id target)"
    and "df_scope f = df_scope target"
  shows "fields_ok (set_type i t flds @ [f])"
proof (rule fields_ok_leaf)
  show "fields_ok (set_type i t flds)" using assms(1) by (rule set_type_ok)
  show "df_id f \<noteq> []" using assms(2) by (simp add: unused_def)
  show "list_all (\<lambda>g. df_id g \<noteq> df_id f \<and> df_parentId g \<noteq> Some (df_id f)) (set_type i t flds)"
    using assms(2) by (auto simp: unused_def list_all_iff dest!: set_type_fields)
  have "df_id target \<noteq> []" using assms(1,3) unfolding fields_ok_def by (metis image_eqI)
  moreover have "df_id target \<noteq> df_id f" using assms(2,3) by (simp add: unused_def list_all_iff)
  moreover have "df_scope f = df_scope g" if "g \<in> set (set_type i t flds)" "df_id g = df_id target" for g
    using set_type_fields [OF that(1)] that(2) same_scope [OF assms(1) _ assms(3)] assms(5) by metis
  ultimately show "case df_parentId f of None \<Rightarrow> True
      | Some p \<Rightarrow> p \<noteq> [] \<and> p \<noteq> df_id f \<and> (\<forall>g \<in> set (set_type i t flds). df_id g = p \<longrightarrow> df_scope f = df_scope g)"
    using assms(4) by auto
qed

lemma change_type_ok [inv_intros]:
  assumes "fields_ok flds" and "unused fresh flds"
  shows "fields_ok (changeDefinitionFieldType fresh flds i t)"
proof (cases "find (\<lambda>f. df_id f = i) flds")
  case None
  then show ?thesis using assms(1) by (simp add: changeDefinitionFieldType_def)
next
  case (Some target)
  then have "target \<in> set flds" by (auto dest: find_Some_set)
  then have "fields_ok (set_type i t flds @ [items_field fresh target])"
    using assms by (intro new_child_ok) (auto simp: items_field_def)
  then show ?thesis using Some assms(1)
    by (auto simp: changeDefinitionFieldType_def Let_def split: list.split intro: inv_intros)
qed

definition editor_ok :: "visual_editor \<Rightarrow> bool" where
  "editor_ok s = (fields_ok (ve_fields s) \<and> unused (ve_draftFieldId s) (ve_fields s))"

lemma fresh_unused: "fresh_field i s \<Longrightarrow> unused i (ve_fields s)"
  by (simp add: fresh_field_def unused_def)

lemma unused_filter [simp]: "unused i flds \<Longrightarrow> unused i (filter p flds)"
  by (auto simp: unused_def list_all_iff)

lemma unused_map: "unused i flds \<Longrightarrow> (\<And>f. df_id (g f) = df_id f \<and> df_parentId (g f) = df_parentId f) \<Longrightarrow> unused i (map g flds)"
  by (auto simp: unused_def list_all_iff)

lemma unused_append [simp]: "unused i (as @ bs) \<longleftrightarrow> unused i as \<and> unused i bs"
  by (auto simp: unused_def)

lemma patch_keeps: "df_id (apply_field_patch q f) = df_id f \<and> df_parentId (apply_field_patch q f) = df_parentId f
    \<and> df_scope (apply_field_patch q f) = df_scope f"
  by (cases q) auto

lemma update_field_ok:
  assumes "editor_ok s" and "fresh_field i s"
  shows "editor_ok (update_field i j q s)"
proof (cases "j = ve_draftFieldId s")
  case True
  have "fields_ok (ve_fields s @ [apply_field_patch q (draft_field s)])"
    using assms(1) by (intro fields_ok_leaf) (auto simp: editor_ok_def patch_keeps draft_field_def Let_def unused_def)
  moreover have "unused i [apply_field_patch q (draft_field s)]"
    using assms(2) by (auto simp: unused_def patch_keeps draft_field_def Let_def fresh_field_def)
  ultimately show ?thesis using True fresh_unused [OF assms(2)] by (simp add: editor_ok_def update_field_def)
next
  case False
  have "fields_ok (map (\<lambda>f. if df_id f = j then apply_field_patch q f else f) (ve_fields s))"
    using assms(1) by (intro fields_ok_map) (auto simp: editor_ok_def patch_keeps)
  moreover have "unused (ve_draftFieldId s) (map (\<lambda>f. if df_id f = j then apply_field_patch q f else f) (ve_fields s))"
    using assms(1) by (intro unused_map) (auto simp: editor_ok_def patch_keeps)
  ultimately show ?thesis using False by (simp add: editor_ok_def update_field_def)
qed

lemma set_type_unused [simp]: "unused i (set_type j t flds) = unused i flds"
  by (simp add: unused_def set_type_def list.pred_map comp_def if_distrib cong: if_cong)

lemma set_name_unused [simp]: "unused i (set_name j n flds) = unused i flds"
  by (simp add: unused_def set_name_def list.pred_map comp_def if_distrib cong: if_cong)

lemma without_unused [simp]: "unused i flds \<Longrightarrow> unused i (without removed flds)"
  by (simp add: without_def)

lemma retype_field_ok:
  assumes "editor_ok s" and "fresh_field i s"
  shows "editor_ok (retype_field i j t s)"
proof (cases "j = ve_draftFieldId s")
  case True
  then show ?thesis using update_field_ok [OF assms] by (simp add: retype_field_def)
next
  case False
  have "fields_ok (changeDefinitionFieldType i (ve_fields s) j t)"
    using assms fresh_unused by (intro change_type_ok) (auto simp: editor_ok_def)
  moreover have "ve_draftFieldId s \<noteq> i" using assms(2) by (auto simp: fresh_field_def)
  then have "unused (ve_draftFieldId s) (changeDefinitionFieldType i (ve_fields s) j t)"
  proof -
    assume other: "ve_draftFieldId s \<noteq> i"
    have fs: "unused (ve_draftFieldId s) (ve_fields s)" using assms(1) by (simp add: editor_ok_def)
    have "unused (ve_draftFieldId s) [items_field i target]" if "find (\<lambda>f. df_id f = j) (ve_fields s) = Some target" for target
      using fs other find_Some_set [OF that] False by (auto simp: unused_def items_field_def)
    then show ?thesis using fs by (auto simp: changeDefinitionFieldType_def Let_def split: option.split list.split)
  qed
  ultimately show ?thesis using False by (simp add: retype_field_def editor_ok_def)
qed

lemma addChild_ok:
  assumes "editor_ok s" and "fresh_field i s" and "f \<in> set (ve_fields s)"
  shows "editor_ok (addChild i f s)"
proof -
  have "set_type (df_id f) (df_type f) (ve_fields s) = ve_fields s"
    unfolding set_type_def
  proof (rule map_idI)
    fix g assume "g \<in> set (ve_fields s)"
    then show "(if df_id g = df_id f then g\<lparr> df_type := df_type f \<rparr> else g) = g"
      using same_scope [of "ve_fields s" g f] assms(1,3) by (auto simp: editor_ok_def)
  qed
  moreover have "fields_ok (set_type (df_id f) t (ve_fields s) @ [child_field i f])" for t
    using assms fresh_unused by (intro new_child_ok) (auto simp: editor_ok_def child_field_def)
  moreover have "unused (ve_draftFieldId s) [child_field i f]"
    using assms by (auto simp: fresh_field_def unused_def child_field_def editor_ok_def list_all_iff)
  ultimately show ?thesis using assms(1) by (auto simp: addChild_def editor_ok_def) (metis set_type_unused)
qed

lemma component_fields_ok:
  assumes "fields_ok flds" and "inj uuid" and "\<And>k. unused (uuid k) flds"
  shows "fields_ok (flds @ component_fields uuid v st r)"
proof -
  have "fields_ok (flds @ map (\<lambda>(i, v). let f = typed_field v in
            f\<lparr> df_id := uuid i, df_parentId := None,
               df_scope := (if startsWith (df_scope f) ''response.'' then df_scope f else ''response.body''),
               df_status := Some st, df_responseId := Some r \<rparr>) (enumerate 0 vs))" for vs
  proof (induction vs rule: rev_induct)
    case (snoc w ws)
    show ?case
      unfolding enumerate_append_eq map_append append_assoc [symmetric] enumerate_simps list.map
      by (rule fields_ok_leaf [OF snoc])
        (use assms(2,3) in \<open>auto simp: Let_def unused_def list_all_iff in_set_enumerate_eq dest: injD\<close>)
  qed (simp add: assms(1))
  then show ?thesis by (simp add: component_fields_def)
qed

lemma addComponentResponse_ok:
  assumes "editor_ok s" and "inj uuid" and "\<And>k. fresh_field (uuid k) s"
  shows "editor_ok (addComponentResponse i uuid v s)"
proof -
  have "unused (ve_draftFieldId s) (component_fields uuid v st r)" for st r
    using assms(1,3) by (auto simp: editor_ok_def unused_def component_fields_def list_all_iff Let_def fresh_field_def)
  moreover have "fields_ok (ve_fields s @ component_fields uuid v st r)" for st r
    using assms fresh_unused by (intro component_fields_ok) (auto simp: editor_ok_def)
  ultimately show ?thesis using assms(1) by (simp add: addComponentResponse_def editor_ok_def Let_def)
qed

lemma editor_step_ok: "editor_step s t \<Longrightarrow> editor_ok s \<Longrightarrow> editor_ok t"
proof (induction rule: editor_step.induct)
  case (status s r c)
  then show ?case
    by (auto simp: editor_ok_def setResponseStatus_def change_selected_def intro!: fields_ok_map unused_map)
next
  case (drop_response s r)
  then show ?case by (auto simp: editor_ok_def deleteResponse_def reselect_def intro: fields_ok_filter)
next
  case (delete f s)
  then show ?case by (auto simp: editor_ok_def delete_field_def intro: without_ok)
qed (simp_all add: update_field_ok retype_field_ok addChild_ok addComponentResponse_ok,
    simp_all add: editor_ok_def setResponseName_def setResponseBodyType_def change_selected_def addBlankResponse_def)

text \<open>C5: whatever sequence of edits, type changes, added children, deletions and changes of responses a user makes, the fields
  of a design keep distinct, non-empty identifiers, parents in the same scope as their children, and no cycle of parents.\<close>

theorem design_stays_forest:
  assumes "editor_step\<^sup>*\<^sup>* s t" and "editor_ok s"
  shows "editor_ok t"
  using assms by (induction rule: rtranclp_induct) (auto dest: editor_step_ok)

definition sample_visual :: visual_editor where
  "sample_visual = \<lparr> ve_fields = [sample_field ''a'' None, sample_field ''b'' (Some ''a'')], ve_responses = [], ve_area = EdRequest,
     ve_requestPart = ''body'', ve_responsePart = ''body'', ve_selectedResponseId = [], ve_draftFieldId = ''d'' \<rparr>"

lemma sample_visual_ok: "editor_ok sample_visual"
proof -
  have "fields_ok ([] @ [sample_field ''a'' None])"
    by (rule fields_ok_leaf) (auto simp: fields_ok_def sample_field_def links_def acyclic_def)
  then have "fields_ok ([sample_field ''a'' None] @ [sample_field ''b'' (Some ''a'')])"
    by (intro fields_ok_leaf) (auto simp: sample_field_def)
  then show ?thesis by (simp add: sample_visual_def editor_ok_def unused_def sample_field_def)
qed

theorem design_stays_forest_witness:
  "editor_ok (update_field ''m'' ''b'' (PName ''x'') (retype_field ''n'' ''b'' ''array'' sample_visual))"
proof (rule design_stays_forest [OF _ sample_visual_ok])
  have "editor_step sample_visual (retype_field ''n'' ''b'' ''array'' sample_visual)"
    by (rule editor_step.retype) (simp add: fresh_field_def sample_visual_def sample_field_def)
  moreover have "fresh_field ''m'' (retype_field ''n'' ''b'' ''array'' sample_visual)"
    by (simp add: fresh_field_def retype_field_def changeDefinitionFieldType_def sample_visual_def sample_field_def set_type_def
        field_children_def items_field_def definitionScopeSupportsChildren_def)
  then have "editor_step (retype_field ''n'' ''b'' ''array'' sample_visual)
      (update_field ''m'' ''b'' (PName ''x'') (retype_field ''n'' ''b'' ''array'' sample_visual))"
    by (rule editor_step.edit)
  ultimately show "editor_step\<^sup>*\<^sup>* sample_visual
      (update_field ''m'' ''b'' (PName ''x'') (retype_field ''n'' ''b'' ''array'' sample_visual))"
    by (rule converse_rtranclp_into_rtranclp [OF _ r_into_rtranclp])
qed

section \<open>The rows\<close>

lemma branch_of_child: "i \<noteq> [] \<Longrightarrow> branch_of shown (Some i) = field_children shown i"
  by (simp add: branch_of_def field_children_def)

lemma those_None_iff: "those xs = None \<longleftrightarrow> None \<in> set xs"
  by (induction xs) (auto split: option.splits)

lemma those_map_Some: "those (map h xs) = Some ys \<Longrightarrow> x \<in> set xs \<Longrightarrow> \<exists>y \<in> set ys. h x = Some y"
  by (induction xs arbitrary: ys) (auto split: option.splits)

lemma fields_ok_id: "fields_ok shown \<Longrightarrow> i \<in> df_id ` set shown \<Longrightarrow> i \<noteq> []"
  unfolding fields_ok_def by blast

lemma appendBranch_ends:
  assumes "fields_ok shown"
  shows "lineage (field_links shown) (i # is) \<Longrightarrow> last (i # is) \<in> df_id ` set shown \<Longrightarrow>
    length shown < n + length (i # is) \<Longrightarrow> appendBranch n shown (Some i) d \<noteq> None"
proof (induction n arbitrary: i "is" d)
  case 0
  have "length (i # is) \<le> length shown"
    by (rule lineage_bound [OF 0(1) _ links_image 0(2)]) (use assms in \<open>simp add: fields_ok_def\<close>)
  with 0(3) show ?case by simp
next
  case (Suc n)
  have "set (i # is) \<subseteq> df_id ` set shown" by (rule lineage_inside [OF Suc.prems(1) links_image Suc.prems(2)])
  then have i: "i \<noteq> []" using assms by (auto dest: fields_ok_id)
  have "appendBranch n shown (Some (df_id f)) (d + 1) \<noteq> None" if "f \<in> set (branch_of shown (Some i))" for f
  proof (rule Suc.IH)
    have "(i, df_id f) \<in> field_links shown" using that i by (auto simp: branch_of_child field_children_def links_def)
    with Suc.prems(1) show "lineage (field_links shown) (df_id f # i # is)" by (rule lineage.below)
  qed (use Suc.prems in auto)
  then have "those (map (\<lambda>f. map_option ((#) (f, d)) (appendBranch n shown (Some (df_id f)) (d + 1))) (branch_of shown (Some i))) \<noteq> None"
    unfolding those_None_iff set_map by (auto simp del: not_None_eq)
  then show ?case by auto
qed

lemma visible_ends:
  assumes "fields_ok shown" and "length shown < n"
  shows "\<exists>rows. appendBranch n shown None d = Some rows"
proof -
  obtain m where m: "n = Suc m" "length shown \<le> m" using assms(2) by (cases n) auto
  have "appendBranch m shown (Some (df_id f)) (d + 1) \<noteq> None" if "f \<in> set (branch_of shown None)" for f
    by (rule appendBranch_ends [OF assms(1) lineage.top]) (use that m in \<open>auto simp: branch_of_def\<close>)
  then have "those (map (\<lambda>f. map_option ((#) (f, d)) (appendBranch m shown (Some (df_id f)) (d + 1))) (branch_of shown None)) \<noteq> None"
    unfolding those_None_iff set_map by (auto simp del: not_None_eq)
  then show ?thesis by (auto simp: m(1))
qed

lemma those_map_set: "those (map h xs) = Some ys \<Longrightarrow> y \<in> set ys \<Longrightarrow> \<exists>x \<in> set xs. h x = Some y"
  by (induction xs arbitrary: ys) (auto split: option.splits)

lemma branch_nested:
  assumes "appendBranch n shown p d = Some rows" and "f \<in> set (branch_of shown p)"
  shows "\<exists>m rs. appendBranch m shown (Some (df_id f)) (d + 1) = Some rs \<and> (f, d) \<in> set rows \<and> set rs \<subseteq> set rows"
proof -
  obtain m where m: "n = Suc m" using assms(1) by (cases n) auto
  then obtain yss where y: "those (map (\<lambda>f. map_option ((#) (f, d)) (appendBranch m shown (Some (df_id f)) (d + 1))) (branch_of shown p)) = Some yss"
    "rows = concat yss" using assms(1) by auto
  from those_map_Some [OF y(1) assms(2)] obtain ys rs where "ys \<in> set yss" "ys = (f, d) # rs"
    "appendBranch m shown (Some (df_id f)) (d + 1) = Some rs" by auto
  moreover from this have "set ((f, d) # rs) \<subseteq> set rows" unfolding y(2) set_concat by blast
  ultimately show ?thesis by auto
qed

lemma row_branch:
  "appendBranch n shown p d = Some rows \<Longrightarrow> (g, e) \<in> set rows \<Longrightarrow>
     g \<in> set shown \<and> (\<exists>m rs. appendBranch m shown (Some (df_id g)) (e + 1) = Some rs \<and> set rs \<subseteq> set rows)"
proof (induction n arbitrary: p d rows)
  case (Suc n)
  then obtain yss where y: "those (map (\<lambda>f. map_option ((#) (f, d)) (appendBranch n shown (Some (df_id f)) (d + 1))) (branch_of shown p)) = Some yss"
    "rows = concat yss" by auto
  with Suc.prems(2) obtain ys where ys: "ys \<in> set yss" "(g, e) \<in> set ys" by auto
  from those_map_set [OF y(1) ys(1)] obtain f rs where
    f: "f \<in> set (branch_of shown p)" "appendBranch n shown (Some (df_id f)) (d + 1) = Some rs" "ys = (f, d) # rs" by auto
  have sub: "set rs \<subseteq> set rows" using y(2) ys(1) f(3) by auto
  show ?case
  proof (cases "(g, e) = (f, d)")
    case True
    with f sub show ?thesis by (auto simp: branch_of_def)
  next
    case False
    with ys(2) f(3) have "(g, e) \<in> set rs" by auto
    from Suc.IH [OF f(2) this] sub show ?thesis by blast
  qed
qed simp

text \<open>C34: the editor's table is computed for any forest of fields, and its rows are exactly the fields of the part that is open:
  none is hidden behind a parent that is not shown, and none of another part appears.\<close>

theorem rows_show_the_part:
  assumes "fields_ok (ve_fields s)"
  shows "\<exists>rows. visible_rows (Suc (length (ve_fields s))) s = Some rows \<and> fst ` set rows = set (scoped s)"
proof -
  have ok: "fields_ok (scoped s)" using assms by (auto simp: scoped_def intro: fields_ok_filter) (simp add: fields_ok_def acyclic_def links_def)
  have "length (scoped s) < Suc (length (ve_fields s))" by (simp add: scoped_def le_imp_less_Suc length_filter_le)
  from visible_ends [OF ok this] obtain rows where rows: "appendBranch (Suc (length (ve_fields s))) (scoped s) None 0 = Some rows"
    by blast
  have "wf (field_links (scoped s))" using ok by (simp add: fields_ok_def finite_acyclic_wf)
  have "\<forall>f \<in> set (scoped s). df_id f = i \<longrightarrow> f \<in> fst ` set rows" for i
  proof (induction i rule: wf_induct_rule [OF \<open>wf (field_links (scoped s))\<close>])
    case (1 i)
    show ?case
    proof (intro ballI impI)
      fix f assume f: "f \<in> set (scoped s)" "df_id f = i"
      show "f \<in> fst ` set rows"
      proof (cases "f \<in> set (branch_of (scoped s) None)")
        case True
        from branch_nested [OF rows True] show ?thesis by force
      next
        case False
        have "df_parentId f \<noteq> Some []" using ok f(1) unfolding fields_ok_def by force
        with False f(1) obtain g where g: "g \<in> set (scoped s)" "df_parentId f = Some (df_id g)"
          by (cases "df_parentId f") (auto simp: branch_of_def list_ex_iff)
        then have "(df_id g, i) \<in> field_links (scoped s)" using f by (auto simp: links_def)
        with 1 g(1) have "g \<in> fst ` set rows" by blast
        then obtain e where "(g, e) \<in> set rows" by force
        from row_branch [OF rows this] obtain m rs where rs: "appendBranch m (scoped s) (Some (df_id g)) (e + 1) = Some rs" "set rs \<subseteq> set rows"
          by blast
        have "f \<in> set (branch_of (scoped s) (Some (df_id g)))" using f g by (simp add: branch_of_def)
        from branch_nested [OF rs(1) this] rs(2) show ?thesis by force
      qed
    qed
  qed
  moreover have "fst ` set rows \<subseteq> set (scoped s)" using row_branch [OF rows] by auto
  ultimately show ?thesis using rows by (auto simp: visible_rows_def)
qed

theorem rows_show_the_part_witness:
  "\<exists>rows. visible_rows (Suc (length (ve_fields sample_visual))) sample_visual = Some rows
     \<and> fst ` set rows = set (scoped sample_visual)"
  using rows_show_the_part [of sample_visual] sample_visual_ok by (simp add: editor_ok_def del: appendBranch.simps)

section \<open>Changing a type\<close>

lemma field_children_map:
  "(\<And>f. df_parentId (g f) = df_parentId f) \<Longrightarrow> field_children (map g flds) i = map g (field_children flds i)"
  by (simp add: field_children_def filter_map comp_def)

lemma children_set_type [simp]: "field_children (set_type j t flds) i = set_type j t (field_children flds i)"
  unfolding set_type_def by (rule field_children_map) simp

lemma children_set_name [simp]: "field_children (set_name j n flds) i = set_name j n (field_children flds i)"
  unfolding set_name_def by (rule field_children_map) simp

lemma children_without [simp]: "field_children (without removed flds) i = without removed (field_children flds i)"
  by (simp add: field_children_def without_def conj_commute)

lemma set_type_Nil [simp]: "set_type j t [] = []"
  by (simp add: set_type_def)

lemma names_set_type [simp]: "map df_name (set_type j t flds) = map df_name flds"
  by (simp add: set_type_def)

lemma without_set_type: "without removed (set_type j t flds) = set_type j t (without removed flds)"
  by (induction flds) (auto simp: without_def set_type_def)

lemma without_children: "without (field_descendants flds i) (field_children flds i) = []"
  using descendants_child [of _ flds df_parentId i df_id]
  by (auto simp: without_def field_children_def filter_empty_conv set_field_descendants)

lemma first_child_stays:
  assumes "fields_ok flds" and "field_children flds i = item # extra"
  shows "without (concat (map (\<lambda>c. df_id c # field_descendants flds (df_id c)) extra)) (field_children flds i) = [item]"
proof -
  have sub: "set (item # extra) \<subseteq> set flds" using assms(2) [symmetric] by (auto simp: field_children_def)
  have "distinct (map df_id (field_children flds i))"
    using assms(1) by (simp add: fields_ok_def field_children_def distinct_map_filter)
  then have "df_id item \<notin> df_id ` set extra" by (simp add: assms(2))
  moreover have "df_id item \<notin> below flds (df_id c)" if "c \<in> set extra" for c
  proof
    assume "df_id item \<in> below flds (df_id c)"
    then obtain z where z: "(df_id c, z) \<in> (field_links flds)\<^sup>*" "(z, df_id item) \<in> field_links flds"
      by (auto simp: descendants_def dest: tranclD2)
    from z(2) obtain x where "x \<in> set flds" "df_id x = df_id item" "df_parentId x = Some z" by (auto simp: links_def)
    with sub same_scope [OF assms(1), of x item] have "df_parentId item = Some z" by auto
    moreover have par: "df_parentId f = Some i" if "f \<in> set (item # extra)" for f
      using that assms(2) [symmetric] by (auto simp: field_children_def)
    ultimately have "z = i" by auto
    moreover have "(i, df_id c) \<in> field_links flds" using par sub \<open>c \<in> set extra\<close> by (auto simp: links_def)
    ultimately have "(i, i) \<in> (field_links flds)\<^sup>+" using z(1) by (metis rtrancl_into_trancl2)
    then show False using assms(1) by (simp add: fields_ok_def acyclic_def)
  qed
  moreover have "filter (\<lambda>f. df_id f \<notin> df_id ` set extra \<and> (\<forall>c \<in> set extra. df_id f \<notin> below flds (df_id c))) extra = []"
    by (auto simp: filter_empty_conv)
  moreover have "set (concat (map (\<lambda>c. df_id c # field_descendants flds (df_id c)) extra))
      = df_id ` set extra \<union> (\<Union>c \<in> set extra. below flds (df_id c))"
    by (auto simp: set_field_descendants)
  ultimately show ?thesis unfolding assms(2) without_def by simp
qed

text \<open>After the type of a field was changed it has the children its type calls for: an array in a body has the one child
  \<^verbatim>\<open>items\<close>, an object keeps its children, and any other type, and any field outside a body, has none.\<close>

theorem retyped_children:
  assumes "fields_ok flds" and "target \<in> set flds"
  shows "map df_name (field_children (changeDefinitionFieldType fresh flds (df_id target) t) (df_id target)) =
    (if \<not> definitionScopeSupportsChildren (df_scope target) then []
     else if t = ''array'' then [''items'']
     else if t = ''object'' then map df_name (field_children flds (df_id target)) else [])"
proof -
  have "find (\<lambda>f. df_id f = df_id target) flds = Some target"
    using same_scope [OF assms(1) _ assms(2)] assms(2)
    by (cases "find (\<lambda>f. df_id f = df_id target) flds") (auto simp: find_None_iff dest: find_Some_set)
  note eq = changeDefinitionFieldType_def this
  show ?thesis
  proof (cases "definitionScopeSupportsChildren (df_scope target) \<and> t = ''array''")
    case True
    show ?thesis
    proof (cases "field_children flds (df_id target)")
      case Nil
      then show ?thesis using True
        by (simp add: eq field_children_def [of "_ @ _"] items_field_def) (simp add: field_children_def [symmetric])
    next
      case (Cons item extra)
      have w: "without (concat (map (\<lambda>c. df_id c # field_descendants flds (df_id c)) extra)) (item # extra) = [item]"
        using first_child_stays [OF assms(1) Cons] by (simp add: Cons)
      show ?thesis using True Cons w by (simp add: eq without_set_type) (simp add: set_type_def set_name_def)
    qed
  next
    case False
    then show ?thesis by (auto simp: eq Let_def without_set_type without_children)
  qed
qed

theorem retyped_children_witness:
  "map df_name (field_children (changeDefinitionFieldType ''n'' (ve_fields sample_visual) ''a'' ''array'') ''a'') = [''items'']"
  using retyped_children [of "ve_fields sample_visual" "sample_field ''a'' None" "''n''" "''array''"] sample_visual_ok
  by (simp add: editor_ok_def sample_visual_def sample_field_def definitionScopeSupportsChildren_def)

text \<open>The child made for an array does not carry the identifier of its response: when the response is deleted the child stays,
  without its parent.\<close>

definition sample_response :: "string \<Rightarrow> ResponseDefinition" where
  "sample_response i = \<lparr> rd_id = i, rd_name = i, rd_statusCode = ''200'', rd_bodyType = BJson, rd_contentType = [], rd_componentId = None,
     rd_referenceMode = None \<rparr>"

definition sample_responses :: visual_editor where
  "sample_responses = \<lparr> ve_fields = [(sample_field ''a'' None)\<lparr> df_scope := ''response.body'', df_responseId := Some ''r'' \<rparr>],
     ve_responses = [sample_response ''r'', sample_response ''q''], ve_area = EdResponse, ve_requestPart = ''body'',
     ve_responsePart = ''body'', ve_selectedResponseId = ''r'', ve_draftFieldId = ''d'' \<rparr>"

lemma items_outlive_response:
  "map df_id (ve_fields (deleteResponse (sample_response ''r'') (retype_field ''n'' ''a'' ''array'' sample_responses))) = [''n'']"
  by (simp add: sample_responses_def sample_response_def sample_field_def retype_field_def changeDefinitionFieldType_def
      definitionScopeSupportsChildren_def field_children_def items_field_def deleteResponse_def reselect_def set_type_def)

end
