(* ===== verification/DesignWriterLaws.thy ===== *)
theory DesignWriterLaws imports DesignWriter RegexLaws DesignEditorLaws begin

text \<open>
  What the editor's own definitions promise: the text written for a design ends for every forest of fields, and reading it
  gives back the same fields, responses and security policy.
\<close>

section \<open>JSON on one line\<close>

lemma code_hex_digit: "d < 16 \<Longrightarrow> 48 \<le> code (hex_digit d)"
  by (simp add: code_def hex_digit_def)

lemma one_line_escape: "one_line (escape_char c)"
proof -
  have "code c < 256" by (simp add: code_def)
  then have "code c div 16 < 16" "code c mod 16 < 16" by (simp_all add: div_less_iff_less_mult)
  from this [THEN code_hex_digit] show ?thesis
    by (auto simp: escape_char_def is_nl_def QUOTE_def BSLASH_def code_def)
qed

lemma one_line_quote [simp]: "one_line (quote s)"
  using one_line_escape by (auto simp: quote_def list_all_iff is_nl_def QUOTE_def)

lemma one_line_join: "one_line sep \<Longrightarrow> list_all one_line xs \<Longrightarrow> one_line (join sep xs)"
  by (induction sep xs rule: join.induct) auto

lemma digit_no_line: "is_digit c \<Longrightarrow> \<not> is_nl c"
  by (auto simp: is_nl_def is_digit_def code_def)

lemma one_line_int: "one_line (show_int i)"
  using digit_no_line digits_of_digits by (auto simp: show_int_def list_all_iff) (simp add: is_nl_def)

lemma one_line_json: "json_plain v \<Longrightarrow> one_line (json_text 0 l v)"
proof (induction v arbitrary: l)
  case (JNum n)
  then show ?case by (cases n) (simp_all add: one_line_int)
next
  case (JArr xs)
  then have "one_line (join '','' (map (json_text 0 (Suc l)) xs))"
    by (intro one_line_join) (auto simp: list_all_iff is_nl_def)
  then show ?case by (simp add: brk_def is_nl_def)
next
  case (JObj ps)
  have "one_line (json_text 0 (Suc l) v)" if "(k, v) \<in> set ps" for k v
    using JObj that by (fastforce simp: list_all_iff)
  then have "one_line (join '','' (map snd (filter fst (map (\<lambda>(k, v). (serialisable v, quote k @ '':'' @ json_text 0 (Suc l) v)) ps))))"
    using one_line_quote by (intro one_line_join) (fastforce simp: list_all_iff is_nl_def)+
  then show ?case by (simp add: brk_def is_nl_def)
next
  case (JStr s)
  then show ?case by simp
qed (auto simp: is_nl_def)

section \<open>Finding an extension\<close>

definition header_text :: "string list \<Rightarrow> string" where
  "header_text ls = concat (map (\<lambda>l. l @ [NL]) ls)"

lemma header_text_simps [simp]: "header_text [] = []" "header_text (l # ls) = l @ NL # header_text ls"
  by (simp_all add: header_text_def)

lemma header_text_last: "header_text ls = [] \<or> last (header_text ls) = NL"
  by (induction ls) auto

lemma same_captures: "x \<in> set xs \<Longrightarrow> (\<And>y. y \<in> set xs \<Longrightarrow> snd y = c) \<Longrightarrow> \<exists>e ys. xs = (e, c) # ys"
  by (cases xs) (auto simp: prod_eq_iff)

lemma extension_found:
  assumes key: "k \<noteq> []" "one_line (k @ '':'')"
    and ls: "list_all (\<lambda>l. one_line l \<and> take (Suc (length k)) l \<noteq> k @ '':'') ls"
    and v: "v = left # w @ [right]" "one_line v" "\<not> js_ws left"
  shows "group_of (extension_line k left right) 1 (header_text ls @ k @ '': '' @ v @ NL # rest) = Some v"
proof -
  let ?s = "header_text ls @ k @ '': '' @ v @ NL # rest" and ?key = "k @ '':''"
  define i0 where "i0 = length (header_text ls)"
  define i2 where "i2 = i0 + length k + 2"
  define e where "e = i2 + length v"
  have at: "?s ! (i2 + j) = (v @ NL # rest) ! j" for j by (simp add: i2_def i0_def nth_append)
  have len: "length ?s = Suc (e + length rest)" by (simp add: e_def i2_def i0_def)
  have nl: "?s ! e = NL" using at [of "length v"] by (simp add: e_def)
  have NL: "is_nl NL" "js_ws NL" by (simp_all add: is_nl_def NL_def js_ws_def code_def)
  have bol: "rmatch RBolM ?s (i0, []) = [(i0, [])]"
    using header_text_last [of ls] NL(1) len by (cases "header_text ls" rule: rev_cases) (auto simp: i0_def e_def i2_def nth_append)
  have lit: "rmatch (RLit ?key) ?s (i0, []) = [(Suc (i0 + length k), [])]"
    using rmatch_Lit [of ?key "header_text ls" "'' '' @ v @ NL # rest"] by (simp add: i0_def)
  have "?s ! Suc (i0 + length k) = CHR '' ''" by (simp add: i0_def nth_append)
  moreover have "?s ! i2 = left" using at [of 0] v(1) by simp
  ultimately have sp: "rmatch RSpaces ?s (Suc (i0 + length k), []) = [(i2, []), (Suc (i0 + length k), [])]"
    unfolding RSpaces_def RSpace_def
    by (subst rmatch_star_run [of _ i2]) (use v(3) len in \<open>auto simp: i2_def e_def js_ws_def code_def less_Suc_eq\<close>)
  have star: "rmatch (RStar RAny) ?s (Suc i2, []) = map (\<lambda>j. (j, [])) (rev [Suc i2 ..< Suc e])"
    unfolding RAny_def
  proof (rule rmatch_star_run)
    show "\<forall>j. Suc i2 \<le> j \<and> j < e \<longrightarrow> \<not> is_nl (?s ! j)"
    proof (intro allI impI)
      fix j assume "Suc i2 \<le> j \<and> j < e"
      then show "\<not> is_nl (?s ! j)" using at [of "j - i2"] v(2) by (auto simp: e_def nth_append list_all_length)
    qed
  qed (use v nl NL len in \<open>simp_all add: e_def\<close>)
  have e: "e = Suc (Suc (i2 + length w))" using v(1) by (simp add: e_def)
  then have star': "rmatch (RStar RAny) ?s (Suc i2, []) = (e, []) # (e - 1, []) # map (\<lambda>j. (j, [])) (rev [Suc i2 ..< e - 1])"
    using star by simp
  have right: "?s ! (e - 1) = right" "right \<noteq> NL" using at [of "Suc (length w)"] v(1,2) e NL(1) by (auto simp: nth_append)
  have "\<exists>zs. rmatch (RSeqs [RLit [left], RStar RAny, RLit [right]]) ?s (i2, []) = (e, []) # zs"
    using \<open>?s ! i2 = left\<close> star' right nl len e by simp
  then obtain zs where grp: "rmatch (RGroup 1 (RSeqs [RLit [left], RStar RAny, RLit [right]])) ?s (i2, []) = (e, [(1, (i2, e))]) # zs"
    by auto
  obtain m where m: "e \<le> m" "rmatch RSpaces ?s (e, [(1, (i2, e))]) = map (\<lambda>j. (j, [(1, (i2, e))])) (rev [e ..< Suc m])"
    using rmatch_star_ex [of e ?s js_ws] len unfolding RSpaces_def RSpace_def by fastforce
  let ?eol = "concat (map (rmatch REolM ?s) (map (\<lambda>j. (j, [(1, (i2, e))])) (rev [e ..< Suc m])))"
  have "(e, [(1, (i2, e))]) \<in> set ?eol" using m(1) nl NL(1) len by force
  moreover have "snd x = [(1, (i2, e))]" if "x \<in> set ?eol" for x using that by (auto split: if_splits)
  ultimately obtain e' more' where eol: "?eol = (e', [(1, (i2, e))]) # more'" using same_captures [of _ ?eol] by blast
  let ?c = "[(1, (i2, e))]" and ?g = "RGroup 1 (RSeqs [RLit [left], RStar RAny, RLit [right]])"
  have "rmatch (RSeq RSpaces REolM) ?s (e, ?c) = (e', ?c) # more'" by (simp only: rmatch.simps(3) m(2) eol)
  from rmatch_Seq_first [OF grp this]
  obtain z1 where "rmatch (RSeq ?g (RSeq RSpaces REolM)) ?s (i2, []) = (e', ?c) # z1" by blast
  from rmatch_Seq_first [OF sp this]
  obtain z2 where "rmatch (RSeq RSpaces (RSeq ?g (RSeq RSpaces REolM))) ?s (Suc (i0 + length k), []) = (e', ?c) # z2" by blast
  from rmatch_Seq_first [OF lit this]
  obtain z3 where "rmatch (RSeq (RLit ?key) (RSeq RSpaces (RSeq ?g (RSeq RSpaces REolM)))) ?s (i0, []) = (e', ?c) # z3" by blast
  from rmatch_Seq_first [OF bol this]
  have "\<exists>later. rmatch (extension_line k left right) ?s (i0, []) = (e', ?c) # later"
    by (simp only: extension_line_def RSeqs.simps)
  then obtain later where hit: "rmatch (extension_line k left right) ?s (i0, []) = (e', [(1, (i2, e))]) # later" by blast
  have "rexec (extension_line k left right) ?s 0 = Some \<lparr> m_start = i0, m_end = e', m_caps = [(1, (i2, e))] \<rparr>"
    unfolding extension_line_def i0_def header_text_def
    by (rule rexec_after_lines) (use key ls hit in \<open>simp_all add: extension_line_def i0_def header_text_def\<close>)
  moreover have "slice i2 e ?s = v" by (simp add: slice_def e_def i2_def i0_def)
  ultimately show ?thesis by (simp add: group_of_def m_group_def)
qed

section \<open>Fields and responses as values\<close>

lemma field_val_plain [simp]: "json_plain (field_val f)"
  by (cases "df_example f"; cases "df_parentId f"; cases "df_status f"; cases "df_responseId f")
    (simp_all add: field_val_def opt_member_def ordered_eval)

lemmas member_eval = opt_member_def text_at_def opt_text_at_def obj_get_def proto_get_def

lemma typed_field_val [simp]: "typed_field (field_val f) = f"
  by (cases "df_example f"; cases "df_parentId f"; cases "df_status f"; cases "df_responseId f")
    (simp_all add: typed_field_def field_val_def member_eval)

lemma field_val_object [simp]: "is_field_object (field_val f)"
  by (cases "df_example f"; cases "df_parentId f"; cases "df_status f"; cases "df_responseId f")
    (simp_all add: is_field_object_def field_val_def member_eval)

lemma response_val_plain [simp]: "json_plain (response_val r)"
  by (cases "rd_componentId r"; cases "rd_referenceMode r")
    (simp_all add: response_val_def opt_member_def ordered_eval split: reference_mode.split)

lemma normal_body_type [simp]: "normalizeResponseBodyType (JStr (body_type_id t)) = t"
  by (cases t) (simp_all add: normalizeResponseBodyType_def RESPONSE_BODY_TYPES_def)

lemma typed_response_val [simp]: "typed_response (response_val r) = r"
  by (cases "rd_componentId r"; cases "rd_referenceMode r")
    (simp_all add: typed_response_def response_val_def member_eval split: reference_mode.split)

lemma response_val_not_null [simp]: "JNull \<noteq> response_val r"
  by (simp add: response_val_def)

section \<open>The writer ends\<close>

lemma those_ends: "(\<And>x. x \<in> set xs \<Longrightarrow> h x \<noteq> None) \<Longrightarrow> \<exists>ys. those (map h xs) = Some ys"
  using those_None_iff [of "map h xs"] by (cases "those (map h xs)") (auto simp del: not_None_eq dest: sym)

lemma renderSchemaField_ends:
  assumes "fields_ok flds"
  shows "f \<in> set flds \<Longrightarrow> lineage (field_links flds) (df_id f # is) \<Longrightarrow> last (df_id f # is) \<in> df_id ` set flds \<Longrightarrow>
    length flds < n + length (df_id f # is) \<Longrightarrow> renderSchemaField n flds f indent \<noteq> None"
proof (induction n arbitrary: f "is" indent)
  case 0
  have "length (df_id f # is) \<le> length flds"
    by (rule lineage_bound [OF 0(2) _ links_image 0(3)]) (use assms in \<open>simp add: fields_ok_def\<close>)
  with 0(4) show ?case by simp
next
  case (Suc n)
  have child: "renderSchemaField n flds c ind \<noteq> None" if "c \<in> set (field_children flds (df_id f))" for c ind
  proof (rule Suc.IH)
    have "(df_id f, df_id c) \<in> field_links flds" using that by (auto simp: field_children_def links_def)
    with Suc.prems(2) show "lineage (field_links flds) (df_id c # df_id f # is)" by (rule lineage.below)
  qed (use that Suc.prems in \<open>auto simp: field_children_def\<close>)
  have all: "\<exists>ts. those (map (\<lambda>c. map_option (h c) (renderSchemaField n flds c (ind c))) (field_children flds (df_id f))) = Some ts" for h ind
    by (rule those_ends) (use child in \<open>simp del: not_None_eq\<close>)
  show ?case
  proof (cases "df_type f = ''array''")
    case True
    then show ?thesis using child by (cases "field_children flds (df_id f)") (auto simp: Let_def)
  next
    case False
    then show ?thesis using all by (auto simp: Let_def)
  qed
qed

lemma yamlSchema_ends:
  assumes "fields_ok flds" "set items \<subseteq> set flds"
  shows "\<exists>t. yamlSchema (Suc (length flds)) flds items indent = Some t"
proof -
  have "renderSchemaField (Suc (length flds)) flds f ind \<noteq> None" if "f \<in> set items" for f ind
    by (rule renderSchemaField_ends [OF assms(1) _ lineage.top]) (use that assms(2) in auto)
  then have "\<exists>ts. those (map (\<lambda>f. map_option (h f) (renderSchemaField (Suc (length flds)) flds f (ind f))) (schema_roots items)) = Some ts" for h ind
    by (intro those_ends) (simp add: schema_roots_def del: not_None_eq renderSchemaField.simps)
  then show ?thesis unfolding yamlSchema_def by fastforce
qed

lemma part_schema_ends:
  assumes "fields_ok flds" "set items \<subseteq> set flds"
  shows "\<exists>t. part_schema (Suc (length flds)) flds items title indent = Some t"
  using yamlSchema_ends [OF assms] by (fastforce simp: part_schema_def)

lemma responses_end:
  assumes "fields_ok flds"
  shows "\<exists>rs. those (map (swagger_response (Suc (length flds)) flds) (response_statuses flds)) = Some rs"
    and "\<exists>rs. those (map (openapi_response (Suc (length flds)) flds) (response_statuses flds)) = Some rs"
proof -
  have part: "part_schema (Suc (length flds)) flds (of_status flds status scope) title indent \<noteq> None" for status scope title indent
    using part_schema_ends [OF assms, of "of_status flds status scope" title indent] by (auto simp: of_status_def)
  have "swagger_response (Suc (length flds)) flds status \<noteq> None" "openapi_response (Suc (length flds)) flds status \<noteq> None" for status
    unfolding swagger_response_def openapi_response_def Let_def option.map_disc_iff by (rule part)+
  then show "\<exists>rs. those (map (swagger_response (Suc (length flds)) flds) (response_statuses flds)) = Some rs"
    and "\<exists>rs. those (map (openapi_response (Suc (length flds)) flds) (response_statuses flds)) = Some rs"
    by (intro those_ends; simp del: not_None_eq)+
qed

lemma request_body_ends: "fields_ok flds \<Longrightarrow> \<exists>t. request_body_text (Suc (length flds)) flds bodyMode = Some t"
  using yamlSchema_ends [of flds "filter (\<lambda>f. df_scope f = ''request.body'') flds"] by (fastforce simp: request_body_text_def)

section \<open>Definitions are read back\<close>

fun head_lines :: "OpenApiVersion \<Rightarrow> BodyDesignMode \<Rightarrow> string list" where
  "head_lines V20 m = [''swagger: '' @ [APOS] @ ''2.0'' @ [APOS]]"
| "head_lines v m = [''openapi: '' @ version_literal v, ''x-apivoy-body-mode: '' @ body_mode_id m]"

lemma written_definition:
  assumes "fields_ok flds" "responses \<noteq> []"
  shows "\<exists>rest. fieldsToDefinition E draft flds ''http'' version bodyMode security responses
    = Some (header_text (head_lines version bodyMode) @ design_extensions flds security responses @ rest)"
proof -
  obtain path http_method where live: "live_operation (de_pathname E) draft = (path, http_method)" by fastforce
  show ?thesis
  proof (cases "version = V20")
    case True
    obtain rs where rs: "those (map (swagger_response (Suc (length flds)) flds) (response_statuses flds)) = Some rs"
      using responses_end(1) [OF assms(1)] by blast
    have "\<exists>t. part_schema (Suc (length flds)) flds (filter (\<lambda>f. df_scope f = ''request.body'') flds) title indent = Some t" for title indent
      by (rule part_schema_ends [OF assms(1) filter_is_subset])
    then obtain b where b: "\<And>title indent. part_schema (Suc (length flds)) flds (filter (\<lambda>f. df_scope f = ''request.body'') flds) title indent
      = Some (b title indent)" by metis
    show ?thesis by (simp add: True fieldsToDefinition_def assms(2) live swagger_text_def Let_def rs b)
  next
    case False
    then have head: "head_lines version bodyMode = [''openapi: '' @ version_literal version, ''x-apivoy-body-mode: '' @ body_mode_id bodyMode]"
      by (cases version) simp_all
    obtain rs where rs: "those (map (openapi_response (Suc (length flds)) flds) (response_statuses flds)) = Some rs"
      using responses_end(2) [OF assms(1)] by blast
    obtain b where b: "request_body_text (Suc (length flds)) flds bodyMode = Some b" using request_body_ends [OF assms(1)] by blast
    show ?thesis by (simp add: False head fieldsToDefinition_def assms(2) live openapi_text_def Let_def rs b)
  qed
qed

lemma header_text_append: "header_text (ls @ ms) = header_text ls @ header_text ms"
  by (simp add: header_text_def)

lemma one_line_lits: "list_all one_line (head_lines version bodyMode)"
  by (cases version; cases bodyMode) (simp_all add: is_nl_def APOS_def)

abbreviation keyless :: "string \<Rightarrow> string list \<Rightarrow> bool" where
  "keyless k ls \<equiv> list_all (\<lambda>l. one_line l \<and> take (Suc (length k)) l \<noteq> k @ '':'') ls"

lemma head_keyless:
  "keyless ''x-apivoy-visual-fields'' (head_lines version bodyMode)"
  "keyless ''x-apivoy-security'' (head_lines version bodyMode)"
  "keyless ''x-apivoy-responses'' (head_lines version bodyMode)"
  using one_line_lits [of version bodyMode] by (cases version; simp)+

lemma keyless_append:
  "keyless k ls \<Longrightarrow> one_line p \<Longrightarrow> one_line j \<Longrightarrow> Suc (length k) \<le> length p \<Longrightarrow> take (Suc (length k)) p \<noteq> k @ '':'' \<Longrightarrow>
     keyless k (ls @ [p @ j])"
  by simp

lemma array_text: "\<exists>w. json_text 0 0 (JArr xs) = CHR ''['' # w @ [CHR '']'']"
  by (auto simp: brk_def)

lemma object_text: "\<exists>w. json_text u 0 (JObj ps) = CHR ''{'' # w @ [CHR ''}'']"
  by (auto simp: brk_def simp del: filter_False)

lemma written_and_read:
  assumes "fields_ok flds" and "responses \<noteq> []"
    and "json_plain (JObj security)" and "map fst security = map fst DEFAULT_SECURITY_DESIGN"
  shows "\<exists>content. fieldsToDefinition E draft flds ''http'' version bodyMode security responses = Some content
    \<and> parseDefinitionFields cache uuid content ''http'' = flds
    \<and> parseResponseDefinitions D uuid content flds = responses
    \<and> parseSecurityDesign content = security"
proof -
  let ?h = "head_lines version bodyMode"
  let ?f = "JArr (map field_val flds)" and ?s = "JObj security" and ?r = "JArr (map response_val responses)"
  let ?fl = "''x-apivoy-visual-fields: '' @ json_text 0 0 ?f" and ?sl = "''x-apivoy-security: '' @ json_text 0 0 ?s"
  have plain: "json_plain ?f" "json_plain ?r" by (simp_all add: list_all_iff)
  note lines = plain(1) [THEN one_line_json, of 0] assms(3) [THEN one_line_json, of 0] plain(2) [THEN one_line_json, of 0]
  obtain wf ws wr where w: "json_text 0 0 ?f = CHR ''['' # wf @ [CHR '']'']" "json_text 0 0 ?s = CHR ''{'' # ws @ [CHR ''}'']"
    "json_text 0 0 ?r = CHR ''['' # wr @ [CHR '']'']" using array_text object_text by metis
  obtain rest where c: "fieldsToDefinition E draft flds ''http'' version bodyMode security responses
      = Some (header_text ?h @ design_extensions flds security responses @ rest)"
    using written_definition [OF assms(1,2)] by blast
  let ?c = "header_text ?h @ design_extensions flds security responses @ rest"
  have forms: "?c = header_text ?h @ ''x-apivoy-visual-fields'' @ '': '' @ json_text 0 0 ?f @ NL # (?sl @ NL # ''x-apivoy-responses: '' @ json_text 0 0 ?r @ NL # rest)"
    "?c = header_text (?h @ [?fl]) @ ''x-apivoy-security'' @ '': '' @ json_text 0 0 ?s @ NL # (''x-apivoy-responses: '' @ json_text 0 0 ?r @ NL # rest)"
    "?c = header_text ((?h @ [?fl]) @ [?sl]) @ ''x-apivoy-responses'' @ '': '' @ json_text 0 0 ?r @ NL # rest"
    by (simp_all add: design_extensions_def header_text_append del: json_text.simps)
  have keys: "keyless ''x-apivoy-security'' (?h @ [?fl])" "keyless ''x-apivoy-responses'' ((?h @ [?fl]) @ [?sl])"
    by (intro keyless_append head_keyless lines; simp add: is_nl_def)+
  have g: "group_of (extension_line ''x-apivoy-visual-fields'' (CHR ''['') (CHR '']'')) 1 ?c = Some (json_text 0 0 ?f)"
    unfolding forms(1) by (rule extension_found [OF _ _ head_keyless(1) w(1) lines(1)]) (simp_all add: is_nl_def js_ws_def code_def)
  have gs: "group_of (extension_line ''x-apivoy-security'' (CHR ''{'') (CHR ''}'')) 1 ?c = Some (json_text 0 0 ?s)"
    unfolding forms(2) by (rule extension_found [OF _ _ keys(1) w(2) lines(2)]) (simp_all add: is_nl_def js_ws_def code_def)
  have gr: "group_of (extension_line ''x-apivoy-responses'' (CHR ''['') (CHR '']'')) 1 ?c = Some (json_text 0 0 ?r)"
    unfolding forms(3) by (rule extension_found [OF _ _ keys(2) w(3) lines(3)]) (simp_all add: is_nl_def js_ws_def code_def)
  note parsed = plain(1) [THEN JSON_parse_text, of 0] assms(3) [THEN JSON_parse_text, of 0] plain(2) [THEN JSON_parse_text, of 0]
  have "parseVisualFieldsExtension ?c = Some flds"
    unfolding parseVisualFieldsExtension_def g option.case parsed(1) jsval.case by (simp add: filter_map comp_def)
  moreover have "trim ?c \<noteq> []" by (cases version) (simp_all add: trim_def trimStart_def trimEnd_def js_ws_def code_def)
  moreover have "parseResponseDefinitions D uuid ?c flds = responses"
    unfolding parseResponseDefinitions_def gr option.case parsed(3) jsval.case
    using assms(2) by (simp add: comp_def image_iff)
  moreover have "parseSecurityDesign ?c = security"
    unfolding parseSecurityDesign_def gs option.case parsed(2)
    using spread_same_keys [of security DEFAULT_SECURITY_DESIGN] assms(4) by (simp add: DEFAULT_SECURITY_DESIGN_def)
  ultimately show ?thesis using c by (auto simp: parseDefinitionFields_def)
qed

text \<open>C4: a design is read back as it was written: for every forest of fields, every version of OpenAPI, body mode, security
  policy and list of responses, whatever texts the fields contain, the writer ends, and reading its text gives the same
  fields, the same responses and the same policy.\<close>

theorem design_reopened:
  assumes "fields_ok flds" and "responses \<noteq> []"
    and "json_plain (JObj security)" and "map fst security = map fst DEFAULT_SECURITY_DESIGN"
  shows "\<exists>content. fieldsToDefinition E draft flds ''http'' version bodyMode security responses = Some content
    \<and> parseDefinitionFields cache uuid content ''http'' = flds
    \<and> parseResponseDefinitions D uuid content flds = responses
    \<and> parseSecurityDesign content = security"
  using assms by (rule written_and_read)

definition sample_texts :: design_texts where
  "sample_texts = \<lparr> dt_success = ''OK'', dt_unnamed = ''response'' \<rparr>"

definition sample_design_env :: design_env where
  "sample_design_env = \<lparr> de_texts = sample_texts, de_uuid = digits_of, de_pathname = Some \<rparr>"

theorem design_reopened_witness:
  "\<exists>content. fieldsToDefinition sample_design_env None (ve_fields sample_visual) ''http'' V30 DesignJson DEFAULT_SECURITY_DESIGN
      [sample_response ''r''] = Some content
    \<and> parseDefinitionFields (\<lambda>_. None) digits_of content ''http'' = ve_fields sample_visual
    \<and> parseResponseDefinitions sample_texts digits_of content (ve_fields sample_visual) = [sample_response ''r'']
    \<and> parseSecurityDesign content = DEFAULT_SECURITY_DESIGN"
  using sample_visual_ok by (intro design_reopened) (simp_all add: editor_ok_def DEFAULT_SECURITY_DESIGN_def ordered_eval)

section \<open>What the other sources lose\<close>

text \<open>Definitions of the other protocols carry no extension, and their parsers do not read what the writer writes: an SQL column
  of any type comes back as text, an object in a Protocol Buffers message does not come back at all, and the types of a GraphQL
  input come back under names the editor does not know.\<close>

definition typed_sample :: "string \<Rightarrow> DefinitionField" where
  "typed_sample t = (sample_field ''n'' None)\<lparr> df_type := t \<rparr>"

lemma sql_types_lost:
  "map df_type (parseDefinitionFields (\<lambda>_. None) digits_of
     (sql_text (map typed_sample [''integer'', ''number'', ''boolean'', ''object''])) ''sql'') = replicate 4 ''string''"
  by code_simp

lemma grpc_object_lost:
  "map df_type (parseDefinitionFields (\<lambda>_. None) digits_of
     (proto_text (map typed_sample [''integer'', ''number'', ''object'', ''array''])) ''grpc'') = [''integer'', ''double'', ''string'']"
  by code_simp

lemma graphql_types_renamed:
  "map df_type (parseDefinitionFields (\<lambda>_. None) digits_of
     (graphql_text (map typed_sample [''integer'', ''number'', ''object''])) ''graphql'') = [''int'', ''float'', ''json'']
   \<and> ''int'' \<notin> set FIELD_TYPES \<and> ''float'' \<notin> set FIELD_TYPES \<and> ''json'' \<notin> set FIELD_TYPES"
  by code_simp

end
