(* ===== verification/DesignSyncLaws.thy ===== *)
theory DesignSyncLaws imports DesignDocument DesignWriterLaws begin

text \<open>
  What the exchange with the workbench promises: a design made from a draft is a forest with its own identifiers, so that it
  can be edited, written and read back; merging a design into a draft a second time changes nothing.
\<close>

section \<open>Designs made from drafts\<close>

definition numbered :: "(nat \<Rightarrow> string) \<Rightarrow> DefinitionField list \<Rightarrow> bool" where
  "numbered uuid flds \<longleftrightarrow> fields_ok flds \<and> map df_id flds = map uuid [0 ..< length flds]
     \<and> (\<forall>f \<in> set flds. case df_parentId f of None \<Rightarrow> True | Some p \<Rightarrow> p \<in> df_id ` set flds)"

definition body_parent :: "string option \<Rightarrow> DefinitionField list \<Rightarrow> bool" where
  "body_parent parentId flds =
     (case parentId of None \<Rightarrow> True | Some p \<Rightarrow> \<exists>g \<in> set flds. df_id g = p \<and> df_scope g = ''request.body'')"

lemma numbered_ids: "numbered uuid flds \<Longrightarrow> df_id ` set flds = uuid ` {0 ..< length flds}"
  by (metis atLeastLessThan_upt numbered_def image_set)

lemma numbered_push:
  assumes "inj uuid" "\<And>n. uuid n \<noteq> []" "numbered uuid flds" "df_id f = uuid (length flds)"
    and "case df_parentId f of None \<Rightarrow> True | Some p \<Rightarrow> \<exists>g \<in> set flds. df_id g = p \<and> df_scope g = df_scope f"
  shows "numbered uuid (flds @ [f])"
proof -
  have new: "uuid (length flds) \<notin> df_id ` set flds"
    using numbered_ids [OF assms(3)] assms(1) by (auto dest: injD)
  have ok: "fields_ok flds" using assms(3) by (simp add: numbered_def)
  have "fields_ok (flds @ [f])"
  proof (rule fields_ok_leaf [OF ok])
    show "df_id f \<noteq> []" using assms(2,4) by simp
    show "list_all (\<lambda>g. df_id g \<noteq> df_id f \<and> df_parentId g \<noteq> Some (df_id f)) flds"
    proof -
      have "df_id g \<noteq> df_id f \<and> df_parentId g \<noteq> Some (df_id f)" if g: "g \<in> set flds" for g
      proof -
        have "case df_parentId g of None \<Rightarrow> True | Some p \<Rightarrow> p \<in> df_id ` set flds" using assms(3) g by (simp add: numbered_def)
        with new assms(4) have "df_parentId g \<noteq> Some (df_id f)" by force
        moreover have "df_id g \<noteq> df_id f" using new assms(4) g by (metis imageI)
        ultimately show ?thesis by blast
      qed
      then show ?thesis by (simp add: list_all_iff)
    qed
    show "case df_parentId f of None \<Rightarrow> True | Some p \<Rightarrow> p \<noteq> [] \<and> p \<noteq> df_id f \<and> (\<forall>g \<in> set flds. df_id g = p \<longrightarrow> df_scope f = df_scope g)"
    proof (cases "df_parentId f")
      case (Some p)
      then obtain g where g: "g \<in> set flds" "df_id g = p" "df_scope g = df_scope f" using assms(5) by auto
      have "p \<noteq> []" using ok g by (auto dest: fields_ok_id)
      moreover have "p \<noteq> df_id f" using g new assms(4) by force
      moreover have "df_scope f = df_scope h" if "h \<in> set flds" "df_id h = p" for h
        using same_scope [OF ok that(1) g(1)] that(2) g(2,3) by simp
      ultimately show ?thesis unfolding Some option.case by blast
    qed simp
  qed
  moreover have "case df_parentId g of None \<Rightarrow> True | Some p \<Rightarrow> p \<in> df_id ` set (flds @ [f])" if "g \<in> set (flds @ [f])" for g
  proof (cases "g = f")
    case True
    then show ?thesis using assms(5) by (cases "df_parentId f") auto
  next
    case False
    then have "g \<in> set flds" using that by simp
    then show ?thesis using assms(3) by (cases "df_parentId g") (auto simp: numbered_def)
  qed
  ultimately show ?thesis using assms(3,4) unfolding numbered_def by auto
qed

lemma body_parent_append: "body_parent p flds \<Longrightarrow> body_parent p (flds @ gs)"
  by (auto simp: body_parent_def split: option.splits)

lemma draft_body_field_simps [simp]:
  "df_id (draft_body_field i name v p) = i" "df_parentId (draft_body_field i name v p) = p" "df_scope (draft_body_field i name v p) = ''request.body''"
  by (simp_all add: draft_body_field_def parsed_field_def)

lemma numbered_draft_body_field:
  assumes "inj uuid" "\<And>n. uuid n \<noteq> []" "numbered uuid flds" "body_parent p flds"
  shows "numbered uuid (flds @ [draft_body_field (uuid (length flds)) name v p])"
  by (rule numbered_push [OF assms(1-3)]) (use assms(4) in \<open>auto simp: body_parent_def split: option.splits\<close>)

lemma fold_extends:
  assumes "\<And>x acc. x \<in> set xs \<Longrightarrow> Q acc \<Longrightarrow> Q (g x acc) \<and> (\<exists>new. g x acc = acc @ new)" and "Q acc"
  shows "Q (fold g xs acc) \<and> (\<exists>new. fold g xs acc = acc @ new)"
  using assms
proof (induction xs arbitrary: acc)
  case (Cons x xs)
  have x: "Q (g x acc)" "\<exists>new. g x acc = acc @ new" using Cons.prems(1) [of x acc] Cons.prems(2) by auto
  have "Q (fold g xs (g x acc)) \<and> (\<exists>new. fold g xs (g x acc) = g x acc @ new)" using Cons.IH Cons.prems(1) x(1) by simp
  with x(2) show ?case by auto
qed simp

lemma addBodyField_numbered:
  assumes "inj uuid" "\<And>n. uuid n \<noteq> []"
  shows "numbered uuid flds \<Longrightarrow> body_parent p flds \<Longrightarrow>
    numbered uuid (addBodyField uuid name v p flds) \<and> (\<exists>new. addBodyField uuid name v p flds = flds @ new)"
proof (induction v arbitrary: name p flds)
  case (JArr xs)
  let ?i = "uuid (length flds)" and ?f = "flds @ [draft_body_field (uuid (length flds)) name (JArr xs) p]"
  have f: "numbered uuid ?f" using numbered_draft_body_field [OF assms JArr.prems] .
  have i: "body_parent (Some ?i) ?f" by (simp add: body_parent_def)
  show ?case
  proof (cases xs)
    case Nil
    from numbered_draft_body_field [OF assms f i, of "''items''" "JStr []"] show ?thesis
      by (subst (1 2) addBodyField.simps) (simp add: Nil Let_def)
  next
    case (Cons x xs')
    with JArr.IH [of x ?f "Some ?i" "''items''"] f i show ?thesis
      by (subst (1 2) addBodyField.simps) (auto simp: Let_def)
  qed
next
  case (JObj ps)
  let ?i = "uuid (length flds)" and ?f = "flds @ [draft_body_field (uuid (length flds)) name (JObj ps) p]"
  let ?g = "\<lambda>(k, item). addBodyField uuid k item (Some ?i)"
  define Q where "Q acc \<longleftrightarrow> numbered uuid acc \<and> body_parent (Some ?i) acc" for acc
  have "Q (?g x acc) \<and> (\<exists>new. ?g x acc = acc @ new)" if x: "x \<in> set ps" "Q acc" for x acc
  proof -
    obtain k item where kv: "x = (k, item)" by (cases x)
    have "numbered uuid (addBodyField uuid k item (Some ?i) acc) \<and> (\<exists>new. addBodyField uuid k item (Some ?i) acc = acc @ new)"
      by (rule JObj.IH [of x item]) (use x kv in \<open>auto simp: Q_def\<close>)
    then show ?thesis using x(2) by (auto simp: kv Q_def body_parent_append)
  qed
  moreover have "Q ?f" using numbered_draft_body_field [OF assms JObj.prems] by (simp add: Q_def body_parent_def)
  ultimately have "Q (fold ?g ps ?f) \<and> (\<exists>new. fold ?g ps ?f = ?f @ new)" by (rule fold_extends)
  then show ?case by (subst (1 2) addBodyField.simps) (auto simp: Let_def Q_def)
qed (subst (1 2) addBodyField.simps, simp add: Let_def numbered_draft_body_field [OF assms])+

lemma numbered_named:
  assumes "inj uuid" "\<And>n. uuid n \<noteq> []" "numbered uuid flds"
  shows "numbered uuid (fold (draft_named_field uuid scope) names flds)"
  using assms(3)
proof (induction names arbitrary: flds)
  case (Cons n names)
  have "numbered uuid (draft_named_field uuid scope n flds)"
    unfolding draft_named_field_def by (rule numbered_push [OF assms(1,2) Cons.prems]) (simp_all add: parsed_field_def)
  with Cons.IH show ?case by simp
qed simp

lemma draft_fields_numbered:
  assumes "inj uuid" "\<And>n. uuid n \<noteq> []"
  shows "numbered uuid (definitionFieldsFromHttpDraft U uuid draft)"
proof -
  have body: "numbered uuid (body_text_fields uuid body flds)" if n: "numbered uuid flds" for body flds
  proof -
    have "numbered uuid (fold (\<lambda>(k, item). addBodyField uuid k item None) ps flds)" for ps
      using fold_extends [of ps "numbered uuid" "\<lambda>(k, item). addBodyField uuid k item None" flds] n
        addBodyField_numbered [OF assms, of _ None] by (simp add: body_parent_def split_beta)
    moreover have "numbered uuid (addBodyField uuid name v None flds)" for name v
      using addBodyField_numbered [OF assms n, of None] by (simp add: body_parent_def)
    ultimately show ?thesis using n by (auto simp: body_text_fields_def split: option.splits jsval.splits)
  qed
  have "numbered uuid []" by (simp add: numbered_def fields_ok_def links_def acyclic_def)
  then show ?thesis unfolding definitionFieldsFromHttpDraft_def Let_def by (intro body numbered_named assms)
qed

text \<open>C31: a design made from whatever request is in the workbench is a forest of fields with distinct identifiers, every nested
  field below its parent in the body; it can therefore be written as a definition and is read back from it unchanged.\<close>

theorem draft_becomes_design:
  assumes "inj uuid" and "\<And>n. uuid n \<noteq> []"
  shows "fields_ok (definitionFieldsFromHttpDraft U uuid draft)
    \<and> (\<exists>content. fieldsToDefinition E stored (definitionFieldsFromHttpDraft U uuid draft) ''http'' version bodyMode DEFAULT_SECURITY_DESIGN
           [defaultResponseDefinition D i ''200''] = Some content
         \<and> parseDefinitionFields cache uuid' content ''http'' = definitionFieldsFromHttpDraft U uuid draft)"
proof -
  let ?flds = "definitionFieldsFromHttpDraft U uuid draft"
  have ok: "fields_ok ?flds" using draft_fields_numbered [OF assms] by (simp add: numbered_def)
  have "json_plain (JObj DEFAULT_SECURITY_DESIGN)" by (simp add: DEFAULT_SECURITY_DESIGN_def ordered_eval)
  from written_and_read [OF ok _ this] show ?thesis using ok by fastforce
qed

lemma inj_digits_of: "inj digits_of"
  by (rule inj_on_inverseI [of _ digits_val]) simp

definition sample_url_env :: url_env where
  "sample_url_env =
     \<lparr> ue_parse = (\<lambda>url. Some \<lparr> pu_pathname = ''/'', pu_params = or_default (form_parse (drop 1 (dropWhile (\<lambda>c. c \<noteq> CHR ''?'') url))) [] \<rparr>),
       ue_setPathname = (\<lambda>url path. path) \<rparr>"

definition sample_draft :: HttpDebugDraft where
  "sample_draft = empty_draft\<lparr> dd_url := ''/a?b=1'', dd_headers := [(''X-Id'', ''7''), (''Cookie'', ''s=1; t=2'')],
     dd_body := Some ''[{}]'' \<rparr>"

theorem draft_becomes_design_witness:
  "fields_ok (definitionFieldsFromHttpDraft sample_url_env digits_of sample_draft)
    \<and> (\<exists>content. fieldsToDefinition sample_design_env None (definitionFieldsFromHttpDraft sample_url_env digits_of sample_draft) ''http'' V31 DesignJson
           DEFAULT_SECURITY_DESIGN [defaultResponseDefinition sample_texts ''i'' ''200''] = Some content
         \<and> parseDefinitionFields (\<lambda>_. None) digits_of content ''http'' = definitionFieldsFromHttpDraft sample_url_env digits_of sample_draft)"
  by (rule draft_becomes_design [OF inj_digits_of]) simp

section \<open>Merging twice\<close>

text \<open>Appending what is absent: only the absent is appended, and afterwards nothing is absent.\<close>

definition present :: "string \<Rightarrow> header_list \<Rightarrow> bool" where
  "present name hs = list_ex (\<lambda>(n, _). toLowerCase n = toLowerCase name) hs"

lemma present_append [simp]: "present n (hs @ hs') \<longleftrightarrow> present n hs \<or> present n hs'"
  by (simp add: present_def)

lemma present_iff: "present n hs \<longleftrightarrow> (\<exists>h \<in> set hs. named_header (toLowerCase n) h)"
  by (auto simp: present_def named_header_def list_ex_iff split_beta)

definition add_absent :: "DefinitionField \<Rightarrow> header_list \<Rightarrow> header_list" where
  "add_absent f hs = (if present (df_name f) hs then hs else hs @ [(df_name f, [])])"

lemma add_absent_simps:
  "present (df_name f) hs \<Longrightarrow> add_absent f hs = hs" "\<not> present (df_name f) hs \<Longrightarrow> add_absent f hs = hs @ [(df_name f, [])]"
  by (simp_all add: add_absent_def)

lemma present_Cons: "present n ((m, v) # hs) \<longleftrightarrow> toLowerCase m = toLowerCase n \<or> present n hs"
  by (simp add: present_def)

lemma fold_add_absent:
  "\<exists>new. fold add_absent flds hs = hs @ new \<and> set new \<subseteq> (\<lambda>f. (df_name f, [])) ` {f \<in> set flds. \<not> present (df_name f) hs}
     \<and> (\<forall>f \<in> set flds. present (df_name f) (hs @ new))"
proof (induction flds arbitrary: hs)
  case (Cons f flds)
  show ?case
  proof (cases "present (df_name f) hs")
    case True
    then show ?thesis using Cons.IH [of hs] by (auto simp: add_absent_def)
  next
    case False
    from Cons.IH [of "hs @ [(df_name f, [])]"] obtain new
      where "fold add_absent flds (hs @ [(df_name f, [])]) = (hs @ [(df_name f, [])]) @ new"
        "set new \<subseteq> (\<lambda>f. (df_name f, [])) ` {f \<in> set flds. \<not> present (df_name f) hs}"
        "\<forall>g \<in> set flds. present (df_name g) ((hs @ [(df_name f, [])]) @ new)" by auto
    then show ?thesis using False
      by (intro exI [of _ "(df_name f, []) # new"]) (auto simp: add_absent_simps present_Cons)
  qed
qed simp

lemma def_prop_twice: "def_prop k v (def_prop k v ps) = def_prop k v ps"
  by (rule def_prop_same) simp

subsection \<open>The address\<close>

lemma params_set_fresh: "k \<notin> fst ` set ps \<Longrightarrow> params_set k v ps = ps @ [(k, v)]"
  by (induction k v ps rule: params_set.induct) auto

lemma fold_present: "(\<And>f. f \<in> set flds \<Longrightarrow> P f acc) \<Longrightarrow> fold (\<lambda>f hs. if P f hs then hs else g f hs) flds acc = acc"
  by (induction flds) auto

lemma merged_params_names: "fst ` set (merged_params flds ps) = fst ` set ps \<union> df_name ` set (named_in ''request.params'' flds)"
proof -
  have "fst ` set (fold (\<lambda>f ps. if df_name f \<in> fst ` set ps then ps else params_set (df_name f) [] ps) fs ps) = fst ` set ps \<union> df_name ` set fs" for fs
    by (induction fs arbitrary: ps) (auto simp: params_set_fresh)
  then show ?thesis by (simp add: merged_params_def)
qed

lemma merged_params_twice: "merged_params flds (merged_params flds ps) = merged_params flds ps"
  unfolding merged_params_def [of flds "merged_params flds ps"] by (rule fold_present) (simp add: merged_params_names)

definition url_path :: "string \<Rightarrow> string" where
  "url_path url = takeWhile (\<lambda>c. c \<noteq> CHR ''?'' \<and> c \<noteq> CHR ''#'') url"

text \<open>What the platform promises about the addresses the merge makes: the query that was appended to a path is read back.\<close>

definition reads_query :: "url_env \<Rightarrow> string \<Rightarrow> bool" where
  "reads_query U path \<longleftrightarrow> (\<forall>ps. \<exists>parsed. ue_parse U (path @ (if ps = [] then [] else ''?'' @ form_serialize ps)) = Some parsed \<and> pu_params parsed = ps)"

lemma form_serialize_Nil: "form_serialize ps = [] \<longleftrightarrow> ps = []"
proof -
  have "join ''&'' (x # xs) \<noteq> []" if "x \<noteq> []" for x :: string and xs using that by (cases xs) auto
  then show ?thesis by (cases ps) (auto simp: form_serialize_def split: prod.split)
qed

lemma merged_url_twice:
  assumes "merged_url U flds url = Some url'" and "reads_query U (url_path url)" and "url_path url \<noteq> []"
  shows "merged_url U flds url' = Some url' \<and> url_path url' = url_path url"
proof -
  let ?path = "url_path url"
  obtain parsed where "ue_parse U (url_or_root url) = Some parsed" using assms(1) by (auto simp: merged_url_def)
  with assms(1,3) have url': "url' = ?path @ (if merged_params flds (pu_params parsed) = [] then []
      else ''?'' @ form_serialize (merged_params flds (pu_params parsed)))"
    by (auto simp: merged_url_def url_path_def Let_def form_serialize_Nil)
  have "\<forall>c \<in> set ?path. c \<noteq> CHR ''?'' \<and> c \<noteq> CHR ''#''" unfolding url_path_def by (auto dest: set_takeWhileD)
  then have path: "url_path url' = ?path" unfolding url' by (simp add: url_path_def [of "_ @ _"] takeWhile_append2)
  have "url' \<noteq> []" using assms(3) path by (auto simp: url_path_def)
  moreover obtain parsed' where "ue_parse U url' = Some parsed'" "pu_params parsed' = merged_params flds (pu_params parsed)"
    using assms(2) unfolding reads_query_def url' by blast
  ultimately have "merged_url U flds url' = Some url'"
    using path assms(3) url' by (simp add: merged_url_def url_or_root_def url_path_def [symmetric] merged_params_twice Let_def form_serialize_Nil)
  with path show ?thesis by simp
qed

subsection \<open>Headers and cookies\<close>

lemma merged_headers_fold: "merged_headers flds hs = fold add_absent (named_in ''request.headers'' flds) hs"
  by (simp add: merged_headers_def add_absent_def [abs_def] present_def)

lemma merged_headers_new:
  "\<exists>new. merged_headers flds hs = hs @ new
     \<and> set new \<subseteq> (\<lambda>f. (df_name f, [])) ` {f \<in> set (named_in ''request.headers'' flds). \<not> present (df_name f) hs}
     \<and> (\<forall>f \<in> set (named_in ''request.headers'' flds). present (df_name f) (hs @ new))"
  unfolding merged_headers_fold by (rule fold_add_absent)

lemma lower_names: "toLowerCase ''Cookie'' = ''cookie''" "toLowerCase ''Content-Type'' = ''content-type''"
  by code_simp+

definition plain_header :: "string \<times> string \<Rightarrow> bool" where
  "plain_header h \<longleftrightarrow> \<not> named_header ''cookie'' h \<and> \<not> named_header ''content-type'' h"

text \<open>Cookies that are read back as they are written.\<close>

definition clean_cookie :: "string \<times> string \<Rightarrow> bool" where
  "clean_cookie c \<longleftrightarrow> fst c \<noteq> [] \<and> CHR ''='' \<notin> set (fst c @ snd c) \<and> CHR '';'' \<notin> set (fst c @ snd c)
     \<and> trim (fst c @ ''='' @ snd c) = fst c @ ''='' @ snd c"

abbreviation cookie_text :: "string \<times> string \<Rightarrow> string" where
  "cookie_text c \<equiv> fst c @ ''='' @ snd c"

lemma cookie_item_clean: "clean_cookie c \<Longrightarrow> cookie_item (cookie_text c) = c \<and> cookie_item (CHR '' '' # cookie_text c) = c"
proof -
  assume c: "clean_cookie c"
  have "trim (CHR '' '' # cookie_text c) = trim (cookie_text c)" by (simp add: trim_def trimStart_def js_ws_def code_def)
  moreover have "split (CHR ''='') (cookie_text c) = [fst c, snd c]" using c by (simp add: clean_cookie_def split_append_sep split_single)
  ultimately show ?thesis using c by (simp add: cookie_item_def clean_cookie_def)
qed

lemma split_cookie_texts:
  "list_all clean_cookie (c # cs) \<Longrightarrow>
     split (CHR '';'') (join ''; '' (map cookie_text (c # cs))) = cookie_text c # map (\<lambda>c. CHR '' '' # cookie_text c) cs"
proof (induction cs arbitrary: c)
  case Nil
  then show ?case by (simp add: clean_cookie_def split_single)
next
  case (Cons d cs)
  have "split (CHR '';'') (cookie_text c @ CHR '';'' # CHR '' '' # join ''; '' (map cookie_text (d # cs)))
      = cookie_text c # split (CHR '';'') (CHR '' '' # join ''; '' (map cookie_text (d # cs)))"
    by (rule split_append_sep) (use Cons.prems in \<open>simp add: clean_cookie_def\<close>)
  moreover have "split (CHR '';'') (CHR '' '' # join ''; '' (map cookie_text (d # cs))) = map (\<lambda>c. CHR '' '' # cookie_text c) (d # cs)"
    using Cons.IH [of d] Cons.prems by simp
  ultimately show ?case by simp
qed

lemma fold_update_distinct:
  "distinct (map fst (as @ cs)) \<Longrightarrow> fold (\<lambda>(name, v). AList.update name v) cs as = as @ cs"
proof (induction cs arbitrary: as)
  case (Cons c cs)
  have "fst c \<notin> fst ` set as" using Cons.prems by auto
  then have "AList.update (fst c) (snd c) as = as @ [c]" by (induction as) auto
  with Cons show ?case by (simp add: split_beta)
qed simp

lemma draft_cookies_written:
  assumes "list_all clean_cookie cs" "distinct (map fst cs)"
  shows "draft_cookies [(''Cookie'', join ''; '' (map cookie_text cs))] = cs"
proof (cases cs)
  case Nil
  then show ?thesis by (simp add: draft_cookies_def named_header_def lower_names cookie_item_def)
next
  case (Cons c ds)
  have "map cookie_item (split (CHR '';'') (join ''; '' (map cookie_text (c # ds)))) = c # ds"
    unfolding split_cookie_texts [OF assms(1) [unfolded Cons]]
    using assms(1) cookie_item_clean by (auto simp: Cons list_all_iff intro!: map_idI)
  moreover have "filter (\<lambda>(name, _). name \<noteq> []) (c # ds) = c # ds" using assms(1) by (auto simp: Cons list_all_iff clean_cookie_def filter_id_conv)
  ultimately have "draft_cookies [(''Cookie'', join ''; '' (map cookie_text cs))] = fold (\<lambda>(name, v). AList.update name v) cs []"
    by (simp add: draft_cookies_def named_header_def lower_names Cons)
  also have "\<dots> = cs" using fold_update_distinct [of "[]" cs] assms(2) by simp
  finally show ?thesis .
qed

lemma cookie_names_distinct: "distinct (map fst (merged_cookies flds (draft_cookies hs)))"
proof -
  have "distinct (map fst (fold (\<lambda>(name, v). AList.update name v) xs acc))" if "distinct (map fst acc)" for xs and acc :: "(string \<times> string) list"
    using that by (induction xs arbitrary: acc) (auto simp: distinct_update)
  from this [of "[]"] have "distinct (map fst (draft_cookies hs))" unfolding draft_cookies_def by simp
  moreover have "distinct (map fst (fold (\<lambda>f cs. if df_name f \<in> fst ` set cs then cs else AList.update (df_name f) [] cs) fs cs))"
    if "distinct (map fst cs)" for fs and cs :: "(string \<times> string) list"
    using that by (induction fs arbitrary: cs) (auto simp: distinct_update)
  ultimately show ?thesis by (simp add: merged_cookies_def)
qed

lemma merged_cookies_names: "df_name ` set (named_in ''request.cookies'' flds) \<subseteq> fst ` set (merged_cookies flds cs)"
proof -
  let ?step = "\<lambda>f cs. if df_name f \<in> fst ` set cs then cs else AList.update (df_name f) [] cs"
  have "df_name ` set fs \<union> fst ` set cs \<subseteq> fst ` set (fold ?step fs cs)" for fs and cs :: "(string \<times> string) list"
  proof (induction fs arbitrary: cs)
    case (Cons f fs)
    have "insert (df_name f) (fst ` set cs) \<subseteq> fst ` set (?step f cs)"
      by (auto simp: dom_update [unfolded dom_map_of_conv_image_fst])
    then have "df_name ` set (f # fs) \<union> fst ` set cs \<subseteq> df_name ` set fs \<union> fst ` set (?step f cs)" by (simp only: list.set image_insert) blast
    also have "\<dots> \<subseteq> fst ` set (fold ?step fs (?step f cs))" by (rule Cons.IH)
    finally show ?case by simp
  qed simp
  from this [of "named_in ''request.cookies'' flds" cs] show ?thesis by (simp add: merged_cookies_def)
qed

lemma empty_cookie_headers:
  "(\<And>h. h \<in> set new \<Longrightarrow> snd h = []) \<Longrightarrow> draft_cookies (hs @ new) = draft_cookies hs"
proof -
  assume new: "\<And>h. h \<in> set new \<Longrightarrow> snd h = []"
  then have "filter (\<lambda>(name, _). name \<noteq> []) (map cookie_item (concat (map (\<lambda>h. split (CHR '';'') (snd h)) (filter (named_header ''cookie'') new)))) = []"
    by (auto simp: filter_empty_conv cookie_item_def)
  then show ?thesis by (simp add: draft_cookies_def)
qed

lemma draft_cookies_filter: "draft_cookies (filter (named_header ''cookie'') hs) = draft_cookies hs"
  by (simp add: draft_cookies_def)

lemma headers_twice:
  fixes flds hs bodyMode
  defines "cs \<equiv> merged_cookies flds (draft_cookies (merged_headers flds hs))"
  defines "hs' \<equiv> with_content_type bodyMode (with_cookies cs (merged_headers flds hs))"
  assumes "list_all clean_cookie cs"
  shows "merged_cookies flds (draft_cookies (merged_headers flds hs')) = cs"
    and "with_content_type bodyMode (with_cookies cs (merged_headers flds hs')) = hs'"
proof -
  let ?M = "merged_headers flds hs"
  define CK where "CK = (if cs = [] then [] else [(''Cookie'', join ''; '' (map cookie_text cs))])"
  define CT where "CT = (case design_content_type bodyMode of None \<Rightarrow> [] | Some t \<Rightarrow> if bodyMode = DesignFormData then [] else [(''Content-Type'', t)])"
  have CK: "filter (\<lambda>h. \<not> named_header ''content-type'' h) CK = CK" "filter (named_header ''cookie'') CK = CK" "filter plain_header CK = []"
    by (simp_all add: CK_def named_header_def plain_header_def lower_names)
  have CT: "filter (named_header ''cookie'') CT = []" "filter plain_header CT = []"
    by (simp_all add: CT_def named_header_def plain_header_def lower_names split: option.split)
  have pc: "filter (named_header ''cookie'') (filter plain_header xs) = []" for xs by (auto simp: plain_header_def filter_empty_conv)
  have plain: "filter (\<lambda>h. \<not> named_header ''content-type'' h) (filter (\<lambda>h. \<not> named_header ''cookie'' h) xs) = filter plain_header xs" for xs
    by (simp add: plain_header_def [abs_def])
  have both: "with_content_type bodyMode (with_cookies cs xs) = filter plain_header xs @ CK @ CT" for xs
  proof -
    have "with_cookies cs xs = filter (\<lambda>h. \<not> named_header ''cookie'' h) xs @ CK" by (simp add: with_cookies_def CK_def case_prod_unfold)
    then show ?thesis by (simp only: with_content_type_def filter_append plain CK append_assoc CT_def)
  qed
  have hs': "hs' = filter plain_header ?M @ CK @ CT" unfolding hs'_def by (rule both)
  obtain new where M': "merged_headers flds hs' = hs' @ new"
    and new: "set new \<subseteq> (\<lambda>f. (df_name f, [])) ` {f \<in> set (named_in ''request.headers'' flds). \<not> present (df_name f) hs'}"
    using merged_headers_new [of flds hs'] by blast
  have all: "present (df_name f) ?M" if "f \<in> set (named_in ''request.headers'' flds)" for f
  proof -
    obtain more' where "merged_headers flds hs = hs @ more'" "\<forall>f \<in> set (named_in ''request.headers'' flds). present (df_name f) (hs @ more')"
      using merged_headers_new [of flds hs] by blast
    then show ?thesis using that by simp
  qed
  have odd: "\<not> plain_header h \<and> snd h = []" if "h \<in> set new" for h
  proof -
    from new that obtain f where f: "f \<in> set (named_in ''request.headers'' flds)" "\<not> present (df_name f) hs'" "h = (df_name f, [])" by blast
    from all [OF f(1)] obtain g where g: "g \<in> set ?M" "named_header (toLowerCase (df_name f)) g" by (auto simp: present_iff)
    with f(2) have "\<not> plain_header g" by (auto simp: hs' present_iff)
    with g(2) f(3) show ?thesis by (auto simp: plain_header_def named_header_def)
  qed
  have "draft_cookies (hs' @ new) = draft_cookies hs'" by (rule empty_cookie_headers) (use odd in blast)
  also have "\<dots> = draft_cookies CK"
    by (subst draft_cookies_filter [symmetric]) (simp add: hs' CK CT pc del: filter_filter)
  also have "\<dots> = cs"
  proof (cases "cs = []")
    case True
    then show ?thesis unfolding CK_def by (simp add: draft_cookies_def)
  next
    case False
    have "distinct (map fst cs)" unfolding cs_def by (rule cookie_names_distinct)
    from draft_cookies_written [OF assms(3) this] False show ?thesis unfolding CK_def by simp
  qed
  finally have "draft_cookies (merged_headers flds hs') = cs" by (simp only: M')
  moreover have "merged_cookies flds cs = cs"
    unfolding merged_cookies_def [of flds cs] by (rule fold_present) (use merged_cookies_names in \<open>fastforce simp: cs_def\<close>)
  ultimately show "merged_cookies flds (draft_cookies (merged_headers flds hs')) = cs" by simp
  have "filter plain_header new = []" using odd by (simp add: filter_empty_conv)
  then show "with_content_type bodyMode (with_cookies cs (merged_headers flds hs')) = hs'"
    unfolding both M' by (simp add: hs' CK CT)
qed

subsection \<open>The request\<close>

lemma trim_object: "trim (CHR ''{'' # s) \<noteq> []"
  by (simp add: trim_def trimStart_def trimEnd_def js_ws_def code_def)

lemma merged_body_twice:
  assumes "merged_body bodyMode bfs draft = Inr next'"
  shows "merged_body bodyMode bfs next' = Inr next'"
proof -
  have "trim (json_text 2 0 v) \<noteq> []" if example: "body_example bfs (schema_roots bfs) = Some v" for v
  proof -
    obtain ps where "v = JObj ps" using example unfolding body_example_def map_option_eq_Some by blast
    then obtain w where "json_text 2 0 v = CHR ''{'' # w" using object_text by blast
    then show ?thesis using trim_object by metis
  qed
  then show ?thesis using assms by (cases bodyMode) (auto simp: merged_body_def Let_def split: if_splits option.splits)
qed

lemma merged_body_frame:
  "merged_body bodyMode bfs draft = Inr next' \<Longrightarrow>
     dd_url next' = dd_url draft \<and> dd_headers next' = dd_headers draft \<and> dd_metadata next' = dd_metadata draft"
  by (cases bodyMode) (auto simp: merged_body_def Let_def split: if_splits option.splits)

text \<open>C32: merging a design into the request that is being debugged can be repeated: what one merge produced, the next merge of
  the same design leaves as it is. The address must have a path, and the cookies must be of the form that is read back.\<close>

theorem merge_idempotent:
  assumes "mergeDesignIntoHttpDraft U draft flds bodyMode responses = Inr merged"
    and "url_path (dd_url draft) \<noteq> []" and "reads_query U (url_path (dd_url draft))"
    and "list_all clean_cookie (merged_cookies flds (draft_cookies (merged_headers flds (dd_headers draft))))"
  shows "mergeDesignIntoHttpDraft U merged flds bodyMode responses = Inr merged"
proof -
  let ?cs = "merged_cookies flds (draft_cookies (merged_headers flds (dd_headers draft)))"
  let ?hs = "with_content_type bodyMode (with_cookies ?cs (merged_headers flds (dd_headers draft)))"
  let ?meta = "def_prop ''__apivoyResponseDefinitions'' (responses_metadata flds responses) (dd_metadata draft)"
  obtain url where url: "merged_url U flds (dd_url draft) = Some url"
    and body: "merged_body bodyMode (named_in ''request.body'' flds) (draft\<lparr> dd_url := url, dd_headers := ?hs, dd_metadata := ?meta \<rparr>) = Inr merged"
    using assms(1) by (auto simp: mergeDesignIntoHttpDraft_def Let_def split: option.splits)
  have parts: "dd_url merged = url" "dd_headers merged = ?hs" "dd_metadata merged = ?meta"
    using merged_body_frame [OF body] by simp_all
  have h: "merged_url U flds (dd_url merged) = Some url"
    unfolding parts by (rule merged_url_twice [OF url assms(3,2), THEN conjunct1])
  have m: "def_prop ''__apivoyResponseDefinitions'' (responses_metadata flds responses) (dd_metadata merged) = ?meta"
    unfolding parts by (rule def_prop_twice)
  have c: "merged_cookies flds (draft_cookies (merged_headers flds (dd_headers merged))) = ?cs"
    "with_content_type bodyMode (with_cookies ?cs (merged_headers flds (dd_headers merged))) = ?hs"
    unfolding parts by (rule headers_twice [OF assms(4)])+
  have "merged\<lparr> dd_url := dd_url merged, dd_headers := dd_headers merged, dd_metadata := dd_metadata merged \<rparr> = merged" by simp
  then have same: "merged\<lparr> dd_url := url, dd_headers := ?hs, dd_metadata := ?meta \<rparr> = merged" by (simp only: parts)
  show ?thesis
    unfolding mergeDesignIntoHttpDraft_def h m c option.case Let_def same by (rule merged_body_twice [OF body])
qed

lemma sample_reads_query: "reads_query sample_url_env ''/a''"
proof -
  have "form_parse [] = Some []" by code_simp
  then show ?thesis by (simp add: reads_query_def sample_url_env_def form_parse_serialize)
qed

definition cookie_design :: "DefinitionField list" where
  "cookie_design = [(sample_field ''c'' None)\<lparr> df_scope := ''request.cookies'' \<rparr>, (sample_field ''q'' None)\<lparr> df_scope := ''request.params'' \<rparr>]"

theorem merge_idempotent_witness:
  "\<exists>merged. mergeDesignIntoHttpDraft sample_url_env sample_draft cookie_design DesignNone [] = Inr merged
     \<and> mergeDesignIntoHttpDraft sample_url_env merged cookie_design DesignNone [] = Inr merged"
proof -
  obtain merged where m: "mergeDesignIntoHttpDraft sample_url_env sample_draft cookie_design DesignNone [] = Inr merged"
    by (simp add: mergeDesignIntoHttpDraft_def merged_url_def merged_body_def sample_url_env_def Let_def)
  moreover have "mergeDesignIntoHttpDraft sample_url_env merged cookie_design DesignNone [] = Inr merged"
  proof (rule merge_idempotent [OF m])
    have "url_path (dd_url sample_draft) = ''/a''" by code_simp
    then show "url_path (dd_url sample_draft) \<noteq> []" "reads_query sample_url_env (url_path (dd_url sample_draft))"
      using sample_reads_query by simp_all
    show "list_all clean_cookie (merged_cookies cookie_design (draft_cookies (merged_headers cookie_design (dd_headers sample_draft))))"
      by code_simp
  qed
  ultimately show ?thesis by blast
qed

text \<open>What the hypotheses exclude: a draft without a path gets the query once more with every merge, and the rest of a cookie
  after a second \<^verbatim>\<open>=\<close> is lost.\<close>

lemma pathless_query_repeats:
  "Option.bind (merged_url sample_url_env cookie_design []) (merged_url sample_url_env cookie_design) = Some ''?q=?q=''"
  by code_simp

lemma cookie_truncated: "draft_cookies [(''Cookie'', ''token=abc==; b=1'')] = [(''token'', ''abc''), (''b'', ''1'')]"
  by code_simp

text \<open>The example of a number is put into the body as text, although the document shows it as a number.\<close>

definition number_field :: DefinitionField where
  "number_field = (sample_field ''n'' None)\<lparr> df_type := ''integer'', df_example := Some ''5'' \<rparr>"

lemma number_example_is_text:
  "body_example [number_field] [number_field] = Some (JObj [(''n'', JStr ''5'')]) \<and> documentExampleValue number_field = JNum (NInt 5)"
proof -
  have "json_text 0 0 (JNum (NInt 5)) = ''5''" by code_simp
  then have "JSON_parse ''5'' = Some (JNum (NInt 5))" using JSON_parse_text [of "JNum (NInt 5)" 0] by simp
  moreover have "trim ''5'' = ''5''" by code_simp
  ultimately have "documentExampleValue number_field = JNum (NInt 5)"
    by (simp add: documentExampleValue_def number_field_def Let_def)
  moreover have "body_example [number_field] [number_field] = Some (JObj [(''n'', JStr ''5'')])"
    by (simp add: body_example_def number_field_def sample_field_def ordered_eval)
  ultimately show ?thesis by blast
qed

section \<open>Two views of one response\<close>

lemma those_map_imp: "those (map h xs) = Some ys \<Longrightarrow> (\<And>x y. x \<in> set xs \<Longrightarrow> h x = Some y \<Longrightarrow> k x = Some y) \<Longrightarrow> those (map k xs) = Some ys"
  by (induction xs arbitrary: ys) (auto split: option.splits)

lemma renderFields_agree:
  assumes "[] \<notin> df_id ` set shown" and "\<And>f p. f \<in> set shown \<Longrightarrow> df_parentId f = Some p \<Longrightarrow> p \<in> df_id ` set shown"
  shows "appendBranch n shown parentId d = Some rows \<Longrightarrow> parentId \<noteq> Some [] \<Longrightarrow> renderFields n shown parentId d = Some rows"
proof (induction n arbitrary: parentId d rows)
  case (Suc n)
  have branch: "branch_of shown parentId = filter (\<lambda>f. df_parentId f = parentId) shown"
    unfolding branch_of_def
  proof (rule filter_cong [OF refl])
    fix f assume f: "f \<in> set shown"
    have "list_ex (\<lambda>g. Some (df_id g) = df_parentId f) shown" if "df_parentId f = Some p" for p
      using assms(2) [OF f that] that by (auto simp: list_ex_iff)
    then show "(df_parentId f = parentId \<or> or_default parentId [] = [] \<and> or_default (df_parentId f) [] \<noteq> []
        \<and> \<not> list_ex (\<lambda>g. Some (df_id g) = df_parentId f) shown) = (df_parentId f = parentId)"
      by (cases "df_parentId f") auto
  qed
  from Suc.prems(1) obtain parts where parts: "rows = concat parts"
    "those (map (\<lambda>f. map_option ((#) (f, d)) (appendBranch n shown (Some (df_id f)) (d + 1))) (filter (\<lambda>f. df_parentId f = parentId) shown)) = Some parts"
    by (auto simp: branch)
  have "those (map (\<lambda>f. map_option ((#) (f, d)) (if field_children shown (df_id f) = [] then Some [] else renderFields n shown (Some (df_id f)) (d + 1)))
      (filter (\<lambda>f. df_parentId f = parentId) shown)) = Some parts"
  proof (rule those_map_imp [OF parts(2)])
    fix f part
    assume f: "f \<in> set (filter (\<lambda>f. df_parentId f = parentId) shown)"
      "map_option ((#) (f, d)) (appendBranch n shown (Some (df_id f)) (d + 1)) = Some part"
    then have id: "df_id f \<noteq> []" using assms(1) by force
    from f(2) obtain r where r: "appendBranch n shown (Some (df_id f)) (d + 1) = Some r" "part = (f, d) # r" by blast
    have "(if field_children shown (df_id f) = [] then Some [] else renderFields n shown (Some (df_id f)) (d + 1)) = Some r"
    proof (cases "field_children shown (df_id f) = []")
      case True
      then show ?thesis using r(1) id by (cases n) (auto simp: branch_of_child)
    next
      case False
      then show ?thesis using Suc.IH [OF r(1)] id by simp
    qed
    then show "map_option ((#) (f, d)) (if field_children shown (df_id f) = [] then Some []
        else renderFields n shown (Some (df_id f)) (d + 1)) = Some part" by (simp only: r(2) option.map)
  qed
  then show ?case by (simp add: parts(1))
qed simp

text \<open>C33: the structure panel and the visual editor list the same rows, in the same order and at the same depth, for the part of
  a response that is open, as long as no field there has lost its parent.\<close>

theorem panel_shows_editor_rows:
  assumes "fields_ok (ve_fields s)" and "ve_area s = EdResponse" and "selectedResponse s = Some r"
    and "\<And>f p. f \<in> set (scoped s) \<Longrightarrow> df_parentId f = Some p \<Longrightarrow> p \<in> df_id ` set (scoped s)"
  shows "renderScope (ve_fields s) (editor_scope s) (Some r) = visible_rows (Suc (length (ve_fields s))) s"
proof -
  have scope: "structure_scope (ve_fields s) (editor_scope s) (Some r) = scoped s"
    using assms(2,3) by (simp add: structure_scope_def scoped_def selected_status_def)
  have ok: "fields_ok (scoped s)" using assms(1,2) by (auto simp: scoped_def intro: fields_ok_filter)
  have "length (scoped s) < Suc (length (ve_fields s))" by (simp add: scoped_def le_imp_less_Suc length_filter_le)
  from visible_ends [OF ok this] obtain rows where rows: "appendBranch (Suc (length (ve_fields s))) (scoped s) None 0 = Some rows" by blast
  have "[] \<notin> df_id ` set (scoped s)" using ok by (simp add: fields_ok_def)
  from renderFields_agree [OF this assms(4) rows] show ?thesis by (simp add: renderScope_def visible_rows_def scope rows del: renderFields.simps appendBranch.simps)
qed

theorem panel_shows_editor_rows_witness:
  "renderScope (ve_fields sample_responses) (editor_scope sample_responses) (Some (sample_response ''r''))
    = visible_rows (Suc (length (ve_fields sample_responses))) sample_responses"
proof (rule panel_shows_editor_rows)
  have "fields_ok ([] @ ve_fields sample_responses)"
    unfolding sample_responses_def by (simp del: append.simps) (rule fields_ok_leaf; auto simp: fields_ok_def sample_field_def links_def acyclic_def)
  then show "fields_ok (ve_fields sample_responses)" by simp
  show "selectedResponse sample_responses = Some (sample_response ''r'')" by code_simp
  show "p \<in> df_id ` set (scoped sample_responses)" if "f \<in> set (scoped sample_responses)" "df_parentId f = Some p" for f p
  proof -
    have "f \<in> set (ve_fields sample_responses)" using that(1) by (simp add: scoped_def split: if_splits)
    then have "df_parentId f = None" by (simp add: sample_responses_def sample_field_def)
    then show ?thesis using that(2) by simp
  qed
qed (simp add: sample_responses_def)

end
