(* ===== verification/DesignPanelLaws.thy ===== *)
theory DesignPanelLaws imports DesignPanel DesignSyncLaws begin

text \<open>
  What the definition panel promises for HTTP: whatever the user edits in the visual editor, the text that a save sends reads
  back as the fields, the responses and the policy on the screen. An event that changes responses and fields at once breaks
  this: the handler of the fields writes the responses of the render it was made in.
\<close>

definition design_ok :: "definition_panel \<Rightarrow> bool" where
  "design_ok s \<longleftrightarrow> fields_ok (dp_fields s) \<and> dp_responses s \<noteq> []
     \<and> json_plain (JObj (dp_security s)) \<and> map fst (dp_security s) = map fst DEFAULT_SECURITY_DESIGN"

definition reads_as_design :: "string \<Rightarrow> DefinitionField list \<Rightarrow> ResponseDefinition list \<Rightarrow> props \<Rightarrow> bool" where
  "reads_as_design content flds responses security \<longleftrightarrow>
     trim content \<noteq> [] \<and> (\<forall>cache uuid. parseDefinitionFields cache uuid content ''http'' = flds)
     \<and> (\<forall>D uuid. parseResponseDefinitions D uuid content flds = responses) \<and> parseSecurityDesign content = security"

definition in_step :: "definition_panel \<Rightarrow> bool" where
  "in_step s \<longleftrightarrow> design_ok s \<and> reads_as_design (dp_content s) (dp_fields s) (dp_responses s) (dp_security s)"

lemma panel_text_reads:
  assumes "pe_workbench E = ''http''" "fields_ok flds" "responses \<noteq> []" "json_plain (JObj security)"
    "map fst security = map fst DEFAULT_SECURITY_DESIGN"
  obtains content where "panel_text E flds version bodyMode security responses = Some content"
    "reads_as_design content flds responses security"
proof -
  note rt = written_and_read [OF assms(2-5), of "pe_design E" "pe_draft E" version bodyMode]
  obtain content where c: "panel_text E flds version bodyMode security responses = Some content"
    using rt unfolding panel_text_def assms(1) by blast
  have all: "parseDefinitionFields cache uuid content ''http'' = flds \<and> parseResponseDefinitions D uuid content flds = responses
      \<and> parseSecurityDesign content = security" for cache uuid D
    using rt [of cache uuid D] c unfolding panel_text_def assms(1) by auto
  obtain rest where "content = header_text (head_lines version bodyMode) @ design_extensions flds security responses @ rest"
    using written_definition [OF assms(2,3), of "pe_design E" "pe_draft E" version bodyMode security] c
    unfolding panel_text_def assms(1) by auto
  then have "trim content \<noteq> []" by (cases version) (simp_all add: trim_def trimStart_def trimEnd_def js_ws_def code_def)
  then have "reads_as_design content flds responses security" unfolding reads_as_design_def by (simp add: all)
  with c show ?thesis by (rule that)
qed

lemma panel_sync_cases:
  "panel_sync E flds bodyMode security responses k s = s \<or> (\<exists>p. panel_sync E flds bodyMode security responses k s = k (s\<lparr> dp_pending := p \<rparr>))"
  by (auto simp: panel_sync_def split: sum.split)

lemma panel_sync_keeps [simp]:
  "dp_fields (panel_sync E flds bodyMode security responses id s) = dp_fields s"
  "dp_responses (panel_sync E flds bodyMode security responses id s) = dp_responses s"
  "dp_content (panel_sync E flds bodyMode security responses id s) = dp_content s"
  "dp_security (panel_sync E flds bodyMode security responses id s) = dp_security s"
  by (simp_all add: panel_sync_def split: sum.split)

lemma panel_sync_in_step:
  "in_step s \<Longrightarrow> (\<And>p. in_step (s\<lparr> dp_pending := p \<rparr>) \<Longrightarrow> in_step (k (s\<lparr> dp_pending := p \<rparr>))) \<Longrightarrow>
     in_step (panel_sync E flds bodyMode security responses k s)"
  using panel_sync_cases [of E flds bodyMode security responses k s] by (auto simp: in_step_def design_ok_def)

text \<open>The edits of the visual editor, each with the handlers of the render before it. The flag says whether the text was last
  written with the responses of an earlier render: the edits of a response that change fields too (delete, change the status,
  add a component) set it, every event that writes the text anew clears it; a change of version does so when there are
  fields.\<close>

inductive visual_step :: "panel_env \<Rightarrow> definition_panel \<times> bool \<Rightarrow> definition_panel \<times> bool \<Rightarrow> bool" for E where
  fields: "fields_ok flds \<Longrightarrow> updateFields E s flds s = Some t \<Longrightarrow> visual_step E (s, stale) (t, False)"
| responses: "rs \<noteq> [] \<Longrightarrow> changeResponses E s rs s = Some t \<Longrightarrow> visual_step E (s, stale) (t, False)"
| security: "json_plain (JObj policy) \<Longrightarrow> map fst policy = map fst DEFAULT_SECURITY_DESIGN \<Longrightarrow>
    changeSecurity E s policy s = Some t \<Longrightarrow> visual_step E (s, stale) (t, False)"
| body_mode: "changeBodyMode E s m s = Some t \<Longrightarrow> visual_step E (s, stale) (t, False)"
| version: "changeOpenApiVersion E s v s = Some t \<Longrightarrow> visual_step E (s, stale) (t, stale \<and> dp_fields s = [])"
| response: "rs \<noteq> [] \<Longrightarrow> fields_ok flds \<Longrightarrow> edit_response E s rs flds s = Some t \<Longrightarrow> visual_step E (s, stale) (t, True)"

definition saved_design :: "bool \<Rightarrow> definition_panel \<Rightarrow> string \<Rightarrow> bool" where
  "saved_design stale s content \<longleftrightarrow>
     (\<exists>responses. reads_as_design content (dp_fields s) responses (dp_security s) \<and> (stale \<or> responses = dp_responses s))"

definition panel_ok :: "bool \<Rightarrow> definition_panel \<Rightarrow> bool" where
  "panel_ok stale s \<longleftrightarrow> design_ok s \<and> saved_design stale s (dp_content s)"

lemma panel_ok_False [simp]: "panel_ok False s = in_step s"
  by (simp add: panel_ok_def saved_design_def in_step_def)

lemma in_step_panel_ok: "in_step s \<Longrightarrow> panel_ok stale s"
  by (auto simp: panel_ok_def saved_design_def in_step_def)

lemma panel_ok_design: "panel_ok stale s \<Longrightarrow> design_ok s"
  by (simp add: panel_ok_def)

lemma in_step_others [simp]:
  "in_step (s\<lparr> dp_message := m \<rparr>) = in_step s" "in_step (s\<lparr> dp_pending := p \<rparr>) = in_step s"
  "in_step (s\<lparr> dp_cache := cc \<rparr>) = in_step s" "in_step (s\<lparr> dp_lastVisualContent := lv \<rparr>) = in_step s"
  by (simp_all add: in_step_def design_ok_def)

lemma panel_written_in_step:
  assumes "pe_workbench E = ''http''" "fields_ok (dp_fields s)" "dp_responses s \<noteq> []" "json_plain (JObj (dp_security s))"
    "map fst (dp_security s) = map fst DEFAULT_SECURITY_DESIGN"
  shows "\<exists>content. panel_text E (dp_fields s) version bodyMode (dp_security s) (dp_responses s) = Some content
    \<and> in_step (write_content content s)"
proof -
  obtain content where "panel_text E (dp_fields s) version bodyMode (dp_security s) (dp_responses s) = Some content"
    "reads_as_design content (dp_fields s) (dp_responses s) (dp_security s)"
    using panel_text_reads [OF assms] by blast
  then show ?thesis using assms(2-) by (auto simp: in_step_def design_ok_def write_content_def)
qed

lemma cached_in_step: "in_step (write_content content (cached generated flds s)) = in_step (write_content content s)"
  by (simp add: write_content_def cached_def in_step_def design_ok_def)

lemma design_ok_parts:
  assumes "design_ok s"
  shows "fields_ok (dp_fields s)" "dp_responses s \<noteq> []" "json_plain (JObj (dp_security s))"
    "map fst (dp_security s) = map fst DEFAULT_SECURITY_DESIGN"
  using assms by (simp_all add: design_ok_def del: json_plain.simps)

lemma updateFields_in_step:
  assumes "pe_workbench E = ''http''" "design_ok s" "fields_ok flds"
  shows "\<exists>t. updateFields E s flds s = Some t \<and> in_step t"
proof -
  obtain content where "panel_text E flds (dp_openApiVersion s) (dp_bodyMode s) (dp_security s) (dp_responses s) = Some content"
    "in_step (write_content content (s\<lparr> dp_fields := flds \<rparr>))"
    using panel_written_in_step [of E "s\<lparr> dp_fields := flds \<rparr>" "dp_openApiVersion s" "dp_bodyMode s"] assms design_ok_parts [OF assms(2)]
    by (auto simp del: json_plain.simps)
  moreover have "in_step (write_content content ((cached content flds s)\<lparr> dp_fields := flds \<rparr>)) =
      in_step (write_content content (s\<lparr> dp_fields := flds \<rparr>))" for content
    by (simp add: write_content_def cached_def in_step_def design_ok_def)
  ultimately show ?thesis by (auto simp: updateFields_def intro!: panel_sync_in_step)
qed

lemma changeResponses_in_step:
  assumes "pe_workbench E = ''http''" "design_ok s" "rs \<noteq> []"
  shows "\<exists>t. changeResponses E s rs s = Some t \<and> in_step t"
proof -
  obtain content where "panel_text E (dp_fields s) (dp_openApiVersion s) (dp_bodyMode s) (dp_security s) rs = Some content"
    "in_step (write_content content (s\<lparr> dp_responses := rs \<rparr>))"
    using panel_written_in_step [of E "s\<lparr> dp_responses := rs \<rparr>" "dp_openApiVersion s" "dp_bodyMode s"] assms design_ok_parts [OF assms(2)]
    by (auto simp del: json_plain.simps)
  then show ?thesis by (auto simp: changeResponses_def intro!: panel_sync_in_step)
qed

lemma changeSecurity_in_step:
  assumes "pe_workbench E = ''http''" "design_ok s" "json_plain (JObj policy)" "map fst policy = map fst DEFAULT_SECURITY_DESIGN"
  shows "\<exists>t. changeSecurity E s policy s = Some t \<and> in_step t"
proof -
  obtain content where "panel_text E (dp_fields s) (dp_openApiVersion s) (dp_bodyMode s) policy (dp_responses s) = Some content"
    "in_step (write_content content (s\<lparr> dp_security := policy \<rparr>))"
    using panel_written_in_step [of E "s\<lparr> dp_security := policy \<rparr>" "dp_openApiVersion s" "dp_bodyMode s"] assms design_ok_parts [OF assms(2)]
    by (auto simp del: json_plain.simps)
  then show ?thesis by (auto simp: changeSecurity_def cached_in_step intro!: panel_sync_in_step)
qed

lemma changeBodyMode_in_step:
  assumes "pe_workbench E = ''http''" "design_ok s"
  shows "\<exists>t. changeBodyMode E s m s = Some t \<and> in_step t"
proof -
  obtain content where "panel_text E (dp_fields s) (dp_openApiVersion s) m (dp_security s) (dp_responses s) = Some content"
    "in_step (write_content content (s\<lparr> dp_bodyMode := m \<rparr>))"
    using panel_written_in_step [of E "s\<lparr> dp_bodyMode := m \<rparr>" "dp_openApiVersion s" m] assms design_ok_parts [OF assms(2)]
    by (auto simp del: json_plain.simps)
  then show ?thesis by (auto simp: changeBodyMode_def cached_in_step intro!: panel_sync_in_step)
qed

lemma changeOpenApiVersion_panel_ok:
  assumes "pe_workbench E = ''http''" "panel_ok stale s"
  shows "\<exists>t. changeOpenApiVersion E s v s = Some t \<and> panel_ok (stale \<and> dp_fields s = []) t"
proof (cases "dp_fields s = []")
  case True
  have "panel_ok stale ((s\<lparr> dp_openApiVersion := v \<rparr>)\<lparr> dp_message := m \<rparr>)" for m
    using assms(2) by (simp add: panel_ok_def saved_design_def design_ok_def)
  with True show ?thesis by (simp add: changeOpenApiVersion_def Let_def)
next
  case False
  obtain content where "panel_text E (dp_fields s) v (dp_bodyMode s) (dp_security s) (dp_responses s) = Some content"
    "in_step (write_content content (s\<lparr> dp_openApiVersion := v \<rparr>))"
    using panel_written_in_step [of E "s\<lparr> dp_openApiVersion := v \<rparr>" v "dp_bodyMode s"] assms(1)
      design_ok_parts [OF panel_ok_design [OF assms(2)]]
    by (auto simp del: json_plain.simps)
  with False show ?thesis by (simp add: changeOpenApiVersion_def Let_def cached_in_step)
qed

lemma edit_response_panel_ok:
  assumes "pe_workbench E = ''http''" "design_ok s" "fields_ok flds" "rs \<noteq> []" "edit_response E s rs flds s = Some t"
  shows "panel_ok True t" and "dp_responses t = rs" and "reads_as_design (dp_content t) flds (dp_responses s) (dp_security s)"
proof -
  obtain mid where mid: "changeResponses E s rs s = Some mid" "in_step mid" using changeResponses_in_step [OF assms(1,2,4)] by blast
  obtain content where c: "panel_text E flds (dp_openApiVersion s) (dp_bodyMode s) (dp_security s) (dp_responses s) = Some content"
    "reads_as_design content flds (dp_responses s) (dp_security s)"
    using panel_text_reads [OF assms(1,3) design_ok_parts(2-4) [OF assms(2)]] by blast
  have m: "dp_responses mid = rs" "dp_security mid = dp_security s"
    using mid(1) by (auto simp: changeResponses_def write_content_def)
  have "updateFields E s flds mid = Some t" using assms(5) mid(1) by (simp add: edit_response_def)
  then have t: "dp_content t = content" "dp_responses t = rs" "dp_fields t = flds" "dp_security t = dp_security s"
    by (auto simp: updateFields_def c(1) write_content_def cached_def m)
  then show "dp_responses t = rs" "reads_as_design (dp_content t) flds (dp_responses s) (dp_security s)" using c(2) by simp_all
  show "panel_ok True t"
    using c(2) t design_ok_parts [OF assms(2)] assms(3,4)
    by (auto simp: panel_ok_def saved_design_def design_ok_def simp del: json_plain.simps)
qed

lemma visual_step_panel_ok:
  "visual_step E x y \<Longrightarrow> pe_workbench E = ''http'' \<Longrightarrow> panel_ok (snd x) (fst x) \<Longrightarrow> panel_ok (snd y) (fst y)"
proof (induction rule: visual_step.induct)
  case (fields flds s t stale)
  then show ?case using updateFields_in_step [OF fields.prems(1) _ fields.hyps(1), of s] panel_ok_design by auto
next
  case (responses rs s t stale)
  then show ?case using changeResponses_in_step [OF responses.prems(1) _ responses.hyps(1), of s] panel_ok_design by auto
next
  case (security policy s t stale)
  then have "design_ok s" using panel_ok_design by simp
  then show ?case using changeSecurity_in_step [OF security.prems(1) _ security.hyps(1,2)] security.hyps(3) by fastforce
next
  case (body_mode s m t stale)
  then show ?case using changeBodyMode_in_step [OF body_mode.prems(1), of s m] panel_ok_design by auto
next
  case (version s v t stale)
  then show ?case using changeOpenApiVersion_panel_ok [OF version.prems(1), of stale s v] by auto
next
  case (response rs flds s t stale)
  then show ?case using edit_response_panel_ok(1) [OF response.prems(1) _ response.hyps(2,1,3)] panel_ok_design by auto
qed

lemma visual_steps_panel_ok:
  "(visual_step E)\<^sup>*\<^sup>* x y \<Longrightarrow> pe_workbench E = ''http'' \<Longrightarrow> panel_ok (snd x) (fst x) \<Longrightarrow> panel_ok (snd y) (fst y)"
  by (induction rule: rtranclp_induct) (auto intro: visual_step_panel_ok)

section \<open>What a save sends\<close>

lemma save_sends:
  assumes "definition_content E s = Some content" "saveDefinition E D s s = Some (t, Some input)"
  shows "sv_content input = content"
  using assms by (auto simp: saveDefinition_def definition_input_def Let_def split: option.splits sum.splits)

lemma panel_ok_content: "panel_ok stale s \<Longrightarrow> definition_content E s = Some (dp_content s)"
  by (auto simp: panel_ok_def saved_design_def reads_as_design_def definition_content_def)

text \<open>C17: what the service stores is the design on the screen: after any sequence of edits in the visual editor of an HTTP
  design a save ends, and the text it sends, if the check of the text lets it pass, reads back as the fields and the policy
  shown, and as the responses shown unless the last edit that wrote the text deleted a response, changed its status or added
  a component (the next edit of another kind mends it). The fields an edit gives are a forest with distinct identifiers, at
  least one response is left, and the panel starts from a text that reads back as what it shows.\<close>

theorem visual_edits_saved:
  assumes "pe_workbench E = ''http''" and "in_step s" and "(visual_step E)\<^sup>*\<^sup>* (s, False) (t, stale)"
  shows "\<exists>u sent. saveDefinition E D t t = Some (u, sent)
    \<and> (case sent of None \<Rightarrow> first_error (panel_issues E (dp_content t)) \<noteq> None
         | Some input \<Rightarrow> \<exists>responses. reads_as_design (sv_content input) (dp_fields t) responses (dp_security t)
             \<and> (stale \<or> responses = dp_responses t))"
proof -
  have t: "panel_ok stale t" using visual_steps_panel_ok [OF assms(3,1)] assms(2) by simp
  note content = panel_ok_content [OF t]
  have "saveDefinition E D t t \<noteq> None" unfolding saveDefinition_def content by simp
  then obtain u sent where save: "saveDefinition E D t t = Some (u, sent)" by (cases "saveDefinition E D t t") auto
  have "first_error (panel_issues E (dp_content t)) \<noteq> None" if "sent = None"
    using save that by (auto simp: saveDefinition_def content Let_def split: option.splits sum.splits)
  moreover have "saved_design stale t (sv_content input)" if "sent = Some input" for input
    using save_sends [OF content] save that t by (simp add: panel_ok_def)
  ultimately show ?thesis using save by (auto simp: saved_design_def split: option.split simp del: not_None_eq)
qed

definition sample_panel_env :: panel_env where
  "sample_panel_env = \<lparr> pe_design = sample_design_env, pe_url = sample_url_env, pe_workbench = ''http'', pe_project = ''p'',
     pe_title = ''t'', pe_draft = None, pe_components = [], pe_json_message = id, pe_wide = digits_of, pe_now = ''now'',
     pe_uuid = digits_of, pe_response_uuid = digits_of, pe_component_uuid = (\<lambda>_. digits_of) \<rparr>"

definition sample_panel :: definition_panel where
  "sample_panel = \<lparr> dp_definitionId = ''d'', dp_content = [], dp_fields = ve_fields sample_visual,
     dp_responses = [sample_response ''r''], dp_openApiVersion = V31, dp_bodyMode = DesignJson, dp_security = DEFAULT_SECURITY_DESIGN,
     dp_source = False, dp_message = NoMessage, dp_busy = False, dp_lastSavedAt = [], dp_lastVisualContent = [],
     dp_lastValidFields = [], dp_sourceBaseline = [], dp_sourceDirty = False, dp_parseIssues = [], dp_revealLine = None,
     dp_cache = (\<lambda>_. None), dp_pending = None, dp_draft_saves = 0 \<rparr>"

definition sample_service :: definition_service where
  "sample_service = \<lparr> ds_save = (\<lambda>i. Inr \<lparr> ad_id = ''d'', ad_content = sv_content i, ad_updatedAt = ''now'' \<rparr>), ds_bind = (\<lambda>_. None),
     ds_list = Inr [], ds_binding = Inr (Some ''d'') \<rparr>"

lemma sample_panel_written:
  "\<exists>content. in_step (write_content content sample_panel)"
  using panel_written_in_step [of sample_panel_env sample_panel V31 DesignJson] sample_visual_ok
  by (auto simp: sample_panel_def sample_panel_env_def editor_ok_def DEFAULT_SECURITY_DESIGN_def ordered_eval)

theorem visual_edits_saved_witness:
  "\<exists>s t u sent. visual_step sample_panel_env (s, False) (t, False) \<and> dp_fields s \<noteq> [] \<and> dp_fields t = []
    \<and> saveDefinition sample_panel_env sample_service t t = Some (u, sent)
    \<and> (case sent of None \<Rightarrow> first_error (panel_issues sample_panel_env (dp_content t)) \<noteq> None
         | Some input \<Rightarrow> reads_as_design (sv_content input) [] (dp_responses t) (dp_security t))"
proof -
  obtain content where s: "in_step (write_content content sample_panel)" (is "in_step ?s") using sample_panel_written by blast
  have http: "pe_workbench sample_panel_env = ''http''" by (simp add: sample_panel_env_def)
  have none: "fields_ok []" by (simp add: fields_ok_def links_def acyclic_def)
  have ok: "design_ok ?s" using s by (simp add: in_step_def)
  obtain t where t: "updateFields sample_panel_env ?s [] ?s = Some t" using updateFields_in_step [OF http ok none] by blast
  have step: "visual_step sample_panel_env (?s, False) (t, False)" by (rule visual_step.fields [OF none t])
  have "dp_fields t = []"
    using t by (auto simp: updateFields_def write_content_def cached_def)
  moreover have "dp_fields ?s \<noteq> []" by (simp add: write_content_def sample_panel_def sample_visual_def)
  moreover from visual_edits_saved [OF http s r_into_rtranclp [of "visual_step sample_panel_env", OF step], of sample_service] obtain u sent where
    "saveDefinition sample_panel_env sample_service t t = Some (u, sent)"
    "case sent of None \<Rightarrow> first_error (panel_issues sample_panel_env (dp_content t)) \<noteq> None
         | Some input \<Rightarrow> \<exists>responses. reads_as_design (sv_content input) (dp_fields t) responses (dp_security t)
             \<and> (False \<or> responses = dp_responses t)" by blast
  ultimately show ?thesis using step by (metis (no_types, lifting) option.case_eq_if)
qed

section \<open>Where the screen and the text part\<close>

text \<open>Deleting a response, changing its status and adding a component call the handler of the responses and then the handler of
  the fields, both of the same render: the second one writes the text with the responses the first one replaced.\<close>

lemma stale_responses_written:
  assumes "pe_workbench E = ''http''" "in_step s" "fields_ok flds" "rs \<noteq> []" "edit_response E s rs flds s = Some t"
  shows "dp_responses t = rs" and "parseResponseDefinitions D uuid (dp_content t) flds = dp_responses s"
proof -
  have s: "design_ok s" using assms(2) by (simp add: in_step_def)
  note edited = edit_response_panel_ok(2,3) [OF assms(1) s assms(3-5)]
  show "dp_responses t = rs" by (rule edited(1))
  show "parseResponseDefinitions D uuid (dp_content t) flds = dp_responses s" using edited(2) by (simp add: reads_as_design_def)
qed

text \<open>A source that the user edits brings back its fields and responses, but never its policy or its body mode: the next edit in the
  visual editor writes the old ones over them.\<close>

lemma source_policy_ignored:
  "dp_security (enterVisualMode E c s) = dp_security s \<and> dp_bodyMode (enterVisualMode E c s) = dp_bodyMode s
   \<and> dp_security (loadFile E name content s) = dp_security s \<and> dp_bodyMode (loadFile E name content s) = dp_bodyMode s"
  by (simp add: enterVisualMode_def validateSource_def loadFile_def Let_def)

end
