(* ===== verification/JsonTree.thy ===== *)
theory JsonTree imports JsonText begin

text \<open>
  The tree editor for JSON texts (\<^verbatim>\<open>packages/ui/src/JsonTreeEditor.tsx\<close>): reading the text, the rows of the tree, and the edits
  of a row. \<open>None\<close> is the \<^verbatim>\<open>TypeError\<close> of a read from \<^verbatim>\<open>undefined\<close> or \<^verbatim>\<open>null\<close>. Writing an array past its end fills
  the gap with \<^verbatim>\<open>undefined\<close>; writing it under a key that is no index leaves its elements alone.
\<close>

section \<open>Values and types\<close>

datatype json_tree_type = TString | TNumber | TBoolean | TNull | TObject | TArray

definition JSON_TREE_TYPES :: "json_tree_type list" where
  "JSON_TREE_TYPES = [TString, TNumber, TBoolean, TNull, TObject, TArray]"

text \<open>\<open>Inl ()\<close> is a failure; its message is the one of \<^verbatim>\<open>JSON.parse\<close>, which never returns \<^verbatim>\<open>undefined\<close>.\<close>

definition parseJsonTreeSource :: "string \<Rightarrow> (unit, jsval) result" where
  "parseJsonTreeSource source =
     (case JSON_parse (if source = [] then ''{}'' else source) of Some v \<Rightarrow> Inr v | None \<Rightarrow> Inl ())"

fun jsonTreeValueType :: "jsval \<Rightarrow> json_tree_type" where
  "jsonTreeValueType JNull = TNull"
| "jsonTreeValueType (JArr xs) = TArray"
| "jsonTreeValueType (JObj ps) = TObject"
| "jsonTreeValueType (JBool b) = TBoolean"
| "jsonTreeValueType (JNum n) = TNumber"
| "jsonTreeValueType _ = TString"

fun defaultJsonTreeValue :: "json_tree_type \<Rightarrow> jsval" where
  "defaultJsonTreeValue TArray = JArr [JStr []]"
| "defaultJsonTreeValue TObject = JObj []"
| "defaultJsonTreeValue TNumber = JNum (NInt 0)"
| "defaultJsonTreeValue TBoolean = JBool False"
| "defaultJsonTreeValue TNull = JNull"
| "defaultJsonTreeValue TString = JStr []"

section \<open>Paths\<close>

datatype segment = SKey string | SIndex nat

type_synonym json_path = "segment list"

text \<open>\<^verbatim>\<open>String(segment)\<close>, and \<^verbatim>\<open>Number(segment)\<close> where it is an index.\<close>

fun seg_text :: "segment \<Rightarrow> string" where
  "seg_text (SKey k) = k"
| "seg_text (SIndex i) = digits_of i"

fun seg_index :: "segment \<Rightarrow> nat option" where
  "seg_index (SIndex i) = Some i"
| "seg_index (SKey k) = (case string_Number k of NInt i \<Rightarrow> if 0 \<le> i then Some (nat i) else None | _ \<Rightarrow> None)"

text \<open>The enumerable own properties a value is spread to, and one read through a path.\<close>

fun own_entries :: "jsval \<Rightarrow> props" where
  "own_entries (JStr s) = map (\<lambda>(i, c). (digits_of i, JStr [c])) (enumerate 0 s)"
| "own_entries v = all_entries v"

fun tree_get :: "jsval \<Rightarrow> segment \<Rightarrow> jsval option" where
  "tree_get (JArr xs) g = Some (case seg_index g of Some i \<Rightarrow> if i < length xs then xs ! i else JUndef | None \<Rightarrow> JUndef)"
| "tree_get (JObj ps) g = Some (obj_get ps (seg_text g))"
| "tree_get JUndef g = None"
| "tree_get JNull g = None"
| "tree_get (JStr s) g =
     Some (case map_of (own_entries (JStr s)) (seg_text g) of
         Some v \<Rightarrow> v
       | None \<Rightarrow> if seg_text g = ''length'' then JNum (NInt (int (length s))) else proto_get OBJECT_PROTOTYPE (seg_text g))"
| "tree_get v g = Some (proto_get OBJECT_PROTOTYPE (seg_text g))"

definition array_put :: "segment \<Rightarrow> jsval \<Rightarrow> jsval list \<Rightarrow> jsval list" where
  "array_put g v xs =
     (case seg_index g of
        None \<Rightarrow> xs
      | Some i \<Rightarrow> if i < length xs then xs[i := v] else xs @ replicate (i - length xs) JUndef @ [v])"

fun tree_put :: "segment \<Rightarrow> jsval \<Rightarrow> jsval \<Rightarrow> jsval" where
  "tree_put g v (JArr xs) = JArr (array_put g v xs)"
| "tree_put g v root = JObj (def_prop (seg_text g) v (own_entries root))"

fun value_at_path :: "jsval \<Rightarrow> json_path \<Rightarrow> jsval option" where
  "value_at_path root [] = Some root"
| "value_at_path root (g # path) = Option.bind (tree_get root g) (\<lambda>v. value_at_path v path)"

fun updateJsonTreeValue :: "jsval \<Rightarrow> json_path \<Rightarrow> jsval \<Rightarrow> jsval option" where
  "updateJsonTreeValue root [] value = Some value"
| "updateJsonTreeValue root (g # path) value =
     Option.bind (tree_get root g) (\<lambda>v. map_option (\<lambda>v'. tree_put g v' root) (updateJsonTreeValue v path value))"

fun without_segment :: "jsval \<Rightarrow> segment \<Rightarrow> jsval option" where
  "without_segment (JArr xs) g = Some (JArr (map snd (filter (\<lambda>(i, x). Some i \<noteq> seg_index g) (enumerate 0 xs))))"
| "without_segment JUndef g = None"
| "without_segment JNull g = None"
| "without_segment root g = Some (JObj (fromEntries (filter (\<lambda>(k, v). k \<noteq> seg_text g) (own_entries root))))"

fun removeJsonTreeValue :: "jsval \<Rightarrow> json_path \<Rightarrow> jsval option" where
  "removeJsonTreeValue root [] = Some (JObj [])"
| "removeJsonTreeValue root [g] = without_segment root g"
| "removeJsonTreeValue root (g # h # path) =
     Option.bind (tree_get root g) (\<lambda>v. map_option (\<lambda>v'. tree_put g v' root) (removeJsonTreeValue v (h # path)))"

section \<open>Names\<close>

definition field_name :: "nat \<Rightarrow> string" where
  "field_name n = (if n \<le> 1 then ''field'' else ''field'' @ digits_of n)"

lemma digits_of_inj: "digits_of m = digits_of n \<longleftrightarrow> m = n"
  by (metis digits_val_digits_of)

lemma field_name_inj: "0 < m \<Longrightarrow> 0 < n \<Longrightarrow> field_name m = field_name n \<longleftrightarrow> m = n"
  by (auto simp: field_name_def digits_of_inj digits_of_not_Nil [symmetric])

text \<open>The names tried are all different, so that one of the first \<open>length ps + 1\<close> is free.\<close>

definition names_left :: "props \<Rightarrow> nat \<Rightarrow> string set" where
  "names_left ps n = {k \<in> fst ` set ps. \<exists>m \<ge> n. 0 < m \<and> k = field_name m}"

function unique_from :: "props \<Rightarrow> nat \<Rightarrow> string" where
  "unique_from ps n = (if n = 0 \<or> field_name n \<notin> fst ` set ps then field_name n else unique_from ps (Suc n))"
  by pat_completeness auto

termination
proof (relation "measure (\<lambda>(ps, n). card (names_left ps n))")
  fix ps :: props and n
  assume a: "\<not> (n = 0 \<or> field_name n \<notin> fst ` set ps)"
  have "field_name n \<in> names_left ps n" using a by (auto simp: names_left_def)
  moreover have "field_name n \<notin> names_left ps (Suc n)" using a by (auto simp: names_left_def field_name_inj)
  moreover have "names_left ps (Suc n) \<subseteq> names_left ps n" by (auto simp: names_left_def intro: Suc_leD)
  ultimately have "names_left ps (Suc n) \<subset> names_left ps n" by blast
  moreover have "finite (names_left ps n)" by (auto simp: names_left_def)
  ultimately show "((ps, Suc n), (ps, n)) \<in> measure (\<lambda>(ps, n). card (names_left ps n))" by (simp add: psubset_card_mono)
qed simp

declare unique_from.simps [simp del]

definition uniquePropertyName :: "props \<Rightarrow> string" where
  "uniquePropertyName ps = unique_from ps 1"

definition renameObjectProperty :: "jsval \<Rightarrow> json_path \<Rightarrow> string \<Rightarrow> string \<Rightarrow> jsval option" where
  "renameObjectProperty root parentPath previous nextName =
     Option.bind (value_at_path root parentPath) (\<lambda>parent.
       if nextName = [] \<or> nextName = previous then Some root
       else if nullish parent then None
       else if nextName \<in> fst ` set (own_entries parent) then Some root
       else updateJsonTreeValue root parentPath
              (JObj (fromEntries (map (\<lambda>(k, v). if k = previous then (nextName, v) else (k, v)) (own_entries parent)))))"

section \<open>Rows\<close>

record tree_row =
  tr_path :: json_path
  tr_parentPath :: json_path
  tr_key :: segment
  tr_value :: jsval
  tr_depth :: nat
  tr_parentType :: "json_tree_type option"

fun tree_children :: "jsval \<Rightarrow> (segment \<times> jsval) list" where
  "tree_children (JArr xs) = map (\<lambda>(i, v). (SIndex i, v)) (enumerate 0 xs)"
| "tree_children (JObj ps) = map (\<lambda>(k, v). (SKey k, v)) ps"
| "tree_children v = []"

definition child_row :: "jsval \<Rightarrow> json_path \<Rightarrow> nat \<Rightarrow> segment \<times> jsval \<Rightarrow> tree_row" where
  "child_row parent parentPath depth c =
     \<lparr> tr_path = parentPath @ [fst c], tr_parentPath = parentPath, tr_key = fst c, tr_value = snd c, tr_depth = depth,
       tr_parentType = Some (if isArray parent then TArray else TObject) \<rparr>"

lemma tree_children_size: "(g, v) \<in> set (tree_children parent) \<Longrightarrow> size v < size parent"
proof (cases parent)
  case (JArr xs)
  assume "(g, v) \<in> set (tree_children parent)"
  then have "v \<in> set xs" using JArr by (auto simp: in_set_enumerate_eq)
  then have "size v \<le> size_list size xs" by (rule size_list_estimation') simp
  then show ?thesis by (simp add: JArr)
next
  case (JObj ps)
  assume "(g, v) \<in> set (tree_children parent)"
  then obtain k where "(k, v) \<in> set ps" using JObj by auto
  then have "size v \<le> size_list (size_prod (\<lambda>_. 0) size) ps" by (rule size_list_estimation') simp
  then show ?thesis by (simp add: JObj)
qed auto

function append_rows :: "jsval \<Rightarrow> json_path \<Rightarrow> nat \<Rightarrow> tree_row list" where
  "append_rows parent parentPath depth =
     concat (map (\<lambda>c. child_row parent parentPath depth c # append_rows (snd c) (parentPath @ [fst c]) (Suc depth)) (tree_children parent))"
  by pat_completeness auto
termination
  by (relation "measure (\<lambda>(v, _, _). size v)") (auto dest: tree_children_size)

declare append_rows.simps [simp del]

definition root_row :: "jsval \<Rightarrow> tree_row" where
  "root_row value = \<lparr> tr_path = [], tr_parentPath = [], tr_key = SKey ''$'', tr_value = value, tr_depth = 0, tr_parentType = None \<rparr>"

definition flattenJsonTree :: "jsval \<Rightarrow> tree_row list" where
  "flattenJsonTree value = root_row value # append_rows value [] 1"

section \<open>Edits of a row\<close>

definition add_tree_child :: "jsval \<Rightarrow> tree_row \<Rightarrow> jsval option" where
  "add_tree_child root row =
     (case tr_value row of
        JArr xs \<Rightarrow> updateJsonTreeValue root (tr_path row) (JArr (xs @ [JStr []]))
      | v \<Rightarrow> updateJsonTreeValue root (tr_path row) (JObj (def_prop (uniquePropertyName (own_entries v)) (JStr []) (own_entries v))))"

datatype tree_edit = Rename string | Choose string | Type string | Retype json_tree_type | Add | Delete

text \<open>The control of the row the user changes; a control that the row does not show has no event.\<close>

definition tree_edit :: "jsval \<Rightarrow> tree_row \<Rightarrow> tree_edit \<Rightarrow> jsval option" where
  "tree_edit root row e =
     (let t = jsonTreeValueType (tr_value row); structured = (t = TObject \<or> t = TArray) in
      case e of
        Rename name \<Rightarrow>
          if tr_parentType row = Some TObject then renameObjectProperty root (tr_parentPath row) (seg_text (tr_key row)) (trim name) else Some root
      | Choose text \<Rightarrow> if t = TBoolean then updateJsonTreeValue root (tr_path row) (JBool (text = ''true'')) else Some root
      | Type text \<Rightarrow>
          if \<not> structured \<and> t \<noteq> TNull \<and> t \<noteq> TBoolean
          then updateJsonTreeValue root (tr_path row) (if t = TNumber then JNum (string_Number text) else JStr text) else Some root
      | Retype t' \<Rightarrow> updateJsonTreeValue root (tr_path row) (defaultJsonTreeValue t')
      | Add \<Rightarrow> if structured then add_tree_child root row else Some root
      | Delete \<Rightarrow> if tr_path row \<noteq> [] then removeJsonTreeValue root (tr_path row) else Some root)"

end
