(* ===== verification/JsonTreeLaws.thy ===== *)
theory JsonTreeLaws imports JsonTree begin

text \<open>
  What the tree editor promises: its rows are the nodes of the value, each once; an edit of a row never throws, changes that
  node alone, and leaves a JSON value; a renamed property keeps its value and the new name of a child is free.
\<close>

section \<open>Enumeration order\<close>

text \<open>Array indices first, ascending; any order among the other keys.\<close>

definition key_before :: "string \<Rightarrow> string \<Rightarrow> bool" where
  "key_before k k' = (case (index_key k, index_key k') of
     (Some m, Some n) \<Rightarrow> m < n | (Some m, None) \<Rightarrow> True | (None, Some n) \<Rightarrow> False | (None, None) \<Rightarrow> True)"

definition ranked :: "(string \<times> 'a) list \<Rightarrow> bool" where
  "ranked ps \<longleftrightarrow> distinct (map fst ps) \<and> sorted_wrt key_before (map fst ps)"

lemma digit_char_val: "is_digit c \<Longrightarrow> digit_char (digit_val c) = c"
  by (simp add: digit_char_def digit_val_def is_digit_def)

lemma digits_of_val:
  "all_digits k \<Longrightarrow> k \<noteq> [] \<Longrightarrow> hd k \<noteq> CHR ''0'' \<Longrightarrow> digits_of (digits_val k) = k \<and> 0 < digits_val k"
proof (induction k rule: rev_induct)
  case (snoc c ks)
  then have c: "is_digit c" by (simp add: all_digits_def)
  then have small: "digit_val c < 10" by (auto simp: digit_val_def is_digit_def)
  show ?case
  proof (cases "ks = []")
    case True
    have "code c \<noteq> 48" using snoc.prems(3) True code_inject [of c "CHR ''0''"] by (auto simp: code_def)
    then have "0 < digit_val c" using c by (auto simp: digit_val_def is_digit_def)
    then show ?thesis using True small digit_char_val [OF c] by (simp add: digits_val_def digits_of.simps [of "digit_val c"])
  next
    case False
    then have "digits_of (digits_val ks) = ks" "0 < digits_val ks" using snoc by (simp_all add: all_digits_def)
    then show ?thesis using small digit_char_val [OF c]
      by (simp add: digits_val_snoc digits_of.simps [of "10 * digits_val ks + digit_val c"])
  qed
qed simp

lemma index_key_inj: "index_key k = Some n \<Longrightarrow> index_key k' = Some n \<Longrightarrow> k = k'"
proof -
  have "k = digits_of n" if "index_key k = Some n" for k
  proof (cases "k = ''0''")
    case True
    have "digits_of 0 = ''0''" by code_simp
    then show ?thesis using that True by (auto simp: index_key_def digits_val_def digit_val_def code_def split: if_splits)
  next
    case False
    then show ?thesis using that digits_of_val [of k] by (auto simp: index_key_def split: if_splits)
  qed
  then show "index_key k = Some n \<Longrightarrow> index_key k' = Some n \<Longrightarrow> k = k'" by metis
qed

lemma ranked_Cons: "ranked ((k, v) # ps) \<longleftrightarrow> ranked ps \<and> k \<notin> fst ` set ps \<and> (\<forall>k' \<in> fst ` set ps. key_before k k')"
  by (auto simp: ranked_def)

lemma ranked_insert_index:
  "ranked ps \<Longrightarrow> k \<notin> fst ` set ps \<Longrightarrow> index_key k = Some n \<Longrightarrow> ranked (insert_index n k v ps)"
proof (induction n k v ps rule: insert_index.induct)
  case (1 n k v)
  then show ?case by (simp add: ranked_def)
next
  case (2 n k v k' v' ps)
  have r: "ranked ps" "k' \<notin> fst ` set ps" "\<forall>j \<in> fst ` set ps. key_before k' j" using "2.prems"(1) by (simp_all add: ranked_Cons)
  show ?case
  proof (cases "index_key k'")
    case None
    then have "key_before k j" if "j \<in> fst ` set ((k', v') # ps)" for j
      using r(3) that "2.prems"(3) by (auto simp: key_before_def split: option.splits)
    then show ?thesis using None "2.prems" by (simp add: ranked_Cons [of k])
  next
    case (Some m)
    show ?thesis
    proof (cases "m < n")
      case True
      then have "ranked (insert_index n k v ps)" using 2 Some r(1) by simp
      moreover have "key_before k' j" if "j \<in> fst ` set (insert_index n k v ps)" for j
        using that r(3) Some True "2.prems"(3) by (auto simp: key_before_def)
      ultimately show ?thesis using Some True r(2) "2.prems"(2) by (auto simp: ranked_Cons)
    next
      case False
      have "m \<noteq> n" using index_key_inj [of k n k'] Some "2.prems"(2,3) by auto
      then have "key_before k j" if "j \<in> fst ` set ((k', v') # ps)" for j
        using that False Some "2.prems"(3) r(3) by (force simp: key_before_def split: option.splits)
      then show ?thesis using Some False "2.prems" by (simp add: ranked_Cons [of k])
    qed
  qed
qed

lemma ranked_def_prop: "ranked ps \<Longrightarrow> ranked (def_prop k v ps)"
proof -
  assume r: "ranked ps"
  show ?thesis
  proof (cases "k \<in> fst ` set ps")
    case True
    then show ?thesis using r by (simp add: def_prop_def ranked_def)
  next
    case False
    show ?thesis
    proof (cases "index_key k")
      case None
      then have "key_before j k" for j by (simp add: key_before_def split: option.split)
      then show ?thesis using r False None by (auto simp: def_prop_def ranked_def sorted_wrt_append)
    next
      case (Some n)
      then show ?thesis using ranked_insert_index [OF r False Some] False by (simp add: def_prop_def)
    qed
  qed
qed

lemma ranked_fromEntries: "ranked (fromEntries es)"
proof -
  have "ranked (foldl (\<lambda>ps (k, v). def_prop k v ps) ps es)" if "ranked ps" for ps
    using that by (induction es arbitrary: ps) (auto simp: ranked_def_prop)
  then show ?thesis by (simp add: fromEntries_def ranked_def)
qed

lemma insert_index_last:
  "(\<And>j. j \<in> fst ` set ps \<Longrightarrow> key_before j k) \<Longrightarrow> index_key k = Some n \<Longrightarrow> insert_index n k v ps = ps @ [(k, v)]"
proof (induction ps)
  case (Cons p ps)
  then show ?case by (cases p) (force simp: key_before_def split: option.splits)
qed simp

lemma fromEntries_ranked: "ranked ps \<Longrightarrow> fromEntries ps = ps"
proof (induction ps rule: rev_induct)
  case (snoc p ps)
  obtain k v where p: "p = (k, v)" by (cases p)
  have r: "ranked ps" "k \<notin> fst ` set ps" "\<And>j. j \<in> fst ` set ps \<Longrightarrow> key_before j k"
    using snoc.prems by (auto simp: p ranked_def sorted_wrt_append)
  have "def_prop k v ps = ps @ [(k, v)]"
    using r(2) insert_index_last [of ps k _ v, OF r(3)] by (auto simp: def_prop_def split: option.split)
  then show ?case using snoc.IH [OF r(1)] by (simp add: fromEntries_def p)
qed (simp add: fromEntries_def)

lemma ordered_iff_ranked: "ordered_props ps \<longleftrightarrow> ranked ps"
  unfolding ordered_props_def by (metis fromEntries_ranked ranked_fromEntries)

lemma ordered_filter: "ordered_props ps \<Longrightarrow> ordered_props (filter p ps)"
  unfolding ordered_iff_ranked ranked_def by (auto simp: distinct_map_filter sorted_wrt_map sorted_wrt_filter)

lemma ordered_def_prop: "ordered_props ps \<Longrightarrow> ordered_props (def_prop k v ps)"
  unfolding ordered_iff_ranked by (rule ranked_def_prop)

lemma ordered_fromEntries [simp]: "ordered_props (fromEntries es)"
  unfolding ordered_iff_ranked by (rule ranked_fromEntries)


section \<open>Nodes\<close>

text \<open>JSON values: no \<^verbatim>\<open>undefined\<close>, no built-ins, finite numbers, objects in enumeration order.\<close>

fun json_value :: "jsval \<Rightarrow> bool" where
  "json_value (JNum n) = num_finite n"
| "json_value (JArr xs) = list_all json_value xs"
| "json_value (JObj ps) = (ordered_props ps \<and> list_all (\<lambda>(k, v). json_value v) ps)"
| "json_value JUndef = False"
| "json_value (JHost k) = False"
| "json_value v = True"

fun child :: "jsval \<Rightarrow> segment \<Rightarrow> jsval option" where
  "child (JArr xs) (SIndex i) = (if i < length xs then Some (xs ! i) else None)"
| "child (JObj ps) (SKey k) = map_of ps k"
| "child v g = None"

fun node :: "jsval \<Rightarrow> json_path \<Rightarrow> jsval option" where
  "node root [] = Some root"
| "node root (g # path) = Option.bind (child root g) (\<lambda>v. node v path)"

lemma node_append: "node root (p @ q) = Option.bind (node root p) (\<lambda>v. node v q)"
proof (induction p arbitrary: root)
  case (Cons g p)
  then show ?case by (cases "child root g") auto
qed simp

lemma child_get: "child v g = Some u \<Longrightarrow> tree_get v g = Some u"
  by (cases "(v, g)" rule: child.cases) (auto simp: obj_get_def split: if_splits)

lemma node_value: "node root p = Some v \<Longrightarrow> value_at_path root p = Some v"
  by (induction root p rule: node.induct) (auto simp: bind_eq_Some_conv child_get)

lemma child_cases:
  assumes "child v g = Some u"
  obtains xs i where "v = JArr xs" "g = SIndex i" "i < length xs" "u = xs ! i"
    | ps k where "v = JObj ps" "g = SKey k" "map_of ps k = Some u"
  using assms by (cases "(v, g)" rule: child.cases) (auto split: if_splits)

lemma json_child: "json_value v \<Longrightarrow> child v g = Some u \<Longrightarrow> json_value u"
  by (erule child_cases) (auto simp: list_all_iff dest: map_of_SomeD)

lemma json_node: "json_value root \<Longrightarrow> node root p = Some v \<Longrightarrow> json_value v"
  by (induction root p rule: node.induct) (auto simp: bind_eq_Some_conv dest: json_child)

lemma child_put: "child v g = Some u \<Longrightarrow> child (tree_put g w v) h = (if h = g then Some w else child v h)"
proof (erule child_cases)
  fix xs i
  assume "v = JArr xs" "g = SIndex i" "i < length xs"
  then show ?thesis by (cases h) (auto simp: array_put_def)
next
  fix ps k
  assume "v = JObj ps" "g = SKey k"
  then show ?thesis by (cases h) auto
qed

lemma json_put: "json_value v \<Longrightarrow> child v g = Some u \<Longrightarrow> json_value w \<Longrightarrow> json_value (tree_put g w v)"
proof (erule child_cases)
  fix xs i
  assume "json_value v" "json_value w" "v = JArr xs" "g = SIndex i" "i < length xs"
  then show ?thesis by (auto simp: array_put_def list_all_iff dest: in_set_conv_nth [THEN iffD1] set_update_subset_insert [THEN subsetD])
next
  fix ps k
  assume "json_value v" "json_value w" "v = JObj ps" "g = SKey k"
  then show ?thesis using set_def_prop [of k w ps] by (fastforce simp: list_all_iff ordered_def_prop)
qed

text \<open>An update at a node: it does not throw, the node has the new value, nodes elsewhere are untouched.\<close>

lemma update_node:
  "node root p \<noteq> None \<Longrightarrow> \<exists>root'. updateJsonTreeValue root p v = Some root' \<and> (\<forall>q. node root' (p @ q) = node v q)
     \<and> (\<forall>q. \<not> prefix p q \<longrightarrow> \<not> prefix q p \<longrightarrow> node root' q = node root q)"
proof (induction root p v rule: updateJsonTreeValue.induct)
  case (2 root g p v)
  then obtain u where u: "child root g = Some u" "node u p \<noteq> None" by (auto simp: bind_eq_Some_conv)
  obtain u' where u': "updateJsonTreeValue u p v = Some u'" "\<And>q. node u' (p @ q) = node v q"
    "\<And>q. \<not> prefix p q \<Longrightarrow> \<not> prefix q p \<Longrightarrow> node u' q = node u q"
    using "2.IH" [OF child_get [OF u(1)] u(2)] by auto
  have "node (tree_put g u' root) q = node root q" if "\<not> prefix (g # p) q" "\<not> prefix q (g # p)" for q
    using that u'(3) u(1) by (cases q) (auto simp: child_put [OF u(1)])
  then show ?case using u' child_get [OF u(1)] by (auto simp: child_put [OF u(1)])
qed simp

lemma update_json:
  "node root p \<noteq> None \<Longrightarrow> json_value root \<Longrightarrow> json_value v \<Longrightarrow> \<exists>root'. updateJsonTreeValue root p v = Some root' \<and> json_value root'"
proof (induction root p v rule: updateJsonTreeValue.induct)
  case (2 root g p v)
  then obtain u where u: "child root g = Some u" "node u p \<noteq> None" by (auto simp: bind_eq_Some_conv)
  then show ?case using "2.IH" [OF child_get [OF u(1)] u(2)] "2.prems" json_child json_put child_get [OF u(1)] by auto
qed simp


section \<open>Rows\<close>

lemma children_iff: "json_value v \<Longrightarrow> (g, u) \<in> set (tree_children v) \<longleftrightarrow> child v g = Some u"
proof (cases v)
  case (JArr xs)
  have "(SIndex i, u) \<in> (\<lambda>(i, v). (SIndex i, v)) ` set (enumerate 0 xs) \<longleftrightarrow> (i, u) \<in> set (enumerate 0 xs)" for i by force
  with JArr show ?thesis by (cases g) (auto simp: in_set_enumerate_eq split: if_splits)
next
  case (JObj ps)
  assume "json_value v"
  then have "distinct (map fst ps)" using JObj by (simp add: ordered_distinct)
  then show ?thesis using JObj by (cases g) (auto simp: map_of_eq_Some_iff)
qed auto

lemma children_distinct: "json_value v \<Longrightarrow> distinct (map fst (tree_children v))"
proof (cases v)
  case (JArr xs)
  have "map fst (map (\<lambda>(i, v). (SIndex i, v)) (enumerate 0 xs)) = map SIndex [0 ..< length xs]"
    by (rule nth_equalityI) (simp_all add: nth_enumerate_eq)
  then show ?thesis by (simp add: JArr distinct_map inj_on_def)
next
  case (JObj ps)
  assume "json_value v"
  then have "distinct (map fst ps)" using JObj by (simp add: ordered_distinct)
  then have "distinct (map SKey (map fst ps))" by (simp add: distinct_map inj_on_def)
  then show ?thesis by (simp add: JObj comp_def case_prod_beta)
qed auto

text \<open>The rows below a node: one for every child of a node at or below it.\<close>

definition row_below :: "jsval \<Rightarrow> json_path \<Rightarrow> tree_row \<Rightarrow> bool" where
  "row_below root pp r \<longleftrightarrow> (\<exists>p par. (prefix pp p \<and> node root p = Some par)
     \<and> (\<exists>c. child par (fst c) = Some (snd c) \<and> r = child_row par p (Suc (length p)) c))"

lemma exists_here_or_below:
  "(\<exists>p v. ((p = a \<and> v = b) \<or> (\<exists>c. C c \<and> A c p \<and> N p v)) \<and> R p v) \<longleftrightarrow> R a b \<or> (\<exists>c. C c \<and> (\<exists>p v. (A c p \<and> N p v) \<and> R p v))"
  by blast

lemma row_below_split:
  assumes "node root pp = Some parent"
  shows "row_below root pp r \<longleftrightarrow>
    (\<exists>c. child parent (fst c) = Some (snd c) \<and> (r = child_row parent pp (Suc (length pp)) c \<or> row_below root (pp @ [fst c]) r))"
proof -
  have eq: "prefix pp p \<and> node root p = Some par \<longleftrightarrow>
      (p = pp \<and> par = parent) \<or> (\<exists>c. child parent (fst c) = Some (snd c) \<and> prefix (pp @ [fst c]) p \<and> node root p = Some par)" for p par
  proof
    assume a: "prefix pp p \<and> node root p = Some par"
    then obtain q where q: "p = pp @ q" by (auto elim: prefixE)
    show "(p = pp \<and> par = parent) \<or> (\<exists>c. child parent (fst c) = Some (snd c) \<and> prefix (pp @ [fst c]) p \<and> node root p = Some par)"
    proof (cases q)
      case Nil
      then show ?thesis using a q assms by simp
    next
      case (Cons g r)
      then obtain u where "child parent g = Some u" using a q assms by (auto simp: node_append bind_eq_Some_conv)
      then show ?thesis using a q Cons by auto
    qed
  qed (use assms in \<open>auto simp: prefix_def\<close>)
  let ?row = "\<lambda>p par. \<exists>c. child par (fst c) = Some (snd c) \<and> r = child_row par p (Suc (length p)) c"
  have "row_below root pp r \<longleftrightarrow> (\<exists>p par. ((p = pp \<and> par = parent)
      \<or> (\<exists>c. child parent (fst c) = Some (snd c) \<and> prefix (pp @ [fst c]) p \<and> node root p = Some par)) \<and> ?row p par)"
    unfolding row_below_def eq ..
  also have "\<dots> \<longleftrightarrow> ?row pp parent \<or> (\<exists>c. child parent (fst c) = Some (snd c)
      \<and> (\<exists>p par. (prefix (pp @ [fst c]) p \<and> node root p = Some par) \<and> ?row p par))"
    by (rule exists_here_or_below)
  also have "\<dots> \<longleftrightarrow> ?row pp parent \<or> (\<exists>c. child parent (fst c) = Some (snd c) \<and> row_below root (pp @ [fst c]) r)"
    unfolding row_below_def ..
  finally show ?thesis by blast
qed

lemma child_node: "node root pp = Some parent \<Longrightarrow> node root (pp @ [g]) = child parent g"
  by (cases "child parent g") (simp_all add: node_append)

lemma append_rows_below:
  "json_value parent \<Longrightarrow> node root pp = Some parent \<Longrightarrow> r \<in> set (append_rows parent pp (Suc (length pp))) \<longleftrightarrow> row_below root pp r"
proof (induction parent pp "Suc (length pp)" rule: append_rows.induct)
  case (1 parent pp)
  have sub: "r \<in> set (append_rows (snd c) (pp @ [fst c]) (Suc (Suc (length pp)))) \<longleftrightarrow> row_below root (pp @ [fst c]) r"
    if c: "c \<in> set (tree_children parent)" for c
  proof -
    have "child parent (fst c) = Some (snd c)" using children_iff [OF "1.prems"(1)] c by (metis prod.collapse)
    then show ?thesis using "1.hyps" [OF c] json_child "1.prems" child_node by simp
  qed
  have "r \<in> set (append_rows parent pp (Suc (length pp))) \<longleftrightarrow> (\<exists>c \<in> set (tree_children parent).
      r = child_row parent pp (Suc (length pp)) c \<or> r \<in> set (append_rows (snd c) (pp @ [fst c]) (Suc (Suc (length pp)))))"
    by (subst append_rows.simps) auto
  also have "\<dots> \<longleftrightarrow> (\<exists>c \<in> set (tree_children parent). r = child_row parent pp (Suc (length pp)) c \<or> row_below root (pp @ [fst c]) r)"
    using sub by blast
  also have "\<dots> \<longleftrightarrow> row_below root pp r"
    unfolding row_below_split [OF "1.prems"(2)] using children_iff [OF "1.prems"(1)] by (metis prod.collapse)
  finally show ?case .
qed

lemma distinct_blocks:
  "distinct (map fst cs) \<Longrightarrow> (\<And>c. c \<in> set cs \<Longrightarrow> distinct (f c) \<and> (\<forall>x \<in> set (f c). key x = fst c)) \<Longrightarrow> distinct (concat (map f cs))"
proof (induction cs)
  case (Cons c cs)
  have "key x \<noteq> fst c" if x: "x \<in> set (concat (map f cs))" for x
  proof -
    obtain d where d: "d \<in> set cs" "x \<in> set (f d)" using x by auto
    then have "key x = fst d" using Cons.prems(2) [of d] by simp
    moreover have "fst d \<in> fst ` set cs" "fst c \<notin> fst ` set cs" using d(1) Cons.prems(1) by simp_all
    ultimately show ?thesis by metis
  qed
  moreover have "distinct (f c)" "\<forall>x \<in> set (f c). key x = fst c" "distinct (concat (map f cs))"
    using Cons.prems Cons.IH by simp_all
  ultimately show ?case by auto
qed simp

lemma append_rows_distinct:
  "json_value parent \<Longrightarrow> node root pp = Some parent \<Longrightarrow> distinct (map tr_path (append_rows parent pp (Suc (length pp))))"
proof (induction parent pp "Suc (length pp)" rule: append_rows.induct)
  case (1 parent pp)
  let ?f = "\<lambda>c. map tr_path (child_row parent pp (Suc (length pp)) c # append_rows (snd c) (pp @ [fst c]) (Suc (Suc (length pp))))"
  have "distinct (?f c) \<and> (\<forall>x \<in> set (?f c). x ! length pp = fst c)" if c: "c \<in> set (tree_children parent)" for c
  proof -
    obtain g u where gu: "c = (g, u)" by (cases c)
    have u: "child parent g = Some u" using children_iff "1.prems"(1) c gu by blast
    have j: "json_value u" "node root (pp @ [g]) = Some u" using json_child "1.prems" u by (auto simp: node_append)
    have "distinct (map tr_path (append_rows u (pp @ [g]) (Suc (Suc (length pp)))))" using "1.hyps" [OF c] j gu by simp
    moreover have "prefix (pp @ [g]) (butlast p) \<and> p \<noteq> []" if "p \<in> tr_path ` set (append_rows u (pp @ [g]) (Suc (Suc (length pp))))" for p
      using that append_rows_below [OF j] by (auto simp: row_below_def child_row_def)
    moreover have "p \<noteq> pp @ [g]" if "prefix (pp @ [g]) (butlast p)" for p
      using that prefix_length_le by fastforce
    moreover have "p ! length pp = g" if "prefix (pp @ [g]) (butlast p)" "p \<noteq> []" for p
    proof -
      have "prefix (pp @ [g]) p" using that(1) prefix_order.trans [OF _ prefixeq_butlast] by blast
      then show ?thesis by (auto simp: prefix_def nth_append)
    qed
    ultimately show ?thesis by (auto simp: gu child_row_def nth_append)
  qed
  then have "distinct (concat (map ?f (tree_children parent)))" by (intro distinct_blocks [where key = "\<lambda>p. p ! length pp"] children_distinct "1.prems") auto
  then show ?case by (subst append_rows.simps) (simp add: map_concat comp_def)
qed


lemma flatten_rows:
  "json_value root \<Longrightarrow> r \<in> set (flattenJsonTree root) \<longleftrightarrow> r = root_row root \<or> row_below root [] r"
  using append_rows_below [of root root "[]" r] by (simp add: flattenJsonTree_def)

lemma row_below_node:
  assumes "row_below root pp r"
  shows "node root (tr_path r) = Some (tr_value r) \<and> tr_path r = tr_parentPath r @ [tr_key r] \<and> tr_depth r = length (tr_path r)
    \<and> (\<exists>par. node root (tr_parentPath r) = Some par \<and> child par (tr_key r) = Some (tr_value r)
         \<and> tr_parentType r = Some (if isArray par then TArray else TObject))"
proof -
  obtain p par c where pc: "node root p = Some par" "child par (fst c) = Some (snd c)" "r = child_row par p (Suc (length p)) c"
    using assms unfolding row_below_def by blast
  then show ?thesis by (simp add: child_row_def child_node)
qed

text \<open>The tree shows the value: for every JSON value the rows have different paths, and the paths with the values of the
  rows are exactly the nodes of the value.\<close>

theorem tree_rows_are_nodes:
  assumes "json_value root"
  shows "distinct (map tr_path (flattenJsonTree root))
    \<and> (\<lambda>r. (tr_path r, tr_value r)) ` set (flattenJsonTree root) = {(p, v). node root p = Some v}"
proof
  have "[] \<notin> tr_path ` set (append_rows root [] (Suc (length [])))"
    using append_rows_below [OF assms, of root "[]"] by (auto simp: row_below_def child_row_def)
  then show "distinct (map tr_path (flattenJsonTree root))"
    using append_rows_distinct [OF assms, of root "[]"] by (auto simp: flattenJsonTree_def root_row_def)
  show "(\<lambda>r. (tr_path r, tr_value r)) ` set (flattenJsonTree root) = {(p, v). node root p = Some v}" (is "?l = ?r")
  proof
    show "?l \<subseteq> ?r" using flatten_rows [OF assms] row_below_node by (fastforce simp: root_row_def)
    show "?r \<subseteq> ?l"
    proof clarify
      fix p v
      assume v: "node root p = Some v"
      show "(p, v) \<in> ?l"
      proof (cases p rule: rev_cases)
        case Nil
        then show ?thesis using v by (auto simp: flattenJsonTree_def root_row_def)
      next
        case (snoc q g)
        then obtain par where par: "node root q = Some par" "child par g = Some v" using v by (auto simp: node_append bind_eq_Some_conv)
        then have "row_below root [] (child_row par q (Suc (length q)) (g, v))" unfolding row_below_def by force
        then show ?thesis using flatten_rows [OF assms] snoc by (force simp: child_row_def)
      qed
    qed
  qed
qed

definition sample_tree :: jsval where
  "sample_tree = JObj [(''1'', JArr [JNull, JBool True]), (''a'', JObj [(''b'', JNum (NInt 7))])]"

lemma sample_tree_json: "json_value sample_tree"
  by (simp add: sample_tree_def ordered_props_def fromEntries_def def_prop_def index_key_def all_digits_def is_digit_def code_def)

theorem tree_rows_are_nodes_witness:
  "([SKey ''a'', SKey ''b''], JNum (NInt 7)) \<in> (\<lambda>r. (tr_path r, tr_value r)) ` set (flattenJsonTree sample_tree)"
  using tree_rows_are_nodes [OF sample_tree_json] by (simp add: sample_tree_def)

section \<open>Edits\<close>

lemma row_node: "json_value root \<Longrightarrow> r \<in> set (flattenJsonTree root) \<Longrightarrow> node root (tr_path r) = Some (tr_value r)"
  using flatten_rows row_below_node by (force simp: root_row_def)

lemma object_row:
  assumes "json_value root" "r \<in> set (flattenJsonTree root)" "tr_parentType r = Some TObject"
  obtains ps k where "node root (tr_parentPath r) = Some (JObj ps)" "tr_key r = SKey k" "map_of ps k = Some (tr_value r)"
    "tr_path r = tr_parentPath r @ [SKey k]" "ordered_props ps"
proof -
  have "row_below root [] r" using assms flatten_rows by (auto simp: root_row_def)
  then obtain par where par: "node root (tr_parentPath r) = Some par" "child par (tr_key r) = Some (tr_value r)"
    "tr_path r = tr_parentPath r @ [tr_key r]" "\<not> isArray par"
    using row_below_node assms(3) by (fastforce split: if_splits)
  from par(2) show thesis
  proof (cases rule: child_cases)
    case (1 xs i)
    then show thesis using par(4) by simp
  next
    case (2 ps k)
    then show thesis using that par json_node [OF assms(1) par(1)] by simp
  qed
qed

lemma set_fromEntries: "set (fromEntries es) \<subseteq> set es"
proof -
  have "set (foldl (\<lambda>ps (k, v). def_prop k v ps) ps es) \<subseteq> set ps \<union> set es" for ps
  proof (induction es arbitrary: ps)
    case (Cons e es)
    obtain k v where e: "e = (k, v)" by (cases e)
    then show ?case using Cons [of "def_prop k v ps"] set_def_prop [of k v ps] by auto
  qed simp
  from this [of "[]"] show ?thesis by (simp add: fromEntries_def)
qed

lemma json_renamed:
  assumes "json_value (JObj ps)"
  shows "json_value (JObj (fromEntries (map (\<lambda>(k, v). if k = a then (b, v) else (k, v)) ps)))"
proof -
  have "json_value v" if "(k, v) \<in> set (fromEntries (map (\<lambda>(k, v). if k = a then (b, v) else (k, v)) ps))" for k v
    using that set_fromEntries assms by (fastforce simp: list_all_iff split: if_splits)
  then show ?thesis by (auto simp: list_all_iff)
qed

lemma json_without: "json_value v \<Longrightarrow> child v g = Some u \<Longrightarrow> \<exists>w. without_segment v g = Some w \<and> json_value w"
proof (erule child_cases)
  fix xs i
  assume "json_value v" "v = JArr xs" "g = SIndex i"
  then show ?thesis by (auto simp: list_all_iff in_set_enumerate_eq)
next
  fix ps k
  assume "json_value v" "v = JObj ps" "g = SKey k"
  then show ?thesis using set_fromEntries by (fastforce simp: list_all_iff)
qed

lemma remove_as_update:
  "node root (p @ [g]) \<noteq> None \<Longrightarrow> removeJsonTreeValue root (p @ [g]) =
     Option.bind (value_at_path root p) (\<lambda>v. Option.bind (without_segment v g) (updateJsonTreeValue root p))"
proof (induction p arbitrary: root)
  case Nil
  then show ?case by (cases "without_segment root g") simp_all
next
  case (Cons h p)
  then obtain u where u: "child root h = Some u" "node u (p @ [g]) \<noteq> None" by (auto simp: bind_eq_Some_conv)
  obtain h' p' where p: "p @ [g] = h' # p'" by (cases "p @ [g]") auto
  have "removeJsonTreeValue root (h # p @ [g]) = map_option (\<lambda>v'. tree_put h v' root) (removeJsonTreeValue u (p @ [g]))"
    using child_get [OF u(1)] by (simp add: p)
  then show ?case using Cons.IH [OF u(2)] child_get [OF u(1)]
    by (simp add: map_option_bind comp_def)
qed


lemma rename_json:
  assumes "json_value root" "r \<in> set (flattenJsonTree root)" "tr_parentType r = Some TObject"
  shows "\<exists>root'. renameObjectProperty root (tr_parentPath r) previous name = Some root' \<and> json_value root'"
proof -
  obtain ps where ps: "node root (tr_parentPath r) = Some (JObj ps)" "ordered_props ps" using object_row [OF assms] by metis
  have "json_value (JObj ps)" using json_node assms(1) ps(1) by blast
  then show ?thesis
    using update_json [OF _ assms(1) json_renamed] ps node_value [OF ps(1)] assms(1)
    by (simp add: renameObjectProperty_def nullish_def del: json_value.simps)
qed

lemma remove_json:
  assumes "json_value root" "node root p = Some v" "p \<noteq> []"
  shows "\<exists>root'. removeJsonTreeValue root p = Some root' \<and> json_value root'"
proof -
  obtain q g where p: "p = q @ [g]" using assms(3) by (cases p rule: rev_cases) auto
  then obtain par where par: "node root q = Some par" "child par g = Some v" using assms(2) by (auto simp: node_append bind_eq_Some_conv)
  obtain w where w: "without_segment par g = Some w" "json_value w" using json_without json_node assms(1) par by blast
  have "node root (q @ [g]) \<noteq> None" using assms(2) p by simp
  from remove_as_update [OF this] show ?thesis
    using update_json [of root q w] par(1) w assms(1) node_value [OF par(1)] p by simp
qed

lemma add_json:
  assumes "json_value root" "node root (tr_path r) = Some (tr_value r)" "jsonTreeValueType (tr_value r) \<in> {TObject, TArray}"
  shows "\<exists>root'. add_tree_child root r = Some root' \<and> json_value root'"
proof -
  have v: "json_value (tr_value r)" using json_node assms by blast
  show ?thesis
  proof (cases "tr_value r")
    case (JArr xs)
    then show ?thesis using update_json [of root "tr_path r" "JArr (xs @ [JStr []])"] assms v by (simp add: add_tree_child_def)
  next
    case (JObj ps)
    have "json_value (JObj (def_prop (uniquePropertyName ps) (JStr []) ps))"
      using v JObj set_def_prop [of "uniquePropertyName ps" "JStr []" ps] by (fastforce simp: list_all_iff ordered_def_prop)
    then show ?thesis using update_json [of root "tr_path r"] assms JObj by (simp add: add_tree_child_def del: json_value.simps)
  qed (use assms(3) in auto)
qed

text \<open>What the number field of the browser lets a user type; other edits take any text.\<close>

fun input_ok :: "tree_edit \<Rightarrow> bool" where
  "input_ok (Type text) = num_finite (string_Number text)"
| "input_ok e = True"

text \<open>C20: editing keeps the type: no edit of a row of the tree throws, and what the tree hands over is again a JSON value, with
  the properties of every object in enumeration order, so that it can be shown, edited and written again.\<close>

theorem tree_edits_typed:
  assumes "json_value root" and "row \<in> set (flattenJsonTree root)"
    and "jsonTreeValueType (tr_value row) = TNumber \<Longrightarrow> input_ok e"
  shows "\<exists>root'. tree_edit root row e = Some root' \<and> json_value root'"
proof -
  have n: "node root (tr_path row) = Some (tr_value row)" using row_node assms by blast
  have upd: "\<exists>root'. updateJsonTreeValue root (tr_path row) v = Some root' \<and> json_value root'" if "json_value v" for v
    using update_json assms(1) n that by simp
  show ?thesis
  proof (cases e)
    case (Rename name)
    then show ?thesis using rename_json assms by (simp add: tree_edit_def)
  next
    case (Choose chosen)
    then show ?thesis using upd assms(1) by (simp add: tree_edit_def)
  next
    case (Type typed)
    then have "json_value (if jsonTreeValueType (tr_value row) = TNumber then JNum (string_Number typed) else JStr typed)"
      using assms(3) by simp
    then show ?thesis using Type upd assms(1) by (simp add: tree_edit_def Let_def)
  next
    case (Retype t)
    have "json_value (defaultJsonTreeValue t)" by (cases t) (simp_all add: ordered_props_def fromEntries_def)
    then show ?thesis using Retype upd by (simp add: tree_edit_def)
  next
    case Add
    then show ?thesis using add_json [OF assms(1) n] assms(1) by (auto simp: tree_edit_def Let_def)
  next
    case Delete
    then show ?thesis using remove_json [OF assms(1) n] assms(1) by (simp add: tree_edit_def)
  qed
qed

theorem tree_edits_typed_witness:
  "\<exists>root'. tree_edit sample_tree (child_row (JArr [JNull, JBool True]) [SKey ''1''] 2 (SIndex 1, JBool True)) Delete = Some root' \<and> json_value root'"
proof (rule tree_edits_typed [OF sample_tree_json])
  have "row_below sample_tree [] (child_row (JArr [JNull, JBool True]) [SKey ''1''] 2 (SIndex 1, JBool True))"
    unfolding row_below_def by (rule exI [of _ "[SKey ''1'']"])
      (auto simp: sample_tree_def intro!: exI [of _ "SIndex 1"] exI [of _ "JBool True"] simp flip: numeral_2_eq_2)
  then show "child_row (JArr [JNull, JBool True]) [SKey ''1''] 2 (SIndex 1, JBool True) \<in> set (flattenJsonTree sample_tree)"
    using flatten_rows [OF sample_tree_json] by blast
qed simp

text \<open>The name of a new child is not taken.\<close>

lemma unique_from_fresh: "0 < n \<Longrightarrow> unique_from ps n \<notin> fst ` set ps"
proof (induction ps n rule: unique_from.induct)
  case (1 ps n)
  then show ?case by (subst unique_from.simps) simp
qed

lemma map_of_renamed:
  assumes "distinct (map fst ps)" "b \<notin> fst ` set ps" "map_of ps a = Some v"
  shows "map_of (fromEntries (map (\<lambda>(k, v). if k = a then (b, v) else (k, v)) ps)) k =
    (if k = b then Some v else if k = a then None else map_of ps k)"
proof -
  let ?g = "\<lambda>(k, v). if k = a then (b, v) else (k, v)"
  have "distinct (map fst (map ?g ps))"
    using assms(1,2) by (induction ps) (force split: if_splits)+
  then have "map_of (fromEntries (map ?g ps)) = map_of (map ?g ps)"
    by (simp add: fromEntries_def foldl_def_prop_map_of distinct_map_of_rev)
  moreover have "map_of (map ?g ps) k = (if k = b then map_of ps a else if k = a then None else map_of ps k)"
    using assms(1,2) by (induction ps) (auto split: if_splits)
  ultimately show ?thesis using assms(3) by simp
qed

text \<open>C30: a name edited in the tree renames one property: when the new name, without the white space around it, is neither empty
  nor taken, the subtree is found under the new name, nothing is left under the old one, and every other node is as it was;
  when it is taken, nothing changes.\<close>

theorem rename_moves_subtree:
  assumes "json_value root" and "row \<in> set (flattenJsonTree root)" and "tr_parentType row = Some TObject"
    and "trim name \<noteq> []" and "SKey (trim name) \<noteq> tr_key row"
  shows "\<exists>root'. tree_edit root row (Rename name) = Some root'
    \<and> (if node root (tr_parentPath row @ [SKey (trim name)]) \<noteq> None then root' = root
        else (\<forall>q. node root' (tr_parentPath row @ SKey (trim name) # q) = node root (tr_path row @ q))
          \<and> node root' (tr_path row) = None
          \<and> (\<forall>g q. g \<noteq> SKey (trim name) \<longrightarrow> g \<noteq> tr_key row \<longrightarrow> node root' (tr_parentPath row @ g # q) = node root (tr_parentPath row @ g # q))
          \<and> (\<forall>q. \<not> prefix (tr_parentPath row) q \<longrightarrow> \<not> prefix q (tr_parentPath row) \<longrightarrow> node root' q = node root q))"
proof -
  let ?b = "trim name" and ?pp = "tr_parentPath row"
  obtain ps a where ps: "node root ?pp = Some (JObj ps)" "tr_key row = SKey a" "map_of ps a = Some (tr_value row)"
    "tr_path row = ?pp @ [SKey a]" "ordered_props ps" using object_row [OF assms(1-3)] by metis
  obtain R where R: "R = JObj (fromEntries (map (\<lambda>(k, v). if k = a then (?b, v) else (k, v)) ps))" by blast
  have edit: "tree_edit root row (Rename name) = (if ?b \<in> fst ` set ps then Some root else updateJsonTreeValue root ?pp R)"
    using assms ps by (simp add: tree_edit_def renameObjectProperty_def node_value nullish_def R)
  have taken: "node root (?pp @ [SKey ?b]) \<noteq> None \<longleftrightarrow> ?b \<in> fst ` set ps"
    using child_node [OF ps(1), of "SKey ?b"] map_of_eq_None_iff [of ps ?b] by simp
  obtain root' where r: "updateJsonTreeValue root ?pp R = Some root'" "\<And>q. node root' (?pp @ q) = node R q"
    "\<And>q. \<not> prefix ?pp q \<Longrightarrow> \<not> prefix q ?pp \<Longrightarrow> node root' q = node root q"
    using update_node [of root ?pp R] ps(1) by auto
  show ?thesis
  proof (cases "?b \<in> fst ` set ps")
    case False
    have children: "child R g = (if g = SKey ?b then Some (tr_value row) else if g = SKey a then None else child (JObj ps) g)" for g
      using map_of_renamed [OF ordered_distinct [OF ps(5)] False ps(3)] unfolding R by (cases g) simp_all
    have "node root' (?pp @ SKey ?b # q) = node root (tr_path row @ q)" for q
      using r(2) [of "SKey ?b # q"] ps by (simp add: node_append children)
    moreover have "node root' (tr_path row) = None" using r(2) [of "[SKey a]"] ps assms(5) by (simp add: children)
    moreover have "node root' (?pp @ g # q) = node root (?pp @ g # q)" if "g \<noteq> SKey ?b" "g \<noteq> tr_key row" for g q
      using r(2) [of "g # q"] that ps by (simp add: node_append children)
    ultimately show ?thesis using edit taken False r(1,3) by simp
  qed (use edit taken in simp)
qed


theorem rename_moves_subtree_witness:
  "\<exists>root'. tree_edit sample_tree (child_row sample_tree [] 1 (SKey ''a'', JObj [(''b'', JNum (NInt 7))])) (Rename '' c '') = Some root'
    \<and> node root' [SKey ''c'', SKey ''b''] = Some (JNum (NInt 7)) \<and> node root' [SKey ''a''] = None
    \<and> node root' [SKey ''1''] = Some (JArr [JNull, JBool True])"
proof -
  let ?row = "child_row sample_tree [] 1 (SKey ''a'', JObj [(''b'', JNum (NInt 7))])"
  have "row_below sample_tree [] ?row"
    unfolding row_below_def by (rule exI [of _ "[]"]) (auto simp: sample_tree_def intro!: exI [of _ "SKey ''a''"])
  then have row: "?row \<in> set (flattenJsonTree sample_tree)" using flatten_rows [OF sample_tree_json] by blast
  have name: "trim '' c '' = ''c''" by code_simp
  have parts: "tr_path ?row = [SKey ''a'']" "tr_parentPath ?row = []" "tr_key ?row = SKey ''a''" "tr_parentType ?row = Some TObject"
    by (simp_all add: child_row_def sample_tree_def)
  have free: "node sample_tree ([] @ [SKey ''c'']) = None" by (simp add: sample_tree_def)
  obtain root' where r: "tree_edit sample_tree ?row (Rename '' c '') = Some root'"
    "\<And>q. node root' (SKey ''c'' # q) = node sample_tree (SKey ''a'' # q)" "node root' [SKey ''a''] = None"
    "\<And>g q. g \<noteq> SKey ''c'' \<Longrightarrow> g \<noteq> SKey ''a'' \<Longrightarrow> node root' (g # q) = node sample_tree (g # q)"
    using rename_moves_subtree [OF sample_tree_json row parts(4), of "'' c ''"] free unfolding name parts by auto
  then show ?thesis using r(2) [of "[SKey ''b'']"] r(4) [of "SKey ''1''" "[]"] by (auto simp: sample_tree_def)
qed

text \<open>The name is trimmed before it is compared with the old one: leaving the field of a property whose name has white space
  around it renames the property, although the user typed nothing.\<close>

lemma blur_renames:
  "tree_edit (JObj [('' a'', JNull)]) (child_row (JObj [('' a'', JNull)]) [] 1 (SKey '' a'', JNull)) (Rename '' a'') = Some (JObj [(''a'', JNull)])"
  by code_simp

end
