(* ===== verification/CurlImport.thy ===== *)
theory CurlImport imports HttpRequest JsRegex ImportOpenApi begin

text \<open>
  cURL commands: the code the generator writes for a request (\<^verbatim>\<open>packages/ui/src/CodeGenerator.tsx\<close>, the two cURL forms) and
  the import of a command (\<^verbatim>\<open>packages/ui/src/curlImport.ts\<close>). Warnings are constructors, ''unnamed'' stands for the name of a
  request whose address cannot be parsed, and \<^verbatim>\<open>new URL(url).pathname\<close> is the parameter \<open>pathname_of\<close>.
\<close>

section \<open>Words of a command\<close>

definition APOSTROPHE :: char where "APOSTROPHE = CHR 0x27"

definition ESCAPED :: re where "ESCAPED = RSeq (RLit [BSLASH]) RAny"

definition DOUBLE_QUOTED :: re where
  "DOUBLE_QUOTED = RSeqs [RLit [QUOTE], RGroup 1 (RStar (RAlt ESCAPED (RNone [QUOTE, BSLASH]))), RLit [QUOTE]]"

definition SINGLE_QUOTED :: re where
  "SINGLE_QUOTED = RSeqs [RLit [APOSTROPHE], RGroup 2 (RStar (RNone [APOSTROPHE])), RLit [APOSTROPHE]]"

definition SHELL_WORD :: re where
  "SHELL_WORD = RAlt DOUBLE_QUOTED (RAlt SINGLE_QUOTED (RGroup 3 (RPlus RNonSpace)))"

definition continuation :: "char \<Rightarrow> re" where
  "continuation c = RSeqs [RLit [c], ROpt (RLit [CHR 0x0D]), RLit [NL]]"

definition joined_lines :: "char \<Rightarrow> string \<Rightarrow> string" where
  "joined_lines c s = rreplaceAll (continuation c) (\<lambda>m. '' '') s"

definition ESCAPED_MARK :: re where "ESCAPED_MARK = RSeq (RLit [BSLASH]) (RGroup 1 (ROne [QUOTE, BSLASH]))"

definition unescaped :: "string \<Rightarrow> string" where
  "unescaped s = rreplaceAll ESCAPED_MARK (\<lambda>m. or_default (m_group s m 1) []) s"

definition word_text :: "string \<Rightarrow> rmatch_result \<Rightarrow> string" where
  "word_text s m =
     (case m_group s m 1 of Some w \<Rightarrow> w | None \<Rightarrow> (case m_group s m 2 of Some w \<Rightarrow> w | None \<Rightarrow> or_default (m_group s m 3) []))"

definition shellTokens :: "string \<Rightarrow> string list" where
  "shellTokens source =
     (let normalized = joined_lines (CHR ''^'') (joined_lines BSLASH source)
      in map (\<lambda>m. unescaped (word_text normalized m)) (rmatchAll SHELL_WORD normalized))"

section \<open>Options\<close>

datatype curl_warning =
    MissingValue string | SensitiveHeader string | BadHeader string | FileReference string | BadMaxTime | Unsupported string
  | ExtraArgument string | CookieDropped | PasswordDropped | PasswordMissing | FormFields nat

datatype curl_error = NotCurl | NoUrl

record curl_state =
  cs_method :: string
  cs_url :: string
  cs_timeout :: jsnum
  cs_follow :: bool
  cs_tlsVerify :: bool
  cs_proxy :: "string option"
  cs_basicUser :: string
  cs_cookie :: string
  cs_forceGet :: bool
  cs_headers :: header_list
  cs_warnings :: "curl_warning list"
  cs_data :: "string list"
  cs_form :: "string list"

definition curl_start :: curl_state where
  "curl_start = \<lparr> cs_method = ''GET'', cs_url = [], cs_timeout = NInt 30000, cs_follow = False, cs_tlsVerify = True, cs_proxy = None,
     cs_basicUser = [], cs_cookie = [], cs_forceGet = False, cs_headers = [], cs_warnings = [], cs_data = [], cs_form = [] \<rparr>"

definition warn :: "curl_warning \<Rightarrow> curl_state \<Rightarrow> curl_state" where
  "warn w s = s\<lparr> cs_warnings := cs_warnings s @ [w] \<rparr>"

definition DATA_OPTIONS :: "string list" where
  "DATA_OPTIONS = [''-d'', ''--data'', ''--data-raw'', ''--data-binary'', ''--data-ascii'']"

definition FORM_OPTIONS :: "string list" where "FORM_OPTIONS = [''-F'', ''--form'', ''--form-string'']"

definition IGNORED_WITH_VALUE :: "string list" where
  "IGNORED_WITH_VALUE = [''-A'', ''--user-agent'', ''-e'', ''--referer'', ''--connect-timeout'', ''--retry'', ''--retry-delay'', ''--resolve'',
     ''--cert'', ''--key'', ''--cacert'', ''--interface'', ''--output'', ''-o'']"

definition QUIET_OPTIONS :: "string list" where "QUIET_OPTIONS = [''--compressed'', ''-s'', ''--silent'', ''-S'', ''--show-error'']"

text \<open>\<^verbatim>\<open>Math.round(seconds * 1000)\<close> for a finite number that is not negative.\<close>

fun milliseconds :: "jsnum \<Rightarrow> jsnum" where
  "milliseconds (NInt i) = (if i = 0 then NInt 0 else round_double False (nat i * 1000) 1)"
| "milliseconds (NFrac m k) =
     (case round_double False (nat m * 1000) (2 ^ k) of NFrac a b \<Rightarrow> NInt ((a + 2 ^ (b - 1)) div 2 ^ b) | n \<Rightarrow> n)"
| "milliseconds n = n"

fun not_negative :: "jsnum \<Rightarrow> bool" where
  "not_negative (NInt i) = (0 \<le> i)"
| "not_negative (NFrac m k) = (0 \<le> m)"
| "not_negative _ = False"

definition post_unless_get :: "curl_state \<Rightarrow> curl_state" where
  "post_unless_get s = (if cs_method s = ''GET'' \<and> \<not> cs_forceGet s then s\<lparr> cs_method := ''POST'' \<rparr> else s)"

definition header_option :: "string \<Rightarrow> curl_state \<Rightarrow> curl_state" where
  "header_option v s =
     (case indexOf v (CHR '':'') of
        Some (Suc n) \<Rightarrow>
          (let name = trim (take (Suc n) v) in
           if isSensitiveHeaderName name then warn (SensitiveHeader name) s
           else s\<lparr> cs_headers := cs_headers s @ [(name, trim (drop (Suc (Suc n)) v))] \<rparr>)
      | _ \<Rightarrow> warn (BadHeader v) s)"

definition urlencoded_part :: "string \<Rightarrow> string" where
  "urlencoded_part v =
     (case indexOf v (CHR ''='') of
        Some n \<Rightarrow> take n v @ ''='' @ encodeURIComponent (drop (Suc n) v)
      | None \<Rightarrow> encodeURIComponent v)"

text \<open>An option that takes a value, with the word after it, and one that takes none; \<open>None\<close> is a word that is not known.\<close>

definition valued_option :: "string \<Rightarrow> (string \<Rightarrow> curl_state \<Rightarrow> curl_state) option" where
  "valued_option token =
     (if token \<in> {''-X'', ''--request''} then Some (\<lambda>v s. s\<lparr> cs_method := (if v = [] then ''GET'' else toUpperCase v) \<rparr>)
      else if token = ''--url'' then Some (\<lambda>v s. s\<lparr> cs_url := v \<rparr>)
      else if token \<in> {''-H'', ''--header''} then Some header_option
      else if token \<in> set DATA_OPTIONS then
        Some (\<lambda>v s. let t = s\<lparr> cs_data := cs_data s @ [v] \<rparr>
                    in post_unless_get (if startsWith v ''@'' then warn (FileReference token) t else t))
      else if token = ''--data-urlencode'' then Some (\<lambda>v s. post_unless_get (s\<lparr> cs_data := cs_data s @ [urlencoded_part v] \<rparr>))
      else if token \<in> {''-u'', ''--user''} then Some (\<lambda>v s. s\<lparr> cs_basicUser := v \<rparr>)
      else if token \<in> {''-b'', ''--cookie''} then Some (\<lambda>v s. s\<lparr> cs_cookie := v \<rparr>)
      else if token \<in> set FORM_OPTIONS then Some (\<lambda>v s. post_unless_get (s\<lparr> cs_form := cs_form s @ [v] \<rparr>))
      else if token \<in> {''-x'', ''--proxy''} then Some (\<lambda>v s. s\<lparr> cs_proxy := (if v = [] then None else Some v) \<rparr>)
      else if token = ''--max-time'' then
        Some (\<lambda>v s. let n = string_Number v in
                    if num_finite n \<and> not_negative n then s\<lparr> cs_timeout := milliseconds n \<rparr> else warn BadMaxTime s)
      else if token \<in> set IGNORED_WITH_VALUE then
        Some (\<lambda>v. warn (Unsupported (token @ (if v = [] then [] else '' '' @ v))))
      else None)"

definition plain_word :: "string \<Rightarrow> curl_state \<Rightarrow> curl_state" where
  "plain_word token s =
     (if token \<in> {''-G'', ''--get''} then s\<lparr> cs_method := ''GET'', cs_forceGet := True \<rparr>
      else if token \<in> {''-L'', ''--location''} then s\<lparr> cs_follow := True \<rparr>
      else if token \<in> {''-k'', ''--insecure''} then s\<lparr> cs_tlsVerify := False \<rparr>
      else if token \<in> set QUIET_OPTIONS then s
      else if startsWith token ''-'' then warn (Unsupported token) s
      else if cs_url s = [] then s\<lparr> cs_url := token \<rparr>
      else warn (ExtraArgument token) s)"

text \<open>\<^verbatim>\<open>takeValue\<close>: a missing value, or one that looks like an option, is reported and used as it is.\<close>

definition takeValue :: "string \<Rightarrow> string option \<Rightarrow> curl_state \<Rightarrow> curl_state" where
  "takeValue option v s =
     (if (case v of None \<Rightarrow> True | Some w \<Rightarrow> startsWith w ''-'') then warn (MissingValue option) s else s)"

fun curl_loop :: "string list \<Rightarrow> curl_state \<Rightarrow> curl_state" where
  "curl_loop [] s = s"
| "curl_loop [token] s =
     (case valued_option token of Some f \<Rightarrow> f [] (takeValue token None s) | None \<Rightarrow> plain_word token s)"
| "curl_loop (token # v # rest) s =
     (case valued_option token of
        Some f \<Rightarrow> curl_loop rest (f v (takeValue token (Some v) s))
      | None \<Rightarrow> curl_loop (v # rest) (plain_word token s))"

section \<open>The request\<close>

definition basic_auth :: "string \<Rightarrow> AuthRef" where
  "basic_auth username = \<lparr> au_kind = ''basic'', au_secret_ref = None, au_token = None, au_username = Some username, au_header_name = None,
     au_token_url = None, au_scope = None, au_audience = None, au_authorization_url = None, au_redirect_uri = None,
     au_authorization_code_ref = None, au_code_verifier_ref = None \<rparr>"

definition with_data :: "curl_state \<Rightarrow> string \<times> string option" where
  "with_data s =
     (if cs_data s = [] then (cs_url s, None)
      else (let data = join ''&'' (cs_data s) in
            if cs_method s = ''GET'' then (cs_url s @ (if str_includes (cs_url s) ''?'' then ''&'' else ''?'') @ data, None)
            else (cs_url s, Some data)))"

definition final_warnings :: "curl_state \<Rightarrow> curl_warning list" where
  "final_warnings s = cs_warnings s
     @ (if cs_cookie s \<noteq> [] then [CookieDropped] else [])
     @ (if cs_basicUser s \<noteq> [] then [if str_includes (cs_basicUser s) '':'' then PasswordDropped else PasswordMissing] else [])
     @ (if cs_form s \<noteq> [] then [FormFields (length (cs_form s))] else [])"

text \<open>The number of milliseconds is a natural number unless \<^verbatim>\<open>--max-time\<close> asks for more than \<open>10 ^ 305\<close> seconds; the infinite number
  this gives is outside the record and written 0.\<close>

definition curl_request :: "(string \<Rightarrow> string option) \<Rightarrow> curl_state \<Rightarrow> HttpWorkbenchRequest" where
  "curl_request pathname_of s =
     (let (url, body) = with_data s in
      \<lparr> hw_id = None,
        hw_name = Some (case pathname_of url of Some p \<Rightarrow> if p = [] then ''/'' else p | None \<Rightarrow> ''unnamed''),
        hw_url = url, hw_method = cs_method s, hw_headers = cs_headers s, hw_body = body, hw_bodyEncoding = None, hw_bodySource = None,
        hw_multipart = None, hw_timeoutMs = (case cs_timeout s of NInt i \<Rightarrow> nat i | _ \<Rightarrow> 0), hw_variables = [], hw_assertions = [],
        hw_auth = (if cs_basicUser s = [] then None else Some (basic_auth (takeWhile (\<lambda>c. c \<noteq> CHR '':'') (cs_basicUser s)))),
        hw_followRedirects = cs_follow s, hw_retryMax = 0, hw_retryBackoffMs = 250, hw_proxy = cs_proxy s, hw_tlsVerify = cs_tlsVerify s,
        hw_tlsClientCertRef = None, hw_environmentRef = None, hw_preScripts = None, hw_postScripts = None, hw_metadata = None \<rparr>)"

definition curl_words :: "(string \<Rightarrow> string option) \<Rightarrow> string list \<Rightarrow> (curl_error, HttpWorkbenchRequest \<times> curl_warning list) result" where
  "curl_words pathname_of tokens =
     (if tokens = [] \<or> toLowerCase (hd tokens) \<notin> {''curl'', ''curl.exe''} then Inl NotCurl
      else (let s = curl_loop (tl tokens) curl_start in
            if cs_url s = [] then Inl NoUrl else Inr (curl_request pathname_of s, uniq (final_warnings s))))"

definition parseCurlWithWarnings :: "(string \<Rightarrow> string option) \<Rightarrow> string \<Rightarrow> (curl_error, HttpWorkbenchRequest \<times> curl_warning list) result" where
  "parseCurlWithWarnings pathname_of source = curl_words pathname_of (shellTokens (trim source))"

definition parseCurl :: "(string \<Rightarrow> string option) \<Rightarrow> string \<Rightarrow> (curl_error, HttpWorkbenchRequest) result" where
  "parseCurl pathname_of source = map_sum id fst (parseCurlWithWarnings pathname_of source)"

section \<open>Generated commands\<close>

definition normalizeGeneratedBody :: "string \<Rightarrow> header_list \<Rightarrow> string" where
  "normalizeGeneratedBody body headers =
     (let trimmed = trim body;
          contentType = (case find (\<lambda>(name, v). toLowerCase (trim name) = ''content-type'') headers of Some (_, v) \<Rightarrow> toLowerCase v | None \<Rightarrow> []);
          mayBeJson = (str_includes contentType ''json'' \<or> startsWith trimmed ''{'' \<or> startsWith trimmed ''['')
      in if trimmed = [] \<or> \<not> mayBeJson then body
         else (case JSON_parse trimmed of Some v \<Rightarrow> or_default (JSON_stringify v) [] | None \<Rightarrow> body))"

definition form_argument :: "MultipartPart \<Rightarrow> string" where
  "form_argument p =
     mp_name p @ ''='' @ (if or_default (mp_fileName p) [] \<noteq> [] then ''@'' @ or_default (mp_fileName p) [] else mp_value p)"

text \<open>The arguments of a command after its address, one line each.\<close>

definition curl_arguments :: "HttpWorkbenchRequest \<Rightarrow> (string \<times> string) list" where
  "curl_arguments r =
     (let body = normalizeGeneratedBody (or_default (hw_body r) []) (hw_headers r)
      in map (\<lambda>(name, v). (''--header'', name @ '': '' @ v)) (hw_headers r)
         @ (if body = [] then [] else [(''--data-raw'', body)])
         @ map (\<lambda>p. (''--form'', form_argument p)) (or_default (hw_multipart r) []))"

definition curl_lines :: "string \<Rightarrow> HttpWorkbenchRequest \<Rightarrow> string list" where
  "curl_lines program r =
     (program @ '' --location --request '' @ toUpperCase (hw_method r) @ '' '' @ quote (hw_url r))
     # map (\<lambda>(option, v). ''  '' @ option @ '' '' @ quote v) (curl_arguments r)"

definition curl_code :: "HttpWorkbenchRequest \<Rightarrow> string" where
  "curl_code r = join ('' '' @ [BSLASH, NL]) (curl_lines ''curl'' r)"

definition curl_windows_code :: "HttpWorkbenchRequest \<Rightarrow> string" where
  "curl_windows_code r = join ('' ^'' @ [NL]) (curl_lines ''curl.exe'' r)"

end
