(* ===== verification/CurlLaws.thy ===== *)
theory CurlLaws imports CurlImport begin

text \<open>
  What the import of cURL commands promises: the values of cookies, of sensitive headers and the password of a user reach
  neither the request nor the warnings; and the surprises: how the order of options decides the method, and which words are
  taken for the address.
\<close>

section \<open>Credentials\<close>

text \<open>A command with the secrets replaced that are words of their own: the value after \<^verbatim>\<open>-b\<close>, \<^verbatim>\<open>-u\<close>, \<^verbatim>\<open>-H\<close> or their long
  forms. The first character of a cookie tells whether it looks like an option. A value attached to its option
  (\<^verbatim>\<open>-uada:secret\<close>) is not a word of its own and stays: see \<open>attached_password_in_warning\<close> below.\<close>

definition redact_cookie :: "string \<Rightarrow> string" where
  "redact_cookie v = (if v = [] then [] else if startsWith v ''-'' then ''-'' else ''*'')"

definition redact_user :: "string \<Rightarrow> string" where
  "redact_user v = takeWhile (\<lambda>c. c \<noteq> CHR '':'') v @ (if str_includes v '':'' then '':*'' else [])"

definition redact_header :: "string \<Rightarrow> string" where
  "redact_header v =
     (case indexOf v (CHR '':'') of
        Some (Suc n) \<Rightarrow> if isSensitiveHeaderName (trim (take (Suc n) v)) then take (Suc n) v @ '':*'' else v
      | _ \<Rightarrow> v)"

definition redact_value :: "string \<Rightarrow> string \<Rightarrow> string" where
  "redact_value token v =
     (if token \<in> {''-b'', ''--cookie''} then redact_cookie v
      else if token \<in> {''-u'', ''--user''} then redact_user v
      else if token \<in> {''-H'', ''--header''} then redact_header v
      else v)"

fun redact :: "string list \<Rightarrow> string list" where
  "redact [] = []"
| "redact [token] = [token]"
| "redact (token # v # rest) =
     (if valued_option token = None then token # redact (v # rest) else token # redact_value token v # redact rest)"

lemma includes_char: "str_includes s [c] \<longleftrightarrow> c \<in> set s"
  by (induction s) (auto simp: startsWith_prefix)

lemma redact_user_simps [simp]:
  "redact_user v = [] \<longleftrightarrow> v = []"
  "str_includes (redact_user v) '':'' = str_includes v '':''"
  "takeWhile (\<lambda>c. c \<noteq> CHR '':'') (redact_user v) = takeWhile (\<lambda>c. c \<noteq> CHR '':'') v"
  "startsWith (redact_user v) ''-'' = startsWith v ''-''"
  "redact_user (redact_user v) = redact_user v"
  by (cases v; auto simp: redact_user_def includes_char takeWhile_append dest: set_takeWhileD)+

lemma redact_cookie_simps [simp]:
  "redact_cookie v = [] \<longleftrightarrow> v = []" "startsWith (redact_cookie v) ''-'' = startsWith v ''-''" "redact_cookie (redact_cookie v) = redact_cookie v"
  by (cases v; simp add: redact_cookie_def)+

lemma indexOf_take: "indexOf v c = Some n \<Longrightarrow> indexOf (take n v @ c # w) c = Some n"
  by (induction v c arbitrary: n rule: indexOf.induct) (auto split: if_splits)

lemma indexOf_length: "indexOf v c = Some n \<Longrightarrow> n < length v"
  by (induction v c arbitrary: n rule: indexOf.induct) (auto split: if_splits)

lemma redact_header_option: "header_option (redact_header v) s = header_option v s"
proof (cases "indexOf v (CHR '':'')")
  case (Some m)
  then show ?thesis
    using indexOf_take [OF Some, of "''*''"] indexOf_length [OF Some]
    by (cases m) (auto simp: redact_header_def header_option_def min_def)
qed (simp add: redact_header_def)

lemma redact_header_dash: "startsWith (redact_header v) ''-'' = startsWith v ''-''"
  by (cases v) (auto simp: redact_header_def split: option.split nat.split)

lemma redact_value_dash: "startsWith (redact_value token v) ''-'' = startsWith v ''-''"
  by (simp add: redact_value_def redact_header_dash)

text \<open>What holds of every option that takes a value, whichever it is.\<close>

definition of_option :: "('a \<Rightarrow> bool) \<Rightarrow> 'a option \<Rightarrow> bool" where
  "of_option P x \<longleftrightarrow> (case x of None \<Rightarrow> True | Some f \<Rightarrow> P f)"

lemma of_option_if: "(c \<Longrightarrow> P f) \<Longrightarrow> of_option P y \<Longrightarrow> of_option P (if c then Some f else y)"
  by (simp add: of_option_def)

lemma valued_option_all:
  assumes "\<And>g. P (\<lambda>v s. s\<lparr> cs_method := g v \<rparr>)" "P (\<lambda>v s. s\<lparr> cs_url := v \<rparr>)" "P header_option"
    and "\<And>Q w. P (\<lambda>v s. let t = s\<lparr> cs_data := cs_data s @ [v] \<rparr> in post_unless_get (if Q v then warn w t else t))"
    and "\<And>g. P (\<lambda>v s. post_unless_get (s\<lparr> cs_data := cs_data s @ [g v] \<rparr>))"
    and "token \<in> {''-u'', ''--user''} \<Longrightarrow> P (\<lambda>v s. s\<lparr> cs_basicUser := v \<rparr>)"
    and "token \<in> {''-b'', ''--cookie''} \<Longrightarrow> P (\<lambda>v s. s\<lparr> cs_cookie := v \<rparr>)"
    and "P (\<lambda>v s. post_unless_get (s\<lparr> cs_form := cs_form s @ [v] \<rparr>))" "\<And>g. P (\<lambda>v s. s\<lparr> cs_proxy := g v \<rparr>)"
    and "\<And>Q g w. P (\<lambda>v s. if Q v then s\<lparr> cs_timeout := g v \<rparr> else warn w s)" "\<And>g. P (\<lambda>v. warn (g v))"
  shows "of_option P (valued_option token)"
  unfolding valued_option_def Let_def [of "string_Number _"]
  by (rule of_option_if, (erule assms(6,7) | rule assms(1-5) assms(8-11)))+ (simp add: of_option_def)

definition masked :: "curl_state \<Rightarrow> curl_state" where
  "masked s = s\<lparr> cs_basicUser := redact_user (cs_basicUser s), cs_cookie := redact_cookie (cs_cookie s) \<rparr>"


lemma masked_eq:
  "masked s = masked t \<longleftrightarrow> redact_user (cs_basicUser s) = redact_user (cs_basicUser t) \<and> redact_cookie (cs_cookie s) = redact_cookie (cs_cookie t)
     \<and> cs_method s = cs_method t \<and> cs_url s = cs_url t \<and> cs_timeout s = cs_timeout t \<and> cs_follow s = cs_follow t
     \<and> cs_tlsVerify s = cs_tlsVerify t \<and> cs_proxy s = cs_proxy t \<and> cs_forceGet s = cs_forceGet t \<and> cs_headers s = cs_headers t
     \<and> cs_warnings s = cs_warnings t \<and> cs_data s = cs_data t \<and> cs_form s = cs_form t"
  by (cases s; cases t) (auto simp: masked_def)

lemma masked_header: "masked s = masked t \<Longrightarrow> masked (header_option v s) = masked (header_option v t)"
  by (auto simp: masked_eq header_option_def warn_def Let_def split: option.split nat.split)

definition blind :: "(string \<Rightarrow> curl_state \<Rightarrow> curl_state) \<Rightarrow> bool" where
  "blind f \<longleftrightarrow> (\<forall>v s t. masked s = masked t \<longrightarrow> masked (f v s) = masked (f v t))"

lemma blindD: "blind f \<Longrightarrow> masked s = masked t \<Longrightarrow> masked (f v s) = masked (f v t)"
  unfolding blind_def by blast

lemma blind_method: "blind (\<lambda>v s. s\<lparr> cs_method := g v \<rparr>)" by (simp add: blind_def masked_eq)
lemma blind_url: "blind (\<lambda>v s. s\<lparr> cs_url := v \<rparr>)" by (simp add: blind_def masked_eq)
lemma blind_proxy: "blind (\<lambda>v s. s\<lparr> cs_proxy := g v \<rparr>)" by (simp add: blind_def masked_eq)
lemma blind_header: "blind header_option" unfolding blind_def using masked_header by blast
lemma blind_warn: "blind (\<lambda>v. warn (g v))" by (simp add: blind_def masked_eq warn_def)
lemma blind_time: "blind (\<lambda>v s. if P v then s\<lparr> cs_timeout := g v \<rparr> else warn w s)" by (simp add: blind_def masked_eq warn_def)

lemma masked_post: "masked s = masked t \<Longrightarrow> masked (post_unless_get s) = masked (post_unless_get t)"
  by (auto simp: post_unless_get_def masked_eq)

lemma blind_form: "blind (\<lambda>v s. post_unless_get (s\<lparr> cs_form := cs_form s @ [v] \<rparr>))"
  unfolding blind_def by (intro allI impI masked_post) (simp add: masked_eq)
lemma blind_encoded: "blind (\<lambda>v s. post_unless_get (s\<lparr> cs_data := cs_data s @ [g v] \<rparr>))"
  unfolding blind_def by (intro allI impI masked_post) (simp add: masked_eq)
lemma blind_data: "blind (\<lambda>v s. let t = s\<lparr> cs_data := cs_data s @ [v] \<rparr> in post_unless_get (if P v then warn w t else t))"
  unfolding blind_def Let_def by (intro allI impI masked_post) (simp add: masked_eq warn_def)

definition secret_options :: "string set" where
  "secret_options = {''-b'', ''--cookie'', ''-u'', ''--user'', ''-H'', ''--header''}"

lemma valued_blind: "of_option (\<lambda>f. token \<in> secret_options \<or> blind f) (valued_option token)"
  by (rule valued_option_all)
    (simp_all only: blind_method blind_url blind_header blind_data blind_encoded blind_form blind_proxy blind_time blind_warn simp_thms,
     auto simp: secret_options_def)

lemma masked_secret:
  assumes "valued_option token = Some f" "token \<in> secret_options" "masked s = masked t"
  shows "masked (f v s) = masked (f (redact_value token v) t)"
proof -
  consider "token \<in> {''-b'', ''--cookie''}" | "token \<in> {''-u'', ''--user''}" | "token \<in> {''-H'', ''--header''}"
    using assms(2) by (auto simp: secret_options_def)
  then show ?thesis
  proof cases
    case 1
    then have "f = (\<lambda>v s. s\<lparr> cs_cookie := v \<rparr>)" "redact_value token v = redact_cookie v"
      using assms(1) by (auto simp: valued_option_def redact_value_def DATA_OPTIONS_def)
    then show ?thesis using assms(3) by (simp add: masked_eq)
  next
    case 2
    then have "f = (\<lambda>v s. s\<lparr> cs_basicUser := v \<rparr>)" "redact_value token v = redact_user v"
      using assms(1) by (auto simp: valued_option_def redact_value_def DATA_OPTIONS_def)
    then show ?thesis using assms(3) by (simp add: masked_eq)
  next
    case 3
    then have "f = header_option" "redact_value token v = redact_header v" using assms(1) by (auto simp: valued_option_def redact_value_def)
    then show ?thesis using masked_header [OF assms(3)] redact_header_option by simp
  qed
qed

lemma masked_option:
  assumes "valued_option token = Some f" "masked s = masked t"
  shows "masked (f v s) = masked (f (redact_value token v) t)"
proof (cases "token \<in> secret_options")
  case False
  then have "redact_value token v = v" by (simp add: redact_value_def secret_options_def)
  moreover have "blind f" using valued_blind [of token] False assms(1) by (simp add: of_option_def)
  ultimately show ?thesis using blindD [OF _ assms(2), of f v] by (simp only: mp) 
qed (rule masked_secret [OF assms(1) _ assms(2)])

lemma masked_plain:
  assumes "masked s = masked t"
  shows "masked (plain_word token s) = masked (plain_word token t)"
proof -
  have u: "cs_url s = cs_url t" using assms by (simp add: masked_eq)
  show ?thesis unfolding plain_word_def if_distrib [of masked] u
    by (intro if_cong refl) (use assms in \<open>simp_all add: masked_eq warn_def\<close>)
qed

lemma masked_take: "masked s = masked t \<Longrightarrow> masked (takeValue token v s) = masked (takeValue token (map_option (redact_value token) v) t)"
  by (auto simp: masked_eq takeValue_def warn_def redact_value_dash split: option.split)

lemma redact_head: "\<exists>r. redact (v # rest) = v # r"
  by (cases rest) auto

lemma masked_loop: "masked s = masked t \<Longrightarrow> masked (curl_loop tokens s) = masked (curl_loop (redact tokens) t)"
proof (induction tokens s arbitrary: t rule: curl_loop.induct)
  case (2 token s)
  show ?case
  proof (cases "valued_option token")
    case None
    show ?thesis unfolding curl_loop.simps redact.simps None option.case by (rule masked_plain [OF "2"])
  next
    case (Some f)
    have "redact_value token [] = []" by (simp add: redact_value_def redact_cookie_def redact_user_def redact_header_def)
    then show ?thesis using masked_option [OF Some masked_take [OF "2", of token None], of "[]"]
      unfolding curl_loop.simps redact.simps Some option.case option.map by (simp only:)
  qed
next
  case (3 token v rest s)
  show ?case
  proof (cases "valued_option token")
    case None
    obtain r where r: "redact (v # rest) = v # r" using redact_head by blast
    show ?thesis using "3.IH"(1) [OF None masked_plain [OF "3.prems", of token]]
      unfolding curl_loop.simps redact.simps None option.case r if_True simp_thms by (simp only: r)
  next
    case (Some f)
    have "masked (f v (takeValue token (Some v) s)) = masked (f (redact_value token v) (takeValue token (Some (redact_value token v)) t))"
      using masked_option [OF Some masked_take [OF "3.prems", of token "Some v"]] unfolding option.map .
    from "3.IH"(2) [OF Some this] show ?thesis by (simp only: curl_loop.simps redact.simps Some option.case option.distinct if_False)
  qed
qed simp


lemma masked_result:
  assumes "masked s = masked t"
  shows "curl_request pathname_of s = curl_request pathname_of t \<and> final_warnings s = final_warnings t \<and> cs_url s = cs_url t"
proof -
  have user: "cs_basicUser s = [] \<longleftrightarrow> cs_basicUser t = []" "str_includes (cs_basicUser s) '':'' = str_includes (cs_basicUser t) '':''"
    "takeWhile (\<lambda>c. c \<noteq> CHR '':'') (cs_basicUser s) = takeWhile (\<lambda>c. c \<noteq> CHR '':'') (cs_basicUser t)"
    using assms unfolding masked_eq by (metis redact_user_simps(1-3))+
  have "cs_cookie s = [] \<longleftrightarrow> cs_cookie t = []" using assms unfolding masked_eq by (metis redact_cookie_simps(1))
  moreover have "with_data s = with_data t" using assms unfolding masked_eq with_data_def Let_def by simp
  ultimately show ?thesis using user assms unfolding masked_eq by (simp add: curl_request_def final_warnings_def)
qed

definition public_headers :: "curl_state \<Rightarrow> bool" where
  "public_headers s \<longleftrightarrow> list_all (\<lambda>(name, _). \<not> isSensitiveHeaderName name) (cs_headers s)"

lemma public_header_option: "public_headers s \<Longrightarrow> public_headers (header_option v s)"
  by (auto simp: public_headers_def header_option_def warn_def Let_def split: option.split nat.split)

lemma public_valued: "of_option (\<lambda>f. \<forall>v s. public_headers s \<longrightarrow> public_headers (f v s)) (valued_option token)"
  by (rule valued_option_all) (simp_all add: public_header_option, simp_all add: public_headers_def post_unless_get_def warn_def Let_def)

lemma public_loop: "public_headers s \<Longrightarrow> public_headers (curl_loop tokens s)"
proof (induction tokens s rule: curl_loop.induct)
  case (2 token s)
  then have "public_headers (takeValue token None s)" "public_headers (plain_word token s)"
    by (simp_all add: public_headers_def takeValue_def plain_word_def warn_def)
  then show ?case using public_valued [of token] by (cases "valued_option token") (simp_all add: of_option_def)
next
  case (3 token v rest s)
  then have "public_headers (takeValue token (Some v) s)" "public_headers (plain_word token s)"
    by (simp_all add: public_headers_def takeValue_def plain_word_def warn_def)
  then show ?case using public_valued [of token] 3 by (cases "valued_option token") (simp_all add: of_option_def)
qed simp

text \<open>C18: no secret that is the word after \<^verbatim>\<open>-b\<close>, \<^verbatim>\<open>-u\<close> or \<^verbatim>\<open>-H\<close> (or a long form of them) is imported: replacing such cookies,
  values of sensitive headers and passwords in a cURL command changes neither the request nor the warnings. What is imported,
  from these words and all others, has nothing left for the workbench to remove before it stores a request.\<close>

theorem secrets_not_imported:
  "curl_words pathname_of (program # redact tokens) = curl_words pathname_of (program # tokens)
   \<and> (case curl_words pathname_of (program # tokens) of Inl e \<Rightarrow> True | Inr (q, ws) \<Rightarrow> sanitizeHttpRequestForPersistence q = q)"
proof
  have "masked (curl_loop (redact tokens) curl_start) = masked (curl_loop tokens curl_start)"
    using masked_loop [of curl_start curl_start tokens] by (rule sym) simp
  from masked_result [OF this] show "curl_words pathname_of (program # redact tokens) = curl_words pathname_of (program # tokens)"
    by (simp add: curl_words_def Let_def)
  have "public_headers (curl_loop tokens curl_start)" by (rule public_loop) (simp add: public_headers_def curl_start_def)
  then have "sanitizeHttpRequestForPersistence (curl_request pathname_of (curl_loop tokens curl_start)) = curl_request pathname_of (curl_loop tokens curl_start)"
    by (auto simp: sanitizeHttpRequestForPersistence_def curl_request_def public_headers_def basic_auth_def list_all_iff
        filter_id_conv split_beta split: prod.splits intro!: HttpWorkbenchRequest.equality)
  then show "case curl_words pathname_of (program # tokens) of Inl e \<Rightarrow> True | Inr (q, ws) \<Rightarrow> sanitizeHttpRequestForPersistence q = q"
    by (simp add: curl_words_def Let_def)
qed

section \<open>Surprises\<close>

text \<open>The method of a command with data depends on the order of the options: an explicit GET before the data becomes POST.\<close>

lemma is_curl: "toLowerCase ''curl'' = ''curl''"
  by code_simp

lemmas curl_eval = curl_words_def is_curl valued_option_def plain_word_def takeValue_def post_unless_get_def warn_def Let_def DATA_OPTIONS_def
  FORM_OPTIONS_def IGNORED_WITH_VALUE_def QUIET_OPTIONS_def curl_start_def curl_request_def with_data_def final_warnings_def uniq_def

lemma explicit_get_becomes_post:
  "map_sum id (\<lambda>(q, ws). (hw_method q, hw_url q, hw_body q)) (curl_words (\<lambda>_. None) [''curl'', ''-X'', ''GET'', ''-d'', ''q'', ''u'']) = Inr (''POST'', ''u'', Some ''q'')"
  "map_sum id (\<lambda>(q, ws). (hw_method q, hw_url q, hw_body q)) (curl_words (\<lambda>_. None) [''curl'', ''-d'', ''q'', ''-X'', ''GET'', ''u'']) = Inr (''GET'', ''u?q'', None)"
proof -
  have "toUpperCase ''GET'' = ''GET''" by code_simp
  then show "map_sum id (\<lambda>(q, ws). (hw_method q, hw_url q, hw_body q)) (curl_words (\<lambda>_. None) [''curl'', ''-X'', ''GET'', ''-d'', ''q'', ''u'']) = Inr (''POST'', ''u'', Some ''q'')"
    "map_sum id (\<lambda>(q, ws). (hw_method q, hw_url q, hw_body q)) (curl_words (\<lambda>_. None) [''curl'', ''-d'', ''q'', ''-X'', ''GET'', ''u'']) = Inr (''GET'', ''u?q'', None)"
    by (simp_all add: curl_eval)
qed

text \<open>The value of an option that is not known is taken for the address.\<close>

lemma unknown_value_is_address:
  "map_sum id (\<lambda>(q, ws). (hw_url q, ws)) (curl_words (\<lambda>_. None) [''curl'', ''-m'', ''5'', ''https://a''])
     = Inr (''5'', [Unsupported ''-m'', ExtraArgument ''https://a''])"
  by (simp add: curl_eval)

text \<open>A password attached to its option is copied into a warning.\<close>

lemma attached_password_in_warning:
  "map_sum id (\<lambda>(q, ws). (hw_auth q, ws)) (curl_words (\<lambda>_. None) [''curl'', ''-uada:secret'', ''https://a''])
     = Inr (None, [Unsupported ''-uada:secret''])"
  by (simp add: curl_eval basic_auth_def)

text \<open>A missing value of \<^verbatim>\<open>--max-time\<close> sets the time limit to 0.\<close>

lemma missing_time_is_zero:
  "map_sum id (\<lambda>(q, ws). (hw_timeoutMs q, ws)) (curl_words (\<lambda>_. None) [''curl'', ''u'', ''--max-time'']) = Inr (0, [MissingValue ''--max-time''])"
proof -
  have "string_Number [] = NInt 0" by code_simp
  then show ?thesis by (simp add: curl_eval)
qed

text \<open>Inside single quotes the shell keeps a backslash; the import drops it before a quote, which breaks JSON.\<close>

lemma single_quoted_backslash_lost:
  "shellTokens ([APOSTROPHE, CHR ''a'', BSLASH, QUOTE, CHR ''b'', APOSTROPHE]) = [[CHR ''a'', QUOTE, CHR ''b'']]"
  by code_simp

end
