(* ===== verification/RegexScan.thy ===== *)
theory RegexScan imports RegexLaws begin

text \<open>
  Scanning a text with a global expression that never matches the empty text: the matches found from a position, one step at a
  time, and the text that a global replacement leaves.
\<close>

definition consuming :: "re \<Rightarrow> bool" where
  "consuming r \<longleftrightarrow> (\<forall>s st st'. st' \<in> set (rmatch r s st) \<longrightarrow> fst st < fst st')"

definition all_at :: "re \<Rightarrow> string \<Rightarrow> nat \<Rightarrow> rmatch_result list" where
  "all_at r s i = rall_from (Suc (length s - i)) r s i"

definition replace_at :: "re \<Rightarrow> (rmatch_result \<Rightarrow> string) \<Rightarrow> string \<Rightarrow> nat \<Rightarrow> string" where
  "replace_at r f s i = splice s i f (all_at r s i)"

lemma rexec_from_match: "rexec_from n r s i = Some m \<Longrightarrow> (m_end m, m_caps m) \<in> set (rmatch r s (m_start m, []))"
  by (induction n arbitrary: i) (auto split: list.splits)

lemma rexec_consuming: "consuming r \<Longrightarrow> rexec r s i = Some m \<Longrightarrow> m_start m < m_end m"
  using rexec_from_match unfolding consuming_def rexec_def by fastforce

lemma rexec_skip: "rmatch r s (i, []) = [] \<Longrightarrow> i \<le> length s \<Longrightarrow> rexec r s i = rexec r s (Suc i)"
  by (simp add: rexec_def Suc_diff_le)

lemma rexec_here: "rmatch r s (i, []) = (e, cs) # rest \<Longrightarrow> i \<le> length s \<Longrightarrow> rexec r s i = Some \<lparr> m_start = i, m_end = e, m_caps = cs \<rparr>"
  by (simp add: rexec_def Suc_diff_le)

lemma rall_fuel:
  "consuming r \<Longrightarrow> length s - i < n \<Longrightarrow> length s - i < m \<Longrightarrow> rall_from n r s i = rall_from m r s i"
proof (induction n arbitrary: i m)
  case (Suc n)
  then obtain m' where m: "m = Suc m'" by (cases m) auto
  show ?case
  proof (cases "rexec r s i")
    case (Some x)
    have "i \<le> m_start x" "m_start x < m_end x" "m_end x \<le> length s"
      using rexec_bounds [OF Some] rexec_consuming [OF Suc.prems(1) Some] by simp_all
    then have "rall_from n r s (m_end x) = rall_from m' r s (m_end x)" by (intro Suc.IH) (use Suc.prems m in auto)
    then show ?thesis using Some m \<open>i \<le> m_start x\<close> \<open>m_start x < m_end x\<close> by simp
  qed (simp add: m)
qed simp

lemma rmatchAll_at: "consuming r \<Longrightarrow> rmatchAll r s = all_at r s 0"
  unfolding rmatchAll_def all_at_def by (rule rall_fuel) simp_all

lemma rreplaceAll_at: "consuming r \<Longrightarrow> rreplaceAll r f s = replace_at r f s 0"
  by (simp add: rreplaceAll_def replace_at_def rmatchAll_at)

lemma all_at_skip:
  assumes "consuming r" "rmatch r s (i, []) = []" "i < length s"
  shows "all_at r s i = all_at r s (Suc i)"
proof -
  have x: "rexec r s i = rexec r s (Suc i)" using rexec_skip assms(2,3) by simp
  have "rall_from (Suc (length s - i)) r s i = rall_from (Suc (length s - i)) r s (Suc i)"
  proof (cases "rexec r s (Suc i)")
    case (Some m)
    have "Suc i \<le> m_start m" "m_start m < m_end m" using rexec_bounds [OF Some] rexec_consuming [OF assms(1) Some] by simp_all
    then show ?thesis using Some x by simp
  qed (simp add: x)
  also have "\<dots> = rall_from (Suc (length s - Suc i)) r s (Suc i)" by (rule rall_fuel [OF assms(1)]) (use assms(3) in auto)
  finally show ?thesis by (simp add: all_at_def)
qed

lemma all_at_match:
  assumes "consuming r" "rmatch r s (i, []) = (e, cs) # rest" "i \<le> length s"
  shows "all_at r s i = \<lparr> m_start = i, m_end = e, m_caps = cs \<rparr> # all_at r s e"
proof -
  have e: "i < e" using assms(1,2) unfolding consuming_def by (metis fst_conv list.set_intros(1))
  have "rall_from (length s - i) r s e = rall_from (Suc (length s - e)) r s e"
  proof (rule rall_fuel [OF assms(1)])
    have "e \<le> length s" using rexec_bounds [OF rexec_here [OF assms(2,3)]] by simp
    then show "length s - e < length s - i" using e by simp
  qed simp
  then show ?thesis using e by (simp add: all_at_def rexec_here [OF assms(2,3)])
qed

lemma all_at_end: "consuming r \<Longrightarrow> all_at r s (length s) = []"
proof (cases "rexec r s (length s)")
  case (Some m)
  assume "consuming r"
  then show ?thesis using rexec_bounds [OF Some] rexec_consuming [OF _ Some] by simp
qed (simp add: all_at_def)

lemma all_at_start: "all_at r s i = m # ms \<Longrightarrow> i \<le> m_start m \<and> m_start m \<le> length s"
  using rexec_bounds by (fastforce simp: all_at_def split: option.splits)

lemma replace_at_skip:
  assumes "consuming r" "rmatch r s (i, []) = []" "i < length s"
  shows "replace_at r f s i = s ! i # replace_at r f s (Suc i)"
proof (cases "all_at r s (Suc i)")
  case Nil
  then show ?thesis using all_at_skip [OF assms] assms(3) by (simp add: replace_at_def Cons_nth_drop_Suc)
next
  case (Cons m ms)
  have "slice i (m_start m) s = s ! i # slice (Suc i) (m_start m) s"
  proof -
    obtain k where k: "m_start m = Suc i + k" using all_at_start [OF Cons] le_Suc_ex by blast
    show ?thesis using Cons_nth_drop_Suc [OF assms(3)] by (simp add: slice_def k) (metis take_Suc_Cons)
  qed
  then show ?thesis using all_at_skip [OF assms] Cons by (simp add: replace_at_def)
qed

lemma replace_at_match:
  assumes "consuming r" "rmatch r s (i, []) = (e, cs) # rest" "i \<le> length s"
  shows "replace_at r f s i = f \<lparr> m_start = i, m_end = e, m_caps = cs \<rparr> @ replace_at r f s e"
  by (simp add: replace_at_def all_at_match [OF assms] slice_def)

lemma replace_at_end: "consuming r \<Longrightarrow> replace_at r f s (length s) = []"
  by (simp add: replace_at_def all_at_end)

text \<open>A stretch of the text where no match begins.\<close>

lemma all_at_stretch:
  assumes "consuming r" "\<And>j. j < length w \<Longrightarrow> rmatch r (u @ w @ v) (length u + j, []) = []"
  shows "all_at r (u @ w @ v) (length u) = all_at r (u @ w @ v) (length u + length w)"
  using assms(2)
proof (induction w arbitrary: u)
  case (Cons c w)
  have "all_at r (u @ (c # w) @ v) (length u) = all_at r (u @ (c # w) @ v) (Suc (length u))"
    by (rule all_at_skip [OF assms(1)]) (use Cons.prems [of 0] in simp_all)
  also have "\<dots> = all_at r (u @ (c # w) @ v) (length u + length (c # w))"
    using Cons.IH [of "u @ [c]"] Cons.prems [of "Suc _"] by simp
  finally show ?case .
qed simp

lemma replace_at_stretch:
  assumes "consuming r" "\<And>j. j < length w \<Longrightarrow> rmatch r (u @ w @ v) (length u + j, []) = []"
  shows "replace_at r f (u @ w @ v) (length u) = w @ replace_at r f (u @ w @ v) (length u + length w)"
  using assms(2)
proof (induction w arbitrary: u)
  case (Cons c w)
  have "replace_at r f (u @ (c # w) @ v) (length u) = c # replace_at r f (u @ (c # w) @ v) (Suc (length u))"
    using replace_at_skip [OF assms(1), of "u @ (c # w) @ v" "length u"] Cons.prems [of 0] by (simp add: nth_append)
  also have "replace_at r f (u @ (c # w) @ v) (Suc (length u)) = w @ replace_at r f (u @ (c # w) @ v) (length u + length (c # w))"
    using Cons.IH [of "u @ [c]"] Cons.prems [of "Suc _"] by simp
  finally show ?case by simp
qed simp


section \<open>Which expressions consume\<close>

lemma rmatch_mono: "st' \<in> set (rmatch r s st) \<Longrightarrow> fst st \<le> fst st'"
proof (induction r s st arbitrary: st' rule: rmatch.induct)
  case (3 a b s st)
  then obtain x where "x \<in> set (rmatch a s st)" "st' \<in> set (rmatch b s x)" by auto
  then show ?case using "3.IH" le_trans by blast
next
  case (5 a s st)
  then consider "st' = st" | x where "x \<in> set (rmatch a s st)" "fst st < fst x \<and> fst x \<le> length s" "st' \<in> set (rmatch (RStar a) s x)"
    unfolding rmatch.simps(5) [of a s st] by (auto split: if_splits)
  then show ?case using "5.IH"(2) le_trans [OF less_imp_le] by cases blast+
next
  case (6 a s st)
  then consider "st' = st" | x where "x \<in> set (rmatch a s st)" "fst st < fst x \<and> fst x \<le> length s" "st' \<in> set (rmatch (RStarLazy a) s x)"
    unfolding rmatch.simps(6) [of a s st] by (auto split: if_splits)
  then show ?case using "6.IH"(2) le_trans [OF less_imp_le] by cases blast+
qed (auto split: if_splits)

lemma consuming_RSet: "consuming (RSet p)"
  by (auto simp: consuming_def)

lemma consuming_RSeq: "consuming a \<Longrightarrow> consuming (RSeq a b)"
  unfolding consuming_def using rmatch_mono by fastforce

lemma consuming_RAlt: "consuming a \<Longrightarrow> consuming b \<Longrightarrow> consuming (RAlt a b)"
  unfolding consuming_def by simp blast

lemma consuming_RGroup: "consuming a \<Longrightarrow> consuming (RGroup n a)"
  unfolding consuming_def by fastforce

lemmas consuming_intros = consuming_RSet consuming_RSeq consuming_RAlt consuming_RGroup

end
