(* ===== verification/CurlRoundtrip.thy ===== *)
theory CurlRoundtrip imports CurlLaws RegexScan begin

text \<open>
  The cURL command generated for a request, imported again: the scanner of the importer finds the words the generator quoted,
  on every line, and the options give back the method, the address, the headers and the body.
\<close>

section \<open>Escapes\<close>

definition printable :: "string \<Rightarrow> bool" where
  "printable v \<longleftrightarrow> list_all (\<lambda>c. 32 \<le> code c) v"

definition mark :: "char \<Rightarrow> string" where
  "mark c = (if c = QUOTE \<or> c = BSLASH then [BSLASH, c] else [c])"

definition marked :: "string \<Rightarrow> string" where
  "marked v = concat (map mark v)"

lemma marked_simps [simp]: "marked [] = []" "marked (c # v) = mark c @ marked v"
  by (simp_all add: marked_def)

lemma QUOTE_code [simp]: "code QUOTE = 34" "code BSLASH = 92" "code APOSTROPHE = 39" "code NL = 10"
  by (simp_all add: QUOTE_def BSLASH_def APOSTROPHE_def NL_def code_def)

lemma char_differs [simp]: "QUOTE \<noteq> BSLASH" "BSLASH \<noteq> QUOTE" "QUOTE \<noteq> APOSTROPHE" "APOSTROPHE \<noteq> QUOTE"
  by (simp_all add: QUOTE_def BSLASH_def APOSTROPHE_def)

lemma quote_marked: "printable v \<Longrightarrow> quote v = QUOTE # marked v @ [QUOTE]"
proof -
  assume "printable v"
  then have "map escape_char v = map mark v" by (induction v) (auto simp: printable_def escape_char_def mark_def code_def)
  then show ?thesis unfolding quote_def marked_def by metis
qed

lemma consuming_mark: "consuming ESCAPED_MARK"
  unfolding ESCAPED_MARK_def by (simp add: consuming_intros)

lemma unescape_marked:
  "s = u @ marked w \<Longrightarrow> replace_at ESCAPED_MARK (\<lambda>m. or_default (m_group s m 1) []) s (length u) = w"
proof (induction w arbitrary: u)
  case Nil
  then show ?case using replace_at_end [OF consuming_mark, of _ s] by simp
next
  case (Cons c w)
  show ?case
  proof (cases "c = QUOTE \<or> c = BSLASH")
    case True
    then have s: "s = u @ BSLASH # c # marked w" using Cons.prems by (simp add: mark_def)
    have m: "rmatch ESCAPED_MARK s (length u, []) = (Suc (Suc (length u)), [(1, (Suc (length u), Suc (Suc (length u))))]) # []"
      using True by (simp add: ESCAPED_MARK_def ROne_def s nth_append)
    have "slice (Suc (length u)) (Suc (Suc (length u))) s = [c]" by (simp add: slice_def s)
    then show ?thesis using replace_at_match [OF consuming_mark m] Cons.IH [of "u @ [BSLASH, c]"] s by (simp add: m_group_def)
  next
    case False
    then have s: "s = u @ c # marked w" using Cons.prems by (simp add: mark_def)
    have "rmatch ESCAPED_MARK s (length u, []) = []" using False by (simp add: ESCAPED_MARK_def s)
    then show ?thesis using replace_at_skip [OF consuming_mark, of s "length u"] Cons.IH [of "u @ [c]"] s by simp
  qed
qed

lemma unescaped_marked: "unescaped (marked w) = w"
  using unescape_marked [of "marked w" "[]" w] by (simp add: unescaped_def rreplaceAll_at [OF consuming_mark])

lemma unescaped_plain: "BSLASH \<notin> set w \<Longrightarrow> unescaped w = w"
proof -
  assume w: "BSLASH \<notin> set w"
  have "rmatch ESCAPED_MARK w (i, []) = []" if "i < length w" for i
    using that w by (auto simp: ESCAPED_MARK_def in_set_conv_nth)
  then show ?thesis
    using replace_at_stretch [OF consuming_mark, of w "[]" "[]"] replace_at_end [OF consuming_mark, of _ w]
    by (simp add: unescaped_def rreplaceAll_at [OF consuming_mark])
qed

section \<open>Lines\<close>

lemma consuming_continuation: "consuming (continuation c)"
  by (simp add: continuation_def consuming_intros)

lemma continuation_at:
  "rmatch (continuation c) s (i, cs) \<noteq> [] \<Longrightarrow> Suc i < length s \<and> s ! i = c \<and> is_nl (s ! Suc i)"
  by (auto simp: continuation_def ROpt_def is_nl_def NL_def split: if_splits)

definition no_breaks :: "string \<Rightarrow> bool" where
  "no_breaks s \<longleftrightarrow> list_all (\<lambda>c. \<not> is_nl c) s"

lemma join_line_stretch:
  assumes "no_breaks l" "f = (\<lambda>m. '' '')" "v = [] \<or> \<not> is_nl (hd v)"
  shows "replace_at (continuation c) f (u @ l @ v) (length u) = l @ replace_at (continuation c) f (u @ l @ v) (length u + length l)"
proof (rule replace_at_stretch [OF consuming_continuation])
  fix j
  assume j: "j < length l"
  show "rmatch (continuation c) (u @ l @ v) (length u + j, []) = []"
  proof (rule ccontr)
    assume "rmatch (continuation c) (u @ l @ v) (length u + j, []) \<noteq> []"
    then have n: "is_nl ((u @ l @ v) ! Suc (length u + j))" "Suc (length u + j) < length (u @ l @ v)" using continuation_at by blast+
    show False
    proof (cases "Suc j < length l")
      case True
      then show False using n(1) assms(1) by (simp add: no_breaks_def list_all_length nth_append)
    next
      case False
      then have "Suc j = length l" "v \<noteq> []" using j n(2) by auto
      then show False using n(1) assms(3) by (simp add: nth_append hd_conv_nth)
    qed
  qed
qed

lemma joined_lines_at:
  assumes "c \<noteq> CHR '' ''" "\<not> is_nl c"
  shows "ls \<noteq> [] \<Longrightarrow> list_all no_breaks ls \<Longrightarrow> s = u @ join ('' '' @ [c, NL]) ls \<Longrightarrow>
    replace_at (continuation c) (\<lambda>m. '' '') s (length u) = join ''  '' ls"
proof (induction ls arbitrary: u rule: list_nonempty_induct)
  case (single l)
  then show ?case using join_line_stretch [of l "\<lambda>m. '' ''" "[]" c u]
    replace_at_end [OF consuming_continuation, of c "\<lambda>m. '' ''" "u @ l"] by simp
next
  case (cons l ls)
  define rest where "rest = join ('' '' @ [c, NL]) ls"
  have s: "s = u @ (l @ '' '') @ (c # NL # rest)" using cons.prems cons.hyps by (cases ls) (simp_all add: rest_def)
  have "no_breaks (l @ '' '')" using cons.prems by (simp add: no_breaks_def is_nl_def)
  then have head: "replace_at (continuation c) (\<lambda>m. '' '') s (length u) =
      l @ '' '' @ replace_at (continuation c) (\<lambda>m. '' '') s (length (u @ l @ '' ''))"
    using join_line_stretch [of "l @ '' ''" "\<lambda>m. '' ''" "c # NL # rest" c u] assms(2) unfolding s by simp
  have "rmatch (continuation c) s (length (u @ l @ '' ''), []) = (length (u @ l @ '' '' @ [c, NL]), []) # []"
    by (simp add: continuation_def ROpt_def s nth_append NL_def)
  from replace_at_match [OF consuming_continuation this]
  have "replace_at (continuation c) (\<lambda>m. '' '') s (length (u @ l @ '' '')) =
      '' '' @ replace_at (continuation c) (\<lambda>m. '' '') s (length (u @ l @ '' '' @ [c, NL]))" by (simp add: s)
  moreover have "replace_at (continuation c) (\<lambda>m. '' '') s (length (u @ l @ '' '' @ [c, NL])) = join ''  '' ls"
    using cons.IH [of "u @ l @ '' '' @ [c, NL]"] cons.prems s by (simp add: rest_def)
  ultimately show ?case using head cons.hyps by (cases ls) simp_all
qed

lemma joined_lines_join:
  "c \<noteq> CHR '' '' \<Longrightarrow> \<not> is_nl c \<Longrightarrow> ls \<noteq> [] \<Longrightarrow> list_all no_breaks ls \<Longrightarrow> joined_lines c (join ('' '' @ [c, NL]) ls) = join ''  '' ls"
  using joined_lines_at [of c ls _ "[]"] by (simp add: joined_lines_def rreplaceAll_at [OF consuming_continuation])

lemma joined_lines_none: "no_breaks s \<Longrightarrow> joined_lines c s = s"
  using join_line_stretch [of s "\<lambda>m. '' ''" "[]" c "[]"] replace_at_end [OF consuming_continuation]
  by (simp add: joined_lines_def rreplaceAll_at [OF consuming_continuation])


section \<open>Words\<close>

datatype lexeme = Bare string | Quoted string

fun lexeme_text :: "lexeme \<Rightarrow> string" where
  "lexeme_text (Bare w) = w"
| "lexeme_text (Quoted w) = QUOTE # marked w @ [QUOTE]"

fun lexeme_word :: "lexeme \<Rightarrow> string" where
  "lexeme_word (Bare w) = w"
| "lexeme_word (Quoted w) = w"

fun lexeme_ok :: "lexeme \<Rightarrow> bool" where
  "lexeme_ok (Bare w) = (w \<noteq> [] \<and> list_all (\<lambda>c. \<not> js_ws c \<and> c \<noteq> QUOTE \<and> c \<noteq> APOSTROPHE \<and> c \<noteq> BSLASH) w)"
| "lexeme_ok (Quoted w) = list_all (\<lambda>c. \<not> is_nl c) w"

definition words_text :: "(string \<times> lexeme) list \<Rightarrow> string" where
  "words_text its = concat (map (\<lambda>(gap, l). gap @ lexeme_text l) its)"

fun words_ok :: "(string \<times> lexeme) list \<Rightarrow> bool" where
  "words_ok [] = True"
| "words_ok ((gap, l) # its) = (list_all js_ws gap \<and> lexeme_ok l \<and> (its = [] \<or> fst (hd its) \<noteq> []) \<and> words_ok its)"

lemma consuming_word: "consuming SHELL_WORD"
  by (simp add: SHELL_WORD_def DOUBLE_QUOTED_def SINGLE_QUOTED_def RPlus_def RNonSpace_def consuming_intros)

lemma js_ws_marks [simp]: "\<not> js_ws QUOTE" "\<not> js_ws APOSTROPHE"
  by (simp_all add: js_ws_def)

lemma no_word_at_space: "i < length s \<Longrightarrow> js_ws (s ! i) \<Longrightarrow> rmatch SHELL_WORD s (i, cs) = []"
  by (auto simp: SHELL_WORD_def DOUBLE_QUOTED_def SINGLE_QUOTED_def RPlus_def RNonSpace_def)

lemma gap_skipped:
  "list_all js_ws gap \<Longrightarrow> all_at SHELL_WORD (u @ gap @ v) (length u) = all_at SHELL_WORD (u @ gap @ v) (length u + length gap)"
  by (rule all_at_stretch [OF consuming_word], rule no_word_at_space) (simp_all add: nth_append list_all_length)

lemma bare_word_at:
  assumes "lexeme_ok (Bare w)" "v = [] \<or> js_ws (hd v)"
  shows "\<exists>rest. rmatch SHELL_WORD (u @ w @ v) (length u, []) = (length u + length w, [(3, (length u, length u + length w))]) # rest"
proof -
  let ?s = "u @ w @ v"
  obtain c w' where w: "w = c # w'" using assms(1) by (cases w) auto
  have first: "?s ! length u = c" "c \<noteq> QUOTE" "c \<noteq> APOSTROPHE" "\<not> js_ws c" using assms(1) by (simp_all add: w)
  have "\<exists>rest. rmatch (RStar RNonSpace) ?s (Suc (length u), []) = (length u + length w, []) # rest"
    unfolding RNonSpace_def
  proof (rule rmatch_star_greedy)
    show "\<forall>j. Suc (length u) \<le> j \<and> j < length u + length w \<longrightarrow> \<not> js_ws (?s ! j)"
      using assms(1) by (auto simp: nth_append list_all_length)
    show "length u + length w = length ?s \<or> \<not> \<not> js_ws (?s ! (length u + length w))"
      using assms(2) by (cases v) (auto simp: nth_append)
  qed (simp_all add: w)
  then obtain rest where "rmatch (RStar RNonSpace) ?s (Suc (length u), []) = (length u + length w, []) # rest" by blast
  then show ?thesis using first
    by (simp add: SHELL_WORD_def DOUBLE_QUOTED_def SINGLE_QUOTED_def RPlus_def RNonSpace_def w)
qed

lemma quoted_run:
  assumes "list_all (\<lambda>c. \<not> is_nl c) w" "s = u @ marked w @ QUOTE # v"
  shows "\<exists>rest. rmatch (RStar (RAlt ESCAPED (RNone [QUOTE, BSLASH]))) s (length u, cs) = (length u + length (marked w), cs) # rest"
  using assms
proof (induction w arbitrary: u)
  case Nil
  then have "rmatch (RAlt ESCAPED (RNone [QUOTE, BSLASH])) s (length u, cs) = []" by (simp add: ESCAPED_def RNone_def)
  then show ?case by (subst rmatch.simps) simp
next
  case (Cons c w)
  let ?r = "RAlt ESCAPED (RNone [QUOTE, BSLASH])"
  have "rmatch ?r s (length u, cs) = [(length (u @ mark c), cs)] \<and> length (u @ mark c) \<le> length s"
    using Cons.prems by (auto simp: mark_def ESCAPED_def RNone_def RAny_def nth_append)
  moreover have "length u < length (u @ mark c)" by (simp add: mark_def)
  moreover obtain rest where "rmatch (RStar ?r) s (length (u @ mark c), cs) = (length (u @ mark c) + length (marked w), cs) # rest"
    using Cons.IH [of "u @ mark c"] Cons.prems by auto
  ultimately show ?case by (subst rmatch.simps, simp del: length_append) simp
qed

lemma quoted_word_at:
  assumes "lexeme_ok (Quoted w)" "s = u @ QUOTE # marked w @ QUOTE # v"
  shows "\<exists>rest. rmatch SHELL_WORD s (length u, []) =
    (length u + length (marked w) + 2, [(1, (Suc (length u), Suc (length u) + length (marked w)))]) # rest"
proof -
  obtain rest where r: "rmatch (RStar (RAlt ESCAPED (RNone [QUOTE, BSLASH]))) s (Suc (length u), []) = (Suc (length u) + length (marked w), []) # rest"
    using quoted_run [of w s "u @ [QUOTE]" v "[]"] assms by auto
  have "s ! length u = QUOTE" "s ! (Suc (length u) + length (marked w)) = QUOTE" "Suc (length u) + length (marked w) < length s"
    by (simp_all add: assms(2) nth_append)
  with r show ?thesis by (simp add: SHELL_WORD_def DOUBLE_QUOTED_def assms(2))
qed

lemma words_scanned:
  "words_ok its \<Longrightarrow> s = u @ words_text its \<Longrightarrow> map (\<lambda>m. unescaped (word_text s m)) (all_at SHELL_WORD s (length u)) = map (lexeme_word \<circ> snd) its"
proof (induction its arbitrary: u)
  case Nil
  then show ?case using all_at_end [OF consuming_word, of s] by (simp add: words_text_def)
next
  case (Cons it its)
  obtain gap l where it: "it = (gap, l)" by (cases it)
  define v where "v = words_text its"
  have s: "s = u @ gap @ lexeme_text l @ v" using Cons.prems(2) by (simp add: it words_text_def v_def)
  have ok: "list_all js_ws gap" "lexeme_ok l" "words_ok its" "its = [] \<or> fst (hd its) \<noteq> []" using Cons.prems(1) by (simp_all add: it)
  have follow: "v = [] \<or> js_ws (hd v)"
  proof (cases its)
    case (Cons it' its')
    then obtain g l' where g: "it' = (g, l')" "g \<noteq> []" "list_all js_ws g" using ok by (cases it') auto
    then show ?thesis using Cons by (cases g) (auto simp: v_def words_text_def)
  qed (simp add: v_def words_text_def)
  have skip: "all_at SHELL_WORD s (length u) = all_at SHELL_WORD s (length (u @ gap))"
    using gap_skipped [OF ok(1), of u "lexeme_text l @ v"] by (simp add: s)
  have "\<exists>cs. all_at SHELL_WORD s (length (u @ gap)) =
      \<lparr> m_start = length (u @ gap), m_end = length (u @ gap @ lexeme_text l), m_caps = cs \<rparr> # all_at SHELL_WORD s (length (u @ gap @ lexeme_text l))
      \<and> unescaped (word_text s \<lparr> m_start = length (u @ gap), m_end = length (u @ gap @ lexeme_text l), m_caps = cs \<rparr>) = lexeme_word l"
  proof (cases l)
    case (Bare w)
    obtain rest where r: "rmatch SHELL_WORD s (length (u @ gap), []) =
        (length (u @ gap) + length w, [(3, (length (u @ gap), length (u @ gap) + length w))]) # rest"
      using bare_word_at [of w v "u @ gap"] ok(2) follow s Bare by auto
    have "BSLASH \<notin> set w" using ok(2) Bare by (auto simp: list_all_iff)
    moreover have "slice (length (u @ gap)) (length (u @ gap) + length w) s = w" by (simp add: slice_def s Bare)
    ultimately show ?thesis using all_at_match [OF consuming_word r] s Bare
      by (intro exI [of _ "[(3, (length (u @ gap), length (u @ gap) + length w))]"]) (simp add: word_text_def m_group_def unescaped_plain add.assoc)
  next
    case (Quoted w)
    obtain rest where r: "rmatch SHELL_WORD s (length (u @ gap), []) =
        (length (u @ gap) + length (marked w) + 2, [(1, (Suc (length (u @ gap)), Suc (length (u @ gap)) + length (marked w)))]) # rest"
      using quoted_word_at [of w s "u @ gap" v] ok(2) s Quoted by auto
    have "slice (Suc (length (u @ gap))) (Suc (length (u @ gap)) + length (marked w)) s = marked w" by (simp add: slice_def s Quoted)
    then show ?thesis using all_at_match [OF consuming_word r] s Quoted
      by (intro exI [of _ "[(1, (Suc (length (u @ gap)), Suc (length (u @ gap)) + length (marked w)))]"])
        (simp add: word_text_def m_group_def unescaped_marked add.assoc)
  qed
  then show ?case using skip Cons.IH [of "u @ gap @ lexeme_text l"] ok(3) s by (auto simp: it v_def)
qed


section \<open>The generated command\<close>

text \<open>Requests whose command can be imported again: printable texts, an upper-case method that needs no quotes, an address that
  does not look like an option, names and values of headers without white space around them and without secrets, and no part
  of a form (the list the workbench builds is then empty).\<close>

definition curl_exportable :: "HttpWorkbenchRequest \<Rightarrow> bool" where
  "curl_exportable r \<longleftrightarrow>
     lexeme_ok (Bare (hw_method r)) \<and> toUpperCase (hw_method r) = hw_method r
     \<and> printable (hw_url r) \<and> hw_url r \<noteq> [] \<and> \<not> startsWith (hw_url r) ''-''
     \<and> list_all (\<lambda>(name, v). printable name \<and> printable v \<and> name \<noteq> [] \<and> trim name = name \<and> trim v = v \<and> CHR '':'' \<notin> set name
          \<and> \<not> isSensitiveHeaderName name) (hw_headers r)
     \<and> printable (normalizeGeneratedBody (or_default (hw_body r) []) (hw_headers r)) \<and> or_default (hw_multipart r) [] = []"

abbreviation generated_body :: "HttpWorkbenchRequest \<Rightarrow> string" where
  "generated_body r \<equiv> normalizeGeneratedBody (or_default (hw_body r) []) (hw_headers r)"

definition curl_lexemes :: "string \<Rightarrow> HttpWorkbenchRequest \<Rightarrow> (string \<times> lexeme) list" where
  "curl_lexemes program r =
     ([], Bare program) # ('' '', Bare ''--location'') # ('' '', Bare ''--request'') # ('' '', Bare (hw_method r)) # ('' '', Quoted (hw_url r))
     # concat (map (\<lambda>(option, v). [(''    '', Bare option), ('' '', Quoted v)]) (curl_arguments r))"

lemma printable_breaks: "printable w \<Longrightarrow> no_breaks w"
  by (auto simp: printable_def no_breaks_def is_nl_def list_all_iff code_def)

lemma printable_append [simp]: "printable (a @ b) = (printable a \<and> printable b)"
  by (simp add: printable_def)

lemma no_breaks_append [simp]: "no_breaks (a @ b) = (no_breaks a \<and> no_breaks b)"
  by (simp add: no_breaks_def)

lemma no_breaks_marked: "no_breaks w \<Longrightarrow> no_breaks (marked w)"
  by (induction w) (auto simp: no_breaks_def mark_def is_nl_def BSLASH_def)

lemma arguments_ok:
  assumes "curl_exportable r" "(option, v) \<in> set (curl_arguments r)"
  shows "printable v \<and> option \<in> {''--header'', ''--data-raw''}"
proof -
  have headers: "printable a \<and> printable b" if "(a, b) \<in> set (hw_headers r)" for a b
    using assms(1) that unfolding curl_exportable_def list_all_iff by blast
  have "printable (CHR '':'' # CHR '' '' # b) = printable b" for b by (simp add: printable_def code_def)
  moreover have "printable (generated_body r)" "or_default (hw_multipart r) [] = []" using assms(1) unfolding curl_exportable_def by blast+
  ultimately show ?thesis using assms(2) headers unfolding curl_arguments_def Let_def
    by (auto split: if_splits)
qed

lemma method_breaks: "lexeme_ok (Bare w) \<Longrightarrow> no_breaks w"
  by (auto simp: no_breaks_def list_all_iff is_nl_def js_ws_def code_def)

lemma curl_lines_text:
  assumes "curl_exportable r"
  shows "join ''  '' (curl_lines program r) = words_text (curl_lexemes program r)"
proof -
  have line: "''  '' @ option @ '' '' @ quote v = ''  '' @ option @ '' '' @ lexeme_text (Quoted v)" if "(option, v) \<in> set (curl_arguments r)" for option v
    using arguments_ok [OF assms that] by (simp add: quote_marked)
  have joined: "join ''  '' (x # map (\<lambda>(option, v). ''  '' @ option @ '' '' @ quote v) args) =
      x @ concat (map (\<lambda>(option, v). ''    '' @ option @ '' '' @ quote v) args)" for x args
    by (induction args arbitrary: x) auto
  have "concat (map (\<lambda>(option, v). ''    '' @ option @ '' '' @ quote v) args) =
      words_text (concat (map (\<lambda>(option, v). [(''    '', Bare option), ('' '', Quoted v)]) args))" if "set args \<subseteq> set (curl_arguments r)" for args
    using that by (induction args) (auto simp: words_text_def dest: line)
  then show ?thesis using assms
    unfolding curl_lines_def joined by (simp add: curl_lexemes_def words_text_def curl_exportable_def quote_marked)
qed

lemma curl_lines_breaks:
  assumes "curl_exportable r" "no_breaks program"
  shows "list_all no_breaks (curl_lines program r)"
proof -
  have q: "no_breaks (quote v)" if "printable v" for v
    using that no_breaks_marked [OF printable_breaks [OF that]] by (simp add: quote_marked no_breaks_def is_nl_def QUOTE_def)
  have "no_breaks (''  '' @ option @ '' '' @ quote v)" if "(option, v) \<in> set (curl_arguments r)" for option v
    using arguments_ok [OF assms(1) that] q by (auto simp: no_breaks_def is_nl_def)
  moreover have "no_breaks (program @ '' --location --request '' @ toUpperCase (hw_method r) @ '' '' @ quote (hw_url r))"
    using assms q method_breaks [of "hw_method r"] by (simp add: curl_exportable_def del: lexeme_ok.simps) (simp add: no_breaks_def is_nl_def)
  ultimately show ?thesis by (auto simp: curl_lines_def list_all_iff)
qed

lemma curl_lexemes_ok:
  assumes "curl_exportable r" "lexeme_ok (Bare program)"
  shows "words_ok (curl_lexemes program r)"
proof -
  have option: "lexeme_ok (Bare option)" if "option \<in> {''--header'', ''--data-raw'', ''--location'', ''--request''}" for option
    using that by (auto simp: js_ws_def QUOTE_def APOSTROPHE_def BSLASH_def code_def)
  have quoted: "lexeme_ok (Quoted v)" if "printable v" for v
    using printable_breaks [OF that] by (simp add: no_breaks_def)
  have gaps: "list_all js_ws ''    ''" "list_all js_ws '' ''" "list_all js_ws []" by (simp_all add: js_ws_def code_def)
  have rest: "words_ok (concat (map (\<lambda>(option, v). [(''    '', Bare option), ('' '', Quoted v)]) args))" if "set args \<subseteq> set (curl_arguments r)" for args
    using that
  proof (induction args)
    case (Cons a args)
    obtain option' v where a: "a = (option', v)" by (cases a)
    have "printable v" "option' \<in> {''--header'', ''--data-raw''}" using arguments_ok [OF assms(1), of option' v] Cons.prems a by auto
    then show ?case using Cons option [of option'] quoted [of v] gaps a
      by (cases args) (auto simp del: lexeme_ok.simps list.pred_inject)
  qed simp
  have "lexeme_ok (Bare (hw_method r))" "printable (hw_url r)" using assms(1) unfolding curl_exportable_def by blast+
  then show ?thesis using assms(2) option quoted [of "hw_url r"] rest [OF subset_refl] gaps unfolding curl_lexemes_def
    by (cases "curl_arguments r") (simp_all del: lexeme_ok.simps list.pred_inject add: split_beta)
qed


lemma curl_tokens:
  assumes "curl_exportable r" and that: "lexeme_ok (Bare program)"
  shows "shellTokens (join ('' '' @ [BSLASH, NL]) (curl_lines program r)) = program # ''--location'' # ''--request'' # hw_method r # hw_url r
      # concat (map (\<lambda>(option, v). [option, v]) (curl_arguments r))"
proof -
  let ?ls = "curl_lines program r" and ?its = "curl_lexemes program r"
  have b: "list_all no_breaks ?ls" using curl_lines_breaks [OF assms(1)] method_breaks that by blast
  have "joined_lines BSLASH (join ('' '' @ [BSLASH, NL]) ?ls) = join ''  '' ?ls"
    by (rule joined_lines_join [OF _ _ _ b]) (simp_all add: BSLASH_def is_nl_def curl_lines_def)
  moreover have breaks: "no_breaks (join ''  '' ls)" if "list_all no_breaks ls" for ls
    using that by (induction "''  ''" ls rule: join.induct) (auto simp: no_breaks_def is_nl_def)
  ultimately have n: "joined_lines (CHR ''^'') (joined_lines BSLASH (join ('' '' @ [BSLASH, NL]) ?ls)) = words_text ?its"
    using breaks [OF b] curl_lines_text [OF assms(1), of program] by (simp add: joined_lines_none)
  have "map (\<lambda>m. unescaped (word_text (words_text ?its) m)) (rmatchAll SHELL_WORD (words_text ?its)) = map (lexeme_word \<circ> snd) ?its"
    using words_scanned [OF curl_lexemes_ok [OF assms(1) that], of "words_text ?its" "[]"] by (simp add: rmatchAll_at [OF consuming_word])
  then show ?thesis unfolding shellTokens_def n Let_def
    by (simp add: curl_lexemes_def map_concat comp_def split_beta')
qed

section \<open>The imported request\<close>

lemma header_imported:
  assumes "name \<noteq> []" "trim name = name" "trim v = v" "CHR '':'' \<notin> set name" "\<not> isSensitiveHeaderName name"
  shows "header_option (name @ '': '' @ v) s = s\<lparr> cs_headers := cs_headers s @ [(name, v)] \<rparr>"
proof -
  have "indexOf (name @ CHR '':'' # w) (CHR '':'') = Some (length name)" for w using assms(4) by (induction name) auto
  moreover have "trim (CHR '' '' # v) = v" using assms(3) by (simp add: trim_def trimStart_def js_ws_def code_def)
  moreover obtain n where "length name = Suc n" using assms(1) by (cases name) auto
  ultimately show ?thesis using assms(2,5) by (simp add: header_option_def Let_def)
qed

lemma takeValue_warnings: "\<exists>w. takeValue token v s = s\<lparr> cs_warnings := w \<rparr>"
  by (auto simp: takeValue_def warn_def intro: exI [of _ "cs_warnings s"])

lemma curl_loop_valued:
  assumes "valued_option token = Some f"
  shows "\<exists>w. curl_loop (token # v # rest) s = curl_loop rest (f v (s\<lparr> cs_warnings := w \<rparr>))"
  using takeValue_warnings [of token "Some v" s] assms by auto

lemma valued_header: "valued_option ''--header'' = Some header_option"
  by (simp add: valued_option_def)

definition plain_header :: "string \<times> string \<Rightarrow> bool" where
  "plain_header = (\<lambda>(name, v). name \<noteq> [] \<and> trim name = name \<and> trim v = v \<and> CHR '':'' \<notin> set name \<and> \<not> isSensitiveHeaderName name)"

lemma headers_imported:
  "list_all plain_header hs \<Longrightarrow>
    \<exists>w. curl_loop (concat (map (\<lambda>(name, v). [''--header'', name @ '': '' @ v]) hs) @ rest) s =
      curl_loop rest (s\<lparr> cs_headers := cs_headers s @ hs, cs_warnings := w \<rparr>)"
proof (induction hs arbitrary: s)
  case Nil
  then show ?case by (intro exI [of _ "cs_warnings s"]) simp
next
  case (Cons h hs)
  obtain name v where h: "h = (name, v)" by (cases h)
  obtain w where "curl_loop (''--header'' # (name @ '': '' @ v) # concat (map (\<lambda>(name, v). [''--header'', name @ '': '' @ v]) hs) @ rest) s =
      curl_loop (concat (map (\<lambda>(name, v). [''--header'', name @ '': '' @ v]) hs) @ rest) (header_option (name @ '': '' @ v) (s\<lparr> cs_warnings := w \<rparr>))"
    using curl_loop_valued [OF valued_header] by blast
  moreover have "header_option (name @ '': '' @ v) (s\<lparr> cs_warnings := w \<rparr>) = s\<lparr> cs_warnings := w, cs_headers := cs_headers s @ [(name, v)] \<rparr>"
    using Cons.prems header_imported [of name v "s\<lparr> cs_warnings := w \<rparr>"] by (simp add: h plain_header_def)
  ultimately show ?case
    using Cons.IH [of "s\<lparr> cs_warnings := w, cs_headers := cs_headers s @ [(name, v)] \<rparr>"] Cons.prems by (auto simp: h)
qed

lemma no_dash: "\<not> startsWith token ''-'' \<Longrightarrow> token \<noteq> CHR ''-'' # x"
  by auto

lemma valued_dash: "\<not> startsWith token ''-'' \<Longrightarrow> valued_option token = None"
  by (simp add: valued_option_def DATA_OPTIONS_def FORM_OPTIONS_def IGNORED_WITH_VALUE_def no_dash)

lemma plain_address: "\<not> startsWith url ''-'' \<Longrightarrow> cs_url s = [] \<Longrightarrow> plain_word url s = s\<lparr> cs_url := url \<rparr>"
  by (simp add: plain_word_def QUIET_OPTIONS_def no_dash)

lemma valued_data:
  "valued_option ''--data-raw'' = Some (\<lambda>v s. let t = s\<lparr> cs_data := cs_data s @ [v] \<rparr>
     in post_unless_get (if startsWith v ''@'' then warn (FileReference ''--data-raw'') t else t))"
  by (simp add: valued_option_def DATA_OPTIONS_def)

lemma data_imported:
  assumes "cs_method s \<noteq> ''GET''"
  shows "\<exists>w. curl_loop [''--data-raw'', v] s = s\<lparr> cs_data := cs_data s @ [v], cs_warnings := w \<rparr>"
proof -
  obtain w where "curl_loop [''--data-raw'', v] s = (let t = s\<lparr> cs_warnings := w, cs_data := cs_data s @ [v] \<rparr>
      in post_unless_get (if startsWith v ''@'' then warn (FileReference ''--data-raw'') t else t))"
    using curl_loop_valued [OF valued_data, of v "[]" s] by auto
  moreover have "\<exists>w'. post_unless_get (if P then warn (FileReference ''--data-raw'') t else t) = t\<lparr> cs_warnings := w' \<rparr>"
    if "cs_method t \<noteq> ''GET''" for P t
    using that by (auto simp: post_unless_get_def warn_def intro: exI [of _ "cs_warnings t"])
  from this [of "s\<lparr> cs_warnings := w, cs_data := cs_data s @ [v] \<rparr>" "startsWith v ''@''"]
  obtain w' where "post_unless_get (if startsWith v ''@'' then warn (FileReference ''--data-raw'') (s\<lparr> cs_warnings := w, cs_data := cs_data s @ [v] \<rparr>)
      else s\<lparr> cs_warnings := w, cs_data := cs_data s @ [v] \<rparr>) = s\<lparr> cs_data := cs_data s @ [v], cs_warnings := w' \<rparr>"
    using assms by auto
  ultimately show ?thesis unfolding Let_def by metis
qed

lemma valued_request:
  "valued_option ''--request'' = Some (\<lambda>v s. s\<lparr> cs_method := (if v = [] then ''GET'' else toUpperCase v) \<rparr>)"
  "valued_option ''--location'' = None"
  by (simp_all add: valued_option_def DATA_OPTIONS_def FORM_OPTIONS_def IGNORED_WITH_VALUE_def)

lemma curl_loop_plain: "valued_option token = None \<Longrightarrow> curl_loop (token # rest) s = curl_loop rest (plain_word token s)"
  by (cases rest) simp_all

lemma command_imported:
  assumes "curl_exportable r" "generated_body r = [] \<or> hw_method r \<noteq> ''GET''"
  shows "\<exists>w. curl_loop (''--location'' # ''--request'' # hw_method r # hw_url r # concat (map (\<lambda>(option, v). [option, v]) (curl_arguments r))) curl_start
    = curl_start\<lparr> cs_follow := True, cs_method := hw_method r, cs_url := hw_url r, cs_headers := hw_headers r,
        cs_data := (if generated_body r = [] then [] else [generated_body r]), cs_warnings := w \<rparr>"
proof -
  let ?args = "concat (map (\<lambda>(option, v). [option, v]) (curl_arguments r))"
  let ?data = "if generated_body r = [] then [] else [''--data-raw'', generated_body r]"
  have r: "hw_method r \<noteq> []" "toUpperCase (hw_method r) = hw_method r" "or_default (hw_multipart r) [] = []" "\<not> startsWith (hw_url r) ''-''"
    "list_all plain_header (hw_headers r)"
    using assms(1) by (auto simp: curl_exportable_def plain_header_def list_all_iff)
  have args: "?args = concat (map (\<lambda>(name, v). [''--header'', name @ '': '' @ v]) (hw_headers r)) @ ?data"
    by (simp add: curl_arguments_def Let_def r(3) comp_def split_beta')
  have location: "plain_word ''--location'' curl_start = curl_start\<lparr> cs_follow := True \<rparr>" by (simp add: plain_word_def)
  have url: "valued_option (hw_url r) = None" using valued_dash r(4) .
  obtain w1 where "curl_loop (''--location'' # ''--request'' # hw_method r # hw_url r # ?args) curl_start
      = curl_loop (hw_url r # ?args) (curl_start\<lparr> cs_follow := True, cs_warnings := w1, cs_method := hw_method r \<rparr>)"
    using curl_loop_valued [OF valued_request(1), of "hw_method r" "hw_url r # ?args" "curl_start\<lparr> cs_follow := True \<rparr>"] r(1,2)
    unfolding curl_loop_plain [OF valued_request(2)] location by auto
  then have "curl_loop (''--location'' # ''--request'' # hw_method r # hw_url r # ?args) curl_start
      = curl_loop ?args (curl_start\<lparr> cs_follow := True, cs_warnings := w1, cs_method := hw_method r, cs_url := hw_url r \<rparr>)"
    unfolding curl_loop_plain [OF url] using r(4) by (simp add: plain_address curl_start_def)
  moreover obtain w2 where "curl_loop ?args (curl_start\<lparr> cs_follow := True, cs_warnings := w1, cs_method := hw_method r, cs_url := hw_url r \<rparr>)
      = curl_loop ?data (curl_start\<lparr> cs_follow := True, cs_method := hw_method r, cs_url := hw_url r, cs_headers := hw_headers r, cs_warnings := w2 \<rparr>)"
    using headers_imported [OF r(5), of ?data "curl_start\<lparr> cs_follow := True, cs_warnings := w1, cs_method := hw_method r, cs_url := hw_url r \<rparr>"]
    unfolding args by (auto simp: curl_start_def)
  moreover have "\<exists>w. curl_loop ?data (curl_start\<lparr> cs_follow := True, cs_method := hw_method r, cs_url := hw_url r, cs_headers := hw_headers r, cs_warnings := w2 \<rparr>)
      = curl_start\<lparr> cs_follow := True, cs_method := hw_method r, cs_url := hw_url r, cs_headers := hw_headers r,
          cs_data := (if generated_body r = [] then [] else [generated_body r]), cs_warnings := w \<rparr>"
  proof (cases "generated_body r = []")
    case True
    then show ?thesis by (intro exI [of _ w2]) (simp add: curl_start_def)
  next
    case False
    then show ?thesis
      using assms(2) data_imported [of "curl_start\<lparr> cs_follow := True, cs_method := hw_method r, cs_url := hw_url r, cs_headers := hw_headers r, cs_warnings := w2 \<rparr>" "generated_body r"]
      by (auto simp: curl_start_def)
  qed
  ultimately show ?thesis by simp
qed


lemma trim_ends:
  assumes "s \<noteq> []" "\<not> js_ws (hd s)" "\<not> js_ws (last s)"
  shows "trim s = s"
proof -
  have "trimStart s = s" using assms(1,2) by (cases s) (simp_all add: trimStart_def)
  moreover obtain b x where "s = b @ [x]" using assms(1) by (cases s rule: rev_cases) auto
  ultimately show ?thesis using assms(3) by (simp add: trim_def trimEnd_def)
qed

lemma last_join: "ls \<noteq> [] \<Longrightarrow> last ls = w @ [c] \<Longrightarrow> join sep ls \<noteq> [] \<and> last (join sep ls) = c"
  by (induction sep ls rule: join.induct) auto

lemma curl_code_trimmed: "trim (curl_code r) = curl_code r"
proof (rule trim_ends)
  let ?ls = "curl_lines ''curl'' r"
  obtain rest where "curl_code r = CHR ''c'' # rest"
    unfolding curl_code_def curl_lines_def by (cases "map (\<lambda>(option, v). ''  '' @ option @ '' '' @ quote v) (curl_arguments r)") auto
  then show "curl_code r \<noteq> []" "\<not> js_ws (hd (curl_code r))" by (simp_all add: js_ws_def code_def)
  have "\<exists>w. l = w @ [QUOTE]" if "l \<in> set ?ls" for l
    using that by (auto simp: curl_lines_def quote_def)
  moreover have "last ?ls \<in> set ?ls" by (rule last_in_set) (simp add: curl_lines_def)
  ultimately obtain w where "last ?ls = w @ [QUOTE]" by blast
  then show "\<not> js_ws (last (curl_code r))" unfolding curl_code_def
    using last_join [of ?ls w QUOTE] by (simp add: curl_lines_def)
qed

text \<open>C19: cURL code comes back: the command generated for a request whose texts are printable (no line break), whose headers are
  none of the sensitive ones (an Authorization header is not imported), which has no parts of a form and no body with GET is
  imported as a request with the same method, address and headers, and as body the normalised one the command carries, however
  they are quoted.\<close>

theorem curl_code_imported:
  assumes "curl_exportable r" and "generated_body r = [] \<or> hw_method r \<noteq> ''GET''"
  shows "\<exists>q. parseCurl pathname_of (curl_code r) = Inr q \<and> hw_method q = hw_method r \<and> hw_url q = hw_url r
    \<and> hw_headers q = hw_headers r \<and> hw_body q = (if generated_body r = [] then None else Some (generated_body r))"
proof -
  have program: "lexeme_ok (Bare ''curl'')" by (simp add: js_ws_def code_def QUOTE_def APOSTROPHE_def BSLASH_def)
  have tokens: "shellTokens (trim (curl_code r)) = ''curl'' # ''--location'' # ''--request'' # hw_method r # hw_url r
      # concat (map (\<lambda>(option, v). [option, v]) (curl_arguments r))"
    using curl_tokens [OF assms(1) program] curl_code_trimmed [of r] by (simp add: curl_code_def)
  obtain w where w: "curl_loop (''--location'' # ''--request'' # hw_method r # hw_url r # concat (map (\<lambda>(option, v). [option, v]) (curl_arguments r))) curl_start
    = curl_start\<lparr> cs_follow := True, cs_method := hw_method r, cs_url := hw_url r, cs_headers := hw_headers r,
        cs_data := (if generated_body r = [] then [] else [generated_body r]), cs_warnings := w \<rparr>" (is "_ = ?s")
    using command_imported [OF assms] by blast
  have url: "hw_url r \<noteq> []" using assms(1) by (simp add: curl_exportable_def)
  have "parseCurl pathname_of (curl_code r) = Inr (curl_request pathname_of ?s)"
    unfolding parseCurl_def parseCurlWithWarnings_def tokens curl_words_def list.sel w is_curl using url by (simp add: Let_def)
  then show ?thesis using assms(2) by (auto simp: curl_request_def with_data_def)
qed

definition sample_curl :: HttpWorkbenchRequest where
  "sample_curl = (curl_request (\<lambda>_. None) curl_start)\<lparr> hw_multipart := Some [], hw_method := ''PUT'', hw_url := ''https://a/b?c='' @ [QUOTE], hw_headers := [(''X-Id'', [BSLASH] @ '' 7'')],
     hw_body := Some ''it's'' \<rparr>"

lemma sample_curl_ok: "curl_exportable sample_curl" "generated_body sample_curl = ''it's''"
proof -
  have "generated_body sample_curl = normalizeGeneratedBody ''it's'' [(''X-Id'', [BSLASH] @ '' 7'')]" by (simp add: sample_curl_def)
  also have "\<dots> = ''it's''" by code_simp
  finally show b: "generated_body sample_curl = ''it's''" .
  have "\<not> isSensitiveHeaderName ''X-Id''" "toUpperCase ''PUT'' = ''PUT''" "trim ''X-Id'' = ''X-Id''" "trim ([BSLASH] @ '' 7'') = [BSLASH] @ '' 7''" by code_simp+
  then show "curl_exportable sample_curl"
    unfolding curl_exportable_def b by (simp add: sample_curl_def printable_def curl_request_def with_data_def curl_start_def)
      (simp add: js_ws_def QUOTE_def APOSTROPHE_def BSLASH_def code_def)
qed

theorem curl_code_imported_witness:
  "\<exists>q. parseCurl (\<lambda>_. None) (curl_code sample_curl) = Inr q \<and> hw_method q = ''PUT'' \<and> hw_url q = ''https://a/b?c='' @ [QUOTE]
    \<and> hw_headers q = [(''X-Id'', [BSLASH] @ '' 7'')] \<and> hw_body q = Some ''it's''"
  using curl_code_imported [OF sample_curl_ok(1), of "\<lambda>_. None"] unfolding sample_curl_ok(2) by (simp add: sample_curl_def)

text \<open>A line break inside a body is written as an escape that neither the shell nor the importer reads.\<close>

lemma line_break_not_restored: "shellTokens (quote [CHR ''a'', NL]) = [[CHR ''a'', BSLASH, CHR ''n'']]"
  by code_simp

end
