(* ===== verification/WorkbenchDeck.thy ===== *)
theory WorkbenchDeck imports HttpActions AppState Stores InterfaceStructure begin

text \<open>
  The deck of open workbenches (\<^verbatim>\<open>packages/ui/src/WorkbenchDeck.tsx\<close>): its tabs are sessions, opened by the navigation, by events
  of other components and by the address. A handler reads the sessions of the render that created it, the argument \<open>c\<close>, and
  writes the present state \<open>s\<close>. The fragment of the address is the list of its parameters (writing and parsing them is
  \<open>FormUrl\<close>). Titles in the language of the user and the full-width parentheses of a
  case title are stand-ins; \<open>params_set\<close> is that of \<open>InterfaceStructure\<close>.
\<close>

section \<open>State\<close>

record deck_tab =
  dt_id :: string
  dt_label :: string
  dt_protocol :: "string option"
  dt_protocols :: "string list"

record WorkbenchSession =
  ws_id :: string
  ws_workbenchId :: string
  ws_title :: string
  ws_requestId :: "string option"
  ws_icon :: "string option"
  ws_caseInterfaceName :: "string option"
  ws_caseParentId :: "string option"

datatype deck_event = NewWorkbench string | OpenDebugTab string | HydrateRequest HydratePayload

record deck =
  dk_sessions :: "WorkbenchSession list"
  dk_activeId :: string
  dk_store :: AppStore
  dk_params :: "(string \<times> string) list" \<comment> \<open>\<^verbatim>\<open>location.hash\<close>\<close>
  dk_pickerOpen :: bool
  dk_tabsMoreOpen :: bool
  dk_curlOpen :: bool
  dk_browser :: browser \<comment> \<open>the stored drafts\<close>
  dk_pending :: "HydratePayload option" \<comment> \<open>the request handed to a workbench\<close>
  dk_structures :: pending_structures
  dk_events :: "deck_event list" \<comment> \<open>events sent to other components\<close>

text \<open>\<open>wd_load\<close> is \<^verbatim>\<open>onLoadHttpInterface\<close>; a failed load is \<^verbatim>\<open>null\<close>.\<close>

record deck_env =
  wd_tabs :: "deck_tab list"
  wd_translate :: "string \<Rightarrow> string \<Rightarrow> string"
  wd_url :: url_env
  wd_load :: "(string \<Rightarrow> HttpWorkbenchRequest option) option"

definition simple_session :: "string \<Rightarrow> string \<Rightarrow> string \<Rightarrow> WorkbenchSession" where
  "simple_session i wb title = \<lparr> ws_id = i, ws_workbenchId = wb, ws_title = title, ws_requestId = None, ws_icon = None,
     ws_caseInterfaceName = None, ws_caseParentId = None \<rparr>"

definition find_tab :: "deck_env \<Rightarrow> string \<Rightarrow> deck_tab option" where
  "find_tab E i = find (\<lambda>t. dt_id t = i) (wd_tabs E)"

text \<open>\<^verbatim>\<open>tabMap\<close>: of two tabs with one identifier the last one counts.\<close>

definition tab_of :: "deck_env \<Rightarrow> string \<Rightarrow> deck_tab option" where
  "tab_of E i = find (\<lambda>t. dt_id t = i) (rev (wd_tabs E))"

definition resolveWorkbenchId :: "deck_tab list \<Rightarrow> string option \<Rightarrow> string" where
  "resolveWorkbenchId tabs stored =
     (case stored of
        Some i \<Rightarrow> if list_ex (\<lambda>t. dt_id t = i) tabs then i else (case tabs of [] \<Rightarrow> [] | t # _ \<Rightarrow> dt_id t)
      | None \<Rightarrow> (case tabs of [] \<Rightarrow> [] | t # _ \<Rightarrow> dt_id t))"

definition resolveHashWorkbenchId :: "deck_tab list \<Rightarrow> (string \<times> string) list \<Rightarrow> string option" where
  "resolveHashWorkbenchId tabs params =
     (case map_of params ''workbench'' of
        Some i \<Rightarrow> if i \<noteq> [] \<and> list_ex (\<lambda>t. dt_id t = i) tabs then Some i else None
      | None \<Rightarrow> None)"

definition resolveInitialWorkbenchId :: "deck_tab list \<Rightarrow> (string \<times> string) list \<Rightarrow> string" where
  "resolveInitialWorkbenchId tabs params =
     (case resolveHashWorkbenchId tabs params of
        Some i \<Rightarrow> i
      | None \<Rightarrow> if ''view'' \<in> fst ` set params then ''__project'' else ''__new'')"

definition createProjectOverviewSession :: "string \<Rightarrow> WorkbenchSession" where
  "createProjectOverviewSession i = simple_session i ''__new'' ''overview''"

definition createNewPageSession :: "string \<Rightarrow> WorkbenchSession" where
  "createNewPageSession i = simple_session i ''__project'' ''new''"

definition initialWorkbenchSessions :: "deck_env \<Rightarrow> (string \<times> string) list \<Rightarrow> string \<Rightarrow> WorkbenchSession list" where
  "initialWorkbenchSessions E params i =
     (let route = resolveInitialWorkbenchId (wd_tabs E) params in
      if route = ''__new'' then [createProjectOverviewSession i]
      else if route = ''__project'' then [createNewPageSession i]
      else [simple_session i route (wd_translate E route (case find_tab E route of Some t \<Rightarrow> dt_label t | None \<Rightarrow> route))])"

definition deck_start :: "deck_env \<Rightarrow> AppStore \<Rightarrow> (string \<times> string) list \<Rightarrow> browser \<Rightarrow> string \<Rightarrow> deck" where
  "deck_start E store params b i =
     \<lparr> dk_sessions = initialWorkbenchSessions E params i, dk_activeId = i, dk_store = store, dk_params = params, dk_pickerOpen = False,
       dk_tabsMoreOpen = False, dk_curlOpen = False, dk_browser = b, dk_pending = None, dk_structures = (\<lambda>_. None), dk_events = [] \<rparr>"

definition activeSession :: "deck \<Rightarrow> WorkbenchSession option" where
  "activeSession s =
     (case find (\<lambda>w. ws_id w = dk_activeId s) (dk_sessions s) of
        Some w \<Rightarrow> Some w
      | None \<Rightarrow> (case dk_sessions s of [] \<Rightarrow> None | w # _ \<Rightarrow> Some w))"

section \<open>The address\<close>

definition params_delete :: "string \<Rightarrow> (string \<times> string) list \<Rightarrow> (string \<times> string) list" where
  "params_delete k ps = filter (\<lambda>(j, _). j \<noteq> k) ps"

definition clearInvalidWorkbenchHash :: "deck \<Rightarrow> deck" where
  "clearInvalidWorkbenchHash s = s\<lparr> dk_params := params_delete ''workbench'' (dk_params s) \<rparr>"

definition hashWorkbench :: "deck \<Rightarrow> string option" where
  "hashWorkbench s = map_of (dk_params s) ''workbench''"

section \<open>Sessions\<close>

definition special :: "string \<Rightarrow> bool" where
  "special wb = startsWith wb ''__''"

definition activateSession :: "WorkbenchSession \<Rightarrow> bool \<Rightarrow> deck \<Rightarrow> deck" where
  "activateSession w writeHash s =
     s\<lparr> dk_activeId := ws_id w, dk_pickerOpen := False,
        dk_store := (if special (ws_workbenchId w) then dk_store s else setActiveWorkbench (ws_workbenchId w) (dk_store s)),
        dk_params := (if writeHash \<and> \<not> special (ws_workbenchId w) then params_set ''workbench'' (ws_workbenchId w) (dk_params s)
                      else dk_params s) \<rparr>"

text \<open>What is known of a request that is opened.\<close>

record opened_request =
  op_id :: "string option"
  op_name :: "string option"
  op_title :: "string option"
  op_icon :: "string option"
  op_caseInterfaceName :: "string option"
  op_caseParentId :: "string option"

definition nothing_opened :: opened_request where
  "nothing_opened = \<lparr> op_id = None, op_name = None, op_title = None, op_icon = None, op_caseInterfaceName = None, op_caseParentId = None \<rparr>"

definition first_text :: "string list \<Rightarrow> string \<Rightarrow> string" where
  "first_text ts d = (case find (\<lambda>t. t \<noteq> []) ts of Some t \<Rightarrow> t | None \<Rightarrow> d)"

definition numbered_label :: "deck_env \<Rightarrow> deck \<Rightarrow> string \<Rightarrow> string" where
  "numbered_label E c i =
     (let n = length (filter (\<lambda>w. ws_workbenchId w = i) (dk_sessions c));
          label = wd_translate E i (case tab_of E i of Some t \<Rightarrow> dt_label t | None \<Rightarrow> i)
      in if n = 0 then label else label @ '' '' @ digits_of (Suc n))"

definition new_session :: "deck_env \<Rightarrow> deck \<Rightarrow> string \<Rightarrow> string \<Rightarrow> opened_request \<Rightarrow> WorkbenchSession" where
  "new_session E c uuid i r =
     \<lparr> ws_id = uuid, ws_workbenchId = i,
       ws_title = first_text [trim (or_default (op_title r) []), trim (or_default (op_name r) [])] (numbered_label E c i),
       ws_requestId = op_id r, ws_icon = op_icon r, ws_caseInterfaceName = op_caseInterfaceName r, ws_caseParentId = op_caseParentId r \<rparr>"

text \<open>A page that only offers to create something is replaced.\<close>

definition replaced_page :: "deck \<Rightarrow> string option" where
  "replaced_page c =
     (case activeSession c of
        Some w \<Rightarrow> if ws_workbenchId w \<in> {''__new'', ''__project''} then Some (ws_id w) else None
      | None \<Rightarrow> None)"

definition createWorkbench :: "deck_env \<Rightarrow> deck \<Rightarrow> string \<Rightarrow> string \<Rightarrow> bool \<Rightarrow> bool \<Rightarrow> opened_request \<Rightarrow> deck \<Rightarrow> deck \<times> WorkbenchSession option" where
  "createWorkbench E c uuid i writeHash resetDraft r s =
     (if tab_of E i = None then (s, None)
      else
        (let reset = (if resetDraft
                      then s\<lparr> dk_browser := clearWorkbenchDraft i (dk_browser s), dk_events := dk_events s @ [NewWorkbench i] \<rparr> else s);
             w = new_session E c uuid i r;
             added = reset\<lparr> dk_sessions := (case replaced_page c of
                 Some p \<Rightarrow> map (\<lambda>x. if ws_id x = p then w else x) (dk_sessions reset)
               | None \<Rightarrow> dk_sessions reset @ [w]) \<rparr>
         in (activateSession w writeHash added, Some w)))"

definition activate :: "deck_env \<Rightarrow> deck \<Rightarrow> string \<Rightarrow> string \<Rightarrow> bool \<Rightarrow> bool \<Rightarrow> deck \<Rightarrow> deck" where
  "activate E c uuid i writeHash resetDraft s =
     (if tab_of E i = None then s
      else (case find (\<lambda>w. ws_workbenchId w = i) (rev (dk_sessions c)) of
              Some w \<Rightarrow> activateSession w writeHash s
            | None \<Rightarrow> fst (createWorkbench E c uuid i writeHash resetDraft nothing_opened s)))"

definition createNewPage :: "string \<Rightarrow> deck \<Rightarrow> deck" where
  "createNewPage uuid s =
     s\<lparr> dk_sessions := dk_sessions s @ [createNewPageSession uuid], dk_activeId := uuid, dk_pickerOpen := False \<rparr>"

definition openScriptLibrary :: "deck \<Rightarrow> string \<Rightarrow> deck \<Rightarrow> deck" where
  "openScriptLibrary c uuid s =
     (case find (\<lambda>w. ws_workbenchId w = ''__scripts'') (dk_sessions c) of
        Some w \<Rightarrow> activateSession w False s
      | None \<Rightarrow> let w = simple_session uuid ''__scripts'' ''scripts''
                in activateSession w False (s\<lparr> dk_sessions := dk_sessions s @ [w] \<rparr>))"

definition openProjectHome :: "deck \<Rightarrow> string \<Rightarrow> deck \<Rightarrow> deck" where
  "openProjectHome c uuid s =
     (let t = (case find (\<lambda>w. ws_workbenchId w = ''__new'') (dk_sessions c) of
          Some w \<Rightarrow> activateSession w False s
        | None \<Rightarrow> s\<lparr> dk_sessions := dk_sessions s @ [createProjectOverviewSession uuid], dk_activeId := uuid, dk_pickerOpen := False \<rparr>)
      in if or_default (hashWorkbench t) [] \<noteq> [] then clearInvalidWorkbenchHash t else t)"

definition closeAllSessions :: "deck \<Rightarrow> deck" where
  "closeAllSessions s =
     s\<lparr> dk_sessions := [], dk_activeId := [], dk_tabsMoreOpen := False, dk_params := params_delete ''workbench'' (dk_params s) \<rparr>"

definition closeSession :: "deck \<Rightarrow> string \<Rightarrow> deck \<Rightarrow> deck" where
  "closeSession c i s =
     (case findIndex (\<lambda>w. ws_id w = i) (dk_sessions c) of
        None \<Rightarrow> s
      | Some n \<Rightarrow>
          (let remaining = filter (\<lambda>w. ws_id w \<noteq> i) (dk_sessions c) in
           if remaining = [] then (closeAllSessions s)\<lparr> dk_pickerOpen := False \<rparr>
           else (let t = s\<lparr> dk_sessions := remaining \<rparr>
                 in if i = dk_activeId c then activateSession (remaining ! min n (length remaining - 1)) True t else t)))"

definition closeOtherSessions :: "deck \<Rightarrow> deck \<Rightarrow> deck" where
  "closeOtherSessions c s =
     (case activeSession c of None \<Rightarrow> s | Some w \<Rightarrow> s\<lparr> dk_sessions := [w], dk_tabsMoreOpen := False \<rparr>)"

definition enterProjectEmptySession :: "deck \<Rightarrow> deck" where
  "enterProjectEmptySession s = s\<lparr> dk_sessions := [], dk_activeId := [], dk_pickerOpen := False, dk_tabsMoreOpen := False \<rparr>"

definition markRequestDeleted :: "string \<Rightarrow> deck \<Rightarrow> deck" where
  "markRequestDeleted deletedId s =
     (if deletedId = [] then s
      else s\<lparr> dk_sessions := map (\<lambda>w. if ws_requestId w = Some deletedId then w\<lparr> ws_requestId := None \<rparr> else w) (dk_sessions s) \<rparr>)"

definition updateSessionTitle :: "string \<Rightarrow> string \<Rightarrow> deck \<Rightarrow> deck" where
  "updateSessionTitle i title s =
     s\<lparr> dk_sessions := map (\<lambda>w. if ws_id w = i then w\<lparr> ws_title := title \<rparr> else w) (dk_sessions s) \<rparr>"

text \<open>A saved session takes its own identifier for its request, unless it has one.\<close>

definition session_saved :: "WorkbenchSession \<Rightarrow> deck \<Rightarrow> deck" where
  "session_saved w s =
     s\<lparr> dk_sessions := map (\<lambda>x. if ws_id x = ws_id w then x\<lparr> ws_requestId := Some (or_default (ws_requestId w) (ws_id w)) \<rparr> else x)
          (dk_sessions s) \<rparr>"

definition applyHash :: "deck_env \<Rightarrow> deck \<Rightarrow> string \<Rightarrow> deck \<Rightarrow> deck" where
  "applyHash E c uuid s =
     (case resolveHashWorkbenchId (wd_tabs E) (dk_params s) of
        Some i \<Rightarrow> activate E c uuid i False False s
      | None \<Rightarrow> if or_default (hashWorkbench s) [] \<noteq> [] then clearInvalidWorkbenchHash s else s)"

section \<open>Opening a request\<close>

definition string_of :: "jsval \<Rightarrow> string option" where
  "string_of v = (case v of JStr t \<Rightarrow> Some t | _ \<Rightarrow> None)"

text \<open>A read through \<^verbatim>\<open>?.\<close>\<close>

definition opt_get :: "jsval \<Rightarrow> string \<Rightarrow> jsval" where
  "opt_get v k = (if nullish v then JUndef else js_get v k)"

record case_presentation =
  pr_title :: string
  pr_interfaceName :: string
  pr_parentId :: string

definition resolveCasePresentation :: "jsval \<Rightarrow> case_presentation option" where
  "resolveCasePresentation detail =
     (if \<not> is_object detail then None
      else
        (let parent = opt_get (js_get detail ''variables'') ''__apivoyCaseOf'';
             interfaceName = trim (or_default (string_of (opt_get (js_get detail ''metadata'') ''__apivoyCaseInterfaceName'')) []);
             status = trim (or_default (string_of (js_get detail ''name'')) [])
         in if \<not> truthy parent then None
            else Some \<lparr> pr_title = (if interfaceName \<noteq> [] \<and> status \<noteq> [] then interfaceName @ ''('' @ status @ '')''
                                     else first_text [interfaceName, status] ''case''),
                        pr_interfaceName = interfaceName, pr_parentId = js_String parent \<rparr>))"

definition resolveOpenProtocol :: "jsval \<Rightarrow> string option" where
  "resolveOpenProtocol detail =
     (if \<not> is_object detail then None
      else (case string_of (js_get detail ''protocolId'') of
              Some p \<Rightarrow> Some p
            | None \<Rightarrow> (case string_of (js_get detail ''protocol'') of
                Some p \<Rightarrow> Some p
              | None \<Rightarrow> let payload = js_get detail ''payload'' in if is_object payload then string_of (js_get payload ''type'') else None)))"

text \<open>The first comparison also holds when neither side is defined.\<close>

definition matching_tab :: "deck_env \<Rightarrow> string option \<Rightarrow> deck_tab option" where
  "matching_tab E protocol =
     find (\<lambda>t. dt_protocol t = protocol \<or> or_default protocol [] \<in> set (dt_protocols t) \<or> Some (dt_id t) = protocol) (wd_tabs E)"

definition with_structure :: "jsval \<Rightarrow> jsval \<Rightarrow> jsval" where
  "with_structure detail structure =
     JObj (def_prop ''metadata''
       (JObj (def_prop INTERFACE_STRUCTURE_METADATA_KEY structure (entries (coalesce (js_get detail ''metadata'') (JObj []))))) (entries detail))"

text \<open>The request that is handed over: a case carries the structure of its interface. \<open>None\<close> when the address of the loaded
  interface is none, which throws in the handler.\<close>

definition opened_detail :: "deck_env \<Rightarrow> case_presentation option \<Rightarrow> HttpInterfaceStructure option \<Rightarrow> jsval \<Rightarrow> jsval option" where
  "opened_detail E presentation kept detail =
     (case presentation of
        None \<Rightarrow> Some detail
      | Some p \<Rightarrow>
          (case wd_load E of
             Some fetched \<Rightarrow>
               (case fetched (pr_parentId p) of
                  Some parent \<Rightarrow> map_option (\<lambda>st. with_structure detail (structure_val st)) (captureHttpInterfaceStructureV2 (wd_url E) parent)
                | None \<Rightarrow> Some detail)
           | None \<Rightarrow> Some (case kept of Some st \<Rightarrow> with_structure detail (structure_val st) | None \<Rightarrow> detail)))"

definition holds_request :: "string \<Rightarrow> WorkbenchSession \<Rightarrow> bool" where
  "holds_request i w = (ws_requestId w = Some i \<or> ws_id w = i)"

definition hand_over :: "deck_tab \<Rightarrow> string option \<Rightarrow> string \<Rightarrow> jsval \<Rightarrow> deck \<Rightarrow> deck" where
  "hand_over t protocol session detail s =
     (let hydrate = \<lparr> hy_workbenchId = dt_id t, hy_sessionId = (if dt_id t = ''http'' then Some session else None),
                       hy_protocolId = protocol, hy_envelope = detail \<rparr>
      in s\<lparr> dk_pending := stashHydrate hydrate (dk_pending s), dk_events := dk_events s @ [OpenDebugTab session, HydrateRequest hydrate] \<rparr>)"

definition opened_of :: "jsval \<Rightarrow> case_presentation option \<Rightarrow> opened_request" where
  "opened_of detail p =
     \<lparr> op_id = string_of (opt_get detail ''id''), op_name = string_of (opt_get detail ''name''), op_title = map_option pr_title p,
       op_icon = map_option (\<lambda>_. ''bolt'') p, op_caseInterfaceName = map_option pr_interfaceName p, op_caseParentId = map_option pr_parentId p \<rparr>"

text \<open>An active session of the same kind that has no request yet is used for the opened one.\<close>

definition reused_session :: "opened_request \<Rightarrow> WorkbenchSession \<Rightarrow> WorkbenchSession" where
  "reused_session r w =
     w\<lparr> ws_requestId := op_id r, ws_title := first_text [or_default (op_title r) [], trim (or_default (op_name r) [])] (ws_title w),
        ws_icon := op_icon r, ws_caseInterfaceName := op_caseInterfaceName r, ws_caseParentId := op_caseParentId r \<rparr>"

definition reusable_session :: "deck \<Rightarrow> string \<Rightarrow> WorkbenchSession option" where
  "reusable_session c wb =
     (case activeSession c of
        Some w \<Rightarrow> if ws_workbenchId w = wb \<and> or_default (ws_requestId w) [] = [] then Some w else None
      | None \<Rightarrow> None)"

definition take_structure :: "string \<Rightarrow> deck \<Rightarrow> HttpInterfaceStructure option \<times> deck" where
  "take_structure i s =
     (if i = [] then (None, s)
      else (case consumeCaseInterfaceStructure i (dk_structures s) of (st, rest) \<Rightarrow> (st, s\<lparr> dk_structures := rest \<rparr>)))"

text \<open>The handler waits for the interface of a case when the host can load it. What comes after works on the sessions and the
  active tab of the render the handler was made in, \<open>c\<close>, however long it waited.\<close>

definition open_awaits :: "deck_env \<Rightarrow> jsval \<Rightarrow> bool" where
  "open_awaits E detail \<longleftrightarrow> resolveCasePresentation detail \<noteq> None \<and> wd_load E \<noteq> None"

definition finish_open :: "deck_env \<Rightarrow> deck \<Rightarrow> string \<Rightarrow> deck_tab \<Rightarrow> jsval \<Rightarrow> HttpInterfaceStructure option \<Rightarrow> deck \<Rightarrow> deck" where
  "finish_open E c uuid t detail kept s =
     (let protocol = resolveOpenProtocol detail; p = resolveCasePresentation detail; r = opened_of detail p; i = or_default (op_id r) [] in
      case opened_detail E p kept detail of
        None \<Rightarrow> s
      | Some envelope \<Rightarrow>
          (case (if i = [] then None else find (holds_request i) (dk_sessions c)) of
             Some w \<Rightarrow> activateSession w True s
           | None \<Rightarrow>
               (case reusable_session c (dt_id t) of
                  Some w \<Rightarrow>
                    hand_over t protocol (ws_id w) envelope
                      (s\<lparr> dk_sessions := map (\<lambda>x. if ws_id x = ws_id w then reused_session r w else x) (dk_sessions s) \<rparr>)
                | None \<Rightarrow>
                    (case createWorkbench E c uuid (dt_id t) True False r s of
                       (u, None) \<Rightarrow> u
                     | (u, Some w) \<Rightarrow> hand_over t protocol (ws_id w) envelope u))))"

text \<open>The whole handler, when nothing happens while it waits.\<close>

definition openRequest :: "deck_env \<Rightarrow> deck \<Rightarrow> string \<Rightarrow> jsval \<Rightarrow> deck \<Rightarrow> deck" where
  "openRequest E c uuid detail s =
     (case matching_tab E (resolveOpenProtocol detail) of
        None \<Rightarrow> s
      | Some t \<Rightarrow>
          (case take_structure (or_default (string_of (opt_get detail ''id'')) []) s of
             (kept, s') \<Rightarrow> finish_open E c uuid t detail kept s'))"

text \<open>A request imported from a cURL command, with the identifier it is stored under; \<open>None\<close> when its address is none, which
  throws before it is stored.\<close>

definition imported_request :: "deck_env \<Rightarrow> HttpWorkbenchRequest \<Rightarrow> string \<Rightarrow> HttpWorkbenchRequest option" where
  "imported_request E request uuid =
     map_option (\<lambda>st. request\<lparr> hw_id := Some (or_default (hw_id request) uuid),
           hw_metadata := Some (JObj (def_prop INTERFACE_STRUCTURE_METADATA_KEY (structure_val st)
             (entries (or_default (hw_metadata request) (JObj []))))) \<rparr>)
       (captureHttpInterfaceStructureV2 (wd_url E) request)"

definition openImported :: "deck_env \<Rightarrow> deck \<Rightarrow> string \<Rightarrow> HttpWorkbenchRequest \<Rightarrow> jsval \<Rightarrow> deck \<Rightarrow> deck" where
  "openImported E c uuid saved saved_val s =
     (case createWorkbench E c uuid ''http'' True True (nothing_opened\<lparr> op_id := hw_id saved, op_name := hw_name saved \<rparr>) s of
        (t, None) \<Rightarrow> t
      | (t, Some w) \<Rightarrow>
          (let hydrate = \<lparr> hy_workbenchId = ''http'', hy_sessionId = Some (ws_id w), hy_protocolId = Some ''http'',
                            hy_envelope = JObj [(''request'', saved_val)] \<rparr>
           in t\<lparr> dk_pending := stashHydrate hydrate (dk_pending t), dk_curlOpen := False, dk_events := dk_events t @ [HydrateRequest hydrate] \<rparr>))"

section \<open>Handlers that wait\<close>

text \<open>
  A handler that waits for the host keeps what it read before: the event of \<^verbatim>\<open>openRequest\<close> with its render, tab and stashed
  structure, the session whose request is being saved, the render and the request of an import.
\<close>

datatype waiting =
    Opening deck deck_tab jsval "HttpInterfaceStructure option"
  | Saving WorkbenchSession
  | Importing deck HttpWorkbenchRequest

type_synonym deck_run = "deck \<times> waiting list"

end
