(* ===== verification/WorkbenchDeckLaws.thy ===== *)
theory WorkbenchDeckLaws imports WorkbenchDeck begin

text \<open>
  What the deck promises in every order of events: a request is open in one tab at most, and the active tab is one of the open
  ones. A handler registered by the effect over the sessions sees the sessions of the last render and possibly an older active
  identifier, and a handler that waits for the host goes on with what it saw before; the last section shows what that costs.
\<close>

section \<open>The invariant\<close>

definition one_tab :: "WorkbenchSession list \<Rightarrow> bool" where
  "one_tab ss \<longleftrightarrow> distinct (map ws_id ss)
     \<and> (\<forall>i v w. i \<noteq> [] \<longrightarrow> v \<in> set ss \<longrightarrow> w \<in> set ss \<longrightarrow> holds_request i v \<longrightarrow> holds_request i w \<longrightarrow> ws_id v = ws_id w)"

definition deck_ok :: "deck \<Rightarrow> bool" where
  "deck_ok s \<longleftrightarrow> one_tab (dk_sessions s) \<and> (dk_sessions s \<noteq> [] \<longrightarrow> dk_activeId s \<in> ws_id ` set (dk_sessions s))"

text \<open>A session shares no identifier with a list of sessions.\<close>

definition apart :: "WorkbenchSession \<Rightarrow> WorkbenchSession \<Rightarrow> bool" where
  "apart w x \<longleftrightarrow> ws_id w \<noteq> ws_id x \<and> (\<forall>i. i \<noteq> [] \<longrightarrow> holds_request i w \<longrightarrow> \<not> holds_request i x)"

definition fresh_for :: "string \<Rightarrow> deck \<Rightarrow> bool" where
  "fresh_for u s \<longleftrightarrow> u \<noteq> [] \<and> (\<forall>w\<in>set (dk_sessions s). \<not> holds_request u w)"

lemma apart_sym: "apart w x \<Longrightarrow> apart x w"
  by (auto simp: apart_def)

lemma one_tab_Cons: "one_tab (w # ss) \<longleftrightarrow> (\<forall>x\<in>set ss. apart w x) \<and> one_tab ss"
  unfolding one_tab_def apart_def by (auto simp: image_iff)

lemma one_tab_Nil [simp]: "one_tab []"
  by (simp add: one_tab_def)

lemma one_tab_append: "one_tab (ss @ ts) \<longleftrightarrow> one_tab ss \<and> one_tab ts \<and> (\<forall>x\<in>set ss. \<forall>y\<in>set ts. apart x y)"
  by (induction ss) (auto simp: one_tab_Cons)

lemma one_tab_filter: "one_tab ss \<Longrightarrow> one_tab (filter p ss)"
  by (induction ss) (auto simp: one_tab_Cons)

lemma one_tab_add: "one_tab ss \<Longrightarrow> (\<And>x. x \<in> set ss \<Longrightarrow> apart w x) \<Longrightarrow> one_tab (ss @ [w])"
  by (auto simp: one_tab_append one_tab_Cons intro: apart_sym)

lemma one_tab_replace:
  "one_tab ss \<Longrightarrow> (\<And>x. x \<in> set ss \<Longrightarrow> ws_id x \<noteq> p \<Longrightarrow> apart w x) \<Longrightarrow> one_tab (map (\<lambda>x. if ws_id x = p then w else x) ss)"
proof (induction ss)
  case (Cons y ss)
  have later: "ws_id y = p \<Longrightarrow> x \<in> set ss \<Longrightarrow> ws_id x \<noteq> p" for x using Cons.prems(1) by (auto simp: one_tab_Cons apart_def)
  show ?case using Cons later by (auto simp: one_tab_Cons intro: apart_sym)
qed simp

lemma one_tab_shrink:
  assumes "one_tab ss" "\<And>x. ws_id (f x) = ws_id x" "\<And>i x. holds_request i (f x) \<Longrightarrow> holds_request i x"
  shows "one_tab (map f ss)"
proof -
  have apart: "apart (f w) (f x)" if "apart w x" for w x using that assms(2,3) unfolding apart_def by metis
  from assms(1) show ?thesis by (induction ss) (auto simp: one_tab_Cons intro: apart)
qed

lemma one_tab_id: "one_tab ss \<Longrightarrow> v \<in> set ss \<Longrightarrow> w \<in> set ss \<Longrightarrow> ws_id v = ws_id w \<Longrightarrow> v = w"
  by (induction ss) (auto simp: one_tab_Cons apart_def)

lemma one_tab_same: "one_tab ss \<Longrightarrow> v \<in> set ss \<Longrightarrow> w \<in> set ss \<Longrightarrow> holds_request i v \<Longrightarrow> holds_request i w \<Longrightarrow> i \<noteq> [] \<Longrightarrow> v = w"
  using one_tab_id [of ss v w] unfolding one_tab_def by blast

lemma new_apart:
  assumes "fresh_for u s" "ws_id w = u" "x \<in> set (dk_sessions s)" "\<And>i. i \<noteq> [] \<Longrightarrow> ws_requestId w = Some i \<Longrightarrow> \<not> holds_request i x"
  shows "apart w x"
  using assms by (auto simp: apart_def fresh_for_def holds_request_def)

section \<open>Operations keep it\<close>

text \<open>The tab that was active in the render \<open>c\<close> is still open.\<close>

definition active_kept :: "deck \<Rightarrow> deck \<Rightarrow> bool" where
  "active_kept c s \<longleftrightarrow> (case activeSession c of None \<Rightarrow> True | Some w \<Rightarrow> ws_id w \<in> ws_id ` set (dk_sessions s))"

lemma activate_session_ok:
  "one_tab (dk_sessions s) \<Longrightarrow> ws_id w \<in> ws_id ` set (dk_sessions s) \<Longrightarrow> deck_ok (activateSession w h s)"
  by (auto simp: deck_ok_def activateSession_def)

lemma activateSession_fields [simp]:
  "dk_sessions (activateSession w h s) = dk_sessions s" "dk_activeId (activateSession w h s) = ws_id w"
  "dk_events (activateSession w h s) = dk_events s" "dk_pending (activateSession w h s) = dk_pending s"
  by (simp_all add: activateSession_def)

lemma activeSession_in: "activeSession s = Some w \<Longrightarrow> w \<in> set (dk_sessions s)"
  by (auto simp: activeSession_def split: option.splits list.splits dest: find_Some_set)

lemma replaced_page_in: "replaced_page c = Some p \<Longrightarrow> p \<in> ws_id ` set (dk_sessions c)"
  by (auto simp: replaced_page_def split: option.splits if_splits dest: activeSession_in)

lemma same_active_kept: "dk_sessions c = dk_sessions s \<Longrightarrow> active_kept c s"
  by (auto simp: active_kept_def split: option.split dest: activeSession_in)

lemma replaced_page_kept: "active_kept c s \<Longrightarrow> replaced_page c = Some p \<Longrightarrow> p \<in> ws_id ` set (dk_sessions s)"
  by (auto simp: active_kept_def replaced_page_def split: option.splits if_splits)

lemma createWorkbench_parts:
  assumes "createWorkbench E c u i h reset r s = (t, Some w)"
  shows "w = new_session E c u i r" "dk_activeId t = u"
    "dk_sessions t = (case replaced_page c of Some p \<Rightarrow> map (\<lambda>x. if ws_id x = p then w else x) (dk_sessions s) | None \<Rightarrow> dk_sessions s @ [w])"
  using assms by (auto simp: createWorkbench_def new_session_def Let_def split: if_splits option.splits)

lemma createWorkbench_none: "createWorkbench E c u i h reset r s = (t, None) \<Longrightarrow> t = s"
  by (auto simp: createWorkbench_def Let_def split: if_splits)

lemma createWorkbench_ok:
  assumes ok: "deck_ok s" and kept: "active_kept c s" and u: "fresh_for u s"
    and r: "\<And>i x. i \<noteq> [] \<Longrightarrow> op_id r = Some i \<Longrightarrow> x \<in> set (dk_sessions s) \<Longrightarrow> \<not> holds_request i x"
  shows "deck_ok (fst (createWorkbench E c u wb h reset r s))"
proof (cases "createWorkbench E c u wb h reset r s")
  case (Pair t o')
  show ?thesis
  proof (cases o')
    case None
    then show ?thesis using ok Pair createWorkbench_none by fastforce
  next
    case (Some w)
    note parts = createWorkbench_parts [OF Pair [unfolded Some]]
    have apart: "apart w x" if "x \<in> set (dk_sessions s)" for x
      using that r by (intro new_apart [OF u]) (auto simp: parts(1) new_session_def)
    have w: "ws_id w = u" by (simp add: parts(1) new_session_def)
    show ?thesis
    proof (cases "replaced_page c")
      case None
      then show ?thesis using ok parts(2,3) apart w Pair by (auto simp: deck_ok_def intro!: one_tab_add)
    next
      case p: (Some p)
      then have "p \<in> ws_id ` set (dk_sessions s)" using replaced_page_kept [OF kept] by simp
      then have "u \<in> ws_id ` set (dk_sessions t)" using p parts(3) w by (auto simp: image_iff)
      then show ?thesis using ok parts(2,3) apart p Pair by (auto simp: deck_ok_def intro!: one_tab_replace)
    qed
  qed
qed

lemma activate_ok:
  assumes "deck_ok s" "dk_sessions c = dk_sessions s" "fresh_for u s"
  shows "deck_ok (activate E c u wb h reset s)"
proof (cases "tab_of E wb = None")
  case False
  show ?thesis
  proof (cases "find (\<lambda>w. ws_workbenchId w = wb) (rev (dk_sessions c))")
    case None
    have "deck_ok (fst (createWorkbench E c u wb h reset nothing_opened s))"
      by (rule createWorkbench_ok [OF assms(1) same_active_kept [OF assms(2)] assms(3)]) (simp add: nothing_opened_def)
    then show ?thesis using False None by (auto simp: activate_def)
  next
    case (Some w)
    then have "w \<in> set (dk_sessions s)" using assms(2) by (auto dest: find_Some_set)
    then show ?thesis using False Some assms(1) by (auto simp: activate_def deck_ok_def)
  qed
qed (use assms in \<open>simp add: activate_def\<close>)

lemma deck_ok_frame: "deck_ok s \<Longrightarrow> dk_sessions t = dk_sessions s \<Longrightarrow> dk_activeId t = dk_activeId s \<Longrightarrow> deck_ok t"
  by (simp add: deck_ok_def)

lemma add_plain_ok:
  assumes "deck_ok s" "fresh_for u s" "dk_sessions t = dk_sessions s @ [simple_session u wb title]" "dk_activeId t = u"
  shows "deck_ok t"
proof -
  have "one_tab (dk_sessions t)" unfolding assms(3)
    by (rule one_tab_add) (use assms in \<open>auto simp: deck_ok_def simple_session_def intro!: new_apart\<close>)
  then show ?thesis using assms(3,4) by (simp add: deck_ok_def simple_session_def)
qed

lemma activate_found_ok:
  "deck_ok s \<Longrightarrow> dk_sessions c = dk_sessions s \<Longrightarrow> find p (dk_sessions c) = Some w \<Longrightarrow> deck_ok (activateSession w h s)"
  by (rule activate_session_ok) (auto simp: deck_ok_def dest: find_Some_set)

lemma scripts_ok:
  assumes "deck_ok s" "dk_sessions c = dk_sessions s" "fresh_for u s"
  shows "deck_ok (openScriptLibrary c u s)"
proof (cases "find (\<lambda>w. ws_workbenchId w = ''__scripts'') (dk_sessions c)")
  case None
  let ?w = "simple_session u ''__scripts'' ''scripts''"
  have "openScriptLibrary c u s = activateSession ?w False (s\<lparr> dk_sessions := dk_sessions s @ [?w] \<rparr>)"
    unfolding openScriptLibrary_def None Let_def option.case ..
  moreover have "ws_id ?w = u" by (simp add: simple_session_def)
  ultimately have "dk_sessions (openScriptLibrary c u s) = dk_sessions s @ [?w]" "dk_activeId (openScriptLibrary c u s) = u" by simp_all
  then show ?thesis by (rule add_plain_ok [OF assms(1,3)])
next
  case (Some w)
  then show ?thesis using activate_found_ok [OF assms(1,2) Some] unfolding openScriptLibrary_def by simp
qed

lemma clear_hash_frame: "deck_ok t \<Longrightarrow> deck_ok (clearInvalidWorkbenchHash t)"
  by (rule deck_ok_frame) (simp_all add: clearInvalidWorkbenchHash_def)

lemma hash_cleared_if: "deck_ok t \<Longrightarrow> deck_ok (if b then clearInvalidWorkbenchHash t else t)"
  using clear_hash_frame by simp

lemma project_home_ok: "deck_ok s \<Longrightarrow> dk_sessions c = dk_sessions s \<Longrightarrow> fresh_for u s \<Longrightarrow> deck_ok (openProjectHome c u s)"
proof -
  assume ok: "deck_ok s" "dk_sessions c = dk_sessions s" "fresh_for u s"
  have "deck_ok (case find (\<lambda>w. ws_workbenchId w = ''__new'') (dk_sessions c) of
          Some w \<Rightarrow> activateSession w False s
        | None \<Rightarrow> s\<lparr> dk_sessions := dk_sessions s @ [createProjectOverviewSession u], dk_activeId := u, dk_pickerOpen := False \<rparr>)"
  proof (cases "find (\<lambda>w. ws_workbenchId w = ''__new'') (dk_sessions c)")
    case None
    then show ?thesis using ok by (auto simp: createProjectOverviewSession_def intro!: add_plain_ok [of s u])
  next
    case (Some w)
    then have "w \<in> set (dk_sessions s)" using ok(2) by (auto dest: find_Some_set)
    then show ?thesis using Some ok by (auto simp: deck_ok_def)
  qed
  then show ?thesis unfolding openProjectHome_def Let_def by (rule hash_cleared_if)
qed

lemma new_page_ok: "deck_ok s \<Longrightarrow> fresh_for u s \<Longrightarrow> deck_ok (createNewPage u s)"
  by (rule add_plain_ok [of s u]) (simp_all add: createNewPage_def createNewPageSession_def)

lemma close_ok: "deck_ok s \<Longrightarrow> deck_ok (closeSession s i s)"
proof (cases "findIndex (\<lambda>w. ws_id w = i) (dk_sessions s)")
  case (Some n)
  assume ok: "deck_ok s"
  let ?r = "filter (\<lambda>w. ws_id w \<noteq> i) (dk_sessions s)"
  have tab: "one_tab ?r" using ok by (simp add: deck_ok_def one_tab_filter)
  show ?thesis
  proof (cases "?r = []")
    case True
    then show ?thesis using Some by (simp add: closeSession_def closeAllSessions_def deck_ok_def)
  next
    case False
    have "?r ! min n (length ?r - 1) \<in> set ?r" using False by (intro nth_mem) (cases ?r, auto)
    moreover have "i \<noteq> dk_activeId s \<Longrightarrow> dk_activeId s \<in> ws_id ` set ?r" using ok False by (auto simp: deck_ok_def filter_empty_conv)
    moreover have "closeSession s i s = (let t = s\<lparr> dk_sessions := ?r \<rparr>
        in if i = dk_activeId s then activateSession (?r ! min n (length ?r - 1)) True t else t)"
      using Some False unfolding closeSession_def Let_def by simp
    ultimately show ?thesis using tab unfolding Let_def by (cases "i = dk_activeId s") (simp_all add: deck_ok_def del: set_filter)
  qed
qed (simp add: closeSession_def)

lemma close_others_ok: "deck_ok s \<Longrightarrow> deck_ok (closeOtherSessions s s)"
proof (cases "activeSession s")
  case (Some w)
  assume ok: "deck_ok s"
  have "dk_activeId s = ws_id w"
  proof (cases "find (\<lambda>x. ws_id x = dk_activeId s) (dk_sessions s)")
    case None
    then show ?thesis using ok Some by (auto simp: activeSession_def deck_ok_def find_None_iff split: list.splits)
  next
    case (Some x)
    then show ?thesis using \<open>activeSession s = Some w\<close> by (auto simp: activeSession_def dest: find_Some_set)
  qed
  then show ?thesis using Some by (simp add: closeOtherSessions_def deck_ok_def one_tab_Cons)
qed (simp add: closeOtherSessions_def)

lemma map_sessions_ok:
  assumes "deck_ok s" "\<And>x. ws_id (f x) = ws_id x" "one_tab (map f (dk_sessions s))"
  shows "deck_ok (s\<lparr> dk_sessions := map f (dk_sessions s) \<rparr>)"
proof -
  have "ws_id ` set (map f (dk_sessions s)) = ws_id ` set (dk_sessions s)" by (simp add: image_image assms(2))
  then show ?thesis using assms(1,3) by (simp add: deck_ok_def)
qed

lemma deleted_ok: "deck_ok s \<Longrightarrow> deck_ok (markRequestDeleted i s)"
proof (cases "i = []")
  case False
  assume ok: "deck_ok s"
  have "deck_ok (s\<lparr> dk_sessions := map (\<lambda>w. if ws_requestId w = Some i then w\<lparr> ws_requestId := None \<rparr> else w) (dk_sessions s) \<rparr>)"
    by (intro map_sessions_ok one_tab_shrink) (use ok in \<open>auto simp: deck_ok_def holds_request_def split: if_splits\<close>)
  then show ?thesis using False by (simp add: markRequestDeleted_def)
qed (simp add: markRequestDeleted_def)

lemma title_ok: "deck_ok s \<Longrightarrow> deck_ok (updateSessionTitle i title s)"
  unfolding updateSessionTitle_def
  by (intro map_sessions_ok one_tab_shrink) (auto simp: deck_ok_def holds_request_def split: if_splits)

text \<open>The identifier a session is saved under; no other tab may hold it when the save settles.\<close>

definition save_id :: "WorkbenchSession \<Rightarrow> string" where
  "save_id w = or_default (ws_requestId w) (ws_id w)"

definition save_alone :: "WorkbenchSession \<Rightarrow> deck \<Rightarrow> bool" where
  "save_alone w s \<longleftrightarrow> (\<forall>x\<in>set (dk_sessions s). holds_request (save_id w) x \<longrightarrow> ws_id x = ws_id w)"

lemma saved_ok:
  assumes ok: "deck_ok s" and alone: "save_alone w s"
  shows "deck_ok (session_saved w s)"
  unfolding session_saved_def save_id_def [symmetric]
proof (rule map_sessions_ok [OF ok])
  have one: "one_tab (dk_sessions s)" using ok by (simp add: deck_ok_def)
  let ?f = "\<lambda>x. if ws_id x = ws_id w then x\<lparr> ws_requestId := Some (save_id w) \<rparr> else x"
  show "one_tab (map ?f (dk_sessions s))"
  proof (cases "\<exists>y\<in>set (dk_sessions s). ws_id y = ws_id w")
    case False
    then have "map ?f (dk_sessions s) = dk_sessions s" by (auto intro: map_idI)
    then show ?thesis using one by simp
  next
    case True
    then obtain y where y: "y \<in> set (dk_sessions s)" "ws_id y = ws_id w" by blast
    let ?y = "y\<lparr> ws_requestId := Some (save_id w) \<rparr>"
    have "map ?f (dk_sessions s) = map (\<lambda>x. if ws_id x = ws_id w then ?y else x) (dk_sessions s)"
      using one y by (auto dest: one_tab_id)
    moreover have "one_tab (map (\<lambda>x. if ws_id x = ws_id w then ?y else x) (dk_sessions s))"
    proof (rule one_tab_replace [OF one])
      fix x assume x: "x \<in> set (dk_sessions s)" "ws_id x \<noteq> ws_id w"
      then have "\<not> holds_request (save_id w) x" using alone by (auto simp: save_alone_def)
      moreover have "apart y x" using one y x unfolding apart_def one_tab_def by metis
      ultimately show "apart ?y x" by (auto simp: apart_def holds_request_def)
    qed
    ultimately show ?thesis by (simp only:)
  qed
qed auto

section \<open>Opening a request\<close>

lemma take_structure_fields:
  "dk_sessions (snd (take_structure i s)) = dk_sessions s" "dk_activeId (snd (take_structure i s)) = dk_activeId s"
  by (auto simp: take_structure_def split: prod.split)

lemma hand_over_fields [simp]:
  "dk_sessions (hand_over t p i d s) = dk_sessions s" "dk_activeId (hand_over t p i d s) = dk_activeId s"
  by (simp_all add: hand_over_def Let_def)

text \<open>The three ways to open a request: its tab is shown, the empty active tab takes it, or a tab is created.\<close>

definition opened_id :: "jsval \<Rightarrow> string" where
  "opened_id detail = or_default (string_of (opt_get detail ''id'')) []"

definition shows_tab :: "deck \<Rightarrow> jsval \<Rightarrow> WorkbenchSession option" where
  "shows_tab c detail = (if opened_id detail = [] then None else find (holds_request (opened_id detail)) (dk_sessions c))"

lemma op_id_opened: "op_id (opened_of detail p) = string_of (opt_get detail ''id'')"
  by (simp add: opened_of_def)

lemma openRequest_finish:
  "openRequest E c u detail s =
     (case matching_tab E (resolveOpenProtocol detail) of
        None \<Rightarrow> s
      | Some t \<Rightarrow> finish_open E c u t detail (fst (take_structure (opened_id detail) s)) (snd (take_structure (opened_id detail) s)))"
  by (auto simp: openRequest_def opened_id_def split: option.split prod.split)

lemma finish_open_cases:
  obtains (fails) "opened_detail E (resolveCasePresentation detail) kept detail = None" "finish_open E c u t detail kept s = s"
  | (shown) w where "shows_tab c detail = Some w"
      "dk_sessions (finish_open E c u t detail kept s) = dk_sessions s" "dk_activeId (finish_open E c u t detail kept s) = ws_id w"
  | (reused) w p where "shows_tab c detail = None" "reusable_session c (dt_id t) = Some w"
      "dk_sessions (finish_open E c u t detail kept s) = map (\<lambda>x. if ws_id x = ws_id w then reused_session (opened_of detail p) w else x) (dk_sessions s)"
      "dk_activeId (finish_open E c u t detail kept s) = dk_activeId s"
  | (created) p where "shows_tab c detail = None" "reusable_session c (dt_id t) = None"
      "dk_sessions (finish_open E c u t detail kept s) = dk_sessions (fst (createWorkbench E c u (dt_id t) True False (opened_of detail p) s))"
      "dk_activeId (finish_open E c u t detail kept s) = dk_activeId (fst (createWorkbench E c u (dt_id t) True False (opened_of detail p) s))"
proof -
  let ?p = "resolveCasePresentation detail"
  note def = finish_open_def [of E c u t detail kept s, unfolded Let_def op_id_opened opened_id_def [symmetric] shows_tab_def [symmetric]]
  show ?thesis
  proof (cases "opened_detail E ?p kept detail")
    case None
    then show ?thesis using def by (intro fails) simp_all
  next
    case e: (Some envelope)
    show ?thesis
    proof (cases "shows_tab c detail")
      case (Some w)
      then show ?thesis using def e by (intro shown [OF Some]) simp_all
    next
      case none: None
      show ?thesis
      proof (cases "reusable_session c (dt_id t)")
        case (Some w)
        then show ?thesis using def e none by (intro reused [OF none Some, of ?p]) simp_all
      next
        case r: None
        show ?thesis using def e none r by (intro created [OF none r, of ?p]) (simp_all split: prod.split option.split)
      qed
    qed
  qed
qed

text \<open>While a handler with the render \<open>c\<close> waited to open \<open>i\<close>, the tab that was active stayed open, no tab that holds \<open>i\<close> was
  opened where there was none, and none was closed.\<close>

definition undisturbed :: "string \<Rightarrow> deck \<Rightarrow> deck \<Rightarrow> bool" where
  "undisturbed i c s \<longleftrightarrow> active_kept c s \<and> (\<forall>w\<in>set (dk_sessions c). holds_request i w \<longrightarrow> ws_id w \<in> ws_id ` set (dk_sessions s))
     \<and> (\<forall>x\<in>set (dk_sessions s). holds_request i x \<longrightarrow> (\<exists>w\<in>set (dk_sessions c). holds_request i w))"

lemma same_undisturbed: "dk_sessions c = dk_sessions s \<Longrightarrow> undisturbed i c s"
  by (auto simp: undisturbed_def same_active_kept)

lemma not_shown:
  "shows_tab c detail = None \<Longrightarrow> undisturbed (opened_id detail) c s \<Longrightarrow> i \<noteq> [] \<Longrightarrow> string_of (opt_get detail ''id'') = Some i
   \<Longrightarrow> x \<in> set (dk_sessions s) \<Longrightarrow> \<not> holds_request i x"
  by (auto simp: shows_tab_def opened_id_def undisturbed_def find_None_iff)

lemma reusable_active: "reusable_session c wb = Some w \<Longrightarrow> activeSession c = Some w"
  by (auto simp: reusable_session_def split: option.splits if_splits)

lemma finish_open_ok:
  assumes ok: "deck_ok s" and calm: "undisturbed (opened_id detail) c s" and u: "fresh_for u s"
  shows "deck_ok (finish_open E c u t detail kept s)"
proof (cases rule: finish_open_cases [of E detail kept c u t s])
  case fails
  then show ?thesis using ok by simp
next
  case (shown w)
  then have "w \<in> set (dk_sessions c)" "holds_request (opened_id detail) w" by (auto simp: shows_tab_def split: if_splits dest: find_Some_set)
  then have "ws_id w \<in> ws_id ` set (dk_sessions s)" using calm by (auto simp: undisturbed_def)
  then show ?thesis using shown ok by (simp add: deck_ok_def)
next
  case (reused w p)
  let ?w = "reused_session (opened_of detail p) w"
  have "ws_id w \<in> ws_id ` set (dk_sessions s)" using reusable_active [OF reused(2)] calm by (simp add: undisturbed_def active_kept_def)
  then obtain y where y: "y \<in> set (dk_sessions s)" "ws_id y = ws_id w" by auto
  have ids: "ws_id ?w = ws_id w" by (simp add: reused_session_def)
  have one: "one_tab (map (\<lambda>x. if ws_id x = ws_id w then ?w else x) (dk_sessions s))"
  proof (rule one_tab_replace)
    show "one_tab (dk_sessions s)" using ok by (simp add: deck_ok_def)
    fix x assume x: "x \<in> set (dk_sessions s)" "ws_id x \<noteq> ws_id w"
    then have "apart y x" using ok y unfolding deck_ok_def one_tab_def apart_def by metis
    then show "apart ?w x" using not_shown [OF reused(1) calm] x y(2)
      by (auto simp: apart_def holds_request_def reused_session_def opened_of_def)
  qed
  have "map ws_id (map (\<lambda>x. if ws_id x = ws_id w then ?w else x) (dk_sessions s)) = map ws_id (dk_sessions s)"
    by (simp add: ids)
  then have "ws_id ` set (map (\<lambda>x. if ws_id x = ws_id w then ?w else x) (dk_sessions s)) = ws_id ` set (dk_sessions s)"
    by (metis set_map)
  then show ?thesis using one ok unfolding deck_ok_def reused(3,4) by simp
next
  case (created p)
  have "deck_ok (fst (createWorkbench E c u (dt_id t) True False (opened_of detail p) s))"
    by (rule createWorkbench_ok [OF ok _ u]) (use calm not_shown [OF created(1) calm] in \<open>auto simp: undisturbed_def opened_of_def\<close>)
  then show ?thesis using created(3,4) by (simp add: deck_ok_def)
qed

lemma taken_ok: "deck_ok s \<Longrightarrow> deck_ok (snd (take_structure i s))"
  by (rule deck_ok_frame) (simp_all add: take_structure_fields)

lemma undisturbed_frame: "undisturbed i c s \<Longrightarrow> dk_sessions s' = dk_sessions s \<Longrightarrow> undisturbed i c s'"
  by (cases "activeSession c") (simp_all add: undisturbed_def active_kept_def)

lemma fresh_frame: "fresh_for u s \<Longrightarrow> dk_sessions s' = dk_sessions s \<Longrightarrow> fresh_for u s'"
  by (simp add: fresh_for_def)

lemma open_request_ok:
  assumes "deck_ok s" "dk_sessions c = dk_sessions s" "fresh_for u s"
  shows "deck_ok (openRequest E c u detail s)"
proof (cases "matching_tab E (resolveOpenProtocol detail)")
  case (Some t)
  let ?s = "snd (take_structure (opened_id detail) s)"
  have "deck_ok (finish_open E c u t detail kept ?s)" for kept
    by (rule finish_open_ok [OF taken_ok [OF assms(1)] undisturbed_frame [OF same_undisturbed [OF assms(2)]] fresh_frame [OF assms(3)]])
      (simp_all add: take_structure_fields)
  then show ?thesis using Some by (simp add: openRequest_finish)
qed (use assms in \<open>simp add: openRequest_finish\<close>)

section \<open>All orders of events\<close>

text \<open>
  The events of the deck, with the handlers that wait. The tabs, menus and pages use the present render; the listeners of
  \<^verbatim>\<open>openRequest\<close>, of the navigation and of the address are those registered for the present sessions and may have an
  older active identifier, \<open>c\<close>. A handler that waited goes on with the render it started from, in any order among the others,
  or ends when the host or a parser fails. \<open>late\<close> tells how: when it is false, only in decks where what it read still holds,
  see \<open>undisturbed\<close> and \<open>save_alone\<close>; when it is true, in every deck, as in the program. Identifiers drawn by
  \<^verbatim>\<open>crypto.randomUUID\<close> are new.
\<close>

inductive deck_step :: "deck_env \<Rightarrow> bool \<Rightarrow> deck_run \<Rightarrow> deck_run \<Rightarrow> bool" for E late where
  opens: "dk_sessions c = dk_sessions s \<Longrightarrow> fresh_for u s \<Longrightarrow> \<not> open_awaits E detail
    \<Longrightarrow> deck_step E late (s, ws) (openRequest E c u detail s, ws)"
| starts_opening: "dk_sessions c = dk_sessions s \<Longrightarrow> open_awaits E detail \<Longrightarrow> matching_tab E (resolveOpenProtocol detail) = Some t
    \<Longrightarrow> take_structure (opened_id detail) s = (kept, s') \<Longrightarrow> deck_step E late (s, ws) (s', ws @ [Opening c t detail kept])"
| opened: "late \<or> undisturbed (opened_id detail) c s \<Longrightarrow> fresh_for u s
    \<Longrightarrow> deck_step E late (s, vs @ Opening c t detail kept # ws) (finish_open E c u t detail kept s, vs @ ws)"
| selects: "dk_sessions c = dk_sessions s \<Longrightarrow> fresh_for u s \<Longrightarrow> deck_step E late (s, ws) (activate E c u wb True True s, ws)"
| creates: "dk_sessions c = dk_sessions s \<Longrightarrow> fresh_for u s
    \<Longrightarrow> deck_step E late (s, ws) (fst (createWorkbench E c u wb True True nothing_opened s), ws)"
| follows_hash: "dk_sessions c = dk_sessions s \<Longrightarrow> fresh_for u s \<Longrightarrow> deck_step E late (s, ws) (applyHash E c u s, ws)"
| opens_scripts: "dk_sessions c = dk_sessions s \<Longrightarrow> fresh_for u s \<Longrightarrow> deck_step E late (s, ws) (openScriptLibrary c u s, ws)"
| goes_home: "dk_sessions c = dk_sessions s \<Longrightarrow> fresh_for u s \<Longrightarrow> deck_step E late (s, ws) (openProjectHome c u s, ws)"
| adds_page: "fresh_for u s \<Longrightarrow> deck_step E late (s, ws) (createNewPage u s, ws)"
| clicks_tab: "w \<in> set (dk_sessions s) \<Longrightarrow> deck_step E late (s, ws) (activateSession w True s, ws)"
| closes: "deck_step E late (s, ws) (closeSession s i s, ws)"
| closes_all: "deck_step E late (s, ws) (closeAllSessions s, ws)"
| closes_others: "deck_step E late (s, ws) (closeOtherSessions s s, ws)"
| enters_project: "deck_step E late (s, ws) (enterProjectEmptySession s, ws)"
| deletes_request: "deck_step E late (s, ws) (markRequestDeleted i s, ws)"
| retitles: "deck_step E late (s, ws) (updateSessionTitle i title s, ws)"
| starts_saving: "w \<in> set (dk_sessions s) \<Longrightarrow> deck_step E late (s, ws) (s, ws @ [Saving w])"
| saved: "late \<or> save_alone w s \<Longrightarrow> deck_step E late (s, vs @ Saving w # ws) (session_saved w s, vs @ ws)"
| starts_import: "fresh_for v s \<Longrightarrow> hw_id request = None \<Longrightarrow> imported_request E request v = Some stored
    \<Longrightarrow> deck_step E late (s, ws) (s, ws @ [Importing s stored])"
| imported: "late \<or> undisturbed (or_default (hw_id stored) []) c s \<Longrightarrow> fresh_for u s
    \<Longrightarrow> deck_step E late (s, vs @ Importing c stored # ws) (openImported E c u stored (JObj payload) s, vs @ ws)"
| gives_up: "deck_step E late (s, vs @ w # ws) (s, vs @ ws)"

inductive deck_reachable :: "deck_env \<Rightarrow> bool \<Rightarrow> deck_run \<Rightarrow> bool" for E late where
  starts: "i \<noteq> [] \<Longrightarrow> deck_reachable E late (deck_start E store params b i, [])"
| steps: "deck_reachable E late x \<Longrightarrow> deck_step E late x y \<Longrightarrow> deck_reachable E late y"

text \<open>What an import that waits has in hand: no tab of its render holds the identifier it drew.\<close>

definition waits_ok :: "waiting \<Rightarrow> bool" where
  "waits_ok w = (case w of
     Importing c stored \<Rightarrow> (\<exists>v. hw_id stored = Some v \<and> (\<forall>x\<in>set (dk_sessions c). \<not> holds_request v x)) | _ \<Rightarrow> True)"

lemma start_ok: "deck_ok (deck_start E store params b i)"
proof -
  obtain wb title where "initialWorkbenchSessions E params i = [simple_session i wb title]"
    unfolding initialWorkbenchSessions_def createProjectOverviewSession_def createNewPageSession_def Let_def by metis
  then show ?thesis by (simp add: deck_start_def deck_ok_def one_tab_Cons simple_session_def)
qed

lemma hash_ok: "deck_ok s \<Longrightarrow> dk_sessions c = dk_sessions s \<Longrightarrow> fresh_for u s \<Longrightarrow> deck_ok (applyHash E c u s)"
  unfolding applyHash_def
  by (cases "resolveHashWorkbenchId (wd_tabs E) (dk_params s)") (simp_all only: option.case activate_ok hash_cleared_if)

lemma imported_ok:
  assumes ok: "deck_ok s" and calm: "undisturbed (or_default (hw_id stored) []) c s" and "fresh_for u s" and waits: "waits_ok (Importing c stored)"
  shows "deck_ok (openImported E c u stored payload s)"
proof -
  let ?r = "nothing_opened\<lparr> op_id := hw_id stored, op_name := hw_name stored \<rparr>"
  obtain v where v: "hw_id stored = Some v" "\<forall>x\<in>set (dk_sessions c). \<not> holds_request v x" using waits by (auto simp: waits_ok_def)
  have "active_kept c s" using calm by (simp add: undisturbed_def)
  then have "deck_ok (fst (createWorkbench E c u ''http'' True True ?r s))"
    using calm v by (intro createWorkbench_ok [OF ok _ assms(3)]) (auto simp: undisturbed_def)
  moreover obtain t w where "createWorkbench E c u ''http'' True True ?r s = (t, w)" by fastforce
  ultimately show ?thesis unfolding openImported_def
    by (cases w) (simp_all add: deck_ok_def Let_def)
qed

definition run_ok :: "deck_run \<Rightarrow> bool" where
  "run_ok x \<longleftrightarrow> deck_ok (fst x) \<and> list_all waits_ok (snd x)"

lemma drawn_waits_ok:
  "fresh_for v s \<Longrightarrow> hw_id request = None \<Longrightarrow> imported_request E request v = Some stored \<Longrightarrow> waits_ok (Importing s stored)"
  by (auto simp: waits_ok_def imported_request_def fresh_for_def)

lemma deck_step_ok: "deck_step E False x y \<Longrightarrow> run_ok x \<Longrightarrow> run_ok y"
proof (induction rule: deck_step.induct)
  case (clicks_tab w s ws)
  then show ?case by (auto simp: run_ok_def deck_ok_def intro!: activate_session_ok)
next
  case (creates c s u ws wb)
  then show ?case by (auto simp: run_ok_def nothing_opened_def intro!: createWorkbench_ok same_active_kept)
next
  case (starts_opening c s detail t kept s' ws)
  then show ?case using taken_ok [of s "opened_id detail"] by (simp add: run_ok_def waits_ok_def)
next
  case (opened detail c s u vs t kept ws)
  then show ?case by (auto simp: run_ok_def intro: finish_open_ok)
next
  case (saved w s vs ws)
  then show ?case by (auto simp: run_ok_def intro: saved_ok)
next
  case (starts_import v s request stored ws)
  then show ?case by (auto simp: run_ok_def intro: drawn_waits_ok)
next
  case (imported stored c s u vs payload ws)
  then show ?case by (auto simp: run_ok_def intro: imported_ok)
next
  case (starts_saving w s ws)
  then show ?case by (simp add: run_ok_def waits_ok_def)
qed (auto simp: run_ok_def open_request_ok activate_ok hash_ok scripts_ok project_home_ok new_page_ok close_ok close_others_ok deleted_ok title_ok
       closeAllSessions_def enterProjectEmptySession_def, auto simp: deck_ok_def)

lemma deck_reachable_run_ok: "deck_reachable E False x \<Longrightarrow> run_ok x"
proof (induction rule: deck_reachable.induct)
  case starts
  then show ?case by (simp add: run_ok_def start_ok)
qed (rule deck_step_ok)

lemma deck_reachable_ok: "deck_reachable E False (s, ws) \<Longrightarrow> deck_ok s"
  using deck_reachable_run_ok by (fastforce simp: run_ok_def)

section \<open>Properties\<close>

lemma matching_is_tab: "matching_tab E protocol = Some t \<Longrightarrow> tab_of E (dt_id t) \<noteq> None"
  by (auto simp: matching_tab_def tab_of_def find_None_iff dest: find_Some_set)

lemma active_known: "deck_ok s \<Longrightarrow> w \<in> set (dk_sessions s) \<Longrightarrow> dk_activeId s = ws_id w \<Longrightarrow> activeSession s = Some w"
proof -
  assume ok: "deck_ok s" and w: "w \<in> set (dk_sessions s)" "dk_activeId s = ws_id w"
  then obtain x where x: "find (\<lambda>x. ws_id x = dk_activeId s) (dk_sessions s) = Some x"
    by (cases "find (\<lambda>x. ws_id x = dk_activeId s) (dk_sessions s)") (auto simp: find_None_iff)
  then have "x = w" using ok w by (auto simp: deck_ok_def dest!: find_Some_set intro: one_tab_id)
  then show ?thesis using x by (simp add: activeSession_def)
qed

lemma active_of_ok: "deck_ok s \<Longrightarrow> activeSession s = Some w \<Longrightarrow> dk_activeId s = ws_id w"
proof -
  assume ok: "deck_ok s" and w: "activeSession s = Some w"
  then have "dk_activeId s \<in> ws_id ` set (dk_sessions s)" by (auto simp: deck_ok_def dest: activeSession_in)
  then obtain x where "x \<in> set (dk_sessions s)" "dk_activeId s = ws_id x" by auto
  then show ?thesis using active_known [OF ok] w by auto
qed

text \<open>The interface of an opened case, when the host has it, has an address the parser reads.\<close>

definition interface_readable :: "deck_env \<Rightarrow> jsval \<Rightarrow> bool" where
  "interface_readable E detail \<longleftrightarrow>
     (\<forall>p fetched parent. resolveCasePresentation detail = Some p \<longrightarrow> wd_load E = Some fetched \<longrightarrow> fetched (pr_parentId p) = Some parent
        \<longrightarrow> captureHttpInterfaceStructureV2 (wd_url E) parent \<noteq> None)"

lemma readable_opens: "interface_readable E detail \<Longrightarrow> opened_detail E (resolveCasePresentation detail) kept detail \<noteq> None"
  by (auto simp: interface_readable_def opened_detail_def split: option.split)

lemma finished_session:
  assumes ok: "deck_ok s" and t: "tab_of E (dt_id t) \<noteq> None" and i: "opened_id detail \<noteq> []" and readable: "interface_readable E detail"
    and same: "dk_sessions c = dk_sessions s" "dk_activeId c = dk_activeId s"
  shows "\<exists>w. w \<in> set (dk_sessions (finish_open E c u t detail kept s)) \<and> dk_activeId (finish_open E c u t detail kept s) = ws_id w
           \<and> holds_request (opened_id detail) w"
proof (cases rule: finish_open_cases [of E detail kept c u t s])
  case fails
  then show ?thesis using readable_opens [OF readable] by simp
next
  case (shown w)
  then show ?thesis using i same by (auto simp: shows_tab_def dest!: find_Some_set)
next
  case (reused w p)
  let ?w = "reused_session (opened_of detail p) w"
  have w: "activeSession s = Some w" using reusable_active [OF reused(2)] unfolding activeSession_def same .
  then have "dk_activeId s = ws_id w" using active_of_ok [OF ok] by simp
  moreover have "holds_request (opened_id detail) ?w" using i
    by (auto simp: holds_request_def reused_session_def opened_of_def opened_id_def or_default_def split: option.splits)
  moreover have "?w \<in> set (map (\<lambda>x. if ws_id x = ws_id w then ?w else x) (dk_sessions s))" using activeSession_in [OF w] by (auto simp: image_iff)
  ultimately show ?thesis unfolding reused(3,4) by (intro exI [of _ ?w]) (simp add: reused_session_def)
next
  case (created p)
  let ?r = "opened_of detail p"
  obtain x w where cr: "createWorkbench E c u (dt_id t) True False ?r s = (x, Some w)"
    using t by (cases "createWorkbench E c u (dt_id t) True False ?r s") (auto simp: createWorkbench_def Let_def)
  note parts = createWorkbench_parts [OF cr]
  have "w \<in> set (dk_sessions x)"
    using parts(3) replaced_page_kept [OF same_active_kept [OF same(1)]] by (cases "replaced_page c") (auto simp: image_iff)
  moreover have "holds_request (opened_id detail) w" using i
    by (auto simp: parts(1) new_session_def holds_request_def opened_of_def opened_id_def or_default_def split: option.splits)
  ultimately show ?thesis unfolding created(3,4) cr by (intro exI [of _ w]) (simp add: parts(1,2) new_session_def)
qed

lemma opened_session:
  assumes ok: "deck_ok s" and t: "matching_tab E (resolveOpenProtocol detail) = Some t" and i: "opened_id detail \<noteq> []"
    and readable: "interface_readable E detail"
  shows "\<exists>w. w \<in> set (dk_sessions (openRequest E s u detail s)) \<and> dk_activeId (openRequest E s u detail s) = ws_id w
           \<and> holds_request (opened_id detail) w"
  using finished_session [OF taken_ok [OF ok] matching_is_tab [OF t] i readable] by (simp add: openRequest_finish t take_structure_fields)

lemma one_holder: "one_tab ss \<Longrightarrow> i \<noteq> [] \<Longrightarrow> length (filter (holds_request i) ss) \<le> 1"
proof (induction ss)
  case (Cons w ss)
  have "holds_request i w \<Longrightarrow> filter (holds_request i) ss = []"
    using Cons.prems by (auto simp: one_tab_Cons apart_def filter_empty_conv)
  then show ?case using Cons by (auto simp: one_tab_Cons)
qed simp

lemma some_active: "deck_ok s \<Longrightarrow> dk_sessions s \<noteq> [] \<Longrightarrow> \<exists>w. activeSession s = Some w \<and> ws_id w = dk_activeId s"
proof -
  assume ok: "deck_ok s" and "dk_sessions s \<noteq> []"
  then have "dk_activeId s \<in> ws_id ` set (dk_sessions s)" by (simp add: deck_ok_def)
  then obtain w where "w \<in> set (dk_sessions s)" "dk_activeId s = ws_id w" by auto
  then show ?thesis using active_known [OF ok] by auto
qed

text \<open>C21: In every order of events, whatever tab was active when a listener was registered, and with handlers that wait for the
  host and go on in any order, at most one tab holds a request, whether under its own identifier or that of the request, and
  when tabs are open the active identifier is that of one of them. This is for handlers that go on only where what they read
  before they waited still holds: the tab that was active is open, and no tab of the same request was opened or closed in the
  meantime. The program does not check that: see \<open>case_opened_twice\<close>.\<close>

theorem one_tab_per_request:
  assumes "deck_reachable E False (s, ws)" "i \<noteq> []"
  shows "length (filter (holds_request i) (dk_sessions s)) \<le> 1
    \<and> (dk_sessions s = [] \<or> (\<exists>w. activeSession s = Some w \<and> ws_id w = dk_activeId s))"
  using deck_reachable_ok [OF assms(1)] one_holder [OF _ assms(2)] some_active by (auto simp: deck_ok_def)

definition sample_tabs :: "deck_tab list" where
  "sample_tabs = [\<lparr> dt_id = ''http'', dt_label = ''HTTP'', dt_protocol = None, dt_protocols = [''http''] \<rparr>,
     \<lparr> dt_id = ''sql'', dt_label = ''SQL'', dt_protocol = Some ''sql'', dt_protocols = [] \<rparr>]"

definition sample_deck_env :: deck_env where
  "sample_deck_env = \<lparr> wd_tabs = sample_tabs, wd_translate = (\<lambda>_ label. label),
     wd_url = \<lparr> ue_parse = (\<lambda>_. None), ue_setPathname = (\<lambda>url _. url) \<rparr>, wd_load = None \<rparr>"

definition sample_deck :: deck where
  "sample_deck = deck_start sample_deck_env initial_store []
     \<lparr> local_store = Map.empty, session_store = Map.empty, local_ok = True, session_ok = True, dispatched = [] \<rparr> ''s''"

definition opened_sample :: jsval where
  "opened_sample = JObj [(''protocolId'', JStr ''http''), (''id'', JStr ''a''), (''name'', JStr ''A'')]"

lemmas sample_defs = sample_deck_def sample_deck_env_def sample_tabs_def deck_start_def initialWorkbenchSessions_def resolveInitialWorkbenchId_def
  resolveHashWorkbenchId_def createProjectOverviewSession_def simple_session_def

lemma sample_sessions: "dk_sessions sample_deck = [simple_session ''s'' ''__new'' ''overview'']" "dk_activeId sample_deck = ''s''"
  by (simp_all add: sample_defs)

lemma sample_fresh: "fresh_for ''u'' sample_deck"
  by (simp add: fresh_for_def sample_sessions simple_session_def holds_request_def)

lemma sample_reachable: "deck_reachable sample_deck_env late (sample_deck, [])"
  unfolding sample_deck_def by (rule starts) simp

lemma sample_matching: "matching_tab sample_deck_env (resolveOpenProtocol opened_sample) = Some (hd sample_tabs)"
  by (simp add: sample_defs opened_sample_def matching_tab_def resolveOpenProtocol_def string_of_def obj_get_def is_object_def)

lemma sample_id: "opened_id opened_sample = ''a''"
  by (simp add: opened_sample_def opened_id_def string_of_def opt_get_def obj_get_def nullish_def)

lemma sample_readable: "interface_readable sample_deck_env detail" "\<not> open_awaits sample_deck_env detail"
  by (simp_all add: interface_readable_def open_awaits_def sample_deck_env_def)

lemma one_tab_per_request_witness:
  "length (filter (holds_request ''a'') (dk_sessions (openRequest sample_deck_env sample_deck ''u'' opened_sample sample_deck))) \<le> 1
   \<and> (\<exists>w. w \<in> set (dk_sessions (openRequest sample_deck_env sample_deck ''u'' opened_sample sample_deck)) \<and> holds_request ''a'' w)"
proof -
  have "deck_reachable sample_deck_env False (openRequest sample_deck_env sample_deck ''u'' opened_sample sample_deck, [])"
    by (rule steps [OF sample_reachable opens]) (simp_all add: sample_fresh sample_readable)
  moreover have "\<exists>w. w \<in> set (dk_sessions (openRequest sample_deck_env sample_deck ''u'' opened_sample sample_deck)) \<and> holds_request ''a'' w"
    using opened_session [OF deck_reachable_ok [OF sample_reachable] sample_matching, of "''u''"] sample_id sample_readable by auto
  ultimately show ?thesis using one_tab_per_request [of sample_deck_env _ "[]" "''a''"] by simp
qed

text \<open>C25: When the listener sees the present deck, opening a request that has an identifier and belongs to some workbench leaves
  the tab that holds the request active: the tab that showed it, the empty tab that took it or the one that was created. (When
  the request is a case whose interface the host has, the address of that interface must be one the parser reads: otherwise the
  handler ends with an error.)\<close>

theorem opened_request_shown:
  assumes "deck_reachable E False (s, ws)" "matching_tab E (resolveOpenProtocol detail) = Some t" "opened_id detail \<noteq> []" "fresh_for u s"
    and "interface_readable E detail"
  shows "\<exists>w. activeSession (openRequest E s u detail s) = Some w \<and> holds_request (opened_id detail) w
           \<and> dk_activeId (openRequest E s u detail s) = ws_id w"
proof -
  have ok: "deck_ok s" using assms(1) by (rule deck_reachable_ok)
  have "deck_ok (openRequest E s u detail s)" using open_request_ok [OF ok refl assms(4)] .
  then show ?thesis using opened_session [OF ok assms(2,3,5), of u] active_known by blast
qed

lemma opened_request_shown_witness:
  "\<exists>w. activeSession (openRequest sample_deck_env sample_deck ''u'' opened_sample sample_deck) = Some w \<and> holds_request ''a'' w
     \<and> dk_activeId (openRequest sample_deck_env sample_deck ''u'' opened_sample sample_deck) = ws_id w"
  using opened_request_shown [OF sample_reachable sample_matching _ sample_fresh sample_readable(1)] by (simp add: sample_id)

section \<open>What a late listener costs\<close>

text \<open>The effect that registers the listener of \<^verbatim>\<open>openRequest\<close> depends on the sessions and not on the active one. After a click on
  another tab it still takes the former tab for the active one: when that one is an empty HTTP tab, the request is loaded there,
  and the tab the user looks at stays in front.\<close>

definition empty_http :: WorkbenchSession where
  "empty_http = simple_session ''x'' ''http'' ''HTTP''"

definition registered_deck :: deck where
  "registered_deck = sample_deck\<lparr> dk_sessions := dk_sessions sample_deck @ [empty_http], dk_activeId := ''x'' \<rparr>"

definition clicked_deck :: deck where
  "clicked_deck = activateSession (hd (dk_sessions registered_deck)) True registered_deck"

lemma registered_facts: "dk_sessions registered_deck = [simple_session ''s'' ''__new'' ''overview'', empty_http]" "dk_activeId registered_deck = ''x''"
  by (simp_all add: registered_deck_def sample_sessions)

lemma sample_not_shown: "shows_tab registered_deck opened_sample = None"
  unfolding shows_tab_def registered_facts sample_id by (simp add: empty_http_def simple_session_def holds_request_def)

lemma sample_reusable: "reusable_session registered_deck (dt_id (hd sample_tabs)) = Some empty_http"
  by (simp add: reusable_session_def activeSession_def registered_facts empty_http_def simple_session_def sample_tabs_def)

lemma opened_in_background:
  "dk_activeId (openRequest sample_deck_env registered_deck u opened_sample clicked_deck) = ''s''
   \<and> (\<exists>w. w \<in> set (dk_sessions (openRequest sample_deck_env registered_deck u opened_sample clicked_deck))
        \<and> ws_id w = ''x'' \<and> holds_request ''a'' w)"
proof -
  let ?k = "fst (take_structure ''a'' clicked_deck)" and ?s = "snd (take_structure ''a'' clicked_deck)"
  have open_now: "openRequest sample_deck_env registered_deck u opened_sample clicked_deck
      = finish_open sample_deck_env registered_deck u (hd sample_tabs) opened_sample ?k ?s"
    by (simp add: openRequest_finish sample_matching sample_id)
  have s: "dk_sessions ?s = dk_sessions registered_deck" "dk_activeId ?s = ''s''"
    by (simp_all add: take_structure_fields clicked_deck_def registered_facts simple_session_def)
  show ?thesis unfolding open_now
  proof (cases rule: finish_open_cases [of sample_deck_env opened_sample ?k registered_deck u "hd sample_tabs" ?s])
    case (reused w p)
    have w: "w = empty_http" using reused(2) sample_reusable by simp
    have "holds_request ''a'' (reused_session (opened_of opened_sample p) empty_http)"
      by (simp add: holds_request_def reused_session_def opened_of_def opened_sample_def string_of_def opt_get_def obj_get_def nullish_def)
    moreover have "ws_id (reused_session (opened_of opened_sample p) empty_http) = ''x''"
      by (simp add: reused_session_def empty_http_def simple_session_def)
    ultimately show "dk_activeId (finish_open sample_deck_env registered_deck u (hd sample_tabs) opened_sample ?k ?s) = ''s''
        \<and> (\<exists>w. w \<in> set (dk_sessions (finish_open sample_deck_env registered_deck u (hd sample_tabs) opened_sample ?k ?s))
              \<and> ws_id w = ''x'' \<and> holds_request ''a'' w)"
      unfolding reused(3,4) w s registered_facts
      by (intro conjI exI [of _ "reused_session (opened_of opened_sample p) empty_http"]) (simp_all add: registered_facts empty_http_def simple_session_def)
  qed (use sample_not_shown sample_reusable readable_opens [OF sample_readable(1)] in auto)
qed

text \<open>The handler that opens a case waits for its interface and then looks for the tab of the case in the sessions of the render it
  started from. Opened twice while the host answers, the case gets two tabs.\<close>

lemma opened_again:
  assumes "shows_tab c detail = None" "reusable_session c (dt_id t) = None" "replaced_page c = None" "tab_of E (dt_id t) \<noteq> None"
    and "interface_readable E detail" and "opened_id detail \<noteq> []"
  obtains w where "dk_sessions (finish_open E c u t detail kept s) = dk_sessions s @ [w]" "ws_id w = u" "holds_request (opened_id detail) w"
proof (cases rule: finish_open_cases [of E detail kept c u t s])
  case fails
  then show ?thesis using readable_opens [OF assms(5)] by simp
next
  case (created p)
  let ?r = "opened_of detail p"
  obtain x w where cr: "createWorkbench E c u (dt_id t) True False ?r s = (x, Some w)"
    using assms(4) by (cases "createWorkbench E c u (dt_id t) True False ?r s") (auto simp: createWorkbench_def Let_def)
  note parts = createWorkbench_parts [OF cr]
  have "holds_request (opened_id detail) w" using assms(6)
    by (auto simp: parts(1) new_session_def holds_request_def opened_of_def opened_id_def or_default_def split: option.splits)
  moreover have "ws_id w = u" by (simp add: parts(1) new_session_def)
  ultimately show ?thesis using that created(3) parts(3) assms(3) cr by simp
qed (use assms in simp_all)

definition slow_deck_env :: deck_env where
  "slow_deck_env = sample_deck_env\<lparr> wd_load := Some (\<lambda>_. None) \<rparr>"

definition opened_case :: jsval where
  "opened_case = JObj [(''protocolId'', JStr ''http''), (''id'', JStr ''a''), (''name'', JStr ''A''),
     (''variables'', JObj [(''__apivoyCaseOf'', JStr ''p'')])]"

definition sql_deck :: deck where
  "sql_deck = fst (createWorkbench slow_deck_env sample_deck ''x'' ''sql'' True True nothing_opened sample_deck)"

lemma sql_sessions: "dk_sessions sql_deck = [simple_session ''x'' ''sql'' ''SQL'']" "dk_activeId sql_deck = ''x''"
  by (simp_all add: sql_deck_def slow_deck_env_def createWorkbench_def new_session_def numbered_label_def nothing_opened_def first_text_def
      replaced_page_def activeSession_def tab_of_def sample_sessions Let_def)
    (simp_all add: sample_deck_env_def sample_tabs_def simple_session_def trim_def trimStart_def trimEnd_def)

lemma sql_reachable: "deck_reachable slow_deck_env True (sql_deck, [])"
proof -
  have same: "wd_tabs slow_deck_env = wd_tabs sample_deck_env" "wd_translate slow_deck_env = wd_translate sample_deck_env"
    by (simp_all add: slow_deck_env_def)
  have "deck_start slow_deck_env = deck_start sample_deck_env"
    unfolding deck_start_def initialWorkbenchSessions_def find_tab_def same by (rule refl)
  then have start: "sample_deck = deck_start slow_deck_env initial_store []
     \<lparr> local_store = Map.empty, session_store = Map.empty, local_ok = True, session_ok = True, dispatched = [] \<rparr> ''s''"
    by (simp only: sample_deck_def)
  have "deck_reachable slow_deck_env True (sample_deck, [])" unfolding start by (rule starts) simp
  moreover have "fresh_for ''x'' sample_deck" by (simp add: fresh_for_def sample_sessions simple_session_def holds_request_def)
  ultimately show ?thesis unfolding sql_deck_def by (rule steps [OF _ creates [OF refl]])
qed

lemma slow_env: "wd_tabs slow_deck_env = sample_tabs" "wd_load slow_deck_env = Some (\<lambda>_. None)"
  by (simp_all add: slow_deck_env_def sample_deck_env_def)

lemma slow_case_reads:
  "js_get opened_case ''variables'' = JObj [(''__apivoyCaseOf'', JStr ''p'')]" "js_get opened_case ''protocolId'' = JStr ''http''"
  "js_get opened_case ''id'' = JStr ''a''" "is_object opened_case" "\<not> nullish opened_case"
  by (simp_all add: opened_case_def obj_get_def is_object_def nullish_def)

lemma opened_case_presented: "resolveCasePresentation opened_case \<noteq> None"
  by (simp add: resolveCasePresentation_def Let_def slow_case_reads) (simp add: opt_get_def obj_get_def nullish_def)

lemma opened_case_matches: "matching_tab slow_deck_env (resolveOpenProtocol opened_case) = Some (hd sample_tabs)"
  by (simp add: resolveOpenProtocol_def slow_case_reads string_of_def matching_tab_def slow_env sample_tabs_def)

lemma slow_facts:
  "open_awaits slow_deck_env opened_case" "interface_readable slow_deck_env opened_case" "opened_id opened_case = ''a''"
  "tab_of slow_deck_env (dt_id (hd sample_tabs)) \<noteq> None" "shows_tab sql_deck opened_case = None"
  "reusable_session sql_deck (dt_id (hd sample_tabs)) = None" "replaced_page sql_deck = None"
proof -
  show id: "opened_id opened_case = ''a''" by (simp add: opened_id_def opt_get_def slow_case_reads string_of_def)
  show "shows_tab sql_deck opened_case = None" by (simp add: shows_tab_def id sql_sessions simple_session_def holds_request_def)
  show "open_awaits slow_deck_env opened_case" by (simp add: open_awaits_def opened_case_presented slow_env)
  show "interface_readable slow_deck_env opened_case" by (simp add: interface_readable_def slow_env)
  show "tab_of slow_deck_env (dt_id (hd sample_tabs)) \<noteq> None" by (simp add: tab_of_def slow_env sample_tabs_def)
  show "reusable_session sql_deck (dt_id (hd sample_tabs)) = None" "replaced_page sql_deck = None"
    by (simp_all add: reusable_session_def replaced_page_def activeSession_def sql_sessions simple_session_def sample_tabs_def)
qed

lemma case_opened_twice:
  "\<exists>s. deck_reachable slow_deck_env True (s, []) \<and> length (filter (holds_request ''a'') (dk_sessions s)) = 2"
proof -
  let ?t = "hd sample_tabs" and ?open = "Opening sql_deck (hd sample_tabs) opened_case"
  obtain k s where taken: "take_structure ''a'' sql_deck = (k, s)" by fastforce
  obtain k' s' where taken': "take_structure ''a'' s = (k', s')" by fastforce
  have s: "dk_sessions s = dk_sessions sql_deck" "dk_sessions s' = dk_sessions sql_deck"
    using take_structure_fields(1) [of "''a''"] taken taken' by (metis snd_conv)+
  obtain w where w: "dk_sessions (finish_open slow_deck_env sql_deck ''u'' ?t opened_case k s') = dk_sessions s' @ [w]"
    "ws_id w = ''u''" "holds_request ''a'' w"
    using opened_again [OF slow_facts(5-7,4,2), of "''u''" k s'] slow_facts(3) by auto
  let ?s1 = "finish_open slow_deck_env sql_deck ''u'' ?t opened_case k s'"
  obtain v where v: "dk_sessions (finish_open slow_deck_env sql_deck ''v'' ?t opened_case k' ?s1) = dk_sessions ?s1 @ [v]"
    "ws_id v = ''v''" "holds_request ''a'' v"
    using opened_again [OF slow_facts(5-7,4,2), of "''v''" k' ?s1] slow_facts(3) by auto
  have "deck_reachable slow_deck_env True (s, [] @ [?open k])"
    by (rule steps [OF sql_reachable starts_opening [OF refl slow_facts(1) opened_case_matches]]) (simp add: slow_facts(3) taken)
  then have "deck_reachable slow_deck_env True (s', ([] @ [?open k]) @ [?open k'])"
    by (rule steps) (rule starts_opening [OF _ slow_facts(1) opened_case_matches], simp_all add: s slow_facts(3) taken')
  then have waiting: "deck_reachable slow_deck_env True (s', [] @ ?open k # [?open k'])" by simp
  have request: "ws_requestId w = Some ''a''" using w(2,3) by (simp add: holds_request_def)
  have first: "deck_reachable slow_deck_env True (?s1, [] @ ?open k' # [])"
    using steps [OF waiting opened] s by (simp add: fresh_for_def sql_sessions simple_session_def holds_request_def)
  have "deck_reachable slow_deck_env True (finish_open slow_deck_env sql_deck ''v'' ?t opened_case k' ?s1, [] @ [])"
    by (rule steps [OF first opened]) (use s w request in \<open>simp_all add: fresh_for_def sql_sessions simple_session_def holds_request_def\<close>)
  moreover have "filter (holds_request ''a'') (dk_sessions (finish_open slow_deck_env sql_deck ''v'' ?t opened_case k' ?s1)) = [w, v]"
    using v w s by (simp add: sql_sessions simple_session_def holds_request_def)
  ultimately show ?thesis by (intro exI [of _ "finish_open slow_deck_env sql_deck ''v'' ?t opened_case k' ?s1"]) simp
qed

text \<open>An event without a protocol matches the first tab that declares none.\<close>

lemma no_protocol_matches: "matching_tab sample_deck_env (resolveOpenProtocol JNull) = Some (hd sample_tabs)"
  by (simp add: sample_defs matching_tab_def resolveOpenProtocol_def string_of_def obj_get_def is_object_def Let_def)

end
