(* ===== verification/InterfaceCases.thy ===== *)
theory InterfaceCases imports HttpRequest begin

text \<open>
  The shell around an interface and its panel of test cases (\<^verbatim>\<open>packages/ui/src/InterfaceLifecycle.tsx\<close>): which tabs an
  interface has, the categories of cases, and the panel as a state machine whose calls of the host (running cases, loading a
  case for its preview) are answered by later steps.
\<close>

section \<open>Tabs\<close>

datatype InterfaceLifecycleTab = TabDebug | TabDefinition | TabExamples | TabDocs | TabMock

definition PROTOCOL_LIFECYCLE :: "(string \<times> InterfaceLifecycleTab list) list" where
  "PROTOCOL_LIFECYCLE =
     (let designed = [TabDebug, TabDefinition, TabExamples, TabDocs, TabMock] in
      [(''http'', designed), (''graphql'', designed), (''grpc'', designed), (''rpc'', designed),
       (''websocket'', [TabDebug, TabExamples, TabDocs, TabMock]), (''sse'', [TabDebug, TabExamples, TabDocs, TabMock]),
       (''tcp'', [TabDebug, TabExamples]), (''udp'', [TabDebug, TabExamples]),
       (''mqtt'', designed), (''amqp'', designed), (''kafka'', designed),
       (''redis'', [TabDebug, TabExamples, TabDocs]), (''sql'', [TabDebug, TabDefinition, TabExamples, TabDocs])])"

definition lifecycleTabsFor :: "string \<Rightarrow> InterfaceLifecycleTab list" where
  "lifecycleTabsFor workbenchId = or_default (map_of PROTOCOL_LIFECYCLE workbenchId) []"

definition tab_order :: "InterfaceLifecycleTab \<Rightarrow> InterfaceLifecycleTab \<Rightarrow> int" where
  "tab_order l r = (if l = TabDocs \<and> r = TabExamples then - 1 else if l = TabExamples \<and> r = TabDocs then 1 else 0)"

text \<open>The comparison is no order (documents come before examples, and both are equal to every other tab), so that ECMAScript
  leaves the result of the sort to the implementation: the sort is a parameter.\<close>

definition visibleLifecycleTabsFor ::
    "((InterfaceLifecycleTab \<Rightarrow> InterfaceLifecycleTab \<Rightarrow> int) \<Rightarrow> InterfaceLifecycleTab list \<Rightarrow> InterfaceLifecycleTab list)
      \<Rightarrow> string \<Rightarrow> bool \<Rightarrow> InterfaceLifecycleTab list" where
  "visibleLifecycleTabsFor sorted_by workbenchId isSaved =
     (let tabs = lifecycleTabsFor workbenchId
      in sorted_by tab_order (if isSaved then tabs else filter (\<lambda>t. t \<noteq> TabExamples \<and> t \<noteq> TabMock) tabs))"

text \<open>The tab that is shown, and the request of another component to open one.\<close>

definition active_tab :: "InterfaceLifecycleTab list \<Rightarrow> InterfaceLifecycleTab \<Rightarrow> InterfaceLifecycleTab" where
  "active_tab availableTabs activeTab = (if activeTab \<in> set availableTabs then activeTab else TabDebug)"

definition openTab :: "InterfaceLifecycleTab list \<Rightarrow> string \<Rightarrow> string option \<Rightarrow> InterfaceLifecycleTab option \<Rightarrow> InterfaceLifecycleTab \<Rightarrow> InterfaceLifecycleTab" where
  "openTab availableTabs sessionId session tab activeTab =
     (case tab of Some t \<Rightarrow> if session = Some sessionId \<and> t \<in> set availableTabs then t else activeTab | None \<Rightarrow> activeTab)"

section \<open>Cases\<close>

record InterfaceCaseSummary =
  ic_id :: string
  ic_name :: string
  ic_metadata :: jsval \<comment> \<open>\<^verbatim>\<open>undefined\<close> when it is absent\<close>

record InterfaceCaseRunOutcome =
  ro_passed :: bool
  ro_error :: "string option"
  ro_status :: "jsval"
  ro_durationMs :: "jsnum option"
  ro_body :: "string option"
  ro_headers :: "header_list option"

definition CASE_GROUP :: string where "CASE_GROUP = ''__apivoyCaseGroup''"
definition CASE_TAGS :: string where "CASE_TAGS = ''__apivoyCaseTags''"

definition interfaceCaseCategory :: "jsval \<Rightarrow> string" where
  "interfaceCaseCategory metadata =
     (let v = js_get metadata CASE_GROUP in
      if nullish v \<or> v = JStr [] then ''positive''
      else if js_String v \<in> {''positive'', ''negative'', ''boundary'', ''security''} then js_String v else ''other'')"

definition case_tags :: "jsval \<Rightarrow> string list" where
  "case_tags metadata = List.map_filter (\<lambda>v. case v of JStr t \<Rightarrow> Some t | _ \<Rightarrow> None) (elements (js_get metadata CASE_TAGS))"

definition joined :: "string \<Rightarrow> jsval list \<Rightarrow> string" where
  "joined sep vs = join sep (map (\<lambda>v. if nullish v then [] else js_String v) vs)"

definition typed_tags :: "string \<Rightarrow> string list" where
  "typed_tags text = filter (\<lambda>t. t \<noteq> []) (map trim (split CHR '','' text))"

text \<open>The text a search looks at; \<open>None\<close> when the tags are neither absent nor a list, where the source throws.\<close>

definition case_text :: "InterfaceCaseSummary \<Rightarrow> string option" where
  "case_text item =
     (let g = js_get (ic_metadata item) CASE_GROUP; t = js_get (ic_metadata item) CASE_TAGS;
          base = ic_name item @ '' '' @ (if nullish g then [] else js_String g) @ '' '' in
      if nullish t then Some (toLowerCase base)
      else if isArray t then Some (toLowerCase (base @ joined '' '' (elements t))) else None)"

definition case_shown :: "string \<Rightarrow> string \<Rightarrow> InterfaceCaseSummary \<Rightarrow> bool option" where
  "case_shown category normalized item =
     (if category \<noteq> ''all'' \<and> interfaceCaseCategory (ic_metadata item) \<noteq> category then Some False
      else if normalized = [] then Some True
      else map_option (\<lambda>t. str_includes t normalized) (case_text item))"

definition visibleCases :: "string \<Rightarrow> string \<Rightarrow> InterfaceCaseSummary list \<Rightarrow> InterfaceCaseSummary list option" where
  "visibleCases category query items =
     map_option (\<lambda>shown. map fst (filter snd (zip items shown))) (those (map (case_shown category (toLowerCase (trim query))) items))"

definition category_count :: "string \<Rightarrow> InterfaceCaseSummary list \<Rightarrow> nat" where
  "category_count category items =
     (if category = ''all'' then length items else length (filter (\<lambda>item. interfaceCaseCategory (ic_metadata item) = category) items))"

section \<open>The panel\<close>

datatype run_state = Running | Passed | Failed

datatype case_drawer = DrawerClosed | DrawerNew | DrawerCase InterfaceCaseSummary

record case_draft =
  dr_name :: string
  dr_group :: string
  dr_tags :: string

text \<open>What a save hands to the host.\<close>

record case_input =
  ci_name :: string
  ci_group :: string
  ci_tags :: "string list"
  ci_request :: "HttpWorkbenchRequest option"

record cases_panel =
  cp_query :: string
  cp_category :: string
  cp_selected :: "string list"
  cp_drawer :: case_drawer
  cp_draft :: case_draft
  cp_results :: "string \<Rightarrow> run_state option"
  cp_runDetails :: "string \<Rightarrow> InterfaceCaseRunOutcome option"
  cp_busy :: bool
  cp_expandedId :: "string option"
  cp_previewRequest :: "HttpWorkbenchRequest option"
  cp_editingNameId :: "string option"
  cp_inlineName :: string
  cp_previewLoadId :: nat
  cp_loads :: "(nat \<times> string) list" \<comment> \<open>loads in flight: their number and case\<close>
  cp_run :: "string list option" \<comment> \<open>the cases of the run in flight\<close>

definition cases_panel_start :: cases_panel where
  "cases_panel_start = \<lparr> cp_query = [], cp_category = ''all'', cp_selected = [], cp_drawer = DrawerClosed,
     cp_draft = \<lparr> dr_name = [], dr_group = ''positive'', dr_tags = [] \<rparr>, cp_results = (\<lambda>_. None), cp_runDetails = (\<lambda>_. None),
     cp_busy = False, cp_expandedId = None, cp_previewRequest = None, cp_editingNameId = None, cp_inlineName = [],
     cp_previewLoadId = 0, cp_loads = [], cp_run = None \<rparr>"

definition draft_of_case :: "InterfaceCaseSummary \<Rightarrow> case_draft" where
  "draft_of_case item = \<lparr> dr_name = ic_name item, dr_group = interfaceCaseCategory (ic_metadata item),
     dr_tags = (case js_get (ic_metadata item) CASE_TAGS of JArr xs \<Rightarrow> joined '', '' xs | _ \<Rightarrow> []) \<rparr>"

definition edit_case :: "InterfaceCaseSummary option \<Rightarrow> cases_panel \<Rightarrow> cases_panel" where
  "edit_case item s =
     (case item of
        None \<Rightarrow> s\<lparr> cp_drawer := DrawerNew, cp_draft := \<lparr> dr_name = [], dr_group = ''positive'', dr_tags = [] \<rparr> \<rparr>
      | Some i \<Rightarrow> s\<lparr> cp_drawer := DrawerCase i, cp_draft := draft_of_case i \<rparr>)"

text \<open>A run: what it does before the host answers, when the host answers, and when the host fails.\<close>

definition run :: "string list \<Rightarrow> cases_panel \<Rightarrow> cases_panel" where
  "run ids s =
     (if ids = [] \<or> cp_busy s then s
      else s\<lparr> cp_busy := True, cp_results := (\<lambda>i. if i \<in> set ids then Some Running else cp_results s i), cp_run := Some ids \<rparr>)"

definition outcome_state :: "InterfaceCaseRunOutcome option \<Rightarrow> run_state" where
  "outcome_state r = (case r of Some x \<Rightarrow> if ro_passed x then Passed else Failed | None \<Rightarrow> Failed)"

definition run_answered :: "(string \<Rightarrow> InterfaceCaseRunOutcome option) \<Rightarrow> cases_panel \<Rightarrow> cases_panel" where
  "run_answered answer s =
     (case cp_run s of
        None \<Rightarrow> s
      | Some ids \<Rightarrow> s\<lparr> cp_runDetails := (\<lambda>i. case answer i of Some r \<Rightarrow> Some r | None \<Rightarrow> cp_runDetails s i),
          cp_results := (\<lambda>i. if i \<in> set ids then Some (outcome_state (answer i)) else cp_results s i), cp_busy := False, cp_run := None \<rparr>)"

definition run_threw :: "cases_panel \<Rightarrow> cases_panel" where
  "run_threw s = (if cp_run s = None then s else s\<lparr> cp_busy := False, cp_run := None \<rparr>)"

definition unavailable :: "string list \<Rightarrow> string \<Rightarrow> InterfaceCaseRunOutcome option" where
  "unavailable ids i =
     (if i \<in> set ids then Some \<lparr> ro_passed = False, ro_error = Some ''unavailable'', ro_status = JUndef, ro_durationMs = None, ro_body = None, ro_headers = None \<rparr>
      else None)"

definition togglePreview :: "string \<Rightarrow> cases_panel \<Rightarrow> cases_panel" where
  "togglePreview i s =
     (let loadId = Suc (cp_previewLoadId s); t = s\<lparr> cp_previewLoadId := loadId, cp_previewRequest := None \<rparr> in
      if cp_expandedId s = Some i then t\<lparr> cp_expandedId := None \<rparr>
      else t\<lparr> cp_expandedId := Some i, cp_loads := (loadId, i) # cp_loads s \<rparr>)"

definition preview_loaded :: "nat \<times> string \<Rightarrow> HttpWorkbenchRequest option \<Rightarrow> cases_panel \<Rightarrow> cases_panel" where
  "preview_loaded load request s =
     (let t = s\<lparr> cp_loads := remove1 load (cp_loads s) \<rparr>
      in if cp_previewLoadId s = fst load then t\<lparr> cp_previewRequest := request \<rparr> else t)"

definition preview_failed :: "nat \<times> string \<Rightarrow> cases_panel \<Rightarrow> cases_panel" where
  "preview_failed load s = s\<lparr> cp_loads := remove1 load (cp_loads s) \<rparr>"

definition select_all :: "InterfaceCaseSummary list \<Rightarrow> bool \<Rightarrow> cases_panel \<Rightarrow> cases_panel" where
  "select_all visible checked s = s\<lparr> cp_selected := (if checked then map ic_id visible else []) \<rparr>"

definition select_case :: "string \<Rightarrow> bool \<Rightarrow> cases_panel \<Rightarrow> cases_panel" where
  "select_case i checked s =
     s\<lparr> cp_selected := (if checked then uniq (cp_selected s @ [i]) else filter (\<lambda>j. j \<noteq> i) (cp_selected s)) \<rparr>"

text \<open>Edits in place: the fields that are not edited are sent as the panel reads them.\<close>

definition saveInline :: "InterfaceCaseSummary \<Rightarrow> string option \<Rightarrow> string option \<Rightarrow> string list option \<Rightarrow> case_input" where
  "saveInline item name_patch group_patch tags_patch =
     \<lparr> ci_name = or_default name_patch (ic_name item), ci_group = or_default group_patch (interfaceCaseCategory (ic_metadata item)),
       ci_tags = or_default tags_patch (case_tags (ic_metadata item)), ci_request = None \<rparr>"

definition start_rename :: "InterfaceCaseSummary \<Rightarrow> cases_panel \<Rightarrow> cases_panel" where
  "start_rename item s = s\<lparr> cp_inlineName := ic_name item, cp_editingNameId := Some (ic_id item) \<rparr>"

definition finish_rename :: "InterfaceCaseSummary \<Rightarrow> cases_panel \<Rightarrow> cases_panel \<times> case_input option" where
  "finish_rename item s =
     (s\<lparr> cp_editingNameId := None \<rparr>,
      if trim (cp_inlineName s) \<noteq> [] \<and> trim (cp_inlineName s) \<noteq> ic_name item
      then Some (saveInline item (Some (trim (cp_inlineName s))) None None) else None)"

definition drawer_input :: "case_draft \<Rightarrow> case_input option" where
  "drawer_input d =
     (if trim (dr_name d) = [] then None
      else Some \<lparr> ci_name = trim (dr_name d), ci_group = (if trim (dr_group d) = [] then ''ungrouped'' else trim (dr_group d)),
                  ci_tags = typed_tags (dr_tags d), ci_request = None \<rparr>)"

text \<open>The drawer for a new case saves the edited request, once at a time.\<close>

definition create_input :: "case_draft \<Rightarrow> bool \<Rightarrow> HttpWorkbenchRequest \<Rightarrow> case_input option" where
  "create_input d saving edited =
     (if trim (dr_name d) = [] \<or> saving then None
      else Some \<lparr> ci_name = trim (dr_name d), ci_group = (if dr_group d = [] then ''positive'' else dr_group d),
                  ci_tags = typed_tags (dr_tags d), ci_request = Some edited \<rparr>)"

section \<open>Preview of a case\<close>

definition saved_response :: "InterfaceCaseRunOutcome \<Rightarrow> jsval" where
  "saved_response r =
     JObj [(''status'', coalesce (ro_status r) JNull), (''durationMs'', JNum (or_default (ro_durationMs r) (NInt 0))),
       (''body'', JStr (case ro_body r of Some b \<Rightarrow> b | None \<Rightarrow> or_default (ro_error r) [])),
       (''headers'', JArr (map (\<lambda>(k, v). JArr [JStr k, JStr v]) (or_default (ro_headers r) []))),
       (''contentType'', case find (\<lambda>(name, v). toLowerCase name = ''content-type'') (or_default (ro_headers r) []) of
           Some (_, v) \<Rightarrow> JStr v | None \<Rightarrow> JNull)]"

definition requestWithResult :: "HttpWorkbenchRequest \<Rightarrow> InterfaceCaseRunOutcome option \<Rightarrow> HttpWorkbenchRequest" where
  "requestWithResult request outcome =
     (case outcome of
        None \<Rightarrow> request
      | Some r \<Rightarrow> request\<lparr> hw_metadata := Some (JObj (def_prop ''__apivoySavedResponse'' (saved_response r) (entries (or_default (hw_metadata request) JUndef)))) \<rparr>)"

section \<open>Steps\<close>

text \<open>\<open>loads i q\<close>: loading the case \<open>i\<close> may answer \<open>q\<close>. Every event of a user and every answer of the host is a step.\<close>

inductive case_step :: "(string \<Rightarrow> HttpWorkbenchRequest option \<Rightarrow> bool) \<Rightarrow> cases_panel \<Rightarrow> cases_panel \<Rightarrow> bool" for loads where
  search: "case_step loads s (s\<lparr> cp_query := q \<rparr>)"
| category: "case_step loads s (s\<lparr> cp_category := c \<rparr>)"
| select_one: "case_step loads s (select_case i b s)"
| select_every: "case_step loads s (select_all vs b s)"
| open_drawer: "case_step loads s (edit_case item s)"
| close_drawer: "case_step loads s (s\<lparr> cp_drawer := DrawerClosed \<rparr>)"
| type_draft: "case_step loads s (s\<lparr> cp_draft := d \<rparr>)"
| rename_begins: "case_step loads s (start_rename item s)"
| rename_typed: "case_step loads s (s\<lparr> cp_inlineName := n \<rparr>)"
| rename_ends: "case_step loads s (fst (finish_rename item s))"
| run_starts: "case_step loads s (run ids s)"
| run_ends: "case_step loads s (run_answered answer s)"
| run_throws: "case_step loads s (run_threw s)"
| toggle: "case_step loads s (togglePreview i s)"
| loaded: "l \<in> set (cp_loads s) \<Longrightarrow> loads (snd l) q \<Longrightarrow> case_step loads s (preview_loaded l q s)"
| not_loaded: "l \<in> set (cp_loads s) \<Longrightarrow> case_step loads s (preview_failed l s)"

end
