(* ===== verification/DeckCases.thy ===== *)
theory DeckCases imports WorkbenchDeck InterfaceCases begin

text \<open>
  The deck as the host of an interface's test cases (\<^verbatim>\<open>packages/ui/src/WorkbenchDeck.tsx\<close>, \<^verbatim>\<open>renderSession\<close>): which cases a
  tab lists, opening, saving, copying and deleting a case, the identity under which a tab saves its request, and the run whose
  answer the panel of \<open>InterfaceCases\<close> shows. The storage and the sender are arguments; a call that fails is \<open>None\<close>. Names given in
  the language of the user are stand-ins.
\<close>

section \<open>The cases of a tab\<close>

record deck_case = InterfaceCaseSummary +
  dc_parentId :: string
  dc_projectId :: "string option"
  dc_collectionId :: "string option"

definition listed_cases :: "WorkbenchSession \<Rightarrow> deck_case list \<Rightarrow> deck_case list" where
  "listed_cases session interfaceCases =
     (if or_default (ws_requestId session) [] = [] then []
      else filter (\<lambda>item. Some (dc_parentId item) = ws_requestId session \<and> js_get (ic_metadata item) ''__apivoyCaseType'' = JStr ''test'') interfaceCases)"

text \<open>The name of a case in the title of its tab.\<close>

definition without_closing :: "string \<Rightarrow> string" where
  "without_closing t = (if t \<noteq> [] \<and> last t = CHR '')'' then butlast t else t)"

definition case_name :: "WorkbenchSession \<Rightarrow> string" where
  "case_name session =
     (case ws_caseInterfaceName session of
        Some n \<Rightarrow> if n \<noteq> [] \<and> startsWith (ws_title session) (n @ ''('') then without_closing (drop (length n + 1) (ws_title session)) else ws_title session
      | None \<Rightarrow> ws_title session)"

definition retitled_case :: "WorkbenchSession \<Rightarrow> string \<Rightarrow> string" where
  "retitled_case session shown_title =
     (case ws_caseInterfaceName session of
        Some n \<Rightarrow> if n \<noteq> [] then n @ ''('' @ shown_title @ '')'' else shown_title | None \<Rightarrow> shown_title)"

text \<open>\<^verbatim>\<open>title.replace(/^[A-Z]+\s+/, "")\<close>\<close>

definition without_method :: "string \<Rightarrow> string" where
  "without_method t =
     (let rest = dropWhile is_upper_az t
      in if rest = t \<or> rest = [] \<or> \<not> js_ws (hd rest) then t else dropWhile js_ws rest)"

section \<open>Where a case is stored\<close>

text \<open>\<^verbatim>\<open>label.split(" / ")\<close>; the number counts the characters of a separator that are still to be passed.\<close>

fun split_slash :: "nat \<Rightarrow> string \<Rightarrow> string list" where
  "split_slash n [] = [[]]"
| "split_slash (Suc n) (c # cs) = split_slash n cs"
| "split_slash 0 (c # cs) =
     (if take 3 (c # cs) = '' / '' then [] # split_slash 2 cs
      else (case split_slash 0 cs of [] \<Rightarrow> [[c]] | p # ps \<Rightarrow> (c # p) # ps))"

definition fallback_target :: "string option \<Rightarrow> string option \<Rightarrow> string \<times> string" where
  "fallback_target selectedProjectId saveTargetLabel =
     (case split_slash 0 (or_default saveTargetLabel []) of
        [] \<Rightarrow> (or_default selectedProjectId [], [])
      | [p] \<Rightarrow> (p, [])
      | p # c # _ \<Rightarrow> (p, c))"

definition case_target :: "string option \<Rightarrow> string option \<Rightarrow> deck_case option \<Rightarrow> string \<times> string" where
  "case_target selectedProjectId saveTargetLabel summary =
     (let (p, c) = fallback_target selectedProjectId saveTargetLabel
      in (or_default (Option.bind summary dc_projectId) p, or_default (Option.bind summary dc_collectionId) c))"

section \<open>Saving and copying\<close>

definition case_request :: "WorkbenchSession \<Rightarrow> string \<Rightarrow> case_input \<Rightarrow> HttpWorkbenchRequest \<Rightarrow> HttpWorkbenchRequest" where
  "case_request session i input source =
     source\<lparr> hw_id := Some i, hw_name := Some (ci_name input),
       hw_variables := spread (hw_variables source)
         [(''__apivoyCaseOf'', case ws_requestId session of Some r \<Rightarrow> r | None \<Rightarrow> or_default (hw_id source) []),
          (''__apivoyCaseInterfaceName'', ws_title session)],
       hw_metadata := Some (JObj (spread (entries (or_default (hw_metadata source) JUndef))
         [(''__apivoyCaseType'', JStr ''test''), (CASE_GROUP, JStr (ci_group input)), (CASE_TAGS, JArr (map JStr (ci_tags input)))])) \<rparr>"

text \<open>The request that is stored and its place; nothing is stored when the source cannot be loaded.\<close>

definition save_case ::
    "(string \<Rightarrow> HttpWorkbenchRequest option) \<Rightarrow> string option \<Rightarrow> string option \<Rightarrow> deck_case list \<Rightarrow> WorkbenchSession \<Rightarrow> string
      \<Rightarrow> string option \<Rightarrow> case_input \<Rightarrow> (HttpWorkbenchRequest \<times> string \<times> string) option" where
  "save_case load_request selectedProjectId saveTargetLabel interfaceCases session uuid caseId input =
     (let source = (case ci_request input of
          Some r \<Rightarrow> Some r
        | None \<Rightarrow> load_request (case caseId of Some i \<Rightarrow> i | None \<Rightarrow> or_default (ws_requestId session) []));
          summary = (case caseId of Some i \<Rightarrow> if i = [] then None else find (\<lambda>item. ic_id item = i) interfaceCases | None \<Rightarrow> None)
      in map_option (\<lambda>r. (case_request session (or_default caseId uuid) input r, case_target selectedProjectId saveTargetLabel summary)) source)"

definition duplicate_case ::
    "(string \<Rightarrow> HttpWorkbenchRequest option) \<Rightarrow> string option \<Rightarrow> string option \<Rightarrow> deck_case list \<Rightarrow> string \<Rightarrow> string
      \<Rightarrow> (HttpWorkbenchRequest \<times> string \<times> string) option" where
  "duplicate_case load_request selectedProjectId saveTargetLabel interfaceCases uuid caseId =
     (case (load_request caseId, find (\<lambda>item. ic_id item = caseId) interfaceCases) of
        (Some r, Some summary) \<Rightarrow>
          Some (r\<lparr> hw_id := Some uuid, hw_name := Some (or_default (hw_name r) ''case'' @ '' copy'') \<rparr>,
                case_target selectedProjectId saveTargetLabel (Some summary))
      | _ \<Rightarrow> None)"

text \<open>The event that opens a case.\<close>

definition open_case :: "(string \<Rightarrow> HttpWorkbenchRequest option) \<Rightarrow> WorkbenchSession \<Rightarrow> string \<Rightarrow> jsval option" where
  "open_case load_request session caseId =
     map_option (\<lambda>r. JObj (spread (entries (request_val r))
         [(''protocolId'', JStr ''http''),
          (''metadata'', JObj (def_prop ''__apivoyCaseInterfaceName'' (JStr (ws_title session)) (entries (or_default (hw_metadata r) JUndef))))]))
       (load_request caseId)"

definition shell_quote :: "string \<Rightarrow> string" where
  "shell_quote t = [CHR 0x27] @ concat (map (\<lambda>c. if c = CHR 0x27 then [CHR 0x27, CHR 0x5C, CHR 0x27, CHR 0x27] else [c]) t) @ [CHR 0x27]"

definition copyCurl :: "HttpWorkbenchRequest option \<Rightarrow> string" where
  "copyCurl loaded =
     (case loaded of
        None \<Rightarrow> []
      | Some r \<Rightarrow> join [CHR '' '', CHR 0x5C, CHR 0x0A]
          ([''curl --location --request '' @ hw_method r @ '' '' @ shell_quote (hw_url r)]
           @ map (\<lambda>(k, v). ''  --header '' @ shell_quote (k @ '': '' @ v)) (hw_headers r)
           @ (if or_default (hw_body r) [] \<noteq> [] then [''  --data-raw '' @ shell_quote (or_default (hw_body r) [])] else [])))"

section \<open>The identity of a tab\<close>

definition save_identity :: "WorkbenchSession \<Rightarrow> string" where
  "save_identity session = or_default (ws_requestId session) (ws_id session)"

definition saved_request :: "WorkbenchSession \<Rightarrow> HttpWorkbenchRequest \<Rightarrow> HttpWorkbenchRequest" where
  "saved_request session r = r\<lparr> hw_id := Some (save_identity session) \<rparr>"

definition saved_as_case :: "WorkbenchSession \<Rightarrow> string \<Rightarrow> HttpWorkbenchRequest \<Rightarrow> HttpWorkbenchRequest" where
  "saved_as_case session uuid r =
     r\<lparr> hw_id := Some uuid, hw_name := Some (if or_default (hw_name r) [] \<noteq> [] then or_default (hw_name r) [] else ws_title session @ '' - case''),
        hw_variables := spread (hw_variables r)
          [(''__apivoyCaseOf'', save_identity session), (''__apivoyCaseInterfaceName'', without_method (ws_title session))] \<rparr>"

definition updated_interface :: "WorkbenchSession \<Rightarrow> HttpWorkbenchRequest \<Rightarrow> HttpWorkbenchRequest option" where
  "updated_interface session r =
     (if or_default (ws_caseParentId session) [] = [] then None else Some (r\<lparr> hw_id := ws_caseParentId session \<rparr>))"

section \<open>Running cases\<close>

text \<open>\<open>case_loader\<close> and \<open>case_sender\<close>: \<open>None\<close> is a call that throws. \<open>named\<close> writes the name of a check.\<close>

type_synonym case_loader = "string \<Rightarrow> HttpWorkbenchRequest option option"
type_synonym case_sender = "HttpWorkbenchRequest \<Rightarrow> HttpForm.HttpRunResult option"

fun run_check_passed :: "run_check \<Rightarrow> bool" where
  "run_check_passed (Designed c) = ck_passed c"
| "run_check_passed (Reported a) = ar_passed a"

definition case_design :: "HttpWorkbenchRequest \<Rightarrow> jsval option" where
  "case_design request =
     (case elements (meta_get (hw_metadata request) ''__apivoyResponseDefinitions'') of
        d # _ \<Rightarrow> if truthy d then Some d else None | [] \<Rightarrow> None)"

definition result_of :: "HttpForm.HttpRunResult \<Rightarrow> DesignedResponseResult" where
  "result_of r = \<lparr> rs_status = es_status (hr_summary r), rs_preview = hr_preview r, rs_meta = hr_responseMeta r \<rparr>"

definition case_checks :: "props \<Rightarrow> HttpWorkbenchRequest \<Rightarrow> HttpForm.HttpRunResult \<Rightarrow> run_check list" where
  "case_checks settings request r =
     (if truthy (obj_get settings ''testScenario'')
      then or_default (hr_assertions r) []
        @ (case case_design request of
             Some d \<Rightarrow> map Designed (validateDesignedResponse (designed_of d) (result_of r) (settings_of settings)) | None \<Rightarrow> [])
      else [])"

definition case_outcome :: "(run_check \<Rightarrow> string) \<Rightarrow> props \<Rightarrow> HttpWorkbenchRequest \<Rightarrow> HttpForm.HttpRunResult \<Rightarrow> InterfaceCaseRunOutcome" where
  "case_outcome named settings request r =
     (let failed = map named (filter (\<lambda>c. \<not> run_check_passed c) (case_checks settings request r)) in
      \<lparr> ro_passed = (or_default (hr_error r) [] = [] \<and> failed = []),
        ro_error = (case hr_error r of Some e \<Rightarrow> Some e | None \<Rightarrow> if failed = [] then None else Some (join '';'' failed)),
        ro_status = (case es_status (hr_summary r) of Some n \<Rightarrow> JNum (NInt n) | None \<Rightarrow> JNull),
        ro_durationMs = Some (NInt (int (es_durationMs (hr_summary r)))), ro_body = hr_preview r,
        ro_headers = Some (case hr_responseMeta r of Some m \<Rightarrow> rm_headers m | None \<Rightarrow> []) \<rparr>)"

definition missing_case :: InterfaceCaseRunOutcome where
  "missing_case = \<lparr> ro_passed = False, ro_error = Some ''missing'', ro_status = JUndef, ro_durationMs = None, ro_body = None, ro_headers = None \<rparr>"

definition run_test_case :: "(run_check \<Rightarrow> string) \<Rightarrow> props \<Rightarrow> case_loader \<Rightarrow> case_sender \<Rightarrow> string \<Rightarrow> InterfaceCaseRunOutcome option" where
  "run_test_case named settings load_case send i =
     (case load_case i of
        None \<Rightarrow> None
      | Some None \<Rightarrow> Some missing_case
      | Some (Some request) \<Rightarrow>
          map_option (case_outcome named settings request)
            (send (if truthy (obj_get settings ''testScenario'') then request else request\<lparr> hw_assertions := [] \<rparr>)))"

text \<open>\<^verbatim>\<open>Promise.all\<close>: one call that fails fails the run.\<close>

definition runCases :: "(run_check \<Rightarrow> string) \<Rightarrow> props \<Rightarrow> case_loader \<Rightarrow> case_sender \<Rightarrow> string list
    \<Rightarrow> (string \<Rightarrow> InterfaceCaseRunOutcome option) option" where
  "runCases named settings load_case send ids =
     map_option (\<lambda>outcomes i. map_of (rev (zip ids outcomes)) i) (those (map (run_test_case named settings load_case send) ids))"

text \<open>A run of the panel with this host.\<close>

definition panel_run :: "(run_check \<Rightarrow> string) \<Rightarrow> props \<Rightarrow> case_loader \<Rightarrow> case_sender \<Rightarrow> string list \<Rightarrow> cases_panel \<Rightarrow> cases_panel" where
  "panel_run named settings load_case send ids s =
     (case runCases named settings load_case send ids of
        Some answer \<Rightarrow> run_answered answer (InterfaceCases.run ids s)
      | None \<Rightarrow> run_threw (InterfaceCases.run ids s))"

end
