(* ===== verification/InterfaceCasesLaws.thy ===== *)
theory InterfaceCasesLaws imports InterfaceCases begin

text \<open>
  What the panel of test cases promises in every order of events: the preview shows the case that is expanded, however late
  the answers of earlier loads arrive, and one run is in flight at a time.
\<close>

definition load_current :: "cases_panel \<Rightarrow> nat \<times> string \<Rightarrow> bool" where
  "load_current s l \<longleftrightarrow> fst l \<le> cp_previewLoadId s \<and> (fst l = cp_previewLoadId s \<longrightarrow> cp_expandedId s = Some (snd l))"

definition panel_ok :: "(string \<Rightarrow> HttpWorkbenchRequest option \<Rightarrow> bool) \<Rightarrow> cases_panel \<Rightarrow> bool" where
  "panel_ok loads s \<longleftrightarrow> list_all (load_current s) (cp_loads s) \<and> (cp_busy s \<longleftrightarrow> cp_run s \<noteq> None)
     \<and> (\<forall>q. cp_previewRequest s = Some q \<longrightarrow> (\<exists>i. cp_expandedId s = Some i \<and> loads i (Some q)))"

text \<open>Steps that leave the preview, the loads and the run alone keep the invariant.\<close>

lemma panel_ok_frame:
  "panel_ok loads s \<Longrightarrow> cp_previewLoadId t = cp_previewLoadId s \<Longrightarrow> cp_expandedId t = cp_expandedId s \<Longrightarrow> cp_loads t = cp_loads s
   \<Longrightarrow> cp_previewRequest t = cp_previewRequest s \<Longrightarrow> (cp_busy t \<longleftrightarrow> cp_run t \<noteq> None) \<Longrightarrow> panel_ok loads t"
  unfolding panel_ok_def load_current_def by simp

lemma run_ok: "panel_ok loads s \<Longrightarrow> panel_ok loads (run ids s)"
  by (rule panel_ok_frame [of loads s]) (auto simp: run_def panel_ok_def)

lemma run_answered_ok: "panel_ok loads s \<Longrightarrow> panel_ok loads (run_answered answer s)"
  by (rule panel_ok_frame [of loads s]) (auto simp: run_answered_def panel_ok_def split: option.split)

lemma run_threw_ok: "panel_ok loads s \<Longrightarrow> panel_ok loads (run_threw s)"
  by (rule panel_ok_frame [of loads s]) (auto simp: run_threw_def panel_ok_def)

lemma toggle_ok: "panel_ok loads s \<Longrightarrow> panel_ok loads (togglePreview i s)"
  by (auto simp: panel_ok_def load_current_def togglePreview_def Let_def list_all_iff)

lemma load_current_cong: "cp_previewLoadId t = cp_previewLoadId s \<Longrightarrow> cp_expandedId t = cp_expandedId s \<Longrightarrow> load_current t = load_current s"
  by (simp add: load_current_def fun_eq_iff)

lemma loaded_ok:
  assumes "panel_ok loads s" "l \<in> set (cp_loads s)" "loads (snd l) q"
  shows "panel_ok loads (preview_loaded l q s)"
proof -
  have l: "load_current s l" using assms(1,2) by (auto simp: panel_ok_def list_all_iff)
  have rest: "list_all (load_current s) (remove1 l (cp_loads s))" using assms(1) by (auto simp: panel_ok_def list_all_iff dest: notin_set_remove1)
  have same: "load_current (preview_loaded l q s) = load_current s" by (rule load_current_cong) (simp_all add: preview_loaded_def Let_def)
  show ?thesis
  proof (cases "cp_previewLoadId s = fst l")
    case True
    then have "cp_expandedId s = Some (snd l)" using l by (simp add: load_current_def)
    then show ?thesis using True rest same assms by (auto simp: panel_ok_def preview_loaded_def Let_def split: option.split)
  next
    case False
    then show ?thesis using rest same assms(1) by (simp add: panel_ok_def preview_loaded_def Let_def)
  qed
qed

lemma not_loaded_ok: "panel_ok loads s \<Longrightarrow> panel_ok loads (preview_failed l s)"
proof -
  assume ok: "panel_ok loads s"
  then have rest: "list_all (load_current s) (remove1 l (cp_loads s))" by (auto simp: panel_ok_def list_all_iff dest: notin_set_remove1)
  have "load_current (preview_failed l s) = load_current s" by (rule load_current_cong) (simp_all add: preview_failed_def)
  then show ?thesis using ok rest by (simp add: panel_ok_def preview_failed_def)
qed

lemma panel_ok_quiet:
  "panel_ok loads s \<Longrightarrow> cp_previewLoadId t = cp_previewLoadId s \<Longrightarrow> cp_expandedId t = cp_expandedId s \<Longrightarrow> cp_loads t = cp_loads s
   \<Longrightarrow> cp_previewRequest t = cp_previewRequest s \<Longrightarrow> cp_busy t = cp_busy s \<Longrightarrow> cp_run t = cp_run s \<Longrightarrow> panel_ok loads t"
  by (rule panel_ok_frame [of loads s]) (auto simp: panel_ok_def)

lemma case_step_ok: "case_step loads s t \<Longrightarrow> panel_ok loads s \<Longrightarrow> panel_ok loads t"
proof (induction rule: case_step.induct)
  case (open_drawer s item)
  then show ?case by (rule panel_ok_frame) (use open_drawer in \<open>auto simp: edit_case_def panel_ok_def split: option.split\<close>)
next
  case run_starts
  then show ?case by (rule run_ok)
next
  case run_ends
  then show ?case by (rule run_answered_ok)
next
  case run_throws
  then show ?case by (rule run_threw_ok)
next
  case toggle
  then show ?case by (rule toggle_ok)
next
  case loaded
  then show ?case by (rule loaded_ok [rotated 1])
next
  case not_loaded
  then show ?case by (blast intro: not_loaded_ok)
qed (erule panel_ok_quiet; simp add: select_case_def select_all_def start_rename_def finish_rename_def)+

text \<open>C24: the preview belongs to the expanded case: whatever users do and in whatever order the answers arrive, the request shown
  in the preview was loaded for the case that is expanded now, and the panel is busy exactly while one run is in flight.\<close>

theorem preview_is_expanded:
  assumes "(case_step loads)\<^sup>*\<^sup>* cases_panel_start s"
  shows "(case cp_previewRequest s of None \<Rightarrow> True | Some q \<Rightarrow> \<exists>i. cp_expandedId s = Some i \<and> loads i (Some q))
    \<and> (cp_busy s \<longleftrightarrow> cp_run s \<noteq> None)"
proof -
  have "panel_ok loads s"
    using assms
  proof (induction rule: rtranclp_induct)
    case base
    show ?case by (simp add: panel_ok_def cases_panel_start_def)
  qed (rule case_step_ok)
  then show ?thesis unfolding panel_ok_def by (auto split: option.split)
qed

text \<open>The answer for the first case arrives after the second case was expanded and loaded.\<close>

definition sample_case_request :: "string \<Rightarrow> HttpWorkbenchRequest" where
  "sample_case_request url = \<lparr> hw_id = None, hw_name = None, hw_url = url, hw_method = ''GET'', hw_headers = [], hw_body = None,
     hw_bodyEncoding = None, hw_bodySource = None, hw_multipart = None, hw_timeoutMs = 0, hw_variables = [], hw_assertions = [],
     hw_auth = None, hw_followRedirects = False, hw_retryMax = 0, hw_retryBackoffMs = 0, hw_proxy = None, hw_tlsVerify = True,
     hw_tlsClientCertRef = None, hw_environmentRef = None, hw_preScripts = None, hw_postScripts = None, hw_metadata = None \<rparr>"

definition late_answer :: cases_panel where
  "late_answer = preview_loaded (1, ''a'') (Some (sample_case_request ''a''))
     (preview_loaded (2, ''b'') (Some (sample_case_request ''b'')) (togglePreview ''b'' (togglePreview ''a'' cases_panel_start)))"

theorem preview_is_expanded_witness:
  "cp_previewRequest late_answer = Some (sample_case_request ''b'') \<and> cp_expandedId late_answer = Some ''b''
   \<and> (case cp_previewRequest late_answer of None \<Rightarrow> True
      | Some q \<Rightarrow> \<exists>i. cp_expandedId late_answer = Some i \<and> Some q = Some (sample_case_request i))"
proof -
  let ?loads = "\<lambda>i q. q = Some (sample_case_request i)"
  let ?two = "togglePreview ''b'' (togglePreview ''a'' cases_panel_start)"
  let ?three = "preview_loaded (2, ''b'') (Some (sample_case_request ''b'')) ?two"
  have "(case_step ?loads)\<^sup>*\<^sup>* cases_panel_start (togglePreview ''a'' cases_panel_start)"
    by (rule r_into_rtranclp, rule case_step.toggle)
  then have "(case_step ?loads)\<^sup>*\<^sup>* cases_panel_start ?two"
    by (rule rtranclp.rtrancl_into_rtrancl, intro case_step.toggle)
  moreover have "case_step ?loads ?two ?three"
    by (rule case_step.loaded) (simp_all add: togglePreview_def cases_panel_start_def Let_def numeral_2_eq_2)
  moreover have "case_step ?loads ?three late_answer"
    unfolding late_answer_def
    by (rule case_step.loaded) (simp_all add: togglePreview_def cases_panel_start_def preview_loaded_def Let_def numeral_2_eq_2)
  ultimately have steps: "(case_step ?loads)\<^sup>*\<^sup>* cases_panel_start late_answer" by (blast intro: rtranclp.rtrancl_into_rtrancl)
  have "cp_previewRequest late_answer = Some (sample_case_request ''b'')" "cp_expandedId late_answer = Some ''b''"
    by (simp_all add: late_answer_def togglePreview_def cases_panel_start_def preview_loaded_def Let_def numeral_2_eq_2)
  then show ?thesis using preview_is_expanded [OF steps] by blast
qed

section \<open>Surprises\<close>

text \<open>Editing a tag, or only leaving its field, sends the category in place of the group: a group of another name becomes \<open>other\<close>.\<close>

lemma custom_group_lost:
  "ci_group (saveInline \<lparr> ic_id = ''i'', ic_name = ''n'', ic_metadata = JObj [(CASE_GROUP, JStr ''smoke'')] \<rparr> None None (Some [])) = ''other''"
  by (simp add: saveInline_def interfaceCaseCategory_def Let_def obj_get_def nullish_def)

text \<open>When the host throws, the cases of the run stay marked as running.\<close>

lemma failed_run_stays_running:
  "\<not> cp_busy s \<Longrightarrow> ids \<noteq> [] \<Longrightarrow> i \<in> set ids \<Longrightarrow> cp_results (run_threw (run ids s)) i = Some Running \<and> \<not> cp_busy (run_threw (run ids s))"
  by (simp add: run_def run_threw_def)

text \<open>A tab that is shown is available, and an interface that is not saved shows neither cases nor a mock, whatever sort the
  implementation of JavaScript uses.\<close>

lemma shown_tab_available:
  assumes "\<And>f l. set (sorted_by f l) = set l" "visibleLifecycleTabsFor sorted_by workbenchId isSaved \<noteq> []"
  shows "active_tab (visibleLifecycleTabsFor sorted_by workbenchId isSaved) t \<in> set (visibleLifecycleTabsFor sorted_by workbenchId isSaved)
    \<and> (\<not> isSaved \<longrightarrow> {TabExamples, TabMock} \<inter> set (visibleLifecycleTabsFor sorted_by workbenchId isSaved) = {})"
proof -
  have tabs: "lifecycleTabsFor workbenchId = [] \<or> TabDebug \<in> set (lifecycleTabsFor workbenchId)"
    by (auto simp: lifecycleTabsFor_def PROTOCOL_LIFECYCLE_def Let_def)
  have "set (sorted_by f []) = {}" for f using assms(1) by simp
  then have "lifecycleTabsFor workbenchId \<noteq> []" using assms(2) by (auto simp: visibleLifecycleTabsFor_def Let_def)
  with tabs show ?thesis by (auto simp: active_tab_def visibleLifecycleTabsFor_def assms(1) Let_def)
qed

end
