(* ===== verification/DeckCasesLaws.thy ===== *)
theory DeckCasesLaws imports DeckCases InterfaceCasesLaws ResponseValidationLaws begin

text \<open>
  What a run of test cases shows is true of the answers of the host, and a case that was saved is listed under its interface and
  opens with its own name.
\<close>

section \<open>A run and its panel\<close>

lemma those_zip: "those (map f xs) = Some ys \<Longrightarrow> ys = map (\<lambda>x. the (f x)) xs \<and> (\<forall>x\<in>set xs. f x \<noteq> None)"
  by (induction xs arbitrary: ys) (auto split: option.splits)

lemma run_answer:
  assumes "runCases named settings load_case send ids = Some answer" "i \<in> set ids"
  shows "answer i = run_test_case named settings load_case send i"
proof -
  let ?f = "run_test_case named settings load_case send"
  obtain ys where ys: "those (map ?f ids) = Some ys" and a: "answer = (\<lambda>i. map_of (rev (zip ids ys)) i)"
    using assms(1) by (auto simp: runCases_def)
  note facts = those_zip [OF ys]
  have "rev (zip ids ys) = map (\<lambda>x. (x, the (?f x))) (rev ids)" using facts by (simp add: zip_map2 zip_same_conv_map rev_map)
  then have "answer i = Some (the (?f i))" using assms(2) unfolding a by (simp add: map_of_map_restrict)
  then show ?thesis using facts assms(2) by auto
qed

lemma run_passed:
  assumes "\<not> cp_busy s" "i \<in> set ids" "cp_results (panel_run named settings load_case send ids s) i = Some Passed"
  shows "\<exists>r. run_test_case named settings load_case send i = Some r \<and> ro_passed r"
proof (cases "runCases named settings load_case send ids")
  case None
  then show ?thesis using assms by (auto simp: panel_run_def run_threw_def InterfaceCases.run_def split: if_splits)
next
  case (Some answer)
  have "outcome_state (answer i) = Passed"
    using assms Some by (auto simp: panel_run_def run_answered_def InterfaceCases.run_def split: if_splits)
  then have "\<exists>r. answer i = Some r \<and> ro_passed r" by (auto simp: outcome_state_def split: option.splits if_splits)
  then show ?thesis using run_answer [OF Some assms(2)] by simp
qed

definition designs_json :: "props \<Rightarrow> DesignedResponse \<Rightarrow> bool" where
  "designs_json settings d \<longleftrightarrow> vs_bodySchema (settings_of settings) \<and> vs_bodyFormat (settings_of settings)
     \<and> de_bodyType d \<in> {None, Some BJson} \<and> body_fields d \<noteq> []"

lemma checks_passed:
  assumes "truthy (obj_get settings ''testScenario'')" "ro_passed (case_outcome named settings request r)"
  shows "list_all run_check_passed (or_default (hr_assertions r) [])"
    and "case_design request = Some d \<Longrightarrow> all_passed (validateDesignedResponse (designed_of d) (result_of r) (settings_of settings))"
proof -
  have "list_all run_check_passed (case_checks settings request r)"
    using assms(2) by (auto simp: case_outcome_def Let_def list_all_iff filter_empty_conv)
  then show "list_all run_check_passed (or_default (hr_assertions r) [])"
    and "case_design request = Some d \<Longrightarrow> all_passed (validateDesignedResponse (designed_of d) (result_of r) (settings_of settings))"
    using assms(1) by (auto simp: case_checks_def all_passed_def list.pred_map o_def)
qed

text \<open>C22: a case that the panel shows as passed after a run was loaded and sent, and the sender reported no error. With the checks
  of test scenarios on, the request was sent as it is, every reported assertion passed, and, when the checks of the body's
  format and schema are on too, the body of an answer designed as JSON has the designed structure. With them off the request was
  sent without its assertions and nothing else is checked: the case passes whatever the answer is.\<close>

theorem passed_case_conforms:
  assumes "\<not> cp_busy s" "i \<in> set ids" "cp_results (panel_run named settings load_case send ids s) i = Some Passed"
  shows "\<exists>request r. load_case i = Some (Some request) \<and> or_default (hr_error r) [] = []
     \<and> (if truthy (obj_get settings ''testScenario'')
        then send request = Some r \<and> list_all run_check_passed (or_default (hr_assertions r) [])
          \<and> (\<forall>d. case_design request = Some d \<longrightarrow> designs_json settings (designed_of d) \<longrightarrow>
               (\<exists>body. JSON_parse (or_default (hr_preview r) []) = Some body
                  \<and> conforms (body_fields (designed_of d)) (vs_allowAdditionalProperties (settings_of settings)) body None))
        else send (request\<lparr> hw_assertions := [] \<rparr>) = Some r)"
proof -
  let ?on = "truthy (obj_get settings ''testScenario'')"
  obtain x where x: "run_test_case named settings load_case send i = Some x" "ro_passed x" using run_passed [OF assms] by blast
  obtain request where request: "load_case i = Some (Some request)"
    using x by (auto simp: run_test_case_def missing_case_def split: option.splits)
  obtain r where r: "send (if ?on then request else request\<lparr> hw_assertions := [] \<rparr>) = Some r" "x = case_outcome named settings request r"
    using x(1) request by (auto simp: run_test_case_def)
  have error: "or_default (hr_error r) [] = []" using x(2) r(2) by (simp add: case_outcome_def Let_def)
  show ?thesis
  proof (cases ?on)
    case on: True
    have "\<exists>body. JSON_parse (or_default (hr_preview r) []) = Some body
          \<and> conforms (body_fields (designed_of d)) (vs_allowAdditionalProperties (settings_of settings)) body None"
      if "case_design request = Some d" "designs_json settings (designed_of d)" for d
      using checked_body_conforms [OF checks_passed(2) [OF on x(2) [unfolded r(2)] that(1)]] that(2) by (simp add: designs_json_def result_of_def)
    moreover have "list_all run_check_passed (or_default (hr_assertions r) [])" using checks_passed(1) [OF on] x(2) r(2) by simp
    ultimately show ?thesis using request r(1) error on by auto
  next
    case False
    then show ?thesis using request r(1) error by auto
  qed
qed

text \<open>An answer without an error passes when the checks of test scenarios are off.\<close>

lemma unchecked_case_passes:
  "\<not> truthy (obj_get settings ''testScenario'') \<Longrightarrow> or_default (hr_error r) [] = [] \<Longrightarrow> ro_passed (case_outcome named settings request r)"
  by (simp add: case_outcome_def case_checks_def Let_def)

definition designed_request :: HttpWorkbenchRequest where
  "designed_request = (sample_case_request ''/a'')\<lparr> hw_metadata := Some (JObj [(''__apivoyResponseDefinitions'', JArr [JObj
     [(''status'', JStr ''200''), (''bodyType'', JStr ''json''), (''fields'', JArr [JObj [(''id'', JStr ''f''), (''name'', JStr ''ok''),
       (''type'', JStr ''boolean''), (''required'', JBool True), (''scope'', JStr ''response.body'')]])]])]) \<rparr>"

definition sample_answer :: HttpForm.HttpRunResult where
  "sample_answer = \<lparr> hr_summary = \<lparr> es_executionId = ''e'', es_requestId = ''a'', es_protocolId = ''http'', es_state = Completed,
       es_startedAt = [], es_finishedAt = [], es_durationMs = 3, es_bytesReceived = 11, es_status = Some 200 \<rparr>,
     hr_eventCount = 1, hr_preview = Some ''{\"ok\":true}'', hr_error = None, hr_executionId = None, hr_assertions = None,
     hr_responseMeta = Some \<lparr> rm_status = Some 200, rm_statusText = None, rm_headers = [], rm_contentType = Some ''application/json'', rm_sizeHint = None \<rparr> \<rparr>"

definition checked_settings :: props where
  "checked_settings = map (\<lambda>k. (k, JBool (k \<noteq> ''allowAdditionalProperties'')))
     [''enabled'', ''interfaceRun'', ''singleCase'', ''testScenario'', ''status'', ''headers'', ''bodyFormat'', ''bodySchema'', ''allowAdditionalProperties'']"

lemma checked_settings_read: "settings_of checked_settings = sample_settings" "truthy (obj_get checked_settings ''testScenario'')"
  by (simp_all add: settings_of_def checked_settings_def sample_settings_def obj_get_def)

lemma designed_read: "\<exists>d. case_design designed_request = Some d \<and> designed_of d = sample_design"
  by (simp add: case_design_def designed_request_def meta_get_def obj_get_def designed_of_def designed_field_of_def sample_design_def
      nullish_def normalizeResponseBodyType_def RESPONSE_BODY_TYPES_def proto_get_def OBJECT_PROTOTYPE_def)

lemma sample_outcome_passed:
  "ro_passed (case_outcome (\<lambda>_. []) checked_settings designed_request sample_answer)"
proof -
  obtain d where d: "case_design designed_request = Some d" "designed_of d = sample_design" using designed_read by blast
  have "result_of sample_answer = sample_result" by (simp add: result_of_def sample_answer_def sample_result_def)
  then have "list_all run_check_passed (case_checks checked_settings designed_request sample_answer)"
    using d sample_checked checked_settings_read
    by (simp add: case_checks_def all_passed_def list.pred_map o_def) (simp add: sample_answer_def)
  moreover have "hr_error sample_answer = None" by (simp add: sample_answer_def)
  ultimately show ?thesis by (auto simp: case_outcome_def Let_def list_all_iff filter_empty_conv)
qed

lemma passed_case_conforms_witness:
  "cp_results (panel_run (\<lambda>_. []) checked_settings (\<lambda>_. Some (Some designed_request)) (\<lambda>_. Some sample_answer) [''a''] cases_panel_start) ''a'' = Some Passed
   \<and> (\<exists>body. JSON_parse (or_default (hr_preview sample_answer) []) = Some body \<and> conforms (body_fields sample_design) False body None)"
proof -
  let ?panel = "panel_run (\<lambda>_. []) checked_settings (\<lambda>_. Some (Some designed_request)) (\<lambda>_. Some sample_answer) [''a''] cases_panel_start"
  have passed: "cp_results ?panel ''a'' = Some Passed"
    using sample_outcome_passed checked_settings_read
    by (simp add: panel_run_def runCases_def run_test_case_def run_answered_def InterfaceCases.run_def cases_panel_start_def outcome_state_def)
  obtain d where d: "case_design designed_request = Some d" "designed_of d = sample_design" using designed_read by blast
  have json: "designs_json checked_settings sample_design"
    by (simp add: designs_json_def checked_settings_read) (simp add: sample_settings_def sample_design_def body_fields_def)
  have idle: "\<not> cp_busy cases_panel_start" by (simp add: cases_panel_start_def)
  have "\<exists>body. JSON_parse (or_default (hr_preview sample_answer) []) = Some body \<and> conforms (body_fields sample_design) False body None"
    using passed_case_conforms [OF idle _ passed] checked_settings_read d json by (auto simp: sample_settings_def)
  then show ?thesis using passed by simp
qed

section \<open>A saved case is opened again\<close>

text \<open>How the tree lists a stored case for the deck.\<close>

definition tree_case :: "HttpWorkbenchRequest \<Rightarrow> deck_case" where
  "tree_case r = \<lparr> ic_id = or_default (hw_id r) [], ic_name = or_default (hw_name r) [], ic_metadata = or_default (hw_metadata r) JUndef,
     dc_parentId = or_default (map_of (hw_variables r) ''__apivoyCaseOf'') [], dc_projectId = None, dc_collectionId = None \<rparr>"

lemma case_request_fields:
  "hw_id (case_request session i input source) = Some i" "hw_name (case_request session i input source) = Some (ci_name input)"
  "map_of (hw_variables (case_request session i input source)) ''__apivoyCaseOf''
     = Some (case ws_requestId session of Some r \<Rightarrow> r | None \<Rightarrow> or_default (hw_id source) [])"
  "\<exists>ps. hw_metadata (case_request session i input source) = Some (JObj ps) \<and> map_of ps ''__apivoyCaseType'' = Some (JStr ''test'')"
  by (simp_all add: case_request_def map_of_spread CASE_GROUP_def CASE_TAGS_def)

lemma opened_case_reads:
  assumes "open_case load_request session i = Some detail" "load_request i = Some r"
  shows "\<exists>ps. detail = JObj ps \<and> map_of ps ''protocolId'' = Some (JStr ''http'') \<and> map_of ps ''name'' = Some (opt_str JUndef (hw_name r))
    \<and> map_of ps ''variables'' = Some (JObj (map (\<lambda>(k, v). (k, JStr v)) (hw_variables r)))
    \<and> map_of ps ''id'' = Some (opt_str JUndef (hw_id r))
    \<and> (\<exists>ms. map_of ps ''metadata'' = Some (JObj ms) \<and> map_of ms ''__apivoyCaseInterfaceName'' = Some (JStr (ws_title session)))"
  using assms by (auto simp: open_case_def map_of_spread request_val_def)

lemma case_name_of_title:
  "ws_title v = n @ ''('' @ t @ '')'' \<Longrightarrow> ws_caseInterfaceName v = Some n \<Longrightarrow> n \<noteq> [] \<Longrightarrow> case_name v = t"
  using startsWith_append [of "n @ ''(''" "t @ '')''"] by (simp add: case_name_def without_closing_def butlast_append)

lemma presented:
  assumes "map_of ps ''name'' = Some (JStr name)" "map_of ps ''variables'' = Some (JObj vs)" "map_of vs ''__apivoyCaseOf'' = Some (JStr p)"
    "map_of ps ''metadata'' = Some (JObj ms)" "map_of ms ''__apivoyCaseInterfaceName'' = Some (JStr title)" "p \<noteq> []" "trim title \<noteq> []" "trim name \<noteq> []"
  shows "resolveCasePresentation (JObj ps) = Some \<lparr> pr_title = trim title @ ''('' @ trim name @ '')'', pr_interfaceName = trim title, pr_parentId = p \<rparr>"
  using assms by (simp add: resolveCasePresentation_def is_object_def obj_get_def opt_get_def nullish_def string_of_def Let_def)

lemma protocol_of_case: "map_of ps ''protocolId'' = Some (JStr t) \<Longrightarrow> resolveOpenProtocol (JObj ps) = Some t"
  by (simp add: resolveOpenProtocol_def is_object_def obj_get_def string_of_def)

text \<open>C23: a case that was saved from the panel of an interface is listed under the interface, and the event that opens it names the
  HTTP protocol, the case and its interface; the tab that takes its title shows the name of the case.\<close>

theorem saved_case_reopened:
  assumes parent: "ws_requestId session = Some p" "p \<noteq> []" and names: "trim (ws_title session) \<noteq> []" "trim (ci_name input) \<noteq> []"
    and saved: "save_case load_request project label cases session uuid caseId input = Some (q, place)"
    and stored: "load_stored (or_default caseId uuid) = Some q" "tree_case q \<in> set listed"
  shows "tree_case q \<in> set (listed_cases session listed)
    \<and> (\<exists>detail shown. open_case load_stored session (ic_id (tree_case q)) = Some detail \<and> resolveOpenProtocol detail = Some ''http''
        \<and> string_of (opt_get detail ''id'') = hw_id q \<and> resolveCasePresentation detail = Some shown \<and> pr_parentId shown = p
        \<and> (\<forall>v. ws_title v = pr_title shown \<longrightarrow> ws_caseInterfaceName v = Some (pr_interfaceName shown) \<longrightarrow> case_name v = trim (ci_name input)))"
proof -
  obtain source where q: "q = case_request session (or_default caseId uuid) input source"
    using saved by (auto simp: save_case_def Let_def split: option.splits)
  note fields = case_request_fields [of session "or_default caseId uuid" input source, folded q]
  have id: "ic_id (tree_case q) = or_default caseId uuid" using fields(1) by (simp add: tree_case_def)
  have of: "map_of (hw_variables q) ''__apivoyCaseOf'' = Some p" using fields(3) parent by simp
  have listed: "tree_case q \<in> set (listed_cases session listed)"
    using stored(2) parent of fields(4) by (auto simp: listed_cases_def tree_case_def obj_get_def)
  obtain detail where detail: "open_case load_stored session (ic_id (tree_case q)) = Some detail"
    using stored(1) id by (auto simp: open_case_def)
  obtain ps ms where ps: "detail = JObj ps" "map_of ps ''protocolId'' = Some (JStr ''http'')" "map_of ps ''name'' = Some (opt_str JUndef (hw_name q))"
    "map_of ps ''variables'' = Some (JObj (map (\<lambda>(k, v). (k, JStr v)) (hw_variables q)))" "map_of ps ''id'' = Some (opt_str JUndef (hw_id q))"
    "map_of ps ''metadata'' = Some (JObj ms)" "map_of ms ''__apivoyCaseInterfaceName'' = Some (JStr (ws_title session))"
    using opened_case_reads [OF detail, of q] stored(1) id by auto
  have name: "map_of ps ''name'' = Some (JStr (ci_name input))" using ps(3) fields(2) by (simp add: opt_str_def)
  have var: "map_of (map (\<lambda>(k, v). (k, JStr v)) (hw_variables q)) ''__apivoyCaseOf'' = Some (JStr p)" using of by (simp add: map_of_map)
  let ?shown = "\<lparr> pr_title = trim (ws_title session) @ ''('' @ trim (ci_name input) @ '')'', pr_interfaceName = trim (ws_title session), pr_parentId = p \<rparr>"
  have shown: "resolveCasePresentation detail = Some ?shown"
    unfolding ps(1) by (rule presented [OF name ps(4) var ps(6,7) parent(2) names])
  have key: "string_of (opt_get detail ''id'') = hw_id q"
    using ps(1,5) fields(1) by (simp add: opt_get_def obj_get_def nullish_def string_of_def opt_str_def)
  have "\<forall>v. ws_title v = pr_title ?shown \<longrightarrow> ws_caseInterfaceName v = Some (pr_interfaceName ?shown) \<longrightarrow> case_name v = trim (ci_name input)"
    using case_name_of_title names(1) by simp
  then show ?thesis using listed detail protocol_of_case [OF ps(2)] ps(1) key shown
    by (intro conjI exI [of _ detail] exI [of _ ?shown]) simp_all
qed

definition sample_case_session :: WorkbenchSession where
  "sample_case_session = (simple_session ''s'' ''http'' ''T'')\<lparr> ws_requestId := Some ''p'' \<rparr>"

definition sample_case_input :: case_input where
  "sample_case_input = \<lparr> ci_name = ''n'', ci_group = ''positive'', ci_tags = [''t''], ci_request = None \<rparr>"

definition sample_saved_case :: HttpWorkbenchRequest where
  "sample_saved_case = case_request sample_case_session ''c'' sample_case_input (sample_case_request ''/a'')"

lemma saved_case_reopened_witness:
  "tree_case sample_saved_case \<in> set (listed_cases sample_case_session [tree_case sample_saved_case])
   \<and> (\<exists>detail shown. open_case (\<lambda>_. Some sample_saved_case) sample_case_session (ic_id (tree_case sample_saved_case)) = Some detail
        \<and> resolveCasePresentation detail = Some shown \<and> pr_parentId shown = ''p'')"
proof -
  have saved: "save_case (\<lambda>_. Some (sample_case_request ''/a'')) None None [] sample_case_session ''c'' None sample_case_input
      = Some (sample_saved_case, case_target None None None)"
    by (simp add: save_case_def sample_case_input_def sample_saved_case_def)
  have "trim ''T'' = ''T''" "trim ''n'' = ''n''" by code_simp+
  then show ?thesis
    using saved_case_reopened [OF _ _ _ _ saved, of "''p''" "\<lambda>_. Some sample_saved_case" "[tree_case sample_saved_case]"]
    by (auto simp: sample_case_session_def simple_session_def sample_case_input_def)
qed

section \<open>Surprises\<close>

text \<open>Splitting an absent label gives one empty piece, so that the default of the project is never used: without a label for the
  place to save, a new case goes to the project without a name, whatever project is selected.\<close>

lemma selected_project_unused: "fallback_target (Some selected) None = ([], [])"
  by (simp add: fallback_target_def)

text \<open>The copied cURL command leaves out the parts of a form.\<close>

lemma copied_curl_drops_form: "copyCurl (Some (r\<lparr> hw_multipart := parts \<rparr>)) = copyCurl (Some r)"
  by (simp add: copyCurl_def)

text \<open>A run checks the answer against the first designed response, whatever status the case is about.\<close>

lemma first_design_only:
  "truthy d \<Longrightarrow> hw_metadata request = Some (JObj [(''__apivoyResponseDefinitions'', JArr (d # ds))]) \<Longrightarrow> case_design request = Some d"
  by (simp add: case_design_def meta_get_def obj_get_def)

end
