(* ===== verification/Spec2Isabelle.thy ===== *)
theory Spec2Isabelle
  imports RequestModel ImportOpenApiLaws ImportExportLaws InterfaceStructureLaws ResponseValidationLaws
    Stores AppState WorkspaceTree AgentLaws MessagePackLaws HttpTextLaws HttpActionsLaws DesignPanelLaws JsonTreeLaws CurlRoundtrip
    WorkbenchDeckLaws DeckCasesLaws
begin

text \<open>
  ApiVoy: a verification of the TypeScript core of an API client

  ApiVoy is a client for HTTP and other protocols. Its user interface (\<^verbatim>\<open>packages/ui/src\<close>) runs in a browser or on the
  desktop; requests are executed by a local agent that the web client reaches over HTTP
  (\<^verbatim>\<open>apps/web/src/agentClient.ts\<close>); the request model (\<^verbatim>\<open>packages/request-model\<close>) is what they exchange; projects
  are imported and exported by \<^verbatim>\<open>packages/import-export\<close>. This development models the parts that decide something: the
  data, the reducers, the parsers and writers, the actions of the workbench, the protocol with the agent. Rendering and
  the native core are not modelled (see the end).

  Conventions. A definition has the name of the function it models; helpers that have no name in the code have one in lower case
  with underscores. Texts are lists of code units below 256 (JsString), values are JavaScript values with the property
  order of ECMAScript (JsValue), \<^verbatim>\<open>JSON.parse\<close> and \<^verbatim>\<open>JSON.stringify\<close> are JsonText, regular expressions are syntax trees
  with a backtracking matcher (JsRegex), query strings are FormUrl. What the platform or another package computes (the URL
  parser, random identifiers, the clock, the YAML reader, the network, digests, \<^verbatim>\<open>localeCompare\<close>, callbacks of the host) is
  an argument of the definitions that use it. Code that throws returns a sum, \<open>Inl\<close> the error; code that may not return
  or fails without a message returns an option. Operations on state take the state and return the next one.

  The theories, in the order of the program:

  Prelude, JsString, JsValue, JsonText, JsRegex, FormUrl: the language and its library. Laws: a value that was written as
  JSON is read back (\<open>JSON_parse_text\<close>), percent-encoding and form texts are read back.

  RequestModel (\<^verbatim>\<open>packages/request-model/src/index.ts\<close>): envelopes, execution events, the fold over response chunks.

  ImportBudget, ImportOpenApi, ImportExport (\<^verbatim>\<open>packages/import-export/src/index.ts\<close>): the resource budget with the locale
  \<open>limited_counter\<close>, interpreted by its three counters; references, pointers and the translation of OpenAPI; Postman, HAR,
  project packages, the scan for credentials, the export. Laws in ImportOpenApiLaws and ImportExportLaws: dereferencing
  leaves no reference and is the identity without references, exports are imported unchanged, no credential leaves without
  permission, no import exceeds its limits.

  HttpRequest, HttpRows, HttpText, HttpForm, HttpActions, HttpEditors (\<^verbatim>\<open>packages/ui/src/HttpWorkbench.tsx\<close>): the request
  of the workbench and its sanitising, the row editor as a step relation, texts and generated rules, the form as a record
  with one field per \<^verbatim>\<open>useState\<close>, and the actions (send, save, cases, history, authorization code, editors). Laws in
  HttpTextLaws, HttpFormLaws, HttpActionsLaws: an opened request is rebuilt unchanged, a run that was answered settles with its result, what the user stores is clean.

  PayloadCodec (\<^verbatim>\<open>TcpPayloadCodec.ts\<close> and the encoders of the workbench) with PayloadCodecLaws and MessagePackLaws.

  InterfaceStructure (\<^verbatim>\<open>interfaceStructure.ts\<close>, \<^verbatim>\<open>interfaceStructureV2.ts\<close>, \<^verbatim>\<open>caseStructureBridge.ts\<close>) with its laws;
  ResponseValidation (\<^verbatim>\<open>designedResponseValidator.ts\<close>) with the refinement of a declarative specification.

  ParentLinks: trees stored flat, every node naming its parent; shared by the two editors of interface designs below.

  DesignFields, DesignEditor, DesignText, DesignParse, DesignSources, DesignWriter (\<^verbatim>\<open>packages/ui/src/InterfaceLifecycle.tsx\<close>):
  the fields and responses of a definition, the actions of the visual editor and the step relation \<open>editor_step\<close>, the checks and
  the formatting of a source, the parsers of the four kinds of source, and the writer. Laws in DesignEditorLaws (the searches
  for descendants, the forest the steps keep, the rows of the table, the children a change of type leaves) and
  DesignWriterLaws (an OpenAPI definition is read back as it was written; RegexLaws holds what the expressions match).

  DesignSync and DesignDocument: the exchange of a design with the request being debugged, and the document that shows it; laws
  in DesignSyncLaws (a draft becomes a forest of fields, merging twice changes nothing, panel and editor list the same rows).
  DesignPanel: the panel that edits, loads and saves a definition, with the render whose values a handler reads kept apart from
  the present state; DesignPanelLaws: after visual edits the saved text reads back as what is on the screen, edits of a response apart.
  InterfaceCases: the tabs of an interface and the panel of test cases, calls of the host answered by later steps of
  \<open>case_step\<close>; InterfaceCasesLaws: the preview belongs to the expanded case in every order of answers.

  JsonTree (\<^verbatim>\<open>JsonTreeEditor.tsx\<close>): the rows and the edits of a JSON value; JsonTreeLaws: no edit throws, the rows are the nodes,
  a renamed property moves its subtree.

  CurlImport (\<^verbatim>\<open>curlImport.ts\<close> and the cURL templates of \<^verbatim>\<open>CodeGenerator.tsx\<close>): words of a shell command, options, the request and
  its warnings. CurlLaws: no credential that is a word of its own is imported. CurlRoundtrip, on RegexScan (a global expression that always consumes
  scans a text piece by piece): generated code is imported as the same request.

  WorkbenchDeck and DeckCases (\<^verbatim>\<open>WorkbenchDeck.tsx\<close>): the tabs as sessions, the address, the opening of requests and cases, and
  the deck as the host of test cases and their runs. WorkbenchDeckLaws: the relation \<open>deck_step\<close> over a deck and the handlers that
  wait for the host, with listeners that may have an older active tab; a request is in one tab at most while no handler goes on
  with tabs that have changed. DeckCasesLaws: a case shown as passed conforms to its design, a saved
  case is listed and opened.

  Preferences (\<^verbatim>\<open>userPreferences.ts\<close>, \<^verbatim>\<open>runtimeConfig.ts\<close>) with the locale \<open>stored_preference\<close>, interpreted by every
  preference; Stores (drafts, settings, components and scripts in local storage); AppState (\<^verbatim>\<open>appStore.ts\<close> as a transition
  system, the hand-over of opened requests, the registry, the virtual list); WorkspaceTree (\<^verbatim>\<open>workspaceTreeRows.ts\<close>).

  AgentClient, AgentExecution (\<^verbatim>\<open>apps/web/src/agentClient.ts\<close>): the operations as state transformers over the calls made so
  far. AgentLaws: the relation \<open>agent_step\<close>, the locale \<open>gated_operation\<close> interpreted by the operations that make the handshake, the session
  protocol, the event stream, the collection run.

  Bounds and fuel. \<open>flattenWorkspaceTree\<close>, \<open>appendBranch\<close> and \<open>renderSchemaField\<close> follow parent links, as the code does, and
  carry fuel: one more than the number of nodes is enough when the links have no cycle (ParentLinks). The MessagePack
  decoder uses the length of its input. The limits of the importer and of the validator are the code's constants. Every
  other recursion is proved to end.

  Stand-ins. Messages and names in the language of the user are written in English, the full-width parentheses of a case title as
  ASCII ones. The sort of the tabs of an interface is a parameter, because their comparison is no order.

  Limits of the model. Texts have 8-bit code units, so U+2028 and U+2029, which end a line for a regular expression, and the
  byte-order mark, which TextDecoder removes, do not occur. An assignment to \<^verbatim>\<open>__proto__\<close> is dropped: values have no
  prototype of their own. An event of an execution that has not its declared type ends the run of the model, where the code
  counts it and goes on. MessagePack has no negative zero. The calls of the host return an answer: that a host never answers is not
  modelled, except for the handlers of the deck that wait (\<open>waiting\<close>) and the panel of test cases, whose answers are later steps
  that may never come. The listeners of the deck are taken to be registered anew before the next event is handled.

  Where the code does less than one expects, the properties say so and a lemma shows it: the cancelling of an execution makes
  no handshake (\<open>cancel_calls\<close>), a case that is aligned when it is opened is stored uncleaned (\<open>aligned_case_not_cleaned\<close>), a
  case opened twice while its interface loads gets two tabs (\<open>case_opened_twice\<close>), the edits of a response write the text
  with the old responses (\<open>stale_responses_written\<close>), a structure with repeated keys differs from itself
  (\<open>captured_differs_from_itself\<close>), a password attached to its option shows in a warning (\<open>attached_password_in_warning\<close>).

  Not modelled. The rendering of every view and its event plumbing (focus, drag and drop, timers, Monaco); the client that
  stores definitions over HTTP; the launcher of projects; the code templates other than cURL; the forms of the other
  protocols, which wrap the same request model and payload codec; the panels over agent calls (team, capture, mock, gateway,
  comments); translations; the two application entries, which compose views. Code units above 255 lie outside the texts of
  the model. The operations of the web client run one after the other: two in flight at once are not modelled. The Rust crates are another language; the agent is a parameter of the web client's model.
\<close>

end
